(* ===== verification/Dms_Prelude.thy ===== *)
theory Dms_Prelude
  imports Main "HOL-Library.Word" "HOL-Library.Char_ord" "HOL-Library.List_Lexorder"
begin

text \<open>
  Shared vocabulary of the development.

  \<^item> Machine integers: \<open>byte\<close>, \<open>u16\<close>, \<open>u32\<close>, \<open>u64\<close> are words; \<^verbatim>\<open>int32_t\<close> return codes are
    \<open>int\<close> (the code only stores named constants in them and compares them).
  \<^item> \<open>ub\<close>: the result of code that reads memory through a raw pointer; \<open>OutOfBounds\<close> is a
    read outside the object the pointer points into (undefined behaviour in C++).
  \<^item> The host byte order of the integers that \<^verbatim>\<open>memcpy_s\<close> moves in and out of packets is
    little endian, as on every device the framework is built for (arm, arm64, x86_64).
  \<^item> \<^verbatim>\<open>memcpy_s\<close> is the bounds-checked copy of C11 Annex K (K.3.7.1.1): a null pointer, a
    destination size above \<^verbatim>\<open>RSIZE_MAX\<close> or a count above the destination size is a
    constraint violation and gives a non-zero result.
  \<^item> \<open>smap\<close>: \<^verbatim>\<open>std::map\<close> as a list of pairs sorted by key, because the code iterates over its
    maps and takes the first match in key order.
\<close>

unbundle bit_operations_syntax

named_theorems dms_defs \<open>definitions unfolded by the component proofs\<close>
named_theorems wire_simps \<open>rewriting rules of the byte-level encodings\<close>

type_synonym byte = "8 word"
type_synonym u16 = "16 word"
type_synonym u32 = "32 word"
type_synonym u64 = "64 word"
type_synonym ret = int

subsection \<open>Results of code that reads through raw pointers\<close>

datatype 'a ub = OutOfBounds | Done 'a

fun ub_bind :: "'a ub \<Rightarrow> ('a \<Rightarrow> 'b ub) \<Rightarrow> 'b ub" where
  "ub_bind OutOfBounds f = OutOfBounds"
| "ub_bind (Done x) f = f x"

lemma ub_bind_Done_iff: "ub_bind m f = Done y \<longleftrightarrow> (\<exists>x. m = Done x \<and> f x = Done y)"
  by (cases m) auto

definition peek :: "byte list \<Rightarrow> nat \<Rightarrow> nat \<Rightarrow> byte list ub" where
  "peek mem pos n = (if pos + n \<le> length mem then Done (take n (drop pos mem)) else OutOfBounds)"

lemma peek_Done [simp]: "pos + n \<le> length mem \<Longrightarrow> peek mem pos n = Done (take n (drop pos mem))"
  by (simp add: peek_def)

lemma peek_eq_Done_iff: "peek mem pos n = Done bs \<longleftrightarrow> pos + n \<le> length mem \<and> bs = take n (drop pos mem)"
  by (auto simp: peek_def)

lemma peek_OutOfBounds_iff: "peek mem pos n = OutOfBounds \<longleftrightarrow> length mem < pos + n"
  by (auto simp: peek_def)

text \<open>Writing a run of bytes over a memory block.\<close>

definition poke :: "byte list \<Rightarrow> nat \<Rightarrow> byte list \<Rightarrow> byte list" where
  "poke mem pos bs = take pos mem @ bs @ drop (pos + length bs) mem"

lemma length_poke [simp]: "pos + length bs \<le> length mem \<Longrightarrow> length (poke mem pos bs) = length mem"
  by (simp add: poke_def)

lemma poke_prefix [wire_simps]:
  "length bs \<le> length rest \<Longrightarrow> poke (pre @ rest) (length pre) bs = (pre @ bs) @ drop (length bs) rest"
  by (simp add: poke_def)

lemma poke_nil_prefix: "length bs \<le> length rest \<Longrightarrow> poke rest 0 bs = bs @ drop (length bs) rest"
  by (simp add: poke_def)

lemma poke_middle:
  "pos + length bs \<le> length x \<Longrightarrow> poke (a @ x @ c) (length a + pos) bs = a @ poke x pos bs @ c"
  by (simp add: poke_def)

lemma take_drop_poke:
  assumes "pos + length bs \<le> n" "off + n \<le> length mem"
  shows "take n (drop off (poke mem (off + pos) bs)) = poke (take n (drop off mem)) pos bs"
proof -
  let ?a = "take off mem" and ?x = "take n (drop off mem)" and ?c = "drop (off + n) mem"
  have "mem = ?a @ ?x @ ?c"
    by (metis append_take_drop_id drop_drop add.commute)
  moreover have "length ?a = off" "length ?x = n"
    using assms by simp_all
  ultimately have "poke mem (off + pos) bs = ?a @ poke ?x pos bs @ ?c"
    using poke_middle [of pos bs ?x ?a ?c] assms by simp
  then show ?thesis
    using assms by simp
qed

subsection \<open>The bounds-checked copy\<close>

definition RSIZE_MAX :: nat where
  "RSIZE_MAX = 0x7fffffff"

abbreviation ERR_OK :: ret where "ERR_OK \<equiv> 0"

definition EINVAL :: ret where "EINVAL = 22"
definition ERANGE :: ret where "ERANGE = 34"

text \<open>
  \<open>memcpy_s dstNull destMax srcNull count\<close> is the return code of
  \<^verbatim>\<open>memcpy_s(dst, destMax, src, count)\<close>; the callers below write the copied bytes with
  \<open>poke\<close> exactly when it is \<open>ERR_OK\<close>.
\<close>

definition memcpy_s :: "bool \<Rightarrow> nat \<Rightarrow> bool \<Rightarrow> nat \<Rightarrow> ret" where
  "memcpy_s dstNull destMax srcNull count =
     (if dstNull \<or> srcNull then EINVAL
      else if destMax > RSIZE_MAX \<or> count > destMax then ERANGE
      else ERR_OK)"

lemma memcpy_s_ok_iff:
  "memcpy_s dn dm sn c = ERR_OK \<longleftrightarrow> \<not> dn \<and> \<not> sn \<and> dm \<le> RSIZE_MAX \<and> c \<le> dm"
  by (auto simp: memcpy_s_def EINVAL_def ERANGE_def)

text \<open>
  \<open>memcpy_to mem pos destMax src\<close>: the copy of the bytes \<open>src\<close> to \<open>mem + pos\<close>, both pointers
  non-null. On a count above the destination size the destination is zeroed.
\<close>

definition memcpy_to :: "byte list \<Rightarrow> nat \<Rightarrow> nat \<Rightarrow> byte list \<Rightarrow> byte list \<times> ret" where
  "memcpy_to mem pos destMax src =
     (if destMax > RSIZE_MAX then (mem, ERANGE)
      else if length src > destMax then (poke mem pos (replicate destMax 0), ERANGE)
      else (poke mem pos src, ERR_OK))"

lemma memcpy_to_ok [wire_simps]:
  "length src \<le> destMax \<Longrightarrow> destMax \<le> RSIZE_MAX \<Longrightarrow> memcpy_to mem pos destMax src = (poke mem pos src, ERR_OK)"
  by (simp add: memcpy_to_def)

text \<open>Subtraction of \<^verbatim>\<open>size_t\<close> values.\<close>

definition size_sub :: "nat \<Rightarrow> nat \<Rightarrow> nat" where
  "size_sub a b = nat ((int a - int b) mod 2 ^ 64)"

lemma size_sub_le: "b \<le> a \<Longrightarrow> a < 2 ^ 64 \<Longrightarrow> size_sub a b = a - b"
  by (simp add: size_sub_def flip: of_nat_diff)

subsection \<open>Little-endian integers\<close>

definition le_bytes :: "nat \<Rightarrow> 'a::len word \<Rightarrow> byte list" where
  "le_bytes n v = map (\<lambda>i. ucast (drop_bit (8 * i) v)) [0..<n]"

fun le_word :: "byte list \<Rightarrow> 'a::len word" where
  "le_word [] = 0"
| "le_word (b # bs) = ucast b OR push_bit 8 (le_word bs)"

lemma length_le_bytes [simp]: "length (le_bytes n v) = n"
  by (simp add: le_bytes_def)

lemma upt_one: "[0..<1] = [0 :: nat]"
  by (simp add: upt_rec)

lemma upt_two: "[0..<2] = [0 :: nat, 1]"
  by (simp add: upt_rec)

lemma upt_four: "[0..<4] = [0 :: nat, 1, 2, 3]"
  by (simp add: upt_rec)

lemma le_word_le_bytes_8 [wire_simps]: "(le_word (le_bytes (Suc 0) (v :: byte)) :: byte) = v"
  by (simp add: le_bytes_def)

lemma le_word_le_bytes_16 [wire_simps]: "(le_word (le_bytes 2 (v :: u16)) :: u16) = v"
  by (rule bit_word_eqI) (auto simp: le_bytes_def upt_two bit_simps)

lemma le_word_le_bytes_32 [wire_simps]: "(le_word (le_bytes 4 (v :: u32)) :: u32) = v"
proof (rule bit_word_eqI)
  fix n :: nat
  assume "n < LENGTH(32)"
  then consider "n < 8" | "8 \<le> n" "n < 16" | "16 \<le> n" "n < 24" | "24 \<le> n" "n < 32"
    by force
  then show "bit (le_word (le_bytes 4 v) :: u32) n \<longleftrightarrow> bit v n"
    by cases (auto simp: le_bytes_def upt_four bit_simps)
qed

text \<open>A \<^verbatim>\<open>uint32_t\<close> holding a narrower field gives up the field's own bytes first.\<close>

lemma le_bytes_ucast_16 [wire_simps]: "le_bytes 2 (ucast (v :: u16) :: u32) = le_bytes 2 v"
proof -
  have "(ucast (drop_bit (8 * i) (ucast v :: u32)) :: byte) = ucast (drop_bit (8 * i) v)" if "i < 2" for i
    by (rule bit_word_eqI) (use that in \<open>auto simp: bit_simps\<close>)
  then show ?thesis by (simp add: le_bytes_def)
qed

lemma le_bytes_ucast_8 [wire_simps]: "le_bytes (Suc 0) (ucast (v :: byte) :: u32) = le_bytes (Suc 0) v"
  by (simp add: le_bytes_def) (rule bit_word_eqI, auto simp: bit_simps)

text \<open>
  Copying \<open>bs\<close> over the storage of an integer of \<open>n\<close> bytes: the bytes that are not
  overwritten keep their value.
\<close>

definition le_overwrite :: "nat \<Rightarrow> 'a::len word \<Rightarrow> byte list \<Rightarrow> 'a word" where
  "le_overwrite n old bs = le_word (bs @ drop (length bs) (le_bytes n old))"

lemma le_overwrite_full [wire_simps]: "length bs = n \<Longrightarrow> le_overwrite n old bs = le_word bs"
  by (simp add: le_overwrite_def)

text \<open>Two-byte big-endian integers, as \<^verbatim>\<open>(p[0] << 8) | p[1]\<close> reads them.\<close>

definition be16 :: "byte list \<Rightarrow> u16" where
  "be16 bs = push_bit 8 (ucast (bs ! 0)) OR ucast (bs ! 1)"

definition be16_bytes :: "u16 \<Rightarrow> byte list" where
  "be16_bytes v = [ucast (drop_bit 8 v), ucast (v AND 0x00ff)]"

lemma length_be16_bytes [simp]: "length (be16_bytes v) = 2"
  by (simp add: be16_bytes_def)

lemma bit_low_byte_mask: "bit (255 :: int) n \<longleftrightarrow> n < 8"
proof -
  have "(255 :: int) = mask 8"
    by (simp add: mask_eq_exp_minus_1)
  then show ?thesis
    by (simp only: bit_mask_iff) auto
qed

lemma be16_be16_bytes [wire_simps]: "be16 (be16_bytes v) = v"
proof (rule bit_word_eqI)
  fix n :: nat
  assume "n < LENGTH(16)"
  then show "bit (be16 (be16_bytes v)) n \<longleftrightarrow> bit v n"
    by (auto simp: be16_def be16_bytes_def bit_simps bit_low_byte_mask)
qed

lemma find_mem: "find P xs = Some x \<Longrightarrow> x \<in> set xs \<and> P x"
  by (auto simp: find_Some_iff)

subsection \<open>Integers as texts\<close>

fun nat_text :: "nat \<Rightarrow> string" where
  "nat_text n = (if n < 10 then [char_of (48 + n)] else nat_text (n div 10) @ [char_of (48 + n mod 10)])"

declare nat_text.simps [simp del]

text \<open>\<^verbatim>\<open>std::to_string\<close> of a signed integer.\<close>

definition to_string :: "int \<Rightarrow> string" where
  "to_string i = (if i < 0 then CHR ''-'' # nat_text (nat (- i)) else nat_text (nat i))"

end
