(* ===== verification/Frame_Codec.thy ===== *)
theory Frame_Codec
  imports Dms_Prelude
begin

text \<open>
  Both transports put the same kind of header before a payload: a fixed number of
  type-length-value items, the type and the length in big-endian order, the value as the host
  stores it. This theory has the item and its bytes, and two interfaces:
  \<^item> \<open>tlv_reader\<close>: a loop that reads items from a fixed-size header area. The loops of
    \<^verbatim>\<open>SessionDataHeader::Deserialize\<close> and \<^verbatim>\<open>DSchedSoftbusSession::GetFragDataHeader\<close> provide it;
    the client lemma says what such a loop makes of a sequence of well-formed items.
  \<^item> \<open>frame_codec\<close>: a header encoder and decoder of fixed length; the client lemmas are about
    frames, a header followed by a payload.
\<close>

text \<open>The fragment flags and the item types that both headers use; the parsers can store any byte in
  the flag.\<close>

abbreviation FRAG_NULL :: byte where "FRAG_NULL \<equiv> 0"
abbreviation FRAG_START :: byte where "FRAG_START \<equiv> 1"
abbreviation FRAG_MID :: byte where "FRAG_MID \<equiv> 2"
abbreviation FRAG_END :: byte where "FRAG_END \<equiv> 3"
abbreviation FRAG_START_END :: byte where "FRAG_START_END \<equiv> 4"

abbreviation TLV_TYPE_VERSION :: u16 where "TLV_TYPE_VERSION \<equiv> 1001"
abbreviation TLV_TYPE_FRAG_FLAG :: u16 where "TLV_TYPE_FRAG_FLAG \<equiv> 1002"
abbreviation TLV_TYPE_DATA_TYPE :: u16 where "TLV_TYPE_DATA_TYPE \<equiv> 1003"
abbreviation TLV_TYPE_SEQ_NUM :: u16 where "TLV_TYPE_SEQ_NUM \<equiv> 1004"
abbreviation TLV_TYPE_TOTAL_LEN :: u16 where "TLV_TYPE_TOTAL_LEN \<equiv> 1005"
abbreviation TLV_TYPE_SUB_SEQ :: u16 where "TLV_TYPE_SUB_SEQ \<equiv> 1006"
record tlv_item =
  tlvType :: u16
  tlvLen :: u16
  tlvValue :: u32

definition tlv_bytes :: "tlv_item \<Rightarrow> byte list" where
  "tlv_bytes it = be16_bytes (tlvType it) @ be16_bytes (tlvLen it) @ le_bytes (unat (tlvLen it)) (tlvValue it)"

definition tlv_size :: "tlv_item \<Rightarrow> nat" where
  "tlv_size it = 4 + unat (tlvLen it)"

lemma length_tlv_bytes [simp]: "length (tlv_bytes it) = tlv_size it"
  by (simp add: tlv_bytes_def tlv_size_def)

lemma tlv_fields:
  assumes "mem = pre @ tlv_bytes it @ post"
  shows "take 2 (drop (length pre) mem) = be16_bytes (tlvType it)"
    and "take 2 (drop (length pre + 2) mem) = be16_bytes (tlvLen it)"
    and "take (unat (tlvLen it)) (drop (length pre + 4) mem) = le_bytes (unat (tlvLen it)) (tlvValue it)"
  by (simp_all add: assms tlv_bytes_def)

text \<open>Applying a list of items to a header, stopping at the first one that is refused.\<close>

fun apply_items :: "(tlv_item \<Rightarrow> 'h \<Rightarrow> 'h option) \<Rightarrow> tlv_item list \<Rightarrow> 'h \<Rightarrow> 'h option" where
  "apply_items app [] h = Some h"
| "apply_items app (it # its) h = Option.bind (app it h) (apply_items app its)"

lemma apply_items_Cons_Some:
  "apply_items app (it # its) h = Some h' \<longleftrightarrow> (\<exists>h1. app it h = Some h1 \<and> apply_items app its h1 = Some h')"
  by (cases "app it h") auto

locale tlv_reader =
  fixes loop :: "byte list \<Rightarrow> nat \<Rightarrow> 'h \<Rightarrow> 'h option ub"
    and app :: "tlv_item \<Rightarrow> 'h \<Rightarrow> 'h option"
    and hlen :: nat
  assumes loop_step: "\<And>pre it post h h'. length pre + tlv_size it \<le> hlen \<Longrightarrow>
      hlen \<le> length (pre @ tlv_bytes it @ post) \<Longrightarrow> 0 < unat (tlvLen it) \<Longrightarrow> app it h = Some h' \<Longrightarrow>
      loop (pre @ tlv_bytes it @ post) (length pre) h =
      loop (pre @ tlv_bytes it @ post) (length pre + tlv_size it) h'"
    and loop_stop: "\<And>mem h. loop mem hlen h = Done (Some h)"
begin

lemma loop_items:
  assumes "apply_items app its h = Some h'"
    and "\<forall>it \<in> set its. 0 < unat (tlvLen it)"
    and "length pre + (\<Sum>it\<leftarrow>its. tlv_size it) = hlen"
  shows "loop (pre @ concat (map tlv_bytes its) @ post) (length pre) h = Done (Some h')"
  using assms
proof (induction its arbitrary: pre h)
  case Nil
  then show ?case by (simp add: loop_stop)
next
  case (Cons it its)
  from Cons.prems(1) [unfolded apply_items_Cons_Some] obtain h1
    where h1: "app it h = Some h1" "apply_items app its h1 = Some h'"
    by blast
  let ?rest = "concat (map tlv_bytes its) @ post"
  have len: "length (concat (map tlv_bytes its)) = (\<Sum>it\<leftarrow>its. tlv_size it)"
    by (induction its) auto
  have "loop (pre @ tlv_bytes it @ ?rest) (length pre) h =
        loop (pre @ tlv_bytes it @ ?rest) (length pre + tlv_size it) h1"
    using Cons.prems h1(1) len by (intro loop_step) auto
  also have "\<dots> = loop ((pre @ tlv_bytes it) @ concat (map tlv_bytes its) @ post) (length (pre @ tlv_bytes it)) h1"
    by simp
  also have "\<dots> = Done (Some h')"
    using Cons.prems h1(2) by (intro Cons.IH) auto
  finally show ?case by simp
qed

end

locale frame_codec =
  fixes enc :: "'h \<Rightarrow> byte list"
    and dec :: "byte list \<Rightarrow> 'h option"
    and hlen :: nat
    and ok :: "'h \<Rightarrow> bool"
  assumes enc_length: "length (enc h) = hlen"
    and dec_enc: "ok h \<Longrightarrow> dec (enc h @ payload) = Some h"
begin

lemma payload_of_frame: "drop hlen (enc h @ payload) = payload"
  by (simp add: enc_length)

lemma header_of_frame: "take hlen (enc h @ payload) = enc h"
  by (simp add: enc_length)

lemma frame_inj:
  assumes "ok h" "ok h'" "enc h @ p = enc h' @ p'"
  shows "h = h' \<and> p = p'"
proof -
  have "Some h = Some h'"
    using assms dec_enc by metis
  moreover have "p = p'"
    using assms(3) by (metis payload_of_frame)
  ultimately show ?thesis by simp
qed

lemma enc_inj: "ok h \<Longrightarrow> ok h' \<Longrightarrow> enc h = enc h' \<Longrightarrow> h = h'"
  using frame_inj [of h h' "[]" "[]"] by simp

end

end
