(* ===== verification/Data_Buffer.thy ===== *)
theory Data_Buffer
  imports Dms_Prelude
begin

text \<open>
  The byte buffers of the two transports: \<^verbatim>\<open>DSchedDataBuffer\<close>
  (\<^verbatim>\<open>services/dtbschedmgr/src/softbus_adapter/transport/dsched_data_buffer.cpp\<close>) and
  \<^verbatim>\<open>AVTransDataBuffer\<close> (\<^verbatim>\<open>services/dtbcollabmgr/src/channel_manager/av_trans_data_buffer.cpp\<close>).
  The two classes have the same members and the same constructor and \<^verbatim>\<open>SetRange\<close>. A buffer that
  could not be allocated (capacity 0 or at least 80 MiB) has no data and size 0.
\<close>

record data_buffer =
  capacity :: nat
  rangeOffset :: nat
  rangeLength :: nat
  dataPtr :: "byte list option"

definition DSCHED_MAX_BUFFER_SIZE :: nat where
  "DSCHED_MAX_BUFFER_SIZE = 80 * 1024 * 1024"

definition DSchedDataBuffer :: "nat \<Rightarrow> data_buffer" where
  "DSchedDataBuffer cap =
     (if cap \<noteq> 0 \<and> cap < DSCHED_MAX_BUFFER_SIZE
      then \<lparr>capacity = cap, rangeOffset = 0, rangeLength = cap, dataPtr = Some (replicate cap 0)\<rparr>
      else \<lparr>capacity = 0, rangeOffset = 0, rangeLength = 0, dataPtr = None\<rparr>)"

definition AVTransDataBuffer :: "nat \<Rightarrow> data_buffer" where
  "AVTransDataBuffer cap =
     (if cap \<noteq> 0 \<and> cap < DSCHED_MAX_BUFFER_SIZE
      then \<lparr>capacity = cap, rangeOffset = 0, rangeLength = cap, dataPtr = Some (replicate cap 0)\<rparr>
      else \<lparr>capacity = 0, rangeOffset = 0, rangeLength = 0, dataPtr = None\<rparr>)"

definition Size :: "data_buffer \<Rightarrow> nat" where
  "Size b = rangeLength b"

definition Offset :: "data_buffer \<Rightarrow> nat" where
  "Offset b = rangeOffset b"

definition Capacity :: "data_buffer \<Rightarrow> nat" where
  "Capacity b = capacity b"

text \<open>\<^verbatim>\<open>Data()\<close>: the memory from the start of the range on; \<open>None\<close> is the null pointer.\<close>

definition Data :: "data_buffer \<Rightarrow> byte list option" where
  "Data b = map_option (drop (rangeOffset b)) (dataPtr b)"

text \<open>\<^verbatim>\<open>SetRange\<close> adds two \<^verbatim>\<open>size_t\<close> values; the sum wraps at 64 bits.\<close>

definition SetRange :: "nat \<Rightarrow> nat \<Rightarrow> data_buffer \<Rightarrow> data_buffer \<times> ret" where
  "SetRange off sz b =
     (if \<not> off \<le> capacity b \<or> \<not> (off + sz) mod 2 ^ 64 \<le> capacity b then (b, -1)
      else (b\<lparr>rangeOffset := off, rangeLength := sz\<rparr>, ERR_OK))"

text \<open>Storing bytes through the data pointer, at \<open>pos\<close> from the start of the range.\<close>

definition buf_write :: "data_buffer \<Rightarrow> nat \<Rightarrow> byte list \<Rightarrow> data_buffer" where
  "buf_write b pos bs = b\<lparr>dataPtr := map_option (\<lambda>m. poke m (rangeOffset b + pos) bs) (dataPtr b)\<rparr>"

text \<open>The bytes of the range, which is what a reader of the buffer sees.\<close>

definition buf_bytes :: "data_buffer \<Rightarrow> byte list" where
  "buf_bytes b = (case dataPtr b of None \<Rightarrow> [] | Some m \<Rightarrow> take (rangeLength b) (drop (rangeOffset b) m))"

definition buffer_wf :: "data_buffer \<Rightarrow> bool" where
  "buffer_wf b =
     (case dataPtr b of
        None \<Rightarrow> capacity b = 0 \<and> rangeOffset b = 0 \<and> rangeLength b = 0
      | Some m \<Rightarrow> length m = capacity b \<and> 0 < capacity b \<and> capacity b < DSCHED_MAX_BUFFER_SIZE \<and>
          rangeOffset b + rangeLength b \<le> capacity b)"

text \<open>A buffer whose range is its whole memory: what \<^verbatim>\<open>Capacity()\<close> bytes from \<^verbatim>\<open>Data()\<close> on are.\<close>

definition buffer_full :: "data_buffer \<Rightarrow> bool" where
  "buffer_full b \<longleftrightarrow> buffer_wf b \<and> rangeOffset b = 0 \<and> rangeLength b = capacity b"

lemmas buffer_defs [dms_defs] = Size_def Offset_def Capacity_def Data_def

lemma AVTransDataBuffer_eq: "AVTransDataBuffer cap = DSchedDataBuffer cap"
  by (simp add: AVTransDataBuffer_def DSchedDataBuffer_def)

lemma DSchedDataBuffer_wf [simp]: "buffer_wf (DSchedDataBuffer cap)"
  by (simp add: DSchedDataBuffer_def buffer_wf_def)

lemma DSchedDataBuffer_ok:
  "0 < cap \<Longrightarrow> cap < DSCHED_MAX_BUFFER_SIZE \<Longrightarrow> DSchedDataBuffer cap =
     \<lparr>capacity = cap, rangeOffset = 0, rangeLength = cap, dataPtr = Some (replicate cap 0)\<rparr>"
  by (simp add: DSchedDataBuffer_def)

lemma DSchedDataBuffer_null:
  "cap = 0 \<or> DSCHED_MAX_BUFFER_SIZE \<le> cap \<Longrightarrow> DSchedDataBuffer cap =
     \<lparr>capacity = 0, rangeOffset = 0, rangeLength = 0, dataPtr = None\<rparr>"
  by (auto simp: DSchedDataBuffer_def)

lemma length_buf_bytes: "buffer_wf b \<Longrightarrow> length (buf_bytes b) = Size b"
  by (auto simp: buffer_wf_def buf_bytes_def Size_def split: option.splits)

lemma Size_le_Capacity: "buffer_wf b \<Longrightarrow> Size b \<le> Capacity b"
  by (auto simp: buffer_wf_def Size_def Capacity_def split: option.splits)

lemma buffer_Size_less: "buffer_wf b \<Longrightarrow> Size b < DSCHED_MAX_BUFFER_SIZE"
  by (auto simp: buffer_wf_def Size_def DSCHED_MAX_BUFFER_SIZE_def split: option.splits)

lemma buf_write_wf:
  "buffer_wf b \<Longrightarrow> pos + length bs \<le> Size b \<Longrightarrow> buffer_wf (buf_write b pos bs)"
  by (auto simp: buffer_wf_def buf_write_def Size_def split: option.splits)

lemma buf_write_simps [simp]:
  "Size (buf_write b pos bs) = Size b" "rangeOffset (buf_write b pos bs) = rangeOffset b"
  "rangeLength (buf_write b pos bs) = rangeLength b" "capacity (buf_write b pos bs) = capacity b"
  by (simp_all add: buf_write_def Size_def)

lemma buf_bytes_write:
  assumes "buffer_wf b" "pos + length bs \<le> Size b"
  shows "buf_bytes (buf_write b pos bs) = poke (buf_bytes b) pos bs"
  using assms
  by (auto simp: buffer_wf_def buf_write_def buf_bytes_def Size_def take_drop_poke split: option.splits)
     (simp add: poke_def)

lemma buffer_full_new [simp]: "rangeOffset (DSchedDataBuffer cap) = 0" "rangeLength (DSchedDataBuffer cap) = capacity (DSchedDataBuffer cap)"
  by (simp_all add: DSchedDataBuffer_def)

lemma SetRange_wf:
  "buffer_wf b \<Longrightarrow> off + sz < 2 ^ 64 \<Longrightarrow> buffer_wf (fst (SetRange off sz b))"
  by (auto simp: buffer_wf_def SetRange_def split: option.splits)

lemma buffer_Data:
  assumes "buffer_wf b" "0 < Size b"
  shows "\<exists>m. Data b = Some m \<and> Size b \<le> length m \<and> buf_bytes b = take (Size b) m"
  using assms by (auto simp: buffer_wf_def Size_def Data_def buf_bytes_def split: option.splits)

text \<open>A buffer that holds exactly the bytes received from the network.\<close>

definition packet_buffer :: "byte list \<Rightarrow> data_buffer" where
  "packet_buffer bs = buf_write (DSchedDataBuffer (length bs)) 0 bs"

lemma packet_buffer_eq:
  "0 < length bs \<Longrightarrow> length bs < DSCHED_MAX_BUFFER_SIZE \<Longrightarrow>
   packet_buffer bs = \<lparr>capacity = length bs, rangeOffset = 0, rangeLength = length bs, dataPtr = Some bs\<rparr>"
  by (simp add: packet_buffer_def DSchedDataBuffer_ok buf_write_def poke_def)

lemma packet_buffer_simps:
  assumes "0 < length bs" "length bs < DSCHED_MAX_BUFFER_SIZE"
  shows "Size (packet_buffer bs) = length bs" "Data (packet_buffer bs) = Some bs"
    "buffer_wf (packet_buffer bs)" "buf_bytes (packet_buffer bs) = bs"
  using assms by (simp_all add: packet_buffer_eq buffer_defs buffer_wf_def buf_bytes_def)

lemma packet_buffer_wf [simp]: "buffer_wf (packet_buffer bs)"
proof (cases "0 < length bs \<and> length bs < DSCHED_MAX_BUFFER_SIZE")
  case True
  then show ?thesis
    using packet_buffer_simps by blast
next
  case False
  then show ?thesis
    using DSchedDataBuffer_null [of "length bs"]
    by (auto simp: packet_buffer_def buf_write_def buffer_wf_def not_less)
qed

end
