(* ===== verification/Session_Header.thy ===== *)
theory Session_Header
  imports Frame_Codec Data_Buffer
begin

text \<open>
  The session header of the collaboration channels, \<^verbatim>\<open>SessionDataHeader\<close>
  (\<^verbatim>\<open>services/dtbcollabmgr/src/channel_manager/session_data_header.cpp\<close> and its header file):
  eight items in 57 bytes. \<open>Serialize\<close> writes into a zeroed buffer at a moving pointer,
  \<open>Deserialize\<close> reads back with every pointer read checked against the memory it is given.
  Fields that the default constructor leaves uninitialised are the parameter \<open>junk\<close>.
\<close>

datatype chan_ret =
    CHAN_OK
  | WRITE_TLV_ITEM_TO_BUFFER_FAILED
  | READ_TLV_ITEM_FROM_BUFFER_FAILED
  | GET_SESSION_OPTION_FAILED
  | WRITE_SESSION_HEADER_FAILED
  | WRITE_SEND_DATA_BUFFER_FAILED
  | SEND_DATA_BY_SOFTBUS_FAILED
  | DATA_SIZE_EXCEED_LIMIT
  | INVALID_SESSION_HEADER_FLAG_TYPE
  | INVALID_SESSION_HEADER_TOTAL_LEN
  | INVALID_SESSION_HEADER_SEQ_NUM
  | INVALID_SESSION_HEADER_SUB_SEQ
  | WRITE_PAYLOAD_TO_BUFFER_FAILED
  | FLAG_TYPE_NOT_MATCH_BUFFER_STATE

abbreviation TLV_TYPE_PAYLOAD_LEN :: u16 where "TLV_TYPE_PAYLOAD_LEN \<equiv> 1007"
abbreviation TLV_TYPE_PACKET_LEN :: u16 where "TLV_TYPE_PACKET_LEN \<equiv> 1008"

record session_header =
  hVersion :: u16
  hFragFlag :: byte
  hDataType :: u32
  hSeqNum :: u32
  hTotalLen :: u32
  hPacketLen :: u32
  hPayloadLen :: u32
  hSubSeq :: u16

definition PROTOCOL_VERSION :: u16 where "PROTOCOL_VERSION = 1"
definition HEADER_LEN :: nat where "HEADER_LEN = 2 * 2 * 8 + 2 * 2 + 4 * 5 + 1 * 1"
definition BINARY_DATA_MAX_TOTAL_LEN :: u32 where "BINARY_DATA_MAX_TOTAL_LEN = 100 * 1024 * 1024"
definition BINARY_PAYLOAD_MAX_LEN :: u32 where "BINARY_PAYLOAD_MAX_LEN = 4 * 1024 * 1024"

lemma HEADER_LEN_57: "HEADER_LEN = 57"
  by (simp add: HEADER_LEN_def)

subsection \<open>Serialize\<close>

definition WriteTlvItemToBuffer :: "tlv_item \<Rightarrow> byte list \<Rightarrow> nat \<Rightarrow> nat \<Rightarrow> byte list \<times> chan_ret" where
  "WriteTlvItemToBuffer item mem pos bufLen =
     (let mem1 = poke mem pos (be16_bytes (tlvType item) @ be16_bytes (tlvLen item));
          (mem2, r) = memcpy_to mem1 (pos + 4) (size_sub bufLen 4)
             (le_bytes (unat (tlvLen item)) (tlvValue item))
      in if r \<noteq> ERR_OK then (mem2, WRITE_TLV_ITEM_TO_BUFFER_FAILED) else (mem2, CHAN_OK))"

definition WriteVersion :: "session_header \<Rightarrow> byte list \<Rightarrow> nat \<Rightarrow> nat \<Rightarrow> byte list \<times> nat" where
  "WriteVersion h mem pos bufLen =
     (fst (WriteTlvItemToBuffer \<lparr>tlvType = TLV_TYPE_VERSION, tlvLen = 2, tlvValue = ucast (hVersion h)\<rparr>
        mem pos bufLen), 2 + 2 + 2)"

definition WriteFragFlag :: "session_header \<Rightarrow> byte list \<Rightarrow> nat \<Rightarrow> nat \<Rightarrow> byte list \<times> nat" where
  "WriteFragFlag h mem pos bufLen =
     (fst (WriteTlvItemToBuffer \<lparr>tlvType = TLV_TYPE_FRAG_FLAG, tlvLen = 1, tlvValue = ucast (hFragFlag h)\<rparr>
        mem pos bufLen), 2 + 2 + 1)"

definition WriteDataType :: "session_header \<Rightarrow> byte list \<Rightarrow> nat \<Rightarrow> nat \<Rightarrow> byte list \<times> nat" where
  "WriteDataType h mem pos bufLen =
     (fst (WriteTlvItemToBuffer \<lparr>tlvType = TLV_TYPE_DATA_TYPE, tlvLen = 4, tlvValue = hDataType h\<rparr>
        mem pos bufLen), 2 + 2 + 4)"

definition WriteSeqNum :: "session_header \<Rightarrow> byte list \<Rightarrow> nat \<Rightarrow> nat \<Rightarrow> byte list \<times> nat" where
  "WriteSeqNum h mem pos bufLen =
     (fst (WriteTlvItemToBuffer \<lparr>tlvType = TLV_TYPE_SEQ_NUM, tlvLen = 4, tlvValue = hSeqNum h\<rparr>
        mem pos bufLen), 2 + 2 + 4)"

definition WriteTotalLen :: "session_header \<Rightarrow> byte list \<Rightarrow> nat \<Rightarrow> nat \<Rightarrow> byte list \<times> nat" where
  "WriteTotalLen h mem pos bufLen =
     (fst (WriteTlvItemToBuffer \<lparr>tlvType = TLV_TYPE_TOTAL_LEN, tlvLen = 4, tlvValue = hTotalLen h\<rparr>
        mem pos bufLen), 2 + 2 + 4)"

definition WriteSubSeq :: "session_header \<Rightarrow> byte list \<Rightarrow> nat \<Rightarrow> nat \<Rightarrow> byte list \<times> nat" where
  "WriteSubSeq h mem pos bufLen =
     (fst (WriteTlvItemToBuffer \<lparr>tlvType = TLV_TYPE_SUB_SEQ, tlvLen = 2, tlvValue = ucast (hSubSeq h)\<rparr>
        mem pos bufLen), 2 + 2 + 2)"

definition WritePayloadLen :: "session_header \<Rightarrow> byte list \<Rightarrow> nat \<Rightarrow> nat \<Rightarrow> byte list \<times> nat" where
  "WritePayloadLen h mem pos bufLen =
     (fst (WriteTlvItemToBuffer \<lparr>tlvType = TLV_TYPE_PAYLOAD_LEN, tlvLen = 4, tlvValue = hPayloadLen h\<rparr>
        mem pos bufLen), 2 + 2 + 4)"

definition WritePacketLen :: "session_header \<Rightarrow> byte list \<Rightarrow> nat \<Rightarrow> nat \<Rightarrow> byte list \<times> nat" where
  "WritePacketLen h mem pos bufLen =
     (fst (WriteTlvItemToBuffer \<lparr>tlvType = TLV_TYPE_PACKET_LEN, tlvLen = 4, tlvValue = hPacketLen h\<rparr>
        mem pos bufLen), 2 + 2 + 4)"

text \<open>One step of the pointer arithmetic between the writes of \<^verbatim>\<open>Serialize\<close>.\<close>

definition advance :: "(byte list \<Rightarrow> nat \<Rightarrow> nat \<Rightarrow> byte list \<times> nat) \<Rightarrow> byte list \<times> nat \<times> nat \<Rightarrow> byte list \<times> nat \<times> nat" where
  "advance w = (\<lambda>(mem, pos, bufLen). case w mem pos bufLen of (mem', cap) \<Rightarrow> (mem', pos + cap, bufLen - cap))"

definition Serialize :: "session_header \<Rightarrow> data_buffer" where
  "Serialize h =
     (let buffer = AVTransDataBuffer HEADER_LEN in
      case dataPtr buffer of
        None \<Rightarrow> buffer
      | Some mem \<Rightarrow>
          let s0 = (mem, 0, HEADER_LEN);
              s1 = advance (WriteVersion h) s0;
              s2 = advance (WriteFragFlag h) s1;
              s3 = advance (WriteDataType h) s2;
              s4 = advance (WriteSeqNum h) s3;
              s5 = advance (WriteTotalLen h) s4;
              s6 = advance (WritePacketLen h) s5;
              s7 = advance (WritePayloadLen h) s6;
              (mem8, _) = WriteSubSeq h (fst s7) (fst (snd s7)) (snd (snd s7))
          in buffer\<lparr>dataPtr := Some mem8\<rparr>)"

subsection \<open>Deserialize\<close>

text \<open>
  The eight \<^verbatim>\<open>Read...FromBuffer\<close> functions copy the item's bytes over one field with
  \<^verbatim>\<open>memcpy_s(&field, sizeof(field), header, len)\<close>.
\<close>

definition ReadVersionFromBuffer :: "session_header \<Rightarrow> byte list \<Rightarrow> session_header \<times> chan_ret" where
  "ReadVersionFromBuffer h bs =
     (if memcpy_s False 2 False (length bs) \<noteq> ERR_OK
      then (h\<lparr>hVersion := 0\<rparr>, READ_TLV_ITEM_FROM_BUFFER_FAILED)
      else (h\<lparr>hVersion := le_overwrite 2 (hVersion h) bs\<rparr>, CHAN_OK))"

definition ReadFragFlagFromBuffer :: "session_header \<Rightarrow> byte list \<Rightarrow> session_header \<times> chan_ret" where
  "ReadFragFlagFromBuffer h bs =
     (if memcpy_s False 1 False (length bs) \<noteq> ERR_OK
      then (h\<lparr>hFragFlag := 0\<rparr>, READ_TLV_ITEM_FROM_BUFFER_FAILED)
      else (h\<lparr>hFragFlag := le_overwrite 1 (hFragFlag h) bs\<rparr>, CHAN_OK))"

definition ReadDataTypeFromBuffer :: "session_header \<Rightarrow> byte list \<Rightarrow> session_header \<times> chan_ret" where
  "ReadDataTypeFromBuffer h bs =
     (if memcpy_s False 4 False (length bs) \<noteq> ERR_OK
      then (h\<lparr>hDataType := 0\<rparr>, READ_TLV_ITEM_FROM_BUFFER_FAILED)
      else (h\<lparr>hDataType := le_overwrite 4 (hDataType h) bs\<rparr>, CHAN_OK))"

definition ReadSeqNumFromBuffer :: "session_header \<Rightarrow> byte list \<Rightarrow> session_header \<times> chan_ret" where
  "ReadSeqNumFromBuffer h bs =
     (if memcpy_s False 4 False (length bs) \<noteq> ERR_OK
      then (h\<lparr>hSeqNum := 0\<rparr>, READ_TLV_ITEM_FROM_BUFFER_FAILED)
      else (h\<lparr>hSeqNum := le_overwrite 4 (hSeqNum h) bs\<rparr>, CHAN_OK))"

definition ReadTotalLenFromBuffer :: "session_header \<Rightarrow> byte list \<Rightarrow> session_header \<times> chan_ret" where
  "ReadTotalLenFromBuffer h bs =
     (if memcpy_s False 4 False (length bs) \<noteq> ERR_OK
      then (h\<lparr>hTotalLen := 0\<rparr>, READ_TLV_ITEM_FROM_BUFFER_FAILED)
      else (h\<lparr>hTotalLen := le_overwrite 4 (hTotalLen h) bs\<rparr>, CHAN_OK))"

definition ReadSubSeqFromBuffer :: "session_header \<Rightarrow> byte list \<Rightarrow> session_header \<times> chan_ret" where
  "ReadSubSeqFromBuffer h bs =
     (if memcpy_s False 2 False (length bs) \<noteq> ERR_OK
      then (h\<lparr>hSubSeq := 0\<rparr>, READ_TLV_ITEM_FROM_BUFFER_FAILED)
      else (h\<lparr>hSubSeq := le_overwrite 2 (hSubSeq h) bs\<rparr>, CHAN_OK))"

definition ReadPayloadLenFromBuffer :: "session_header \<Rightarrow> byte list \<Rightarrow> session_header \<times> chan_ret" where
  "ReadPayloadLenFromBuffer h bs =
     (if memcpy_s False 4 False (length bs) \<noteq> ERR_OK
      then (h\<lparr>hPayloadLen := 0\<rparr>, READ_TLV_ITEM_FROM_BUFFER_FAILED)
      else (h\<lparr>hPayloadLen := le_overwrite 4 (hPayloadLen h) bs\<rparr>, CHAN_OK))"

definition ReadPacketLenFromBuffer :: "session_header \<Rightarrow> byte list \<Rightarrow> session_header \<times> chan_ret" where
  "ReadPacketLenFromBuffer h bs =
     (if memcpy_s False 4 False (length bs) \<noteq> ERR_OK
      then (h\<lparr>hPacketLen := 0\<rparr>, READ_TLV_ITEM_FROM_BUFFER_FAILED)
      else (h\<lparr>hPacketLen := le_overwrite 4 (hPacketLen h) bs\<rparr>, CHAN_OK))"

definition ReadUint16 :: "byte list \<Rightarrow> nat \<Rightarrow> u16 ub" where
  "ReadUint16 mem pos = ub_bind (peek mem pos 2) (\<lambda>bs. Done (be16 bs))"

text \<open>The \<^verbatim>\<open>switch\<close> of \<^verbatim>\<open>ReadTlvItemFromBuffer\<close>.\<close>

definition read_item :: "u16 \<Rightarrow> byte list \<Rightarrow> session_header \<Rightarrow> session_header \<times> chan_ret" where
  "read_item ty bs h =
     (if ty = TLV_TYPE_VERSION then ReadVersionFromBuffer h bs
      else if ty = TLV_TYPE_FRAG_FLAG then ReadFragFlagFromBuffer h bs
      else if ty = TLV_TYPE_DATA_TYPE then ReadDataTypeFromBuffer h bs
      else if ty = TLV_TYPE_SEQ_NUM then ReadSeqNumFromBuffer h bs
      else if ty = TLV_TYPE_TOTAL_LEN then ReadTotalLenFromBuffer h bs
      else if ty = TLV_TYPE_SUB_SEQ then ReadSubSeqFromBuffer h bs
      else if ty = TLV_TYPE_PAYLOAD_LEN then ReadPayloadLenFromBuffer h bs
      else if ty = TLV_TYPE_PACKET_LEN then ReadPacketLenFromBuffer h bs
      else (h, READ_TLV_ITEM_FROM_BUFFER_FAILED))"

text \<open>\<open>ReadTlvItemFromBuffer\<close> gives the item's length, the header and the return code.\<close>

definition ReadTlvItemFromBuffer :: "byte list \<Rightarrow> nat \<Rightarrow> nat \<Rightarrow> session_header \<Rightarrow> (nat \<times> session_header \<times> chan_ret) ub" where
  "ReadTlvItemFromBuffer mem pos fin h =
     ub_bind (ReadUint16 mem pos) (\<lambda>ty.
     ub_bind (ReadUint16 mem (pos + 2)) (\<lambda>len.
       if pos + 4 + unat len > fin then Done (unat len, h, READ_TLV_ITEM_FROM_BUFFER_FAILED)
       else ub_bind (peek mem (pos + 4) (unat len)) (\<lambda>bs. Done (unat len, read_item ty bs h))))"

function deserialize_loop :: "byte list \<Rightarrow> nat \<Rightarrow> session_header \<Rightarrow> session_header option ub" where
  "deserialize_loop mem pos h =
     (if pos + 4 < HEADER_LEN then
        (case ReadTlvItemFromBuffer mem pos HEADER_LEN h of
           OutOfBounds \<Rightarrow> OutOfBounds
         | Done (len, h', r) \<Rightarrow>
             if r \<noteq> CHAN_OK then Done None else deserialize_loop mem (pos + 4 + len) h')
      else Done (Some h))"
  by pat_completeness auto
termination
  by (relation "measure (\<lambda>(mem, pos, h). HEADER_LEN - pos)") auto

declare deserialize_loop.simps [simp del]

text \<open>\<^verbatim>\<open>HEADER_LEN_VERSION_MAP\<close> has one entry; an unknown version uses the last entry.\<close>

definition header_len_of_version :: "u16 \<Rightarrow> u32" where
  "header_len_of_version v =
     (case map_of [(PROTOCOL_VERSION, of_nat HEADER_LEN)] v of
        Some n \<Rightarrow> n
      | None \<Rightarrow> snd (last [(PROTOCOL_VERSION, of_nat HEADER_LEN)]))"

definition check_header :: "session_header \<Rightarrow> session_header option" where
  "check_header h =
     (if hPayloadLen h > BINARY_PAYLOAD_MAX_LEN \<or> hPacketLen h > BINARY_DATA_MAX_TOTAL_LEN then None
      else if hTotalLen h < hPacketLen h then None
      else if hPacketLen h < hPayloadLen h + header_len_of_version (hVersion h) then None
      else Some h)"

definition Deserialize :: "session_header \<Rightarrow> byte list option \<Rightarrow> session_header option ub" where
  "Deserialize junk buffer =
     (case buffer of
        None \<Rightarrow> Done None
      | Some mem \<Rightarrow>
          if length mem < HEADER_LEN then Done None
          else ub_bind (deserialize_loop mem 0 (junk\<lparr>hVersion := PROTOCOL_VERSION\<rparr>))
                 (\<lambda>r. Done (Option.bind r check_header)))"

subsection \<open>What Serialize writes\<close>

definition header_items :: "session_header \<Rightarrow> tlv_item list" where
  "header_items h =
     [\<lparr>tlvType = TLV_TYPE_VERSION, tlvLen = 2, tlvValue = ucast (hVersion h)\<rparr>,
      \<lparr>tlvType = TLV_TYPE_FRAG_FLAG, tlvLen = 1, tlvValue = ucast (hFragFlag h)\<rparr>,
      \<lparr>tlvType = TLV_TYPE_DATA_TYPE, tlvLen = 4, tlvValue = hDataType h\<rparr>,
      \<lparr>tlvType = TLV_TYPE_SEQ_NUM, tlvLen = 4, tlvValue = hSeqNum h\<rparr>,
      \<lparr>tlvType = TLV_TYPE_TOTAL_LEN, tlvLen = 4, tlvValue = hTotalLen h\<rparr>,
      \<lparr>tlvType = TLV_TYPE_PACKET_LEN, tlvLen = 4, tlvValue = hPacketLen h\<rparr>,
      \<lparr>tlvType = TLV_TYPE_PAYLOAD_LEN, tlvLen = 4, tlvValue = hPayloadLen h\<rparr>,
      \<lparr>tlvType = TLV_TYPE_SUB_SEQ, tlvLen = 2, tlvValue = ucast (hSubSeq h)\<rparr>]"

lemma WriteTlvItemToBuffer_append:
  assumes "tlv_size it \<le> length rest" "length rest \<le> RSIZE_MAX"
  shows "WriteTlvItemToBuffer it (pre @ rest) (length pre) (length rest) =
    (pre @ tlv_bytes it @ drop (tlv_size it) rest, CHAN_OK)"
proof -
  let ?hd = "be16_bytes (tlvType it) @ be16_bytes (tlvLen it)"
  let ?val = "le_bytes (unat (tlvLen it)) (tlvValue it)"
  have "poke (pre @ rest) (length pre) ?hd = (pre @ ?hd) @ drop 4 rest"
    using assms by (subst poke_prefix) (simp_all add: tlv_size_def)
  moreover have "poke ((pre @ ?hd) @ drop 4 rest) (length (pre @ ?hd)) ?val =
      ((pre @ ?hd) @ ?val) @ drop (unat (tlvLen it)) (drop 4 rest)"
    using assms poke_prefix [of ?val "drop 4 rest" "pre @ ?hd"] by (simp add: tlv_size_def)
  moreover have "size_sub (length rest) 4 = length rest - 4"
    using assms by (intro size_sub_le) (simp_all add: tlv_size_def RSIZE_MAX_def)
  ultimately show ?thesis
    using assms by (simp add: WriteTlvItemToBuffer_def memcpy_to_ok tlv_bytes_def tlv_size_def add.commute)
qed

definition ser_state :: "byte list \<Rightarrow> nat \<Rightarrow> byte list \<times> nat \<times> nat" where
  "ser_state pre n = (pre @ replicate n 0, length pre, n)"

lemma advance_ser_state:
  assumes "tlv_size it \<le> n" "n \<le> RSIZE_MAX"
    and "\<And>mem pos bufLen. w mem pos bufLen = (fst (WriteTlvItemToBuffer it mem pos bufLen), tlv_size it)"
  shows "advance w (ser_state pre n) = ser_state (pre @ tlv_bytes it) (n - tlv_size it)"
  using assms WriteTlvItemToBuffer_append [of it "replicate n 0" pre]
  by (simp add: advance_def ser_state_def)

lemmas write_defs = WriteVersion_def WriteFragFlag_def WriteDataType_def WriteSeqNum_def
  WriteTotalLen_def WriteSubSeq_def WritePayloadLen_def WritePacketLen_def

lemma advance_WriteVersion:
  "n \<le> RSIZE_MAX \<Longrightarrow> 6 \<le> n \<Longrightarrow> advance (WriteVersion h) (ser_state pre n) =
     ser_state (pre @ tlv_bytes (header_items h ! 0)) (n - 6)"
  using advance_ser_state [of "header_items h ! 0" n "WriteVersion h" pre]
  by (simp add: write_defs header_items_def tlv_size_def)

lemma advance_WriteFragFlag:
  "n \<le> RSIZE_MAX \<Longrightarrow> 5 \<le> n \<Longrightarrow> advance (WriteFragFlag h) (ser_state pre n) =
     ser_state (pre @ tlv_bytes (header_items h ! 1)) (n - 5)"
  using advance_ser_state [of "header_items h ! 1" n "WriteFragFlag h" pre]
  by (simp add: write_defs header_items_def tlv_size_def)

lemma advance_WriteDataType:
  "n \<le> RSIZE_MAX \<Longrightarrow> 8 \<le> n \<Longrightarrow> advance (WriteDataType h) (ser_state pre n) =
     ser_state (pre @ tlv_bytes (header_items h ! 2)) (n - 8)"
  using advance_ser_state [of "header_items h ! 2" n "WriteDataType h" pre]
  by (simp add: write_defs header_items_def tlv_size_def)

lemma advance_WriteSeqNum:
  "n \<le> RSIZE_MAX \<Longrightarrow> 8 \<le> n \<Longrightarrow> advance (WriteSeqNum h) (ser_state pre n) =
     ser_state (pre @ tlv_bytes (header_items h ! 3)) (n - 8)"
  using advance_ser_state [of "header_items h ! 3" n "WriteSeqNum h" pre]
  by (simp add: write_defs header_items_def tlv_size_def)

lemma advance_WriteTotalLen:
  "n \<le> RSIZE_MAX \<Longrightarrow> 8 \<le> n \<Longrightarrow> advance (WriteTotalLen h) (ser_state pre n) =
     ser_state (pre @ tlv_bytes (header_items h ! 4)) (n - 8)"
  using advance_ser_state [of "header_items h ! 4" n "WriteTotalLen h" pre]
  by (simp add: write_defs header_items_def tlv_size_def)

lemma advance_WritePacketLen:
  "n \<le> RSIZE_MAX \<Longrightarrow> 8 \<le> n \<Longrightarrow> advance (WritePacketLen h) (ser_state pre n) =
     ser_state (pre @ tlv_bytes (header_items h ! 5)) (n - 8)"
  using advance_ser_state [of "header_items h ! 5" n "WritePacketLen h" pre]
  by (simp add: write_defs header_items_def tlv_size_def)

lemma advance_WritePayloadLen:
  "n \<le> RSIZE_MAX \<Longrightarrow> 8 \<le> n \<Longrightarrow> advance (WritePayloadLen h) (ser_state pre n) =
     ser_state (pre @ tlv_bytes (header_items h ! 6)) (n - 8)"
  using advance_ser_state [of "header_items h ! 6" n "WritePayloadLen h" pre]
  by (simp add: write_defs header_items_def tlv_size_def)

lemmas advance_writes = advance_WriteVersion advance_WriteFragFlag advance_WriteDataType
  advance_WriteSeqNum advance_WriteTotalLen advance_WritePacketLen advance_WritePayloadLen

lemma Serialize_last:
  "fst (WriteSubSeq h (pre @ replicate 6 0) (length pre) 6) = pre @ tlv_bytes (header_items h ! 7)"
  using WriteTlvItemToBuffer_append [of "header_items h ! 7" "replicate 6 0" pre]
  by (simp add: WriteSubSeq_def header_items_def tlv_size_def RSIZE_MAX_def)

lemma length_header_bytes: "length (concat (map tlv_bytes (header_items h))) = HEADER_LEN"
  by (simp add: header_items_def tlv_size_def HEADER_LEN_57)

lemma Serialize_eq:
  "Serialize h = (AVTransDataBuffer HEADER_LEN)\<lparr>dataPtr := Some (concat (map tlv_bytes (header_items h)))\<rparr>"
proof -
  have s0: "(replicate 57 0, 0, 57) = ser_state [] 57"
    by (simp add: ser_state_def)
  have last: "WriteSubSeq h (fst (ser_state pre 6)) (fst (snd (ser_state pre 6))) (snd (snd (ser_state pre 6))) =
      (pre @ tlv_bytes (header_items h ! 7), 6)" for pre
    using Serialize_last [of h pre] by (simp add: ser_state_def WriteSubSeq_def)
  have items: "concat (map tlv_bytes (header_items h)) =
      (((((((tlv_bytes (header_items h ! 0)) @ tlv_bytes (header_items h ! 1)) @ tlv_bytes (header_items h ! 2))
       @ tlv_bytes (header_items h ! 3)) @ tlv_bytes (header_items h ! 4)) @ tlv_bytes (header_items h ! 5))
       @ tlv_bytes (header_items h ! 6)) @ tlv_bytes (header_items h ! 7)"
    by (simp add: header_items_def)
  show ?thesis
    unfolding items
    by (simp add: Serialize_def AVTransDataBuffer_def HEADER_LEN_57 DSCHED_MAX_BUFFER_SIZE_def
        Let_def s0 advance_writes RSIZE_MAX_def last)
qed

lemma Serialize_bytes: "buf_bytes (Serialize h) = concat (map tlv_bytes (header_items h))"
  using length_header_bytes [of h]
  by (simp add: Serialize_eq buf_bytes_def AVTransDataBuffer_def HEADER_LEN_57 DSCHED_MAX_BUFFER_SIZE_def)

lemma length_Serialize [simp]: "length (buf_bytes (Serialize h)) = HEADER_LEN"
  by (simp only: Serialize_bytes length_header_bytes)

subsection \<open>What Deserialize makes of well-formed items\<close>

definition apply_item :: "tlv_item \<Rightarrow> session_header \<Rightarrow> session_header option" where
  "apply_item it h =
     (case read_item (tlvType it) (le_bytes (unat (tlvLen it)) (tlvValue it)) h of
        (h', r) \<Rightarrow> if r = CHAN_OK then Some h' else None)"

lemma ReadTlvItemFromBuffer_item:
  assumes "mem = pre @ tlv_bytes it @ post" "length pre + tlv_size it \<le> fin" "fin \<le> length mem"
  shows "ReadTlvItemFromBuffer mem (length pre) fin h =
    Done (unat (tlvLen it), read_item (tlvType it) (le_bytes (unat (tlvLen it)) (tlvValue it)) h)"
  using assms(2,3) tlv_fields [OF assms(1)]
  by (simp add: ReadTlvItemFromBuffer_def ReadUint16_def tlv_size_def be16_be16_bytes)

interpretation sh_reader: tlv_reader deserialize_loop apply_item HEADER_LEN
proof unfold_locales
  fix pre :: "byte list" and it post h h'
  assume *: "length pre + tlv_size it \<le> HEADER_LEN" "HEADER_LEN \<le> length (pre @ tlv_bytes it @ post)"
    "0 < unat (tlvLen it)" "apply_item it h = Some h'"
  then have "ReadTlvItemFromBuffer (pre @ tlv_bytes it @ post) (length pre) HEADER_LEN h =
      Done (unat (tlvLen it), h', CHAN_OK)"
    by (subst ReadTlvItemFromBuffer_item [OF refl])
      (auto simp: apply_item_def split: prod.splits if_splits)
  then show "deserialize_loop (pre @ tlv_bytes it @ post) (length pre) h =
      deserialize_loop (pre @ tlv_bytes it @ post) (length pre + tlv_size it) h'"
    using * by (subst deserialize_loop.simps) (simp add: tlv_size_def add.assoc)
next
  fix mem h
  show "deserialize_loop mem HEADER_LEN h = Done (Some h)"
    by (simp add: deserialize_loop.simps)
qed

lemmas read_defs = ReadVersionFromBuffer_def ReadFragFlagFromBuffer_def ReadDataTypeFromBuffer_def
  ReadSeqNumFromBuffer_def ReadTotalLenFromBuffer_def ReadSubSeqFromBuffer_def
  ReadPayloadLenFromBuffer_def ReadPacketLenFromBuffer_def

lemma apply_header_items: "apply_items apply_item (header_items h) h0 = Some h"
  by (cases h; cases h0)
    (simp add: header_items_def apply_item_def read_item_def read_defs memcpy_s_ok_iff RSIZE_MAX_def
      wire_simps)

lemma deserialize_loop_header:
  "deserialize_loop (buf_bytes (Serialize h) @ payload) 0 h0 = Done (Some h)"
proof -
  have "deserialize_loop ([] @ concat (map tlv_bytes (header_items h)) @ payload) (length ([] :: byte list)) h0 =
      Done (Some h)"
    by (rule sh_reader.loop_items [OF apply_header_items])
      (simp_all add: header_items_def tlv_size_def HEADER_LEN_57)
  then show ?thesis
    by (simp add: Serialize_bytes)
qed

subsection \<open>Deserialize stays inside the buffer\<close>

lemma ReadTlvItemFromBuffer_total:
  assumes "pos + 4 \<le> fin" "fin \<le> length mem"
  shows "\<exists>len h' r. ReadTlvItemFromBuffer mem pos fin h = Done (len, h', r) \<and>
    (r = CHAN_OK \<longrightarrow> pos + 4 + len \<le> fin)"
  using assms by (auto simp: ReadTlvItemFromBuffer_def ReadUint16_def prod_eq_iff
      intro!: exI [of _ "fst (read_item _ _ _)"] exI [of _ "snd (read_item _ _ _)"])

lemma deserialize_loop_total:
  "HEADER_LEN \<le> length mem \<Longrightarrow> \<exists>r. deserialize_loop mem pos h = Done r"
proof (induction mem pos h rule: deserialize_loop.induct)
  case (1 mem pos h)
  show ?case
  proof (cases "pos + 4 < HEADER_LEN")
    case True
    with "1.prems" obtain len h' r where
      read: "ReadTlvItemFromBuffer mem pos HEADER_LEN h = Done (len, h', r)"
      using ReadTlvItemFromBuffer_total [of pos HEADER_LEN mem h] by auto
    then show ?thesis
      using True "1.IH" [OF True read refl refl] "1.prems"
      by (subst deserialize_loop.simps) auto
  next
    case False
    then show ?thesis by (subst deserialize_loop.simps) simp
  qed
qed

subsection \<open>The checks on the decoded lengths\<close>

definition valid_header :: "session_header \<Rightarrow> bool" where
  "valid_header h \<longleftrightarrow> hPayloadLen h \<le> BINARY_PAYLOAD_MAX_LEN \<and> hPacketLen h \<le> BINARY_DATA_MAX_TOTAL_LEN \<and>
     hPacketLen h \<le> hTotalLen h \<and> unat (hPayloadLen h) + HEADER_LEN \<le> unat (hPacketLen h)"

lemma header_len_of_version_57: "header_len_of_version v = 57"
  by (simp add: header_len_of_version_def HEADER_LEN_57)

lemma check_header_iff: "check_header h = Some h' \<longleftrightarrow> h' = h \<and> valid_header h"
proof -
  have "unat (hPayloadLen h + 57) = unat (hPayloadLen h) + 57" if "hPayloadLen h \<le> BINARY_PAYLOAD_MAX_LEN"
    using that by (intro unat_add_lem [THEN iffD1, THEN trans])
      (simp_all add: BINARY_PAYLOAD_MAX_LEN_def word_le_nat_alt)
  then show ?thesis
    by (auto simp: check_header_def valid_header_def header_len_of_version_57 HEADER_LEN_57
        word_less_nat_alt word_le_nat_alt not_less not_le)
qed

interpretation sh_codec: frame_codec "\<lambda>h. buf_bytes (Serialize h)"
  "\<lambda>mem. case Deserialize undefined (Some mem) of Done (Some h) \<Rightarrow> Some h | _ \<Rightarrow> None"
  HEADER_LEN valid_header
proof unfold_locales
  show "length (buf_bytes (Serialize h)) = HEADER_LEN" for h
    by simp
  show "(case Deserialize undefined (Some (buf_bytes (Serialize h) @ payload)) of
      Done (Some h) \<Rightarrow> Some h | _ \<Rightarrow> None) = Some h" if "valid_header h" for h payload
    using that by (simp add: Deserialize_def deserialize_loop_header check_header_iff [THEN iffD2])
qed

subsection \<open>Properties\<close>


definition sample_header :: session_header where
  "sample_header = \<lparr>hVersion = 1, hFragFlag = FRAG_MID, hDataType = 1, hSeqNum = 0, hTotalLen = 5000,
     hPacketLen = 1024, hPayloadLen = 967, hSubSeq = 3\<rparr>"


text \<open>
  \<^verbatim>\<open>Deserialize\<close> is total and memory safe: for every byte sequence a peer can send, and for the
  null pointer, it returns without a single read outside the packet, and a header it accepts has a
  payload of at most 4 MiB, a packet of at most 100 MiB that covers header and payload, and a total
  length that covers the packet.
\<close>

theorem Deserialize_safe:
  "\<exists>r. Deserialize junk buffer = Done r \<and> (\<forall>h. r = Some h \<longrightarrow> valid_header h)"
proof (cases buffer)
  case None
  then show ?thesis by (simp add: Deserialize_def)
next
  case (Some mem)
  show ?thesis
  proof (cases "length mem < HEADER_LEN")
    case True
    with Some show ?thesis by (simp add: Deserialize_def)
  next
    case False
    then obtain r where "deserialize_loop mem 0 (junk\<lparr>hVersion := PROTOCOL_VERSION\<rparr>) = Done r"
      using deserialize_loop_total [of mem] by auto
    with Some False show ?thesis
      by (cases r) (auto simp: Deserialize_def check_header_iff)
  qed
qed

theorem Deserialize_safe_witness:
  "\<exists>r. Deserialize sample_header (Some (replicate 60 7)) = Done r \<and> (\<forall>h. r = Some h \<longrightarrow> valid_header h)"
  by (rule Deserialize_safe)

end
