(* ===== verification/Frag_Header.thy ===== *)
theory Frag_Header
  imports Frame_Codec Data_Buffer
begin

text \<open>
  The fragment header of the scheduler's own sessions: the struct \<^verbatim>\<open>SessionDataHeader\<close> of
  \<^verbatim>\<open>DSchedSoftbusSession\<close> and the functions that write and read it
  (\<^verbatim>\<open>services/dtbschedmgr/src/softbus_adapter/transport/dsched_softbus_session.cpp\<close>): seven items
  in 49 bytes. The header that the receiver declares without an initialiser is the argument \<open>h\<close>
  of \<open>GetFragDataHeader\<close>, so every statement holds for every content of it.
\<close>

abbreviation TLV_TYPE_DATA_LEN :: u16 where "TLV_TYPE_DATA_LEN \<equiv> 1007"

abbreviation INVALID_PARAMETERS_ERR :: ret where "INVALID_PARAMETERS_ERR \<equiv> 29360128"

text \<open>
  The result of \<^verbatim>\<open>GetFragDataHeader\<close>: the code of the last item, or \<^verbatim>\<open>ERR_NULL_OBJECT\<close>, whose
  number is defined outside the repository and only compared with \<^verbatim>\<open>ERR_OK\<close>.
\<close>

datatype get_ret = ItemRet ret | ERR_NULL_OBJECT

record frag_header =
  fVersion :: u16
  fFragFlag :: byte
  fDataType :: u32
  fSeqNum :: u32
  fTotalLen :: u32
  fSubSeq :: u16
  fDataLen :: u32

definition BINARY_HEADER_FRAG_LEN :: nat where "BINARY_HEADER_FRAG_LEN = 49"
definition HEADER_TLV_NUM :: nat where "HEADER_TLV_NUM = 7"
definition HEADER_UINT8_NUM :: nat where "HEADER_UINT8_NUM = 1"
definition HEADER_UINT16_NUM :: nat where "HEADER_UINT16_NUM = 2"
definition HEADER_UINT32_NUM :: nat where "HEADER_UINT32_NUM = 4"

lemmas frag_sizes = BINARY_HEADER_FRAG_LEN_def HEADER_TLV_NUM_def HEADER_UINT8_NUM_def
  HEADER_UINT16_NUM_def HEADER_UINT32_NUM_def

subsection \<open>Writing\<close>

text \<open>
  The size that \<^verbatim>\<open>WriteTlvToBuffer\<close> gives to \<^verbatim>\<open>memcpy_s\<close> is written
  \<^verbatim>\<open>bufLen - HEADER_TYPE_BYTES + HEADER_LEN_BYTES\<close>, that is \<open>bufLen\<close>.
\<close>

definition WriteTlvToBuffer :: "tlv_item \<Rightarrow> byte list \<Rightarrow> nat \<Rightarrow> nat \<Rightarrow> byte list" where
  "WriteTlvToBuffer item mem pos bufLen =
     (let len = 2 + 2 + unat (tlvLen item) in
      if bufLen < len then mem
      else
        let mem1 = poke mem pos (be16_bytes (tlvType item) @ be16_bytes (tlvLen item))
        in fst (memcpy_to mem1 (pos + 4) (bufLen - 2 + 2) (le_bytes (unat (tlvLen item)) (tlvValue item))))"

definition put_tlv :: "tlv_item \<Rightarrow> byte list \<times> nat \<times> nat \<Rightarrow> byte list \<times> nat \<times> nat" where
  "put_tlv item = (\<lambda>(mem, i, capacity).
     (WriteTlvToBuffer item mem i capacity, i + (2 + 2 + unat (tlvLen item)),
      capacity - (2 + 2 + unat (tlvLen item))))"

definition MakeFragDataHeader :: "frag_header \<Rightarrow> byte list option \<Rightarrow> nat \<Rightarrow> byte list option" where
  "MakeFragDataHeader headPara header len =
     (case header of
        None \<Rightarrow> None
      | Some mem \<Rightarrow>
          let headerLen = (2 + 2) * HEADER_TLV_NUM + 1 * HEADER_UINT8_NUM + 2 * HEADER_UINT16_NUM
                + 4 * HEADER_UINT32_NUM in
          if headerLen > len then Some mem
          else
            let s0 = (mem, 0, len);
                s1 = put_tlv \<lparr>tlvType = TLV_TYPE_VERSION, tlvLen = 2, tlvValue = ucast (fVersion headPara)\<rparr> s0;
                s2 = put_tlv \<lparr>tlvType = TLV_TYPE_FRAG_FLAG, tlvLen = 1, tlvValue = ucast (fFragFlag headPara)\<rparr> s1;
                s3 = put_tlv \<lparr>tlvType = TLV_TYPE_DATA_TYPE, tlvLen = 4, tlvValue = fDataType headPara\<rparr> s2;
                s4 = put_tlv \<lparr>tlvType = TLV_TYPE_SEQ_NUM, tlvLen = 4, tlvValue = fSeqNum headPara\<rparr> s3;
                s5 = put_tlv \<lparr>tlvType = TLV_TYPE_TOTAL_LEN, tlvLen = 4, tlvValue = fTotalLen headPara\<rparr> s4;
                s6 = put_tlv \<lparr>tlvType = TLV_TYPE_SUB_SEQ, tlvLen = 2, tlvValue = ucast (fSubSeq headPara)\<rparr> s5;
                s7 = put_tlv \<lparr>tlvType = TLV_TYPE_DATA_LEN, tlvLen = 4, tlvValue = fDataLen headPara\<rparr> s6
            in Some (fst s7))"

subsection \<open>Reading\<close>

definition U16Get :: "byte list \<Rightarrow> nat \<Rightarrow> u16 ub" where
  "U16Get mem pos = ub_bind (peek mem pos 2) (\<lambda>bs. Done (be16 bs))"

text \<open>The \<^verbatim>\<open>switch\<close> of \<^verbatim>\<open>ReadTlvToHeader\<close>: one \<^verbatim>\<open>memcpy_s\<close> into the field of the item's type.\<close>

definition copy_field :: "u16 \<Rightarrow> byte list \<Rightarrow> frag_header \<Rightarrow> frag_header \<times> ret" where
  "copy_field type bs h =
     (let store = (\<lambda>n upd old. let r = memcpy_s False n False (length bs)
                    in (if r = ERR_OK then upd (le_overwrite n old bs) else upd 0, r));
          store2 = (\<lambda>upd (old :: u16). let r = memcpy_s False 2 False (length bs)
                    in (if r = ERR_OK then upd (le_overwrite 2 old bs) else upd 0, r));
          store1 = (\<lambda>upd (old :: byte). let r = memcpy_s False 1 False (length bs)
                    in (if r = ERR_OK then upd (le_overwrite 1 old bs) else upd 0, r))
      in if type = TLV_TYPE_VERSION then store2 (\<lambda>v. h\<lparr>fVersion := v\<rparr>) (fVersion h)
         else if type = TLV_TYPE_FRAG_FLAG then store1 (\<lambda>v. h\<lparr>fFragFlag := v\<rparr>) (fFragFlag h)
         else if type = TLV_TYPE_DATA_TYPE then store 4 (\<lambda>v :: u32. h\<lparr>fDataType := v\<rparr>) (fDataType h)
         else if type = TLV_TYPE_SEQ_NUM then store 4 (\<lambda>v. h\<lparr>fSeqNum := v\<rparr>) (fSeqNum h)
         else if type = TLV_TYPE_TOTAL_LEN then store 4 (\<lambda>v. h\<lparr>fTotalLen := v\<rparr>) (fTotalLen h)
         else if type = TLV_TYPE_SUB_SEQ then store2 (\<lambda>v. h\<lparr>fSubSeq := v\<rparr>) (fSubSeq h)
         else if type = TLV_TYPE_DATA_LEN then store 4 (\<lambda>v. h\<lparr>fDataLen := v\<rparr>) (fDataLen h)
         else (h, INVALID_PARAMETERS_ERR))"

text \<open>\<open>ReadTlvToHeader\<close> gives the header, the length of the item (\<^verbatim>\<open>index\<close>) and the return code.\<close>

definition ReadTlvToHeader :: "byte list \<Rightarrow> nat \<Rightarrow> nat \<Rightarrow> frag_header \<Rightarrow> (frag_header \<times> nat \<times> ret) ub" where
  "ReadTlvToHeader mem pos byteLeft h =
     (if byteLeft < HEADER_UINT16_NUM then Done (h, 0, INVALID_PARAMETERS_ERR)
      else ub_bind (U16Get mem pos) (\<lambda>type.
        if byteLeft - HEADER_UINT16_NUM < HEADER_UINT16_NUM then Done (h, 0, INVALID_PARAMETERS_ERR)
        else ub_bind (U16Get mem (pos + 2)) (\<lambda>len.
          if byteLeft - HEADER_UINT16_NUM - HEADER_UINT16_NUM < unat len then Done (h, 0, INVALID_PARAMETERS_ERR)
          else ub_bind (peek mem (pos + 4) (unat len)) (\<lambda>bs.
            let res = copy_field type bs h in Done (fst res, 2 + 2 + unat len, snd res)))))"

text \<open>Every item that is read has at least four bytes, so the loop ends.\<close>

lemma ReadTlvToHeader_index:
  "ReadTlvToHeader mem pos byteLeft h = Done (h', index, ERR_OK) \<Longrightarrow> 4 \<le> index \<and> index \<le> byteLeft"
  by (auto simp: ReadTlvToHeader_def ub_bind_Done_iff frag_sizes Let_def split: if_splits)

function frag_header_loop :: "byte list \<Rightarrow> nat \<Rightarrow> frag_header \<Rightarrow> (frag_header \<times> ret) ub" where
  "frag_header_loop mem i h =
     (if i < BINARY_HEADER_FRAG_LEN then
        (case ReadTlvToHeader mem i (BINARY_HEADER_FRAG_LEN - i) h of
           OutOfBounds \<Rightarrow> OutOfBounds
         | Done (h', index, r) \<Rightarrow>
             if r \<noteq> ERR_OK then Done (h', r) else frag_header_loop mem (i + index) h')
      else Done (h, ERR_OK))"
  by pat_completeness auto
termination
  by (relation "measure (\<lambda>(mem, i, h). BINARY_HEADER_FRAG_LEN - i)") (auto dest!: ReadTlvToHeader_index)

declare frag_header_loop.simps [simp del]

definition GetFragDataHeader :: "byte list option \<Rightarrow> frag_header \<Rightarrow> (frag_header \<times> get_ret) ub" where
  "GetFragDataHeader ptrPacket h =
     (case ptrPacket of
        None \<Rightarrow> Done (h, ERR_NULL_OBJECT)
      | Some mem \<Rightarrow> ub_bind (frag_header_loop mem 0 h) (\<lambda>(h', r). Done (h', ItemRet r)))"

subsection \<open>What is written\<close>

definition frag_items :: "frag_header \<Rightarrow> tlv_item list" where
  "frag_items h =
     [\<lparr>tlvType = TLV_TYPE_VERSION, tlvLen = 2, tlvValue = ucast (fVersion h)\<rparr>,
      \<lparr>tlvType = TLV_TYPE_FRAG_FLAG, tlvLen = 1, tlvValue = ucast (fFragFlag h)\<rparr>,
      \<lparr>tlvType = TLV_TYPE_DATA_TYPE, tlvLen = 4, tlvValue = fDataType h\<rparr>,
      \<lparr>tlvType = TLV_TYPE_SEQ_NUM, tlvLen = 4, tlvValue = fSeqNum h\<rparr>,
      \<lparr>tlvType = TLV_TYPE_TOTAL_LEN, tlvLen = 4, tlvValue = fTotalLen h\<rparr>,
      \<lparr>tlvType = TLV_TYPE_SUB_SEQ, tlvLen = 2, tlvValue = ucast (fSubSeq h)\<rparr>,
      \<lparr>tlvType = TLV_TYPE_DATA_LEN, tlvLen = 4, tlvValue = fDataLen h\<rparr>]"

definition frag_bytes :: "frag_header \<Rightarrow> byte list" where
  "frag_bytes h = concat (map tlv_bytes (frag_items h))"

lemma length_frag_bytes [simp]: "length (frag_bytes h) = BINARY_HEADER_FRAG_LEN"
  by (simp add: frag_bytes_def frag_items_def tlv_size_def frag_sizes)

lemma WriteTlvToBuffer_append:
  assumes "tlv_size it \<le> c" "c \<le> length rest" "c \<le> RSIZE_MAX"
  shows "WriteTlvToBuffer it (pre @ rest) (length pre) c = pre @ tlv_bytes it @ drop (tlv_size it) rest"
proof -
  let ?hd = "be16_bytes (tlvType it) @ be16_bytes (tlvLen it)"
  let ?val = "le_bytes (unat (tlvLen it)) (tlvValue it)"
  have "poke (pre @ rest) (length pre) ?hd = (pre @ ?hd) @ drop 4 rest"
    using assms by (subst poke_prefix) (simp_all add: tlv_size_def)
  moreover have "poke ((pre @ ?hd) @ drop 4 rest) (length (pre @ ?hd)) ?val =
      ((pre @ ?hd) @ ?val) @ drop (unat (tlvLen it)) (drop 4 rest)"
    using assms poke_prefix [of ?val "drop 4 rest" "pre @ ?hd"] by (simp add: tlv_size_def)
  ultimately show ?thesis
    using assms by (simp add: WriteTlvToBuffer_def memcpy_to_ok tlv_bytes_def tlv_size_def Let_def add.commute)
qed

lemma put_tlv_append:
  assumes "tlv_size it \<le> c" "c \<le> length rest" "c \<le> RSIZE_MAX"
  shows "put_tlv it (pre @ rest, length pre, c) =
    ((pre @ tlv_bytes it) @ drop (tlv_size it) rest, length (pre @ tlv_bytes it), c - tlv_size it)"
  using WriteTlvToBuffer_append [OF assms] by (simp add: put_tlv_def tlv_size_def)

lemma put_tlvs:
  assumes "(\<Sum>it\<leftarrow>its. tlv_size it) \<le> c" "c \<le> length rest" "c \<le> RSIZE_MAX"
  shows "fst (fold put_tlv its (pre @ rest, length pre, c)) =
    pre @ concat (map tlv_bytes its) @ drop (\<Sum>it\<leftarrow>its. tlv_size it) rest"
  using assms
proof (induction its arbitrary: pre rest c)
  case (Cons it its)
  then have "fold put_tlv (it # its) (pre @ rest, length pre, c) =
      fold put_tlv its ((pre @ tlv_bytes it) @ drop (tlv_size it) rest, length (pre @ tlv_bytes it), c - tlv_size it)"
    by (simp add: put_tlv_append)
  then show ?case
    using Cons.prems Cons.IH [of "c - tlv_size it" "drop (tlv_size it) rest" "pre @ tlv_bytes it"]
    by (simp add: add.commute)
qed simp

lemma MakeFragDataHeader_fold:
  "MakeFragDataHeader h (Some mem) BINARY_HEADER_FRAG_LEN =
     Some (fst (fold put_tlv (frag_items h) (mem, 0, BINARY_HEADER_FRAG_LEN)))"
  by (simp add: MakeFragDataHeader_def frag_items_def frag_sizes Let_def)

lemma MakeFragDataHeader_bytes:
  assumes "BINARY_HEADER_FRAG_LEN \<le> length mem"
  shows "MakeFragDataHeader h (Some mem) BINARY_HEADER_FRAG_LEN =
    Some (frag_bytes h @ drop BINARY_HEADER_FRAG_LEN mem)"
proof -
  have "(\<Sum>it\<leftarrow>frag_items h. tlv_size it) = BINARY_HEADER_FRAG_LEN"
    by (simp add: frag_items_def tlv_size_def frag_sizes)
  then show ?thesis
    using assms put_tlvs [of "frag_items h" BINARY_HEADER_FRAG_LEN mem "[]"]
    unfolding MakeFragDataHeader_fold by (simp add: frag_bytes_def frag_sizes RSIZE_MAX_def)
qed

subsection \<open>What is read back\<close>

definition apply_frag :: "tlv_item \<Rightarrow> frag_header \<Rightarrow> frag_header option" where
  "apply_frag it h =
     (let res = copy_field (tlvType it) (le_bytes (unat (tlvLen it)) (tlvValue it)) h
      in if snd res = ERR_OK then Some (fst res) else None)"

definition loop_result :: "byte list \<Rightarrow> nat \<Rightarrow> frag_header \<Rightarrow> frag_header option ub" where
  "loop_result mem i h =
     ub_bind (frag_header_loop mem i h) (\<lambda>(h', r). Done (if r = ERR_OK then Some h' else None))"

lemma ReadTlvToHeader_item:
  assumes "mem = pre @ tlv_bytes it @ post" "tlv_size it \<le> left" "length pre + left \<le> length mem"
    and "apply_frag it h = Some h'"
  shows "ReadTlvToHeader mem (length pre) left h = Done (h', tlv_size it, ERR_OK)"
  using assms(2-4) tlv_fields [OF assms(1)]
  by (auto simp: ReadTlvToHeader_def U16Get_def apply_frag_def tlv_size_def be16_be16_bytes frag_sizes
      Let_def split: if_splits)

interpretation fh_reader: tlv_reader loop_result apply_frag BINARY_HEADER_FRAG_LEN
proof unfold_locales
  fix pre :: "byte list" and it post h h'
  assume *: "length pre + tlv_size it \<le> BINARY_HEADER_FRAG_LEN"
    "BINARY_HEADER_FRAG_LEN \<le> length (pre @ tlv_bytes it @ post)"
    "0 < unat (tlvLen it)" "apply_frag it h = Some h'"
  then have "ReadTlvToHeader (pre @ tlv_bytes it @ post) (length pre) (BINARY_HEADER_FRAG_LEN - length pre) h =
      Done (h', tlv_size it, ERR_OK)"
    by (intro ReadTlvToHeader_item [OF refl]) auto
  moreover have "length pre < BINARY_HEADER_FRAG_LEN"
    using * by (simp add: tlv_size_def)
  ultimately show "loop_result (pre @ tlv_bytes it @ post) (length pre) h =
      loop_result (pre @ tlv_bytes it @ post) (length pre + tlv_size it) h'"
    unfolding loop_result_def
    by (subst frag_header_loop.simps [of _ "length pre"]) simp
next
  fix mem h
  show "loop_result mem BINARY_HEADER_FRAG_LEN h = Done (Some h)"
    by (simp add: loop_result_def frag_header_loop.simps)
qed

lemma apply_frag_items: "apply_items apply_frag (frag_items h) h0 = Some h"
  by (cases h; cases h0)
    (simp add: frag_items_def apply_frag_def copy_field_def memcpy_s_ok_iff RSIZE_MAX_def
      memcpy_s_def wire_simps)

lemma frag_header_loop_bytes: "frag_header_loop (frag_bytes h @ payload) 0 h0 = Done (h, ERR_OK)"
proof -
  have "loop_result ([] @ concat (map tlv_bytes (frag_items h)) @ payload) (length ([] :: byte list)) h0 =
      Done (Some h)"
    by (rule fh_reader.loop_items [OF apply_frag_items])
      (simp_all add: frag_items_def tlv_size_def frag_sizes)
  then show ?thesis
    by (auto simp: loop_result_def frag_bytes_def ub_bind_Done_iff split: if_splits)
qed

lemma GetFragDataHeader_bytes:
  "GetFragDataHeader (Some (frag_bytes h @ payload)) h0 = Done (h, ItemRet ERR_OK)"
  by (simp add: GetFragDataHeader_def frag_header_loop_bytes)

interpretation fh_codec: frame_codec frag_bytes
  "\<lambda>mem. case GetFragDataHeader (Some mem) undefined of Done (h, ItemRet r) \<Rightarrow> if r = ERR_OK then Some h else None
     | _ \<Rightarrow> None"
  BINARY_HEADER_FRAG_LEN "\<lambda>_. True"
  by unfold_locales (simp_all add: GetFragDataHeader_bytes)

subsection \<open>The reader stays inside the packet\<close>

lemma ReadTlvToHeader_total:
  "pos + left \<le> length mem \<Longrightarrow> \<exists>res. ReadTlvToHeader mem pos left h = Done res"
  by (auto simp: ReadTlvToHeader_def U16Get_def frag_sizes Let_def)

lemma frag_header_loop_total:
  "BINARY_HEADER_FRAG_LEN \<le> length mem \<Longrightarrow> \<exists>res. frag_header_loop mem i h = Done res"
proof (induction mem i h rule: frag_header_loop.induct)
  case (1 mem i h)
  show ?case
  proof (cases "i < BINARY_HEADER_FRAG_LEN")
    case True
    with "1.prems" obtain h' index r where
      read: "ReadTlvToHeader mem i (BINARY_HEADER_FRAG_LEN - i) h = Done (h', index, r)"
      using ReadTlvToHeader_total [of i "BINARY_HEADER_FRAG_LEN - i" mem h] by auto
    then show ?thesis
      using True "1.IH" [OF True read refl refl] "1.prems"
      by (subst frag_header_loop.simps) auto
  next
    case False
    then show ?thesis by (subst frag_header_loop.simps) simp
  qed
qed

lemma GetFragDataHeader_total:
  "BINARY_HEADER_FRAG_LEN \<le> length mem \<Longrightarrow> \<exists>res. GetFragDataHeader (Some mem) h = Done res"
  using frag_header_loop_total [of mem 0 h] by (auto simp: GetFragDataHeader_def)

end
