(* ===== verification/Reassembly.thy ===== *)
theory Reassembly
  imports Frame_Codec
begin

text \<open>
  The contract between a fragmenting sender and a reassembling receiver. A message is cut into at
  least two chunks; the first travels as \<open>FRAG_START\<close> with sub-sequence number 0, the last as
  \<open>FRAG_END\<close>, the others as \<open>FRAG_MID\<close> with increasing numbers. The locale \<open>reassembler\<close> has the
  laws a receiver promises for one packet; its client lemma is about whole messages. Both receivers
  of the repository interpret it.
\<close>

text \<open>
  The SoftBus calls of a sender: the result of the \<open>k\<close>-th \<^verbatim>\<open>GetSessionOption\<close> with the send limit it
  stores, and of the \<open>k\<close>-th \<^verbatim>\<open>SendBytes\<close>.
\<close>

record softbus_env =
  getSessionOption :: "nat \<Rightarrow> ret \<times> u32"
  sendBytesRet :: "nat \<Rightarrow> ret"

fun tail_packets :: "(byte \<Rightarrow> nat \<Rightarrow> byte list \<Rightarrow> 'p) \<Rightarrow> nat \<Rightarrow> byte list list \<Rightarrow> 'p list" where
  "tail_packets pkt k [] = []"
| "tail_packets pkt k [c] = [pkt FRAG_END k c]"
| "tail_packets pkt k (c # cs) = pkt FRAG_MID k c # tail_packets pkt (Suc k) cs"

fun frag_packets :: "(byte \<Rightarrow> nat \<Rightarrow> byte list \<Rightarrow> 'p) \<Rightarrow> byte list list \<Rightarrow> 'p list" where
  "frag_packets pkt [] = []"
| "frag_packets pkt (c # cs) = pkt FRAG_START 0 c # tail_packets pkt 1 cs"

text \<open>Feeding packets to a receiver in order, collecting what it delivers.\<close>

fun run_recv :: "('s \<Rightarrow> 'p \<Rightarrow> ('s \<times> 'd list) ub) \<Rightarrow> 's \<Rightarrow> 'p list \<Rightarrow> ('s \<times> 'd list) ub" where
  "run_recv recv s [] = Done (s, [])"
| "run_recv recv s (p # ps) =
     ub_bind (recv s p) (\<lambda>(s1, ds). ub_bind (run_recv recv s1 ps) (\<lambda>(s2, ds'). Done (s2, ds @ ds')))"

lemma tail_packets_Cons_Cons:
  "cs \<noteq> [] \<Longrightarrow> tail_packets pkt k (c # cs) = pkt FRAG_MID k c # tail_packets pkt (Suc k) cs"
  by (cases cs) simp_all

lemma length_tail_packets [simp]: "length (tail_packets pkt k cs) = length cs"
  by (induction pkt k cs rule: tail_packets.induct) simp_all

lemma map_tail_packets: "map f (tail_packets pkt k cs) = tail_packets (\<lambda>b k c. f (pkt b k c)) k cs"
  by (induction pkt k cs rule: tail_packets.induct) simp_all

lemma run_recv_append:
  "run_recv recv s (ps @ qs) =
     ub_bind (run_recv recv s ps) (\<lambda>(s1, ds). ub_bind (run_recv recv s1 qs) (\<lambda>(s2, ds'). Done (s2, ds @ ds')))"
proof (induction ps arbitrary: s)
  case Nil
  then show ?case by (cases "run_recv recv s qs") auto
next
  case (Cons p ps)
  have assoc: "ub_bind (ub_bind m f) g = ub_bind m (\<lambda>x. ub_bind (f x) g)" for m :: "'x ub" and f g
    by (cases m) simp_all
  show ?case
    by (simp add: Cons.IH assoc case_prod_unfold)
qed

lemma run_recv_invariant:
  assumes "\<And>s p s' ds. I s \<Longrightarrow> recv s p = Done (s', ds) \<Longrightarrow> I s'"
    and "I s" "run_recv recv s ps = Done (s', ds)"
  shows "I s'"
  using assms(2,3)
  by (induction ps arbitrary: s ds) (fastforce simp: ub_bind_Done_iff dest: assms(1))+

locale reassembler =
  fixes recv :: "'s \<Rightarrow> 'p \<Rightarrow> ('s \<times> 'd list) ub"
    and out :: "byte list \<Rightarrow> 'd"
    and pkt :: "byte \<Rightarrow> nat \<Rightarrow> byte list \<Rightarrow> 'p"
    and total :: nat
    and fits :: "byte list \<Rightarrow> bool"
    and idle :: "'s \<Rightarrow> bool"
    and partial :: "'s \<Rightarrow> nat \<Rightarrow> byte list \<Rightarrow> bool"
  assumes recv_start: "\<And>s c. idle s \<Longrightarrow> fits c \<Longrightarrow> length c \<le> total \<Longrightarrow>
      \<exists>s'. recv s (pkt FRAG_START 0 c) = Done (s', []) \<and> partial s' 0 c"
    and recv_mid: "\<And>s k acc c. partial s k acc \<Longrightarrow> fits c \<Longrightarrow> length acc + length c \<le> total \<Longrightarrow> Suc k < 2 ^ 16 \<Longrightarrow>
      \<exists>s'. recv s (pkt FRAG_MID (Suc k) c) = Done (s', []) \<and> partial s' (Suc k) (acc @ c)"
    and recv_end: "\<And>s k acc c. partial s k acc \<Longrightarrow> fits c \<Longrightarrow> length acc + length c = total \<Longrightarrow> Suc k < 2 ^ 16 \<Longrightarrow>
      \<exists>s'. recv s (pkt FRAG_END (Suc k) c) = Done (s', [out (acc @ c)]) \<and> idle s'"
begin

lemma feed_tail:
  assumes "partial s k acc" "cs \<noteq> []" "\<forall>c \<in> set cs. fits c" "length acc + length (concat cs) = total"
    and "k + length cs < 2 ^ 16"
  shows "\<exists>s'. run_recv recv s (tail_packets pkt (Suc k) cs) = Done (s', [out (acc @ concat cs)]) \<and> idle s'"
  using assms
proof (induction cs arbitrary: s k acc)
  case (Cons c cs)
  show ?case
  proof (cases "cs = []")
    case True
    then show ?thesis
      using Cons.prems recv_end [of s k acc c] by auto
  next
    case False
    obtain s1 where s1: "recv s (pkt FRAG_MID (Suc k) c) = Done (s1, [])" "partial s1 (Suc k) (acc @ c)"
      using Cons.prems False recv_mid [of s k acc c] by (auto simp: neq_Nil_conv)
    with Cons.IH [OF s1(2) False] Cons.prems False show ?thesis
      by (auto simp: tail_packets_Cons_Cons)
  qed
qed simp

lemma feed_message:
  assumes "idle s" "2 \<le> length cs" "\<forall>c \<in> set cs. fits c" "length (concat cs) = total" "length cs \<le> 2 ^ 16"
  shows "\<exists>s'. run_recv recv s (frag_packets pkt cs) = Done (s', [out (concat cs)]) \<and> idle s'"
proof -
  from assms(2) obtain c cs' where cs: "cs = c # cs'" "cs' \<noteq> []"
    by (cases cs; cases "tl cs") auto
  then obtain s1 where "recv s (pkt FRAG_START 0 c) = Done (s1, [])" "partial s1 0 c"
    using assms recv_start [of s c] by auto
  then show ?thesis
    using cs assms feed_tail [of s1 0 c cs'] by auto
qed

end

end
