(* ===== verification/Softbus_Session.thy ===== *)
theory Softbus_Session
  imports Frag_Header Reassembly
begin

text \<open>
  One session of the scheduler's SoftBus transport, \<^verbatim>\<open>DSchedSoftbusSession\<close>
  (\<^verbatim>\<open>services/dtbschedmgr/src/softbus_adapter/transport/dsched_softbus_session.cpp\<close>): its
  reference count, the sender that cuts a buffer into packets and the receiver that puts packets
  together again.

  The SoftBus calls of the sender are the parameter \<open>softbus_env\<close>: the result of the \<open>k\<close>-th
  \<^verbatim>\<open>GetSessionOption\<close> and of the \<open>k\<close>-th \<^verbatim>\<open>SendBytes\<close> of one \<^verbatim>\<open>SendData\<close> call, so the send limit may
  change between packets and any send may fail. The calls of \<^verbatim>\<open>OnDataReady\<close> are the list of
  deliveries a receive step returns.
\<close>

abbreviation INVALID_SESSION_ID :: ret where "INVALID_SESSION_ID \<equiv> -1"
abbreviation SOFTBUS_SERVICE_ERR :: ret where "SOFTBUS_SERVICE_ERR \<equiv> 29360170"

definition BINARY_DATA_MAX_TOTAL_LEN :: u32 where "BINARY_DATA_MAX_TOTAL_LEN = 100 * 1024 * 1024"
definition BINARY_DATA_MAX_LEN :: u32 where "BINARY_DATA_MAX_LEN = 4 * 1024 * 1024"
definition BINARY_DATA_PACKET_RESERVED_BUFFER :: u32 where "BINARY_DATA_PACKET_RESERVED_BUFFER = 512"
definition FRAG_PROTOCOL_VERSION :: u16 where "FRAG_PROTOCOL_VERSION = 1"
definition COUNT_INIT_NUM :: int where "COUNT_INIT_NUM = 1"

lemmas session_consts = BINARY_DATA_MAX_TOTAL_LEN_def BINARY_DATA_MAX_LEN_def
  BINARY_DATA_PACKET_RESERVED_BUFFER_def FRAG_PROTOCOL_VERSION_def COUNT_INIT_NUM_def

record softbus_session =
  sbId :: int
  sbMyDeviceId :: string
  sbPeerDeviceId :: string
  sbSessionName :: string
  sbIsServer :: bool
  sbRefCount :: int
  sbIsWaiting :: bool
  sbNowSeq :: u32
  sbNowSubSeq :: u32
  sbOffset :: u32
  sbTotalLen :: u32
  sbPackBuffer :: "data_buffer option"

type_synonym delivery = "int \<times> data_buffer \<times> u32"

definition ResetAssembleFrag :: "softbus_session \<Rightarrow> softbus_session" where
  "ResetAssembleFrag s = s\<lparr>sbIsWaiting := False, sbNowSeq := 0, sbNowSubSeq := 0, sbOffset := 0,
     sbTotalLen := 0, sbPackBuffer := None\<rparr>"

definition DSchedSoftbusSession :: "int \<Rightarrow> string \<Rightarrow> string \<Rightarrow> string \<Rightarrow> bool \<Rightarrow> softbus_session" where
  "DSchedSoftbusSession sid my peer name srv =
     \<lparr>sbId = sid, sbMyDeviceId = my, sbPeerDeviceId = peer, sbSessionName = name, sbIsServer = srv,
      sbRefCount = COUNT_INIT_NUM, sbIsWaiting = False, sbNowSeq = 0, sbNowSubSeq = 0, sbOffset = 0,
      sbTotalLen = 0, sbPackBuffer = None\<rparr>"

definition OnConnect :: "softbus_session \<Rightarrow> softbus_session" where
  "OnConnect s = s\<lparr>sbRefCount := sbRefCount s + 1\<rparr>"

definition OnDisconnect :: "softbus_session \<Rightarrow> softbus_session \<times> bool" where
  "OnDisconnect s =
     (let s' = s\<lparr>sbRefCount := sbRefCount s - 1\<rparr> in (s', sbRefCount s' \<le> 0))"

subsection \<open>The receiver\<close>

definition CheckUnPackBuffer :: "softbus_session \<Rightarrow> frag_header \<Rightarrow> ret" where
  "CheckUnPackBuffer s h =
     (if \<not> sbIsWaiting s then INVALID_PARAMETERS_ERR
      else if sbNowSeq s \<noteq> fSeqNum h then INVALID_PARAMETERS_ERR
      else if sbNowSubSeq s + 1 \<noteq> ucast (fSubSeq h) then INVALID_PARAMETERS_ERR
      else if sbTotalLen s < fDataLen h + sbOffset s then INVALID_PARAMETERS_ERR
      else ERR_OK)"

definition AssembleNoFrag :: "softbus_session \<Rightarrow> data_buffer \<Rightarrow> frag_header \<Rightarrow> delivery list ub" where
  "AssembleNoFrag s buffer h =
     (if fDataLen h \<noteq> fTotalLen h then Done []
      else
        let postData = DSchedDataBuffer (unat (fDataLen h)) in
        if Size buffer < BINARY_HEADER_FRAG_LEN then Done []
        else
          let dataSize = unat (word_of_nat (Size buffer - BINARY_HEADER_FRAG_LEN) :: u32);
              r = memcpy_s (Data postData = None) (Size postData) (Data buffer = None) dataSize
          in if r \<noteq> ERR_OK then Done []
             else ub_bind (peek (the (Data buffer)) BINARY_HEADER_FRAG_LEN dataSize)
                    (\<lambda>bs. Done [(sbId s, buf_write postData 0 bs, fDataType h)]))"

text \<open>The three blocks of \<^verbatim>\<open>AssembleFrag\<close>; a null \<^verbatim>\<open>packBuffer_\<close> is dereferenced in the second.\<close>

definition AssembleFrag :: "softbus_session \<Rightarrow> data_buffer \<Rightarrow> frag_header \<Rightarrow> (softbus_session \<times> delivery list) ub" where
  "AssembleFrag s buffer h =
     (if fFragFlag h = FRAG_START then
        (let pack = DSchedDataBuffer (unat (fTotalLen h));
             s1 = s\<lparr>sbIsWaiting := True, sbNowSeq := fSeqNum h, sbNowSubSeq := ucast (fSubSeq h), sbOffset := 0,
                    sbTotalLen := fTotalLen h, sbPackBuffer := Some pack\<rparr>
         in if Size buffer < BINARY_HEADER_FRAG_LEN then Done (s1, [])
            else
              let dataSize = unat (word_of_nat (Size buffer - BINARY_HEADER_FRAG_LEN) :: u32);
                  r = memcpy_s (Data pack = None) (Size pack) (Data buffer = None) dataSize
              in if r \<noteq> ERR_OK then Done (ResetAssembleFrag s1, [])
                 else ub_bind (peek (the (Data buffer)) BINARY_HEADER_FRAG_LEN dataSize)
                        (\<lambda>bs. Done (s1\<lparr>sbPackBuffer := Some (buf_write pack 0 bs),
                                      sbOffset := sbOffset s1 + fDataLen h\<rparr>, [])))
      else if fFragFlag h = FRAG_MID \<or> fFragFlag h = FRAG_END then
        (if CheckUnPackBuffer s h \<noteq> ERR_OK then Done (ResetAssembleFrag s, [])
         else
           let s1 = s\<lparr>sbNowSubSeq := ucast (fSubSeq h)\<rparr> in
           case sbPackBuffer s1 of
             None \<Rightarrow> OutOfBounds
           | Some pack \<Rightarrow>
               let off = unat (sbOffset s1);
                   dataSize = size_sub (Size buffer) BINARY_HEADER_FRAG_LEN;
                   r = memcpy_s (Data pack = None) (size_sub (Size pack) off) (Data buffer = None) dataSize
               in if r \<noteq> ERR_OK then Done (ResetAssembleFrag s1, [])
                  else ub_bind (peek (the (Data buffer)) BINARY_HEADER_FRAG_LEN dataSize)
                         (\<lambda>bs. let pack' = buf_write pack off bs;
                                   s2 = s1\<lparr>sbPackBuffer := Some pack', sbOffset := sbOffset s1 + fDataLen h\<rparr>
                               in if fFragFlag h = FRAG_END
                                  then Done (ResetAssembleFrag s2, [(sbId s, pack', fDataType h)])
                                  else Done (s2, [])))
      else Done (s, []))"

definition PackRecvData :: "frag_header \<Rightarrow> softbus_session \<Rightarrow> data_buffer option \<Rightarrow> (softbus_session \<times> delivery list) ub" where
  "PackRecvData junk s buffer =
     (case buffer of
        None \<Rightarrow> Done (s, [])
      | Some b \<Rightarrow>
          if Size b < BINARY_HEADER_FRAG_LEN then Done (s, [])
          else ub_bind (GetFragDataHeader (Data b) junk) (\<lambda>(h, r).
            if r \<noteq> ItemRet ERR_OK then Done (s, [])
            else if Size b \<noteq> unat (fDataLen h + of_nat BINARY_HEADER_FRAG_LEN) \<or> fDataLen h > fTotalLen h \<or>
              fDataLen h > BINARY_DATA_MAX_LEN \<or> fTotalLen h > BINARY_DATA_MAX_TOTAL_LEN then Done (s, [])
            else if fFragFlag h = FRAG_START_END
              then ub_bind (AssembleNoFrag s b h) (\<lambda>ds. Done (s, ds))
            else AssembleFrag s b h))"

definition OnBytesReceived :: "frag_header \<Rightarrow> softbus_session \<Rightarrow> data_buffer option \<Rightarrow> (softbus_session \<times> delivery list \<times> ret) ub" where
  "OnBytesReceived junk s buffer =
     (case buffer of
        None \<Rightarrow> Done (s, [], INVALID_PARAMETERS_ERR)
      | Some b \<Rightarrow> ub_bind (PackRecvData junk s buffer) (\<lambda>(s', ds). Done (s', ds, ERR_OK)))"

subsection \<open>The sender\<close>

definition SetHeadParaDataLen :: "frag_header \<Rightarrow> u32 \<Rightarrow> u32 \<Rightarrow> u32 \<Rightarrow> frag_header" where
  "SetHeadParaDataLen headPara totalLen off maxSendSize =
     (if totalLen - off > maxSendSize
      then headPara\<lparr>fDataLen := maxSendSize - BINARY_DATA_PACKET_RESERVED_BUFFER\<rparr>
      else headPara\<lparr>fFragFlag := FRAG_END, fDataLen := totalLen - off\<rparr>)"

text \<open>\<open>SendBytesBySoftbus\<close>: the bytes handed to \<^verbatim>\<open>SendBytes\<close> and the return code.\<close>

definition SendBytesBySoftbus :: "softbus_env \<Rightarrow> nat \<Rightarrow> data_buffer option \<Rightarrow> byte list list \<times> ret" where
  "SendBytesBySoftbus env k dataBuffer =
     (case dataBuffer of
        Some b \<Rightarrow> ([buf_bytes b], sendBytesRet env k)
      | None \<Rightarrow> ([], INVALID_PARAMETERS_ERR))"

text \<open>
  The packet of one turn of the loop: header and payload copied into a new buffer, or the failure
  of the copy. The destination \<^verbatim>\<open>unpackData->Data() + 49\<close> is not the null pointer even when the
  allocation failed; the destination size has then wrapped around.
\<close>

definition frag_packet :: "data_buffer \<Rightarrow> frag_header \<Rightarrow> u32 \<Rightarrow> (ret + data_buffer) ub" where
  "frag_packet buffer h off =
     (let unpackData = DSchedDataBuffer (unat (fDataLen h + of_nat BINARY_HEADER_FRAG_LEN));
          unpackData1 = unpackData\<lparr>dataPtr := MakeFragDataHeader h (Data unpackData) BINARY_HEADER_FRAG_LEN\<rparr>;
          r = memcpy_s False (size_sub (Size unpackData) BINARY_HEADER_FRAG_LEN) (Data buffer = None)
                (unat (fDataLen h))
      in if r \<noteq> ERR_OK then Done (Inl r)
         else ub_bind (peek (the (Data buffer)) (unat off) (unat (fDataLen h)))
                (\<lambda>bs. Done (Inr (buf_write unpackData1 BINARY_HEADER_FRAG_LEN bs))))"

lemma SetHeadParaDataLen_progress:
  assumes "off < totalLen" "\<not> maxSendSize \<le> BINARY_DATA_PACKET_RESERVED_BUFFER"
  shows "off < off + fDataLen (SetHeadParaDataLen h totalLen off maxSendSize)"
    and "off + fDataLen (SetHeadParaDataLen h totalLen off maxSendSize) \<le> totalLen"
proof -
  let ?n = "fDataLen (SetHeadParaDataLen h totalLen off maxSendSize)"
  have sub: "unat (totalLen - off) = unat totalLen - unat off" "unat off < unat totalLen"
    using assms(1) unat_sub [OF less_imp_le [OF assms(1)]] by (simp_all add: word_less_nat_alt)
  have "0 < unat ?n \<and> unat ?n \<le> unat totalLen - unat off"
  proof (cases "totalLen - off > maxSendSize")
    case True
    moreover have "unat (maxSendSize - 512) = unat maxSendSize - 512" "512 < unat maxSendSize"
      using assms(2) unat_sub [of 512 maxSendSize] by (simp_all add: session_consts word_le_nat_alt)
    ultimately show ?thesis
      using sub by (simp add: SetHeadParaDataLen_def session_consts word_less_nat_alt)
  next
    case False
    then show ?thesis
      using sub by (simp add: SetHeadParaDataLen_def)
  qed
  moreover have "unat totalLen < 2 ^ 32"
    using unsigned_less [of totalLen] by simp
  ultimately have "unat (off + ?n) = unat off + unat ?n"
    using sub by (intro unat_add_lem [THEN iffD1]) (simp, linarith)
  with \<open>0 < unat ?n \<and> unat ?n \<le> unat totalLen - unat off\<close> sub
  show "off < off + ?n" "off + ?n \<le> totalLen"
    by (simp_all add: word_less_nat_alt word_le_nat_alt) linarith
qed

function unpack_loop :: "softbus_env \<Rightarrow> data_buffer \<Rightarrow> u32 \<Rightarrow> nat \<Rightarrow> frag_header \<Rightarrow> u32 \<Rightarrow> u32 \<Rightarrow> (byte list list \<times> ret) ub" where
  "unpack_loop env buffer totalLen k h off maxSendSize =
     (if \<not> off < totalLen then Done ([], ERR_OK)
      else if maxSendSize \<le> BINARY_DATA_PACKET_RESERVED_BUFFER then Done ([], SOFTBUS_SERVICE_ERR)
      else
        let h1 = SetHeadParaDataLen h totalLen off maxSendSize in
        case frag_packet buffer h1 off of
          OutOfBounds \<Rightarrow> OutOfBounds
        | Done (Inl r) \<Rightarrow> Done ([], r)
        | Done (Inr unpackData) \<Rightarrow>
            let (sent, r) = SendBytesBySoftbus env k (Some unpackData) in
            if r \<noteq> ERR_OK then Done (sent, r)
            else
              let h2 = h1\<lparr>fSubSeq := fSubSeq h1 + 1, fFragFlag := FRAG_MID\<rparr>;
                  (r', maxSendSize') = getSessionOption env (Suc k)
              in if r' \<noteq> ERR_OK then Done (sent, r')
                 else ub_bind (unpack_loop env buffer totalLen (Suc k) h2 (off + fDataLen h1) maxSendSize')
                        (\<lambda>(ps, r''). Done (sent @ ps, r'')))"
  by pat_completeness auto
termination
proof (relation "measure (\<lambda>(env, buffer, totalLen, k, h, off, maxSendSize). unat totalLen - unat off)", goal_cases)
  case 1
  then show ?case by simp
next
  case (2 env buffer totalLen k h off maxSendSize)
  then show ?case
    using SetHeadParaDataLen_progress [of off totalLen maxSendSize h]
    by (simp add: word_less_nat_alt word_le_nat_alt)
qed

declare unpack_loop.simps [simp del]

definition UnPackStartEndData :: "softbus_env \<Rightarrow> data_buffer option \<Rightarrow> u32 \<Rightarrow> (byte list list \<times> ret) ub" where
  "UnPackStartEndData env buffer dataType =
     (case buffer of
        None \<Rightarrow> Done ([], INVALID_SESSION_ID)
      | Some b \<Rightarrow>
          let headPara = \<lparr>fVersion = FRAG_PROTOCOL_VERSION, fFragFlag = FRAG_START_END, fDataType = dataType,
                fSeqNum = 0, fTotalLen = word_of_nat (Size b), fSubSeq = 0, fDataLen = word_of_nat (Size b)\<rparr>;
              unpackData = DSchedDataBuffer (Size b + BINARY_HEADER_FRAG_LEN)
          in if Size unpackData < BINARY_HEADER_FRAG_LEN then Done ([], INVALID_SESSION_ID)
             else
               let unpackData1 = unpackData\<lparr>dataPtr :=
                     MakeFragDataHeader headPara (Data unpackData) BINARY_HEADER_FRAG_LEN\<rparr>;
                   r = memcpy_s False (size_sub (Size unpackData) BINARY_HEADER_FRAG_LEN) (Data b = None) (Size b)
               in if r \<noteq> ERR_OK then Done ([], r)
                  else ub_bind (peek (the (Data b)) 0 (Size b))
                         (\<lambda>bs. Done (SendBytesBySoftbus env 0
                                 (Some (buf_write unpackData1 BINARY_HEADER_FRAG_LEN bs)))))"

definition UnPackSendData :: "softbus_env \<Rightarrow> data_buffer \<Rightarrow> u32 \<Rightarrow> (byte list list \<times> ret) ub" where
  "UnPackSendData env buffer dataType =
     (let (r, maxSendSize) = getSessionOption env 0 in
      if r \<noteq> ERR_OK then Done ([], r)
      else if Size buffer \<le> unat maxSendSize then UnPackStartEndData env (Some buffer) dataType
      else
        let totalLen = word_of_nat (Size buffer);
            headPara = \<lparr>fVersion = FRAG_PROTOCOL_VERSION, fFragFlag = FRAG_START, fDataType = dataType,
              fSeqNum = 0, fTotalLen = totalLen, fSubSeq = 0, fDataLen = 0\<rparr>
        in unpack_loop env buffer totalLen 0 headPara 0 maxSendSize)"

text \<open>\<open>SendData\<close> gives the bytes handed to SoftBus and its own return code.\<close>

definition SendData :: "softbus_env \<Rightarrow> data_buffer option \<Rightarrow> u32 \<Rightarrow> (byte list list \<times> ret) ub" where
  "SendData env buffer dataType =
     (case buffer of
        None \<Rightarrow> Done ([], INVALID_PARAMETERS_ERR)
      | Some b \<Rightarrow> ub_bind (UnPackSendData env b dataType) (\<lambda>(sent, r). Done (sent, ERR_OK)))"

subsection \<open>The receiver's invariant\<close>

text \<open>
  Between packets the session either waits for nothing and holds no buffer, or it waits for the
  rest of a message: the buffer has the announced size and the write position is inside it.
\<close>

definition session_inv :: "softbus_session \<Rightarrow> bool" where
  "session_inv s \<longleftrightarrow>
     (case sbPackBuffer s of
        None \<Rightarrow> \<not> sbIsWaiting s
      | Some b \<Rightarrow> sbIsWaiting s \<and> buffer_wf b \<and> rangeOffset b = 0 \<and> rangeLength b = capacity b \<and> 0 < Size b \<and>
          Size b = unat (sbTotalLen s) \<and> unat (sbOffset s) \<le> unat (sbTotalLen s))"

lemma session_inv_reset [simp]: "session_inv (ResetAssembleFrag s)"
  by (simp add: session_inv_def ResetAssembleFrag_def)

lemma session_inv_new [simp]: "session_inv (DSchedSoftbusSession sid my peer name srv)"
  by (simp add: session_inv_def DSchedSoftbusSession_def)

lemma reset_keeps [simp]:
  "sbId (ResetAssembleFrag s) = sbId s" "sbPeerDeviceId (ResetAssembleFrag s) = sbPeerDeviceId s"
  "sbRefCount (ResetAssembleFrag s) = sbRefCount s" "sbIsWaiting (ResetAssembleFrag s) = False"
  "sbPackBuffer (ResetAssembleFrag s) = None"
  by (simp_all add: ResetAssembleFrag_def)

text \<open>What \<^verbatim>\<open>PackRecvData\<close> has checked before it assembles.\<close>

definition accepted :: "data_buffer \<Rightarrow> frag_header \<Rightarrow> bool" where
  "accepted b h \<longleftrightarrow> buffer_wf b \<and> Size b = unat (fDataLen h) + BINARY_HEADER_FRAG_LEN \<and>
     unat (fDataLen h) \<le> unat (fTotalLen h) \<and> unat (fDataLen h) \<le> 4 * 1024 * 1024 \<and>
     unat (fTotalLen h) \<le> 100 * 1024 * 1024"

lemma PackRecvData_checks:
  assumes "buffer_wf b"
  shows "(Size b \<noteq> unat (fDataLen h + of_nat BINARY_HEADER_FRAG_LEN) \<or> fDataLen h > fTotalLen h \<or>
     fDataLen h > BINARY_DATA_MAX_LEN \<or> fTotalLen h > BINARY_DATA_MAX_TOTAL_LEN) \<longleftrightarrow> \<not> accepted b h"
proof -
  have "unat (fDataLen h) \<le> 4194304 \<longrightarrow> unat (fDataLen h + 49) = unat (fDataLen h) + 49"
    by (intro impI, intro unat_add_lem [THEN iffD1, THEN trans]) simp_all
  then show ?thesis
    using assms
    by (auto simp: accepted_def session_consts frag_sizes word_less_nat_alt word_le_nat_alt not_less not_le)
qed

lemma accepted_payload:
  assumes "accepted b h"
  shows "\<exists>m. Data b = Some m \<and> BINARY_HEADER_FRAG_LEN + unat (fDataLen h) \<le> length m \<and>
      unat (word_of_nat (Size b - BINARY_HEADER_FRAG_LEN) :: u32) = unat (fDataLen h) \<and>
      size_sub (Size b) BINARY_HEADER_FRAG_LEN = unat (fDataLen h)"
proof -
  have "0 < Size b" "Size b < 2 ^ 64" "buffer_wf b"
    using assms buffer_Size_less [of b] by (auto simp: accepted_def frag_sizes DSCHED_MAX_BUFFER_SIZE_def)
  then obtain m where "Data b = Some m" "Size b \<le> length m"
    using buffer_Data [of b] by auto
  then show ?thesis
    using assms \<open>Size b < 2 ^ 64\<close>
    by (simp add: accepted_def size_sub_le add.commute)
qed

lemma AssembleNoFrag_total:
  assumes "accepted b h"
  shows "\<exists>ds. AssembleNoFrag s b h = Done ds \<and> (\<forall>(i, d, t) \<in> set ds. i = sbId s \<and> buffer_full d)"
  using accepted_payload [OF assms]
  by (auto simp: AssembleNoFrag_def Let_def memcpy_s_ok_iff buffer_full_def intro!: buf_write_wf)

definition same_session :: "softbus_session \<Rightarrow> softbus_session \<Rightarrow> bool" where
  "same_session s s' \<longleftrightarrow> sbId s' = sbId s \<and> sbMyDeviceId s' = sbMyDeviceId s \<and>
     sbPeerDeviceId s' = sbPeerDeviceId s \<and> sbSessionName s' = sbSessionName s \<and>
     sbIsServer s' = sbIsServer s \<and> sbRefCount s' = sbRefCount s"

lemma same_session_simps [simp]:
  "same_session s s" "same_session s (ResetAssembleFrag s') = same_session s s'"
  "same_session s (s'\<lparr>sbIsWaiting := w\<rparr>) = same_session s s'" "same_session s (s'\<lparr>sbNowSeq := q\<rparr>) = same_session s s'"
  "same_session s (s'\<lparr>sbNowSubSeq := n\<rparr>) = same_session s s'" "same_session s (s'\<lparr>sbOffset := n\<rparr>) = same_session s s'"
  "same_session s (s'\<lparr>sbTotalLen := n\<rparr>) = same_session s s'" "same_session s (s'\<lparr>sbPackBuffer := b\<rparr>) = same_session s s'"
  by (auto simp: same_session_def ResetAssembleFrag_def)

definition step_ok :: "softbus_session \<Rightarrow> (softbus_session \<times> delivery list) ub \<Rightarrow> bool" where
  "step_ok s r \<longleftrightarrow> (\<exists>s' ds. r = Done (s', ds) \<and> session_inv s' \<and> same_session s s' \<and>
     (\<forall>(i, d, t) \<in> set ds. i = sbId s \<and> buffer_full d))"

lemma AssembleFrag_start_ok:
  assumes "accepted b h" "fFragFlag h = FRAG_START"
  shows "step_ok s (AssembleFrag s b h)"
proof -
  let ?pack = "DSchedDataBuffer (unat (fTotalLen h))"
  obtain m where m: "Data b = Some m" "BINARY_HEADER_FRAG_LEN + unat (fDataLen h) \<le> length m"
    "unat (word_of_nat (Size b - BINARY_HEADER_FRAG_LEN) :: u32) = unat (fDataLen h)"
    using accepted_payload [OF assms(1)] by auto
  have notsmall: "\<not> Size b < BINARY_HEADER_FRAG_LEN"
    using assms(1) by (simp add: accepted_def)
  show ?thesis
  proof (cases "Data ?pack = None")
    case True
    with m assms notsmall show ?thesis
      by (simp add: AssembleFrag_def memcpy_s_def EINVAL_def step_ok_def Let_def)
  next
    case False
    then have pack: "0 < unat (fTotalLen h)" "unat (fTotalLen h) < DSCHED_MAX_BUFFER_SIZE"
      by (auto simp: DSchedDataBuffer_def Data_def split: if_splits)
    let ?bs = "take (unat (fDataLen h)) (drop BINARY_HEADER_FRAG_LEN m)"
    have le: "unat (fDataLen h) \<le> unat (fTotalLen h)"
      using assms(1) by (simp add: accepted_def)
    have "Size ?pack = unat (fTotalLen h)" "rangeOffset ?pack = 0"
      using pack by (simp_all add: DSchedDataBuffer_ok Size_def)
    then have "buffer_wf (buf_write ?pack 0 ?bs)" "Size (buf_write ?pack 0 ?bs) = unat (fTotalLen h)"
      "rangeOffset (buf_write ?pack 0 ?bs) = 0"
      using m(2) le by (auto intro!: buf_write_wf)
    with m assms notsmall False pack le show ?thesis
      by (simp add: AssembleFrag_def step_ok_def Let_def memcpy_s_def session_inv_def EINVAL_def ERANGE_def)
  qed
qed

text \<open>The state after an accepted further fragment.\<close>

definition next_session :: "softbus_session \<Rightarrow> frag_header \<Rightarrow> byte list \<Rightarrow> softbus_session" where
  "next_session s h m = s\<lparr>sbNowSubSeq := ucast (fSubSeq h),
     sbPackBuffer := map_option (\<lambda>pack. buf_write pack (unat (sbOffset s))
       (take (unat (fDataLen h)) (drop BINARY_HEADER_FRAG_LEN m))) (sbPackBuffer s),
     sbOffset := sbOffset s + fDataLen h\<rparr>"

lemma next_room:
  assumes "accepted b h" "session_inv s" "CheckUnPackBuffer s h = ERR_OK"
  shows "unat (sbOffset s) + unat (fDataLen h) \<le> unat (sbTotalLen s)"
    "unat (sbOffset s + fDataLen h) = unat (sbOffset s) + unat (fDataLen h)"
    "unat (sbTotalLen s) < DSCHED_MAX_BUFFER_SIZE"
proof -
  from assms(3) have wait: "sbIsWaiting s" and room: "\<not> sbTotalLen s < fDataLen h + sbOffset s"
    by (auto simp: CheckUnPackBuffer_def split: if_splits)
  with assms(2) obtain pack where "buffer_wf pack"
    "Size pack = unat (sbTotalLen s)" "unat (sbOffset s) \<le> unat (sbTotalLen s)"
    by (auto simp: session_inv_def split: option.splits)
  then have lim: "unat (sbTotalLen s) < DSCHED_MAX_BUFFER_SIZE" "unat (sbOffset s) < DSCHED_MAX_BUFFER_SIZE"
    using buffer_Size_less [of pack] by simp_all
  then have "unat (fDataLen h + sbOffset s) = unat (fDataLen h) + unat (sbOffset s)"
    using assms(1) by (intro unat_add_lem [THEN iffD1]) (simp add: accepted_def DSCHED_MAX_BUFFER_SIZE_def)
  with room lim show "unat (sbOffset s) + unat (fDataLen h) \<le> unat (sbTotalLen s)"
    "unat (sbOffset s + fDataLen h) = unat (sbOffset s) + unat (fDataLen h)"
    "unat (sbTotalLen s) < DSCHED_MAX_BUFFER_SIZE"
    by (simp_all add: word_less_nat_alt not_less add.commute)
qed

lemma AssembleFrag_next_eq:
  assumes "accepted b h" "fFragFlag h = FRAG_MID \<or> fFragFlag h = FRAG_END" "session_inv s"
    and "CheckUnPackBuffer s h = ERR_OK" "Data b = Some m"
  shows "session_inv (next_session s h m)"
    and "AssembleFrag s b h =
      (if fFragFlag h = FRAG_END
       then Done (ResetAssembleFrag (next_session s h m), [(sbId s, the (sbPackBuffer (next_session s h m)), fDataType h)])
       else Done (next_session s h m, []))"
proof -
  have m: "BINARY_HEADER_FRAG_LEN + unat (fDataLen h) \<le> length m"
    "size_sub (Size b) BINARY_HEADER_FRAG_LEN = unat (fDataLen h)"
    using accepted_payload [OF assms(1)] assms(5) by auto
  note room = next_room [OF assms(1,3,4)]
  from assms(3,4) obtain pack where pack: "sbPackBuffer s = Some pack" "buffer_wf pack" "rangeOffset pack = 0"
    "0 < Size pack" "Size pack = unat (sbTotalLen s)" and wait: "sbIsWaiting s" "rangeLength pack = capacity pack"
    by (auto simp: session_inv_def CheckUnPackBuffer_def split: option.splits if_splits)
  let ?bs = "take (unat (fDataLen h)) (drop BINARY_HEADER_FRAG_LEN m)"
  have "buffer_wf (buf_write pack (unat (sbOffset s)) ?bs)"
    using pack m(1) room by (auto intro!: buf_write_wf)
  then show "session_inv (next_session s h m)"
    using pack room wait by (simp add: session_inv_def next_session_def)
  have "Data pack \<noteq> None"
    using pack buffer_Data [of pack] by auto
  moreover have "size_sub (Size pack) (unat (sbOffset s)) = unat (sbTotalLen s) - unat (sbOffset s)"
    using pack room by (simp add: size_sub_le DSCHED_MAX_BUFFER_SIZE_def)
  moreover have "unat (sbTotalLen s) - unat (sbOffset s) \<le> RSIZE_MAX"
    "unat (fDataLen h) \<le> unat (sbTotalLen s) - unat (sbOffset s)"
    using room by (simp_all add: RSIZE_MAX_def DSCHED_MAX_BUFFER_SIZE_def)
  ultimately have copy: "memcpy_s (Data pack = None) (size_sub (Size pack) (unat (sbOffset s))) False
      (unat (fDataLen h)) = ERR_OK"
    by (simp add: memcpy_s_ok_iff)
  show "AssembleFrag s b h =
      (if fFragFlag h = FRAG_END
       then Done (ResetAssembleFrag (next_session s h m), [(sbId s, the (sbPackBuffer (next_session s h m)), fDataType h)])
       else Done (next_session s h m, []))"
    using assms(2,4,5) pack(1) m copy
    by (elim disjE) (simp_all add: AssembleFrag_def Let_def next_session_def)
qed

lemma AssembleFrag_next_ok:
  assumes "accepted b h" "fFragFlag h = FRAG_MID \<or> fFragFlag h = FRAG_END" "session_inv s"
  shows "step_ok s (AssembleFrag s b h)"
proof (cases "CheckUnPackBuffer s h = ERR_OK")
  case False
  with assms(2) show ?thesis
    by (auto simp: AssembleFrag_def step_ok_def Let_def)
next
  case True
  obtain m where "Data b = Some m"
    using accepted_payload [OF assms(1)] by auto
  note eq = AssembleFrag_next_eq [OF assms True this]
  have "same_session s (next_session s h m)"
    by (simp add: next_session_def)
  moreover have "buffer_full (the (sbPackBuffer (next_session s h m)))"
    using eq(1) assms(3) True
    by (auto simp: buffer_full_def session_inv_def next_session_def CheckUnPackBuffer_def split: option.splits if_splits)
  ultimately show ?thesis
    using eq by (simp add: step_ok_def)
qed

lemma PackRecvData_ok:
  assumes "session_inv s" "\<And>b. buffer = Some b \<Longrightarrow> buffer_wf b"
  shows "step_ok s (PackRecvData junk s buffer)"
proof (cases "\<exists>b. buffer = Some b \<and> BINARY_HEADER_FRAG_LEN \<le> Size b")
  case False
  with assms(1) show ?thesis
    by (auto simp: PackRecvData_def step_ok_def split: option.splits)
next
  case True
  then obtain b where b: "buffer = Some b" "BINARY_HEADER_FRAG_LEN \<le> Size b" "buffer_wf b"
    using assms(2) by auto
  then obtain m where m: "Data b = Some m" "BINARY_HEADER_FRAG_LEN \<le> length m"
    using buffer_Data [of b] by (auto simp: frag_sizes)
  then obtain h r where get: "GetFragDataHeader (Data b) junk = Done (h, r)"
    using GetFragDataHeader_total [of m junk] by auto
  have skip: "step_ok s (Done (s, []))"
    using assms(1) by (simp add: step_ok_def)
  have frag: "step_ok s (AssembleFrag s b h)" if "accepted b h"
  proof -
    consider "fFragFlag h = FRAG_START" | "fFragFlag h = FRAG_MID \<or> fFragFlag h = FRAG_END"
      | "fFragFlag h \<noteq> FRAG_START" "fFragFlag h \<noteq> FRAG_MID" "fFragFlag h \<noteq> FRAG_END"
      by blast
    then show ?thesis
      using that assms(1) AssembleFrag_start_ok AssembleFrag_next_ok skip
      by cases (simp_all add: AssembleFrag_def)
  qed
  have whole: "step_ok s (ub_bind (AssembleNoFrag s b h) (\<lambda>ds. Done (s, ds)))" if "accepted b h"
    using AssembleNoFrag_total [OF that, of s] assms(1) by (auto simp: step_ok_def)
  have "PackRecvData junk s buffer =
    (if r \<noteq> ItemRet ERR_OK \<or> \<not> accepted b h then Done (s, [])
     else if fFragFlag h = FRAG_START_END then ub_bind (AssembleNoFrag s b h) (\<lambda>ds. Done (s, ds))
     else AssembleFrag s b h)"
    using b get by (simp add: PackRecvData_def flip: PackRecvData_checks)
  then show ?thesis
    using skip frag whole by simp
qed

subsection \<open>Reassembling what a sender cuts\<close>

definition frag_head :: "u32 \<Rightarrow> nat \<Rightarrow> byte \<Rightarrow> nat \<Rightarrow> nat \<Rightarrow> frag_header" where
  "frag_head dt tot flag k n = \<lparr>fVersion = FRAG_PROTOCOL_VERSION, fFragFlag = flag, fDataType = dt, fSeqNum = 0,
     fTotalLen = word_of_nat tot, fSubSeq = word_of_nat k, fDataLen = word_of_nat n\<rparr>"

definition frag_pkt :: "u32 \<Rightarrow> nat \<Rightarrow> byte \<Rightarrow> nat \<Rightarrow> byte list \<Rightarrow> byte list" where
  "frag_pkt dt tot flag k c = frag_bytes (frag_head dt tot flag k (length c)) @ c"

text \<open>A receive step on the bytes of a packet, with what it delivers as (session, bytes, type).\<close>

definition recv_packet :: "frag_header \<Rightarrow> softbus_session \<Rightarrow> byte list \<Rightarrow> (softbus_session \<times> (int \<times> byte list \<times> u32) list) ub" where
  "recv_packet junk s bs =
     ub_bind (PackRecvData junk s (Some (packet_buffer bs)))
       (\<lambda>(s', ds). Done (s', map (\<lambda>(i, d, t). (i, buf_bytes d, t)) ds))"

definition chunk_fits :: "nat \<Rightarrow> byte list \<Rightarrow> bool" where
  "chunk_fits tot c \<longleftrightarrow> c \<noteq> [] \<and> length c \<le> 4 * 1024 * 1024 \<and> tot < DSCHED_MAX_BUFFER_SIZE"

definition session_idle :: "int \<Rightarrow> softbus_session \<Rightarrow> bool" where
  "session_idle sid s \<longleftrightarrow> session_inv s \<and> sbId s = sid"

definition session_partial :: "int \<Rightarrow> nat \<Rightarrow> softbus_session \<Rightarrow> nat \<Rightarrow> byte list \<Rightarrow> bool" where
  "session_partial sid tot s k acc \<longleftrightarrow> session_inv s \<and> sbId s = sid \<and> sbNowSeq s = 0 \<and> k < 2 ^ 16 \<and>
     sbNowSubSeq s = word_of_nat k \<and> sbTotalLen s = word_of_nat tot \<and> unat (sbOffset s) = length acc \<and>
     (case sbPackBuffer s of None \<Rightarrow> False | Some b \<Rightarrow> take (length acc) (buf_bytes b) = acc)"

lemma unat_small: "n < 2 ^ 32 \<Longrightarrow> unat (word_of_nat n :: u32) = n"
  by (simp add: unsigned_of_nat take_bit_nat_eq_self)

lemma unat_fields:
  assumes "chunk_fits tot c" "length c \<le> tot"
  shows "unat (word_of_nat tot :: u32) = tot" "unat (word_of_nat (length c) :: u32) = length c"
  using assms by (simp_all add: unat_small chunk_fits_def DSCHED_MAX_BUFFER_SIZE_def)

lemma PackRecvData_frame:
  fixes dt :: u32 and flag :: byte and k :: nat and junk :: frag_header and s :: softbus_session
  assumes "chunk_fits tot c" "length c \<le> tot"
  defines "h \<equiv> frag_head dt tot flag k (length c)"
    and "b \<equiv> packet_buffer (frag_pkt dt tot flag k c)"
  shows "accepted b h" "Data b = Some (frag_bytes h @ c)"
    and "flag \<noteq> FRAG_START_END \<Longrightarrow> PackRecvData junk s (Some b) = AssembleFrag s b h"
    and "flag = FRAG_START_END \<Longrightarrow>
      PackRecvData junk s (Some b) = ub_bind (AssembleNoFrag s b h) (\<lambda>ds. Done (s, ds))"
proof -
  have len: "length (frag_pkt dt tot flag k c) = BINARY_HEADER_FRAG_LEN + length c"
    by (simp add: frag_pkt_def)
  then have lim: "0 < length (frag_pkt dt tot flag k c)"
    "length (frag_pkt dt tot flag k c) < DSCHED_MAX_BUFFER_SIZE"
    using assms(1) by (simp_all add: chunk_fits_def frag_sizes DSCHED_MAX_BUFFER_SIZE_def)
  note b = packet_buffer_simps [OF lim]
  show data: "Data b = Some (frag_bytes h @ c)"
    unfolding b_def b(2) by (simp add: h_def frag_pkt_def)
  show acc: "accepted b h"
    using assms(1,2) b unat_fields [OF assms(1,2)]
    by (simp add: accepted_def b_def len h_def frag_head_def chunk_fits_def DSCHED_MAX_BUFFER_SIZE_def)
  have big: "\<not> Size b < BINARY_HEADER_FRAG_LEN" and wf: "buffer_wf b"
    by (simp_all add: b_def b len)
  have get: "GetFragDataHeader (Data b) junk = Done (h, ItemRet ERR_OK)"
    by (simp add: data GetFragDataHeader_bytes)
  have flag: "fFragFlag h = flag"
    by (simp add: h_def frag_head_def)
  note checks = PackRecvData_checks [OF wf, of h]
  have "PackRecvData junk s (Some b) =
    (if flag = FRAG_START_END then ub_bind (AssembleNoFrag s b h) (\<lambda>ds. Done (s, ds)) else AssembleFrag s b h)"
    using acc checks big get flag by (simp add: PackRecvData_def)
  then show "flag \<noteq> FRAG_START_END \<Longrightarrow> PackRecvData junk s (Some b) = AssembleFrag s b h"
    "flag = FRAG_START_END \<Longrightarrow>
      PackRecvData junk s (Some b) = ub_bind (AssembleNoFrag s b h) (\<lambda>ds. Done (s, ds))"
    by simp_all
qed

lemma take_poke: "pos \<le> length mem \<Longrightarrow> take (pos + length bs) (poke mem pos bs) = take pos mem @ bs"
  by (simp add: poke_def)

lemma recv_start:
  assumes "session_idle sid s" "chunk_fits tot c" "length c \<le> tot"
  shows "\<exists>s'. recv_packet junk s (frag_pkt dt tot FRAG_START 0 c) = Done (s', []) \<and> session_partial sid tot s' 0 c"
proof -
  let ?h = "frag_head dt tot FRAG_START 0 (length c)"
  let ?b = "packet_buffer (frag_pkt dt tot FRAG_START 0 c)"
  let ?pack = "DSchedDataBuffer tot"
  note frame = PackRecvData_frame [OF assms(2,3), where dt = dt and flag = FRAG_START and k = 0]
  have tot: "0 < tot" "tot < DSCHED_MAX_BUFFER_SIZE" "length c \<le> tot"
    using assms(2,3) by (cases c; simp add: chunk_fits_def)+
  note pack = DSchedDataBuffer_ok [OF tot(1,2)]
  note u = unat_fields [OF assms(2,3)]
  let ?s' = "s\<lparr>sbIsWaiting := True, sbNowSeq := 0, sbNowSubSeq := 0, sbOffset := word_of_nat (length c),
    sbTotalLen := word_of_nat tot, sbPackBuffer := Some (buf_write ?pack 0 c)\<rparr>"
  have "memcpy_s (Data ?pack = None) (Size ?pack) (Data ?b = None) (length c) = ERR_OK"
    using tot frame(2) by (auto simp: memcpy_s_ok_iff pack buffer_defs RSIZE_MAX_def DSCHED_MAX_BUFFER_SIZE_def)
  moreover have "unat (word_of_nat (Size ?b - BINARY_HEADER_FRAG_LEN) :: u32) = length c"
    using accepted_payload [OF frame(1)] u by (auto simp: frag_head_def)
  moreover have "\<not> Size ?b < BINARY_HEADER_FRAG_LEN"
    using frame(1) by (simp add: accepted_def)
  ultimately have "AssembleFrag s ?b ?h = Done (?s', [])"
    using frame(2) u by (simp add: AssembleFrag_def Let_def frag_head_def)
  then have "recv_packet junk s (frag_pkt dt tot FRAG_START 0 c) = Done (?s', [])"
    using frame(3) by (simp add: recv_packet_def)
  moreover have "session_partial sid tot ?s' 0 c"
    using assms(1) tot u
    by (simp add: session_partial_def session_inv_def session_idle_def Size_def pack buffer_wf_def
        buf_bytes_def buf_write_def poke_def)
  ultimately show ?thesis by blast
qed

lemma CheckUnPackBuffer_next:
  assumes "session_partial sid tot s k acc" "chunk_fits tot c" "length acc + length c \<le> tot" "Suc k < 2 ^ 16"
  shows "CheckUnPackBuffer s (frag_head dt tot flag (Suc k) (length c)) = ERR_OK"
proof -
  have "unat (word_of_nat (Suc k) :: u16) = Suc k"
    using assms(4) by (simp add: unsigned_of_nat take_bit_nat_eq_self del: of_nat_Suc)
  then have "(ucast (word_of_nat (Suc k) :: u16) :: u32) = word_of_nat (Suc k)"
    by (simp add: word_unat_eq_iff unsigned_ucast_eq unsigned_of_nat del: of_nat_Suc)
  moreover have "unat (word_of_nat (length c) + sbOffset s) = length c + length acc"
    using assms unat_fields [OF assms(2)]
    by (subst unat_add_lem [THEN iffD1]) (auto simp: session_partial_def chunk_fits_def DSCHED_MAX_BUFFER_SIZE_def)
  ultimately show ?thesis
    using assms unat_fields [OF assms(2)]
    by (auto simp: CheckUnPackBuffer_def session_partial_def frag_head_def session_inv_def word_less_nat_alt
        add.commute split: option.splits)
qed

definition after_next :: "u32 \<Rightarrow> nat \<Rightarrow> softbus_session \<Rightarrow> nat \<Rightarrow> byte \<Rightarrow> byte list \<Rightarrow> softbus_session" where
  "after_next dt tot s k flag c = next_session s (frag_head dt tot flag (Suc k) (length c))
     (frag_bytes (frag_head dt tot flag (Suc k) (length c)) @ c)"

lemma recv_next:
  assumes "session_partial sid tot s k acc" "chunk_fits tot c" "length acc + length c \<le> tot" "Suc k < 2 ^ 16"
  shows "recv_packet junk s (frag_pkt dt tot FRAG_MID (Suc k) c) = Done (after_next dt tot s k FRAG_MID c, [])"
    and "recv_packet junk s (frag_pkt dt tot FRAG_END (Suc k) c) =
      Done (ResetAssembleFrag (after_next dt tot s k FRAG_END c), [(sid, buf_bytes (the (sbPackBuffer (after_next dt tot s k FRAG_END c))), dt)])"
    and "session_partial sid tot (after_next dt tot s k flag c) (Suc k) (acc @ c)"
proof -
  let ?h = "\<lambda>flag. frag_head dt tot flag (Suc k) (length c)"
  have le: "length c \<le> tot"
    using assms(3) by simp
  note frame = PackRecvData_frame [OF assms(2) le, where dt = dt and k = "Suc k"]
  note chk = CheckUnPackBuffer_next [OF assms(1-4), of dt]
  have inv: "session_inv s" and sid: "sbId s = sid"
    using assms(1) by (simp_all add: session_partial_def)
  have flags: "fFragFlag (?h flag) = flag" "fDataType (?h flag) = dt" for flag
    by (simp_all add: frag_head_def)
  note mid = AssembleFrag_next_eq [OF frame(1) _ inv chk frame(2) [where flag = FRAG_MID], folded after_next_def]
  note fin = AssembleFrag_next_eq [OF frame(1) _ inv chk frame(2) [where flag = FRAG_END], folded after_next_def]
  show "recv_packet junk s (frag_pkt dt tot FRAG_MID (Suc k) c) = Done (after_next dt tot s k FRAG_MID c, [])"
    "recv_packet junk s (frag_pkt dt tot FRAG_END (Suc k) c) =
      Done (ResetAssembleFrag (after_next dt tot s k FRAG_END c), [(sid, buf_bytes (the (sbPackBuffer (after_next dt tot s k FRAG_END c))), dt)])"
    using frame(3) [where flag = FRAG_MID] frame(3) [where flag = FRAG_END] mid(2) fin(2)
    by (simp_all add: recv_packet_def flags sid)
  note u = unat_fields [OF assms(2) le]
  from assms(1) inv obtain pack where pack: "sbPackBuffer s = Some pack" "take (length acc) (buf_bytes pack) = acc"
    "unat (sbOffset s) = length acc" "buffer_wf pack" "Size pack = tot"
    using u by (auto simp: session_partial_def session_inv_def split: option.splits)
  have "unat (sbOffset s + word_of_nat (length c)) = length (acc @ c)"
    using next_room(2) [OF frame(1) inv chk] pack(3) u by (simp add: frag_head_def)
  moreover have "take (length (acc @ c)) (buf_bytes (buf_write pack (length acc) c)) = acc @ c"
    using pack assms(3) by (simp add: buf_bytes_write take_poke length_buf_bytes)
  moreover have "session_inv (after_next dt tot s k flag c)"
    using mid(1) flags
    by (simp add: after_next_def next_session_def frag_head_def)
  moreover have "(ucast (word_of_nat (Suc k) :: u16) :: u32) = word_of_nat (Suc k)"
    using chk [of flag] assms(1)
    by (auto simp: CheckUnPackBuffer_def frag_head_def session_partial_def add.commute split: if_splits)
  ultimately show "session_partial sid tot (after_next dt tot s k flag c) (Suc k) (acc @ c)"
    using assms(1,4) pack u sid
    by (simp add: session_partial_def after_next_def next_session_def frag_head_def)
qed

interpretation sb: reassembler "recv_packet junk" "\<lambda>bs. (sid, bs, dt)" "frag_pkt dt tot" tot "chunk_fits tot"
  "session_idle sid" "session_partial sid tot" for junk sid dt tot
proof unfold_locales
  fix s c
  assume "session_idle sid s" "chunk_fits tot c" "length c \<le> tot"
  then show "\<exists>s'. recv_packet junk s (frag_pkt dt tot FRAG_START 0 c) = Done (s', []) \<and> session_partial sid tot s' 0 c"
    by (rule recv_start)
next
  fix s k acc c
  assume *: "session_partial sid tot s k acc" "chunk_fits tot c" "length acc + length c \<le> tot" "Suc k < 2 ^ 16"
  show "\<exists>s'. recv_packet junk s (frag_pkt dt tot FRAG_MID (Suc k) c) = Done (s', []) \<and>
      session_partial sid tot s' (Suc k) (acc @ c)"
    using recv_next [OF *] by blast
next
  fix s k acc c
  assume *: "session_partial sid tot s k acc" "chunk_fits tot c" "length acc + length c = tot" "Suc k < 2 ^ 16"
  have le: "length acc + length c \<le> tot"
    using *(3) by simp
  note next' = recv_next [OF *(1,2) le *(4)]
  let ?s' = "after_next dt tot s k FRAG_END c"
  have "buf_bytes (the (sbPackBuffer ?s')) = acc @ c"
    using next'(3) [of dt FRAG_END] *(3) unat_fields [OF *(2)]
    by (auto simp: session_partial_def session_inv_def length_buf_bytes split: option.splits)
  then show "\<exists>s'. recv_packet junk s (frag_pkt dt tot FRAG_END (Suc k) c) = Done (s', [(sid, acc @ c, dt)]) \<and>
      session_idle sid s'"
    using next'(2,3) by (auto simp: session_idle_def session_partial_def)
qed

subsection \<open>What the sender puts on the wire\<close>

lemma size_sub_header: "size_sub (n + BINARY_HEADER_FRAG_LEN) BINARY_HEADER_FRAG_LEN = n" if "n < DSCHED_MAX_BUFFER_SIZE"
  using that by (simp add: size_sub_le frag_sizes DSCHED_MAX_BUFFER_SIZE_def)

text \<open>A new buffer with the header written at its start and a payload after it.\<close>

lemma framed_buffer:
  assumes "length c + BINARY_HEADER_FRAG_LEN < DSCHED_MAX_BUFFER_SIZE"
  defines "u \<equiv> DSchedDataBuffer (length c + BINARY_HEADER_FRAG_LEN)"
  shows "buf_bytes (buf_write (u\<lparr>dataPtr := MakeFragDataHeader h (Data u) BINARY_HEADER_FRAG_LEN\<rparr>)
      BINARY_HEADER_FRAG_LEN c) = frag_bytes h @ c"
proof -
  have u: "u = \<lparr>capacity = length c + BINARY_HEADER_FRAG_LEN, rangeOffset = 0,
      rangeLength = length c + BINARY_HEADER_FRAG_LEN, dataPtr = Some (replicate (length c + BINARY_HEADER_FRAG_LEN) 0)\<rparr>"
    using assms by (simp add: DSchedDataBuffer_ok frag_sizes)
  have "poke (frag_bytes h @ replicate (length c) 0) BINARY_HEADER_FRAG_LEN c = frag_bytes h @ c"
    using poke_prefix [of c "replicate (length c) 0" "frag_bytes h"] by simp
  then show ?thesis
    by (simp add: u Data_def MakeFragDataHeader_bytes buf_write_def buf_bytes_def)
qed

lemma frag_packet_ok:
  assumes "buffer_wf buffer" "Size buffer = tot" "off + n \<le> tot" "0 < n" "n \<le> 4 * 1024 * 1024"
    and "fDataLen h = word_of_nat n"
  shows "\<exists>b. frag_packet buffer h (word_of_nat off) = Done (Inr b) \<and>
    buf_bytes b = frag_bytes h @ take n (drop off (buf_bytes buffer))"
proof -
  obtain m where m: "Data buffer = Some m" "tot \<le> length m" "buf_bytes buffer = take tot m"
    using buffer_Data [OF assms(1)] assms(2-4) by auto
  have tot: "tot < DSCHED_MAX_BUFFER_SIZE"
    using buffer_Size_less [OF assms(1)] assms(2) by simp
  have n: "unat (word_of_nat n :: u32) = n" "unat (word_of_nat off :: u32) = off"
    "unat (word_of_nat n + 49 :: u32) = n + 49"
    using assms(3,5) tot by (simp_all add: unat_small DSCHED_MAX_BUFFER_SIZE_def unat_word_ariths)
  let ?c = "take n (drop off m)"
  have c: "length ?c = n" "take n (drop off (buf_bytes buffer)) = ?c"
    using assms(3) m by (auto simp: drop_take min_def)
  have lim: "n + BINARY_HEADER_FRAG_LEN < DSCHED_MAX_BUFFER_SIZE" "n < DSCHED_MAX_BUFFER_SIZE"
    using assms(5) by (simp_all add: frag_sizes DSCHED_MAX_BUFFER_SIZE_def)
  have "Size (DSchedDataBuffer (n + BINARY_HEADER_FRAG_LEN)) = n + BINARY_HEADER_FRAG_LEN"
    using lim by (simp add: DSchedDataBuffer_ok Size_def frag_sizes)
  then have "memcpy_s False (size_sub (Size (DSchedDataBuffer (n + BINARY_HEADER_FRAG_LEN))) BINARY_HEADER_FRAG_LEN)
      (Data buffer = None) n = ERR_OK"
    using m(1) lim(2) assms(5) by (simp add: memcpy_s_ok_iff size_sub_header RSIZE_MAX_def DSCHED_MAX_BUFFER_SIZE_def)
  moreover have "unat (fDataLen h + of_nat BINARY_HEADER_FRAG_LEN) = n + BINARY_HEADER_FRAG_LEN"
    using n by (simp add: assms(6) frag_sizes)
  ultimately show ?thesis
    using framed_buffer [of ?c h] c lim n m assms(3,6)
    by (simp add: frag_packet_def Let_def)
qed

text \<open>
  A SoftBus on which every call succeeds; the send limit may change from call to call but stays
  between \<open>L\<close> and the 4 MiB a receiver accepts in one packet.
\<close>

definition env_ok :: "nat \<Rightarrow> softbus_env \<Rightarrow> bool" where
  "env_ok L env \<longleftrightarrow> 512 < L \<and> (\<forall>k. sendBytesRet env k = ERR_OK \<and> fst (getSessionOption env k) = ERR_OK \<and>
     L \<le> unat (snd (getSessionOption env k)) \<and> unat (snd (getSessionOption env k)) \<le> 4 * 1024 * 1024)"

definition chunk_len :: "nat \<Rightarrow> nat \<Rightarrow> nat" where
  "chunk_len rest lim = (if rest > lim then lim - 512 else rest)"

lemma SetHeadParaDataLen_head:
  assumes "off < tot" "tot < DSCHED_MAX_BUFFER_SIZE" "512 < unat m"
  shows "SetHeadParaDataLen (frag_head dt tot flag k n0) (word_of_nat tot) (word_of_nat off) m =
    frag_head dt tot (if tot - off > unat m then flag else FRAG_END) k (chunk_len (tot - off) (unat m))"
proof -
  have w: "word_of_nat tot - word_of_nat off = (word_of_nat (tot - off) :: u32)"
    using assms(1) by (simp add: of_nat_diff)
  have m: "m - 512 = word_of_nat (unat m - 512)"
    using assms(3) by (simp add: of_nat_diff)
  have "m < word_of_nat (tot - off) \<longleftrightarrow> unat m < tot - off"
    using assms(2) by (simp add: word_less_nat_alt unat_small DSCHED_MAX_BUFFER_SIZE_def)
  then show ?thesis
    unfolding SetHeadParaDataLen_def w
    by (simp add: frag_head_def chunk_len_def session_consts m)
qed

lemma unpack_loop_step:
  assumes "buffer_wf buffer" "Size buffer = tot" "off < tot" "env_ok L env" "snd (getSessionOption env k) = m"
  defines "n \<equiv> chunk_len (tot - off) (unat m)"
  shows "unpack_loop env buffer (word_of_nat tot) k (frag_head dt tot flag k n0) (word_of_nat off) m =
    ub_bind (unpack_loop env buffer (word_of_nat tot) (Suc k) (frag_head dt tot FRAG_MID (Suc k) n)
        (word_of_nat (off + n)) (snd (getSessionOption env (Suc k))))
      (\<lambda>(ps, r). Done (frag_pkt dt tot (if tot - off > unat m then flag else FRAG_END) k
        (take n (drop off (buf_bytes buffer))) # ps, r))"
proof -
  let ?flag = "if tot - off > unat m then flag else FRAG_END"
  let ?h = "frag_head dt tot ?flag k n"
  have tot: "tot < DSCHED_MAX_BUFFER_SIZE"
    using buffer_Size_less [OF assms(1)] assms(2) by simp
  have lim: "512 < unat m" "unat m \<le> 4 * 1024 * 1024"
    and send: "sendBytesRet env k = ERR_OK" and opt: "fst (getSessionOption env (Suc k)) = ERR_OK"
    using assms(4,5) by (auto simp: env_ok_def dest!: spec [of _ k] intro: less_le_trans)
  have n: "0 < n" "off + n \<le> tot" "n \<le> 4 * 1024 * 1024"
    using lim assms(3) by (auto simp: n_def chunk_len_def)
  have head: "SetHeadParaDataLen (frag_head dt tot flag k n0) (word_of_nat tot) (word_of_nat off) m = ?h"
    unfolding n_def by (rule SetHeadParaDataLen_head [OF assms(3) tot lim(1)])
  obtain b where b: "frag_packet buffer ?h (word_of_nat off) = Done (Inr b)"
    "buf_bytes b = frag_bytes ?h @ take n (drop off (buf_bytes buffer))"
    using frag_packet_ok [OF assms(1,2) n(2,1,3), of ?h] by (auto simp: frag_head_def)
  have pkt: "buf_bytes b = frag_pkt dt tot ?flag k (take n (drop off (buf_bytes buffer)))"
    using b(2) n(2) length_buf_bytes [OF assms(1)] assms(2) by (simp add: frag_pkt_def min_absorb2)
  have less: "word_of_nat off < (word_of_nat tot :: u32)" "\<not> m \<le> BINARY_DATA_PACKET_RESERVED_BUFFER"
    using assms(3) tot lim(1)
    by (simp_all add: word_less_nat_alt word_le_nat_alt unat_small DSCHED_MAX_BUFFER_SIZE_def session_consts)
  have h2: "?h\<lparr>fSubSeq := fSubSeq ?h + 1, fFragFlag := FRAG_MID\<rparr> = frag_head dt tot FRAG_MID (Suc k) n"
    by (simp add: frag_head_def add.commute)
  have off: "word_of_nat off + fDataLen ?h = word_of_nat (off + n)"
    by (simp add: frag_head_def)
  show ?thesis
    by (subst unpack_loop.simps, subst head)
      (use less b(1) send opt h2 off pkt in
        \<open>simp add: Let_def SendBytesBySoftbus_def split_beta del: of_nat_add of_nat_Suc\<close>)
qed

lemma unpack_loop_end: "unpack_loop env buffer tot k h tot m = Done ([], ERR_OK)"
  by (subst unpack_loop.simps) simp

lemma unpack_loop_tail:
  assumes "buffer_wf buffer" "Size buffer = tot" "env_ok L env" "off < tot"
  shows "\<exists>cs. unpack_loop env buffer (word_of_nat tot) k (frag_head dt tot FRAG_MID k n0) (word_of_nat off)
        (snd (getSessionOption env k)) = Done (tail_packets (frag_pkt dt tot) k cs, ERR_OK) \<and>
      cs \<noteq> [] \<and> concat cs = drop off (buf_bytes buffer) \<and> (\<forall>c \<in> set cs. chunk_fits tot c) \<and>
      (length cs - 1) * (L - 512) < tot - off"
  using assms(4)
proof (induction "tot - off" arbitrary: off k n0 rule: less_induct)
  case less
  let ?m = "snd (getSessionOption env k)"
  let ?n = "chunk_len (tot - off) (unat ?m)"
  let ?data = "buf_bytes buffer"
  have tot: "tot < DSCHED_MAX_BUFFER_SIZE" "length ?data = tot"
    using buffer_Size_less [OF assms(1)] length_buf_bytes [OF assms(1)] assms(2) by simp_all
  have lim: "512 < L" "L \<le> unat ?m" "unat ?m \<le> 4 * 1024 * 1024"
    using assms(3) by (simp_all add: env_ok_def)
  note step = unpack_loop_step [OF assms(1,2) less.prems assms(3) refl, of k dt FRAG_MID n0]
  show ?case
  proof (cases "tot - off > unat ?m")
    case False
    then have n: "?n = tot - off"
      by (simp add: chunk_len_def)
    have "chunk_fits tot (drop off ?data)"
      using False lim less.prems tot by (auto simp: chunk_fits_def)
    then show ?thesis
      using step False n less.prems tot
      by (intro exI [of _ "[drop off ?data]"]) (simp add: unpack_loop_end)
  next
    case True
    then have n: "?n = unat ?m - 512" "0 < ?n" "off + ?n < tot"
      using lim less.prems by (auto simp: chunk_len_def)
    obtain cs where cs: "unpack_loop env buffer (word_of_nat tot) (Suc k) (frag_head dt tot FRAG_MID (Suc k) ?n)
        (word_of_nat (off + ?n)) (snd (getSessionOption env (Suc k))) =
        Done (tail_packets (frag_pkt dt tot) (Suc k) cs, ERR_OK)"
      "cs \<noteq> []" "concat cs = drop (off + ?n) ?data" "\<forall>c \<in> set cs. chunk_fits tot c"
      "(length cs - 1) * (L - 512) < tot - (off + ?n)"
      using less.hyps [of "off + ?n" "Suc k" ?n] n less.prems by fastforce
    let ?c = "take ?n (drop off ?data)"
    have "chunk_fits tot ?c"
      using n lim tot by (auto simp: chunk_fits_def)
    moreover have "?c @ concat cs = drop off ?data"
      using cs(3) by (metis append_take_drop_id drop_drop add.commute)
    moreover have "length cs * (L - 512) < tot - off"
    proof -
      have "length cs * (L - 512) = (length cs - 1) * (L - 512) + (L - 512)"
        using cs(2) by (cases cs) simp_all
      then show ?thesis
        using cs(5) n lim by linarith
    qed
    moreover have "unpack_loop env buffer (word_of_nat tot) k (frag_head dt tot FRAG_MID k n0) (word_of_nat off) ?m =
        Done (tail_packets (frag_pkt dt tot) k (?c # cs), ERR_OK)"
      using step cs(1,2) True by (simp add: tail_packets_Cons_Cons)
    ultimately show ?thesis
      using cs(4) by (intro exI [of _ "?c # cs"]) simp
  qed
qed

lemma UnPackSendData_fragments:
  assumes "buffer_wf buffer" "Size buffer = tot" "env_ok L env" "unat (snd (getSessionOption env 0)) < tot"
  shows "\<exists>cs. UnPackSendData env buffer dt = Done (frag_packets (frag_pkt dt tot) cs, ERR_OK) \<and>
      2 \<le> length cs \<and> concat cs = buf_bytes buffer \<and> (\<forall>c \<in> set cs. chunk_fits tot c) \<and>
      (length cs - 1) * (L - 512) < tot"
proof -
  let ?m = "snd (getSessionOption env 0)"
  let ?n = "chunk_len tot (unat ?m)"
  let ?data = "buf_bytes buffer"
  have lim: "512 < L" "L \<le> unat ?m" "unat ?m \<le> 4 * 1024 * 1024" "fst (getSessionOption env 0) = ERR_OK"
    using assms(3) by (simp_all add: env_ok_def)
  have tot: "tot < DSCHED_MAX_BUFFER_SIZE" "length ?data = tot" "0 < tot"
    using buffer_Size_less [OF assms(1)] length_buf_bytes [OF assms(1)] assms(2,4) by simp_all
  have n: "?n = unat ?m - 512" "0 < ?n" "?n < tot"
    using lim assms(4) by (auto simp: chunk_len_def)
  obtain cs where cs: "unpack_loop env buffer (word_of_nat tot) (Suc 0) (frag_head dt tot FRAG_MID (Suc 0) ?n)
      (word_of_nat ?n) (snd (getSessionOption env (Suc 0))) = Done (tail_packets (frag_pkt dt tot) (Suc 0) cs, ERR_OK)"
    "cs \<noteq> []" "concat cs = drop ?n ?data" "\<forall>c \<in> set cs. chunk_fits tot c" "(length cs - 1) * (L - 512) < tot - ?n"
    using unpack_loop_tail [OF assms(1,2,3) n(3)] by blast
  let ?c = "take ?n ?data"
  have "unpack_loop env buffer (word_of_nat tot) 0 (frag_head dt tot FRAG_START 0 0) (word_of_nat 0) ?m =
      Done (frag_packets (frag_pkt dt tot) (?c # cs), ERR_OK)"
    using unpack_loop_step [OF assms(1,2) tot(3) assms(3) refl, of 0 dt FRAG_START 0] cs(1) assms(4) by simp
  then have "UnPackSendData env buffer dt = Done (frag_packets (frag_pkt dt tot) (?c # cs), ERR_OK)"
    using lim(4) assms(2,4) by (simp add: UnPackSendData_def split_beta frag_head_def)
  moreover have "chunk_fits tot ?c"
    using n lim tot by (auto simp: chunk_fits_def)
  moreover have "length cs * (L - 512) < tot"
  proof -
    have "length cs * (L - 512) = (length cs - 1) * (L - 512) + (L - 512)"
      using cs(2) by (cases cs) simp_all
    then show ?thesis
      using cs(5) n lim by linarith
  qed
  ultimately show ?thesis
    using cs(2-4) by (intro exI [of _ "?c # cs"]) (auto simp: Suc_le_eq)
qed

lemma UnPackStartEndData_packet:
  assumes "buffer_wf buffer" "0 < Size buffer" "Size buffer + BINARY_HEADER_FRAG_LEN < DSCHED_MAX_BUFFER_SIZE"
  shows "UnPackStartEndData env (Some buffer) dt =
    Done ([frag_pkt dt (Size buffer) FRAG_START_END 0 (buf_bytes buffer)], sendBytesRet env 0)"
proof -
  obtain m where m: "Data buffer = Some m" "Size buffer \<le> length m" "buf_bytes buffer = take (Size buffer) m"
    using buffer_Data [OF assms(1,2)] by auto
  let ?u = "DSchedDataBuffer (Size buffer + BINARY_HEADER_FRAG_LEN)"
  have size: "Size ?u = Size buffer + BINARY_HEADER_FRAG_LEN"
    using assms(3) by (simp add: DSchedDataBuffer_ok Size_def frag_sizes)
  have "memcpy_s False (size_sub (Size ?u) BINARY_HEADER_FRAG_LEN) (Data buffer = None) (Size buffer) = ERR_OK"
    using assms(3) m(1) unfolding size
    by (simp add: size_sub_header memcpy_s_ok_iff RSIZE_MAX_def DSCHED_MAX_BUFFER_SIZE_def)
  moreover have "length (take (Size buffer) m) = Size buffer"
    using m(2) by simp
  ultimately show ?thesis
    using m size framed_buffer [of "take (Size buffer) m"] assms(3)
    by (simp add: UnPackStartEndData_def Let_def SendBytesBySoftbus_def frag_pkt_def frag_head_def)
qed

lemma recv_whole:
  assumes "session_idle sid s" "chunk_fits tot c" "length c = tot"
  shows "recv_packet junk s (frag_pkt dt tot FRAG_START_END 0 c) = Done (s, [(sid, c, dt)])"
proof -
  let ?h = "frag_head dt tot FRAG_START_END 0 (length c)"
  let ?b = "packet_buffer (frag_pkt dt tot FRAG_START_END 0 c)"
  have le: "length c \<le> tot"
    using assms(3) by simp
  note frame = PackRecvData_frame [OF assms(2) le, where dt = dt and flag = FRAG_START_END and k = 0]
  note u = unat_fields [OF assms(2) le]
  have c: "0 < length c" "length c < DSCHED_MAX_BUFFER_SIZE"
    using assms(2,3) by (auto simp: chunk_fits_def)
  note post = DSchedDataBuffer_ok [OF c]
  have "memcpy_s (Data (DSchedDataBuffer (length c)) = None) (Size (DSchedDataBuffer (length c)))
      (Data ?b = None) (length c) = ERR_OK"
    using c frame(2) by (auto simp: post buffer_defs memcpy_s_ok_iff RSIZE_MAX_def DSCHED_MAX_BUFFER_SIZE_def)
  moreover have "unat (word_of_nat (Size ?b - BINARY_HEADER_FRAG_LEN) :: u32) = length c"
    using accepted_payload [OF frame(1)] u by (auto simp: frag_head_def)
  moreover have "\<not> Size ?b < BINARY_HEADER_FRAG_LEN"
    using frame(1) by (simp add: accepted_def)
  ultimately have "AssembleNoFrag s ?b ?h = Done [(sbId s, buf_write (DSchedDataBuffer (length c)) 0 c, dt)]"
    using frame(2) u assms(3) by (simp add: AssembleNoFrag_def Let_def frag_head_def)
  moreover have "buf_bytes (buf_write (DSchedDataBuffer (length c)) 0 c) = c"
    using c by (simp add: post buf_write_def buf_bytes_def poke_def)
  ultimately show ?thesis
    using frame(4) assms(1) by (simp add: recv_packet_def session_idle_def)
qed

lemma recv_packet_ok:
  assumes "session_inv s"
  shows "\<exists>s' ds. recv_packet junk s p = Done (s', ds) \<and> session_inv s' \<and> same_session s s'"
  using PackRecvData_ok [OF assms, of "Some (packet_buffer p)" junk]
  by (auto simp: step_ok_def recv_packet_def)

lemma same_session_trans: "same_session s s1 \<Longrightarrow> same_session s1 s2 \<Longrightarrow> same_session s s2"
  by (simp add: same_session_def)

lemma run_recv_ok:
  "session_inv s \<Longrightarrow> \<exists>s' ds. run_recv (recv_packet junk) s pkts = Done (s', ds) \<and> session_inv s' \<and> same_session s s'"
proof (induction pkts arbitrary: s)
  case (Cons p pkts)
  obtain s1 ds where s1: "recv_packet junk s p = Done (s1, ds)" "session_inv s1" "same_session s s1"
    using recv_packet_ok [OF Cons.prems] by blast
  then obtain s2 ds' where "run_recv (recv_packet junk) s1 pkts = Done (s2, ds')" "session_inv s2" "same_session s1 s2"
    using Cons.IH by blast
  then show ?case
    using s1 same_session_trans by auto
qed simp

lemma frag_pkt_length:
  "chunk_fits tot c \<Longrightarrow> 0 < length (frag_pkt dt tot flag k c) \<and> length (frag_pkt dt tot flag k c) < DSCHED_MAX_BUFFER_SIZE"
  by (simp add: frag_pkt_def chunk_fits_def frag_sizes DSCHED_MAX_BUFFER_SIZE_def)

lemma tail_packets_lengths:
  "\<forall>c \<in> set cs. chunk_fits tot c \<Longrightarrow> p \<in> set (tail_packets (frag_pkt dt tot) k cs) \<Longrightarrow>
     0 < length p \<and> length p < DSCHED_MAX_BUFFER_SIZE"
  by (induction "frag_pkt dt tot" k cs rule: tail_packets.induct) (auto dest: frag_pkt_length)

lemma frag_packets_lengths:
  assumes "\<forall>c \<in> set cs. chunk_fits tot c" "p \<in> set (frag_packets (frag_pkt dt tot) cs)"
  shows "0 < length p \<and> length p < DSCHED_MAX_BUFFER_SIZE"
  using assms by (cases cs) (auto dest: frag_pkt_length tail_packets_lengths)

lemma session_roundtrip:
  assumes "session_idle sid s" "buffer_wf b" "0 < Size b" "env_ok L env" "Size b \<le> 65535 * (L - 512)"
  shows "\<exists>pkts s'. SendData env (Some b) dt = Done (pkts, ERR_OK) \<and>
    (\<forall>p \<in> set pkts. 0 < length p \<and> length p < DSCHED_MAX_BUFFER_SIZE) \<and>
    run_recv (recv_packet junk) s pkts = Done (s', [(sid, buf_bytes b, dt)]) \<and> session_idle sid s'"
proof (cases "unat (snd (getSessionOption env 0)) < Size b")
  case True
  obtain cs where cs: "UnPackSendData env b dt = Done (frag_packets (frag_pkt dt (Size b)) cs, ERR_OK)"
    "2 \<le> length cs" "concat cs = buf_bytes b" "\<forall>c \<in> set cs. chunk_fits (Size b) c"
    "(length cs - 1) * (L - 512) < Size b"
    using UnPackSendData_fragments [OF assms(2) refl assms(4) True] by blast
  have "(length cs - 1) * (L - 512) < 65535 * (L - 512)"
    using cs(5) assms(5) by (rule less_le_trans)
  then have "length cs \<le> 2 ^ 16"
    by auto
  then show ?thesis
    using sb.feed_message [OF assms(1) cs(2,4), of junk dt] cs(1,3) length_buf_bytes [OF assms(2)]
      frag_packets_lengths [OF cs(4)] by (auto simp: SendData_def)
next
  case False
  have opt: "fst (getSessionOption env 0) = ERR_OK" "sendBytesRet env 0 = ERR_OK"
    "unat (snd (getSessionOption env 0)) \<le> 4 * 1024 * 1024"
    using assms(4) by (simp_all add: env_ok_def)
  have len: "length (buf_bytes b) = Size b"
    by (rule length_buf_bytes [OF assms(2)])
  have fits: "chunk_fits (Size b) (buf_bytes b)"
    using assms(3) opt(3) False len by (auto simp: chunk_fits_def DSCHED_MAX_BUFFER_SIZE_def)
  have "UnPackSendData env b dt = Done ([frag_pkt dt (Size b) FRAG_START_END 0 (buf_bytes b)], ERR_OK)"
    using UnPackStartEndData_packet [OF assms(2,3)] opt False
    by (simp add: UnPackSendData_def split_beta frag_sizes DSCHED_MAX_BUFFER_SIZE_def)
  then show ?thesis
    using recv_whole [OF assms(1) fits len] assms(1) frag_pkt_length [OF fits] by (simp add: SendData_def)
qed

subsection \<open>Properties\<close>

text \<open>
  C2: a message crosses the scheduler's transport intact. For every non-empty buffer, on a SoftBus
  whose calls succeed and whose send limit may change between packets (at least \<open>L > 512\<close> bytes and
  at most the 4 MiB a receiver takes; the message small enough for the 16-bit fragment numbers), the
  packets that \<^verbatim>\<open>SendData\<close> hands to SoftBus, fed in order to the receiving session in any state,
  make it deliver exactly that message with its type, once, and leave it ready for the next one.
\<close>

theorem transport_roundtrip:
  assumes "session_idle sid s" "buffer_wf b" "0 < Size b" "env_ok L env" "Size b \<le> 65535 * (L - 512)"
  shows "\<exists>pkts s'. SendData env (Some b) dt = Done (pkts, ERR_OK) \<and>
    run_recv (recv_packet junk) s pkts = Done (s', [(sid, buf_bytes b, dt)]) \<and> session_idle sid s'"
  using session_roundtrip [OF assms] by blast

definition sample_env :: softbus_env where
  "sample_env = \<lparr>getSessionOption = (\<lambda>k. (ERR_OK, if even k then 1024 else 2048)), sendBytesRet = (\<lambda>k. ERR_OK)\<rparr>"

theorem transport_roundtrip_witness:
  "\<exists>pkts s'. SendData sample_env (Some (packet_buffer (replicate 5000 7))) 1 = Done (pkts, ERR_OK) \<and>
    run_recv (recv_packet (frag_head 0 0 0 0 0)) (DSchedSoftbusSession 5 ''a'' ''b'' ''dms'' True) pkts =
      Done (s', [(5, replicate 5000 7, 1)]) \<and> session_idle 5 s'"
proof -
  let ?bs = "replicate 5000 7 :: byte list"
  have b: "buffer_wf (packet_buffer ?bs)" "Size (packet_buffer ?bs) = 5000" "buf_bytes (packet_buffer ?bs) = ?bs"
    using packet_buffer_simps [of ?bs] by (simp_all add: DSCHED_MAX_BUFFER_SIZE_def)
  have "env_ok 1024 sample_env"
    by (simp add: env_ok_def sample_env_def)
  moreover have "session_idle 5 (DSchedSoftbusSession 5 ''a'' ''b'' ''dms'' True)"
    by (simp add: session_idle_def) (simp add: DSchedSoftbusSession_def)
  ultimately show ?thesis
    using transport_roundtrip [of 5 _ "packet_buffer ?bs" 1024 sample_env 1 "frag_head 0 0 0 0 0"] b by simp
qed

text \<open>
  C5: the receiving session is memory safe against its peer: starting from a new session, whatever
  sequence of packets arrives, every read and every copy stays inside its buffer, no null buffer is
  used, the invariant of the reassembly state holds at the end, and the identity and the reference
  count of the session are untouched.
\<close>

theorem receiver_safe:
  "\<exists>s' ds. run_recv (recv_packet junk) (DSchedSoftbusSession sid my peer name srv) pkts = Done (s', ds) \<and>
     session_inv s' \<and> same_session (DSchedSoftbusSession sid my peer name srv) s'"
  by (rule run_recv_ok) simp

text \<open>
  An end fragment closes the message even when bytes are missing. With a reassembly in progress
  that holds \<open>acc\<close> of an announced total of \<open>tot\<close> bytes, an end fragment with the next number and any
  payload \<open>c\<close> that still fits makes the session deliver a message of the full announced length whose
  first bytes are \<open>acc\<close> and \<open>c\<close>; nothing compares the bytes received with the total.
\<close>

theorem end_fragment_delivers:
  assumes "session_partial sid tot s k acc" "chunk_fits tot c" "length acc + length c \<le> tot" "Suc k < 2 ^ 16"
  shows "\<exists>s' m. recv_packet junk s (frag_pkt dt tot FRAG_END (Suc k) c) = Done (s', [(sid, m, dt)]) \<and>
    length m = tot \<and> take (length acc + length c) m = acc @ c \<and> session_idle sid s'"
proof -
  let ?s' = "after_next dt tot s k FRAG_END c"
  have "length (buf_bytes (the (sbPackBuffer ?s'))) = tot"
    "take (length acc + length c) (buf_bytes (the (sbPackBuffer ?s'))) = acc @ c"
    using recv_next(3) [OF assms, of dt FRAG_END] unat_fields [OF assms(2)] assms(3)
    by (auto simp: session_partial_def session_inv_def length_buf_bytes split: option.splits)
  then show ?thesis
    using recv_next(2,3) [OF assms] by (auto simp: session_idle_def session_partial_def)
qed

definition sample_partial :: softbus_session where
  "sample_partial = (DSchedSoftbusSession 5 ''a'' ''b'' ''dms'' True)\<lparr>sbIsWaiting := True, sbOffset := 2,
     sbTotalLen := 6, sbPackBuffer := Some \<lparr>capacity = 6, rangeOffset = 0, rangeLength = 6,
       dataPtr = Some [1, 2, 0, 0, 0, 0]\<rparr>\<rparr>"

theorem end_fragment_delivers_witness:
  "session_partial 5 6 sample_partial 0 [1, 2] \<and>
   (\<exists>s' m. recv_packet (frag_head 0 0 0 0 0) sample_partial (frag_pkt 1 6 FRAG_END (Suc 0) [3]) = Done (s', [(5, m, 1)]) \<and>
      length m = 6 \<and> take 3 m = [1, 2, 3] \<and> session_idle 5 s')"
proof -
  have "session_partial 5 6 sample_partial 0 [1, 2]"
    by (simp add: session_partial_def sample_partial_def session_inv_def DSchedSoftbusSession_def buffer_wf_def
        Size_def buf_bytes_def DSCHED_MAX_BUFFER_SIZE_def)
  moreover have "chunk_fits 6 [3]"
    by (simp add: chunk_fits_def DSCHED_MAX_BUFFER_SIZE_def)
  ultimately show ?thesis
    using end_fragment_delivers [of 5 6 sample_partial 0 "[1, 2]" "[3]" "frag_head 0 0 0 0 0" 1]
    by (simp add: numeral_3_eq_3)
qed

end
