(* ===== verification/Ordered_Map.thy ===== *)
theory Ordered_Map
  imports Dms_Prelude
begin

text \<open>
  \<^verbatim>\<open>std::map\<close> as a list of pairs sorted by key. \<open>smap_put\<close> is \<^verbatim>\<open>m[k] = v\<close>, \<open>smap_insert\<close> is
  \<^verbatim>\<open>insert\<close> and \<^verbatim>\<open>emplace\<close> (which leave an existing entry alone), \<open>smap_erase\<close> is \<^verbatim>\<open>erase\<close>,
  \<open>smap_find\<close> is \<^verbatim>\<open>find\<close>, and iteration from \<^verbatim>\<open>begin()\<close> to \<^verbatim>\<open>end()\<close> is the list itself. The
  locale \<open>key_map\<close> states what the components rely on; it is interpreted on these operations.
\<close>

type_synonym ('k, 'v) smap = "('k \<times> 'v) list"

fun smap_put :: "'k::linorder \<Rightarrow> 'v \<Rightarrow> ('k, 'v) smap \<Rightarrow> ('k, 'v) smap" where
  "smap_put k v [] = [(k, v)]"
| "smap_put k v ((k', v') # m) =
     (if k < k' then (k, v) # (k', v') # m
      else if k = k' then (k, v) # m
      else (k', v') # smap_put k v m)"

definition smap_find :: "('k, 'v) smap \<Rightarrow> 'k \<Rightarrow> 'v option" where
  "smap_find m k = map_of m k"

definition smap_insert :: "'k::linorder \<Rightarrow> 'v \<Rightarrow> ('k, 'v) smap \<Rightarrow> ('k, 'v) smap" where
  "smap_insert k v m = (if smap_find m k = None then smap_put k v m else m)"

definition smap_erase :: "'k \<Rightarrow> ('k, 'v) smap \<Rightarrow> ('k, 'v) smap" where
  "smap_erase k m = filter (\<lambda>(k', _). k' \<noteq> k) m"

definition smap_ok :: "('k::linorder, 'v) smap \<Rightarrow> bool" where
  "smap_ok m = sorted_wrt (<) (map fst m)"

lemma fst_set_put: "fst ` set (smap_put k v m) = insert k (fst ` set m)"
  by (induction k v m rule: smap_put.induct) auto

lemma smap_ok_Nil [simp]: "smap_ok []"
  by (simp add: smap_ok_def)

lemma smap_ok_Cons: "smap_ok ((k, v) # m) \<longleftrightarrow> (\<forall>k' \<in> fst ` set m. k < k') \<and> smap_ok m"
  by (auto simp: smap_ok_def)

lemma smap_ok_put: "smap_ok m \<Longrightarrow> smap_ok (smap_put k v m)"
  by (induction k v m rule: smap_put.induct) (auto simp: smap_ok_Cons fst_set_put)

lemma smap_ok_erase: "smap_ok m \<Longrightarrow> smap_ok (smap_erase k m)"
  by (induction m) (auto simp: smap_ok_Cons smap_erase_def)

lemma map_of_put: "smap_ok m \<Longrightarrow> map_of (smap_put k v m) = (map_of m)(k \<mapsto> v)"
proof (induction k v m rule: smap_put.induct)
  case (2 k v k' v' m)
  then show ?case
    by (auto simp: smap_ok_Cons fun_eq_iff)
qed simp

lemma map_of_erase: "map_of (smap_erase k m) = (map_of m)(k := None)"
  by (induction m) (auto simp: smap_erase_def fun_eq_iff)

lemma smap_find_mem: "smap_find m k = Some v \<Longrightarrow> (k, v) \<in> set m"
  by (simp add: smap_find_def map_of_SomeD)

lemma smap_ok_distinct: "smap_ok m \<Longrightarrow> distinct (map fst m)"
  by (induction m) (fastforce simp: smap_ok_Cons)+

lemma smap_mem_find: "smap_ok m \<Longrightarrow> (k, v) \<in> set m \<longleftrightarrow> smap_find m k = Some v"
  by (simp add: smap_find_def smap_ok_distinct)

subsection \<open>The interface the components use\<close>

locale key_map =
  fixes find :: "'m \<Rightarrow> 'k \<Rightarrow> 'v option"
    and put :: "'k \<Rightarrow> 'v \<Rightarrow> 'm \<Rightarrow> 'm"
    and ins :: "'k \<Rightarrow> 'v \<Rightarrow> 'm \<Rightarrow> 'm"
    and del :: "'k \<Rightarrow> 'm \<Rightarrow> 'm"
    and ok :: "'m \<Rightarrow> bool"
  assumes find_put: "ok m \<Longrightarrow> find (put k v m) k' = (if k' = k then Some v else find m k')"
    and find_ins: "ok m \<Longrightarrow> find (ins k v m) k' =
          (if k' = k \<and> find m k = None then Some v else find m k')"
    and find_del: "ok m \<Longrightarrow> find (del k m) k' = (if k' = k then None else find m k')"
    and ok_put: "ok m \<Longrightarrow> ok (put k v m)"
    and ok_ins: "ok m \<Longrightarrow> ok (ins k v m)"
    and ok_del: "ok m \<Longrightarrow> ok (del k m)"
begin

lemmas laws = find_put find_ins find_del ok_put ok_ins ok_del

lemma ins_keeps: "ok m \<Longrightarrow> find m k = Some v \<Longrightarrow> find (ins k v' m) k = Some v"
  by (simp add: find_ins)

lemma ins_twice: "ok m \<Longrightarrow> find (ins k v' (ins k v m)) k = find (ins k v m) k"
  by (simp add: find_ins ok_ins)

lemma put_del_other: "ok m \<Longrightarrow> k \<noteq> k' \<Longrightarrow> find (del k (put k v m)) k' = find m k'"
  by (simp add: find_put find_del ok_put)

lemma find_after_history:
  assumes "ok m"
  shows "find (foldr (\<lambda>(k, v). put k v) kvs m) k =
    (case map_of kvs k of Some v \<Rightarrow> Some v | None \<Rightarrow> find m k) \<and> ok (foldr (\<lambda>(k, v). put k v) kvs m)"
  using assms by (induction kvs) (auto simp: find_put ok_put split: option.splits)

end

interpretation sm: key_map smap_find smap_put smap_insert smap_erase smap_ok
proof unfold_locales
  fix m :: "('k::linorder, 'v) smap" and k k' :: 'k and v :: 'v
  assume ok: "smap_ok m"
  show "smap_find (smap_put k v m) k' = (if k' = k then Some v else smap_find m k')"
    using ok by (simp add: smap_find_def map_of_put)
  show "smap_find (smap_insert k v m) k' =
      (if k' = k \<and> smap_find m k = None then Some v else smap_find m k')"
    using ok by (auto simp: smap_insert_def smap_find_def map_of_put)
  show "smap_find (smap_erase k m) k' = (if k' = k then None else smap_find m k')"
    by (simp add: smap_find_def map_of_erase)
  show "smap_ok (smap_put k v m)" using ok by (rule smap_ok_put)
  show "smap_ok (smap_insert k v m)" using ok by (simp add: smap_insert_def smap_ok_put)
  show "smap_ok (smap_erase k m)" using ok by (rule smap_ok_erase)
qed

lemma smap_find_simps [simp]:
  "smap_find [] k = None"
  "smap_find ((k', v) # m) k = (if k = k' then Some v else smap_find m k)"
  by (simp_all add: smap_find_def)

lemma smap_put_put [simp]: "smap_ok m \<Longrightarrow> smap_put k v (smap_put k v' m) = smap_put k v m"
  by (induction m) (auto simp: smap_ok_Cons)

lemma smap_put_same: "smap_ok m \<Longrightarrow> smap_find m k = Some v \<Longrightarrow> smap_put k v m = m"
  by (induction m) (force simp: smap_ok_Cons split: if_splits dest: smap_find_mem)+

lemma smap_erase_put: "smap_ok m \<Longrightarrow> smap_erase k (smap_put k v m) = smap_erase k m"
  by (induction m) (auto simp: smap_erase_def smap_ok_Cons)

lemma smap_ball: "smap_ok m \<Longrightarrow> (\<forall>(k, v) \<in> set m. P k v) \<longleftrightarrow> (\<forall>k v. smap_find m k = Some v \<longrightarrow> P k v)"
  using smap_mem_find [of m] by fastforce

text \<open>Erasing while a loop walks over the entries: the entries before the current one have been filtered.\<close>

lemma smap_erase_fresh: "c \<notin> fst ` set m \<Longrightarrow> smap_erase c m = m"
  by (induction m) (auto simp: smap_erase_def)

lemma smap_erase_mid:
  assumes "distinct (map fst (pre @ (c, v) # rest))"
  shows "smap_erase c (filter P pre @ (c, v) # rest) = filter P pre @ rest"
proof -
  have "c \<notin> fst ` set (filter P pre)" "c \<notin> fst ` set rest"
    using assms by auto
  then have "smap_erase c (filter P pre) = filter P pre" "smap_erase c rest = rest"
    by (simp_all only: smap_erase_fresh not_False_eq_True)
  then show ?thesis
    by (simp add: smap_erase_def)
qed

end
