(* ===== verification/Softbus_Adapter.thy ===== *)
theory Softbus_Adapter
  imports Softbus_Session Ordered_Map
begin

text \<open>
  The scheduler's transport, \<^verbatim>\<open>DSchedTransportSoftbusAdapter\<close>
  (\<^verbatim>\<open>services/dtbschedmgr/src/softbus_adapter/transport/dsched_transport_softbus_adapter.cpp\<close>): the
  table of sessions by socket id, with a reference count per session, and the table of listeners by
  service type. Every operation gives the new state and the calls it makes, in order: SoftBus
  sockets, the all-connect manager, the decision notifications and the listeners. Listeners are
  identified by numbers. The values that come from outside are the record \<open>adapter_env\<close>; the two
  build switches of the file are the record \<open>build\<close>.
\<close>

abbreviation REMOTE_DEVICE_BIND_ABILITY_ERR :: ret where "REMOTE_DEVICE_BIND_ABILITY_ERR \<equiv> 29360132"
abbreviation GET_LOCAL_DEVICE_ERR :: ret where "GET_LOCAL_DEVICE_ERR \<equiv> 29360144"

datatype service_type = SERVICE_TYPE_INVALID | SERVICE_TYPE_CONTINUE | SERVICE_TYPE_COLLAB

datatype scm_state = SCM_IDLE | SCM_PREPARE | SCM_CONNECTED

datatype adapter_call =
    CallSocket string
  | CallBind int
  | CallListen int
  | CallShutdown int
  | CallSendBytes int "byte list"
  | CallSetFirstCallerTokenID int
  | CallInitAllConnectManager
  | CallUninitAllConnectManager
  | CallApplyAdvanceResource string
  | CallPublishServiceState string scm_state
  | ContinueNotifyAllConnectDecision string bool
  | CollabNotifyAllConnectDecision string bool
  | ListenerOnShutdown nat int bool
  | ListenerOnDataRecv nat int data_buffer

record build =
  DMSFWK_ALL_CONNECT_MGR :: bool
  COLLAB_ALL_CONNECT_DECISIONS :: bool

record adapter_env =
  initAllConnectRet :: ret
  socketRet :: int
  listenRet :: ret
  bindRet :: ret
  applyAdvanceResourceRet :: ret
  isWifiActive :: bool
  localDeviceId :: "string option"

record adapter =
  sessions :: "(int, softbus_session option) smap"
  listeners :: "(int, nat list) smap"
  serverSocket :: int
  callingTokenId :: int
  isAllConnectExist :: bool

definition adapter_init :: adapter where
  "adapter_init = \<lparr>sessions = [], listeners = [], serverSocket = 0, callingTokenId = 0, isAllConnectExist = True\<rparr>"

definition DSCHED_MAX_RECV_DATA_LEN :: nat where "DSCHED_MAX_RECV_DATA_LEN = 104857600"

definition SOCKET_DMS_SESSION_NAME :: string where
  "SOCKET_DMS_SESSION_NAME = ''ohos.distributedschedule.dms.connect''"

subsection \<open>Set-up\<close>

definition CreateServerSocket :: "adapter_env \<Rightarrow> int \<times> adapter_call list" where
  "CreateServerSocket env = (socketRet env, [CallSocket ''''])"

definition InitChannel :: "build \<Rightarrow> adapter_env \<Rightarrow> adapter \<Rightarrow> adapter \<times> adapter_call list \<times> ret" where
  "InitChannel bd env a =
     (let (a1, cs1) = (if DMSFWK_ALL_CONNECT_MGR bd
             then (if initAllConnectRet env \<noteq> ERR_OK then a\<lparr>isAllConnectExist := False\<rparr> else a,
                   [CallInitAllConnectManager])
             else (a, []));
          (sock, cs2) = CreateServerSocket env;
          a2 = a1\<lparr>serverSocket := sock\<rparr>
      in if sock \<le> 0 then (a2, cs1 @ cs2, sock)
         else if listenRet env \<noteq> ERR_OK then (a2, cs1 @ cs2 @ [CallListen sock], listenRet env)
         else (a2, cs1 @ cs2 @ [CallListen sock], ERR_OK))"

subsection \<open>Connecting\<close>

text \<open>The first session, in the order of the socket ids, whose peer is the given device.\<close>

fun find_peer :: "(int, softbus_session option) smap \<Rightarrow> string \<Rightarrow> int option" where
  "find_peer [] peer = None"
| "find_peer ((sid, Some s) # m) peer = (if sbPeerDeviceId s = peer then Some sid else find_peer m peer)"
| "find_peer ((sid, None) # m) peer = find_peer m peer"

definition IsNeedAllConnect :: "build \<Rightarrow> adapter_env \<Rightarrow> adapter \<Rightarrow> service_type \<Rightarrow> bool" where
  "IsNeedAllConnect bd env a type =
     (if \<not> COLLAB_ALL_CONNECT_DECISIONS bd \<and> (type = SERVICE_TYPE_COLLAB \<or> type = SERVICE_TYPE_INVALID) then False
      else isAllConnectExist a \<and> isWifiActive env)"

definition NotifyConnectDecision :: "build \<Rightarrow> adapter_env \<Rightarrow> adapter \<Rightarrow> string \<Rightarrow> service_type \<Rightarrow> adapter_call list" where
  "NotifyConnectDecision bd env a peer type =
     (if \<not> IsNeedAllConnect bd env a type then []
      else case type of
        SERVICE_TYPE_CONTINUE \<Rightarrow> [ContinueNotifyAllConnectDecision peer True]
      | SERVICE_TYPE_COLLAB \<Rightarrow> [CollabNotifyAllConnectDecision peer True]
      | SERVICE_TYPE_INVALID \<Rightarrow> [])"

definition DecisionByAllConnect :: "build \<Rightarrow> adapter_env \<Rightarrow> adapter \<Rightarrow> string \<Rightarrow> service_type \<Rightarrow> adapter_call list \<times> ret" where
  "DecisionByAllConnect bd env a peer type =
     (if \<not> DMSFWK_ALL_CONNECT_MGR bd then ([], ERR_OK)
      else if applyAdvanceResourceRet env \<noteq> ERR_OK
        then (CallApplyAdvanceResource peer # NotifyConnectDecision bd env a peer type, applyAdvanceResourceRet env)
      else (CallApplyAdvanceResource peer # NotifyConnectDecision bd env a peer type @
              [CallPublishServiceState peer SCM_PREPARE], ERR_OK))"

definition ShutdownSession :: "build \<Rightarrow> string \<Rightarrow> int \<Rightarrow> adapter_call list" where
  "ShutdownSession bd peer sid =
     CallShutdown sid # (if DMSFWK_ALL_CONNECT_MGR bd then [CallPublishServiceState peer SCM_IDLE] else [])"

definition CreateClientSocket :: "adapter_env \<Rightarrow> string \<Rightarrow> int \<times> adapter_call list" where
  "CreateClientSocket env peer = (socketRet env, [CallSocket peer])"

definition CreateSessionRecord :: "build \<Rightarrow> adapter_env \<Rightarrow> int \<Rightarrow> string \<Rightarrow> bool \<Rightarrow> service_type \<Rightarrow> adapter \<Rightarrow> adapter \<times> adapter_call list \<times> ret" where
  "CreateSessionRecord bd env sid peer isServer type a =
     (case localDeviceId env of
        None \<Rightarrow> (a, ShutdownSession bd peer sid, GET_LOCAL_DEVICE_ERR)
      | Some localId \<Rightarrow>
          let a1 = a\<lparr>sessions := smap_put sid
                (Some (DSchedSoftbusSession sid localId peer SOCKET_DMS_SESSION_NAME isServer)) (sessions a)\<rparr>
          in (a1, if DMSFWK_ALL_CONNECT_MGR bd \<and> IsNeedAllConnect bd env a1 type
                  then [CallPublishServiceState peer SCM_CONNECTED] else [], ERR_OK))"

text \<open>The result is the state, the calls, the return code and the output parameter \<^verbatim>\<open>sessionId\<close>.\<close>

definition AddNewPeerSession :: "build \<Rightarrow> adapter_env \<Rightarrow> string \<Rightarrow> service_type \<Rightarrow> adapter \<Rightarrow> adapter \<times> adapter_call list \<times> ret \<times> int" where
  "AddNewPeerSession bd env peer type a =
     (let (sid, cs0) = CreateClientSocket env peer in
      if sid \<le> 0 then
        (a, cs0 @ (if DMSFWK_ALL_CONNECT_MGR bd then [CallPublishServiceState peer SCM_IDLE] else []),
         REMOTE_DEVICE_BIND_ABILITY_ERR, sid)
      else
        let cs1 = cs0 @ [CallSetFirstCallerTokenID (callingTokenId a), CallBind sid];
            a1 = a\<lparr>callingTokenId := 0\<rparr>;
            (a2, cs2, r) = (if bindRet env \<noteq> ERR_OK then (a1, [], bindRet env)
              else CreateSessionRecord bd env sid peer False type a1)
        in if r \<noteq> ERR_OK then (a2, cs1 @ cs2 @ ShutdownSession bd peer sid, r, INVALID_SESSION_ID)
           else (a2, cs1 @ cs2, r, sid))"

definition ConnectDevice :: "build \<Rightarrow> adapter_env \<Rightarrow> string \<Rightarrow> int \<Rightarrow> service_type \<Rightarrow> adapter \<Rightarrow> adapter \<times> adapter_call list \<times> ret \<times> int" where
  "ConnectDevice bd env peer sid0 type a =
     (case find_peer (sessions a) peer of
        Some sid \<Rightarrow>
          (a\<lparr>sessions := smap_put sid (map_option OnConnect (the (smap_find (sessions a) sid))) (sessions a)\<rparr>,
           if DMSFWK_ALL_CONNECT_MGR bd then NotifyConnectDecision bd env a peer type else [], ERR_OK, sid)
      | None \<Rightarrow>
          let (cs, r) = (if IsNeedAllConnect bd env a type then DecisionByAllConnect bd env a peer type else ([], ERR_OK))
          in if r \<noteq> ERR_OK then (a, cs, r, sid0)
             else let (a', cs', r', sid) = AddNewPeerSession bd env peer type a in (a', cs @ cs', r', sid))"

definition GetSessionIdByDeviceId :: "adapter \<Rightarrow> string \<Rightarrow> int option" where
  "GetSessionIdByDeviceId a peer = find_peer (sessions a) peer"

definition OnBind :: "build \<Rightarrow> adapter_env \<Rightarrow> int \<Rightarrow> string \<Rightarrow> adapter \<Rightarrow> adapter \<times> adapter_call list" where
  "OnBind bd env sid peer a =
     (let (a', cs, r) = CreateSessionRecord bd env sid peer True SERVICE_TYPE_INVALID a in (a', cs))"

subsection \<open>Disconnecting\<close>

definition NotifyListenersSessionShutdown :: "adapter \<Rightarrow> int \<Rightarrow> bool \<Rightarrow> adapter_call list" where
  "NotifyListenersSessionShutdown a sid isSelfcalled =
     concat (map (\<lambda>(type, objs). map (\<lambda>l. ListenerOnShutdown l sid isSelfcalled) objs) (listeners a))"

definition DisconnectDevice :: "build \<Rightarrow> string \<Rightarrow> adapter \<Rightarrow> adapter \<times> adapter_call list" where
  "DisconnectDevice bd peer a =
     (let sid = (case find_peer (sessions a) peer of None \<Rightarrow> 0 | Some i \<Rightarrow> i) in
      if sid = 0 then (a, [])
      else case smap_find (sessions a) sid of
        Some (Some s) \<Rightarrow>
          (let (s', unused) = OnDisconnect s;
               a1 = a\<lparr>sessions := smap_put sid (Some s') (sessions a)\<rparr>
           in if unused
              then (a1\<lparr>sessions := smap_erase sid (sessions a1)\<rparr>,
                    ShutdownSession bd peer sid @ NotifyListenersSessionShutdown a1 sid True)
              else (a1, []))
      | _ \<Rightarrow> (a, []))"

definition OnShutdown :: "build \<Rightarrow> int \<Rightarrow> bool \<Rightarrow> adapter \<Rightarrow> adapter \<times> adapter_call list" where
  "OnShutdown bd sid isSelfcalled a =
     (case smap_find (sessions a) sid of
        Some (Some s) \<Rightarrow>
          (let a1 = a\<lparr>sessions := smap_erase sid (sessions a)\<rparr>
           in (a1, ShutdownSession bd (sbPeerDeviceId s) sid @ NotifyListenersSessionShutdown a1 sid isSelfcalled))
      | _ \<Rightarrow> (a, []))"

definition ReleaseChannel :: "build \<Rightarrow> adapter \<Rightarrow> adapter \<times> adapter_call list \<times> ret" where
  "ReleaseChannel bd a =
     (a\<lparr>sessions := [], serverSocket := 0\<rparr>,
      concat (map (\<lambda>(sid, s). ShutdownSession bd (case s of None \<Rightarrow> '''' | Some s' \<Rightarrow> sbPeerDeviceId s') sid) (sessions a))
        @ [CallShutdown (serverSocket a)]
        @ (if DMSFWK_ALL_CONNECT_MGR bd then [CallUninitAllConnectManager] else []),
      ERR_OK)"

subsection \<open>Data\<close>

definition AdapterSendData :: "softbus_env \<Rightarrow> int \<Rightarrow> u32 \<Rightarrow> data_buffer option \<Rightarrow> adapter \<Rightarrow> (adapter_call list \<times> ret) ub" where
  "AdapterSendData senv sid dataType dataBuffer a =
     (case smap_find (sessions a) sid of
        Some (Some s) \<Rightarrow> ub_bind (SendData senv dataBuffer dataType)
          (\<lambda>(pkts, r). Done (map (CallSendBytes sid) pkts, r))
      | _ \<Rightarrow> Done ([], INVALID_SESSION_ID))"

text \<open>A received type is a \<^verbatim>\<open>uint32_t\<close>, the key of the listener table an \<^verbatim>\<open>int32_t\<close>.\<close>

definition OnDataReady :: "adapter \<Rightarrow> int \<Rightarrow> data_buffer \<Rightarrow> u32 \<Rightarrow> adapter_call list" where
  "OnDataReady a sid dataBuffer dataType =
     (case smap_find (listeners a) (sint dataType) of
        None \<Rightarrow> []
      | Some objs \<Rightarrow> map (\<lambda>l. ListenerOnDataRecv l sid dataBuffer) objs)"

definition OnBytes :: "frag_header \<Rightarrow> int \<Rightarrow> byte list option \<Rightarrow> adapter \<Rightarrow> (adapter \<times> adapter_call list) ub" where
  "OnBytes junk sid data a =
     (case data of
        None \<Rightarrow> Done (a, [])
      | Some bs \<Rightarrow>
          if length bs = 0 \<or> length bs > DSCHED_MAX_RECV_DATA_LEN then Done (a, [])
          else case smap_find (sessions a) sid of
            Some (Some s) \<Rightarrow>
              (let buffer = DSchedDataBuffer (length bs) in
               if memcpy_s (Data buffer = None) (Capacity buffer) False (length bs) \<noteq> ERR_OK then Done (a, [])
               else ub_bind (OnBytesReceived junk s (Some (buf_write buffer 0 bs))) (\<lambda>(s', ds, r).
                 Done (a\<lparr>sessions := smap_put sid (Some s') (sessions a)\<rparr>,
                       concat (map (\<lambda>(i, d, t). OnDataReady a i d t) ds))))
          | _ \<Rightarrow> Done (a, []))"

subsection \<open>Listeners\<close>

definition RegisterListener :: "int \<Rightarrow> nat option \<Rightarrow> adapter \<Rightarrow> adapter" where
  "RegisterListener serviceType listener a =
     (case listener of
        None \<Rightarrow> a
      | Some l \<Rightarrow>
          case smap_find (listeners a) serviceType of
            None \<Rightarrow> a\<lparr>listeners := smap_put serviceType [l] (listeners a)\<rparr>
          | Some objs \<Rightarrow>
              if l \<in> set objs then a
              else a\<lparr>listeners := smap_put serviceType (objs @ [l]) (listeners a)\<rparr>)"

definition UnregisterListener :: "int \<Rightarrow> nat option \<Rightarrow> adapter \<Rightarrow> adapter" where
  "UnregisterListener serviceType listener a =
     (case listener of
        None \<Rightarrow> a
      | Some l \<Rightarrow>
          case smap_find (listeners a) serviceType of
            None \<Rightarrow> a
          | Some objs \<Rightarrow>
              if l \<in> set objs
              then (let objs' = remove1 l objs in
                    if objs' = [] then a\<lparr>listeners := smap_erase serviceType (listeners a)\<rparr>
                    else a\<lparr>listeners := smap_put serviceType objs' (listeners a)\<rparr>)
              else a)"

definition SetCallingTokenId :: "int \<Rightarrow> adapter \<Rightarrow> adapter" where
  "SetCallingTokenId token a = a\<lparr>callingTokenId := token\<rparr>"

subsection \<open>Invariant\<close>

definition session_entry_ok :: "int \<Rightarrow> softbus_session option \<Rightarrow> bool" where
  "session_entry_ok sid so \<longleftrightarrow>
     (case so of None \<Rightarrow> False | Some s \<Rightarrow> sbId s = sid \<and> session_inv s \<and> 1 \<le> sbRefCount s)"

definition adapter_inv :: "adapter \<Rightarrow> bool" where
  "adapter_inv a \<longleftrightarrow> smap_ok (sessions a) \<and> smap_ok (listeners a) \<and>
     (\<forall>(sid, so) \<in> set (sessions a). session_entry_ok sid so) \<and>
     (\<forall>(t, objs) \<in> set (listeners a). objs \<noteq> [] \<and> distinct objs)"

lemma adapter_inv_find:
  "adapter_inv a \<longleftrightarrow> smap_ok (sessions a) \<and> smap_ok (listeners a) \<and>
     (\<forall>sid so. smap_find (sessions a) sid = Some so \<longrightarrow> session_entry_ok sid so) \<and>
     (\<forall>t objs. smap_find (listeners a) t = Some objs \<longrightarrow> objs \<noteq> [] \<and> distinct objs)"
  using smap_ball [of "sessions a" session_entry_ok] smap_ball [of "listeners a" "\<lambda>_ objs. objs \<noteq> [] \<and> distinct objs"]
  unfolding adapter_inv_def by blast

lemma inv_put_session:
  assumes "adapter_inv a" "session_entry_ok sid so"
  shows "adapter_inv (a\<lparr>sessions := smap_put sid so (sessions a)\<rparr>)"
  using assms by (auto simp: adapter_inv_find sm.laws split: if_splits)

lemma inv_erase_session:
  assumes "adapter_inv a"
  shows "adapter_inv (a\<lparr>sessions := smap_erase sid (sessions a)\<rparr>)"
  using assms by (auto simp: adapter_inv_find sm.laws split: if_splits)

lemma inv_fields [simp]:
  "adapter_inv (a\<lparr>serverSocket := n\<rparr>) = adapter_inv a" "adapter_inv (a\<lparr>callingTokenId := n\<rparr>) = adapter_inv a"
  "adapter_inv (a\<lparr>isAllConnectExist := b\<rparr>) = adapter_inv a"
  by (simp_all add: adapter_inv_def)

lemma find_peer_Some:
  "smap_ok m \<Longrightarrow> find_peer m peer = Some sid \<Longrightarrow> \<exists>s. smap_find m sid = Some (Some s) \<and> sbPeerDeviceId s = peer"
proof (induction m peer rule: find_peer.induct)
  case (2 sid' s m peer)
  then show ?case
    by (fastforce simp: smap_ok_Cons split: if_splits dest: smap_find_mem)
next
  case (3 sid' m peer)
  then show ?case
    by (fastforce simp: smap_ok_Cons dest: smap_find_mem)
qed simp

lemma find_peer_session:
  assumes "adapter_inv a" "find_peer (sessions a) peer = Some sid"
  obtains s where "smap_find (sessions a) sid = Some (Some s)" "sbPeerDeviceId s = peer" "sbId s = sid"
    "session_inv s" "1 \<le> sbRefCount s"
proof -
  obtain s where s: "smap_find (sessions a) sid = Some (Some s)" "sbPeerDeviceId s = peer"
    using find_peer_Some [of "sessions a" peer sid] assms by (auto simp: adapter_inv_def)
  then have "session_entry_ok sid (Some s)"
    using assms(1) by (auto simp: adapter_inv_find)
  then show thesis
    using s that by (simp add: session_entry_ok_def)
qed

lemma find_peer_put_same:
  assumes "smap_ok m" "smap_find m sid = Some (Some s)" "sbPeerDeviceId s' = sbPeerDeviceId s"
  shows "find_peer (smap_put sid (Some s') m) peer = find_peer m peer"
  using assms(1,2)
proof (induction m peer rule: find_peer.induct)
  case (2 i t m peer)
  then show ?case
    using assms(3) by (force simp: smap_ok_Cons split: if_splits dest: smap_find_mem)
next
  case (3 i m peer)
  then show ?case
    by (force simp: smap_ok_Cons split: if_splits dest: smap_find_mem)
qed simp

lemma find_peer_put_new:
  "smap_ok m \<Longrightarrow> find_peer m (sbPeerDeviceId s) = None \<Longrightarrow> find_peer (smap_put sid (Some s) m) (sbPeerDeviceId s) = Some sid"
proof (induction m)
  case (Cons e m)
  obtain i so where "e = (i, so)"
    by (cases e)
  with Cons show ?case
    by (cases so) (auto simp: smap_ok_Cons split: if_splits)
qed simp

lemma session_inv_refcount [simp]: "session_inv (s\<lparr>sbRefCount := n\<rparr>) = session_inv s"
  by (simp add: session_inv_def split: option.split)

subsection \<open>Every operation keeps the invariant\<close>

lemma inv_init [simp]: "adapter_inv adapter_init"
  by (simp add: adapter_inv_def adapter_init_def)

lemma inv_InitChannel: "adapter_inv a \<Longrightarrow> adapter_inv (fst (InitChannel bd env a))"
  by (simp add: InitChannel_def Let_def split_beta)

lemma new_session_ok: "session_entry_ok sid (Some (DSchedSoftbusSession sid my peer name srv))"
  by (simp add: session_entry_ok_def) (simp add: DSchedSoftbusSession_def COUNT_INIT_NUM_def)

lemma inv_CreateSessionRecord: "adapter_inv a \<Longrightarrow> adapter_inv (fst (CreateSessionRecord bd env sid peer srv type a))"
  by (auto simp: CreateSessionRecord_def Let_def new_session_ok split: option.splits intro!: inv_put_session)

lemma inv_AddNewPeerSession: "adapter_inv a \<Longrightarrow> adapter_inv (fst (AddNewPeerSession bd env peer type a))"
  using inv_CreateSessionRecord [of "a\<lparr>callingTokenId := 0\<rparr>" bd env "socketRet env" peer False type]
  by (simp add: AddNewPeerSession_def CreateClientSocket_def Let_def split_beta)

lemma inv_ConnectDevice: "adapter_inv a \<Longrightarrow> adapter_inv (fst (ConnectDevice bd env peer sid0 type a))"
proof (cases "find_peer (sessions a) peer")
  case None
  then show "adapter_inv a \<Longrightarrow> ?thesis"
    using inv_AddNewPeerSession [of a bd env peer type] by (simp add: ConnectDevice_def Let_def split_beta)
next
  case (Some sid)
  assume inv: "adapter_inv a"
  obtain s where "smap_find (sessions a) sid = Some (Some s)" "sbId s = sid" "session_inv s" "1 \<le> sbRefCount s"
    using find_peer_session [OF inv Some] by blast
  then show ?thesis
    using Some inv by (auto simp: ConnectDevice_def session_entry_ok_def OnConnect_def intro!: inv_put_session)
qed

lemma inv_OnBind: "adapter_inv a \<Longrightarrow> adapter_inv (fst (OnBind bd env sid peer a))"
  using inv_CreateSessionRecord [of a bd env sid peer True SERVICE_TYPE_INVALID]
  by (simp add: OnBind_def split_beta)

lemma inv_DisconnectDevice: "adapter_inv a \<Longrightarrow> adapter_inv (fst (DisconnectDevice bd peer a))"
proof (cases "find_peer (sessions a) peer")
  case (Some sid)
  assume inv: "adapter_inv a"
  obtain s where s: "smap_find (sessions a) sid = Some (Some s)" "sbId s = sid" "session_inv s" "1 \<le> sbRefCount s"
    using find_peer_session [OF inv Some] by blast
  show ?thesis
  proof (cases "sbRefCount s - 1 \<le> 0")
    case True
    have "smap_erase sid (smap_put sid v (sessions a)) = smap_erase sid (sessions a)" for v
      using inv by (simp add: adapter_inv_def smap_erase_put)
    then show ?thesis
      using Some s True inv inv_erase_session [OF inv, of sid]
      by (simp add: DisconnectDevice_def OnDisconnect_def Let_def)
  next
    case False
    then have "session_entry_ok sid (Some (s\<lparr>sbRefCount := sbRefCount s - 1\<rparr>))"
      using s by (simp add: session_entry_ok_def)
    from inv_put_session [OF inv this] show ?thesis
      using Some s False inv by (simp add: DisconnectDevice_def OnDisconnect_def Let_def)
  qed
qed (simp add: DisconnectDevice_def)

lemma inv_OnShutdown: "adapter_inv a \<Longrightarrow> adapter_inv (fst (OnShutdown bd sid self a))"
  by (auto simp: OnShutdown_def Let_def inv_erase_session split: option.splits)

lemma inv_ReleaseChannel: "adapter_inv a \<Longrightarrow> adapter_inv (fst (ReleaseChannel bd a))"
  by (simp add: ReleaseChannel_def adapter_inv_def)

lemma inv_RegisterListener: "adapter_inv a \<Longrightarrow> adapter_inv (RegisterListener type l a)"
  by (auto simp: RegisterListener_def adapter_inv_find sm.laws split: option.splits if_splits)

lemma inv_UnregisterListener: "adapter_inv a \<Longrightarrow> adapter_inv (UnregisterListener type l a)"
  by (auto simp: UnregisterListener_def adapter_inv_find sm.laws Let_def split: option.splits if_splits)

text \<open>A packet for a known session, as the receive step of that session.\<close>

lemma OnBytes_session:
  assumes "smap_find (sessions a) sid = Some (Some s)" "0 < length bs" "length bs < DSCHED_MAX_BUFFER_SIZE"
  shows "OnBytes junk sid (Some bs) a =
    ub_bind (PackRecvData junk s (Some (packet_buffer bs))) (\<lambda>(s', ds).
      Done (a\<lparr>sessions := smap_put sid (Some s') (sessions a)\<rparr>, concat (map (\<lambda>(i, d, t). OnDataReady a i d t) ds)))"
proof -
  have "memcpy_s (Data (DSchedDataBuffer (length bs)) = None) (Capacity (DSchedDataBuffer (length bs))) False (length bs) = ERR_OK"
    using assms(2,3) by (simp add: DSchedDataBuffer_ok buffer_defs memcpy_s_ok_iff RSIZE_MAX_def DSCHED_MAX_BUFFER_SIZE_def)
  moreover have "\<not> length bs > DSCHED_MAX_RECV_DATA_LEN"
    using assms(3) by (simp add: DSCHED_MAX_RECV_DATA_LEN_def DSCHED_MAX_BUFFER_SIZE_def)
  ultimately show ?thesis
    using assms
    by (cases "PackRecvData junk s (Some (packet_buffer bs))")
      (auto simp: OnBytes_def OnBytesReceived_def packet_buffer_def Let_def)
qed

lemma OnBytes_ignored:
  assumes "\<nexists>s. smap_find (sessions a) sid = Some (Some s)"
  shows "OnBytes junk sid data a = Done (a, [])"
  using assms by (auto simp: OnBytes_def split: option.splits)

lemma OnBytes_too_long:
  assumes "length bs = 0 \<or> DSCHED_MAX_BUFFER_SIZE \<le> length bs"
  shows "OnBytes junk sid (Some bs) a = Done (a, [])"
  using assms by (auto simp: OnBytes_def DSchedDataBuffer_null buffer_defs memcpy_s_def EINVAL_def split: option.splits)

lemma OnBytes_safe:
  assumes "adapter_inv a"
  shows "\<exists>a' cs. OnBytes junk sid data a = Done (a', cs) \<and> adapter_inv a' \<and> listeners a' = listeners a"
proof -
  consider (none) "data = None" | (ignored) "\<nexists>s. smap_find (sessions a) sid = Some (Some s)"
    | (long) bs where "data = Some bs" "length bs = 0 \<or> DSCHED_MAX_BUFFER_SIZE \<le> length bs"
    | (packet) bs s where "data = Some bs" "smap_find (sessions a) sid = Some (Some s)" "0 < length bs"
        "length bs < DSCHED_MAX_BUFFER_SIZE"
    by (metis linorder_not_le neq0_conv option.exhaust)
  then show ?thesis
  proof cases
    case packet
    have s: "sbId s = sid" "session_inv s" "1 \<le> sbRefCount s"
      using assms packet(2) by (force simp: adapter_inv_find session_entry_ok_def)+
    obtain s' ds where s': "PackRecvData junk s (Some (packet_buffer bs)) = Done (s', ds)" "session_inv s'" "same_session s s'"
      using PackRecvData_ok [OF s(2), of "Some (packet_buffer bs)" junk] by (auto simp: step_ok_def)
    then have "session_entry_ok sid (Some s')"
      using s by (simp add: session_entry_ok_def same_session_def)
    from inv_put_session [OF assms this] show ?thesis
      using packet(1) OnBytes_session [OF packet(2-4)] s'(1) by simp
  qed (use assms OnBytes_ignored OnBytes_too_long in \<open>auto simp: OnBytes_def\<close>)
qed

subsection \<open>The adapter as a state machine\<close>

inductive adapter_step :: "build \<Rightarrow> adapter \<Rightarrow> adapter \<Rightarrow> bool" for bd where
  step_init: "adapter_step bd a (fst (InitChannel bd env a))"
| step_connect: "adapter_step bd a (fst (ConnectDevice bd env peer sid0 type a))"
| step_disconnect: "adapter_step bd a (fst (DisconnectDevice bd peer a))"
| step_bind: "adapter_step bd a (fst (OnBind bd env sid peer a))"
| step_shutdown: "adapter_step bd a (fst (OnShutdown bd sid self a))"
| step_release: "adapter_step bd a (fst (ReleaseChannel bd a))"
| step_bytes: "OnBytes junk sid data a = Done (a', cs) \<Longrightarrow> adapter_step bd a a'"
| step_register: "adapter_step bd a (RegisterListener type l a)"
| step_unregister: "adapter_step bd a (UnregisterListener type l a)"
| step_token: "adapter_step bd a (SetCallingTokenId token a)"

inductive_cases adapter_step_cases: "adapter_step bd a a'"

lemmas adapter_inv_intros = inv_InitChannel inv_ConnectDevice inv_DisconnectDevice inv_OnBind inv_OnShutdown
  inv_ReleaseChannel inv_RegisterListener inv_UnregisterListener

lemma adapter_step_inv: "adapter_step bd a a' \<Longrightarrow> adapter_inv a \<Longrightarrow> adapter_inv a'"
proof (induction rule: adapter_step.induct)
  case (step_bytes junk sid data a a' cs)
  then show ?case
    using OnBytes_safe [OF step_bytes.prems, of junk sid data] by auto
qed (simp_all add: adapter_inv_intros SetCallingTokenId_def)

lemma adapter_reachable_inv: "(adapter_step bd)\<^sup>*\<^sup>* adapter_init a \<Longrightarrow> adapter_inv a"
  by (induction rule: rtranclp_induct) (auto intro: adapter_step_inv)

subsection \<open>Reference counting\<close>

definition refs :: "adapter \<Rightarrow> int \<Rightarrow> int" where
  "refs a sid = (case smap_find (sessions a) sid of Some (Some s) \<Rightarrow> sbRefCount s | _ \<Rightarrow> 0)"

lemma ConnectDevice_known:
  assumes "adapter_inv a" "find_peer (sessions a) peer = Some sid" "smap_find (sessions a) sid = Some (Some s)"
  shows "ConnectDevice bd env peer sid0 type a =
    (a\<lparr>sessions := smap_put sid (Some (OnConnect s)) (sessions a)\<rparr>,
     if DMSFWK_ALL_CONNECT_MGR bd then NotifyConnectDecision bd env a peer type else [], ERR_OK, sid)"
  using assms by (simp add: ConnectDevice_def)

lemma DisconnectDevice_known:
  assumes "find_peer (sessions a) peer = Some sid" "sid \<noteq> 0" "smap_find (sessions a) sid = Some (Some s)" "adapter_inv a"
  shows "DisconnectDevice bd peer a =
    (if sbRefCount s \<le> 1
     then (a\<lparr>sessions := smap_erase sid (sessions a)\<rparr>,
           ShutdownSession bd peer sid @ NotifyListenersSessionShutdown a sid True)
     else (a\<lparr>sessions := smap_put sid (Some (s\<lparr>sbRefCount := sbRefCount s - 1\<rparr>)) (sessions a)\<rparr>, []))"
  using assms
  by (simp add: DisconnectDevice_def OnDisconnect_def Let_def adapter_inv_def smap_erase_put
      NotifyListenersSessionShutdown_def)

fun disconnects :: "build \<Rightarrow> string \<Rightarrow> nat \<Rightarrow> adapter \<Rightarrow> adapter \<times> adapter_call list" where
  "disconnects bd peer 0 a = (a, [])"
| "disconnects bd peer (Suc n) a =
     (let (a1, cs1) = DisconnectDevice bd peer a; (a2, cs2) = disconnects bd peer n a1 in (a2, cs1 @ cs2))"

lemma disconnects_kept:
  assumes "adapter_inv a" "find_peer (sessions a) peer = Some sid" "sid \<noteq> 0" "smap_find (sessions a) sid = Some (Some s)"
    and "int k < sbRefCount s"
  shows "disconnects bd peer k a =
    (a\<lparr>sessions := smap_put sid (Some (s\<lparr>sbRefCount := sbRefCount s - int k\<rparr>)) (sessions a)\<rparr>, [])"
  using assms
proof (induction k arbitrary: a s)
  case 0
  then show ?case
    by (simp add: adapter_inv_def smap_put_same)
next
  case (Suc k)
  let ?s1 = "s\<lparr>sbRefCount := sbRefCount s - 1\<rparr>"
  let ?a1 = "a\<lparr>sessions := smap_put sid (Some ?s1) (sessions a)\<rparr>"
  have ok: "smap_ok (sessions a)"
    using Suc.prems(1) by (simp add: adapter_inv_def)
  have "DisconnectDevice bd peer a = (?a1, [])"
    using DisconnectDevice_known [OF Suc.prems(2-4,1)] Suc.prems(5) by simp
  moreover have "find_peer (sessions ?a1) peer = Some sid"
    using find_peer_put_same [OF ok Suc.prems(4), of ?s1] Suc.prems(2) by simp
  moreover have "adapter_inv ?a1"
    using inv_DisconnectDevice [OF Suc.prems(1), of bd peer] calculation(1) by simp
  moreover have "smap_find (sessions ?a1) sid = Some (Some ?s1)"
    using ok by (simp add: sm.laws)
  ultimately show ?case
    using Suc.IH [of ?a1 ?s1] Suc.prems(3,5) ok by (simp add: algebra_simps)
qed

lemma disconnects_all:
  assumes "adapter_inv a" "find_peer (sessions a) peer = Some sid" "sid \<noteq> 0" "smap_find (sessions a) sid = Some (Some s)"
    and "sbRefCount s = int n" "1 \<le> sbRefCount s"
  shows "disconnects bd peer n a = (a\<lparr>sessions := smap_erase sid (sessions a)\<rparr>,
      ShutdownSession bd peer sid @ NotifyListenersSessionShutdown a sid True)"
  using assms
proof (induction n arbitrary: a s)
  case (Suc n)
  have ok: "smap_ok (sessions a)"
    using Suc.prems(1) by (simp add: adapter_inv_def)
  note disc = DisconnectDevice_known [OF Suc.prems(2-4,1), of bd]
  show ?case
  proof (cases "n = 0")
    case True
    then show ?thesis
      using disc Suc.prems(5) by simp
  next
    case False
    let ?s1 = "s\<lparr>sbRefCount := sbRefCount s - 1\<rparr>"
    let ?a1 = "a\<lparr>sessions := smap_put sid (Some ?s1) (sessions a)\<rparr>"
    have step: "DisconnectDevice bd peer a = (?a1, [])"
      using disc Suc.prems(5) False by simp
    moreover have "find_peer (sessions ?a1) peer = Some sid"
      using find_peer_put_same [OF ok Suc.prems(4), of ?s1] Suc.prems(2) by simp
    moreover have "adapter_inv ?a1"
      using inv_DisconnectDevice [OF Suc.prems(1), of bd peer] step by simp
    moreover have "smap_find (sessions ?a1) sid = Some (Some ?s1)"
      using ok by (simp add: sm.laws)
    ultimately show ?thesis
      using Suc.IH [of ?a1 ?s1] Suc.prems(3,5) ok False
      by (simp add: smap_erase_put NotifyListenersSessionShutdown_def)
  qed
qed simp

subsection \<open>From the packets to the listeners\<close>

fun run_bytes :: "frag_header \<Rightarrow> int \<Rightarrow> adapter \<Rightarrow> byte list list \<Rightarrow> (adapter \<times> adapter_call list) ub" where
  "run_bytes junk sid a [] = Done (a, [])"
| "run_bytes junk sid a (p # ps) =
     ub_bind (OnBytes junk sid (Some p) a) (\<lambda>(a1, cs1).
     ub_bind (run_bytes junk sid a1 ps) (\<lambda>(a2, cs2). Done (a2, cs1 @ cs2)))"

text \<open>What a listener sees of a call: who, which session, which bytes.\<close>

fun call_view :: "adapter_call \<Rightarrow> (nat \<times> int \<times> byte list) option" where
  "call_view (ListenerOnDataRecv l sid d) = Some (l, sid, buf_bytes d)"
| "call_view _ = None"

fun full_delivery :: "adapter_call \<Rightarrow> bool" where
  "full_delivery (ListenerOnDataRecv l sid d) = buffer_full d"
| "full_delivery _ = False"

definition listeners_of :: "adapter \<Rightarrow> u32 \<Rightarrow> nat list" where
  "listeners_of a dt = (case smap_find (listeners a) (sint dt) of None \<Rightarrow> [] | Some objs \<Rightarrow> objs)"

lemma OnDataReady_view:
  "map call_view (OnDataReady a i d t) = map (\<lambda>l. Some (l, i, buf_bytes d)) (listeners_of a t)"
  by (simp add: OnDataReady_def listeners_of_def split: option.split)

lemma OnDataReady_views:
  "map call_view (concat (map (\<lambda>(i, d, t). OnDataReady a i d t) ds)) =
   concat (map (\<lambda>(i, bs, t). map (\<lambda>l. Some (l, i, bs)) (listeners_of a t)) (map (\<lambda>(i, d, t). (i, buf_bytes d, t)) ds))"
  by (induction ds) (auto simp: OnDataReady_view)

lemma recv_packet_Done:
  "recv_packet junk s p = Done (s', ds) \<longleftrightarrow>
     (\<exists>d. PackRecvData junk s (Some (packet_buffer p)) = Done (s', d) \<and> ds = map (\<lambda>(i, d, t). (i, buf_bytes d, t)) d)"
  by (auto simp: recv_packet_def ub_bind_Done_iff)

lemma OnDataReady_full:
  "\<forall>(i, d, t) \<in> set ds. buffer_full d \<Longrightarrow> list_all full_delivery (concat (map (\<lambda>(i, d, t). OnDataReady a i d t) ds))"
  by (induction ds) (auto simp: OnDataReady_def list_all_iff split: option.splits)

lemma run_bytes_recv:
  assumes "smap_ok (sessions a)" "smap_find (sessions a) sid = Some (Some s)" "session_inv s"
    and "\<forall>p \<in> set ps. 0 < length p \<and> length p < DSCHED_MAX_BUFFER_SIZE"
    and "run_recv (recv_packet junk) s ps = Done (s', ds)"
  shows "\<exists>cs. run_bytes junk sid a ps = Done (a\<lparr>sessions := smap_put sid (Some s') (sessions a)\<rparr>, cs) \<and>
    map call_view cs = concat (map (\<lambda>(i, bs, t). map (\<lambda>l. Some (l, i, bs)) (listeners_of a t)) ds) \<and>
    list_all full_delivery cs"
  using assms
proof (induction ps arbitrary: a s ds)
  case Nil
  then show ?case
    by (simp add: smap_put_same)
next
  case (Cons p ps)
  from Cons.prems(5) obtain s1 d1 ds2 where
    s1: "PackRecvData junk s (Some (packet_buffer p)) = Done (s1, d1)"
    and rest: "run_recv (recv_packet junk) s1 ps = Done (s', ds2)"
    and ds: "ds = map (\<lambda>(i, d, t). (i, buf_bytes d, t)) d1 @ ds2"
    by (auto simp: recv_packet_Done ub_bind_Done_iff)
  have full: "session_inv s1" "\<forall>(i, d, t) \<in> set d1. buffer_full d"
    using PackRecvData_ok [OF Cons.prems(3), of "Some (packet_buffer p)" junk] s1 by (auto simp: step_ok_def)
  let ?a1 = "a\<lparr>sessions := smap_put sid (Some s1) (sessions a)\<rparr>"
  have "smap_ok (sessions ?a1)" "smap_find (sessions ?a1) sid = Some (Some s1)"
    using Cons.prems(1) by (simp_all add: sm.laws)
  then obtain cs where cs: "run_bytes junk sid ?a1 ps = Done (?a1\<lparr>sessions := smap_put sid (Some s') (sessions ?a1)\<rparr>, cs)"
    "map call_view cs = concat (map (\<lambda>(i, bs, t). map (\<lambda>l. Some (l, i, bs)) (listeners_of ?a1 t)) ds2)"
    "list_all full_delivery cs"
    using Cons.IH [of ?a1 s1 ds2] Cons.prems(4) rest full(1) by auto
  have "listeners_of ?a1 = listeners_of a"
    by (simp add: listeners_of_def fun_eq_iff)
  then show ?case
    using OnBytes_session [OF Cons.prems(2), of p junk] Cons.prems(1,4) s1 cs ds OnDataReady_full [OF full(2)]
    by (auto simp: OnDataReady_views)
qed

lemma AddNewPeerSession_result:
  assumes "AddNewPeerSession bd env peer type a = (a', cs, r, sid)"
  shows "(r = ERR_OK \<and> sid = socketRet env \<and> 0 < sid \<and> (\<exists>my. sessions a' =
      smap_put sid (Some (DSchedSoftbusSession sid my peer SOCKET_DMS_SESSION_NAME False)) (sessions a))) \<or>
    (r \<noteq> ERR_OK \<and> sessions a' = sessions a \<and>
      (CallBind (socketRet env) \<in> set cs \<longrightarrow> CallShutdown (socketRet env) \<in> set cs))"
proof (cases "socketRet env \<le> 0 \<or> bindRet env \<noteq> ERR_OK \<or> localDeviceId env = None")
  case True
  then show ?thesis
    using assms
    by (elim disjE) (auto simp: AddNewPeerSession_def CreateClientSocket_def CreateSessionRecord_def ShutdownSession_def
        Let_def split: if_splits option.splits)
next
  case False
  then obtain my where my: "localDeviceId env = Some my" "bindRet env = ERR_OK" "0 < socketRet env"
    by auto
  have "r = ERR_OK \<and> sid = socketRet env \<and> sessions a' =
      smap_put sid (Some (DSchedSoftbusSession sid my peer SOCKET_DMS_SESSION_NAME False)) (sessions a)"
    using assms my by (auto simp: AddNewPeerSession_def CreateClientSocket_def CreateSessionRecord_def Let_def)
  then show ?thesis
    using my(3) by blast
qed

subsection \<open>Properties\<close>

lemma full_buffer_packet: "buffer_full d \<Longrightarrow> buf_bytes d \<noteq> [] \<Longrightarrow> d = packet_buffer (buf_bytes d)"
  by (cases "dataPtr d")
    (auto simp: buffer_full_def buffer_wf_def buf_bytes_def packet_buffer_eq intro!: data_buffer.equality)

lemma deliveries_eq:
  assumes "map call_view cs = map (\<lambda>l. Some (l, sid, bs)) ls" "list_all full_delivery cs" "bs \<noteq> []"
  shows "cs = map (\<lambda>l. ListenerOnDataRecv l sid (packet_buffer bs)) ls"
  using assms
proof (induction cs arbitrary: ls)
  case (Cons c cs)
  then obtain l ls' where "ls = l # ls'"
    by (cases ls) auto
  with Cons full_buffer_packet show ?case
    by (cases c) auto
qed simp

lemma message_delivered:
  assumes "adapter_inv a" "smap_find (sessions a) sid = Some (Some s)" "smap_find (sessions b) sid' = Some (Some s')"
    and "buffer_wf buf" "0 < Size buf" "env_ok L env" "Size buf \<le> 65535 * (L - 512)"
  shows "\<exists>pkts a'. AdapterSendData env sid' dt (Some buf) b = Done (map (CallSendBytes sid') pkts, ERR_OK) \<and>
    run_bytes junk sid a pkts = Done (a', map (\<lambda>l. ListenerOnDataRecv l sid (packet_buffer (buf_bytes buf))) (listeners_of a dt)) \<and>
    adapter_inv a'"
proof -
  have s: "session_entry_ok sid (Some s)" and ok: "smap_ok (sessions a)"
    using assms(1,2) by (auto simp: adapter_inv_find)
  then have idle: "session_idle sid s"
    by (simp add: session_entry_ok_def session_idle_def)
  obtain pkts s1 where pkts: "SendData env (Some buf) dt = Done (pkts, ERR_OK)"
    "\<forall>p \<in> set pkts. 0 < length p \<and> length p < DSCHED_MAX_BUFFER_SIZE"
    "run_recv (recv_packet junk) s pkts = Done (s1, [(sid, buf_bytes buf, dt)])"
    using session_roundtrip [OF idle assms(4-7)] by blast
  have inv: "session_inv s"
    using s by (simp add: session_entry_ok_def)
  obtain cs where cs: "run_bytes junk sid a pkts = Done (a\<lparr>sessions := smap_put sid (Some s1) (sessions a)\<rparr>, cs)"
    "map call_view cs = map (\<lambda>l. Some (l, sid, buf_bytes buf)) (listeners_of a dt)" "list_all full_delivery cs"
    using run_bytes_recv [OF ok assms(2) inv pkts(2,3)] by auto
  have "buf_bytes buf \<noteq> []"
    using length_buf_bytes [OF assms(4)] assms(5) by auto
  then have "cs = map (\<lambda>l. ListenerOnDataRecv l sid (packet_buffer (buf_bytes buf))) (listeners_of a dt)"
    using deliveries_eq cs(2,3) by blast
  moreover have "session_inv s" "same_session s s1" "session_inv s1"
    using run_recv_ok [of s junk pkts] pkts(3) s by (auto simp: session_entry_ok_def)
  then have "session_entry_ok sid (Some s1)"
    using s by (simp add: session_entry_ok_def same_session_def)
  ultimately show ?thesis
    using cs(1) pkts(1) assms(3) inv_put_session [OF assms(1)] by (auto simp: AdapterSendData_def)
qed

text \<open>
  C29: end to end through two adapters. If a device sends a non-empty buffer through a session
  it knows, over a SoftBus whose calls succeed and whose send limit stays between \<open>L\<close> and 4 MiB, then
  \<^verbatim>\<open>SendData\<close> reports success and the packets, arriving in order at the peer's adapter, call every
  listener registered there for that data type, in the order of registration, once each, with the
  session and exactly the bytes sent; no other listener is called.
\<close>

theorem message_reaches_listeners:
  assumes "adapter_inv a" "smap_find (sessions a) sid = Some (Some s)" "smap_find (sessions b) sid' = Some (Some s')"
    and "buffer_wf buf" "0 < Size buf" "env_ok L env" "Size buf \<le> 65535 * (L - 512)"
  shows "\<exists>pkts a' cs. AdapterSendData env sid' dt (Some buf) b = Done (map (CallSendBytes sid') pkts, ERR_OK) \<and>
    run_bytes junk sid a pkts = Done (a', cs) \<and>
    map call_view cs = map (\<lambda>l. Some (l, sid, buf_bytes buf)) (listeners_of a dt) \<and> adapter_inv a'"
proof -
  have "buf_bytes (packet_buffer (buf_bytes buf)) = buf_bytes buf"
    using length_buf_bytes [OF assms(4)] assms(5) buffer_Size_less [OF assms(4)] by (simp add: packet_buffer_simps)
  then show ?thesis
    using message_delivered [OF assms, of dt junk] by fastforce
qed

definition sample_build :: build where
  "sample_build = \<lparr>DMSFWK_ALL_CONNECT_MGR = True, COLLAB_ALL_CONNECT_DECISIONS = False\<rparr>"

definition sample_adapter :: adapter where
  "sample_adapter = \<lparr>sessions = [(5, Some (DSchedSoftbusSession 5 ''me'' ''peer'' ''dms'' True))],
     listeners = [(0, [7, 9]), (1, [8])], serverSocket = 1, callingTokenId = 0, isAllConnectExist = True\<rparr>"

lemma sample_adapter_inv: "adapter_inv sample_adapter"
  by (simp add: adapter_inv_def sample_adapter_def smap_ok_Cons new_session_ok)

theorem message_reaches_listeners_witness:
  "\<exists>pkts a' cs. AdapterSendData sample_env 5 0 (Some (packet_buffer (replicate 5000 7))) sample_adapter =
      Done (map (CallSendBytes 5) pkts, ERR_OK) \<and>
    run_bytes (frag_head 0 0 0 0 0) 5 sample_adapter pkts = Done (a', cs) \<and>
    map call_view cs = [Some (7, 5, replicate 5000 7), Some (9, 5, replicate 5000 7)] \<and> adapter_inv a'"
proof -
  let ?bs = "replicate 5000 7 :: byte list"
  let ?s = "DSchedSoftbusSession 5 ''me'' ''peer'' ''dms'' True"
  have b: "buffer_wf (packet_buffer ?bs)" "Size (packet_buffer ?bs) = 5000" "buf_bytes (packet_buffer ?bs) = ?bs"
    using packet_buffer_simps [of ?bs] by (simp_all add: DSCHED_MAX_BUFFER_SIZE_def)
  have "env_ok 1024 sample_env"
    by (simp add: env_ok_def sample_env_def)
  moreover have "smap_find (sessions sample_adapter) 5 = Some (Some ?s)"
    by (simp add: sample_adapter_def)
  moreover have "listeners_of sample_adapter 0 = [7, 9]"
    by (simp add: listeners_of_def sample_adapter_def)
  ultimately show ?thesis
    using message_reaches_listeners [OF sample_adapter_inv, of 5 ?s sample_adapter 5 ?s "packet_buffer ?bs" 1024 sample_env 0
        "frag_head 0 0 0 0 0"] b by simp
qed



text \<open>
  C31: The reference count decides when a connection ends. If the session to a device is referenced
  \<open>n\<close> times, then the first \<open>n - 1\<close> calls of \<^verbatim>\<open>DisconnectDevice\<close> close nothing and call nobody, and
  the \<open>n\<close>-th removes the session, shuts its socket down once and tells every listener.
\<close>

theorem last_disconnect_closes:
  assumes "adapter_inv a" "GetSessionIdByDeviceId a peer = Some sid" "sid \<noteq> 0" "refs a sid = int n"
  shows "(\<forall>k < n. snd (disconnects bd peer k a) = [] \<and> refs (fst (disconnects bd peer k a)) sid = int (n - k)) \<and>
    disconnects bd peer n a = (a\<lparr>sessions := smap_erase sid (sessions a)\<rparr>,
      ShutdownSession bd peer sid @ NotifyListenersSessionShutdown a sid True)"
proof -
  have peer: "find_peer (sessions a) peer = Some sid"
    using assms(2) by (simp add: GetSessionIdByDeviceId_def)
  obtain s where s: "smap_find (sessions a) sid = Some (Some s)" "1 \<le> sbRefCount s" "sbPeerDeviceId s = peer"
    using find_peer_session [OF assms(1) peer] by blast
  then have n: "sbRefCount s = int n"
    using assms(4) by (simp add: refs_def)
  have ok: "smap_ok (sessions a)"
    using assms(1) by (simp add: adapter_inv_def)
  note kept = disconnects_kept [OF assms(1) peer assms(3) s(1), of _ bd]
  have "snd (disconnects bd peer k a) = [] \<and> refs (fst (disconnects bd peer k a)) sid = int (n - k)" if "k < n" for k
    using kept [of k] n that ok by (simp add: refs_def sm.laws of_nat_diff)
  moreover have "disconnects bd peer n a = (a\<lparr>sessions := smap_erase sid (sessions a)\<rparr>,
      ShutdownSession bd peer sid @ NotifyListenersSessionShutdown a sid True)"
    by (rule disconnects_all [OF assms(1) peer assms(3) s(1) n s(2)])
  ultimately show ?thesis by blast
qed

theorem last_disconnect_closes_witness:
  "snd (disconnects sample_build ''peer'' 1 sample_adapter) =
     [CallShutdown 5, CallPublishServiceState ''peer'' SCM_IDLE, ListenerOnShutdown 7 5 True,
      ListenerOnShutdown 9 5 True, ListenerOnShutdown 8 5 True] \<and>
   sessions (fst (disconnects sample_build ''peer'' 1 sample_adapter)) = []"
proof -
  have "GetSessionIdByDeviceId sample_adapter ''peer'' = Some 5" "refs sample_adapter 5 = int 1"
    by (simp_all add: GetSessionIdByDeviceId_def refs_def sample_adapter_def DSchedSoftbusSession_def COUNT_INIT_NUM_def)
  then show ?thesis
    using last_disconnect_closes [OF sample_adapter_inv, of "''peer''" 5 1 sample_build]
    by (simp add: ShutdownSession_def NotifyListenersSessionShutdown_def sample_adapter_def sample_build_def smap_erase_def)
qed

text \<open>
  Connecting to a device that is already connected opens no socket, returns the existing session
  and is exactly undone by one \<^verbatim>\<open>DisconnectDevice\<close>, which calls nobody.
\<close>

theorem connect_disconnect_undone:
  assumes "adapter_inv a" "GetSessionIdByDeviceId a peer = Some sid" "sid \<noteq> 0"
  shows "\<exists>a1 cs. ConnectDevice bd env peer sid0 type a = (a1, cs, ERR_OK, sid) \<and>
    (\<forall>p. CallSocket p \<notin> set cs) \<and> DisconnectDevice bd peer a1 = (a, [])"
proof -
  have peer: "find_peer (sessions a) peer = Some sid"
    using assms(2) by (simp add: GetSessionIdByDeviceId_def)
  obtain s where s: "smap_find (sessions a) sid = Some (Some s)" "1 \<le> sbRefCount s"
    using find_peer_session [OF assms(1) peer] by blast
  have ok: "smap_ok (sessions a)"
    using assms(1) by (simp add: adapter_inv_def)
  let ?s1 = "OnConnect s"
  let ?a1 = "a\<lparr>sessions := smap_put sid (Some ?s1) (sessions a)\<rparr>"
  let ?cs = "if DMSFWK_ALL_CONNECT_MGR bd then NotifyConnectDecision bd env a peer type else []"
  have con: "ConnectDevice bd env peer sid0 type a = (?a1, ?cs, ERR_OK, sid)"
    by (rule ConnectDevice_known [OF assms(1) peer s(1)])
  have f: "find_peer (sessions ?a1) peer = Some sid"
    using find_peer_put_same [OF ok s(1), of ?s1 peer] peer by (simp add: OnConnect_def)
  have i: "adapter_inv ?a1"
    using inv_ConnectDevice [OF assms(1), of bd env peer sid0 type] con by simp
  have m: "smap_find (sessions ?a1) sid = Some (Some ?s1)"
    using ok by (simp add: sm.laws)
  have more: "\<not> sbRefCount ?s1 \<le> 1" and bk: "?s1\<lparr>sbRefCount := sbRefCount ?s1 - 1\<rparr> = s"
    using s(2) by (simp_all add: OnConnect_def)
  have "sessions ?a1 = smap_put sid (Some ?s1) (sessions a)"
    by simp
  then have "smap_put sid (Some s) (sessions ?a1) = sessions a"
    using ok s(1) by (simp add: smap_put_same)
  then have "DisconnectDevice bd peer ?a1 = (a, [])"
    unfolding DisconnectDevice_known [OF f assms(3) m i] bk using more by simp
  moreover have "CallSocket p \<notin> set ?cs" for p
    by (simp add: NotifyConnectDecision_def split: service_type.split)
  ultimately show ?thesis
    using con by blast
qed

definition sample_adapter_env :: adapter_env where
  "sample_adapter_env = \<lparr>initAllConnectRet = 0, socketRet = 12, listenRet = 0, bindRet = 0, applyAdvanceResourceRet = 0,
     isWifiActive = True, localDeviceId = Some ''me''\<rparr>"

theorem connect_disconnect_undone_witness:
  "\<exists>a1 cs. ConnectDevice sample_build sample_adapter_env ''peer'' 0 SERVICE_TYPE_CONTINUE sample_adapter = (a1, cs, ERR_OK, 5) \<and>
    (\<forall>p. CallSocket p \<notin> set cs) \<and> DisconnectDevice sample_build ''peer'' a1 = (sample_adapter, [])"
  by (rule connect_disconnect_undone [OF sample_adapter_inv])
    (simp_all add: GetSessionIdByDeviceId_def sample_adapter_def DSchedSoftbusSession_def)

text \<open>
  Connecting to a device without a session either succeeds and leaves a session to that device
  under the returned id with one reference, ready to be found again, or fails, leaves the session
  table as it was and shuts down the socket if one had been created.
\<close>

theorem connect_new_or_clean:
  assumes "adapter_inv a" "GetSessionIdByDeviceId a peer = None"
    and "ConnectDevice bd env peer sid0 type a = (a', cs, r, sid)"
  shows "(r = ERR_OK \<longrightarrow> sid = socketRet env \<and> 0 < sid \<and> GetSessionIdByDeviceId a' peer = Some sid \<and> refs a' sid = 1 \<and>
      (\<forall>i. i \<noteq> sid \<longrightarrow> smap_find (sessions a') i = smap_find (sessions a) i)) \<and>
    (r \<noteq> ERR_OK \<longrightarrow> sessions a' = sessions a \<and> (CallBind (socketRet env) \<in> set cs \<longrightarrow> CallShutdown (socketRet env) \<in> set cs))"
proof -
  have peer: "find_peer (sessions a) peer = None" and ok: "smap_ok (sessions a)"
    using assms(1,2) by (simp_all add: GetSessionIdByDeviceId_def adapter_inv_def)
  have dec: "CallBind i \<notin> set (fst (DecisionByAllConnect bd env a peer type))" for i
    by (auto simp: DecisionByAllConnect_def NotifyConnectDecision_def split: service_type.splits)
  have new: "find_peer (smap_put (socketRet env) (Some (DSchedSoftbusSession (socketRet env) my peer name False)) (sessions a)) peer
      = Some (socketRet env)" for my name
    using find_peer_put_new [OF ok, of "DSchedSoftbusSession (socketRet env) my peer name False" "socketRet env"] peer
    by (simp add: DSchedSoftbusSession_def)
  obtain cs0 r0 where d: "(if IsNeedAllConnect bd env a type then DecisionByAllConnect bd env a peer type else ([], ERR_OK)) = (cs0, r0)"
    by (rule prod.exhaust)
  then have d2: "CallBind i \<notin> set cs0" for i
    using dec [of i] by (auto split: if_splits)
  show ?thesis
  proof (cases "r0 = ERR_OK")
    case False
    then show ?thesis
      using assms(3) peer d d2 by (auto simp: ConnectDevice_def)
  next
    case True
    obtain cs' where add: "AddNewPeerSession bd env peer type a = (a', cs', r, sid)" "cs = cs0 @ cs'"
      using assms(3) peer d(1) True by (auto simp: ConnectDevice_def split: prod.splits)
    from AddNewPeerSession_result [OF add(1)] show ?thesis
    proof (elim disjE conjE exE)
      fix my
      assume "r = ERR_OK" "sid = socketRet env" "0 < sid"
        "sessions a' = smap_put sid (Some (DSchedSoftbusSession sid my peer SOCKET_DMS_SESSION_NAME False)) (sessions a)"
      then show ?thesis
        using new [of my SOCKET_DMS_SESSION_NAME] ok
        by (simp add: GetSessionIdByDeviceId_def refs_def sm.laws)
           (simp add: DSchedSoftbusSession_def COUNT_INIT_NUM_def)
    next
      assume "r \<noteq> ERR_OK" "sessions a' = sessions a"
        "CallBind (socketRet env) \<in> set cs' \<longrightarrow> CallShutdown (socketRet env) \<in> set cs'"
      then show ?thesis
        using add(2) d2 by auto
    qed
  qed
qed

theorem connect_new_or_clean_witness:
  "\<exists>a' cs. ConnectDevice sample_build sample_adapter_env ''other'' 0 SERVICE_TYPE_CONTINUE sample_adapter = (a', cs, ERR_OK, 12) \<and>
    GetSessionIdByDeviceId a' ''other'' = Some 12 \<and> refs a' 12 = 1"
proof -
  have none: "GetSessionIdByDeviceId sample_adapter ''other'' = None"
    by (simp add: GetSessionIdByDeviceId_def sample_adapter_def DSchedSoftbusSession_def)
  obtain a' cs r sid where res:
    "ConnectDevice sample_build sample_adapter_env ''other'' 0 SERVICE_TYPE_CONTINUE sample_adapter = (a', cs, r, sid)"
    by (cases "ConnectDevice sample_build sample_adapter_env ''other'' 0 SERVICE_TYPE_CONTINUE sample_adapter")
  have "fst (snd (snd (ConnectDevice sample_build sample_adapter_env ''other'' 0 SERVICE_TYPE_CONTINUE sample_adapter))) = ERR_OK"
    by (simp add: ConnectDevice_def sample_adapter_def DSchedSoftbusSession_def IsNeedAllConnect_def DecisionByAllConnect_def
        sample_build_def sample_adapter_env_def AddNewPeerSession_def CreateClientSocket_def CreateSessionRecord_def Let_def)
  with res have "r = ERR_OK" by simp
  then show ?thesis
    using connect_new_or_clean [OF sample_adapter_inv none res] res by (auto simp: sample_adapter_env_def)
qed

text \<open>
  When the local device id is not available, a new connection is refused, but the socket that had
  been bound is shut down twice: once by \<^verbatim>\<open>CreateSessionRecord\<close> and once by its caller
  \<^verbatim>\<open>AddNewPeerSession\<close>.
\<close>

theorem failed_record_double_shutdown:
  assumes "0 < socketRet env" "bindRet env = ERR_OK" "localDeviceId env = None"
  shows "\<exists>a' cs. AddNewPeerSession bd env peer type a = (a', cs, GET_LOCAL_DEVICE_ERR, INVALID_SESSION_ID) \<and>
    length (filter (\<lambda>c. c = CallShutdown (socketRet env)) cs) = 2"
  using assms
  by (simp add: AddNewPeerSession_def CreateClientSocket_def CreateSessionRecord_def ShutdownSession_def Let_def)

theorem failed_record_double_shutdown_witness:
  "\<exists>a' cs. AddNewPeerSession sample_build (sample_adapter_env\<lparr>localDeviceId := None\<rparr>) ''other'' SERVICE_TYPE_CONTINUE sample_adapter =
      (a', cs, GET_LOCAL_DEVICE_ERR, INVALID_SESSION_ID) \<and> length (filter (\<lambda>c. c = CallShutdown 12) cs) = 2"
  using failed_record_double_shutdown [of "sample_adapter_env\<lparr>localDeviceId := None\<rparr>" sample_build "''other''"
      SERVICE_TYPE_CONTINUE sample_adapter] by (simp add: sample_adapter_env_def)

end
