(* ===== verification/Collab_Transport.thy ===== *)
theory Collab_Transport
  imports Session_Header Reassembly
begin

text \<open>
  The byte channel of the collaboration manager, \<^verbatim>\<open>DataSenderReceiver\<close>
  (\<^verbatim>\<open>services/dtbcollabmgr/src/channel_manager/data_sender_receiver.cpp\<close>). The sender runs over the
  memory of the buffer it is given, so a read past its end is \<open>OutOfBounds\<close>; its loop does not
  advance when the payload length is 0 and is therefore a \<open>partial_function\<close> whose value \<open>None\<close>
  stands for not returning. The receiver keeps the position \<^verbatim>\<open>currentPos\<close> as an offset into the
  pack buffer, \<open>None\<close> for the null pointer.
\<close>

subsection \<open>The sender\<close>

definition DoSendPacket :: "softbus_env \<Rightarrow> nat \<Rightarrow> session_header \<Rightarrow> byte list option \<Rightarrow> nat \<Rightarrow> u32 \<Rightarrow> (byte list list \<times> chan_ret) ub" where
  "DoSendPacket env k headerPara dataHeader pos dataLen =
     (let headerBuffer = Serialize headerPara;
          sendBuffer = AVTransDataBuffer (unat (of_nat HEADER_LEN + dataLen))
      in if memcpy_s (Data sendBuffer = None) (Size sendBuffer) (Data headerBuffer = None) HEADER_LEN \<noteq> ERR_OK
         then Done ([], WRITE_SESSION_HEADER_FAILED)
         else ub_bind (peek (the (Data headerBuffer)) 0 HEADER_LEN) (\<lambda>hd.
           let sendBuffer1 = buf_write sendBuffer 0 hd in
           if memcpy_s False (size_sub (Size sendBuffer1) HEADER_LEN) (dataHeader = None) (unat dataLen) \<noteq> ERR_OK
           then Done ([], WRITE_SEND_DATA_BUFFER_FAILED)
           else ub_bind (peek (the dataHeader) pos (unat dataLen)) (\<lambda>bs.
             let sendBuffer2 = buf_write sendBuffer1 HEADER_LEN bs in
             Done ([buf_bytes sendBuffer2],
               if sendBytesRet env k \<noteq> ERR_OK then SEND_DATA_BY_SOFTBUS_FAILED else CHAN_OK))))"

definition SendAllPackets :: "softbus_env \<Rightarrow> data_buffer \<Rightarrow> u32 \<Rightarrow> (byte list list \<times> chan_ret) ub" where
  "SendAllPackets env sendData dataType =
     (let totalLen = word_of_nat (Size sendData + HEADER_LEN);
          packetLen = word_of_nat (Size sendData + HEADER_LEN);
          payloadLen = packetLen - of_nat HEADER_LEN;
          headerPara = \<lparr>hVersion = PROTOCOL_VERSION, hFragFlag = FRAG_START_END, hDataType = dataType, hSeqNum = 0,
            hTotalLen = totalLen, hPacketLen = packetLen, hPayloadLen = payloadLen, hSubSeq = 0\<rparr>
      in DoSendPacket env 0 headerPara (Data sendData) 0 payloadLen)"

partial_function (option) send_loop ::
  "softbus_env \<Rightarrow> data_buffer \<Rightarrow> u32 \<Rightarrow> nat \<Rightarrow> session_header \<Rightarrow> nat \<Rightarrow> (byte list list \<times> chan_ret) ub option" where
  "send_loop env sendData payloadLen k headerPara current =
     (if \<not> current < Size sendData then Some (Done ([], CHAN_OK))
      else if fst (getSessionOption env k) \<noteq> ERR_OK then Some (Done ([], GET_SESSION_OPTION_FAILED))
      else
        let maxSendSize = snd (getSessionOption env k);
            h1 = headerPara\<lparr>hPacketLen := maxSendSize, hPayloadLen := maxSendSize - of_nat HEADER_LEN,
              hFragFlag := (if Size sendData - current > unat payloadLen then FRAG_MID else FRAG_END),
              hSubSeq := hSubSeq headerPara + 1\<rparr>
        in case DoSendPacket env k h1 (Data sendData) current payloadLen of
             OutOfBounds \<Rightarrow> Some OutOfBounds
           | Done (sent, r) \<Rightarrow>
               if r \<noteq> CHAN_OK then Some (Done (sent, r))
               else Option.bind (send_loop env sendData payloadLen (Suc k) h1 (current + unat payloadLen))
                      (\<lambda>res. Some (ub_bind res (\<lambda>(ps, r'). Done (sent @ ps, r')))))"

definition SendUnpackData :: "softbus_env \<Rightarrow> data_buffer \<Rightarrow> u32 \<Rightarrow> (byte list list \<times> chan_ret) ub option" where
  "SendUnpackData env sendData dataType =
     (if fst (getSessionOption env 0) \<noteq> ERR_OK then Some (Done ([], GET_SESSION_OPTION_FAILED))
      else
        let maxSendSize = snd (getSessionOption env 0) in
        if Size sendData + HEADER_LEN \<le> unat maxSendSize then Some (SendAllPackets env sendData dataType)
        else
          let packetLen = maxSendSize;
              payloadLen = packetLen - of_nat HEADER_LEN;
              headerPara = \<lparr>hVersion = PROTOCOL_VERSION, hFragFlag = FRAG_START, hDataType = dataType, hSeqNum = 0,
                hTotalLen = word_of_nat (Size sendData), hPacketLen = packetLen, hPayloadLen = payloadLen, hSubSeq = 0\<rparr>
          in case DoSendPacket env 0 headerPara (Data sendData) 0 payloadLen of
               OutOfBounds \<Rightarrow> Some OutOfBounds
             | Done (sent, r) \<Rightarrow>
                 if r \<noteq> CHAN_OK then Some (Done (sent, r))
                 else Option.bind (send_loop env sendData payloadLen 1 headerPara (unat payloadLen))
                        (\<lambda>res. Some (ub_bind res (\<lambda>(ps, r'). Done (sent @ ps, r')))))"

definition CHANNEL_DATA_TYPE_BYTES :: u32 where "CHANNEL_DATA_TYPE_BYTES = 1"

definition SendBytesData :: "softbus_env \<Rightarrow> data_buffer \<Rightarrow> (byte list list \<times> chan_ret) ub option" where
  "SendBytesData env sendData = SendUnpackData env sendData CHANNEL_DATA_TYPE_BYTES"

definition MAX_SEND_MESSAGE_SIZE :: nat where "MAX_SEND_MESSAGE_SIZE = 4 * 1024"

text \<open>\<open>sendMessage\<close> is the SoftBus call; the bytes it is given are the range of the buffer.\<close>

definition SendMessageData :: "(byte list \<Rightarrow> ret) \<Rightarrow> data_buffer \<Rightarrow> chan_ret + ret" where
  "SendMessageData sendMessage sendData =
     (if Size sendData > MAX_SEND_MESSAGE_SIZE then Inl DATA_SIZE_EXCEED_LIMIT
      else Inr (sendMessage (buf_bytes sendData)))"

subsection \<open>The receiver\<close>

record recv_state =
  rIsWaiting :: bool
  rNowSeqNum :: u32
  rNowSubSeq :: u32
  rNowTotalLen :: u32
  rPackBuffer :: "data_buffer option"
  rCurrentPos :: "nat option"

definition ResetFlag :: "recv_state \<Rightarrow> recv_state" where
  "ResetFlag s = \<lparr>rIsWaiting = False, rNowSeqNum = 0, rNowSubSeq = 0, rNowTotalLen = 0, rPackBuffer = None,
     rCurrentPos = None\<rparr>"

definition CheckRecvSessionHeader :: "recv_state \<Rightarrow> session_header \<Rightarrow> chan_ret" where
  "CheckRecvSessionHeader s h =
     (if rNowSeqNum s \<noteq> hSeqNum h then INVALID_SESSION_HEADER_SEQ_NUM
      else if rNowSubSeq s = 0 \<and> hSubSeq h = 0 then CHAN_OK
      else if rNowSubSeq s + 1 \<noteq> ucast (hSubSeq h) then INVALID_SESSION_HEADER_SUB_SEQ
      else CHAN_OK)"

text \<open>
  \<open>mem\<close> is the packet. The payload is read at \<open>packetLen - payloadLen\<close>; the length of the packet is
  not looked at.
\<close>

definition WriteRecvBytesDataToBuffer :: "byte list \<Rightarrow> session_header \<Rightarrow> recv_state \<Rightarrow> (recv_state \<times> chan_ret) ub" where
  "WriteRecvBytesDataToBuffer mem h s =
     (let dataHeader = unat (hPacketLen h - hPayloadLen h);
          s1 = (case rPackBuffer s of
                  None \<Rightarrow> (let b = AVTransDataBuffer (unat (hTotalLen h)) in
                     s\<lparr>rPackBuffer := Some b, rCurrentPos := (if Data b = None then None else Some 0)\<rparr>)
                | Some b \<Rightarrow> s);
          pack = the (rPackBuffer s1)
      in if rPackBuffer s \<noteq> None \<and> Size pack \<noteq> unat (hTotalLen h) then Done (s1, INVALID_SESSION_HEADER_TOTAL_LEN)
         else
           let pos = (case rCurrentPos s1 of None \<Rightarrow> 0 | Some p \<Rightarrow> p);
               r = memcpy_s (rCurrentPos s1 = None) (size_sub (Size pack) pos) False (unat (hPayloadLen h))
           in if r \<noteq> ERR_OK then Done (s1, WRITE_PAYLOAD_TO_BUFFER_FAILED)
              else ub_bind (peek mem dataHeader (unat (hPayloadLen h))) (\<lambda>bs.
                Done (s1\<lparr>rPackBuffer := Some (buf_write pack pos bs),
                        rCurrentPos := Some (pos + unat (hPayloadLen h))\<rparr>, CHAN_OK)))"

definition ProcessAllPacketRecv :: "byte list \<Rightarrow> session_header \<Rightarrow> recv_state \<Rightarrow> (recv_state \<times> chan_ret) ub" where
  "ProcessAllPacketRecv mem h s =
     (if rPackBuffer s \<noteq> None \<or> rIsWaiting s then Done (ResetFlag s, FLAG_TYPE_NOT_MATCH_BUFFER_STATE)
      else ub_bind (WriteRecvBytesDataToBuffer mem h s) (\<lambda>(s1, r).
        if r \<noteq> CHAN_OK then Done (ResetFlag s1, WRITE_PAYLOAD_TO_BUFFER_FAILED) else Done (s1, CHAN_OK)))"

definition ProcessStartPacketRecv :: "byte list \<Rightarrow> session_header \<Rightarrow> recv_state \<Rightarrow> (recv_state \<times> chan_ret) ub" where
  "ProcessStartPacketRecv mem h s =
     (if rPackBuffer s \<noteq> None \<or> rIsWaiting s then Done (ResetFlag s, FLAG_TYPE_NOT_MATCH_BUFFER_STATE)
      else ub_bind (WriteRecvBytesDataToBuffer mem h s) (\<lambda>(s1, r).
        if r \<noteq> CHAN_OK then Done (ResetFlag s1, r)
        else Done (s1\<lparr>rIsWaiting := True, rNowSeqNum := hSeqNum h, rNowSubSeq := ucast (hSubSeq h)\<rparr>, CHAN_OK)))"

definition ProcessMidPacketRecv :: "byte list \<Rightarrow> session_header \<Rightarrow> recv_state \<Rightarrow> (recv_state \<times> chan_ret) ub" where
  "ProcessMidPacketRecv mem h s =
     (if rPackBuffer s = None \<or> \<not> rIsWaiting s then Done (ResetFlag s, FLAG_TYPE_NOT_MATCH_BUFFER_STATE)
      else ub_bind (WriteRecvBytesDataToBuffer mem h s) (\<lambda>(s1, r).
        if r \<noteq> CHAN_OK then Done (ResetFlag s1, r)
        else Done (s1\<lparr>rNowSeqNum := hSeqNum h, rNowSubSeq := ucast (hSubSeq h)\<rparr>, CHAN_OK)))"

definition ProcessEndPacketRecv :: "byte list \<Rightarrow> session_header \<Rightarrow> recv_state \<Rightarrow> (recv_state \<times> chan_ret) ub" where
  "ProcessEndPacketRecv mem h s =
     (if rPackBuffer s = None \<or> \<not> rIsWaiting s then Done (ResetFlag s, FLAG_TYPE_NOT_MATCH_BUFFER_STATE)
      else ub_bind (WriteRecvBytesDataToBuffer mem h s) (\<lambda>(s1, r).
        if r \<noteq> CHAN_OK then Done (ResetFlag s1, r) else Done (s1\<lparr>rIsWaiting := False\<rparr>, r)))"

definition PackRecvPacketData :: "session_header \<Rightarrow> recv_state \<Rightarrow> byte list option \<Rightarrow> (recv_state \<times> chan_ret) ub" where
  "PackRecvPacketData junk s header =
     ub_bind (Deserialize junk header) (\<lambda>headerPara.
       case headerPara of
         None \<Rightarrow> Done (s, WRITE_SESSION_HEADER_FAILED)
       | Some h \<Rightarrow>
           let mem = the header in
           if CheckRecvSessionHeader s h \<noteq> CHAN_OK then Done (s, CheckRecvSessionHeader s h)
           else if hFragFlag h = FRAG_START_END then ProcessAllPacketRecv mem h s
           else if hFragFlag h = FRAG_START then ProcessStartPacketRecv mem h s
           else if hFragFlag h = FRAG_MID then ProcessMidPacketRecv mem h s
           else if hFragFlag h = FRAG_END then ProcessEndPacketRecv mem h s
           else Done (s, INVALID_SESSION_HEADER_FLAG_TYPE))"

definition isDataReady :: "recv_state \<Rightarrow> bool" where
  "isDataReady s \<longleftrightarrow> \<not> rIsWaiting s \<and> rPackBuffer s \<noteq> None"

definition GetPacketedData :: "recv_state \<Rightarrow> recv_state \<times> data_buffer option" where
  "GetPacketedData s =
     (if isDataReady s
      then (ResetFlag s, Some (fst (SetRange 0 (the (rCurrentPos s)) (the (rPackBuffer s)))))
      else (s, None))"

text \<open>
  What \<^verbatim>\<open>ChannelManager::ProcessRecvData\<close> does with a packet once it has found the receiver of the
  socket: pack it and fetch the data if it completed a message. Delivered buffers are given by their
  bytes.
\<close>

definition process_packet :: "session_header \<Rightarrow> recv_state \<Rightarrow> byte list \<Rightarrow> (recv_state \<times> byte list list) ub" where
  "process_packet junk s packet =
     ub_bind (PackRecvPacketData junk s (Some packet)) (\<lambda>(s1, r).
       if r \<noteq> CHAN_OK then Done (s1, [])
       else case GetPacketedData s1 of
              (s2, None) \<Rightarrow> Done (s2, [])
            | (s2, Some b) \<Rightarrow> Done (s2, [buf_bytes b]))"

subsection \<open>The receiver on well-formed packets\<close>

definition recv_init :: recv_state where
  "recv_init = \<lparr>rIsWaiting = False, rNowSeqNum = 0, rNowSubSeq = 0, rNowTotalLen = 0, rPackBuffer = None,
     rCurrentPos = None\<rparr>"

lemma ResetFlag_init [simp]: "ResetFlag s = recv_init"
  by (simp add: ResetFlag_def recv_init_def)

definition collab_head :: "u32 \<Rightarrow> nat \<Rightarrow> byte \<Rightarrow> nat \<Rightarrow> nat \<Rightarrow> session_header" where
  "collab_head dt tot flag k n = \<lparr>hVersion = PROTOCOL_VERSION, hFragFlag = flag, hDataType = dt, hSeqNum = 0,
     hTotalLen = word_of_nat tot, hPacketLen = word_of_nat (n + HEADER_LEN), hPayloadLen = word_of_nat n,
     hSubSeq = word_of_nat k\<rparr>"

definition collab_pkt :: "u32 \<Rightarrow> nat \<Rightarrow> byte \<Rightarrow> nat \<Rightarrow> byte list \<Rightarrow> byte list" where
  "collab_pkt dt tot flag k c = buf_bytes (Serialize (collab_head dt tot flag k (length c))) @ c"

definition payload_fits :: "nat \<Rightarrow> byte list \<Rightarrow> bool" where
  "payload_fits tot c \<longleftrightarrow> c \<noteq> [] \<and> length c \<le> 4 * 1024 * 1024 \<and> length c + HEADER_LEN \<le> tot \<and>
     tot < DSCHED_MAX_BUFFER_SIZE"

definition collab_partial :: "nat \<Rightarrow> recv_state \<Rightarrow> nat \<Rightarrow> byte list \<Rightarrow> bool" where
  "collab_partial tot s k acc \<longleftrightarrow> rIsWaiting s \<and> rNowSeqNum s = 0 \<and> rNowSubSeq s = word_of_nat k \<and> k < 2 ^ 16 \<and>
     rCurrentPos s = Some (length acc) \<and> length acc \<le> tot \<and>
     (case rPackBuffer s of
        None \<Rightarrow> False
      | Some b \<Rightarrow> buffer_wf b \<and> rangeOffset b = 0 \<and> Size b = tot \<and> take (length acc) (buf_bytes b) = acc)"

lemma unat_u32: "n < 2 ^ 32 \<Longrightarrow> unat (word_of_nat n :: u32) = n"
  by (simp add: unsigned_of_nat take_bit_nat_eq_self)

lemma head_lengths:
  assumes "payload_fits tot c"
  shows "unat (word_of_nat tot :: u32) = tot" "unat (word_of_nat (length c) :: u32) = length c"
    "unat (word_of_nat (length c + HEADER_LEN) :: u32) = length c + HEADER_LEN"
    "word_of_nat (length c + HEADER_LEN) - word_of_nat (length c) = (word_of_nat HEADER_LEN :: u32)"
    "unat (word_of_nat HEADER_LEN :: u32) = HEADER_LEN"
proof -
  have lim: "tot < 2 ^ 32" "length c < 2 ^ 32" "length c + HEADER_LEN < 2 ^ 32" "HEADER_LEN < 2 ^ 32"
    using assms by (simp_all add: payload_fits_def DSCHED_MAX_BUFFER_SIZE_def HEADER_LEN_57)
  show "unat (word_of_nat tot :: u32) = tot" "unat (word_of_nat (length c) :: u32) = length c"
    "unat (word_of_nat (length c + HEADER_LEN) :: u32) = length c + HEADER_LEN"
    "unat (word_of_nat HEADER_LEN :: u32) = HEADER_LEN"
    by (rule unat_u32 [OF lim(1)] unat_u32 [OF lim(2)] unat_u32 [OF lim(3)] unat_u32 [OF lim(4)])+
  show "word_of_nat (length c + HEADER_LEN) - word_of_nat (length c) = (word_of_nat HEADER_LEN :: u32)"
    by simp
qed

lemma Deserialize_pkt:
  assumes "payload_fits tot c"
  shows "Deserialize junk (Some (collab_pkt dt tot flag k c)) = Done (Some (collab_head dt tot flag k (length c)))"
proof -
  have "valid_header (collab_head dt tot flag k (length c))"
    using assms head_lengths [OF assms]
    by (simp add: valid_header_def collab_head_def payload_fits_def DSCHED_MAX_BUFFER_SIZE_def
        BINARY_PAYLOAD_MAX_LEN_def BINARY_DATA_MAX_TOTAL_LEN_def word_le_nat_alt HEADER_LEN_57)
  then show ?thesis
    by (simp add: Deserialize_def deserialize_loop_header check_header_iff [THEN iffD2] collab_pkt_def)
qed

lemma payload_of_pkt:
  "peek (collab_pkt dt tot flag k c) HEADER_LEN (length c) = Done c"
  by (simp add: collab_pkt_def)

text \<open>Writing a payload that fits at the current position.\<close>

lemma write_first:
  assumes "payload_fits tot c" "rPackBuffer s = None"
  shows "WriteRecvBytesDataToBuffer (collab_pkt dt tot flag k c) (collab_head dt tot flag k (length c)) s =
    Done (s\<lparr>rPackBuffer := Some (buf_write (DSchedDataBuffer tot) 0 c), rCurrentPos := Some (length c)\<rparr>, CHAN_OK)"
proof -
  have tot: "0 < tot" "tot < DSCHED_MAX_BUFFER_SIZE" "length c \<le> tot"
    using assms(1) by (auto simp: payload_fits_def HEADER_LEN_57)
  note pack = DSchedDataBuffer_ok [OF tot(1,2)]
  have "memcpy_s False (size_sub tot 0) False (length c) = ERR_OK"
    using tot by (simp add: memcpy_s_ok_iff size_sub_le RSIZE_MAX_def DSCHED_MAX_BUFFER_SIZE_def)
  then show ?thesis
    using assms(2) head_lengths [OF assms(1)] payload_of_pkt [of dt tot flag k c]
    by (simp add: WriteRecvBytesDataToBuffer_def AVTransDataBuffer_eq collab_head_def Let_def pack buffer_defs
        del: of_nat_add)
qed

lemma write_next:
  assumes "payload_fits tot c" "rPackBuffer s = Some b" "Size b = tot" "rCurrentPos s = Some p" "p + length c \<le> tot"
  shows "WriteRecvBytesDataToBuffer (collab_pkt dt tot flag k c) (collab_head dt tot flag k (length c)) s =
    Done (s\<lparr>rPackBuffer := Some (buf_write b p c), rCurrentPos := Some (p + length c)\<rparr>, CHAN_OK)"
proof -
  have tot: "tot < DSCHED_MAX_BUFFER_SIZE"
    using assms(1) by (simp add: payload_fits_def)
  then have "size_sub tot p = tot - p"
    using assms(5) by (simp add: size_sub_le DSCHED_MAX_BUFFER_SIZE_def)
  moreover have "tot - p \<le> RSIZE_MAX" "length c \<le> tot - p"
    using tot assms(5) by (simp_all add: RSIZE_MAX_def DSCHED_MAX_BUFFER_SIZE_def)
  ultimately have "memcpy_s False (size_sub tot p) False (length c) = ERR_OK"
    by (simp add: memcpy_s_ok_iff)
  then show ?thesis
    using assms(2-4) head_lengths [OF assms(1)] payload_of_pkt [of dt tot flag k c]
    by (simp add: WriteRecvBytesDataToBuffer_def collab_head_def Let_def del: of_nat_add)
qed

lemma pack_check:
  assumes "payload_fits tot c" "CheckRecvSessionHeader s (collab_head dt tot flag k (length c)) = CHAN_OK"
  defines "mem \<equiv> collab_pkt dt tot flag k c" and "h \<equiv> collab_head dt tot flag k (length c)"
  shows "flag = FRAG_START_END \<Longrightarrow> PackRecvPacketData junk s (Some mem) = ProcessAllPacketRecv mem h s"
    "flag = FRAG_START \<Longrightarrow> PackRecvPacketData junk s (Some mem) = ProcessStartPacketRecv mem h s"
    "flag = FRAG_MID \<Longrightarrow> PackRecvPacketData junk s (Some mem) = ProcessMidPacketRecv mem h s"
    "flag = FRAG_END \<Longrightarrow> PackRecvPacketData junk s (Some mem) = ProcessEndPacketRecv mem h s"
proof -
  have "hFragFlag h = flag"
    by (simp add: h_def collab_head_def)
  then show "flag = FRAG_START_END \<Longrightarrow> PackRecvPacketData junk s (Some mem) = ProcessAllPacketRecv mem h s"
    "flag = FRAG_START \<Longrightarrow> PackRecvPacketData junk s (Some mem) = ProcessStartPacketRecv mem h s"
    "flag = FRAG_MID \<Longrightarrow> PackRecvPacketData junk s (Some mem) = ProcessMidPacketRecv mem h s"
    "flag = FRAG_END \<Longrightarrow> PackRecvPacketData junk s (Some mem) = ProcessEndPacketRecv mem h s"
    using Deserialize_pkt [OF assms(1), where junk = junk and dt = dt and flag = flag and k = k] assms(2)
    unfolding mem_def h_def by (simp_all add: PackRecvPacketData_def)
qed

lemma first_buffer:
  assumes "payload_fits tot c"
  shows "buffer_wf (buf_write (DSchedDataBuffer tot) 0 c)" "rangeOffset (DSchedDataBuffer tot) = 0"
    "Size (DSchedDataBuffer tot) = tot" "capacity (DSchedDataBuffer tot) = tot"
    "take (length c) (buf_bytes (buf_write (DSchedDataBuffer tot) 0 c)) = c"
proof -
  have tot: "0 < tot" "tot < DSCHED_MAX_BUFFER_SIZE" "length c \<le> tot"
    using assms by (auto simp: payload_fits_def HEADER_LEN_57)
  note pack = DSchedDataBuffer_ok [OF tot(1,2)]
  show size: "Size (DSchedDataBuffer tot) = tot" and "rangeOffset (DSchedDataBuffer tot) = 0"
    "capacity (DSchedDataBuffer tot) = tot"
    by (simp_all add: pack Size_def)
  show "buffer_wf (buf_write (DSchedDataBuffer tot) 0 c)"
    by (rule buf_write_wf) (simp_all add: size tot)
  show "take (length c) (buf_bytes (buf_write (DSchedDataBuffer tot) 0 c)) = c"
    using size tot(3) by (simp add: buf_bytes_write poke_def)
qed

lemma process_start:
  assumes "payload_fits tot c"
  shows "\<exists>s'. process_packet junk recv_init (collab_pkt dt tot FRAG_START 0 c) = Done (s', []) \<and> collab_partial tot s' 0 c"
proof -
  let ?s' = "recv_init\<lparr>rPackBuffer := Some (buf_write (DSchedDataBuffer tot) 0 c), rCurrentPos := Some (length c),
    rIsWaiting := True, rNowSeqNum := 0, rNowSubSeq := 0\<rparr>"
  have "CheckRecvSessionHeader recv_init (collab_head dt tot FRAG_START 0 (length c)) = CHAN_OK"
    by (simp add: CheckRecvSessionHeader_def recv_init_def collab_head_def)
  note pack = pack_check(2) [OF assms this refl]
  have "rPackBuffer recv_init = None"
    by (simp add: recv_init_def)
  note w = write_first [OF assms this, of dt FRAG_START 0]
  have "PackRecvPacketData junk recv_init (Some (collab_pkt dt tot FRAG_START 0 c)) = Done (?s', CHAN_OK)"
    unfolding pack ProcessStartPacketRecv_def w by (simp add: recv_init_def collab_head_def)
  then have "process_packet junk recv_init (collab_pkt dt tot FRAG_START 0 c) = Done (?s', [])"
    by (simp add: process_packet_def GetPacketedData_def isDataReady_def)
  moreover have "collab_partial tot ?s' 0 c"
    using first_buffer [OF assms] assms by (simp add: collab_partial_def payload_fits_def)
  ultimately show ?thesis by blast
qed

lemma ucast_subseq: "k < 2 ^ 16 \<Longrightarrow> (ucast (word_of_nat k :: u16) :: u32) = word_of_nat k"
  by (simp add: word_unat_eq_iff unsigned_ucast_eq unsigned_of_nat take_bit_nat_eq_self)

lemma check_next:
  assumes "collab_partial tot s k acc" "Suc k < 2 ^ 16"
  shows "CheckRecvSessionHeader s (collab_head dt tot flag (Suc k) n) = CHAN_OK"
  using assms ucast_subseq [OF assms(2)]
  by (simp add: CheckRecvSessionHeader_def collab_partial_def collab_head_def add.commute)

lemma next_buffer:
  assumes "collab_partial tot s k acc" "length acc + length c \<le> tot" "rPackBuffer s = Some b"
  shows "buffer_wf (buf_write b (length acc) c)" "Size b = tot" "rangeOffset b = 0" "rCurrentPos s = Some (length acc)"
    "take (length acc + length c) (buf_bytes (buf_write b (length acc) c)) = acc @ c"
proof -
  have b: "buffer_wf b" "Size b = tot" "rangeOffset b = 0" "take (length acc) (buf_bytes b) = acc"
    "rCurrentPos s = Some (length acc)"
    using assms(1,3) by (simp_all add: collab_partial_def)
  then show "Size b = tot" "rangeOffset b = 0" "rCurrentPos s = Some (length acc)"
    by simp_all
  show "buffer_wf (buf_write b (length acc) c)"
    using b assms(2) by (intro buf_write_wf) simp_all
  show "take (length acc + length c) (buf_bytes (buf_write b (length acc) c)) = acc @ c"
    using b assms(2) by (simp add: buf_bytes_write poke_def length_buf_bytes)
qed

lemma process_mid:
  assumes "collab_partial tot s k acc" "payload_fits tot c" "length acc + length c \<le> tot" "Suc k < 2 ^ 16"
  shows "\<exists>s'. process_packet junk s (collab_pkt dt tot FRAG_MID (Suc k) c) = Done (s', []) \<and>
    collab_partial tot s' (Suc k) (acc @ c)"
proof -
  obtain b where b: "rPackBuffer s = Some b" and wait: "rIsWaiting s"
    using assms(1) by (auto simp: collab_partial_def split: option.splits)
  note nb = next_buffer [OF assms(1,3) b]
  let ?s' = "s\<lparr>rPackBuffer := Some (buf_write b (length acc) c), rCurrentPos := Some (length acc + length c),
    rNowSeqNum := 0, rNowSubSeq := word_of_nat (Suc k)\<rparr>"
  note pack = pack_check(3) [OF assms(2) check_next [OF assms(1,4)] refl]
  note w = write_next [OF assms(2) b nb(2,4) assms(3), of dt FRAG_MID "Suc k"]
  have "PackRecvPacketData junk s (Some (collab_pkt dt tot FRAG_MID (Suc k) c)) = Done (?s', CHAN_OK)"
    unfolding pack ProcessMidPacketRecv_def w
    using b wait ucast_subseq [OF assms(4)] by (simp add: collab_head_def)
  then have "process_packet junk s (collab_pkt dt tot FRAG_MID (Suc k) c) = Done (?s', [])"
    using wait by (simp add: process_packet_def GetPacketedData_def isDataReady_def)
  moreover have "collab_partial tot ?s' (Suc k) (acc @ c)"
    using assms nb wait by (simp add: collab_partial_def)
  ultimately show ?thesis by blast
qed

lemma range_bytes:
  assumes "buffer_wf b" "rangeOffset b = 0" "n \<le> Size b" "Size b \<le> capacity b"
  shows "buf_bytes (fst (SetRange 0 n b)) = take n (buf_bytes b)"
proof -
  have "capacity b < 2 ^ 64"
    using assms(1) by (auto simp: buffer_wf_def DSCHED_MAX_BUFFER_SIZE_def split: option.splits)
  then show ?thesis
    using assms(2-4)
    by (auto simp: SetRange_def buf_bytes_def Size_def min_def split: option.splits)
qed

lemma process_end:
  assumes "collab_partial tot s k acc" "payload_fits tot c" "length acc + length c \<le> tot" "Suc k < 2 ^ 16"
  shows "process_packet junk s (collab_pkt dt tot FRAG_END (Suc k) c) = Done (recv_init, [acc @ c])"
proof -
  obtain b where b: "rPackBuffer s = Some b" and wait: "rIsWaiting s"
    using assms(1) by (auto simp: collab_partial_def split: option.splits)
  note nb = next_buffer [OF assms(1,3) b]
  let ?b = "buf_write b (length acc) c"
  let ?s' = "s\<lparr>rPackBuffer := Some ?b, rCurrentPos := Some (length acc + length c), rIsWaiting := False\<rparr>"
  note pack = pack_check(4) [OF assms(2) check_next [OF assms(1,4)] refl]
  note w = write_next [OF assms(2) b nb(2,4) assms(3), of dt FRAG_END "Suc k"]
  have "PackRecvPacketData junk s (Some (collab_pkt dt tot FRAG_END (Suc k) c)) = Done (?s', CHAN_OK)"
    unfolding pack ProcessEndPacketRecv_def w using b wait by simp
  moreover have "buf_bytes (fst (SetRange 0 (length acc + length c) ?b)) = acc @ c"
    using range_bytes [OF nb(1)] nb(2,3,5) assms(3) Size_le_Capacity [OF nb(1)] by (simp add: Capacity_def)
  ultimately show ?thesis
    by (simp add: process_packet_def GetPacketedData_def isDataReady_def)
qed

interpretation cr: reassembler "process_packet junk" "\<lambda>bs. bs" "collab_pkt dt tot" tot "payload_fits tot"
  "\<lambda>s. s = recv_init" "collab_partial tot" for junk dt tot
proof unfold_locales
  fix s c
  assume "s = recv_init" "payload_fits tot c"
  then show "\<exists>s'. process_packet junk s (collab_pkt dt tot FRAG_START 0 c) = Done (s', []) \<and> collab_partial tot s' 0 c"
    using process_start by blast
next
  fix s k acc c
  assume *: "collab_partial tot s k acc" "payload_fits tot c" "length acc + length c \<le> tot" "Suc k < 2 ^ 16"
  show "\<exists>s'. process_packet junk s (collab_pkt dt tot FRAG_MID (Suc k) c) = Done (s', []) \<and>
      collab_partial tot s' (Suc k) (acc @ c)"
    by (rule process_mid [OF *])
next
  fix s k acc c
  assume *: "collab_partial tot s k acc" "payload_fits tot c" "length acc + length c = tot" "Suc k < 2 ^ 16"
  then show "\<exists>s'. process_packet junk s (collab_pkt dt tot FRAG_END (Suc k) c) = Done (s', [acc @ c]) \<and> s' = recv_init"
    using process_end [of tot s k acc c] by simp
qed

lemma process_all:
  assumes "payload_fits (length c + HEADER_LEN) c"
  shows "process_packet junk recv_init (collab_pkt dt (length c + HEADER_LEN) FRAG_START_END 0 c) = Done (recv_init, [c])"
proof -
  let ?tot = "length c + HEADER_LEN"
  let ?b = "buf_write (DSchedDataBuffer ?tot) 0 c"
  let ?s' = "recv_init\<lparr>rPackBuffer := Some ?b, rCurrentPos := Some (length c)\<rparr>"
  have "CheckRecvSessionHeader recv_init (collab_head dt ?tot FRAG_START_END 0 (length c)) = CHAN_OK"
    by (simp add: CheckRecvSessionHeader_def recv_init_def collab_head_def)
  note pack = pack_check(1) [OF assms this refl]
  have "rPackBuffer recv_init = None"
    by (simp add: recv_init_def)
  note w = write_first [OF assms this, of dt FRAG_START_END 0]
  have "PackRecvPacketData junk recv_init (Some (collab_pkt dt ?tot FRAG_START_END 0 c)) = Done (?s', CHAN_OK)"
    unfolding pack ProcessAllPacketRecv_def w by (simp add: recv_init_def)
  moreover have "buf_bytes (fst (SetRange 0 (length c) ?b)) = c"
    using range_bytes [OF first_buffer(1) [OF assms], of "length c"] first_buffer [OF assms] by simp
  ultimately show ?thesis
    by (simp add: process_packet_def GetPacketedData_def isDataReady_def recv_init_def)
qed

subsection \<open>What the sender puts on the wire\<close>

lemma Serialize_Data: "Data (Serialize h) = Some (buf_bytes (Serialize h))"
  using length_header_bytes [of h]
  by (simp add: Serialize_eq buf_bytes_def AVTransDataBuffer_def HEADER_LEN_57 DSCHED_MAX_BUFFER_SIZE_def Data_def)

lemma framed_packet:
  assumes "length hb = HEADER_LEN"
  shows "buf_bytes (buf_write (buf_write \<lparr>capacity = length bs + HEADER_LEN, rangeOffset = 0,
      rangeLength = length bs + HEADER_LEN, dataPtr = Some (replicate (length bs + HEADER_LEN) 0)\<rparr> 0 hb) HEADER_LEN bs) =
    hb @ bs"
  using assms poke_prefix [of bs "replicate (length bs) 0" hb]
    poke_nil_prefix [of hb "replicate (length bs + HEADER_LEN) 0"]
  by (simp add: buf_write_def buf_bytes_def)

lemma DoSendPacket_cases:
  assumes "n + HEADER_LEN < DSCHED_MAX_BUFFER_SIZE"
  shows "DoSendPacket env k h (Some mem) pos (word_of_nat n) =
    (if pos + n \<le> length mem
     then Done ([buf_bytes (Serialize h) @ take n (drop pos mem)],
       if sendBytesRet env k \<noteq> ERR_OK then SEND_DATA_BY_SOFTBUS_FAILED else CHAN_OK)
     else OutOfBounds)"
proof -
  let ?b = "AVTransDataBuffer (n + HEADER_LEN)"
  let ?hd = "buf_bytes (Serialize h)"
  have b: "?b = \<lparr>capacity = n + HEADER_LEN, rangeOffset = 0, rangeLength = n + HEADER_LEN,
      dataPtr = Some (replicate (n + HEADER_LEN) 0)\<rparr>"
    using assms by (simp add: AVTransDataBuffer_eq DSchedDataBuffer_ok HEADER_LEN_57)
  have len: "unat (of_nat HEADER_LEN + word_of_nat n :: u32) = n + HEADER_LEN" "unat (word_of_nat n :: u32) = n"
    using assms unat_u32 [of "n + HEADER_LEN"] unat_u32 [of n] by (simp_all add: DSCHED_MAX_BUFFER_SIZE_def add.commute)
  have hd: "memcpy_s (Data ?b = None) (Size ?b) (Data (Serialize h) = None) HEADER_LEN = ERR_OK"
    using assms by (simp add: b buffer_defs(1) Data_def [of ?b] Serialize_Data memcpy_s_ok_iff RSIZE_MAX_def
        DSCHED_MAX_BUFFER_SIZE_def) (simp add: Data_def)
  have "size_sub (n + HEADER_LEN) HEADER_LEN = n"
    using assms by (simp add: size_sub_le DSCHED_MAX_BUFFER_SIZE_def)
  then have pl: "memcpy_s False (size_sub (Size (buf_write ?b 0 ?hd)) HEADER_LEN) False n = ERR_OK"
    using assms by (simp add: b Size_def memcpy_s_ok_iff RSIZE_MAX_def DSCHED_MAX_BUFFER_SIZE_def)
  have "buf_bytes (buf_write (buf_write ?b 0 ?hd) HEADER_LEN bs) = ?hd @ bs" if "length bs = n" for bs
    using framed_packet [of ?hd bs] that b by simp
  moreover have "peek ?hd 0 HEADER_LEN = Done ?hd"
    by simp
  ultimately show ?thesis
    using hd pl
    by (simp add: DoSendPacket_def len Serialize_Data Let_def peek_OutOfBounds_iff [THEN iffD2] del: peek_Done)
       (simp add: peek_def)
qed

text \<open>A SoftBus whose calls succeed and whose send limit leaves \<open>P\<close> bytes of payload per packet.\<close>

definition steady_env :: "nat \<Rightarrow> softbus_env \<Rightarrow> bool" where
  "steady_env P env \<longleftrightarrow> 0 < P \<and> P + HEADER_LEN < DSCHED_MAX_BUFFER_SIZE \<and>
     (\<forall>k. sendBytesRet env k = ERR_OK \<and> getSessionOption env k = (ERR_OK, word_of_nat (P + HEADER_LEN)))"

text \<open>A buffer whose range is the whole of its memory, as every buffer is when it is created.\<close>

definition full_buffer :: "data_buffer \<Rightarrow> byte list \<Rightarrow> bool" where
  "full_buffer b data \<longleftrightarrow> data \<noteq> [] \<and> buffer_wf b \<and> Data b = Some data \<and> Size b = length data"

lemma full_buffer_bytes: "full_buffer b data \<Longrightarrow> buf_bytes b = data"
  by (auto simp: full_buffer_def buf_bytes_def Data_def Size_def split: option.splits)

lemma send_loop_step:
  assumes "full_buffer b data" "steady_env P env" "current < length data"
  defines "flag \<equiv> (if length data - current > P then FRAG_MID else FRAG_END)"
  shows "send_loop env b (word_of_nat P) (Suc k) (collab_head dt tot fl k P) current =
    (if current + P \<le> length data
     then Option.bind (send_loop env b (word_of_nat P) (Suc (Suc k)) (collab_head dt tot flag (Suc k) P) (current + P))
       (\<lambda>res. Some (ub_bind res (\<lambda>(ps, r). Done (collab_pkt dt tot flag (Suc k) (take P (drop current data)) # ps, r))))
     else Some OutOfBounds)"
proof -
  have P: "unat (word_of_nat P :: u32) = P" "P + HEADER_LEN < DSCHED_MAX_BUFFER_SIZE"
    using assms(2) unat_u32 [of P] by (simp_all add: steady_env_def DSCHED_MAX_BUFFER_SIZE_def)
  have env: "getSessionOption env (Suc k) = (ERR_OK, word_of_nat (P + HEADER_LEN))" "sendBytesRet env (Suc k) = ERR_OK"
    using assms(2) by (simp_all add: steady_env_def)
  have b: "Data b = Some data" "Size b = length data"
    using assms(1) by (simp_all add: full_buffer_def)
  have h: "(collab_head dt tot fl k P)\<lparr>hPacketLen := word_of_nat (P + HEADER_LEN),
      hPayloadLen := word_of_nat (P + HEADER_LEN) - of_nat HEADER_LEN, hFragFlag := flag,
      hSubSeq := hSubSeq (collab_head dt tot fl k P) + 1\<rparr> = collab_head dt tot flag (Suc k) P"
    by (simp add: collab_head_def add.commute)
  have pkt: "buf_bytes (Serialize (collab_head dt tot flag (Suc k) P)) @ take P (drop current data) =
      collab_pkt dt tot flag (Suc k) (take P (drop current data))" if "current + P \<le> length data"
  proof -
    have "length (take P (drop current data)) = P"
      using that by simp
    then show ?thesis
      unfolding collab_pkt_def by simp
  qed
  show ?thesis
    by (subst send_loop.simps)
      (simp add: assms(3) b env h P DoSendPacket_cases pkt Let_def flip: flag_def del: of_nat_add of_nat_Suc)
qed

lemma send_loop_done: "\<not> current < Size b \<Longrightarrow> send_loop env b P k h current = Some (Done ([], CHAN_OK))"
  by (subst send_loop.simps) simp

lemma send_loop_packets:
  assumes "full_buffer b data" "steady_env P env" "0 < q" "length data = current + q * P"
  shows "\<exists>cs. send_loop env b (word_of_nat P) (Suc k) (collab_head dt tot fl k P) current =
      Some (Done (tail_packets (collab_pkt dt tot) (Suc k) cs, CHAN_OK)) \<and>
    length cs = q \<and> concat cs = drop current data \<and> (\<forall>c \<in> set cs. length c = P)"
  using assms(3,4)
proof (induction q arbitrary: current k fl)
  case (Suc q)
  have P: "0 < P"
    using assms(2) by (simp add: steady_env_def)
  then have cur: "current < length data" "current + P \<le> length data"
    using Suc.prems by simp_all
  note step = send_loop_step [OF assms(1,2) cur(1), of k dt tot fl]
  have size: "Size b = length data"
    using assms(1) by (simp add: full_buffer_def)
  let ?c = "take P (drop current data)"
  show ?case
  proof (cases "q = 0")
    case True
    then have "length data - current = P"
      using Suc.prems by simp
    then show ?thesis
      using step cur size send_loop_done [of "current + P" b] Suc.prems True
      by (intro exI [of _ "[?c]"]) simp
  next
    case False
    then obtain cs where cs: "send_loop env b (word_of_nat P) (Suc (Suc k)) (collab_head dt tot FRAG_MID (Suc k) P) (current + P) =
        Some (Done (tail_packets (collab_pkt dt tot) (Suc (Suc k)) cs, CHAN_OK))"
      "length cs = q" "concat cs = drop (current + P) data" "\<forall>c \<in> set cs. length c = P"
      using Suc.IH [of "current + P" "Suc k" FRAG_MID] Suc.prems by auto
    have mid: "length data - current > P"
      using Suc.prems False P by (cases q) simp_all
    have "cs \<noteq> []"
      using cs(2) False by auto
    then have "send_loop env b (word_of_nat P) (Suc k) (collab_head dt tot fl k P) current =
        Some (Done (tail_packets (collab_pkt dt tot) (Suc k) (?c # cs), CHAN_OK))"
      using step cur mid cs(1) by (simp add: tail_packets_Cons_Cons)
    moreover have "?c @ concat cs = drop current data"
      using cs(3) by (metis append_take_drop_id drop_drop add.commute)
    ultimately show ?thesis
      using cs(2,4) cur by (intro exI [of _ "?c # cs"]) auto
  qed
qed simp

lemma send_loop_overread:
  assumes "full_buffer b data" "steady_env P env" "0 < r" "r < P" "length data = current + q * P + r"
  shows "send_loop env b (word_of_nat P) (Suc k) (collab_head dt tot fl k P) current = Some OutOfBounds"
  using assms(5)
proof (induction q arbitrary: current k fl)
  case 0
  then show ?case
    using send_loop_step [OF assms(1,2), of current k dt tot fl] assms(3,4) by simp
next
  case (Suc q)
  have "length data = (current + P) + q * P + r"
    using Suc.prems by simp
  from Suc.IH [OF this] show ?case
    using send_loop_step [OF assms(1,2), of current k dt tot fl] assms(3) Suc.prems by simp
qed

lemma SendUnpackData_fragments:
  assumes "full_buffer b data" "steady_env P env" "P < length data"
  shows "SendUnpackData env b dt =
    Option.bind (send_loop env b (word_of_nat P) (Suc 0) (collab_head dt (length data) FRAG_START 0 P) P)
      (\<lambda>res. Some (ub_bind res (\<lambda>(ps, r). Done (collab_pkt dt (length data) FRAG_START 0 (take P data) # ps, r))))"
proof -
  have lim: "P + HEADER_LEN < DSCHED_MAX_BUFFER_SIZE"
    using assms(2) by (simp add: steady_env_def)
  have P: "unat (word_of_nat P :: u32) = P" "unat (word_of_nat (P + HEADER_LEN) :: u32) = P + HEADER_LEN"
    using lim unat_u32 [of P] unat_u32 [of "P + HEADER_LEN"] by (simp_all add: DSCHED_MAX_BUFFER_SIZE_def del: of_nat_add)
  have env: "getSessionOption env 0 = (ERR_OK, word_of_nat (P + HEADER_LEN))" "sendBytesRet env 0 = ERR_OK"
    using assms(2) by (simp_all add: steady_env_def)
  have b: "Data b = Some data" "Size b = length data"
    using assms(1) by (simp_all add: full_buffer_def)
  have sub: "word_of_nat (P + HEADER_LEN) - of_nat HEADER_LEN = (word_of_nat P :: u32)"
    by simp
  have h: "\<lparr>hVersion = PROTOCOL_VERSION, hFragFlag = FRAG_START, hDataType = dt, hSeqNum = 0,
      hTotalLen = word_of_nat (length data), hPacketLen = word_of_nat (P + HEADER_LEN), hPayloadLen = word_of_nat P,
      hSubSeq = 0\<rparr> = collab_head dt (length data) FRAG_START 0 P"
    by (simp add: collab_head_def)
  have "length (take P data) = P"
    using assms(3) by simp
  then have pkt: "buf_bytes (Serialize (collab_head dt (length data) FRAG_START 0 P)) @ take P data =
      collab_pkt dt (length data) FRAG_START 0 (take P data)"
    unfolding collab_pkt_def by simp
  show ?thesis
    unfolding SendUnpackData_def env fst_conv snd_conv Let_def sub b h P DoSendPacket_cases [OF lim]
    using assms(3) by (simp add: pkt env)
qed

lemma SendUnpackData_single:
  assumes "full_buffer b data" "steady_env P env" "length data \<le> P"
  shows "SendUnpackData env b dt = Some (Done ([collab_pkt dt (length data + HEADER_LEN) FRAG_START_END 0 data], CHAN_OK))"
proof -
  have lim: "P + HEADER_LEN < DSCHED_MAX_BUFFER_SIZE" "length data + HEADER_LEN < DSCHED_MAX_BUFFER_SIZE"
    using assms(2,3) by (simp_all add: steady_env_def)
  have P: "unat (word_of_nat (P + HEADER_LEN) :: u32) = P + HEADER_LEN"
    using lim unat_u32 [of "P + HEADER_LEN"] by (simp add: DSCHED_MAX_BUFFER_SIZE_def del: of_nat_add)
  have env: "getSessionOption env 0 = (ERR_OK, word_of_nat (P + HEADER_LEN))" "sendBytesRet env 0 = ERR_OK"
    using assms(2) by (simp_all add: steady_env_def)
  have b: "Data b = Some data" "Size b = length data"
    using assms(1) by (simp_all add: full_buffer_def)
  have sub: "word_of_nat (length data + HEADER_LEN) - of_nat HEADER_LEN = (word_of_nat (length data) :: u32)"
    by simp
  have h: "\<lparr>hVersion = PROTOCOL_VERSION, hFragFlag = FRAG_START_END, hDataType = dt, hSeqNum = 0,
      hTotalLen = word_of_nat (length data + HEADER_LEN), hPacketLen = word_of_nat (length data + HEADER_LEN),
      hPayloadLen = word_of_nat (length data), hSubSeq = 0\<rparr> =
      collab_head dt (length data + HEADER_LEN) FRAG_START_END 0 (length data)"
    by (simp add: collab_head_def)
  show ?thesis
    unfolding SendUnpackData_def SendAllPackets_def env fst_conv snd_conv Let_def sub b h P DoSendPacket_cases [OF lim(2)]
    using assms(3) by (simp add: collab_pkt_def env)
qed

definition sample_steady :: softbus_env where
  "sample_steady = \<lparr>getSessionOption = (\<lambda>k. (ERR_OK, 157)), sendBytesRet = (\<lambda>k. ERR_OK)\<rparr>"

lemma sample_steady_ok: "steady_env 100 sample_steady"
  by (simp add: steady_env_def sample_steady_def HEADER_LEN_57 DSCHED_MAX_BUFFER_SIZE_def)

lemma full_packet_buffer:
  "bs \<noteq> [] \<Longrightarrow> length bs < DSCHED_MAX_BUFFER_SIZE \<Longrightarrow> full_buffer (packet_buffer bs) bs"
  by (simp add: full_buffer_def packet_buffer_simps)

subsection \<open>Properties\<close>

text \<open>
  C32: a message crosses the collaboration byte channel intact when the send limit is steady and
  either fits into one packet or is a multiple of the payload length \<open>P\<close> (and at least a packet
  long, and of at most 65536 fragments): the packets of \<^verbatim>\<open>SendBytesData\<close>, fed to an idle receiver,
  deliver exactly the message once and leave the receiver idle.
\<close>

theorem collab_roundtrip:
  assumes "full_buffer b data" "steady_env P env" "P \<le> 4 * 1024 * 1024"
    and "length data \<le> P \<or> (P dvd length data \<and> P + HEADER_LEN \<le> length data \<and> length data \<le> P * 2 ^ 16)"
  shows "\<exists>pkts. SendBytesData env b = Some (Done (pkts, CHAN_OK)) \<and>
    run_recv (process_packet junk) recv_init pkts = Done (recv_init, [data])"
proof (cases "length data \<le> P")
  case True
  have "payload_fits (length data + HEADER_LEN) data"
    using True assms(1,3) by (auto simp: payload_fits_def full_buffer_def HEADER_LEN_57 DSCHED_MAX_BUFFER_SIZE_def)
  then show ?thesis
    using SendUnpackData_single [OF assms(1,2) True] process_all by (simp add: SendBytesData_def)
next
  case False
  let ?dt = CHANNEL_DATA_TYPE_BYTES
  let ?tot = "length data"
  from False assms(4) have len: "P dvd ?tot" "P + HEADER_LEN \<le> ?tot" "?tot \<le> P * 2 ^ 16" and P: "P < ?tot"
    by auto
  have P0: "0 < P"
    using assms(2) by (simp add: steady_env_def)
  from len(1) obtain n where "?tot = P * n"
    by (elim dvdE)
  with P obtain q where q: "?tot = P + q * P" "0 < q"
    by (cases n; cases "n - 1") auto
  obtain cs where cs: "send_loop env b (word_of_nat P) (Suc 0) (collab_head ?dt ?tot FRAG_START 0 P) P =
      Some (Done (tail_packets (collab_pkt ?dt ?tot) (Suc 0) cs, CHAN_OK))"
    "length cs = q" "concat cs = drop P data" "\<forall>c \<in> set cs. length c = P"
    using send_loop_packets [OF assms(1,2) q(2,1)] by blast
  let ?cs = "take P data # cs"
  have "SendBytesData env b = Some (Done (frag_packets (collab_pkt ?dt ?tot) ?cs, CHAN_OK))"
    using SendUnpackData_fragments [OF assms(1,2) P] cs(1) by (simp add: SendBytesData_def)
  moreover have "\<exists>s'. run_recv (process_packet junk) recv_init (frag_packets (collab_pkt ?dt ?tot) ?cs) =
      Done (s', [concat ?cs]) \<and> s' = recv_init"
  proof (rule cr.feed_message)
    show "2 \<le> length ?cs"
      using cs(2) q(2) by simp
    have "?tot < DSCHED_MAX_BUFFER_SIZE"
      using assms(1) buffer_Size_less [of b] by (simp add: full_buffer_def)
    then show "\<forall>c \<in> set ?cs. payload_fits ?tot c"
      using cs(4) P P0 len(2) assms(3) by (auto simp: payload_fits_def)
    show "length (concat ?cs) = ?tot"
      using cs(3) by (simp add: P less_imp_le)
    have "P * (1 + q) \<le> P * 2 ^ 16"
      using len(3) q(1) by (simp add: algebra_simps)
    then show "length ?cs \<le> 2 ^ 16"
      using P0 cs(2) by simp
  qed simp
  ultimately show ?thesis
    using cs(3) by auto
qed

theorem collab_roundtrip_witness:
  "\<exists>pkts. SendBytesData sample_steady (packet_buffer (replicate 300 7)) = Some (Done (pkts, CHAN_OK)) \<and>
    run_recv (process_packet sample_header) recv_init pkts = Done (recv_init, [replicate 300 7])"
proof -
  have "full_buffer (packet_buffer (replicate 300 7)) (replicate 300 7)"
    by (rule full_packet_buffer) (simp_all add: DSCHED_MAX_BUFFER_SIZE_def)
  then show ?thesis
    using collab_roundtrip [OF _ sample_steady_ok, of _ "replicate 300 7" sample_header] by (simp add: HEADER_LEN_57)
qed

text \<open>
  With a steady send limit, whenever the message is longer than one payload and its length is not
  a multiple of the payload length \<open>P\<close>, the sender's last packet copies \<open>P\<close> bytes from a position with
  fewer than \<open>P\<close> bytes left: \<^verbatim>\<open>SendBytesData\<close> reads past the end of the message's memory.
\<close>

theorem collab_send_overread:
  assumes "full_buffer b data" "steady_env P env" "P < length data" "\<not> P dvd length data"
  shows "SendBytesData env b = Some OutOfBounds"
proof -
  let ?r = "length data mod P" and ?q = "length data div P - 1"
  have P0: "0 < P"
    using assms(2) by (simp add: steady_env_def)
  then have r: "0 < ?r" "?r < P"
    using assms(4) by (auto simp: dvd_eq_mod_eq_0)
  have "1 \<le> length data div P"
    using assms(3) P0 by (simp add: Suc_le_eq div_greater_zero_iff)
  then have "length data = P + ?q * P + ?r"
    by (cases "length data div P") (simp_all, metis add.commute div_mult_mod_eq mult_Suc)
  from send_loop_overread [OF assms(1,2) r this] show ?thesis
    using SendUnpackData_fragments [OF assms(1,2,3)] by (simp add: SendBytesData_def)
qed

theorem collab_send_overread_witness:
  "SendBytesData sample_steady (packet_buffer (replicate 250 7)) = Some OutOfBounds"
proof -
  have "full_buffer (packet_buffer (replicate 250 7)) (replicate 250 7)"
    by (rule full_packet_buffer) (simp_all add: DSCHED_MAX_BUFFER_SIZE_def)
  then show ?thesis
    by (rule collab_send_overread [OF _ sample_steady_ok]) (simp_all add: dvd_eq_mod_eq_0)
qed

subsection \<open>The receiver against its peer\<close>

definition recv_inv :: "recv_state \<Rightarrow> bool" where
  "recv_inv s \<longleftrightarrow>
     (case rPackBuffer s of
        None \<Rightarrow> \<not> rIsWaiting s \<and> rCurrentPos s = None
      | Some b \<Rightarrow> rIsWaiting s \<and> buffer_wf b \<and> rangeOffset b = 0 \<and>
          (case rCurrentPos s of None \<Rightarrow> False | Some p \<Rightarrow> p \<le> Size b))"

lemma recv_inv_init [simp]: "recv_inv recv_init"
  by (simp add: recv_inv_def recv_init_def)

lemma header_split:
  assumes "valid_header h"
  shows "unat (hPacketLen h - hPayloadLen h) = unat (hPacketLen h) - unat (hPayloadLen h)"
    "unat (hPayloadLen h) + HEADER_LEN \<le> unat (hPacketLen h)" "unat (hPacketLen h) \<le> unat (hTotalLen h)"
proof -
  have le: "hPayloadLen h \<le> hPacketLen h"
    using assms by (simp add: valid_header_def word_le_nat_alt)
  show "unat (hPacketLen h - hPayloadLen h) = unat (hPacketLen h) - unat (hPayloadLen h)"
    by (rule unat_sub [OF le])
  show "unat (hPayloadLen h) + HEADER_LEN \<le> unat (hPacketLen h)" "unat (hPacketLen h) \<le> unat (hTotalLen h)"
    using assms by (simp_all add: valid_header_def word_le_nat_alt)
qed

text \<open>
  A packet at least as long as its header says: the write keeps a well-formed buffer and a position
  inside it, or fails.
\<close>

lemma write_safe:
  assumes "recv_inv s" "valid_header h" "unat (hPacketLen h) \<le> length mem"
  shows "\<exists>s' r. WriteRecvBytesDataToBuffer mem h s = Done (s', r) \<and> (r = CHAN_OK \<longrightarrow>
    rIsWaiting s' = rIsWaiting s \<and> (\<exists>b p. rPackBuffer s' = Some b \<and> rCurrentPos s' = Some p \<and> buffer_wf b \<and>
      rangeOffset b = 0 \<and> p \<le> Size b))"
proof -
  note split = header_split [OF assms(2)]
  have fit: "unat (hPacketLen h - hPayloadLen h) + unat (hPayloadLen h) \<le> length mem"
    using split assms(3) by simp
  define s1 where "s1 = (case rPackBuffer s of
      None \<Rightarrow> (let b = AVTransDataBuffer (unat (hTotalLen h)) in
         s\<lparr>rPackBuffer := Some b, rCurrentPos := (if Data b = None then None else Some 0)\<rparr>)
    | Some b \<Rightarrow> s)"
  define pos where "pos = (case rCurrentPos s1 of None \<Rightarrow> 0 | Some p \<Rightarrow> p)"
  obtain b where b: "rPackBuffer s1 = Some b" "buffer_wf b" "rangeOffset b = 0" "pos \<le> Size b"
    "rIsWaiting s1 = rIsWaiting s"
  proof (cases "rPackBuffer s")
    case None
    then show ?thesis
      using that [of "AVTransDataBuffer (unat (hTotalLen h))"]
      by (simp add: s1_def pos_def Let_def AVTransDataBuffer_eq)
  next
    case (Some b)
    then show ?thesis
      using that [of b] assms(1) by (auto simp: s1_def pos_def recv_inv_def split: option.splits)
  qed
  let ?r = "memcpy_s (rCurrentPos s1 = None) (size_sub (Size b) pos) False (unat (hPayloadLen h))"
  have sub: "size_sub (Size b) pos = Size b - pos"
    using b(4) buffer_Size_less [OF b(2)] by (intro size_sub_le) (simp_all add: DSCHED_MAX_BUFFER_SIZE_def)
  show ?thesis
  proof (cases "?r = ERR_OK")
    case True
    let ?bs = "take (unat (hPayloadLen h)) (drop (unat (hPacketLen h - hPayloadLen h)) mem)"
    have "pos + unat (hPayloadLen h) \<le> Size b"
      using True sub b(4) by (auto simp: memcpy_s_ok_iff)
    then have "buffer_wf (buf_write b pos ?bs)"
      using b(2) by (intro buf_write_wf) (auto simp: min_def)
    then show ?thesis
      using b True fit \<open>pos + _ \<le> Size b\<close>
      by (simp add: WriteRecvBytesDataToBuffer_def Let_def flip: s1_def pos_def)
  next
    case False
    then show ?thesis
      using b by (simp add: WriteRecvBytesDataToBuffer_def Let_def flip: s1_def pos_def)
  qed
qed

text \<open>What each packet handler leaves behind: the invariant, or a complete message ready to fetch.\<close>

definition handled :: "(recv_state \<times> chan_ret) ub \<Rightarrow> bool" where
  "handled res \<longleftrightarrow> (\<exists>s' r. res = Done (s', r) \<and> (recv_inv s' \<or> (r = CHAN_OK \<and> isDataReady s')))"

lemma handlers_safe:
  assumes "recv_inv s" "valid_header h" "unat (hPacketLen h) \<le> length mem"
  shows "handled (ProcessAllPacketRecv mem h s)" "handled (ProcessStartPacketRecv mem h s)"
    "handled (ProcessMidPacketRecv mem h s)" "handled (ProcessEndPacketRecv mem h s)"
proof -
  obtain s' r where w: "WriteRecvBytesDataToBuffer mem h s = Done (s', r)"
    "r = CHAN_OK \<longrightarrow> rIsWaiting s' = rIsWaiting s \<and> (\<exists>b p. rPackBuffer s' = Some b \<and> rCurrentPos s' = Some p \<and>
      buffer_wf b \<and> rangeOffset b = 0 \<and> p \<le> Size b)"
    using write_safe [OF assms] by blast
  show "handled (ProcessAllPacketRecv mem h s)"
    using w by (auto simp: handled_def ProcessAllPacketRecv_def isDataReady_def)
  show "handled (ProcessStartPacketRecv mem h s)" "handled (ProcessMidPacketRecv mem h s)"
    using w by (auto simp: handled_def ProcessStartPacketRecv_def ProcessMidPacketRecv_def recv_inv_def recv_init_def)
  show "handled (ProcessEndPacketRecv mem h s)"
    using w by (auto simp: handled_def ProcessEndPacketRecv_def isDataReady_def)
qed

lemma Deserialize_total: "\<exists>r. Deserialize junk (Some mem) = Done r \<and> (\<forall>h. r = Some h \<longrightarrow> valid_header h)"
proof (cases "length mem < HEADER_LEN")
  case True
  then show ?thesis by (simp add: Deserialize_def)
next
  case False
  then obtain r where "deserialize_loop mem 0 (junk\<lparr>hVersion := PROTOCOL_VERSION\<rparr>) = Done r"
    using deserialize_loop_total [of mem] by auto
  with False show ?thesis
    by (cases r) (auto simp: Deserialize_def check_header_iff)
qed

text \<open>
  C33: the receiver is memory safe and keeps its invariant on every packet that is at least as long as
  its own header announces: each such packet is processed without a read outside it, whatever the
  reassembly state, and afterwards the receiver is either idle without a buffer or waiting with a
  well-formed buffer and its write position inside.
\<close>

theorem collab_receiver_safe:
  assumes "recv_inv s"
    and "\<And>h. Deserialize junk (Some packet) = Done (Some h) \<Longrightarrow> unat (hPacketLen h) \<le> length packet"
  shows "\<exists>s' ds. process_packet junk s packet = Done (s', ds) \<and> recv_inv s'"
proof -
  obtain r where r: "Deserialize junk (Some packet) = Done r" "\<And>h. r = Some h \<Longrightarrow> valid_header h"
    using Deserialize_total by blast
  have "handled (PackRecvPacketData junk s (Some packet))"
  proof (cases r)
    case None
    with r assms(1) show ?thesis
      by (simp add: PackRecvPacketData_def handled_def)
  next
    case (Some h)
    have "handled (Done (s, r'))" for r'
      using assms(1) by (simp add: handled_def)
    then show ?thesis
      using Some r(1) handlers_safe [OF assms(1) r(2) [OF Some]] assms(2) [of h]
      by (simp add: PackRecvPacketData_def Let_def)
  qed
  then show ?thesis
    by (auto simp: handled_def process_packet_def GetPacketedData_def)
qed

theorem collab_receiver_safe_witness:
  "\<exists>s' ds. process_packet sample_header recv_init (collab_pkt 1 300 FRAG_START 0 [1, 2, 3]) = Done (s', ds) \<and> recv_inv s'"
proof (rule collab_receiver_safe)
  fix h
  assume "Deserialize sample_header (Some (collab_pkt 1 300 FRAG_START 0 [1, 2, 3])) = Done (Some h)"
  moreover have "payload_fits 300 [1, 2, 3]"
    by (simp add: payload_fits_def HEADER_LEN_57 DSCHED_MAX_BUFFER_SIZE_def)
  ultimately have "h = collab_head 1 300 FRAG_START 0 (length [1, 2, 3 :: byte])"
    by (simp add: Deserialize_pkt)
  then show "unat (hPacketLen h) \<le> length (collab_pkt 1 300 FRAG_START 0 [1, 2, 3])"
    by (simp add: collab_head_def collab_pkt_def HEADER_LEN_57)
qed simp

text \<open>
  Nothing compares the announced packet length with the length of the packet that arrived: an idle
  receiver that is sent a valid single-packet header (sequence numbers 0, total below 80 MiB) followed
  by fewer bytes than the header announces copies bytes from behind the packet's memory.
\<close>

theorem collab_recv_overread:
  assumes "valid_header h" "hFragFlag h = FRAG_START_END" "hSeqNum h = 0" "hSubSeq h = 0"
    and "unat (hTotalLen h) < DSCHED_MAX_BUFFER_SIZE" "HEADER_LEN + length payload < unat (hPacketLen h)"
  shows "process_packet junk recv_init (buf_bytes (Serialize h) @ payload) = OutOfBounds"
proof -
  let ?mem = "buf_bytes (Serialize h) @ payload"
  note split = header_split [OF assms(1)]
  have des: "Deserialize junk (Some ?mem) = Done (Some h)"
    using assms(1) by (simp add: Deserialize_def deserialize_loop_header check_header_iff [THEN iffD2])
  have tot: "0 < unat (hTotalLen h)"
    using split by (simp add: HEADER_LEN_57)
  note pack = DSchedDataBuffer_ok [OF this assms(5)]
  have "memcpy_s False (size_sub (unat (hTotalLen h)) 0) False (unat (hPayloadLen h)) = ERR_OK"
    using split assms(5) by (simp add: memcpy_s_ok_iff size_sub_le RSIZE_MAX_def DSCHED_MAX_BUFFER_SIZE_def)
  moreover have "peek ?mem (unat (hPacketLen h - hPayloadLen h)) (unat (hPayloadLen h)) = OutOfBounds"
    using split assms(6) by (simp add: peek_OutOfBounds_iff)
  ultimately have "WriteRecvBytesDataToBuffer ?mem h recv_init = OutOfBounds"
    by (simp add: WriteRecvBytesDataToBuffer_def recv_init_def AVTransDataBuffer_eq pack buffer_defs Let_def)
  then show ?thesis
    using des assms(2-4)
    by (simp add: process_packet_def PackRecvPacketData_def CheckRecvSessionHeader_def ProcessAllPacketRecv_def
        recv_init_def)
qed

definition overread_header :: session_header where
  "overread_header = \<lparr>hVersion = 1, hFragFlag = FRAG_START_END, hDataType = 1, hSeqNum = 0, hTotalLen = 157,
     hPacketLen = 157, hPayloadLen = 100, hSubSeq = 0\<rparr>"

theorem collab_recv_overread_witness:
  "process_packet sample_header recv_init (buf_bytes (Serialize overread_header) @ []) = OutOfBounds"
  by (rule collab_recv_overread)
    (simp_all add: overread_header_def valid_header_def HEADER_LEN_57 DSCHED_MAX_BUFFER_SIZE_def
      BINARY_PAYLOAD_MAX_LEN_def BINARY_DATA_MAX_TOTAL_LEN_def)

end
