(* ===== verification/Effects.thy ===== *)
theory Effects
  imports Dms_Prelude "HOL-Library.State_Monad"
begin

text \<open>
  Stateful code as programs of the state monad of the library. \<open>wp m Q s\<close> is the weakest
  precondition of the program \<open>m\<close>: it holds when running \<open>m\<close> from \<open>s\<close> gives a result and a state
  that satisfy \<open>Q\<close>; the programs are total, so there is nothing else to ask. The locale
  \<open>effect_order\<close> states what makes a relation between states before and after a compositional
  effect bound; its lemmas lift the bound from the primitive updates to whole programs.
\<close>

abbreviation mreturn :: "'a \<Rightarrow> ('s, 'a) state" where "mreturn \<equiv> State_Monad.return"
abbreviation mget :: "('s, 's) state" where "mget \<equiv> State_Monad.get"
abbreviation mupd :: "('s \<Rightarrow> 's) \<Rightarrow> ('s, unit) state" where "mupd \<equiv> State_Monad.update"

definition exec :: "('s, 'a) state \<Rightarrow> 's \<Rightarrow> 's" where
  "exec m s = snd (run_state m s)"

definition outcome :: "('s, 'a) state \<Rightarrow> 's \<Rightarrow> 'a" where
  "outcome m s = fst (run_state m s)"

definition wp :: "('s, 'a) state \<Rightarrow> ('a \<Rightarrow> 's \<Rightarrow> bool) \<Rightarrow> 's \<Rightarrow> bool" where
  "wp m Q s = (case run_state m s of (x, s') \<Rightarrow> Q x s')"

named_theorems wp_rules \<open>weakest preconditions of programs\<close>

lemma wp_exec: "wp m Q s \<longleftrightarrow> Q (outcome m s) (exec m s)"
  by (simp add: wp_def exec_def outcome_def split_beta)

lemma wp_bind [wp_rules]: "wp (State_Monad.bind m f) Q s = wp m (\<lambda>x. wp (f x) Q) s"
  by (simp add: wp_def split_beta)

lemma wp_return [wp_rules]: "wp (mreturn x) Q s = Q x s"
  by (simp add: wp_def)

lemma wp_get [wp_rules]: "wp mget Q s = Q s s"
  by (simp add: wp_def)

lemma wp_update [wp_rules]: "wp (mupd f) Q s = Q () (f s)"
  by (simp add: wp_def State_Monad.update_def)

lemma wp_if [wp_rules]: "wp (if b then m else m') Q s = (if b then wp m Q s else wp m' Q s)"
  by simp

lemma wp_let [wp_rules]: "wp (Let x f) Q s = wp (f x) Q s"
  by (simp add: Let_def)

lemma wp_case_option [wp_rules]:
  "wp (case x of None \<Rightarrow> m | Some y \<Rightarrow> f y) Q s = (case x of None \<Rightarrow> wp m Q s | Some y \<Rightarrow> wp (f y) Q s)"
  by (simp split: option.split)

lemma wp_case_prod [wp_rules]:
  "wp (case p of (x, y) \<Rightarrow> f x y) Q s = (case p of (x, y) \<Rightarrow> wp (f x y) Q s)"
  by (simp split: prod.split)

lemma wp_mono: "wp m Q s \<Longrightarrow> (\<And>x s'. Q x s' \<Longrightarrow> R x s') \<Longrightarrow> wp m R s"
  by (simp add: wp_exec)

lemma wp_conj: "wp m Q s \<Longrightarrow> wp m R s \<Longrightarrow> wp m (\<lambda>x s'. Q x s' \<and> R x s') s"
  by (simp add: wp_exec)

lemma exec_simps [simp]:
  "exec (mreturn x) s = s"
  "exec (State_Monad.bind m f) s = exec (f (outcome m s)) (exec m s)"
  "exec mget s = s"
  "exec (mupd g) s = g s"
  "exec (if b then m1 else m2) s = (if b then exec m1 s else exec m2 s)"
  by (simp_all add: exec_def outcome_def split_beta State_Monad.update_def)

lemma outcome_simps [simp]:
  "outcome (mreturn x) s = x"
  "outcome (State_Monad.bind m f) s = outcome (f (outcome m s)) (exec m s)"
  "outcome mget s = s"
  "outcome (if b then m1 else m2) s = (if b then outcome m1 s else outcome m2 s)"
  by (simp_all add: exec_def outcome_def split_beta)

lemma exec_let [simp]: "exec (Let x f) s = exec (f x) s" "outcome (Let x f) s = outcome (f x) s"
  by (simp_all add: Let_def)

subsection \<open>Effect bounds\<close>

definition keeps :: "('s \<Rightarrow> 's \<Rightarrow> bool) \<Rightarrow> ('s, 'a) state \<Rightarrow> bool" where
  "keeps R m = (\<forall>s. R s (exec m s))"

lemma keepsD: "keeps R m \<Longrightarrow> R s (exec m s)"
  by (simp add: keeps_def)

lemma keeps_wp: "keeps R m \<Longrightarrow> wp m (\<lambda>_ s'. R s s') s"
  by (simp add: keeps_def wp_exec)

lemma keeps_update: "(\<And>s. R s (f s)) \<Longrightarrow> keeps R (mupd f)"
  by (simp add: keeps_def)

lemma keeps_conj: "keeps R m \<Longrightarrow> keeps S m \<Longrightarrow> keeps (\<lambda>s s'. R s s' \<and> S s s') m"
  by (simp add: keeps_def)

lemma keeps_mono: "keeps R m \<Longrightarrow> (\<And>s s'. R s s' \<Longrightarrow> S s s') \<Longrightarrow> keeps S m"
  by (simp add: keeps_def)

text \<open>
  A reflexive and transitive relation bounds a program as soon as it bounds its parts. The lemmas
  of the locale are the steps of such a proof.
\<close>

locale effect_order =
  fixes R :: "'s \<Rightarrow> 's \<Rightarrow> bool"
  assumes refl: "R s s"
    and trans: "R s s' \<Longrightarrow> R s' s'' \<Longrightarrow> R s s''"
begin

lemma keeps_return: "keeps R (mreturn x)"
  by (simp add: keeps_def refl)

lemma keeps_get: "keeps R mget"
  by (simp add: keeps_def refl)

lemma keeps_bind: "keeps R m \<Longrightarrow> (\<And>x. keeps R (f x)) \<Longrightarrow> keeps R (State_Monad.bind m f)"
  unfolding keeps_def by (metis exec_simps(2) trans)

lemma keeps_if: "(b \<Longrightarrow> keeps R m) \<Longrightarrow> (\<not> b \<Longrightarrow> keeps R m') \<Longrightarrow> keeps R (if b then m else m')"
  by simp

lemma keeps_let: "(\<And>y. keeps R (f y)) \<Longrightarrow> keeps R (Let x f)"
  by (simp add: Let_def)

lemma keeps_case_option:
  "keeps R m \<Longrightarrow> (\<And>y. keeps R (f y)) \<Longrightarrow> keeps R (case x of None \<Rightarrow> m | Some y \<Rightarrow> f y)"
  by (simp split: option.split)

lemma keeps_case_prod: "(\<And>x y. keeps R (f x y)) \<Longrightarrow> keeps R (case p of (x, y) \<Rightarrow> f x y)"
  by (simp split: prod.split)

lemma keeps_star: "rtranclp (\<lambda>s s'. \<exists>m. keeps R (m :: ('s, 'a) state) \<and> s' = exec m s) s s' \<Longrightarrow> R s s'"
  by (induction rule: rtranclp_induct) (auto intro: refl trans dest: keepsD)

lemma keeps_case_sum:
  "(\<And>y. keeps R (f y)) \<Longrightarrow> (\<And>y. keeps R (g y)) \<Longrightarrow> keeps R (case x of Inl y \<Rightarrow> f y | Inr y \<Rightarrow> g y)"
  by (simp split: sum.split)

text \<open>A program that depends on the state it starts from, bounded from that state.\<close>

lemma keeps_getI: "(\<And>s. R s (exec (f s) s)) \<Longrightarrow> keeps R (State_Monad.bind mget f)"
  by (simp add: keeps_def)

lemma at_seq:
  "R s (exec m s) \<Longrightarrow> (\<And>x s'. R s s' \<Longrightarrow> R s' (exec (g x) s')) \<Longrightarrow> R s (exec (State_Monad.bind m g) s)"
  using trans by fastforce

lemma at_case_sum:
  "(\<And>y. R s (exec (f y) s)) \<Longrightarrow> (\<And>y. R s (exec (g y) s)) \<Longrightarrow>
     R s (exec (case x of Inl y \<Rightarrow> f y | Inr y \<Rightarrow> g y) s)"
  by (simp split: sum.split)

lemma at_if:
  "(b \<Longrightarrow> R s (exec m s)) \<Longrightarrow> (\<not> b \<Longrightarrow> R s (exec m' s)) \<Longrightarrow> R s (exec (if b then m else m') s)"
  by simp

lemma at_return: "R s (exec (mreturn x) s)"
  by (simp add: refl)

lemma at_let: "(\<And>y. R s (exec (f y) s)) \<Longrightarrow> R s (exec (Let x f) s)"
  by (simp add: Let_def)

lemmas at_rules = at_return at_seq at_if at_let at_case_sum

lemmas keeps_rules = keeps_case_sum keeps_return keeps_get keeps_bind keeps_if keeps_let keeps_case_option keeps_case_prod

end

end
