(* ===== verification/Scene_Session.thy ===== *)
theory Scene_Session
  imports Effects
begin

text \<open>
  \<^verbatim>\<open>ContinueSceneSessionHandler\<close> (\<^verbatim>\<open>services/dtbschedmgr/src/continue_scene_session_handler.cpp\<close>), which
  remembers the id of the window session a quick start has opened and asks the window manager for
  its persistent id. Its one member is a string. The window manager is a function of the number of
  the poll: \<open>poll n\<close> is \<open>Some id\<close> when the poll with number \<open>n\<close>, counted from 0, succeeds.
\<close>

definition RETRY_TIMES :: int where "RETRY_TIMES = 60"

text \<open>The retry loop, with the counter of the code; the second component counts the polls made.\<close>

function poll_session :: "(nat \<Rightarrow> int option) \<Rightarrow> nat \<Rightarrow> int \<Rightarrow> int option \<times> nat" where
  "poll_session poll n retryTimeout =
     (case poll n of
        Some pid \<Rightarrow> (Some pid, Suc n)
      | None \<Rightarrow> if retryTimeout - 1 \<ge> 0 then poll_session poll (Suc n) (retryTimeout - 1) else (None, Suc n))"
  by pat_completeness auto
termination
  by (relation "measure (\<lambda>(poll, n, r). nat r)") auto

declare poll_session.simps [simp del]

record scene_env =
  isSceneBoardEnabled :: bool
  sceneManagerProxy :: bool
  sessionPoll :: "string \<Rightarrow> nat \<Rightarrow> int option"
  stringHash :: "string \<Rightarrow> string"
  timeStamp :: string

abbreviation SCENE_INVALID_PARAMETERS_ERR :: ret where "SCENE_INVALID_PARAMETERS_ERR \<equiv> 29360128"

text \<open>
  \<^verbatim>\<open>std::to_string(std::hash<std::string>()(...))\<close> is the parameter \<open>stringHash\<close>, and \<open>timeStamp\<close> is the
  decimal text of the current time in milliseconds.
\<close>

definition UpdateContinueSessionId :: "scene_env \<Rightarrow> string \<Rightarrow> string \<Rightarrow> string" where
  "UpdateContinueSessionId env bundleName abilityName =
     stringHash env (bundleName @ abilityName @ timeStamp env)"

definition ClearContinueSessionId :: "string \<Rightarrow> string" where
  "ClearContinueSessionId continueSessionId = ''''"

text \<open>\<^verbatim>\<open>GetPersistentId(persistentId, continueSessionId)\<close>; the result pairs the code with the output parameter.\<close>

definition GetPersistentIdOf :: "scene_env \<Rightarrow> string \<Rightarrow> ret \<times> int option" where
  "GetPersistentIdOf env continueSessionId =
     (if \<not> sceneManagerProxy env then (SCENE_INVALID_PARAMETERS_ERR, None)
      else case fst (poll_session (sessionPoll env continueSessionId) 0 RETRY_TIMES) of
        Some pid \<Rightarrow> (ERR_OK, Some pid)
      | None \<Rightarrow> (SCENE_INVALID_PARAMETERS_ERR, None))"

text \<open>\<^verbatim>\<open>GetPersistentId(persistentId)\<close>, for the session id the handler holds.\<close>

definition GetPersistentId :: "scene_env \<Rightarrow> string \<Rightarrow> ret \<times> int option" where
  "GetPersistentId env continueSessionId =
     (if continueSessionId = '''' then (SCENE_INVALID_PARAMETERS_ERR, None)
      else if \<not> isSceneBoardEnabled env then (SCENE_INVALID_PARAMETERS_ERR, None)
      else GetPersistentIdOf env continueSessionId)"

subsection \<open>What the loop computes\<close>

lemma first_Suc:
  "(\<exists>i \<ge> n. i \<le> n + k \<and> P i \<and> (\<forall>j. n \<le> j \<and> j < i \<longrightarrow> Q j)) \<longleftrightarrow>
     P n \<or> (Q n \<and> 0 < k \<and> (\<exists>i \<ge> Suc n. i \<le> Suc n + (k - 1) \<and> P i \<and> (\<forall>j. Suc n \<le> j \<and> j < i \<longrightarrow> Q j)))"
  (is "?L \<longleftrightarrow> ?R")
proof
  assume ?L
  then obtain i where i: "n \<le> i" "i \<le> n + k" "P i" "\<forall>j. n \<le> j \<and> j < i \<longrightarrow> Q j"
    by blast
  show ?R
  proof (cases "i = n")
    case False
    with i have "Q n" "0 < k" "Suc n \<le> i" "i \<le> Suc n + (k - 1)"
      by auto
    with i show ?thesis
      by (metis Suc_leD)
  qed (use i in simp)
next
  assume ?R
  then show ?L
    by (auto simp: Suc_le_eq) (metis Suc_le_eq le_neq_implies_less less_imp_le_nat Suc_pred add_Suc_right add_Suc)
qed

lemma poll_session_first:
  "fst (poll_session poll n r) = Some pid \<longleftrightarrow>
     (\<exists>i \<ge> n. i \<le> n + nat r \<and> poll i = Some pid \<and> (\<forall>j. n \<le> j \<and> j < i \<longrightarrow> poll j = None))"
proof (induction poll n r rule: poll_session.induct)
  case (1 poll n r)
  have "nat (r - 1) = nat r - 1"
    by simp
  with 1 show ?case
    by (subst first_Suc) (auto simp: poll_session.simps [of poll n r] split: option.split)
qed

lemma poll_session_bound: "snd (poll_session poll n r) \<le> Suc n + nat r"
proof (induction poll n r rule: poll_session.induct)
  case (1 poll n r)
  then show ?case
    by (auto simp: poll_session.simps [of poll n r] split: option.split)
qed

text \<open>
  Asking the window manager for the persistent id of a session polls it at most 61 times and
  then gives up; it succeeds, with the id of the first poll that answers, exactly when one of the
  first 61 polls does. (The code names the bound 60 but tests the counter after the decrement
  with \<^verbatim>\<open>>= 0\<close>.)
\<close>

theorem persistent_id_polls:
  "snd (poll_session poll 0 RETRY_TIMES) \<le> 61 \<and>
   (sceneManagerProxy env \<and> poll = sessionPoll env sid \<longrightarrow>
      (GetPersistentIdOf env sid = (ERR_OK, Some pid) \<longleftrightarrow>
         (\<exists>i \<le> 60. poll i = Some pid \<and> (\<forall>j < i. poll j = None))))"
  using poll_session_bound [of poll 0 RETRY_TIMES] poll_session_first [of poll 0 RETRY_TIMES pid]
  by (auto simp: RETRY_TIMES_def GetPersistentIdOf_def split: option.split)

theorem persistent_id_polls_witness:
  "GetPersistentIdOf \<lparr>isSceneBoardEnabled = True, sceneManagerProxy = True,
      sessionPoll = (\<lambda>_ n. if n = 60 then Some 7 else None), stringHash = id, timeStamp = ''''\<rparr> ''x'' = (ERR_OK, Some 7)"
  using persistent_id_polls [of "\<lambda>n. if n = 60 then Some 7 else None"
      "\<lparr>isSceneBoardEnabled = True, sceneManagerProxy = True,
        sessionPoll = (\<lambda>_ n. if n = 60 then Some 7 else None), stringHash = id, timeStamp = ''''\<rparr>" "''x''" 7]
  by auto

end
