(* ===== verification/Continue_Types.thy ===== *)
theory Continue_Types
  imports Scene_Session Softbus_Adapter
begin

text \<open>
  The data of a continuation, the migration of an application's mission from a source to a sink
  device: \<^verbatim>\<open>include/continue/dsched_continue.h\<close>, \<^verbatim>\<open>include/continue/dsched_continue_event.h\<close>,
  \<^verbatim>\<open>include/continue/state/dsched_continue_state.h\<close> and \<^verbatim>\<open>include/caller_info.h\<close> of
  \<^verbatim>\<open>services/dtbschedmgr\<close>.

  \<^item> \<^verbatim>\<open>AAFwk::Want\<close> belongs to the ability framework, outside this repository: wants are a type
    variable \<open>'w\<close> and the methods the code calls are the record \<open>want_api\<close>. \<^verbatim>\<open>WantParams\<close> are only
    copied; they and the remote callback objects are identified by numbers.
  \<^item> \<open>continue_env\<close> is what the other services answer during one step: the transport adapter, the
    bundle, ability and account managers, the permission checks, the event runner and the JSON
    marshalling of the commands.
  \<^item> \<open>continue_call\<close> is a call a continuation makes to another service, with its arguments.
    Calls of the tracing and statistics services (\<^verbatim>\<open>DmsRadar\<close>, \<^verbatim>\<open>DmsUE\<close>, \<^verbatim>\<open>DmsContinueTime\<close>,
    \<^verbatim>\<open>DmsHiAnalyticsReport\<close>) are left out.
\<close>

subsection \<open>Return codes\<close>

abbreviation INVALID_REMOTE_PARAMETERS_ERR :: ret where "INVALID_REMOTE_PARAMETERS_ERR \<equiv> 29360131"
abbreviation NOTIFYCOMPLETECONTINUATION_FAILED :: ret where "NOTIFYCOMPLETECONTINUATION_FAILED \<equiv> 29360152"
abbreviation CONTINUE_ABILITY_TIMEOUT_ERR :: ret where "CONTINUE_ABILITY_TIMEOUT_ERR \<equiv> 29360153"
abbreviation NO_MISSION_INFO_FOR_MISSION_ID :: ret where "NO_MISSION_INFO_FOR_MISSION_ID \<equiv> 29360221"
abbreviation OPERATION_DEVICE_NOT_INITIATOR_OR_TARGET :: ret where "OPERATION_DEVICE_NOT_INITIATOR_OR_TARGET \<equiv> 29360222"
abbreviation CONTINUE_ALREADY_IN_PROGRESS :: ret where "CONTINUE_ALREADY_IN_PROGRESS \<equiv> 29360223"
abbreviation CONTINUE_SEND_EVENT_FAILED :: ret where "CONTINUE_SEND_EVENT_FAILED \<equiv> 29360225"
abbreviation CONTINUE_STATE_MACHINE_INVALID_STATE :: ret where "CONTINUE_STATE_MACHINE_INVALID_STATE \<equiv> 29360226"
abbreviation CONTINUE_SESSION_SHUTDOWN :: ret where "CONTINUE_SESSION_SHUTDOWN \<equiv> 29360227"
abbreviation CONTINUE_CALL_CONTINUE_ABILITY_FAILED :: ret where "CONTINUE_CALL_CONTINUE_ABILITY_FAILED \<equiv> 29360228"
abbreviation CONTINUE_CALL_START_ABILITY_FAILED :: ret where "CONTINUE_CALL_START_ABILITY_FAILED \<equiv> 29360229"
abbreviation CONTINUE_SINK_ABILITY_TERMINATED :: ret where "CONTINUE_SINK_ABILITY_TERMINATED \<equiv> 29360230"
abbreviation MISSION_NOT_CONTINUE_ACTIVE :: ret where "MISSION_NOT_CONTINUE_ACTIVE \<equiv> 29360233"
abbreviation DMS_GET_WINDOW_FAILED_FROM_SCB :: ret where "DMS_GET_WINDOW_FAILED_FROM_SCB \<equiv> 29360238"
abbreviation CAN_NOT_FOUND_MODULE_ERR :: ret where "CAN_NOT_FOUND_MODULE_ERR \<equiv> 29360239"

subsection \<open>Continuation info\<close>

record continue_info =
  sourceDeviceId :: string
  sourceBundleName :: string
  sinkDeviceId :: string
  sinkBundleName :: string
  continueType :: string
  sinkAbilityName :: string
  missionId :: int
  continueSessionId :: string
  sinkMissionId :: int

definition DSchedContinueInfo5 :: "string \<Rightarrow> string \<Rightarrow> string \<Rightarrow> string \<Rightarrow> string \<Rightarrow> continue_info" where
  "DSchedContinueInfo5 srcDev srcBundle dstDev dstBundle type =
     \<lparr>sourceDeviceId = srcDev, sourceBundleName = srcBundle, sinkDeviceId = dstDev, sinkBundleName = dstBundle,
      continueType = type, sinkAbilityName = '''', missionId = 0, continueSessionId = '''', sinkMissionId = 0\<rparr>"

definition DSchedContinueInfo3 :: "string \<Rightarrow> string \<Rightarrow> int \<Rightarrow> continue_info" where
  "DSchedContinueInfo3 srcDev dstDev mid =
     (DSchedContinueInfo5 srcDev '''' dstDev '''' '''')\<lparr>missionId := mid\<rparr>"

text \<open>The text that \<^verbatim>\<open>operator==\<close> and \<^verbatim>\<open>operator<\<close> compare.\<close>

definition compareInfo :: "continue_info \<Rightarrow> string" where
  "compareInfo i = sourceDeviceId i @ sourceBundleName i @ sinkDeviceId i @ sinkBundleName i"

definition continue_info_eq :: "continue_info \<Rightarrow> continue_info \<Rightarrow> bool" where
  "continue_info_eq i j = (compareInfo i = compareInfo j)"

definition continue_info_less :: "continue_info \<Rightarrow> continue_info \<Rightarrow> bool" where
  "continue_info_less i j = (compareInfo i < compareInfo j)"

definition CONTINUE_SOURCE :: int where "CONTINUE_SOURCE = 0"
definition CONTINUE_SINK :: int where "CONTINUE_SINK = 1"
definition CONTINUE_PULL :: int where "CONTINUE_PULL = 0"
definition CONTINUE_PUSH :: int where "CONTINUE_PUSH = 1"

lemmas continue_kinds = CONTINUE_SOURCE_def CONTINUE_SINK_def CONTINUE_PULL_def CONTINUE_PUSH_def

record state_callback_info =
  cbMissionId :: int
  cbBundleName :: string
  cbModuleName :: string
  cbAbilityName :: string

subsection \<open>Commands between the devices\<close>

record caller_info =
  callerUid :: int
  callerPid :: int
  callerType :: int
  callerSourceDeviceId :: string
  callerDuid :: int
  callerAppId :: string
  callerBundleNames :: "string list"
  callerDmsVersion :: int
  callerAccessToken :: u32
  callerExtraDmsVersion :: "int option"

definition caller_info_default :: caller_info where
  "caller_info_default =
     \<lparr>callerUid = -1, callerPid = -1, callerType = 0, callerSourceDeviceId = '''', callerDuid = -1, callerAppId = '''',
      callerBundleNames = [], callerDmsVersion = -1, callerAccessToken = 0, callerExtraDmsVersion = None\<rparr>"

record account_info =
  accountType :: int
  groupIdList :: "string list"
  activeAccountId :: string
  userId :: int

record cmd_base =
  cmdVersion :: int
  cmdServiceType :: int
  cmdSubServiceType :: int
  cmdCommand :: int
  cmdSrcDeviceId :: string
  cmdSrcBundleName :: string
  cmdSrcDeveloperId :: string
  cmdDstDeviceId :: string
  cmdDstBundleName :: string
  cmdDstDeveloperId :: string
  cmdContinueType :: string
  cmdContinueByType :: int
  cmdSourceMissionId :: int
  cmdDmsVersion :: int

record start_cmd = cmd_base +
  startDirection :: int
  startAppVersion :: int
  startWantParams :: nat

text \<open>The ability info of a data command is always that of a default \<^verbatim>\<open>AbilityInfo\<close> and is left out.\<close>

record 'w data_cmd = cmd_base +
  dataWant :: 'w
  dataRequestCode :: int
  dataCallerInfo :: caller_info
  dataAccountInfo :: account_info

record reply_cmd = cmd_base +
  replyCmd :: int
  replyAppVersion :: int
  replyResult :: int
  replyReason :: string

record end_cmd = cmd_base +
  endResult :: int

datatype 'w continue_cmd =
    StartCmd start_cmd
  | DataCmd "'w data_cmd"
  | ReplyCmd reply_cmd
  | EndCmd end_cmd

lemma cmd_base_extend [simp]:
  "cmdVersion (cmd_base.extend b x) = cmdVersion b"
  "cmdServiceType (cmd_base.extend b x) = cmdServiceType b"
  "cmdSubServiceType (cmd_base.extend b x) = cmdSubServiceType b"
  "cmdCommand (cmd_base.extend b x) = cmdCommand b"
  "cmdSrcDeviceId (cmd_base.extend b x) = cmdSrcDeviceId b"
  "cmdSrcBundleName (cmd_base.extend b x) = cmdSrcBundleName b"
  "cmdSrcDeveloperId (cmd_base.extend b x) = cmdSrcDeveloperId b"
  "cmdDstDeviceId (cmd_base.extend b x) = cmdDstDeviceId b"
  "cmdDstBundleName (cmd_base.extend b x) = cmdDstBundleName b"
  "cmdDstDeveloperId (cmd_base.extend b x) = cmdDstDeveloperId b"
  "cmdContinueType (cmd_base.extend b x) = cmdContinueType b"
  "cmdContinueByType (cmd_base.extend b x) = cmdContinueByType b"
  "cmdSourceMissionId (cmd_base.extend b x) = cmdSourceMissionId b"
  "cmdDmsVersion (cmd_base.extend b x) = cmdDmsVersion b"
  by (simp_all add: cmd_base.defs)

lemma cmd_fields [simp]:
  "startDirection (cmd_base.extend b (start_cmd.fields s0 s1 s2)) = s0"
  "startAppVersion (cmd_base.extend b (start_cmd.fields s0 s1 s2)) = s1"
  "startWantParams (cmd_base.extend b (start_cmd.fields s0 s1 s2)) = s2"
  "dataWant (cmd_base.extend b (data_cmd.fields d0 d1 d2 d3)) = d0"
  "dataRequestCode (cmd_base.extend b (data_cmd.fields d0 d1 d2 d3)) = d1"
  "dataCallerInfo (cmd_base.extend b (data_cmd.fields d0 d1 d2 d3)) = d2"
  "dataAccountInfo (cmd_base.extend b (data_cmd.fields d0 d1 d2 d3)) = d3"
  "replyCmd (cmd_base.extend b (reply_cmd.fields r0 r1 r2 r3)) = r0"
  "replyAppVersion (cmd_base.extend b (reply_cmd.fields r0 r1 r2 r3)) = r1"
  "replyResult (cmd_base.extend b (reply_cmd.fields r0 r1 r2 r3)) = r2"
  "replyReason (cmd_base.extend b (reply_cmd.fields r0 r1 r2 r3)) = r3"
  "endResult (cmd_base.extend b (end_cmd.fields e0)) = e0"
  by (simp_all add: cmd_base.defs start_cmd.defs data_cmd.defs reply_cmd.defs end_cmd.defs)

lemma data_cmd_want_update [simp]:
  "(cmd_base.extend b (data_cmd.fields f0 f1 f2 f3))\<lparr>dataWant := want\<rparr> = cmd_base.extend b (data_cmd.fields want f1 f2 f3)"
  by (simp add: cmd_base.defs data_cmd.defs)

definition DSCHED_CONTINUE_CMD_START :: int where "DSCHED_CONTINUE_CMD_START = 1"
definition DSCHED_CONTINUE_CMD_DATA :: int where "DSCHED_CONTINUE_CMD_DATA = 2"
definition DSCHED_CONTINUE_CMD_REPLY :: int where "DSCHED_CONTINUE_CMD_REPLY = 3"
definition DSCHED_CONTINUE_CMD_END :: int where "DSCHED_CONTINUE_CMD_END = 4"

lemmas continue_commands = DSCHED_CONTINUE_CMD_START_def DSCHED_CONTINUE_CMD_DATA_def
  DSCHED_CONTINUE_CMD_REPLY_def DSCHED_CONTINUE_CMD_END_def

subsection \<open>Events and states\<close>

record 'w continue_ability_data =
  cadWant :: 'w
  cadCallerUid :: int
  cadAccessToken :: u32

text \<open>
  The events of the event runner with the object each carries. \<^verbatim>\<open>DSCHED_CONTINUE_REPLY_EVENT\<close> is
  never posted and has no object.
\<close>

datatype 'w continue_event =
    REQ_PULL_EVENT nat
  | REPLY_EVENT
  | DATA_EVENT "'w data_cmd"
  | REQ_PUSH_EVENT nat
  | ABILITY_EVENT int
  | SEND_DATA_EVENT "'w continue_ability_data"
  | COMPLETE_EVENT int
  | END_EVENT int

datatype continue_state =
    SOURCE_START_STATE
  | ABILITY_STATE
  | SOURCE_WAIT_END_STATE
  | SOURCE_END_STATE
  | SINK_START_STATE
  | DATA_STATE
  | SINK_WAIT_END_STATE
  | SINK_END_STATE

subsection \<open>The services around a continuation\<close>

record 'w want_api =
  emptyWant :: 'w
  GetFlags :: "'w \<Rightarrow> u32"
  SetFlags :: "u32 \<Rightarrow> 'w \<Rightarrow> 'w"
  GetBundle :: "'w \<Rightarrow> string"
  SetBundle :: "string \<Rightarrow> 'w \<Rightarrow> 'w"
  GetModuleName :: "'w \<Rightarrow> string"
  GetElementDeviceID :: "'w \<Rightarrow> string"
  GetElementBundleName :: "'w \<Rightarrow> string"
  GetElementAbilityName :: "'w \<Rightarrow> string"
  SetElementName2 :: "string \<Rightarrow> string \<Rightarrow> 'w \<Rightarrow> 'w"
  SetElementName3 :: "string \<Rightarrow> string \<Rightarrow> string \<Rightarrow> 'w \<Rightarrow> 'w"
  SetElementName4 :: "string \<Rightarrow> string \<Rightarrow> string \<Rightarrow> string \<Rightarrow> 'w \<Rightarrow> 'w"
  GetBoolParam :: "string \<Rightarrow> bool \<Rightarrow> 'w \<Rightarrow> bool"
  GetStringParam :: "string \<Rightarrow> 'w \<Rightarrow> string"
  QueryBoolean :: "string \<Rightarrow> 'w \<Rightarrow> bool option"
  SetParamInt :: "string \<Rightarrow> int \<Rightarrow> 'w \<Rightarrow> 'w"
  SetParamString :: "string \<Rightarrow> string \<Rightarrow> 'w \<Rightarrow> 'w"
  SetParamBool :: "string \<Rightarrow> bool \<Rightarrow> 'w \<Rightarrow> 'w"
  RemoveParam :: "string \<Rightarrow> 'w \<Rightarrow> 'w"
  FLAG_ABILITY_CONTINUATION :: u32
  FLAG_ABILITY_PREPARE_CONTINUATION :: u32
  PARAM_MODULE_NAME :: string
  PARAM_APP_CLONE_INDEX_KEY :: string

record bundle_info =
  versionCode :: u32
  abilityNames :: "string list"

record mission_info =
  missionBundle :: string
  missionContinueActive :: bool

record dms_ability_info =
  dmsAbilityName :: string
  dmsContinueTypes :: "string list"
  dmsModuleName :: string
  dmsContinueBundleNames :: "string list"

record continue_event_info =
  evNetworkId :: string
  evBundleName :: string
  evModuleName :: string
  evAbilityName :: string
  evDeveloperId :: string

datatype dsched_event_state =
    DMS_DSCHED_EVENT_INIT
  | DMS_DSCHED_EVENT_START
  | DMS_DSCHED_EVENT_PROCESSING
  | DMS_DSCHED_EVENT_STOP
  | DMS_DSCHED_EVENT_FINISH

record event_notify =
  eventResult :: int
  srcNetworkId :: string
  dstNetworkId :: string
  srcBundleName :: string
  srcModuleName :: string
  srcAbilityName :: string
  destBundleName :: string
  destModuleName :: string
  destAbilityName :: string
  developerId :: string
  eventState :: dsched_event_state

definition event_notify_default :: event_notify where
  "event_notify_default =
     \<lparr>eventResult = -1, srcNetworkId = '''', dstNetworkId = '''', srcBundleName = '''', srcModuleName = '''',
      srcAbilityName = '''', destBundleName = '''', destModuleName = '''', destAbilityName = '''', developerId = '''',
      eventState = DMS_DSCHED_EVENT_INIT\<rparr>"

record 'w continue_env =
  wapi :: "'w want_api"
  sceneEnv :: scene_env
  hotspotErrs :: "int list"
  busyErrs :: "int list"
  supportDistributedMissionManager :: bool
  getContinueEventInfo :: "string \<Rightarrow> string \<Rightarrow> string \<Rightarrow> continue_event_info"
  sendEvent :: "'w continue_event \<Rightarrow> bool"
  sharedWantParams :: "nat \<Rightarrow> nat option"
  connectDevice :: "string \<Rightarrow> int \<Rightarrow> ret \<times> int"
  getAbilityName :: "string \<Rightarrow> string \<Rightarrow> string \<Rightarrow> string"
  getLocalBundleInfo :: "string \<Rightarrow> ret \<times> bundle_info"
  getLocalBundleInfoV9 :: "string \<Rightarrow> ret \<times> bundle_info"
  condGetMissionIdByBundleName :: "int \<Rightarrow> string \<Rightarrow> int \<Rightarrow> ret \<times> int"
  checkBundleContinueConfig :: "string \<Rightarrow> bool"
  getMissionInfo :: "int \<Rightarrow> ret \<times> mission_info"
  amsContinueAbility :: "string \<Rightarrow> int \<Rightarrow> int \<Rightarrow> ret"
  getCallerAppIdFromBms :: "int \<Rightarrow> string option"
  getBundleNameListFromBms :: "int \<Rightarrow> string list option"
  getAccountInfo :: "string \<Rightarrow> caller_info \<Rightarrow> ret \<times> account_info"
  saveDataTime :: string
  provisionDeveloperId :: "string \<Rightarrow> string"
  isSameDeveloperId :: "string \<Rightarrow> string \<Rightarrow> bool"
  checkTargetPermission :: "'w \<Rightarrow> caller_info \<Rightarrow> account_info \<Rightarrow> ret \<times> 'w"
  checkTargetPermission4DiffBundle :: "'w \<Rightarrow> caller_info \<Rightarrow> account_info \<Rightarrow> ret \<times> 'w"
  storageLocalDeviceId :: "string option"
  getDistributedBundleInfo :: "string \<Rightarrow> string \<Rightarrow> dms_ability_info list option"
  abilityStateByPersistentId :: "int \<Rightarrow> nat \<Rightarrow> ret \<times> bool"
  amsConnect :: ret
  amsStartAbility :: "'w \<Rightarrow> int \<Rightarrow> int \<Rightarrow> ret"
  marshalCmd :: "'w continue_cmd \<Rightarrow> ret \<times> byte list"
  adapterSendData :: "int \<Rightarrow> data_buffer \<Rightarrow> ret"
  writeInterfaceToken :: bool
  writeInt32 :: bool

datatype 'w continue_call =
    CallConnectDevice string
  | CallDisconnectDevice string
  | CallSendData int data_buffer
  | CallStartAbility 'w int int
  | CallContinueAbility string int int
  | CallCleanMission int
  | CallMissionCallback nat int
  | CallDSchedEventCallback int event_notify
  | CallManagerOnContinueEnd continue_info
  | CallNotifyQuickStartState state_callback_info int string

subsection \<open>The continuation object\<close>

text \<open>
  The members of \<^verbatim>\<open>DSchedContinue\<close>. \<open>machine\<close> is the state the state machine is in (\<open>None\<close> before
  \<^verbatim>\<open>Init\<close>), \<open>queue\<close> the events waiting in the event runner, which handles events of one priority in
  the order in which they were sent, and \<open>eventHandler\<close> tells whether the handler exists.
\<close>

record 'w dcontinue =
  version :: int
  subServiceType :: int
  continueByType :: int
  direction :: int
  continueInfo :: continue_info
  isSourceExit :: bool
  softbusSessionId :: int
  callback :: "nat option"
  eventData :: event_notify
  accountId :: int
  machine :: "continue_state option"
  eventHandler :: bool
  queue :: "'w continue_event list"

text \<open>The object together with the session id of the window handler and the calls made so far.\<close>

record 'w cworld = "'w dcontinue" +
  sceneSessionId :: string
  calls :: "'w continue_call list"

type_synonym ('w, 'a) prog = "('w cworld, 'a) state"

definition call :: "'w continue_call \<Rightarrow> ('w, unit) prog" where
  "call c = mupd (\<lambda>w. w\<lparr>calls := calls w @ [c]\<rparr>)"

definition updInfo :: "(continue_info \<Rightarrow> continue_info) \<Rightarrow> ('w, unit) prog" where
  "updInfo f = mupd (\<lambda>w. w\<lparr>continueInfo := f (continueInfo w)\<rparr>)"

subsection \<open>Text\<close>

text \<open>\<^verbatim>\<open>std::string::rfind\<close>; \<open>None\<close> is \<^verbatim>\<open>npos\<close>.\<close>

definition rfind :: "string \<Rightarrow> string \<Rightarrow> nat option" where
  "rfind s pat =
     (if length pat \<le> length s
      then find (\<lambda>p. take (length pat) (drop p s) = pat) (rev [0..<Suc (length s - length pat)])
      else None)"

lemma rfind_last_iff:
  assumes "length pat \<le> length s"
  shows "rfind s pat = Some (length s - length pat) \<longleftrightarrow> drop (length s - length pat) s = pat"
proof -
  have last: "length (drop (length s - length pat) s) = length pat"
    using assms by simp
  have "rev [0..<Suc (length s - length pat)] = (length s - length pat) # rev [0..<length s - length pat]"
    by simp
  then show ?thesis
    using assms last by (auto simp: rfind_def find_Some_iff nth_Cons split: nat.splits if_splits)
qed

lemma rfind_suffix: "rfind (p @ pat) pat = Some (length p)"
  using rfind_last_iff [of pat "p @ pat"] by simp

end
