(* ===== verification/Continue_Object.thy ===== *)
theory Continue_Object
  imports Continue_Types
begin

text \<open>
  The operations of \<^verbatim>\<open>DSchedContinue\<close>
  (\<^verbatim>\<open>services/dtbschedmgr/src/continue/dsched_continue.cpp\<close>), one definition per method, as programs
  over the object and its log of calls. Each definition keeps the order of the checks, the calls
  and the updates of the method, and every early return is a branch.
\<close>

definition VERSION_CODE_KEY :: string where "VERSION_CODE_KEY = ''version''"
definition SUPPORT_CONTINUE_PAGE_STACK_KEY :: string where
  "SUPPORT_CONTINUE_PAGE_STACK_KEY = ''ohos.extra.param.key.supportContinuePageStack''"
definition SUPPORT_CONTINUE_SOURCE_EXIT_KEY :: string where
  "SUPPORT_CONTINUE_SOURCE_EXIT_KEY = ''ohos.extra.param.key.supportContinueSourceExit''"
definition SUPPORT_CONTINUE_MODULE_NAME_UPDATE_KEY :: string where
  "SUPPORT_CONTINUE_MODULE_NAME_UPDATE_KEY = ''ohos.extra.param.key.supportContinueModuleNameUpdate''"
definition DMSDURATION_SAVETIME :: string where "DMSDURATION_SAVETIME = ''ohos.dschedule.SaveDataTime''"
definition DMS_PERSISTENT_ID :: string where "DMS_PERSISTENT_ID = ''ohos.dms.persistentId''"
definition DMS_CONTINUE_SESSION_ID :: string where "DMS_CONTINUE_SESSION_ID = ''ohos.dms.continueSessionId''"
definition QUICK_START_CONFIGURATION :: string where "QUICK_START_CONFIGURATION = ''_ContinueQuickStart''"
definition QUICK_START_SUCCESS_MESSAGE :: string where "QUICK_START_SUCCESS_MESSAGE = ''quickstart success.''"
definition QUICK_START_FAILED_MESSAGE :: string where
  "QUICK_START_FAILED_MESSAGE = ''quickstart failed. error code: ''"

definition DSCHED_CONTINUE_PROTOCOL_VERSION :: int where "DSCHED_CONTINUE_PROTOCOL_VERSION = 1"
definition MAX_MODULENAME_LEN :: nat where "MAX_MODULENAME_LEN = 2048"
definition DEFAULT_REQUEST_CODE :: int where "DEFAULT_REQUEST_CODE = -1"
definition DMS_VERSION :: int where "DMS_VERSION = 5"
definition GET_ABILITY_STATE_RETRY_TIMES :: int where "GET_ABILITY_STATE_RETRY_TIMES = 40"
definition QUICK_START_SUCCESS :: int where "QUICK_START_SUCCESS = 0"
definition QUICK_START_FAILED :: int where "QUICK_START_FAILED = 1"
definition ERROR_PEER_THREE_VAP_CONFLICT :: int where "ERROR_PEER_THREE_VAP_CONFLICT = -200000 - 6604"

definition ERR_DMS_WORK_ABNORMALLY :: int where "ERR_DMS_WORK_ABNORMALLY = 16300501"
definition ERR_CONTINUE_ALREADY_IN_PROGRESS :: int where "ERR_CONTINUE_ALREADY_IN_PROGRESS = 16300506"
definition ERR_BIND_REMOTE_HOTSPOT_ENABLE_STATE :: int where "ERR_BIND_REMOTE_HOTSPOT_ENABLE_STATE = 16300508"
definition ERR_BIND_REMOTE_IN_BUSY_LINK :: int where "ERR_BIND_REMOTE_IN_BUSY_LINK = 16300509"

subsection \<open>The state machine's state\<close>

definition UpdateState :: "continue_state \<Rightarrow> ('w, unit) prog" where
  "UpdateState st = mupd (\<lambda>w. if machine w = None then w else w\<lparr>machine := Some st\<rparr>)"

subsection \<open>Posting events\<close>

definition post :: "'w continue_env \<Rightarrow> 'w continue_event \<Rightarrow> ('w, ret) prog" where
  "post env e = do {
     w \<leftarrow> mget;
     if \<not> eventHandler w then mreturn INVALID_PARAMETERS_ERR
     else if \<not> sendEvent env e then mreturn CONTINUE_SEND_EVENT_FAILED
     else do {
       mupd (\<lambda>w. w\<lparr>queue := queue w @ [e]\<rparr>);
       mreturn ERR_OK
     }
   }"

definition PostStartTask :: "'w continue_env \<Rightarrow> nat \<Rightarrow> ('w, ret) prog" where
  "PostStartTask env wantParams = do {
     w \<leftarrow> mget;
     post env (if subServiceType w = CONTINUE_PULL then REQ_PULL_EVENT wantParams else REQ_PUSH_EVENT wantParams)
   }"

definition OnContinueMission :: "'w continue_env \<Rightarrow> nat \<Rightarrow> ('w, ret) prog" where
  "OnContinueMission env wantParams = PostStartTask env wantParams"

definition PostCotinueAbilityTask :: "'w continue_env \<Rightarrow> int \<Rightarrow> ('w, ret) prog" where
  "PostCotinueAbilityTask env appVersion = post env (ABILITY_EVENT appVersion)"

definition OnStartCmd :: "'w continue_env \<Rightarrow> int \<Rightarrow> ('w, ret) prog" where
  "OnStartCmd env appVersion = PostCotinueAbilityTask env appVersion"

definition PostReplyTask :: "'w continue_env \<Rightarrow> reply_cmd \<Rightarrow> ('w, ret) prog" where
  "PostReplyTask env cmd =
     (if replyCmd cmd = DSCHED_CONTINUE_CMD_START then post env (ABILITY_EVENT (replyAppVersion cmd))
      else if replyCmd cmd = DSCHED_CONTINUE_CMD_END then post env (END_EVENT (replyResult cmd))
      else mreturn ERR_OK)"

definition OnReplyCmd :: "'w continue_env \<Rightarrow> reply_cmd \<Rightarrow> ('w, ret) prog" where
  "OnReplyCmd env cmd = PostReplyTask env cmd"

definition PostContinueSendTask :: "'w continue_env \<Rightarrow> 'w \<Rightarrow> int \<Rightarrow> ret \<Rightarrow> u32 \<Rightarrow> ('w, ret) prog" where
  "PostContinueSendTask env want uid status accessToken = do {
     w \<leftarrow> mget;
     if \<not> eventHandler w then mreturn INVALID_PARAMETERS_ERR
     else if status \<noteq> ERR_OK then post env (END_EVENT status)
     else post env (SEND_DATA_EVENT \<lparr>cadWant = want, cadCallerUid = uid, cadAccessToken = accessToken\<rparr>)
   }"

definition OnStartContinuation :: "'w continue_env \<Rightarrow> 'w \<Rightarrow> int \<Rightarrow> ret \<Rightarrow> u32 \<Rightarrow> ('w, ret) prog" where
  "OnStartContinuation env want uid status accessToken = PostContinueSendTask env want uid status accessToken"

definition PostContinueDataTask :: "'w continue_env \<Rightarrow> 'w data_cmd \<Rightarrow> ('w, ret) prog" where
  "PostContinueDataTask env cmd = post env (DATA_EVENT cmd)"

definition OnContinueDataCmd :: "'w continue_env \<Rightarrow> 'w data_cmd \<Rightarrow> ('w, ret) prog" where
  "OnContinueDataCmd env cmd = PostContinueDataTask env cmd"

definition PostNotifyCompleteTask :: "'w continue_env \<Rightarrow> ret \<Rightarrow> ('w, ret) prog" where
  "PostNotifyCompleteTask env result = post env (COMPLETE_EVENT result)"

definition OnNotifyComplete :: "'w continue_env \<Rightarrow> int \<Rightarrow> bool \<Rightarrow> ('w, ret) prog" where
  "OnNotifyComplete env mid isSuccess =
     (if \<not> isSuccess then do { PostNotifyCompleteTask env CONTINUE_CALL_START_ABILITY_FAILED; mreturn ERR_OK }
      else if mid \<le> 0 then do { PostNotifyCompleteTask env INVALID_PARAMETERS_ERR; mreturn ERR_OK }
      else do { PostNotifyCompleteTask env ERR_OK; mreturn ERR_OK })"

definition OnContinueEndCmd :: "'w continue_env \<Rightarrow> end_cmd \<Rightarrow> ('w, ret) prog" where
  "OnContinueEndCmd env cmd = PostNotifyCompleteTask env (endResult cmd)"

definition PostContinueEndTask :: "'w continue_env \<Rightarrow> ret \<Rightarrow> ('w, ret) prog" where
  "PostContinueEndTask env result = post env (END_EVENT result)"

definition OnContinueEnd :: "'w continue_env \<Rightarrow> ret \<Rightarrow> ('w, ret) prog" where
  "OnContinueEnd env result = PostContinueEndTask env result"

lemmas post_defs = PostStartTask_def OnContinueMission_def PostCotinueAbilityTask_def OnStartCmd_def PostReplyTask_def
  OnReplyCmd_def PostContinueSendTask_def OnStartContinuation_def PostContinueDataTask_def OnContinueDataCmd_def
  PostNotifyCompleteTask_def OnNotifyComplete_def OnContinueEndCmd_def PostContinueEndTask_def OnContinueEnd_def

subsection \<open>Commands\<close>

definition pack_base :: "'w cworld \<Rightarrow> int \<Rightarrow> cmd_base" where
  "pack_base w command =
     \<lparr>cmdVersion = version w, cmdServiceType = 0, cmdSubServiceType = subServiceType w, cmdCommand = command,
      cmdSrcDeviceId = sourceDeviceId (continueInfo w), cmdSrcBundleName = sourceBundleName (continueInfo w),
      cmdSrcDeveloperId = '''',
      cmdDstDeviceId = sinkDeviceId (continueInfo w), cmdDstBundleName = sinkBundleName (continueInfo w),
      cmdDstDeveloperId = '''', cmdContinueType = continueType (continueInfo w), cmdContinueByType = continueByType w,
      cmdSourceMissionId = missionId (continueInfo w), cmdDmsVersion = DMS_VERSION\<rparr>"

text \<open>The unsigned version code becomes an \<^verbatim>\<open>int32_t\<close> by \<^verbatim>\<open>static_cast\<close>, which is \<open>sint\<close>.\<close>

definition PackStartCmd :: "'w continue_env \<Rightarrow> nat option \<Rightarrow> ('w, ret + start_cmd) prog" where
  "PackStartCmd env wantParams = (case wantParams of
       None \<Rightarrow> mreturn (Inl INVALID_PARAMETERS_ERR)
     | Some params \<Rightarrow> do {
         w \<leftarrow> mget;
         let cmd = cmd_base.extend (pack_base w DSCHED_CONTINUE_CMD_START)
               (start_cmd.fields (direction w) 0 params);
         if subServiceType w = CONTINUE_PULL \<and> missionId (continueInfo w) = 0
         then (case getLocalBundleInfoV9 env (sinkBundleName (continueInfo w)) of
             (r, info) \<Rightarrow> if r \<noteq> ERR_OK then mreturn (Inl r)
               else mreturn (Inr (cmd\<lparr>startAppVersion := sint (versionCode info)\<rparr>)))
         else mreturn (Inr cmd)
       })"

definition PackDataCmd :: "'w continue_env \<Rightarrow> 'w \<Rightarrow> caller_info \<Rightarrow> account_info \<Rightarrow> ('w, 'w data_cmd) prog" where
  "PackDataCmd env want caller account = do {
     w \<leftarrow> mget;
     let base = pack_base w DSCHED_CONTINUE_CMD_DATA;
     mreturn (cmd_base.extend (base\<lparr>cmdSrcDeveloperId := provisionDeveloperId env (cmdSrcBundleName base)\<rparr>)
       (data_cmd.fields want DEFAULT_REQUEST_CODE caller account))
   }"

definition PackReplyCmd :: "int \<Rightarrow> int \<Rightarrow> ret \<Rightarrow> string \<Rightarrow> ('w, reply_cmd) prog" where
  "PackReplyCmd cmd appVersion result reason = do {
     w \<leftarrow> mget;
     mreturn (cmd_base.extend (pack_base w DSCHED_CONTINUE_CMD_REPLY) (reply_cmd.fields cmd appVersion result reason))
   }"

definition PackEndCmd :: "ret \<Rightarrow> ('w, end_cmd) prog" where
  "PackEndCmd result = do {
     w \<leftarrow> mget;
     mreturn (cmd_base.extend (pack_base w DSCHED_CONTINUE_CMD_END) (end_cmd.fields result))
   }"

text \<open>
  The command text is copied into a buffer one byte longer than it; a text of 80 MiB or more
  leaves the buffer without memory and the copy fails.
\<close>

definition SendCommand :: "'w continue_env \<Rightarrow> 'w continue_cmd \<Rightarrow> ('w, ret) prog" where
  "SendCommand env cmd = do {
     w \<leftarrow> mget;
     let (r, jsonStr) = marshalCmd env cmd;
     if r \<noteq> ERR_OK then mreturn r
     else do {
       let buffer = DSchedDataBuffer (length jsonStr + 1);
       let r = memcpy_s (Data buffer = None) (Capacity buffer) False (length jsonStr);
       if r \<noteq> ERR_OK then mreturn r
       else do {
         let buffer = buf_write buffer 0 jsonStr;
         call (CallSendData (softbusSessionId w) buffer);
         let r = adapterSendData env (softbusSessionId w) buffer;
         if r \<noteq> ERR_OK then mreturn r else mreturn ERR_OK
       }
     }
   }"

subsection \<open>Quick start\<close>

definition ends_with_quick_start :: "string \<Rightarrow> bool" where
  "ends_with_quick_start t =
     (length QUICK_START_CONFIGURATION \<le> length t \<and>
      rfind t QUICK_START_CONFIGURATION = Some (length t - length QUICK_START_CONFIGURATION))"

text \<open>\<^verbatim>\<open>t.substr(0, t.rfind(suffix))\<close>; with \<^verbatim>\<open>npos\<close> the whole text.\<close>

definition before_quick_start :: "string \<Rightarrow> string" where
  "before_quick_start t = (case rfind t QUICK_START_CONFIGURATION of None \<Rightarrow> t | Some p \<Rightarrow> take p t)"

definition CheckQuickStartConfiguration :: "continue_info \<Rightarrow> bool" where
  "CheckQuickStartConfiguration info =
     (if length QUICK_START_CONFIGURATION > length (continueType info) then False
      else rfind (continueType info) QUICK_START_CONFIGURATION =
             Some (length (continueType info) - length QUICK_START_CONFIGURATION))"

definition ContinueTypeFormat :: "string \<Rightarrow> string" where
  "ContinueTypeFormat t = (if ends_with_quick_start t then before_quick_start t else t)"

definition GetAbilityNameByContinueType :: "'w continue_env \<Rightarrow> continue_info \<Rightarrow> string" where
  "GetAbilityNameByContinueType env info =
     (let t = (if CheckQuickStartConfiguration info then before_quick_start (continueType info) else continueType info);
          name = getAbilityName env (sinkDeviceId info) (sinkBundleName info) t
      in if name \<noteq> '''' then name
         else getAbilityName env (sinkDeviceId info) (sinkBundleName info) (t @ QUICK_START_CONFIGURATION))"

definition QuerySinkAbilityName :: "'w continue_env \<Rightarrow> continue_info \<Rightarrow> string" where
  "QuerySinkAbilityName env info =
     (let name = GetAbilityNameByContinueType env info in
      if name \<noteq> '''' then name
      else case getLocalBundleInfo env (sinkBundleName info) of
        (r, bundle) \<Rightarrow>
          if r \<noteq> ERR_OK then name
          else if abilityNames bundle = [] \<or> length (abilityNames bundle) > 1 then name
          else hd (abilityNames bundle))"

text \<open>The request code the caller passes is not used: the ability is started with the default one.\<close>

definition StartAbility :: "'w continue_env \<Rightarrow> 'w \<Rightarrow> int \<Rightarrow> ('w, ret) prog" where
  "StartAbility env want0 requestCode = do {
     let want = SetParamInt (wapi env) (PARAM_APP_CLONE_INDEX_KEY (wapi env)) 0 want0;
     if amsConnect env \<noteq> ERR_OK then mreturn (amsConnect env)
     else do {
       updInfo (\<lambda>i. i\<lparr>sinkAbilityName := GetElementAbilityName (wapi env) want\<rparr>);
       w \<leftarrow> mget;
       call (CallStartAbility want DEFAULT_REQUEST_CODE (accountId w));
       mreturn (amsStartAbility env want DEFAULT_REQUEST_CODE (accountId w))
     }
   }"

definition quick_start_want :: "'w continue_env \<Rightarrow> string \<Rightarrow> string \<Rightarrow> string \<Rightarrow> 'w" where
  "quick_start_want env bundle ability sid =
     SetFlags (wapi env) (FLAG_ABILITY_PREPARE_CONTINUATION (wapi env))
       (SetParamString (wapi env) DMS_CONTINUE_SESSION_ID sid
         (SetElementName2 (wapi env) bundle ability (emptyWant (wapi env))))"

definition QuickStartAbility :: "'w continue_env \<Rightarrow> ('w, ret) prog" where
  "QuickStartAbility env = do {
     w \<leftarrow> mget;
     if \<not> isSceneBoardEnabled (sceneEnv env) then mreturn INVALID_PARAMETERS_ERR
     else do {
       let ability = QuerySinkAbilityName env (continueInfo w);
       if ability = '''' then mreturn INVALID_PARAMETERS_ERR
       else do {
         let sid = UpdateContinueSessionId (sceneEnv env) (sinkBundleName (continueInfo w)) ability;
         mupd (\<lambda>w. w\<lparr>sceneSessionId := sid\<rparr>);
         updInfo (\<lambda>i. i\<lparr>continueSessionId := sid\<rparr>);
         StartAbility env (quick_start_want env (sinkBundleName (continueInfo w)) ability sid) DEFAULT_REQUEST_CODE
       }
     }
   }"

definition quick_start_mission_id :: "'w continue_env \<Rightarrow> 'w cworld \<Rightarrow> ret \<times> int option" where
  "quick_start_mission_id env w =
     (if sinkMissionId (continueInfo w) \<noteq> 0 then (ERR_OK, Some (sinkMissionId (continueInfo w)))
      else GetPersistentIdOf (sceneEnv env) (continueSessionId (continueInfo w)))"

definition notify_quick_start :: "'w continue_env \<Rightarrow> int \<Rightarrow> string \<Rightarrow> ('w, unit) prog" where
  "notify_quick_start env st message = do {
     w \<leftarrow> mget;
     (case snd (quick_start_mission_id env w) of
        None \<Rightarrow> mreturn ()
      | Some mid \<Rightarrow> call (CallNotifyQuickStartState
          \<lparr>cbMissionId = mid, cbBundleName = sinkBundleName (continueInfo w),
           cbModuleName = destModuleName (eventData w), cbAbilityName = sinkAbilityName (continueInfo w)\<rparr> st message))
   }"

definition ExecuteQuickStartSuccess :: "'w continue_env \<Rightarrow> ('w, unit) prog" where
  "ExecuteQuickStartSuccess env = notify_quick_start env QUICK_START_SUCCESS QUICK_START_SUCCESS_MESSAGE"

definition ExecuteQuickStartFailed :: "'w continue_env \<Rightarrow> ret \<Rightarrow> ('w, unit) prog" where
  "ExecuteQuickStartFailed env result =
     notify_quick_start env QUICK_START_FAILED (QUICK_START_FAILED_MESSAGE @ to_string result)"

subsection \<open>The request\<close>

definition peerDevice :: "'w cworld \<Rightarrow> string" where
  "peerDevice w = (if direction w = CONTINUE_SOURCE then sinkDeviceId (continueInfo w) else sourceDeviceId (continueInfo w))"

definition ExecuteContinueReq :: "'w continue_env \<Rightarrow> nat option \<Rightarrow> ('w, ret) prog" where
  "ExecuteContinueReq env wantParams = do {
     w \<leftarrow> mget;
     let peer = peerDevice w;
     (if subServiceType w = CONTINUE_PULL \<and> CheckQuickStartConfiguration (continueInfo w)
      then do { QuickStartAbility env; mreturn () } else mreturn ());
     call (CallConnectDevice peer);
     let conn = connectDevice env peer (softbusSessionId w);
     mupd (\<lambda>w. w\<lparr>softbusSessionId := snd conn\<rparr>);
     if fst conn \<noteq> ERR_OK then mreturn (fst conn)
     else do {
       packed \<leftarrow> PackStartCmd env wantParams;
       (case packed of
          Inl r \<Rightarrow> mreturn r
        | Inr cmd \<Rightarrow> do {
            r \<leftarrow> SendCommand env (StartCmd cmd);
            if r \<noteq> ERR_OK then mreturn r
            else do {
              w' \<leftarrow> mget;
              (if direction w' = CONTINUE_SINK then UpdateState DATA_STATE else mreturn ());
              mreturn ERR_OK
            }
          })
     }
   }"

subsection \<open>The source side\<close>

definition GetMissionIdByBundleName :: "'w continue_env \<Rightarrow> ('w, ret) prog" where
  "GetMissionIdByBundleName env = do {
     w \<leftarrow> mget;
     if supportDistributedMissionManager env \<and> missionId (continueInfo w) = 0
     then do {
       let found = condGetMissionIdByBundleName env (accountId w) (sourceBundleName (continueInfo w))
             (missionId (continueInfo w));
       updInfo (\<lambda>i. i\<lparr>missionId := snd found\<rparr>);
       mreturn (fst found)
     }
     else mreturn ERR_OK
   }"

definition CheckContinueAbilityPermission :: "'w continue_env \<Rightarrow> continue_info \<Rightarrow> ret" where
  "CheckContinueAbilityPermission env info =
     (if \<not> checkBundleContinueConfig env (sourceBundleName info) then REMOTE_DEVICE_BIND_ABILITY_ERR
      else case getMissionInfo env (missionId info) of
        (r, mission) \<Rightarrow>
          if r \<noteq> ERR_OK then NO_MISSION_INFO_FOR_MISSION_ID
          else if \<not> missionContinueActive mission then MISSION_NOT_CONTINUE_ACTIVE
          else ERR_OK)"

definition ExecuteContinueAbility :: "'w continue_env \<Rightarrow> int \<Rightarrow> ('w, ret) prog" where
  "ExecuteContinueAbility env appVersion = do {
     r \<leftarrow> GetMissionIdByBundleName env;
     if r \<noteq> ERR_OK then mreturn r
     else do {
       w \<leftarrow> mget;
       let r = CheckContinueAbilityPermission env (continueInfo w);
       if r \<noteq> ERR_OK then mreturn r
       else do {
         let dev = sinkDeviceId (continueInfo w);
         let mid = missionId (continueInfo w);
         call (CallContinueAbility dev mid appVersion);
         if amsContinueAbility env dev mid appVersion \<noteq> ERR_OK then mreturn CONTINUE_CALL_CONTINUE_ABILITY_FAILED
         else do { UpdateState ABILITY_STATE; mreturn ERR_OK }
       }
     }
   }"

definition SetCleanMissionFlag :: "'w continue_env \<Rightarrow> 'w \<Rightarrow> ('w, unit) prog" where
  "SetCleanMissionFlag env want = (case QueryBoolean (wapi env) SUPPORT_CONTINUE_SOURCE_EXIT_KEY want of
       None \<Rightarrow> mreturn ()
     | Some b \<Rightarrow> mupd (\<lambda>w. w\<lparr>isSourceExit := b\<rparr>))"

definition SetWantForContinuation :: "'w continue_env \<Rightarrow> continue_info \<Rightarrow> 'w \<Rightarrow> ret + 'w" where
  "SetWantForContinuation env info want0 =
     (let W = wapi env;
          want1 = SetParamString W ''deviceId'' (sourceDeviceId info) (SetParamInt W ''sessionId'' (missionId info) want0)
      in case getLocalBundleInfo env (GetBundle W want1) of
        (r, bundle) \<Rightarrow>
          if r \<noteq> ERR_OK then Inl INVALID_PARAMETERS_ERR
          else
            let want2 = SetParamInt W VERSION_CODE_KEY (sint (versionCode bundle)) want1;
                isPageStackContinue = GetBoolParam W SUPPORT_CONTINUE_PAGE_STACK_KEY True want2;
                moduleName = GetStringParam W SUPPORT_CONTINUE_MODULE_NAME_UPDATE_KEY want2;
                want3 = (if \<not> isPageStackContinue \<and> moduleName \<noteq> '''' \<and> length moduleName \<le> MAX_MODULENAME_LEN
                  then SetElementName4 W (GetElementDeviceID W want2) (GetElementBundleName W want2)
                         (GetElementAbilityName W want2) moduleName want2
                  else want2)
            in Inr (SetParamString W DMSDURATION_SAVETIME (saveDataTime env) want3))"

definition send_caller_info :: "continue_info \<Rightarrow> 'w continue_ability_data \<Rightarrow> string \<Rightarrow> string list \<Rightarrow> caller_info" where
  "send_caller_info info data appId names =
     caller_info_default\<lparr>callerSourceDeviceId := sourceDeviceId info, callerUid := cadCallerUid data,
       callerAccessToken := cadAccessToken data, callerAppId := appId, callerBundleNames := names,
       callerExtraDmsVersion := Some DMS_VERSION\<rparr>"

definition ExecuteContinueSend :: "'w continue_env \<Rightarrow> 'w continue_ability_data \<Rightarrow> ('w, ret) prog" where
  "ExecuteContinueSend env data = do {
     SetCleanMissionFlag env (cadWant data);
     w \<leftarrow> mget;
     if GetFlags (wapi env) (cadWant data) AND FLAG_ABILITY_CONTINUATION (wapi env) = 0
     then mreturn INVALID_REMOTE_PARAMETERS_ERR
     else (case SetWantForContinuation env (continueInfo w) (cadWant data) of
         Inl _ \<Rightarrow> mreturn INVALID_PARAMETERS_ERR
       | Inr newWant \<Rightarrow> (case getCallerAppIdFromBms env (cadCallerUid data) of
           None \<Rightarrow> mreturn INVALID_PARAMETERS_ERR
         | Some appId \<Rightarrow> (case getBundleNameListFromBms env (cadCallerUid data) of
             None \<Rightarrow> mreturn INVALID_PARAMETERS_ERR
           | Some names \<Rightarrow> do {
               let caller = send_caller_info (continueInfo w) data appId names;
               let acc = getAccountInfo env (sinkDeviceId (continueInfo w)) caller;
               if fst acc \<noteq> ERR_OK then mreturn (fst acc)
               else do {
                 cmd \<leftarrow> PackDataCmd env newWant caller (snd acc);
                 r \<leftarrow> SendCommand env (DataCmd cmd);
                 if r \<noteq> ERR_OK then mreturn r
                 else do { UpdateState SOURCE_WAIT_END_STATE; mreturn ERR_OK }
               }
             })))
   }"

subsection \<open>The sink side\<close>

definition ExecuteContinueReply :: "'w continue_env \<Rightarrow> ('w, ret) prog" where
  "ExecuteContinueReply env = do {
     w \<leftarrow> mget;
     let found = getLocalBundleInfoV9 env (sourceBundleName (continueInfo w));
     if fst found \<noteq> ERR_OK then mreturn INVALID_PARAMETERS_ERR
     else do {
       cmd \<leftarrow> PackReplyCmd DSCHED_CONTINUE_CMD_START (sint (versionCode (snd found))) ERR_OK ''ExecuteContinueReply'';
       r \<leftarrow> SendCommand env (ReplyCmd cmd);
       if r \<noteq> ERR_OK then mreturn r
       else do { UpdateState DATA_STATE; mreturn ERR_OK }
     }
   }"

text \<open>
  The abilities of the sink bundle that take the continue type, in the order of the bundle; an
  ability of the same module replaces the ones collected before it and ends the search. The first
  component tells whether the search has ended (\<^verbatim>\<open>sameModuleGot\<close>).
\<close>

definition FindSinkContinueAbilityStep ::
    "string \<Rightarrow> string \<Rightarrow> dms_ability_info \<Rightarrow> dms_ability_info list \<Rightarrow> bool \<times> dms_ability_info list" where
  "FindSinkContinueAbilityStep srcModule srcContinueType a result =
     (if srcContinueType \<in> set (map ContinueTypeFormat (dmsContinueTypes a))
      then (if srcModule = dmsModuleName a then (True, [a]) else (False, result @ [a]))
      else (False, result))"

fun FindSinkContinueAbilityInfo ::
    "string \<Rightarrow> string \<Rightarrow> dms_ability_info list \<Rightarrow> dms_ability_info list \<Rightarrow> dms_ability_info list" where
  "FindSinkContinueAbilityInfo srcModule srcContinueType [] result = result"
| "FindSinkContinueAbilityInfo srcModule srcContinueType (a # as) result =
     (case FindSinkContinueAbilityStep srcModule srcContinueType a result of
        (sameModuleGot, result') \<Rightarrow>
          if sameModuleGot then result'
          else FindSinkContinueAbilityInfo srcModule srcContinueType as result')"

text \<open>The updated command, or the error; the caller logs the error and goes on with the command as it was.\<close>

definition UpdateElementInfo :: "'w continue_env \<Rightarrow> 'w data_cmd \<Rightarrow> ret \<times> 'w data_cmd" where
  "UpdateElementInfo env cmd =
     (let W = wapi env;
          want = dataWant cmd;
          srcModule = (if GetModuleName W want = '''' then GetStringParam W (PARAM_MODULE_NAME W) want
                           else GetModuleName W want);
          srcContinueType = ContinueTypeFormat (cmdContinueType cmd)
      in case storageLocalDeviceId env of
           None \<Rightarrow> (CAN_NOT_FOUND_MODULE_ERR, cmd)
         | Some localId \<Rightarrow>
           (case getDistributedBundleInfo env localId (cmdDstBundleName cmd) of
              None \<Rightarrow> (CAN_NOT_FOUND_MODULE_ERR, cmd)
            | Some abilities \<Rightarrow>
              (case FindSinkContinueAbilityInfo srcModule srcContinueType abilities [] of
                 [] \<Rightarrow> (CAN_NOT_FOUND_MODULE_ERR, cmd)
               | a # _ \<Rightarrow> (ERR_OK, cmd\<lparr>dataWant := SetElementName4 W (GetElementDeviceID W want) (cmdDstBundleName cmd)
                   (dmsAbilityName a) (dmsModuleName a) want\<rparr>))))"

definition CheckDeviceIdFromRemote :: "continue_info \<Rightarrow> string \<Rightarrow> string \<Rightarrow> string \<Rightarrow> bool" where
  "CheckDeviceIdFromRemote info localDevId destDevId srcDevId =
     (if localDevId = '''' \<or> destDevId = '''' \<or> srcDevId = '''' then False
      else if localDevId \<noteq> destDevId then False
      else if srcDevId = destDevId \<or> srcDevId = localDevId then False
      else if srcDevId \<noteq> sourceDeviceId info then False
      else True)"

text \<open>The check of the service may remove parameters of the want it is given, through a \<^verbatim>\<open>const_cast\<close>.\<close>

definition CheckStartPermission :: "'w continue_env \<Rightarrow> 'w data_cmd \<Rightarrow> ret \<times> 'w data_cmd" where
  "CheckStartPermission env cmd =
     (let checked = (\<lambda>(r, want). (r, cmd\<lparr>dataWant := want\<rparr>)) in
      if cmdSrcBundleName cmd = cmdDstBundleName cmd
      then checked (checkTargetPermission env (dataWant cmd) (dataCallerInfo cmd) (dataAccountInfo cmd))
      else if \<not> isSameDeveloperId env (cmdDstBundleName cmd) (cmdSrcDeveloperId cmd) then (INVALID_PARAMETERS_ERR, cmd)
      else checked (checkTargetPermission4DiffBundle env (dataWant cmd) (dataCallerInfo cmd) (dataAccountInfo cmd)))"

definition UpdateWantForContinueType :: "'w continue_env \<Rightarrow> continue_info \<Rightarrow> 'w \<Rightarrow> 'w" where
  "UpdateWantForContinueType env info want =
     (let W = wapi env;
          sinkAbility = GetAbilityNameByContinueType env info
      in if sinkAbility \<noteq> '''' \<and> sinkAbility \<noteq> GetElementAbilityName W want
         then SetParamBool W SUPPORT_CONTINUE_PAGE_STACK_KEY False
                (RemoveParam W SUPPORT_CONTINUE_PAGE_STACK_KEY
                  (SetElementName3 W (GetElementDeviceID W want) (GetElementBundleName W want) sinkAbility want))
         else want)"

text \<open>
  The wait for the prepared ability: \<open>poll n\<close> answers the poll with number \<open>n\<close>. The second
  component counts the polls.
\<close>

function WaitAbilityStateInitial :: "(nat \<Rightarrow> ret \<times> bool) \<Rightarrow> nat \<Rightarrow> int \<Rightarrow> bool \<times> nat" where
  "WaitAbilityStateInitial poll n retryTimeout =
     (if fst (poll n) = ERR_OK \<and> snd (poll n) then (True, Suc n)
      else if retryTimeout - 1 > 0 then WaitAbilityStateInitial poll (Suc n) (retryTimeout - 1)
      else (False, Suc n))"
  by pat_completeness auto
termination
  by (relation "measure (\<lambda>(poll, n, r). nat r)") auto

declare WaitAbilityStateInitial.simps [simp del]

text \<open>
  The window handler is asked twice for the id of the prepared window, before and after the wait,
  whose own result is not used. A missing window posts the end event and leaves with the result of
  posting it.
\<close>

definition prepared_window :: "'w continue_env \<Rightarrow> 'w \<Rightarrow> ('w, ret + 'w) prog" where
  "prepared_window env want = do {
     w \<leftarrow> mget;
     if subServiceType w = CONTINUE_PULL \<and> sceneSessionId w \<noteq> ''''
     then (case GetPersistentId (sceneEnv env) (sceneSessionId w) of
         (_, None) \<Rightarrow> do { r \<leftarrow> OnContinueEnd env DMS_GET_WINDOW_FAILED_FROM_SCB; mreturn (Inl r) }
       | (_, Some pid) \<Rightarrow> do {
           let waited = WaitAbilityStateInitial (abilityStateByPersistentId env pid) 0 GET_ABILITY_STATE_RETRY_TIMES;
           let want' = SetParamInt (wapi env) DMS_PERSISTENT_ID pid want;
           (case GetPersistentId (sceneEnv env) (sceneSessionId w) of
              (_, None) \<Rightarrow> do { r \<leftarrow> OnContinueEnd env DMS_GET_WINDOW_FAILED_FROM_SCB; mreturn (Inl r) }
            | (_, Some pid') \<Rightarrow> do {
                updInfo (\<lambda>i. i\<lparr>sinkMissionId := pid'\<rparr>);
                mreturn (Inr want')
              })
         })
     else mreturn (Inr want)
   }"

definition ExecuteContinueData :: "'w continue_env \<Rightarrow> 'w data_cmd \<Rightarrow> ('w, ret) prog" where
  "ExecuteContinueData env cmd0 = do {
     w \<leftarrow> mget;
     let cmd = snd (UpdateElementInfo env cmd0);
     let destDevId = GetElementDeviceID (wapi env) (dataWant cmd);
     (case storageLocalDeviceId env of
        None \<Rightarrow> mreturn INVALID_REMOTE_PARAMETERS_ERR
      | Some localDevId \<Rightarrow>
          if \<not> CheckDeviceIdFromRemote (continueInfo w) localDevId destDevId (callerSourceDeviceId (dataCallerInfo cmd))
          then mreturn INVALID_REMOTE_PARAMETERS_ERR
          else do {
            let (r, cmd) = CheckStartPermission env cmd;
            if r \<noteq> ERR_OK then mreturn r
            else do {
              window \<leftarrow> prepared_window env (UpdateWantForContinueType env (continueInfo w) (dataWant cmd));
              (case window of
                 Inl r \<Rightarrow> mreturn r
               | Inr want \<Rightarrow> do {
                   r \<leftarrow> StartAbility env want (dataRequestCode cmd);
                   (if r = ERR_OK then UpdateState SINK_WAIT_END_STATE else mreturn ());
                   mreturn r
                 })
            }
          })
   }"

subsection \<open>Completion and end\<close>

definition ExecuteNotifyComplete :: "'w continue_env \<Rightarrow> ret \<Rightarrow> ('w, ret) prog" where
  "ExecuteNotifyComplete env result = do {
     w \<leftarrow> mget;
     if direction w = CONTINUE_SINK
     then do {
       cmd \<leftarrow> PackEndCmd result;
       r \<leftarrow> SendCommand env (EndCmd cmd);
       if r \<noteq> ERR_OK then mreturn r
       else do { UpdateState SINK_END_STATE; mreturn ERR_OK }
     }
     else do {
       cmd \<leftarrow> PackReplyCmd DSCHED_CONTINUE_CMD_END 0 result ''ExecuteNotifyComplete'';
       r \<leftarrow> SendCommand env (ReplyCmd cmd);
       if r \<noteq> ERR_OK then mreturn r
       else do { UpdateState SOURCE_END_STATE; PostContinueEndTask env result; mreturn ERR_OK }
     }
   }"

definition DMS_CONVERT_TO_SDK_ERR_MAP :: "'w continue_env \<Rightarrow> (int \<times> int) list" where
  "DMS_CONVERT_TO_SDK_ERR_MAP env =
     map (\<lambda>e. (e, ERR_BIND_REMOTE_HOTSPOT_ENABLE_STATE)) (hotspotErrs env @ [ERROR_PEER_THREE_VAP_CONFLICT]) @
     map (\<lambda>e. (e, ERR_BIND_REMOTE_IN_BUSY_LINK)) (busyErrs env) @
     [(CONTINUE_ALREADY_IN_PROGRESS, ERR_CONTINUE_ALREADY_IN_PROGRESS)]"

definition ConvertToDmsSdkErr :: "'w continue_env \<Rightarrow> ret \<Rightarrow> ret" where
  "ConvertToDmsSdkErr env result =
     (if result = ERR_OK then result
      else case map_of (DMS_CONVERT_TO_SDK_ERR_MAP env) result of
        Some e \<Rightarrow> e
      | None \<Rightarrow> ERR_DMS_WORK_ABNORMALLY)"

definition NotifyContinuationCallbackResult :: "'w continue_env \<Rightarrow> ret \<Rightarrow> ('w, unit) prog" where
  "NotifyContinuationCallbackResult env result = do {
     w \<leftarrow> mget;
     (case callback w of
        None \<Rightarrow> mreturn ()
      | Some cb \<Rightarrow>
          if \<not> writeInterfaceToken env \<or> \<not> writeInt32 env then mreturn ()
          else do {
            call (CallMissionCallback cb (ConvertToDmsSdkErr env result));
            mupd (\<lambda>w. w\<lparr>callback := None\<rparr>)
          })
   }"

definition NotifyDSchedEventResult :: "ret \<Rightarrow> ('w, unit) prog" where
  "NotifyDSchedEventResult result = do {
     w \<leftarrow> mget;
     call (CallDSchedEventCallback (if result = ERR_OK then ERR_OK else NOTIFYCOMPLETECONTINUATION_FAILED) (eventData w))
   }"

text \<open>The side that opened the connection is the one that closes it.\<close>

definition isInitiator :: "'w cworld \<Rightarrow> bool" where
  "isInitiator w =
     (subServiceType w = CONTINUE_PULL \<and> direction w = CONTINUE_SINK \<or>
      subServiceType w = CONTINUE_PUSH \<and> direction w = CONTINUE_SOURCE)"

definition ExecuteContinueEnd :: "'w continue_env \<Rightarrow> ret \<Rightarrow> ('w, ret) prog" where
  "ExecuteContinueEnd env result = do {
     w \<leftarrow> mget;
     (if isInitiator w then call (CallDisconnectDevice (peerDevice w)) else mreturn ());
     mupd (\<lambda>w. w\<lparr>eventData := (eventData w)\<lparr>eventState :=
       (if result \<noteq> ERR_OK then DMS_DSCHED_EVENT_STOP else DMS_DSCHED_EVENT_FINISH)\<rparr>\<rparr>);
     (if result = ERR_OK \<and> direction w = CONTINUE_SOURCE \<and> isSourceExit w
      then call (CallCleanMission (missionId (continueInfo w))) else mreturn ());
     NotifyContinuationCallbackResult env result;
     NotifyDSchedEventResult result;
     call (CallManagerOnContinueEnd (continueInfo w));
     mreturn ERR_OK
   }"

definition ExecuteContinueError :: "'w continue_env \<Rightarrow> ret \<Rightarrow> ('w, ret) prog" where
  "ExecuteContinueError env result = do {
     cmd \<leftarrow> PackEndCmd result;
     SendCommand env (EndCmd cmd);
     w \<leftarrow> mget;
     UpdateState (if direction w = CONTINUE_SOURCE then SOURCE_END_STATE else SINK_END_STATE);
     OnContinueEnd env result;
     mreturn ERR_OK
   }"

end
