(* ===== verification/Continue_Machine.thy ===== *)
theory Continue_Machine
  imports Continue_Object
begin

text \<open>
  The life of a \<^verbatim>\<open>DSchedContinue\<close> object: its two constructors and \<^verbatim>\<open>Init\<close>, the commands it receives
  (\<^verbatim>\<open>OnDataRecv\<close>), and the state machine with its eight states
  (\<^verbatim>\<open>services/dtbschedmgr/src/continue/state\<close>), which decides what an event does. \<open>cstep\<close> is one step of
  an object: an operation of another thread posts an event, or the event runner hands the oldest
  event to \<^verbatim>\<open>ProcessEvent\<close>.
\<close>

subsection \<open>Construction\<close>

definition continue_event_data :: "'w continue_env \<Rightarrow> continue_info \<Rightarrow> event_notify" where
  "continue_event_data env i =
     (let src = getContinueEventInfo env (sourceDeviceId i) (sourceBundleName i) (continueType i);
          dst = getContinueEventInfo env (sinkDeviceId i) (sinkBundleName i) (continueType i)
      in \<lparr>eventResult = 0, srcNetworkId = evNetworkId src, dstNetworkId = evNetworkId dst,
          srcBundleName = evBundleName src, srcModuleName = evModuleName src, srcAbilityName = evAbilityName src,
          destBundleName = evBundleName dst, destModuleName = evModuleName dst, destAbilityName = evAbilityName dst,
          developerId = evDeveloperId src, eventState = DMS_DSCHED_EVENT_START\<rparr>)"

definition SetEventData :: "'w continue_env \<Rightarrow> ('w, unit) prog" where
  "SetEventData env = mupd (\<lambda>w. w\<lparr>eventData := continue_event_data env (continueInfo w)\<rparr>)"

text \<open>An object before its constructor body runs: the default member initialisers.\<close>

definition new_object :: "string \<Rightarrow> continue_info \<Rightarrow> 'w cworld" where
  "new_object sceneId info =
     \<lparr>version = 0, subServiceType = 0, continueByType = 0, direction = 0, continueInfo = info, isSourceExit = True,
      softbusSessionId = INVALID_SESSION_ID, callback = None, eventData = event_notify_default, accountId = -1,
      machine = None, eventHandler = False, queue = [], sceneSessionId = sceneId, calls = []\<rparr>"

definition DSchedContinueLocal ::
    "'w continue_env \<Rightarrow> string \<Rightarrow> int \<Rightarrow> int \<Rightarrow> nat \<Rightarrow> continue_info \<Rightarrow> int \<Rightarrow> 'w cworld" where
  "DSchedContinueLocal env sceneId sub dir cb info acc =
     exec (do { SetEventData env; NotifyDSchedEventResult ERR_OK })
       ((new_object sceneId info)\<lparr>subServiceType := sub, direction := dir, callback := Some cb, accountId := acc,
          version := DSCHED_CONTINUE_PROTOCOL_VERSION, continueByType := (if continueType info \<noteq> '''' then 1 else 0)\<rparr>)"

text \<open>
  The constructor from a start command takes the other direction. When the command names no bundle
  the bundle is that of the mission; if the mission is unknown the constructor returns before it
  stores the account.
\<close>

definition DSchedContinueRemote :: "'w continue_env \<Rightarrow> string \<Rightarrow> start_cmd \<Rightarrow> int \<Rightarrow> int \<Rightarrow> 'w cworld" where
  "DSchedContinueRemote env sceneId cmd sessionId acc =
     (let info = (DSchedContinueInfo5 (cmdSrcDeviceId cmd) (cmdSrcBundleName cmd) (cmdDstDeviceId cmd)
            (cmdDstBundleName cmd) (cmdContinueType cmd))\<lparr>missionId := cmdSourceMissionId cmd\<rparr>
      in exec (do {
           SetEventData env;
           NotifyDSchedEventResult ERR_OK;
           if sourceBundleName info = '''' \<and> sinkBundleName info = '''' \<and> missionId info \<noteq> 0
           then (let found = getMissionInfo env (missionId info) in
             if fst found \<noteq> ERR_OK then mreturn ()
             else do {
               updInfo (\<lambda>i. i\<lparr>sourceBundleName := missionBundle (snd found), sinkBundleName := missionBundle (snd found)\<rparr>);
               mupd (\<lambda>w. w\<lparr>accountId := acc\<rparr>)
             })
           else mupd (\<lambda>w. w\<lparr>accountId := acc\<rparr>)
         })
         ((new_object sceneId info)\<lparr>version := DSCHED_CONTINUE_PROTOCOL_VERSION,
            subServiceType := cmdSubServiceType cmd, continueByType := cmdContinueByType cmd,
            direction := (if startDirection cmd = CONTINUE_SOURCE then CONTINUE_SINK else CONTINUE_SOURCE),
            softbusSessionId := sessionId\<rparr>))"

definition Init :: "('w, ret) prog" where
  "Init = do {
     w \<leftarrow> mget;
     if eventHandler w then mreturn ERR_OK
     else do {
       mupd (\<lambda>w. w\<lparr>machine := Some (if direction w = CONTINUE_SOURCE then SOURCE_START_STATE else SINK_START_STATE)\<rparr>);
       mupd (\<lambda>w. w\<lparr>eventHandler := True\<rparr>);
       mreturn ERR_OK
     }
   }"

subsection \<open>Commands from the peer\<close>

text \<open>
  Unmarshalling a command is JSON parsing, done with a library outside this repository.
\<close>

record 'w cmd_parser =
  unmarshalStart :: "byte list \<Rightarrow> ret \<times> start_cmd"
  unmarshalData :: "byte list \<Rightarrow> ret \<times> 'w data_cmd"
  unmarshalReply :: "byte list \<Rightarrow> ret \<times> reply_cmd"
  unmarshalEnd :: "byte list \<Rightarrow> ret \<times> end_cmd"

text \<open>\<^verbatim>\<open>std::string(Data(), Capacity())\<close>: the constructor reads as many bytes as the capacity says.\<close>

definition buffer_text :: "data_buffer \<Rightarrow> byte list ub" where
  "buffer_text b = (case Data b of None \<Rightarrow> Done [] | Some mem \<Rightarrow> peek mem 0 (Capacity b))"

definition recv_command :: "'w cmd_parser \<Rightarrow> 'w continue_env \<Rightarrow> int \<Rightarrow> byte list \<Rightarrow> ('w, unit) prog" where
  "recv_command p env command jsonStr =
     (if command = DSCHED_CONTINUE_CMD_START then mreturn ()
      else if command = DSCHED_CONTINUE_CMD_DATA then
        (let parsed = unmarshalData p jsonStr in
         if fst parsed \<noteq> ERR_OK then mreturn ()
         else do {
           let cmd = snd parsed;
           OnContinueDataCmd env (cmd\<lparr>dataWant := SetBundle (wapi env) (cmdDstBundleName cmd) (dataWant cmd)\<rparr>);
           mreturn ()
         })
      else if command = DSCHED_CONTINUE_CMD_REPLY then
        (let parsed = unmarshalReply p jsonStr in
         if fst parsed \<noteq> ERR_OK then mreturn ()
         else do { OnReplyCmd env (snd parsed); mreturn () })
      else if command = DSCHED_CONTINUE_CMD_END then
        (let parsed = unmarshalEnd p jsonStr in
         if fst parsed \<noteq> ERR_OK then mreturn ()
         else do { OnContinueEndCmd env (snd parsed); mreturn () })
      else mreturn ())"

definition OnDataRecv :: "'w cmd_parser \<Rightarrow> 'w continue_env \<Rightarrow> int \<Rightarrow> data_buffer \<Rightarrow> ('w, unit ub) prog" where
  "OnDataRecv p env command dataBuffer = (case buffer_text dataBuffer of
       OutOfBounds \<Rightarrow> mreturn OutOfBounds
     | Done jsonStr \<Rightarrow> do { recv_command p env command jsonStr; mreturn (Done ()) })"

subsection \<open>The states\<close>

fun source_start_execute :: "'w continue_env \<Rightarrow> 'w continue_event \<Rightarrow> ('w, ret) prog" where
  "source_start_execute env (REQ_PUSH_EVENT params) = ExecuteContinueReq env (sharedWantParams env params)"
| "source_start_execute env (ABILITY_EVENT appVersion) = ExecuteContinueAbility env appVersion"
| "source_start_execute env (COMPLETE_EVENT result) = ExecuteContinueEnd env result"
| "source_start_execute env (END_EVENT result) = ExecuteContinueError env result"
| "source_start_execute env _ = mreturn CONTINUE_STATE_MACHINE_INVALID_STATE"

fun ability_execute :: "'w continue_env \<Rightarrow> 'w continue_event \<Rightarrow> ('w, ret) prog" where
  "ability_execute env (SEND_DATA_EVENT data) = ExecuteContinueSend env data"
| "ability_execute env (COMPLETE_EVENT result) = ExecuteContinueEnd env result"
| "ability_execute env (END_EVENT result) = ExecuteContinueError env result"
| "ability_execute env _ = mreturn CONTINUE_STATE_MACHINE_INVALID_STATE"

fun source_wait_end_execute :: "'w continue_env \<Rightarrow> 'w continue_event \<Rightarrow> ('w, ret) prog" where
  "source_wait_end_execute env (COMPLETE_EVENT result) = ExecuteNotifyComplete env result"
| "source_wait_end_execute env (END_EVENT result) = ExecuteContinueError env result"
| "source_wait_end_execute env _ = mreturn CONTINUE_STATE_MACHINE_INVALID_STATE"

fun source_end_execute :: "'w continue_env \<Rightarrow> 'w continue_event \<Rightarrow> ('w, ret) prog" where
  "source_end_execute env (END_EVENT result) = ExecuteContinueEnd env result"
| "source_end_execute env _ = mreturn CONTINUE_STATE_MACHINE_INVALID_STATE"

fun sink_start_execute :: "'w continue_env \<Rightarrow> 'w continue_event \<Rightarrow> ('w, ret) prog" where
  "sink_start_execute env (REQ_PULL_EVENT params) = ExecuteContinueReq env (sharedWantParams env params)"
| "sink_start_execute env (ABILITY_EVENT appVersion) = ExecuteContinueReply env"
| "sink_start_execute env (COMPLETE_EVENT result) = do {
     r \<leftarrow> ExecuteContinueEnd env result; ExecuteQuickStartFailed env result; mreturn r }"
| "sink_start_execute env (END_EVENT result) = do {
     r \<leftarrow> ExecuteContinueError env result; ExecuteQuickStartFailed env result; mreturn r }"
| "sink_start_execute env _ = mreturn CONTINUE_STATE_MACHINE_INVALID_STATE"

fun data_execute :: "'w continue_env \<Rightarrow> 'w continue_event \<Rightarrow> ('w, ret) prog" where
  "data_execute env (DATA_EVENT cmd) = do {
     r \<leftarrow> ExecuteContinueData env cmd; ExecuteQuickStartSuccess env; mreturn r }"
| "data_execute env (COMPLETE_EVENT result) = do {
     r \<leftarrow> ExecuteContinueEnd env result; ExecuteQuickStartFailed env result; mreturn r }"
| "data_execute env (END_EVENT result) = do {
     r \<leftarrow> ExecuteContinueError env result; ExecuteQuickStartFailed env result; mreturn r }"
| "data_execute env _ = mreturn CONTINUE_STATE_MACHINE_INVALID_STATE"

fun sink_wait_end_execute :: "'w continue_env \<Rightarrow> 'w continue_event \<Rightarrow> ('w, ret) prog" where
  "sink_wait_end_execute env (COMPLETE_EVENT result) = ExecuteNotifyComplete env result"
| "sink_wait_end_execute env (END_EVENT result) = ExecuteContinueError env result"
| "sink_wait_end_execute env _ = mreturn CONTINUE_STATE_MACHINE_INVALID_STATE"

fun sink_end_execute :: "'w continue_env \<Rightarrow> 'w continue_event \<Rightarrow> ('w, ret) prog" where
  "sink_end_execute env (END_EVENT result) = ExecuteContinueEnd env result"
| "sink_end_execute env _ = mreturn CONTINUE_STATE_MACHINE_INVALID_STATE"

fun state_execute :: "'w continue_env \<Rightarrow> continue_state \<Rightarrow> 'w continue_event \<Rightarrow> ('w, ret) prog" where
  "state_execute env SOURCE_START_STATE e = source_start_execute env e"
| "state_execute env ABILITY_STATE e = ability_execute env e"
| "state_execute env SOURCE_WAIT_END_STATE e = source_wait_end_execute env e"
| "state_execute env SOURCE_END_STATE e = source_end_execute env e"
| "state_execute env SINK_START_STATE e = sink_start_execute env e"
| "state_execute env DATA_STATE e = data_execute env e"
| "state_execute env SINK_WAIT_END_STATE e = sink_wait_end_execute env e"
| "state_execute env SINK_END_STATE e = sink_end_execute env e"

definition machine_execute :: "'w continue_env \<Rightarrow> 'w continue_event \<Rightarrow> ('w, ret) prog" where
  "machine_execute env e = do {
     w \<leftarrow> mget;
     (case machine w of
        None \<Rightarrow> mreturn INVALID_PARAMETERS_ERR
      | Some st \<Rightarrow> state_execute env st e)
   }"

definition ProcessEvent :: "'w continue_env \<Rightarrow> 'w continue_event \<Rightarrow> ('w, unit) prog" where
  "ProcessEvent env e = do {
     w \<leftarrow> mget;
     if machine w = None then mreturn ()
     else do {
       r \<leftarrow> machine_execute env e;
       if r \<noteq> ERR_OK then do { OnContinueEnd env r; mreturn () } else mreturn ()
     }
   }"

text \<open>The event runner hands over the oldest event.\<close>

definition run_event :: "'w continue_env \<Rightarrow> ('w, unit) prog" where
  "run_event env = do {
     w \<leftarrow> mget;
     (case queue w of
        [] \<Rightarrow> mreturn ()
      | e # q \<Rightarrow> do { mupd (\<lambda>w. w\<lparr>queue := q\<rparr>); ProcessEvent env e })
   }"

inductive cstep :: "'w cworld \<Rightarrow> 'w cworld \<Rightarrow> bool" where
  continue_mission: "cstep w (exec (OnContinueMission env params) w)"
| start_cmd: "cstep w (exec (OnStartCmd env appVersion) w)"
| data_recv: "cstep w (exec (OnDataRecv p env command b) w)"
| start_continuation: "cstep w (exec (OnStartContinuation env want uid status token) w)"
| notify_complete: "cstep w (exec (OnNotifyComplete env mid success) w)"
| continue_end: "cstep w (exec (OnContinueEnd env result) w)"
| runner: "queue w \<noteq> [] \<Longrightarrow> cstep w (exec (run_event env) w)"
| scene_changed: "cstep w (w\<lparr>sceneSessionId := sid\<rparr>)"

text \<open>The objects the manager makes, after \<^verbatim>\<open>Init\<close>, and everything they can become.\<close>

inductive reachable :: "'w cworld \<Rightarrow> bool" where
  local: "dir = CONTINUE_SOURCE \<or> dir = CONTINUE_SINK \<Longrightarrow>
     reachable (exec Init (DSchedContinueLocal env sid sub dir cb info acc))"
| remote: "reachable (exec Init (DSchedContinueRemote env sid cmd session acc))"
| step: "reachable w \<Longrightarrow> cstep w w' \<Longrightarrow> reachable w'"

end
