(* ===== verification/Continue_Evolution.thy ===== *)
theory Continue_Evolution
  imports Continue_Machine "HOL-Library.Sublist"
begin

text \<open>
  What an operation of a continuation may change. \<open>evolves f\<close> relates the object before and after:
  direction, kind, account and key stay, calls and events are only added, the mission callback is
  called at most once in a life, and the state machine either stays or moves to one of the states
  \<open>f d\<close>, where \<open>d\<close> is the object's direction. The relation is an interpretation of \<open>effect_order\<close>,
  whose lemmas carry the bound through every program.
\<close>

definition info_key :: "continue_info \<Rightarrow> string \<times> string \<times> string \<times> string \<times> string" where
  "info_key i = (sourceDeviceId i, sourceBundleName i, sinkDeviceId i, sinkBundleName i, continueType i)"

fun is_mission_callback :: "'w continue_call \<Rightarrow> bool" where
  "is_mission_callback (CallMissionCallback cb r) = True"
| "is_mission_callback _ = False"

text \<open>Callbacks made plus callbacks that can still be made.\<close>

definition callbacks :: "'w cworld \<Rightarrow> nat" where
  "callbacks w = length (filter is_mission_callback (calls w)) + (if callback w = None then 0 else 1)"

definition evolves :: "(int \<Rightarrow> continue_state set) \<Rightarrow> 'w cworld \<Rightarrow> 'w cworld \<Rightarrow> bool" where
  "evolves f w w' \<longleftrightarrow>
     direction w' = direction w \<and> subServiceType w' = subServiceType w \<and> accountId w' = accountId w \<and>
     eventHandler w' = eventHandler w \<and> info_key (continueInfo w') = info_key (continueInfo w) \<and>
     prefix (calls w) (calls w') \<and> prefix (queue w) (queue w') \<and> callbacks w' \<le> callbacks w \<and>
     (machine w' = machine w \<or> machine w \<noteq> None \<and> (\<exists>st \<in> f (direction w). machine w' = Some st))"

interpretation ev: effect_order "evolves f" for f
proof
  show "evolves f s s" for s :: "'w cworld"
    by (simp add: evolves_def)
  show "evolves f s s''" if "evolves f s s'" "evolves f s' s''" for s s' s'' :: "'w cworld"
    using that unfolding evolves_def by (auto intro: prefix_order.trans) (metis+)
qed

lemma evolves_mono: "evolves f w w' \<Longrightarrow> (\<And>d. f d \<subseteq> g d) \<Longrightarrow> evolves g w w'"
  unfolding evolves_def by blast

lemma evolves_direction: "evolves f w w' \<Longrightarrow> direction w' = direction w"
  by (simp add: evolves_def)

subsection \<open>Primitive updates\<close>

named_theorems evolving \<open>programs bounded by the relation\<close>

lemma ev_call [evolving]: "\<not> is_mission_callback c \<Longrightarrow> keeps (evolves f) (call c)"
  unfolding call_def by (rule keeps_update) (simp add: evolves_def callbacks_def)

lemma ev_updInfo [evolving]: "(\<And>i. info_key (g i) = info_key i) \<Longrightarrow> keeps (evolves f) (updInfo g)"
  unfolding updInfo_def by (rule keeps_update) (simp add: evolves_def callbacks_def)

lemma ev_upd_quiet [evolving]:
  "keeps (evolves f) (mupd (\<lambda>w. w\<lparr>sceneSessionId := sid\<rparr>))"
  "keeps (evolves f) (mupd (\<lambda>w. w\<lparr>softbusSessionId := ses\<rparr>))"
  "keeps (evolves f) (mupd (\<lambda>w. w\<lparr>isSourceExit := b\<rparr>))"
  "keeps (evolves f) (mupd (\<lambda>w. w\<lparr>eventData := g w\<rparr>))"
  by (rule keeps_update, simp add: evolves_def callbacks_def)+

lemma evolves_queue: "evolves f w (w\<lparr>queue := queue w @ es\<rparr>)"
  by (simp add: evolves_def callbacks_def)

lemma ev_UpdateState [evolving]: "(\<And>d. st \<in> f d) \<Longrightarrow> keeps (evolves f) (UpdateState st)"
  unfolding UpdateState_def by (rule keeps_update) (auto simp: evolves_def callbacks_def)

lemma evolves_UpdateState: "st \<in> f (direction w) \<Longrightarrow> evolves f w (exec (UpdateState st) w)"
  unfolding UpdateState_def by (auto simp: evolves_def callbacks_def)

lemma ev_post [evolving]: "keeps (evolves f) (post env e)"
  unfolding post_def by (auto simp: keeps_def evolves_queue ev.refl)

lemma ev_OnContinueEnd [evolving]: "keeps (evolves f) (OnContinueEnd env r)"
  unfolding post_defs by (rule ev_post)

lemma ev_PostContinueEndTask [evolving]: "keeps (evolves f) (PostContinueEndTask env r)"
  unfolding post_defs by (rule ev_post)

subsection \<open>Programs that do not move the machine\<close>

lemma ev_SendCommand [evolving]: "keeps (evolves f) (SendCommand env cmd)"
  unfolding SendCommand_def by (intro ev.keeps_rules evolving) simp

lemma ev_Pack [evolving]:
  "keeps (evolves f) (PackStartCmd env params)"
  "keeps (evolves f) (PackDataCmd env want ci ai)"
  "keeps (evolves f) (PackReplyCmd c v r t)"
  "keeps (evolves f) (PackEndCmd r)"
  unfolding PackStartCmd_def PackDataCmd_def PackReplyCmd_def PackEndCmd_def
  by (intro ev.keeps_rules evolving)+

lemma ev_StartAbility [evolving]: "keeps (evolves f) (StartAbility env want rc)"
  unfolding StartAbility_def by (intro ev.keeps_rules evolving) (simp_all add: info_key_def)

lemma ev_QuickStartAbility [evolving]: "keeps (evolves f) (QuickStartAbility env)"
  unfolding QuickStartAbility_def by (intro ev.keeps_rules evolving) (simp add: info_key_def)

lemma ev_notify_quick_start [evolving]: "keeps (evolves f) (notify_quick_start env st msg)"
  unfolding notify_quick_start_def by (intro ev.keeps_rules evolving) simp

lemma ev_QuickStartState [evolving]:
  "keeps (evolves f) (ExecuteQuickStartSuccess env)"
  "keeps (evolves f) (ExecuteQuickStartFailed env r)"
  unfolding ExecuteQuickStartSuccess_def ExecuteQuickStartFailed_def by (rule ev_notify_quick_start)+

lemma ev_GetMissionIdByBundleName [evolving]: "keeps (evolves f) (GetMissionIdByBundleName env)"
  unfolding GetMissionIdByBundleName_def by (intro ev.keeps_rules evolving) (simp add: info_key_def)

lemma ev_SetCleanMissionFlag [evolving]: "keeps (evolves f) (SetCleanMissionFlag env want)"
  unfolding SetCleanMissionFlag_def by (intro ev.keeps_rules evolving)

lemma ev_prepared_window [evolving]: "keeps (evolves f) (prepared_window env want)"
  unfolding prepared_window_def by (intro ev.keeps_rules evolving) (simp add: info_key_def)

lemma ev_NotifyContinuationCallbackResult [evolving]: "keeps (evolves f) (NotifyContinuationCallbackResult env r)"
  unfolding NotifyContinuationCallbackResult_def
  by (rule ev.keeps_getI) (auto simp: call_def evolves_def callbacks_def split: option.split)

lemma ev_NotifyDSchedEventResult [evolving]: "keeps (evolves f) (NotifyDSchedEventResult r)"
  unfolding NotifyDSchedEventResult_def by (intro ev.keeps_rules evolving) simp

lemma ev_ExecuteContinueEnd [evolving]: "keeps (evolves f) (ExecuteContinueEnd env r)"
  unfolding ExecuteContinueEnd_def by (intro ev.keeps_rules evolving) simp_all

subsection \<open>Programs that move the machine\<close>

definition sink_data :: "int \<Rightarrow> continue_state set" where
  "sink_data d = (if d = CONTINUE_SINK then {DATA_STATE} else {})"

definition end_state :: "int \<Rightarrow> continue_state" where
  "end_state d = (if d = CONTINUE_SOURCE then SOURCE_END_STATE else SINK_END_STATE)"

definition complete_state :: "int \<Rightarrow> continue_state" where
  "complete_state d = (if d = CONTINUE_SINK then SINK_END_STATE else SOURCE_END_STATE)"

lemma ev_UpdateState_sink:
  "keeps (evolves sink_data) (do {
     w \<leftarrow> mget; (if direction w = CONTINUE_SINK then UpdateState DATA_STATE else mreturn ()); mreturn r })"
  by (rule ev.keeps_getI) (auto intro!: evolves_UpdateState simp: sink_data_def ev.refl)

lemma ev_ExecuteContinueReq [evolving]: "keeps (evolves sink_data) (ExecuteContinueReq env params)"
  unfolding ExecuteContinueReq_def by (intro ev_UpdateState_sink ev.keeps_rules evolving) simp

lemma ev_ExecuteContinueAbility [evolving]: "keeps (evolves (\<lambda>_. {ABILITY_STATE})) (ExecuteContinueAbility env v)"
  unfolding ExecuteContinueAbility_def by (intro ev.keeps_rules evolving) simp_all

lemma ev_ExecuteContinueReply [evolving]: "keeps (evolves (\<lambda>_. {DATA_STATE})) (ExecuteContinueReply env)"
  unfolding ExecuteContinueReply_def by (intro ev.keeps_rules evolving) simp

lemma ev_ExecuteContinueSend [evolving]: "keeps (evolves (\<lambda>_. {SOURCE_WAIT_END_STATE})) (ExecuteContinueSend env data)"
  unfolding ExecuteContinueSend_def by (intro ev.keeps_rules evolving) simp

lemma ev_ExecuteContinueData [evolving]: "keeps (evolves (\<lambda>_. {SINK_WAIT_END_STATE})) (ExecuteContinueData env cmd)"
  unfolding ExecuteContinueData_def by (intro ev.keeps_rules evolving) simp

lemmas at_evolving = ev.at_rules evolves_UpdateState keepsD [OF ev_PostContinueEndTask] keepsD [OF ev_OnContinueEnd]
  keepsD [OF ev_SendCommand] keepsD [OF ev_Pack(3)] keepsD [OF ev_Pack(4)]

lemma ev_ExecuteNotifyComplete [evolving]: "keeps (evolves (\<lambda>d. {complete_state d})) (ExecuteNotifyComplete env r)"
  unfolding ExecuteNotifyComplete_def
  by (intro ev.keeps_getI at_evolving) (auto simp: complete_state_def evolves_direction)

lemma ev_UpdateState_end:
  "keeps (evolves (\<lambda>d. {end_state d})) (do {
     w \<leftarrow> mget; UpdateState (if direction w = CONTINUE_SOURCE then SOURCE_END_STATE else SINK_END_STATE);
     OnContinueEnd env r; mreturn x })"
  by (intro ev.keeps_getI at_evolving) (auto simp: end_state_def)

lemma ev_ExecuteContinueError [evolving]: "keeps (evolves (\<lambda>d. {end_state d})) (ExecuteContinueError env r)"
  unfolding ExecuteContinueError_def by (intro ev_UpdateState_end ev.keeps_rules evolving)

subsection \<open>What the end does\<close>

definition end_event_data :: "ret \<Rightarrow> 'w cworld \<Rightarrow> event_notify" where
  "end_event_data r w = (eventData w)\<lparr>eventState := (if r \<noteq> ERR_OK then DMS_DSCHED_EVENT_STOP else DMS_DSCHED_EVENT_FINISH)\<rparr>"

definition callback_delivered :: "'w continue_env \<Rightarrow> 'w cworld \<Rightarrow> nat option" where
  "callback_delivered env w = (if writeInterfaceToken env \<and> writeInt32 env then callback w else None)"

definition end_calls :: "'w continue_env \<Rightarrow> ret \<Rightarrow> 'w cworld \<Rightarrow> 'w continue_call list" where
  "end_calls env r w =
     (if isInitiator w then [CallDisconnectDevice (peerDevice w)] else []) @
     (if r = ERR_OK \<and> direction w = CONTINUE_SOURCE \<and> isSourceExit w
      then [CallCleanMission (missionId (continueInfo w))] else []) @
     (case callback_delivered env w of None \<Rightarrow> [] | Some cb \<Rightarrow> [CallMissionCallback cb (ConvertToDmsSdkErr env r)]) @
     [CallDSchedEventCallback (if r = ERR_OK then ERR_OK else NOTIFYCOMPLETECONTINUATION_FAILED) (end_event_data r w),
      CallManagerOnContinueEnd (continueInfo w)]"

lemma exec_ExecuteContinueEnd:
  "exec (ExecuteContinueEnd env r) w =
     w\<lparr>eventData := end_event_data r w, calls := calls w @ end_calls env r w,
       callback := (if callback_delivered env w = None then callback w else None)\<rparr>"
  by (cases "callback w")
    (auto simp: ExecuteContinueEnd_def NotifyContinuationCallbackResult_def NotifyDSchedEventResult_def call_def
      end_calls_def end_event_data_def callback_delivered_def)

lemma outcome_ExecuteContinueEnd [simp]: "outcome (ExecuteContinueEnd env r) w = ERR_OK"
  by (simp add: ExecuteContinueEnd_def)

end
