(* ===== verification/Continue_Sample.thy ===== *)
theory Continue_Sample
  imports Continue_Machine
begin

text \<open>
  A concrete instance of the parameters of the continuation model: wants as records, and services
  that all succeed, for two devices \<open>A\<close> and \<open>B\<close>. It shows that the assumptions of the theorems about
  continuations can hold together, and evaluates them.
\<close>

record sample_want =
  swDevice :: string
  swBundle :: string
  swAbility :: string
  swModule :: string
  swFlags :: u32
  swInts :: "(string \<times> int) list"
  swTexts :: "(string \<times> string) list"
  swBools :: "(string \<times> bool) list"

definition sample_empty_want :: sample_want where
  "sample_empty_want = \<lparr>swDevice = '''', swBundle = '''', swAbility = '''', swModule = '''', swFlags = 0,
     swInts = [], swTexts = [], swBools = []\<rparr>"

definition sample_wapi :: "sample_want want_api" where
  "sample_wapi =
     \<lparr>emptyWant = sample_empty_want,
      GetFlags = swFlags,
      SetFlags = (\<lambda>fl w. w\<lparr>swFlags := fl\<rparr>),
      GetBundle = swBundle,
      SetBundle = (\<lambda>b w. w\<lparr>swBundle := b\<rparr>),
      GetModuleName = swModule,
      GetElementDeviceID = swDevice,
      GetElementBundleName = swBundle,
      GetElementAbilityName = swAbility,
      SetElementName2 = (\<lambda>b a w. w\<lparr>swBundle := b, swAbility := a\<rparr>),
      SetElementName3 = (\<lambda>d b a w. w\<lparr>swDevice := d, swBundle := b, swAbility := a, swModule := ''''\<rparr>),
      SetElementName4 = (\<lambda>d b a m w. w\<lparr>swDevice := d, swBundle := b, swAbility := a, swModule := m\<rparr>),
      GetBoolParam = (\<lambda>k dflt w. case map_of (swBools w) k of None \<Rightarrow> dflt | Some v \<Rightarrow> v),
      GetStringParam = (\<lambda>k w. case map_of (swTexts w) k of None \<Rightarrow> '''' | Some v \<Rightarrow> v),
      QueryBoolean = (\<lambda>k w. map_of (swBools w) k),
      SetParamInt = (\<lambda>k v w. w\<lparr>swInts := (k, v) # swInts w\<rparr>),
      SetParamString = (\<lambda>k v w. w\<lparr>swTexts := (k, v) # swTexts w\<rparr>),
      SetParamBool = (\<lambda>k v w. w\<lparr>swBools := (k, v) # swBools w\<rparr>),
      RemoveParam = (\<lambda>k w. w\<lparr>swBools := filter (\<lambda>p. fst p \<noteq> k) (swBools w)\<rparr>),
      FLAG_ABILITY_CONTINUATION = 8,
      FLAG_ABILITY_PREPARE_CONTINUATION = 128,
      PARAM_MODULE_NAME = ''module'',
      PARAM_APP_CLONE_INDEX_KEY = ''clone''\<rparr>"

definition sample_scene :: scene_env where
  "sample_scene = \<lparr>isSceneBoardEnabled = True, sceneManagerProxy = True, sessionPoll = (\<lambda>_ _. Some 7),
     stringHash = id, timeStamp = ''t''\<rparr>"

definition sample_account :: account_info where
  "sample_account = \<lparr>accountType = 0, groupIdList = [], activeAccountId = '''', userId = 100\<rparr>"

definition sample_continue_env :: "string \<Rightarrow> sample_want continue_env" where
  "sample_continue_env dev =
     \<lparr>wapi = sample_wapi, sceneEnv = sample_scene, hotspotErrs = [1], busyErrs = [2],
      supportDistributedMissionManager = True,
      getContinueEventInfo = (\<lambda>d b t. \<lparr>evNetworkId = d, evBundleName = b, evModuleName = ''m'', evAbilityName = ''a'',
        evDeveloperId = ''dev''\<rparr>),
      sendEvent = (\<lambda>_. True), sharedWantParams = Some, connectDevice = (\<lambda>_ _. (ERR_OK, 5)),
      getAbilityName = (\<lambda>_ _ _. ''Main''), getLocalBundleInfo = (\<lambda>_. (ERR_OK, \<lparr>versionCode = 3, abilityNames = [''Main'']\<rparr>)),
      getLocalBundleInfoV9 = (\<lambda>_. (ERR_OK, \<lparr>versionCode = 3, abilityNames = [''Main'']\<rparr>)),
      condGetMissionIdByBundleName = (\<lambda>_ _ _. (ERR_OK, 11)), checkBundleContinueConfig = (\<lambda>_. True),
      getMissionInfo = (\<lambda>_. (ERR_OK, \<lparr>missionBundle = ''app'', missionContinueActive = True\<rparr>)),
      amsContinueAbility = (\<lambda>_ _ _. ERR_OK), getCallerAppIdFromBms = (\<lambda>_. Some ''id''),
      getBundleNameListFromBms = (\<lambda>_. Some [''app'']), getAccountInfo = (\<lambda>_ _. (ERR_OK, sample_account)),
      saveDataTime = ''1'', provisionDeveloperId = (\<lambda>_. ''dev''), isSameDeveloperId = (\<lambda>_ _. True),
      checkTargetPermission = (\<lambda>w _ _. (ERR_OK, w)), checkTargetPermission4DiffBundle = (\<lambda>w _ _. (ERR_OK, w)),
      storageLocalDeviceId = Some dev, getDistributedBundleInfo = (\<lambda>_ _. None),
      abilityStateByPersistentId = (\<lambda>_ _. (ERR_OK, True)), amsConnect = ERR_OK, amsStartAbility = (\<lambda>_ _ _. ERR_OK),
      marshalCmd = (\<lambda>_. (ERR_OK, [123, 125])), adapterSendData = (\<lambda>_ _. ERR_OK),
      writeInterfaceToken = True, writeInt32 = True\<rparr>"

definition sample_info :: continue_info where
  "sample_info = DSchedContinueInfo5 ''A'' ''app'' ''B'' ''app'' ''t''"

definition sample_source :: "sample_want cworld" where
  "sample_source = exec Init
     (DSchedContinueLocal (sample_continue_env ''A'') '''' CONTINUE_PUSH CONTINUE_SOURCE 1 sample_info 100)"

lemma sample_source_reachable [simp]: "reachable sample_source"
  unfolding sample_source_def by (rule reachable.local) simp

lemmas sample_env_simps = sample_continue_env_def sample_wapi_def sample_scene_def sample_account_def sample_info_def
  sample_empty_want_def DSchedContinueInfo5_def

lemma sample_source_eq:
  "sample_source =
     \<lparr>version = 1, subServiceType = CONTINUE_PUSH, continueByType = 1, direction = CONTINUE_SOURCE,
      continueInfo = sample_info, isSourceExit = True, softbusSessionId = -1, callback = Some 1,
      eventData = continue_event_data (sample_continue_env ''A'') sample_info, accountId = 100,
      machine = Some SOURCE_START_STATE, eventHandler = True, queue = [], sceneSessionId = '''',
      calls = [CallDSchedEventCallback 0 (continue_event_data (sample_continue_env ''A'') sample_info)]\<rparr>"
  by (simp add: sample_source_def Init_def DSchedContinueLocal_def new_object_def SetEventData_def
      NotifyDSchedEventResult_def call_def DSCHED_CONTINUE_PROTOCOL_VERSION_def sample_info_def DSchedContinueInfo5_def)

definition sample_base :: "int \<Rightarrow> cmd_base" where
  "sample_base command = \<lparr>cmdVersion = 1, cmdServiceType = 0, cmdSubServiceType = CONTINUE_PUSH, cmdCommand = command,
     cmdSrcDeviceId = ''A'', cmdSrcBundleName = ''app'', cmdSrcDeveloperId = ''dev'', cmdDstDeviceId = ''B'',
     cmdDstBundleName = ''app'', cmdDstDeveloperId = '''', cmdContinueType = ''t'', cmdContinueByType = 1,
     cmdSourceMissionId = 11, cmdDmsVersion = DMS_VERSION\<rparr>"

definition sample_start :: start_cmd where
  "sample_start = cmd_base.extend (sample_base DSCHED_CONTINUE_CMD_START) (start_cmd.fields CONTINUE_SOURCE 3 0)"

definition sample_data :: "sample_want data_cmd" where
  "sample_data = cmd_base.extend (sample_base DSCHED_CONTINUE_CMD_DATA)
     (data_cmd.fields (sample_empty_want\<lparr>swDevice := ''B'', swFlags := 8\<rparr>) (-1)
       (caller_info_default\<lparr>callerSourceDeviceId := ''A''\<rparr>) sample_account)"

definition sample_reply :: "int \<Rightarrow> reply_cmd" where
  "sample_reply c = cmd_base.extend (sample_base DSCHED_CONTINUE_CMD_REPLY) (reply_cmd.fields c 3 0 '''')"

definition sample_end :: end_cmd where
  "sample_end = cmd_base.extend (sample_base DSCHED_CONTINUE_CMD_END) (end_cmd.fields 0)"

definition sample_parser :: "int \<Rightarrow> sample_want cmd_parser" where
  "sample_parser c = \<lparr>unmarshalStart = (\<lambda>_. (ERR_OK, sample_start)), unmarshalData = (\<lambda>_. (ERR_OK, sample_data)),
     unmarshalReply = (\<lambda>_. (ERR_OK, sample_reply c)),
     unmarshalEnd = (\<lambda>_. (ERR_OK, sample_end))\<rparr>"

lemmas sample_cmds = sample_base_def sample_start_def sample_data_def sample_reply_def sample_end_def sample_parser_def

definition sample_ability :: dms_ability_info where
  "sample_ability = \<lparr>dmsAbilityName = ''Main'', dmsContinueTypes = [''t_ContinueQuickStart''], dmsModuleName = ''entry'',
     dmsContinueBundleNames = [''app'']\<rparr>"

definition sample_sink :: "sample_want cworld" where
  "sample_sink = (exec Init (DSchedContinueRemote (sample_continue_env ''B'') '''' sample_start 5 100))\<lparr>machine := Some DATA_STATE\<rparr>"

end
