(* ===== verification/Continue_Safety.thy ===== *)
theory Continue_Safety
  imports Continue_Evolution Continue_Sample
begin

text \<open>
  The safety of the continuation state machine: which states an object of each direction can be in
  and in which order, what happens to an event that fails or does not fit, how often the caller is
  told the result, and what has been checked before an ability is started.
\<close>

fun is_source_state :: "continue_state \<Rightarrow> bool" where
  "is_source_state SOURCE_START_STATE = True"
| "is_source_state ABILITY_STATE = True"
| "is_source_state SOURCE_WAIT_END_STATE = True"
| "is_source_state SOURCE_END_STATE = True"
| "is_source_state _ = False"

fun stage :: "continue_state \<Rightarrow> nat" where
  "stage SOURCE_START_STATE = 0"
| "stage SINK_START_STATE = 0"
| "stage ABILITY_STATE = 1"
| "stage DATA_STATE = 1"
| "stage SOURCE_WAIT_END_STATE = 2"
| "stage SINK_WAIT_END_STATE = 2"
| "stage SOURCE_END_STATE = 3"
| "stage SINK_END_STATE = 3"

fun successors :: "continue_state \<Rightarrow> int \<Rightarrow> continue_state set" where
  "successors SOURCE_START_STATE d = {ABILITY_STATE, end_state d} \<union> sink_data d"
| "successors ABILITY_STATE d = {SOURCE_WAIT_END_STATE, end_state d}"
| "successors SOURCE_WAIT_END_STATE d = {complete_state d, end_state d}"
| "successors SINK_START_STATE d = {DATA_STATE, end_state d} \<union> sink_data d"
| "successors DATA_STATE d = {SINK_WAIT_END_STATE, end_state d}"
| "successors SINK_WAIT_END_STATE d = {complete_state d, end_state d}"
| "successors _ d = {}"

lemma keeps_evolves_mono: "keeps (evolves f) m \<Longrightarrow> (\<And>d. f d \<subseteq> g d) \<Longrightarrow> keeps (evolves g) m"
  by (rule keeps_mono [of "evolves f"]) (auto intro: evolves_mono)

lemma ev_state_execute: "keeps (evolves (successors st)) (state_execute env st e)"
proof (cases st; cases e)
qed (simp_all, (intro ev.keeps_rules evolving | rule keeps_evolves_mono, rule evolving, force)+)

subsection \<open>One step of an object\<close>

definition well_placed :: "'w cworld \<Rightarrow> bool" where
  "well_placed w \<longleftrightarrow>
     (direction w = CONTINUE_SOURCE \<or> direction w = CONTINUE_SINK) \<and> eventHandler w \<and>
     (\<exists>st. machine w = Some st \<and> (is_source_state st \<longleftrightarrow> direction w = CONTINUE_SOURCE))"

definition machine_stage :: "'w cworld \<Rightarrow> nat" where
  "machine_stage w = (case machine w of None \<Rightarrow> 0 | Some st \<Rightarrow> stage st)"

definition advances :: "'w cworld \<Rightarrow> 'w cworld \<Rightarrow> bool" where
  "advances w w' \<longleftrightarrow>
     direction w' = direction w \<and> subServiceType w' = subServiceType w \<and> accountId w' = accountId w \<and>
     info_key (continueInfo w') = info_key (continueInfo w) \<and> prefix (calls w) (calls w') \<and>
     callbacks w' \<le> callbacks w \<and>
     (well_placed w \<longrightarrow> well_placed w' \<and> machine_stage w \<le> machine_stage w')"

interpretation adv: effect_order advances
proof
  show "advances s s" for s :: "'w cworld"
    by (simp add: advances_def)
  show "advances s s''" if "advances s s'" "advances s' s''" for s s' s'' :: "'w cworld"
    using that unfolding advances_def by (auto intro: prefix_order.trans le_trans)
qed

lemma successor_placed:
  assumes "st' \<in> successors st d" "d = CONTINUE_SOURCE \<or> d = CONTINUE_SINK"
    and "is_source_state st \<longleftrightarrow> d = CONTINUE_SOURCE"
  shows "is_source_state st' \<longleftrightarrow> d = CONTINUE_SOURCE" and "stage st \<le> stage st'"
  using assms
  by (cases st; auto simp: end_state_def complete_state_def sink_data_def continue_kinds split: if_splits)+

lemma evolves_advances:
  assumes "evolves (successors st) w w'" "machine w = Some st"
  shows "advances w w'"
proof -
  have "well_placed w' \<and> machine_stage w \<le> machine_stage w'" if placed: "well_placed w"
  proof (cases "machine w' = machine w")
    case True
    with assms placed show ?thesis
      by (simp add: evolves_def well_placed_def machine_stage_def)
  next
    case False
    with assms obtain st' where st': "st' \<in> successors st (direction w)" "machine w' = Some st'"
      by (auto simp: evolves_def)
    with successor_placed [OF st'(1)] placed assms show ?thesis
      by (auto simp: evolves_def well_placed_def machine_stage_def)
  qed
  with assms show ?thesis
    by (auto simp: advances_def evolves_def)
qed

lemma evolves_none_advances: "evolves (\<lambda>_. {}) w w' \<Longrightarrow> advances w w'"
  by (auto simp: advances_def evolves_def well_placed_def machine_stage_def)

lemma ProcessEvent_evolves:
  "machine w = Some st \<Longrightarrow> evolves (successors st) w (exec (ProcessEvent env e) w)"
  unfolding ProcessEvent_def machine_execute_def
  by (simp, intro conjI impI)
    (auto intro: keepsD [OF ev_state_execute] ev.trans keepsD [OF ev_OnContinueEnd])

lemma ProcessEvent_unset: "machine w = None \<Longrightarrow> exec (ProcessEvent env e) w = w"
  by (simp add: ProcessEvent_def)

lemma ProcessEvent_advances: "advances w (exec (ProcessEvent env e) w)"
  by (cases "machine w") (auto simp: ProcessEvent_unset adv.refl intro: evolves_advances ProcessEvent_evolves)

lemma advances_queue: "advances w (w\<lparr>queue := q\<rparr>)"
  by (simp add: advances_def callbacks_def well_placed_def machine_stage_def)

lemma exec_run_event:
  "exec (run_event env) w = (case queue w of [] \<Rightarrow> w | e # q \<Rightarrow> exec (ProcessEvent env e) (w\<lparr>queue := q\<rparr>))"
  by (simp add: run_event_def split: list.split)

lemma run_event_advances: "advances w (exec (run_event env) w)"
  by (auto simp: exec_run_event adv.refl intro: adv.trans advances_queue ProcessEvent_advances split: list.split)

lemma ev_posts [evolving]:
  "keeps (evolves f) (OnContinueMission env params)"
  "keeps (evolves f) (OnStartCmd env v)"
  "keeps (evolves f) (OnReplyCmd env rc)"
  "keeps (evolves f) (OnStartContinuation env want uid status token)"
  "keeps (evolves f) (OnContinueDataCmd env dc)"
  "keeps (evolves f) (OnNotifyComplete env mid success)"
  "keeps (evolves f) (OnContinueEndCmd env ec)"
  unfolding post_defs by (intro ev.keeps_rules ev_post)+

lemma ev_recv_command [evolving]: "keeps (evolves f) (recv_command p env c txt)"
  unfolding recv_command_def by (intro ev.keeps_rules evolving)

lemma ev_OnDataRecv: "keeps (evolves f) (OnDataRecv p env c b)"
  unfolding OnDataRecv_def by (cases "buffer_text b") (simp_all, (intro ev.keeps_rules evolving)+)

lemma cstep_advances: "cstep w w' \<Longrightarrow> advances w w'"
proof (induction rule: cstep.induct)
  case (runner w env)
  then show ?case by (simp add: run_event_advances)
next
  case (scene_changed w sid)
  then show ?case
    by (simp add: advances_def callbacks_def well_placed_def machine_stage_def)
qed (rule evolves_none_advances, rule keepsD, rule ev_posts ev_OnDataRecv ev_OnContinueEnd)+

lemma cstep_star_advances: "cstep\<^sup>*\<^sup>* w w' \<Longrightarrow> advances w w'"
  by (induction rule: rtranclp_induct) (auto intro: adv.refl adv.trans cstep_advances)

subsection \<open>Reachable objects\<close>

lemma exec_Init:
  "\<not> eventHandler w \<Longrightarrow> exec Init w =
     w\<lparr>machine := Some (if direction w = CONTINUE_SOURCE then SOURCE_START_STATE else SINK_START_STATE),
       eventHandler := True\<rparr>"
  by (simp add: Init_def)

lemma constructed:
  "well_placed (exec Init (DSchedContinueRemote env sid cmd session acc))"
  "callbacks (exec Init (DSchedContinueRemote env sid cmd session acc)) \<le> 1"
  "dir = CONTINUE_SOURCE \<or> dir = CONTINUE_SINK \<Longrightarrow> well_placed (exec Init (DSchedContinueLocal env sid sub dir cb info acc))"
  "callbacks (exec Init (DSchedContinueLocal env sid sub dir cb info acc)) \<le> 1"
  by (auto simp: DSchedContinueRemote_def DSchedContinueLocal_def new_object_def SetEventData_def NotifyDSchedEventResult_def
      call_def updInfo_def Init_def well_placed_def callbacks_def Let_def continue_kinds)

lemma reachable_invariant: "reachable w \<Longrightarrow> well_placed w \<and> callbacks w \<le> 1"
proof (induction rule: reachable.induct)
  case (step w w')
  then show ?case
    using cstep_advances [of w w'] by (auto simp: advances_def)
qed (simp_all only: constructed simp_thms)

text \<open>
  Every object that can come up is in a state of its own side: an object with direction
  source is in one of the four source states and an object with direction sink in one of the four
  sink states, whatever events, commands of the peer and answers of the other services it gets,
  in whatever order.
\<close>

theorem reachable_side:
  assumes "reachable w"
  shows "\<exists>st. machine w = Some st \<and>
     (direction w = CONTINUE_SOURCE \<and> st \<in> {SOURCE_START_STATE, ABILITY_STATE, SOURCE_WAIT_END_STATE, SOURCE_END_STATE} \<or>
      direction w = CONTINUE_SINK \<and> st \<in> {SINK_START_STATE, DATA_STATE, SINK_WAIT_END_STATE, SINK_END_STATE})"
proof -
  obtain st where "machine w = Some st" "is_source_state st \<longleftrightarrow> direction w = CONTINUE_SOURCE"
    "direction w = CONTINUE_SOURCE \<or> direction w = CONTINUE_SINK"
    using reachable_invariant [OF assms] by (auto simp: well_placed_def)
  then show ?thesis
    by (cases st) auto
qed

theorem reachable_side_witness:
  "machine sample_source = Some SOURCE_START_STATE \<and>
   (\<exists>st. machine sample_source = Some st \<and> st \<in> {SOURCE_START_STATE, ABILITY_STATE, SOURCE_WAIT_END_STATE, SOURCE_END_STATE})"
  using reachable_side [OF sample_source_reachable] by (simp add: sample_source_eq continue_kinds)

text \<open>
  C36: An object only moves forward: whatever happens to it later, its stage (start, ability or
  data, waiting for the end, end) never falls, so an object that has reached its end state stays
  there; its direction, its kind and the devices, bundles and type it is about never change.
\<close>

theorem stages_never_fall:
  assumes "reachable w" "cstep\<^sup>*\<^sup>* w w'"
  shows "machine_stage w \<le> machine_stage w' \<and> direction w' = direction w \<and> subServiceType w' = subServiceType w \<and>
     info_key (continueInfo w') = info_key (continueInfo w) \<and>
     (machine w = Some SOURCE_END_STATE \<or> machine w = Some SINK_END_STATE \<longrightarrow> machine w' = machine w)"
proof -
  have adv: "advances w w'" and placed: "well_placed w"
    using assms by (auto intro: cstep_star_advances dest: reachable_invariant)
  obtain st st' where st: "machine w = Some st" "machine w' = Some st'"
    "is_source_state st \<longleftrightarrow> direction w = CONTINUE_SOURCE" "is_source_state st' \<longleftrightarrow> direction w = CONTINUE_SOURCE"
    "stage st \<le> stage st'"
    using adv placed by (auto simp: advances_def well_placed_def machine_stage_def)
  then have "st = SOURCE_END_STATE \<or> st = SINK_END_STATE \<longrightarrow> st' = st"
    by (cases st') auto
  with adv st placed show ?thesis
    by (auto simp: advances_def)
qed

theorem stages_never_fall_witness:
  "direction (exec (OnContinueEnd (sample_continue_env ''A'') 5) sample_source) = CONTINUE_SOURCE"
  using stages_never_fall [OF sample_source_reachable r_into_rtranclp [where r = cstep, OF cstep.continue_end]]
  by (simp add: sample_source_eq)

text \<open>
  C4: The application that asked for a continuation is told its result at most once, however the
  continuation ends and however often its end is executed.
\<close>

theorem callback_once:
  "reachable w \<Longrightarrow> length (filter is_mission_callback (calls w)) \<le> 1"
  using reachable_invariant [of w] by (simp add: callbacks_def split: if_splits)

theorem callback_once_witness:
  "length (filter is_mission_callback (calls sample_source)) \<le> 1"
  by (rule callback_once) simp

end
