(* ===== verification/Continue_Liveness.thy ===== *)
theory Continue_Liveness
  imports Continue_Safety
begin

text \<open>
  Every continuation that is told to end does end, and a failed event tells it to: after finitely
  many turns of the event runner the manager has been told that the continuation is over. The only
  assumption is that the event runner accepts events.
\<close>

definition drain :: "'w continue_env \<Rightarrow> nat \<Rightarrow> 'w cworld \<Rightarrow> 'w cworld" where
  "drain env n w = (exec (run_event env) ^^ n) w"

definition manager_told :: "'w cworld \<Rightarrow> bool" where
  "manager_told w \<longleftrightarrow> (\<exists>i. CallManagerOnContinueEnd i \<in> set (calls w) \<and> info_key i = info_key (continueInfo w))"

lemma drain_0 [simp]: "drain env 0 w = w"
  by (simp add: drain_def)

lemma drain_Suc: "drain env (Suc n) w = drain env n (exec (run_event env) w)"
  by (simp add: drain_def funpow_swap1)

lemma drain_add: "drain env (m + n) w = drain env n (drain env m w)"
  by (simp add: drain_def funpow_add flip: add.commute [of n])

subsection \<open>The queue\<close>

lemma run_event_Cons:
  "queue w = e # q \<Longrightarrow> exec (run_event env) w = exec (ProcessEvent env e) (w\<lparr>queue := q\<rparr>)"
  by (simp add: exec_run_event)

lemma ProcessEvent_queue: "prefix (queue w) (queue (exec (ProcessEvent env e) w))"
proof (cases "machine w")
  case (Some st)
  then show ?thesis
    using ProcessEvent_evolves [of w st env e] by (simp add: evolves_def)
qed (simp add: ProcessEvent_unset)

text \<open>An event moves one place forward with every event handled before it.\<close>

lemma drain_reaches:
  "queue w = q1 @ e # q2 \<Longrightarrow>
     \<exists>q. queue (drain env (length q1) w) = e # q2 @ q \<and> advances w (drain env (length q1) w)"
proof (induction q1 arbitrary: w q2)
  case Nil
  then show ?case by (simp add: adv.refl)
next
  case (Cons a q1)
  let ?w = "exec (run_event env) w"
  obtain q where "queue ?w = q1 @ e # (q2 @ q)"
    using Cons.prems ProcessEvent_queue [of "w\<lparr>queue := q1 @ e # q2\<rparr>" env a]
    by (auto simp: run_event_Cons prefix_def)
  then obtain q' where "queue (drain env (length q1) ?w) = e # (q2 @ q) @ q'" "advances ?w (drain env (length q1) ?w)"
    using Cons.IH by blast
  then show ?case
    by (auto simp: drain_Suc intro: adv.trans run_event_advances)
qed

subsection \<open>The end event\<close>

lemma ExecuteContinueEnd_tells: "manager_told (exec (ExecuteContinueEnd env r) w)"
  by (auto simp: exec_ExecuteContinueEnd manager_told_def end_calls_def)

lemma manager_told_advances: "manager_told w \<Longrightarrow> advances w w' \<Longrightarrow> manager_told w'"
  by (auto simp: manager_told_def advances_def prefix_def)

definition runner_accepts :: "'w continue_env \<Rightarrow> bool" where
  "runner_accepts env \<longleftrightarrow> (\<forall>e. sendEvent env e)"

lemma exec_post [simp]:
  "eventHandler w \<Longrightarrow> runner_accepts env \<Longrightarrow> exec (post env e) w = w\<lparr>queue := queue w @ [e]\<rparr>"
  "eventHandler w \<Longrightarrow> runner_accepts env \<Longrightarrow> outcome (post env e) w = ERR_OK"
  by (simp_all add: post_def runner_accepts_def)

lemma exec_OnContinueEnd [simp]:
  "eventHandler w \<Longrightarrow> runner_accepts env \<Longrightarrow> exec (OnContinueEnd env r) w = w\<lparr>queue := queue w @ [END_EVENT r]\<rparr>"
  by (simp add: OnContinueEnd_def PostContinueEndTask_def)

lemma ExecuteContinueError_posts:
  assumes "eventHandler w" "runner_accepts env" "machine w \<noteq> None"
  shows "machine (exec (ExecuteContinueError env r) w) = Some (end_state (direction w))"
    and "END_EVENT r \<in> set (queue (exec (ExecuteContinueError env r) w))"
    and "outcome (ExecuteContinueError env r) w = ERR_OK"
proof -
  let ?cmd = "outcome (PackEndCmd r) w"
  define v where "v = exec (SendCommand env (EndCmd ?cmd)) w"
  have "evolves (\<lambda>_. {}) w v"
    unfolding v_def by (rule keepsD [OF ev_SendCommand])
  then have v: "eventHandler v" "machine v = machine w" "direction v = direction w"
    using assms by (auto simp: evolves_def)
  have "exec (PackEndCmd r) w = w"
    by (simp add: PackEndCmd_def)
  with v assms show "machine (exec (ExecuteContinueError env r) w) = Some (end_state (direction w))"
    "END_EVENT r \<in> set (queue (exec (ExecuteContinueError env r) w))"
    by (simp_all add: ExecuteContinueError_def UpdateState_def end_state_def flip: v_def)
  show "outcome (ExecuteContinueError env r) w = ERR_OK"
    by (simp add: ExecuteContinueError_def)
qed

lemma stage_end_state [simp]: "stage (end_state d) = 3"
  by (simp add: end_state_def)

lemma stage_ge_3: "3 \<le> stage st \<longleftrightarrow> stage st = 3"
  by (cases st) auto

lemma stage_3_cases: "stage st = 3 \<longleftrightarrow> st = SOURCE_END_STATE \<or> st = SINK_END_STATE"
  by (cases st) auto

text \<open>An end event handled in an end state is the end; in any other state it leads to the end state and comes again.\<close>

lemma END_in_end_state:
  assumes "machine w = Some st" "stage st = 3"
  shows "manager_told (exec (ProcessEvent env (END_EVENT r)) w)"
  using assms ExecuteContinueEnd_tells [of env r w]
  by (auto simp: ProcessEvent_def machine_execute_def stage_3_cases)

lemma END_before_end_state:
  assumes "eventHandler w" "runner_accepts env" "machine w = Some st" "stage st \<noteq> 3"
  shows "machine_stage (exec (ProcessEvent env (END_EVENT r)) w) = 3 \<and>
         END_EVENT r \<in> set (queue (exec (ProcessEvent env (END_EVENT r)) w))"
proof -
  let ?err = "exec (ExecuteContinueError env r) w"
  let ?w' = "exec (state_execute env st (END_EVENT r)) w"
  note posts = ExecuteContinueError_posts [of w env r]
  have "evolves (\<lambda>_. {}) ?err ?w'"
    using assms(4) posts(3) assms by (cases st) (auto simp: ev.refl intro: keepsD [OF ev_QuickStartState(2)])
  moreover have "outcome (state_execute env st (END_EVENT r)) w = ERR_OK"
    using assms(4) posts(3) assms by (cases st) auto
  ultimately show ?thesis
    using posts assms
    by (auto simp: ProcessEvent_def machine_execute_def machine_stage_def evolves_def prefix_def)
qed

lemma END_leads_to_manager_end:
  assumes "well_placed w" "machine_stage w = 3" "END_EVENT r \<in> set (queue w)"
  shows "\<exists>n. manager_told (drain env n w)"
proof -
  obtain q1 q2 where q: "queue w = q1 @ END_EVENT r # q2"
    using assms(3) by (auto simp: in_set_conv_decomp)
  obtain q where reached: "queue (drain env (length q1) w) = END_EVENT r # q2 @ q"
    and adv: "advances w (drain env (length q1) w)"
    using drain_reaches [OF q] by blast
  let ?v = "drain env (length q1) w"
  have "well_placed ?v" "3 \<le> machine_stage ?v"
    using adv assms by (auto simp: advances_def)
  then obtain st where "machine ?v = Some st" "stage st = 3"
    by (auto simp: well_placed_def machine_stage_def stage_ge_3)
  then have "manager_told (exec (ProcessEvent env (END_EVENT r)) (?v\<lparr>queue := q2 @ q\<rparr>))"
    by (intro END_in_end_state) auto
  then have "manager_told (drain env (length q1 + Suc 0) w)"
    by (simp only: drain_add drain_Suc drain_0 run_event_Cons [OF reached])
  then show ?thesis ..
qed

lemma END_leads_to_manager:
  assumes "well_placed w" "runner_accepts env" "END_EVENT r \<in> set (queue w)"
  shows "\<exists>n. manager_told (drain env n w)"
proof -
  obtain q1 q2 where q: "queue w = q1 @ END_EVENT r # q2"
    using assms(3) by (auto simp: in_set_conv_decomp)
  obtain q where reached: "queue (drain env (length q1) w) = END_EVENT r # q2 @ q"
    and adv: "advances w (drain env (length q1) w)"
    using drain_reaches [OF q] by blast
  let ?v = "drain env (length q1) w"
  have placed: "well_placed ?v"
    using adv assms by (simp add: advances_def)
  show ?thesis
  proof (cases "machine_stage ?v = 3")
    case True
    then obtain n where "manager_told (drain env n ?v)"
      using END_leads_to_manager_end [OF placed] reached by auto
    then show ?thesis
      by (metis drain_add)
  next
    case False
    let ?u = "?v\<lparr>queue := q2 @ q\<rparr>"
    let ?w' = "exec (ProcessEvent env (END_EVENT r)) ?u"
    obtain st where "machine ?u = Some st" "stage st \<noteq> 3" "eventHandler ?u"
      using placed False by (auto simp: well_placed_def machine_stage_def)
    from END_before_end_state [OF this(3) assms(2) this(1,2)]
    have "machine_stage ?w' = 3" "END_EVENT r \<in> set (queue ?w')"
      by auto
    moreover have "well_placed ?w'"
      using ProcessEvent_advances [of ?u env "END_EVENT r"] placed by (auto simp: advances_def well_placed_def)
    ultimately obtain n where "manager_told (drain env n ?w')"
      using END_leads_to_manager_end by blast
    then have "manager_told (drain env (length q1 + Suc n) w)"
      by (simp only: drain_add drain_Suc run_event_Cons [OF reached])
    then show ?thesis ..
  qed
qed

subsection \<open>Every continuation that is told to end ends\<close>

text \<open>
  C37: An event that fails, and an event that the state does not expect, ends the continuation:
  when the state machine answers an event of a reachable object with an error, the event runner
  comes, after finitely many events, to executing the end, which tells the manager that this
  continuation is over.
\<close>

theorem failed_event_ends:
  assumes "reachable w" "queue w = e # q" "runner_accepts env"
    and "outcome (machine_execute env e) (w\<lparr>queue := q\<rparr>) \<noteq> ERR_OK"
  shows "\<exists>n. manager_told (drain env n w)"
proof -
  let ?u = "w\<lparr>queue := q\<rparr>"
  let ?v = "exec (machine_execute env e) ?u"
  have placed: "well_placed ?u"
    using reachable_invariant [OF assms(1)] by (simp add: well_placed_def)
  then obtain st where st: "machine ?u = Some st"
    by (auto simp: well_placed_def)
  have "evolves (successors st) ?u ?v"
    using st by (simp add: machine_execute_def) (rule keepsD [OF ev_state_execute])
  then have "eventHandler ?v"
    using placed by (simp add: evolves_def well_placed_def)
  then have "END_EVENT (outcome (machine_execute env e) ?u) \<in> set (queue (exec (ProcessEvent env e) ?u))"
    using st assms(3,4) by (simp add: ProcessEvent_def)
  moreover have "well_placed (exec (ProcessEvent env e) ?u)"
    using ProcessEvent_advances [of ?u env e] placed by (simp add: advances_def)
  ultimately obtain n where "manager_told (drain env n (exec (run_event env) w))"
    using END_leads_to_manager [OF _ assms(3)] run_event_Cons [OF assms(2)] by metis
  then show ?thesis
    by (metis drain_Suc)
qed

text \<open>
  The time-out of a continuation, the loss of its session and the death of the sink ability
  end it: after \<^verbatim>\<open>OnContinueEnd\<close> on a reachable object, with any events waiting before, the runner
  comes to executing the end and the manager is told.
\<close>

theorem told_to_end_ends:
  assumes "reachable w" "runner_accepts env"
  shows "\<exists>n. manager_told (drain env n (exec (OnContinueEnd env result) w))"
proof (rule END_leads_to_manager [OF _ assms(2)])
  have "well_placed w"
    using reachable_invariant [OF assms(1)] by simp
  then show "well_placed (exec (OnContinueEnd env result) w)" "END_EVENT result \<in> set (queue (exec (OnContinueEnd env result) w))"
    using assms(2) by (simp_all add: well_placed_def)
qed

lemma sample_runner_accepts [simp]: "runner_accepts (sample_continue_env dev)"
  by (simp add: runner_accepts_def sample_continue_env_def)

theorem told_to_end_ends_witness:
  "\<exists>n. manager_told (drain (sample_continue_env ''A'') n (exec (OnContinueEnd (sample_continue_env ''A'') CONTINUE_ABILITY_TIMEOUT_ERR) sample_source))"
  by (rule told_to_end_ends) simp_all

text \<open>In the start state a send-data event does not fit.\<close>

theorem failed_event_ends_witness:
  "\<exists>n. manager_told (drain (sample_continue_env ''A'') n
     (exec (OnStartContinuation (sample_continue_env ''A'') sample_empty_want 1 ERR_OK 0) sample_source))"
proof (rule failed_event_ends [where q = "[]"])
  let ?w = "exec (OnStartContinuation (sample_continue_env ''A'') sample_empty_want 1 ERR_OK 0) sample_source"
  show "reachable ?w"
    by (rule reachable.step [OF sample_source_reachable cstep.start_continuation])
  show "queue ?w = [SEND_DATA_EVENT \<lparr>cadWant = sample_empty_want, cadCallerUid = 1, cadAccessToken = 0\<rparr>]"
    by (simp add: OnStartContinuation_def PostContinueSendTask_def sample_source_eq)
  show "outcome (machine_execute (sample_continue_env ''A'')
      (SEND_DATA_EVENT \<lparr>cadWant = sample_empty_want, cadCallerUid = 1, cadAccessToken = 0\<rparr>)) (?w\<lparr>queue := []\<rparr>) \<noteq> ERR_OK"
    by (simp add: OnStartContinuation_def PostContinueSendTask_def sample_source_eq machine_execute_def)
qed simp

end
