(* ===== verification/Continue_Checks.thy ===== *)
theory Continue_Checks
  imports Continue_Liveness
begin

text \<open>
  What single operations of a continuation compute: the checks before an ability is started, the
  choice of the sink ability, the quick-start suffix of a continue type, the error code the
  application gets, the wait for a prepared ability, and two places where the code does not do
  what it means to.
\<close>

subsection \<open>Which calls a program adds\<close>

definition adds :: "('w continue_call \<Rightarrow> bool) \<Rightarrow> 'w cworld \<Rightarrow> 'w cworld \<Rightarrow> bool" where
  "adds P w w' \<longleftrightarrow> (\<exists>cs. calls w' = calls w @ cs \<and> list_all P cs)"

interpretation ad: effect_order "adds P" for P :: "'w continue_call \<Rightarrow> bool"
proof
  show "adds P s s" for s :: "'w cworld"
    by (simp add: adds_def)
  show "adds P s s''" if "adds P s s'" "adds P s' s''" for s s' s'' :: "'w cworld"
    using that by (auto simp: adds_def)
qed

named_theorems adding \<open>calls the programs make\<close>

lemma ad_call [adding]: "P c \<Longrightarrow> keeps (adds P) (call c)"
  by (simp add: keeps_def call_def adds_def)

lemma ad_UpdateState [adding]: "keeps (adds P) (UpdateState st)"
  by (simp add: keeps_def UpdateState_def adds_def)

lemma ad_post [adding]: "keeps (adds P) (post env e)"
  by (simp add: keeps_def post_def adds_def)

lemma ad_OnContinueEnd [adding]: "keeps (adds P) (OnContinueEnd env r)"
  unfolding post_defs by (rule ad_post)

lemma ad_updInfo [adding]: "keeps (adds P) (updInfo g)"
  by (simp add: keeps_def updInfo_def adds_def)

lemma ad_SendCommand [adding]: "(\<And>sid b. P (CallSendData sid b)) \<Longrightarrow> keeps (adds P) (SendCommand env cmd)"
  unfolding SendCommand_def by (intro ad.keeps_rules adding)

lemma ad_ExecuteContinueError [adding]:
  "(\<And>sid b. P (CallSendData sid b)) \<Longrightarrow> keeps (adds P) (ExecuteContinueError env r)"
  unfolding ExecuteContinueError_def PackEndCmd_def by (intro ad.keeps_rules adding)

lemma ad_notify_quick_start [adding]:
  "(\<And>i st t. P (CallNotifyQuickStartState i st t)) \<Longrightarrow> keeps (adds P) (notify_quick_start env st msg)"
  unfolding notify_quick_start_def by (intro ad.keeps_rules adding)

lemma ad_QuickStart [adding]:
  "(\<And>i st t. P (CallNotifyQuickStartState i st t)) \<Longrightarrow> keeps (adds P) (ExecuteQuickStartSuccess env)"
  "(\<And>i st t. P (CallNotifyQuickStartState i st t)) \<Longrightarrow> keeps (adds P) (ExecuteQuickStartFailed env r)"
  unfolding ExecuteQuickStartSuccess_def ExecuteQuickStartFailed_def by (rule ad_notify_quick_start, simp)+

lemma ad_prepared_window [adding]: "keeps (adds P) (prepared_window env want)"
  unfolding prepared_window_def by (intro ad.keeps_rules adding)

subsection \<open>The checks before an ability is started\<close>

fun starts_ability :: "'w continue_call \<Rightarrow> bool" where
  "starts_ability (CallStartAbility want rc acc) = True"
| "starts_ability _ = False"

definition data_checked :: "'w continue_env \<Rightarrow> continue_info \<Rightarrow> 'w data_cmd \<Rightarrow> bool" where
  "data_checked env info cmd \<longleftrightarrow>
     (\<exists>localId. storageLocalDeviceId env = Some localId \<and> localId \<noteq> '''' \<and>
        GetElementDeviceID (wapi env) (dataWant cmd) = localId \<and>
        callerSourceDeviceId (dataCallerInfo cmd) = sourceDeviceId info \<and> sourceDeviceId info \<noteq> localId \<and>
        sourceDeviceId info \<noteq> '''' \<and>
        (if cmdSrcBundleName cmd = cmdDstBundleName cmd
         then fst (checkTargetPermission env (dataWant cmd) (dataCallerInfo cmd) (dataAccountInfo cmd)) = ERR_OK
         else isSameDeveloperId env (cmdDstBundleName cmd) (cmdSrcDeveloperId cmd) \<and>
              fst (checkTargetPermission4DiffBundle env (dataWant cmd) (dataCallerInfo cmd) (dataAccountInfo cmd)) = ERR_OK))"

lemma unchecked_data_refused:
  assumes "\<not> data_checked env (continueInfo w) (snd (UpdateElementInfo env cmd0))"
  shows "exec (ExecuteContinueData env cmd0) w = w" and "outcome (ExecuteContinueData env cmd0) w \<noteq> ERR_OK"
  using assms
  by (auto simp: ExecuteContinueData_def data_checked_def CheckDeviceIdFromRemote_def CheckStartPermission_def Let_def
      split: option.splits if_splits prod.splits)

lemma data_state_starts:
  assumes "list_ex starts_ability cs" "calls (exec (state_execute env DATA_STATE e) w) = calls w @ cs"
  shows "\<exists>cmd. e = DATA_EVENT cmd \<and> data_checked env (continueInfo w) (snd (UpdateElementInfo env cmd))"
proof (rule ccontr)
  assume other: "\<not> ?thesis"
  have failed: "adds (\<lambda>c. \<not> starts_ability c) v (exec (ExecuteQuickStartFailed env r) v)" for v r
    by (rule keepsD, rule ad_QuickStart) simp
  have "adds (\<lambda>c. \<not> starts_ability c) w (exec (state_execute env DATA_STATE e) w)"
  proof (cases e)
    case (DATA_EVENT cmd)
    with other have "exec (ExecuteContinueData env cmd) w = w"
      by (intro unchecked_data_refused) auto
    with DATA_EVENT show ?thesis
      by (simp add: keepsD [OF ad_QuickStart(1)])
  next
    case (COMPLETE_EVENT r)
    have "adds (\<lambda>c. \<not> starts_ability c) w (exec (ExecuteContinueEnd env r) w)"
      by (auto simp: exec_ExecuteContinueEnd adds_def end_calls_def split: option.split)
    with COMPLETE_EVENT show ?thesis
      by (auto intro: ad.trans [OF _ failed])
  next
    case (END_EVENT r)
    have "adds (\<lambda>c. \<not> starts_ability c) w (exec (ExecuteContinueError env r) w)"
      by (rule keepsD, rule ad_ExecuteContinueError) simp
    with END_EVENT show ?thesis
      by (auto intro: ad.trans [OF _ failed])
  qed (simp_all add: ad.refl)
  with assms show False
    by (auto simp: adds_def list_all_iff list_ex_iff)
qed

text \<open>
  A sink that waits for the data of a continuation starts an ability only for a data command
  that has passed every check: the local device is known and is the device the want is for, the
  caller is on the device the continuation comes from and not on the local one, and the caller's
  permission was confirmed, for two different bundles together with their common developer.
\<close>

theorem ability_started_only_checked:
  assumes "machine w = Some DATA_STATE" "calls (exec (ProcessEvent env e) w) = calls w @ cs" "CallStartAbility want rc acc \<in> set cs"
  shows "\<exists>cmd. e = DATA_EVENT cmd \<and> data_checked env (continueInfo w) (snd (UpdateElementInfo env cmd))"
proof (rule data_state_starts)
  show "calls (exec (state_execute env DATA_STATE e) w) = calls w @ cs"
    using assms(1,2) by (auto simp: ProcessEvent_def machine_execute_def post_def OnContinueEnd_def PostContinueEndTask_def
        split: if_splits)
  show "list_ex starts_ability cs"
    using assms(3) by (force simp: list_ex_iff)
qed

subsection \<open>The quick-start suffix\<close>

lemma ends_with_quick_start_iff: "ends_with_quick_start t \<longleftrightarrow> (\<exists>p. t = p @ QUICK_START_CONFIGURATION)"
proof
  assume "ends_with_quick_start t"
  then have "drop (length t - length QUICK_START_CONFIGURATION) t = QUICK_START_CONFIGURATION"
    by (auto simp: ends_with_quick_start_def dest: rfind_last_iff [THEN iffD1, rotated])
  then show "\<exists>p. t = p @ QUICK_START_CONFIGURATION"
    by (metis append_take_drop_id)
next
  assume "\<exists>p. t = p @ QUICK_START_CONFIGURATION"
  then show "ends_with_quick_start t"
    by (auto simp: ends_with_quick_start_def rfind_suffix)
qed

lemma before_quick_start_suffix: "before_quick_start (p @ QUICK_START_CONFIGURATION) = p"
  by (simp add: before_quick_start_def rfind_suffix)

text \<open>
  A continue type is a quick-start type exactly when it ends with the quick-start suffix;
  formatting it removes that suffix, once, and leaves every other type as it is; and the sink
  ability is looked up first without and then with the suffix, whichever of the two forms the
  continuation was given.
\<close>

theorem quick_start_types:
  "(CheckQuickStartConfiguration info \<longleftrightarrow> (\<exists>p. continueType info = p @ QUICK_START_CONFIGURATION)) \<and>
   ContinueTypeFormat (p @ QUICK_START_CONFIGURATION) = p \<and>
   (ContinueTypeFormat t = t \<longleftrightarrow> \<not> (\<exists>p. t = p @ QUICK_START_CONFIGURATION)) \<and>
   GetAbilityNameByContinueType env (info\<lparr>continueType := p @ QUICK_START_CONFIGURATION\<rparr>) =
     (if getAbilityName env (sinkDeviceId info) (sinkBundleName info) p \<noteq> ''''
      then getAbilityName env (sinkDeviceId info) (sinkBundleName info) p
      else getAbilityName env (sinkDeviceId info) (sinkBundleName info) (p @ QUICK_START_CONFIGURATION))"
proof -
  have check: "CheckQuickStartConfiguration i \<longleftrightarrow> ends_with_quick_start (continueType i)" for i
    by (auto simp: CheckQuickStartConfiguration_def ends_with_quick_start_def)
  have "p @ QUICK_START_CONFIGURATION \<noteq> p" for p
    by (simp add: QUICK_START_CONFIGURATION_def)
  then show ?thesis
    by (auto simp: check ends_with_quick_start_iff ContinueTypeFormat_def before_quick_start_suffix
        GetAbilityNameByContinueType_def Let_def)
qed

subsection \<open>The sink ability\<close>

definition takes_type :: "string \<Rightarrow> dms_ability_info \<Rightarrow> bool" where
  "takes_type t a \<longleftrightarrow> t \<in> ContinueTypeFormat ` set (dmsContinueTypes a)"

lemma FindSinkContinueAbilityInfo_spec:
  "FindSinkContinueAbilityInfo m t as result =
     (case find (\<lambda>a. takes_type t a \<and> dmsModuleName a = m) as of
        Some a \<Rightarrow> [a]
      | None \<Rightarrow> result @ filter (takes_type t) as)"
  by (induction as arbitrary: result)
    (auto simp: FindSinkContinueAbilityStep_def takes_type_def split: option.split)

text \<open>
  C38: The sink ability of a continuation is chosen as follows: among the abilities of the bundle
  that take the continue type, with or without the quick-start suffix, the first one of the
  source's module, or, when there is none, the first one of any module. When an ability takes the
  type the want is redirected to it, and otherwise the command is left alone.
\<close>

theorem sink_ability_choice:
  assumes "storageLocalDeviceId env = Some localId" "getDistributedBundleInfo env localId (cmdDstBundleName cmd) = Some as"
    and m: "m = (if GetModuleName (wapi env) (dataWant cmd) = '''' then GetStringParam (wapi env) (PARAM_MODULE_NAME (wapi env)) (dataWant cmd)
                 else GetModuleName (wapi env) (dataWant cmd))"
    and t: "t = ContinueTypeFormat (cmdContinueType cmd)"
  shows "UpdateElementInfo env cmd =
     (case find (\<lambda>a. takes_type t a \<and> dmsModuleName a = m) as of
        Some a \<Rightarrow> (ERR_OK, cmd\<lparr>dataWant := SetElementName4 (wapi env) (GetElementDeviceID (wapi env) (dataWant cmd))
            (cmdDstBundleName cmd) (dmsAbilityName a) m (dataWant cmd)\<rparr>)
      | None \<Rightarrow> (case find (takes_type t) as of
          Some a \<Rightarrow> (ERR_OK, cmd\<lparr>dataWant := SetElementName4 (wapi env) (GetElementDeviceID (wapi env) (dataWant cmd))
            (cmdDstBundleName cmd) (dmsAbilityName a) (dmsModuleName a) (dataWant cmd)\<rparr>)
        | None \<Rightarrow> (CAN_NOT_FOUND_MODULE_ERR, cmd)))"
proof -
  have first: "find P xs = (case filter P xs of [] \<Rightarrow> None | x # _ \<Rightarrow> Some x)" for P and xs :: "dms_ability_info list"
    by (induction xs) auto
  have module: "find (\<lambda>a. takes_type t a \<and> dmsModuleName a = m) as = Some a \<Longrightarrow> dmsModuleName a = m" for a
    by (auto simp: find_Some_iff)
  show ?thesis
    using assms(1,2) module
    by (auto simp: UpdateElementInfo_def FindSinkContinueAbilityInfo_spec first [of "takes_type t"] Let_def
        simp flip: m t split: option.split list.split)
qed

subsection \<open>The error the application gets\<close>

lemma map_of_map_const: "map_of (map (\<lambda>e. (e, c)) xs) k = (if k \<in> set xs then Some c else None)"
  by (induction xs) auto

lemma ConvertToDmsSdkErr_eq:
  "ConvertToDmsSdkErr env r =
     (if r = ERR_OK then ERR_OK
      else if r \<in> set (hotspotErrs env) \<or> r = ERROR_PEER_THREE_VAP_CONFLICT then ERR_BIND_REMOTE_HOTSPOT_ENABLE_STATE
      else if r \<in> set (busyErrs env) then ERR_BIND_REMOTE_IN_BUSY_LINK
      else if r = CONTINUE_ALREADY_IN_PROGRESS then ERR_CONTINUE_ALREADY_IN_PROGRESS
      else ERR_DMS_WORK_ABNORMALLY)"
  by (simp add: ConvertToDmsSdkErr_def DMS_CONVERT_TO_SDK_ERR_MAP_def map_of_map_const map_add_def)

text \<open>
  The result the application is told is success exactly when the continuation succeeded, and
  otherwise one of the four documented codes; a request refused because another continuation is
  running is told as such as long as the code is not one of the transport's.
\<close>

theorem sdk_error:
  "(ConvertToDmsSdkErr env r = ERR_OK \<longleftrightarrow> r = ERR_OK) \<and>
   (r = ERR_OK \<or> ConvertToDmsSdkErr env r \<in>
      {ERR_BIND_REMOTE_HOTSPOT_ENABLE_STATE, ERR_BIND_REMOTE_IN_BUSY_LINK, ERR_CONTINUE_ALREADY_IN_PROGRESS, ERR_DMS_WORK_ABNORMALLY}) \<and>
   (ConvertToDmsSdkErr env CONTINUE_ALREADY_IN_PROGRESS = ERR_CONTINUE_ALREADY_IN_PROGRESS \<longleftrightarrow>
      CONTINUE_ALREADY_IN_PROGRESS \<notin> set (hotspotErrs env) \<union> set (busyErrs env))"
  by (auto simp: ConvertToDmsSdkErr_eq ERR_BIND_REMOTE_HOTSPOT_ENABLE_STATE_def ERR_BIND_REMOTE_IN_BUSY_LINK_def
      ERR_CONTINUE_ALREADY_IN_PROGRESS_def ERR_DMS_WORK_ABNORMALLY_def ERROR_PEER_THREE_VAP_CONFLICT_def)

theorem sink_ability_choice_witness:
  "UpdateElementInfo ((sample_continue_env ''B'')\<lparr>getDistributedBundleInfo := \<lambda>_ _. Some [sample_ability]\<rparr>) sample_data =
     (ERR_OK, sample_data\<lparr>dataWant := SetElementName4 sample_wapi ''B'' ''app'' ''Main'' ''entry'' (dataWant sample_data)\<rparr>)"
proof -
  have "ContinueTypeFormat ''t_ContinueQuickStart'' = ''t''" "ContinueTypeFormat ''t'' = ''t''"
    by (simp_all add: ContinueTypeFormat_def ends_with_quick_start_def before_quick_start_def rfind_def QUICK_START_CONFIGURATION_def)
  then show ?thesis
    by (subst sink_ability_choice [where localId = "''B''" and as = "[sample_ability]", OF _ _ refl refl])
      (simp_all add: sample_continue_env_def sample_wapi_def sample_empty_want_def takes_type_def sample_ability_def sample_cmds)
qed

subsection \<open>Waiting for a prepared ability\<close>

lemma WaitAbilityStateInitial_bound: "snd (WaitAbilityStateInitial poll n r) \<le> n + max 1 (nat r)"
proof (induction poll n r rule: WaitAbilityStateInitial.induct)
  case (1 poll n r)
  then show ?case
    by (auto simp: WaitAbilityStateInitial.simps [of poll n r])
qed

lemma WaitAbilityStateInitial_first:
  "fst (WaitAbilityStateInitial poll n r) \<longleftrightarrow>
     (\<exists>i \<ge> n. i \<le> n + (max 1 (nat r) - 1) \<and> poll i = (ERR_OK, True))"
proof (induction poll n r rule: WaitAbilityStateInitial.induct)
  case (1 poll n r)
  have ok: "fst (poll n) = ERR_OK \<and> snd (poll n) \<longleftrightarrow> poll n = (ERR_OK, True)"
    by (cases "poll n") auto
  have step: "(\<exists>i \<ge> n. i \<le> n + k \<and> P i) \<longleftrightarrow> P n \<or> 0 < k \<and> (\<exists>i \<ge> Suc n. i \<le> Suc n + (k - 1) \<and> P i)" for P and k :: nat
    using first_Suc [of n k P "\<lambda>_. True"] by simp
  have "max 1 (nat (r - 1)) - 1 = max 1 (nat r) - 1 - 1" if "1 < r"
    using that by auto
  with 1 show ?case
    by (subst step) (auto simp: WaitAbilityStateInitial.simps [of poll n r] ok)
qed

text \<open>
  The wait for a prepared ability ends after at most 40 polls of the ability manager, and it
  reports the ability ready exactly when one of the first 40 polls finds it so.
\<close>

theorem wait_ability_bounded:
  "snd (WaitAbilityStateInitial poll 0 GET_ABILITY_STATE_RETRY_TIMES) \<le> 40 \<and>
   (fst (WaitAbilityStateInitial poll 0 GET_ABILITY_STATE_RETRY_TIMES) \<longleftrightarrow> (\<exists>i < 40. poll i = (ERR_OK, True)))"
  using WaitAbilityStateInitial_bound [of poll 0 40] WaitAbilityStateInitial_first [of poll 0 40]
  by (auto simp: GET_ABILITY_STATE_RETRY_TIMES_def less_Suc_eq_le numeral_eq_Suc)

subsection \<open>A refused data command is still reported as a started ability\<close>

text \<open>
  When the data command fails its checks no ability is started, and yet the application that
  waits for the quick start of the sink is told that it succeeded: the only call the event makes
  is the success notification. The failure then ends the continuation.
\<close>

theorem quick_start_success_despite_refusal:
  assumes "machine w = Some DATA_STATE" "eventHandler w" "runner_accepts env"
    and "\<not> data_checked env (continueInfo w) (snd (UpdateElementInfo env cmd))" "sinkMissionId (continueInfo w) \<noteq> 0"
  shows "\<exists>r. r \<noteq> ERR_OK \<and> exec (ProcessEvent env (DATA_EVENT cmd)) w =
     w\<lparr>queue := queue w @ [END_EVENT r],
       calls := calls w @ [CallNotifyQuickStartState \<lparr>cbMissionId = sinkMissionId (continueInfo w),
         cbBundleName = sinkBundleName (continueInfo w), cbModuleName = destModuleName (eventData w),
         cbAbilityName = sinkAbilityName (continueInfo w)\<rparr> QUICK_START_SUCCESS QUICK_START_SUCCESS_MESSAGE]\<rparr>"
  using assms unchecked_data_refused [OF assms(4)]
  by (auto simp: ProcessEvent_def machine_execute_def ExecuteQuickStartSuccess_def notify_quick_start_def
      quick_start_mission_id_def call_def)

theorem quick_start_success_despite_refusal_witness:
  "\<exists>r. r \<noteq> ERR_OK \<and> queue (exec (ProcessEvent (sample_continue_env ''C'') (DATA_EVENT sample_data))
     (sample_source\<lparr>machine := Some DATA_STATE, continueInfo := sample_info\<lparr>sinkMissionId := 7\<rparr>\<rparr>)) = [END_EVENT r]"
proof -
  let ?w = "sample_source\<lparr>machine := Some DATA_STATE, continueInfo := sample_info\<lparr>sinkMissionId := 7\<rparr>\<rparr>"
  have "\<not> data_checked (sample_continue_env ''C'') (continueInfo ?w) (snd (UpdateElementInfo (sample_continue_env ''C'') sample_data))"
    by (simp add: data_checked_def UpdateElementInfo_def sample_env_simps sample_cmds Let_def)
  from quick_start_success_despite_refusal [OF _ _ _ this] show ?thesis
    by (auto simp: sample_source_eq)
qed

end
