(* ===== verification/Continue_Protocol.thy ===== *)
theory Continue_Protocol
  imports Continue_Checks
begin

text \<open>
  A whole continuation when every service succeeds: the source that pushes a mission to a sink, and
  the sink it is pushed to. Each stage is a lemma that gives the object after the event as an
  equation; the runs compose the stages.
\<close>

definition services_ok :: "'w continue_env \<Rightarrow> bool" where
  "services_ok env \<longleftrightarrow>
     runner_accepts env \<and> (\<forall>p. sharedWantParams env p = Some p) \<and> (\<forall>d s. fst (connectDevice env d s) = ERR_OK) \<and>
     (\<forall>b. fst (getLocalBundleInfo env b) = ERR_OK) \<and> (\<forall>b. fst (getLocalBundleInfoV9 env b) = ERR_OK) \<and>
     (\<forall>a b m. fst (condGetMissionIdByBundleName env a b m) = ERR_OK) \<and> (\<forall>b. checkBundleContinueConfig env b) \<and>
     (\<forall>m. fst (getMissionInfo env m) = ERR_OK \<and> missionContinueActive (snd (getMissionInfo env m))) \<and>
     (\<forall>d m v. amsContinueAbility env d m v = ERR_OK) \<and>
     (\<forall>u. getCallerAppIdFromBms env u \<noteq> None \<and> getBundleNameListFromBms env u \<noteq> None) \<and>
     (\<forall>d c. fst (getAccountInfo env d c) = ERR_OK) \<and>
     (\<forall>c. fst (marshalCmd env c) = ERR_OK \<and> length (snd (marshalCmd env c)) + 1 < DSCHED_MAX_BUFFER_SIZE) \<and>
     (\<forall>s b. adapterSendData env s b = ERR_OK) \<and> writeInterfaceToken env \<and> writeInt32 env \<and>
     amsConnect env = ERR_OK \<and> (\<forall>want r a. amsStartAbility env want r a = ERR_OK)"

text \<open>The buffer that carries a command: its text and a terminating zero byte.\<close>

definition cmd_buffer :: "'w continue_env \<Rightarrow> 'w continue_cmd \<Rightarrow> data_buffer" where
  "cmd_buffer env cmd =
     (let txt = snd (marshalCmd env cmd) in buf_write (DSchedDataBuffer (length txt + 1)) 0 txt)"

lemma SendCommand_ok:
  assumes "services_ok env"
  shows "exec (SendCommand env cmd) w = w\<lparr>calls := calls w @ [CallSendData (softbusSessionId w) (cmd_buffer env cmd)]\<rparr>"
    and "outcome (SendCommand env cmd) w = ERR_OK"
proof -
  have len: "length (snd (marshalCmd env cmd)) + 1 < DSCHED_MAX_BUFFER_SIZE" "fst (marshalCmd env cmd) = ERR_OK"
    "adapterSendData env s b = ERR_OK" for s b
    using assms by (auto simp: services_ok_def)
  then have "memcpy_s (Data (DSchedDataBuffer (length (snd (marshalCmd env cmd)) + 1)) = None)
      (Capacity (DSchedDataBuffer (length (snd (marshalCmd env cmd)) + 1))) False (length (snd (marshalCmd env cmd))) = ERR_OK"
    by (simp add: DSchedDataBuffer_ok buffer_defs memcpy_s_def RSIZE_MAX_def DSCHED_MAX_BUFFER_SIZE_def)
  then show "exec (SendCommand env cmd) w = w\<lparr>calls := calls w @ [CallSendData (softbusSessionId w) (cmd_buffer env cmd)]\<rparr>"
    and "outcome (SendCommand env cmd) w = ERR_OK"
    using len by (simp_all add: SendCommand_def cmd_buffer_def call_def Let_def split_beta)
qed

text \<open>An operation posts an event and the runner, otherwise idle, handles it.\<close>

definition handle :: "'w continue_env \<Rightarrow> ('w, 'a) prog \<Rightarrow> 'w cworld \<Rightarrow> 'w cworld" where
  "handle env m w = exec (run_event env) (exec m w)"

lemma handle_post:
  assumes "eventHandler w" "runner_accepts env" "queue w = []" "machine w = Some st"
    and "exec m w = w\<lparr>queue := [e]\<rparr>" "outcome (state_execute env st e) w = ERR_OK"
  shows "handle env m w = exec (state_execute env st e) w"
proof -
  have idle: "w\<lparr>queue := []\<rparr> = w"
    using assms(3) by (cases w) simp
  have "handle env m w = exec (ProcessEvent env e) (w\<lparr>queue := []\<rparr>)"
    using assms(5) by (simp add: handle_def run_event_Cons [where q = "[]"])
  also have "\<dots> = exec (ProcessEvent env e) w"
    by (simp only: idle)
  also have "\<dots> = exec (state_execute env st e) w"
    using assms(4,6) by (simp add: ProcessEvent_def machine_execute_def)
  finally show ?thesis .
qed

subsection \<open>The source\<close>

lemma pack_base_updates [simp]:
  "pack_base (w\<lparr>calls := cs\<rparr>) = pack_base w"
  "pack_base (w\<lparr>softbusSessionId := s\<rparr>) = pack_base w"
  "pack_base (w\<lparr>isSourceExit := b\<rparr>) = pack_base w"
  by (simp_all add: pack_base_def fun_eq_iff)

lemma push_request:
  assumes "services_ok env" "machine w = Some SOURCE_START_STATE" "eventHandler w" "queue w = []"
    and "direction w = CONTINUE_SOURCE" "subServiceType w = CONTINUE_PUSH"
  defines "sid \<equiv> snd (connectDevice env (sinkDeviceId (continueInfo w)) (softbusSessionId w))"
  shows "handle env (OnContinueMission env params) w =
     w\<lparr>softbusSessionId := sid, calls := calls w @ [CallConnectDevice (sinkDeviceId (continueInfo w)),
       CallSendData sid (cmd_buffer env (StartCmd (cmd_base.extend (pack_base w DSCHED_CONTINUE_CMD_START)
         (start_cmd.fields CONTINUE_SOURCE 0 params))))]\<rparr>"
proof -
  have ok: "runner_accepts env" "sharedWantParams env params = Some params"
    "\<And>d s. fst (connectDevice env d s) = ERR_OK"
    using assms(1) by (auto simp: services_ok_def)
  show ?thesis
    using assms(2-6) ok
    by (subst handle_post [where e = "REQ_PUSH_EVENT params" and st = SOURCE_START_STATE])
      (simp_all add: OnContinueMission_def PostStartTask_def continue_kinds ExecuteContinueReq_def PackStartCmd_def
        SendCommand_ok [OF assms(1)] call_def peerDevice_def sid_def)
qed

definition resolved_mission :: "'w continue_env \<Rightarrow> 'w cworld \<Rightarrow> int" where
  "resolved_mission env w =
     (if supportDistributedMissionManager env \<and> missionId (continueInfo w) = 0
      then snd (condGetMissionIdByBundleName env (accountId w) (sourceBundleName (continueInfo w)) 0)
      else missionId (continueInfo w))"

lemma start_replied:
  assumes "services_ok env" "machine w = Some SOURCE_START_STATE" "eventHandler w" "queue w = []"
    and "unmarshalReply p txt = (ERR_OK, rc)" "replyCmd rc = DSCHED_CONTINUE_CMD_START"
  shows "handle env (recv_command p env DSCHED_CONTINUE_CMD_REPLY txt) w =
     w\<lparr>continueInfo := (continueInfo w)\<lparr>missionId := resolved_mission env w\<rparr>, machine := Some ABILITY_STATE,
       calls := calls w @ [CallContinueAbility (sinkDeviceId (continueInfo w)) (resolved_mission env w) (replyAppVersion rc)]\<rparr>"
proof -
  have ok: "runner_accepts env" "\<And>a b m. fst (condGetMissionIdByBundleName env a b m) = ERR_OK" "\<And>b. checkBundleContinueConfig env b"
    "\<And>m. fst (getMissionInfo env m) = ERR_OK" "\<And>m. missionContinueActive (snd (getMissionInfo env m))"
    "\<And>d m v. amsContinueAbility env d m v = ERR_OK"
    using assms(1) by (auto simp: services_ok_def)
  have perm: "CheckContinueAbilityPermission env i = ERR_OK" for i
    using ok by (simp add: CheckContinueAbilityPermission_def split_beta)
  have mission: "exec (GetMissionIdByBundleName env) w = w\<lparr>continueInfo := (continueInfo w)\<lparr>missionId := resolved_mission env w\<rparr>\<rparr>"
    "outcome (GetMissionIdByBundleName env) w = ERR_OK"
    using ok by (simp_all add: GetMissionIdByBundleName_def resolved_mission_def updInfo_def)
  show ?thesis
    using assms(2-6) ok perm mission
    by (subst handle_post [where e = "ABILITY_EVENT (replyAppVersion rc)" and st = SOURCE_START_STATE])
      (simp_all add: recv_command_def OnReplyCmd_def PostReplyTask_def continue_commands ExecuteContinueAbility_def
        call_def UpdateState_def)
qed

definition sent_want :: "'w continue_env \<Rightarrow> 'w cworld \<Rightarrow> 'w \<Rightarrow> 'w" where
  "sent_want env w want = projr (SetWantForContinuation env (continueInfo w) want)"

definition sent_caller :: "'w continue_env \<Rightarrow> 'w cworld \<Rightarrow> 'w continue_ability_data \<Rightarrow> caller_info" where
  "sent_caller env w data = send_caller_info (continueInfo w) data (the (getCallerAppIdFromBms env (cadCallerUid data)))
     (the (getBundleNameListFromBms env (cadCallerUid data)))"

definition sent_data_cmd :: "'w continue_env \<Rightarrow> 'w cworld \<Rightarrow> 'w continue_ability_data \<Rightarrow> 'w data_cmd" where
  "sent_data_cmd env w data = outcome (PackDataCmd env (sent_want env w (cadWant data)) (sent_caller env w data)
     (snd (getAccountInfo env (sinkDeviceId (continueInfo w)) (sent_caller env w data)))) w"

definition source_exit :: "'w continue_env \<Rightarrow> 'w cworld \<Rightarrow> 'w \<Rightarrow> bool" where
  "source_exit env w want = (case QueryBoolean (wapi env) SUPPORT_CONTINUE_SOURCE_EXIT_KEY want of
     None \<Rightarrow> isSourceExit w | Some b \<Rightarrow> b)"

lemma data_sent:
  assumes "services_ok env" "machine w = Some ABILITY_STATE" "eventHandler w" "queue w = []"
    and "GetFlags (wapi env) want AND FLAG_ABILITY_CONTINUATION (wapi env) \<noteq> 0"
  shows "handle env (OnStartContinuation env want uid ERR_OK token) w =
     w\<lparr>isSourceExit := source_exit env w want, machine := Some SOURCE_WAIT_END_STATE,
       calls := calls w @ [CallSendData (softbusSessionId w)
         (cmd_buffer env (DataCmd (sent_data_cmd env w \<lparr>cadWant = want, cadCallerUid = uid, cadAccessToken = token\<rparr>)))]\<rparr>"
proof -
  let ?data = "\<lparr>cadWant = want, cadCallerUid = uid, cadAccessToken = token\<rparr>"
  have ok: "runner_accepts env" "\<And>b. fst (getLocalBundleInfo env b) = ERR_OK" "\<And>d c. fst (getAccountInfo env d c) = ERR_OK"
    using assms(1) by (auto simp: services_ok_def)
  have "getCallerAppIdFromBms env uid \<noteq> None" "getBundleNameListFromBms env uid \<noteq> None"
    using assms(1) by (simp_all add: services_ok_def)
  then obtain appId names where ids: "getCallerAppIdFromBms env uid = Some appId" "getBundleNameListFromBms env uid = Some names"
    by auto
  obtain want' where want': "SetWantForContinuation env (continueInfo w) want = Inr want'"
    using ok(2) by (auto simp: SetWantForContinuation_def Let_def split_beta)
  have exit: "exec (SetCleanMissionFlag env want) w = w\<lparr>isSourceExit := source_exit env w want\<rparr>"
    by (simp add: SetCleanMissionFlag_def source_exit_def split: option.split)
  show ?thesis
    using assms(2-5) ok ids want' exit
    by (subst handle_post [where e = "SEND_DATA_EVENT ?data" and st = ABILITY_STATE])
      (simp_all add: OnStartContinuation_def PostContinueSendTask_def ExecuteContinueSend_def SendCommand_ok [OF assms(1)]
        sent_data_cmd_def sent_caller_def sent_want_def PackDataCmd_def UpdateState_def)
qed

lemma end_received:
  assumes "services_ok env" "machine w = Some SOURCE_WAIT_END_STATE" "eventHandler w" "queue w = []"
    and "direction w = CONTINUE_SOURCE" "unmarshalEnd p txt = (ERR_OK, ec)"
  shows "handle env (recv_command p env DSCHED_CONTINUE_CMD_END txt) w =
     w\<lparr>machine := Some SOURCE_END_STATE, queue := [END_EVENT (endResult ec)],
       calls := calls w @ [CallSendData (softbusSessionId w) (cmd_buffer env (ReplyCmd
         (outcome (PackReplyCmd DSCHED_CONTINUE_CMD_END 0 (endResult ec) ''ExecuteNotifyComplete'') w)))]\<rparr>"
proof -
  have ok: "runner_accepts env"
    using assms(1) by (simp add: services_ok_def)
  show ?thesis
    using assms(2-6) ok
    by (subst handle_post [where e = "COMPLETE_EVENT (endResult ec)" and st = SOURCE_WAIT_END_STATE])
      (simp_all add: recv_command_def OnContinueEndCmd_def PostNotifyCompleteTask_def continue_commands continue_kinds
        ExecuteNotifyComplete_def SendCommand_ok [OF assms(1)] UpdateState_def PostContinueEndTask_def PackReplyCmd_def)
qed

lemma end_executed:
  assumes "machine w = Some st" "stage st = 3" "queue w = [END_EVENT r]"
  shows "exec (run_event env) w =
     w\<lparr>queue := [], eventData := end_event_data r w, calls := calls w @ end_calls env r w,
       callback := (if callback_delivered env w = None then callback w else None)\<rparr>"
proof -
  have "end_calls env r (w\<lparr>queue := []\<rparr>) = end_calls env r w" "end_event_data r (w\<lparr>queue := []\<rparr>) = end_event_data r w"
    "callback_delivered env (w\<lparr>queue := []\<rparr>) = callback_delivered env w"
    by (simp_all add: end_calls_def end_event_data_def callback_delivered_def isInitiator_def peerDevice_def)
  then show ?thesis
    using assms by (auto simp: run_event_Cons ProcessEvent_def machine_execute_def stage_3_cases exec_ExecuteContinueEnd)
qed

subsection \<open>The sink\<close>

lemma start_received:
  assumes "services_ok env" "machine w = Some SINK_START_STATE" "eventHandler w" "queue w = []"
  shows "handle env (OnStartCmd env v) w =
     w\<lparr>machine := Some DATA_STATE, calls := calls w @ [CallSendData (softbusSessionId w) (cmd_buffer env (ReplyCmd
       (outcome (PackReplyCmd DSCHED_CONTINUE_CMD_START
          (sint (versionCode (snd (getLocalBundleInfoV9 env (sourceBundleName (continueInfo w)))))) ERR_OK ''ExecuteContinueReply'') w)))]\<rparr>"
proof -
  have ok: "runner_accepts env" "\<And>b. fst (getLocalBundleInfoV9 env b) = ERR_OK"
    using assms(1) by (auto simp: services_ok_def)
  show ?thesis
    using assms(2-4) ok
    by (subst handle_post [where e = "ABILITY_EVENT v" and st = SINK_START_STATE])
      (simp_all add: OnStartCmd_def PostCotinueAbilityTask_def ExecuteContinueReply_def SendCommand_ok [OF assms(1)]
        UpdateState_def PackReplyCmd_def)
qed

definition quick_start_calls :: "'w continue_env \<Rightarrow> 'w cworld \<Rightarrow> int \<Rightarrow> string \<Rightarrow> 'w continue_call list" where
  "quick_start_calls env w st msg = (case snd (quick_start_mission_id env w) of
     None \<Rightarrow> []
   | Some mid \<Rightarrow> [CallNotifyQuickStartState \<lparr>cbMissionId = mid, cbBundleName = sinkBundleName (continueInfo w),
       cbModuleName = destModuleName (eventData w), cbAbilityName = sinkAbilityName (continueInfo w)\<rparr> st msg])"

lemma quick_start_calls_updates [simp]:
  "quick_start_calls env (w\<lparr>calls := cs\<rparr>) st msg = quick_start_calls env w st msg"
  "quick_start_calls env (w\<lparr>machine := m\<rparr>) st msg = quick_start_calls env w st msg"
  by (simp_all add: quick_start_calls_def quick_start_mission_id_def split: option.split)

lemma exec_notify_quick_start:
  "exec (notify_quick_start env st msg) w = w\<lparr>calls := calls w @ quick_start_calls env w st msg\<rparr>"
  by (simp add: notify_quick_start_def quick_start_calls_def call_def split: option.split)

text \<open>The want the ability is started with.\<close>

definition started_want :: "'w continue_env \<Rightarrow> continue_info \<Rightarrow> 'w data_cmd \<Rightarrow> 'w" where
  "started_want env info cmd =
     SetParamInt (wapi env) (PARAM_APP_CLONE_INDEX_KEY (wapi env)) 0
       (UpdateWantForContinueType env info (dataWant (snd (CheckStartPermission env (snd (UpdateElementInfo env cmd))))))"

definition bundled :: "'w continue_env \<Rightarrow> 'w data_cmd \<Rightarrow> 'w data_cmd" where
  "bundled env cmd = cmd\<lparr>dataWant := SetBundle (wapi env) (cmdDstBundleName cmd) (dataWant cmd)\<rparr>"

lemma checked_data_starts:
  assumes "services_ok env" "data_checked env (continueInfo w) (snd (UpdateElementInfo env cmd))"
    and "subServiceType w \<noteq> CONTINUE_PULL" "machine w = Some DATA_STATE"
  shows "exec (ExecuteContinueData env cmd) w =
       w\<lparr>continueInfo := (continueInfo w)\<lparr>sinkAbilityName := GetElementAbilityName (wapi env) (started_want env (continueInfo w) cmd)\<rparr>,
         machine := Some SINK_WAIT_END_STATE,
         calls := calls w @ [CallStartAbility (started_want env (continueInfo w) cmd) DEFAULT_REQUEST_CODE (accountId w)]\<rparr>"
    and "outcome (ExecuteContinueData env cmd) w = ERR_OK"
proof -
  obtain localId where checked: "storageLocalDeviceId env = Some localId" "localId \<noteq> ''''"
    "GetElementDeviceID (wapi env) (dataWant (snd (UpdateElementInfo env cmd))) = localId"
    "callerSourceDeviceId (dataCallerInfo (snd (UpdateElementInfo env cmd))) = sourceDeviceId (continueInfo w)"
    "sourceDeviceId (continueInfo w) \<noteq> localId" "sourceDeviceId (continueInfo w) \<noteq> ''''"
    using assms(2) by (auto simp: data_checked_def)
  have perm: "fst (CheckStartPermission env (snd (UpdateElementInfo env cmd))) = ERR_OK"
    using assms(2) by (auto simp: data_checked_def CheckStartPermission_def Let_def split: if_splits prod.splits)
  have dev: "CheckDeviceIdFromRemote (continueInfo w) localId localId (sourceDeviceId (continueInfo w))"
    using checked by (simp add: CheckDeviceIdFromRemote_def)
  show "exec (ExecuteContinueData env cmd) w =
       w\<lparr>continueInfo := (continueInfo w)\<lparr>sinkAbilityName := GetElementAbilityName (wapi env) (started_want env (continueInfo w) cmd)\<rparr>,
         machine := Some SINK_WAIT_END_STATE,
         calls := calls w @ [CallStartAbility (started_want env (continueInfo w) cmd) DEFAULT_REQUEST_CODE (accountId w)]\<rparr>"
    and "outcome (ExecuteContinueData env cmd) w = ERR_OK"
    using assms checked perm dev
    by (simp_all add: ExecuteContinueData_def prepared_window_def StartAbility_def services_ok_def updInfo_def call_def
        UpdateState_def started_want_def Let_def split_beta)
qed

lemma data_received:
  assumes "services_ok env" "machine w = Some DATA_STATE" "eventHandler w" "queue w = []"
    and "subServiceType w \<noteq> CONTINUE_PULL" "unmarshalData p txt = (ERR_OK, cmd)"
    and "data_checked env (continueInfo w) (snd (UpdateElementInfo env (bundled env cmd)))"
  defines "want \<equiv> started_want env (continueInfo w) (bundled env cmd)"
  defines "info \<equiv> (continueInfo w)\<lparr>sinkAbilityName := GetElementAbilityName (wapi env) want\<rparr>"
  shows "handle env (recv_command p env DSCHED_CONTINUE_CMD_DATA txt) w =
     w\<lparr>continueInfo := info, machine := Some SINK_WAIT_END_STATE,
       calls := calls w @ CallStartAbility want DEFAULT_REQUEST_CODE (accountId w) #
         quick_start_calls env (w\<lparr>continueInfo := info\<rparr>) QUICK_START_SUCCESS QUICK_START_SUCCESS_MESSAGE\<rparr>"
proof -
  have ok: "runner_accepts env"
    using assms(1) by (simp add: services_ok_def)
  note started = checked_data_starts [OF assms(1,7,5,2)]
  show ?thesis
    using assms(2-6) ok started
    by (subst handle_post [where e = "DATA_EVENT (bundled env cmd)" and st = DATA_STATE])
      (simp_all add: recv_command_def OnContinueDataCmd_def PostContinueDataTask_def continue_commands
        ExecuteQuickStartSuccess_def exec_notify_quick_start bundled_def want_def info_def)
qed

lemma completed:
  assumes "services_ok env" "machine w = Some SINK_WAIT_END_STATE" "eventHandler w" "queue w = []"
    and "direction w = CONTINUE_SINK" "0 < mid"
  shows "handle env (OnNotifyComplete env mid True) w =
     w\<lparr>machine := Some SINK_END_STATE,
       calls := calls w @ [CallSendData (softbusSessionId w) (cmd_buffer env (EndCmd (outcome (PackEndCmd ERR_OK) w)))]\<rparr>"
proof -
  have ok: "runner_accepts env"
    using assms(1) by (simp add: services_ok_def)
  show ?thesis
    using assms(2-6) ok
    by (subst handle_post [where e = "COMPLETE_EVENT ERR_OK" and st = SINK_WAIT_END_STATE])
      (simp_all add: OnNotifyComplete_def PostNotifyCompleteTask_def ExecuteNotifyComplete_def PackEndCmd_def
        SendCommand_ok [OF assms(1)] UpdateState_def)
qed

lemma end_replied:
  assumes "services_ok env" "machine w = Some SINK_END_STATE" "eventHandler w" "queue w = []"
    and "unmarshalReply p txt = (ERR_OK, rc)" "replyCmd rc = DSCHED_CONTINUE_CMD_END"
  shows "handle env (recv_command p env DSCHED_CONTINUE_CMD_REPLY txt) w = exec (ExecuteContinueEnd env (replyResult rc)) w"
proof -
  have ok: "runner_accepts env"
    using assms(1) by (simp add: services_ok_def)
  show ?thesis
    using assms(2-6) ok
    by (subst handle_post [where e = "END_EVENT (replyResult rc)" and st = SINK_END_STATE])
      (simp_all add: recv_command_def OnReplyCmd_def PostReplyTask_def continue_commands)
qed

subsection \<open>A whole continuation\<close>

text \<open>What the two sides do, in order. The texts are the commands received from the peer.\<close>

definition push_source_run ::
    "'w continue_env \<Rightarrow> 'w cmd_parser \<Rightarrow> nat \<Rightarrow> byte list \<Rightarrow> 'w \<Rightarrow> int \<Rightarrow> u32 \<Rightarrow> byte list \<Rightarrow> 'w cworld \<Rightarrow> 'w cworld" where
  "push_source_run env p params replyTxt want uid token endTxt w =
     exec (run_event env)
       (handle env (recv_command p env DSCHED_CONTINUE_CMD_END endTxt)
         (handle env (OnStartContinuation env want uid ERR_OK token)
           (handle env (recv_command p env DSCHED_CONTINUE_CMD_REPLY replyTxt)
             (handle env (OnContinueMission env params) w))))"

definition push_sink_run ::
    "'w continue_env \<Rightarrow> 'w cmd_parser \<Rightarrow> int \<Rightarrow> byte list \<Rightarrow> int \<Rightarrow> byte list \<Rightarrow> 'w cworld \<Rightarrow> 'w cworld" where
  "push_sink_run env p appVersion dataTxt mid replyTxt w =
     handle env (recv_command p env DSCHED_CONTINUE_CMD_REPLY replyTxt)
       (handle env (OnNotifyComplete env mid True)
         (handle env (recv_command p env DSCHED_CONTINUE_CMD_DATA dataTxt)
           (handle env (OnStartCmd env appVersion) w)))"

lemma exec_Init_local:
  "exec Init (DSchedContinueLocal env sid sub dir cb info acc) =
     \<lparr>version = 1, subServiceType = sub, continueByType = (if continueType info \<noteq> '''' then 1 else 0), direction = dir,
      continueInfo = info, isSourceExit = True, softbusSessionId = -1, callback = Some cb,
      eventData = continue_event_data env info, accountId = acc,
      machine = Some (if dir = CONTINUE_SOURCE then SOURCE_START_STATE else SINK_START_STATE), eventHandler = True,
      queue = [], sceneSessionId = sid, calls = [CallDSchedEventCallback ERR_OK (continue_event_data env info)]\<rparr>"
  by (simp add: Init_def DSchedContinueLocal_def new_object_def SetEventData_def NotifyDSchedEventResult_def call_def
      DSCHED_CONTINUE_PROTOCOL_VERSION_def)

text \<open>
  C34: When every service succeeds and the peer answers, a push runs through: the source connects
  to the sink device and sends the start command; on the reply it lets the ability save its data
  with the peer's version; with the data it sends the data command; on the end command it
  acknowledges and ends: it closes the connection it opened, removes the mission unless the
  application asked to keep it, tells the application success, reports the event finished and
  tells the manager, each exactly once and in this order.
\<close>

theorem push_source_completes:
  assumes "services_ok env" "unmarshalReply p replyTxt = (ERR_OK, rc)" "replyCmd rc = DSCHED_CONTINUE_CMD_START"
    and "GetFlags (wapi env) want AND FLAG_ABILITY_CONTINUATION (wapi env) \<noteq> 0"
    and "unmarshalEnd p endTxt = (ERR_OK, ec)" "endResult ec = ERR_OK"
    and w0: "w0 = exec Init (DSchedContinueLocal env sid CONTINUE_PUSH CONTINUE_SOURCE cb info acc)"
    and w': "w' = push_source_run env p params replyTxt want uid token endTxt w0"
  shows "machine w' = Some SOURCE_END_STATE \<and> queue w' = [] \<and> callback w' = None \<and>
     (\<exists>session mid start data reply.
        calls w' = calls w0 @
          [CallConnectDevice (sinkDeviceId info), CallSendData session (cmd_buffer env (StartCmd start)),
           CallContinueAbility (sinkDeviceId info) mid (replyAppVersion rc),
           CallSendData session (cmd_buffer env (DataCmd data)), CallSendData session (cmd_buffer env (ReplyCmd reply)),
           CallDisconnectDevice (sinkDeviceId info)] @
          (if source_exit env w0 want then [CallCleanMission mid] else []) @
          [CallMissionCallback cb ERR_OK, CallDSchedEventCallback ERR_OK (end_event_data ERR_OK w0),
           CallManagerOnContinueEnd (info\<lparr>missionId := mid\<rparr>)] \<and>
        mid = resolved_mission env w0 \<and>
        startWantParams start = params \<and> startDirection start = CONTINUE_SOURCE \<and>
        cmdSrcDeviceId data = sourceDeviceId info \<and> cmdDstDeviceId data = sinkDeviceId info \<and>
        callerSourceDeviceId (dataCallerInfo data) = sourceDeviceId info \<and>
        replyCmd reply = DSCHED_CONTINUE_CMD_END \<and> replyResult reply = ERR_OK)"
proof -
  have f0: "machine w0 = Some SOURCE_START_STATE" "eventHandler w0" "queue w0 = []" "direction w0 = CONTINUE_SOURCE"
    "subServiceType w0 = CONTINUE_PUSH" "continueInfo w0 = info" "callback w0 = Some cb" "isSourceExit w0"
    by (simp_all add: w0 exec_Init_local)
  let ?mid = "resolved_mission env w0"
  define w1 where "w1 = handle env (OnContinueMission env params) w0"
  define w2 where "w2 = handle env (recv_command p env DSCHED_CONTINUE_CMD_REPLY replyTxt) w1"
  define w3 where "w3 = handle env (OnStartContinuation env want uid ERR_OK token) w2"
  define w4 where "w4 = handle env (recv_command p env DSCHED_CONTINUE_CMD_END endTxt) w3"
  obtain session start where w1: "w1 = w0\<lparr>softbusSessionId := session, calls := calls w0 @
      [CallConnectDevice (sinkDeviceId info), CallSendData session (cmd_buffer env (StartCmd start))]\<rparr>"
    and start: "startWantParams start = params" "startDirection start = CONTINUE_SOURCE"
    using push_request [OF assms(1) f0(1-5), of params, unfolded f0(6), folded w1_def]
    by (rule that) simp_all
  have w2: "w2 = w1\<lparr>continueInfo := info\<lparr>missionId := ?mid\<rparr>, machine := Some ABILITY_STATE,
      calls := calls w1 @ [CallContinueAbility (sinkDeviceId info) ?mid (replyAppVersion rc)]\<rparr>"
    unfolding w2_def by (subst start_replied [OF assms(1) _ _ _ assms(2,3)]) (simp_all add: w1 f0 resolved_mission_def)
  obtain data where w3: "w3 = w2\<lparr>isSourceExit := source_exit env w0 want, machine := Some SOURCE_WAIT_END_STATE,
      calls := calls w2 @ [CallSendData session (cmd_buffer env (DataCmd data))]\<rparr>"
    and data: "cmdSrcDeviceId data = sourceDeviceId info" "cmdDstDeviceId data = sinkDeviceId info"
      "callerSourceDeviceId (dataCallerInfo data) = sourceDeviceId info"
  proof (rule that)
    have f2: "machine w2 = Some ABILITY_STATE" "eventHandler w2" "queue w2 = []" "softbusSessionId w2 = session"
        "source_exit env w2 want = source_exit env w0 want"
      by (simp_all add: w2 w1 f0 source_exit_def split: option.split)
    let ?data = "sent_data_cmd env w2 \<lparr>cadWant = want, cadCallerUid = uid, cadAccessToken = token\<rparr>"
    show "w3 = w2\<lparr>isSourceExit := source_exit env w0 want, machine := Some SOURCE_WAIT_END_STATE,
        calls := calls w2 @ [CallSendData session (cmd_buffer env (DataCmd ?data))]\<rparr>"
      unfolding w3_def by (subst data_sent [OF assms(1) _ _ _ assms(4)]) (simp_all add: f2)
  qed (simp_all add: sent_data_cmd_def PackDataCmd_def pack_base_def sent_caller_def
      send_caller_info_def caller_info_default_def w2)
  obtain reply where w4: "w4 = w3\<lparr>machine := Some SOURCE_END_STATE, queue := [END_EVENT ERR_OK],
      calls := calls w3 @ [CallSendData session (cmd_buffer env (ReplyCmd reply))]\<rparr>"
    and reply: "replyCmd reply = DSCHED_CONTINUE_CMD_END" "replyResult reply = ERR_OK"
  proof (rule that)
    let ?reply = "outcome (PackReplyCmd DSCHED_CONTINUE_CMD_END 0 ERR_OK ''ExecuteNotifyComplete'') w3"
    show "w4 = w3\<lparr>machine := Some SOURCE_END_STATE, queue := [END_EVENT ERR_OK],
        calls := calls w3 @ [CallSendData session (cmd_buffer env (ReplyCmd ?reply))]\<rparr>"
      unfolding w4_def by (subst end_received [OF assms(1) _ _ _ _ assms(5)]) (simp_all add: w3 w2 w1 f0 assms(6))
  qed (simp_all add: PackReplyCmd_def)
  have "w' = exec (run_event env) w4"
    by (simp add: w' push_source_run_def w1_def w2_def w3_def w4_def)
  then have w'_eq: "w' = w4\<lparr>queue := [], eventData := end_event_data ERR_OK w0, calls := calls w4 @ end_calls env ERR_OK w4,
      callback := None\<rparr>"
    using assms(1)
    by (subst (asm) end_executed [where r = ERR_OK and st = SOURCE_END_STATE])
      (simp_all add: w4 w3 w2 w1 f0 callback_delivered_def services_ok_def end_event_data_def)
  have "end_calls env ERR_OK w4 = CallDisconnectDevice (sinkDeviceId info) #
      (if source_exit env w0 want then [CallCleanMission ?mid] else []) @
      [CallMissionCallback cb ERR_OK, CallDSchedEventCallback ERR_OK (end_event_data ERR_OK w0),
       CallManagerOnContinueEnd (info\<lparr>missionId := ?mid\<rparr>)]"
    using assms(1)
    by (simp add: end_calls_def w4 w3 w2 w1 f0 callback_delivered_def services_ok_def end_event_data_def isInitiator_def
        peerDevice_def continue_kinds ConvertToDmsSdkErr_def)
  then show ?thesis
    unfolding w'_eq using start data reply by (auto simp: w4 w3 w2 w1)
qed

definition remote_info :: "start_cmd \<Rightarrow> continue_info" where
  "remote_info cmd = (DSchedContinueInfo5 (cmdSrcDeviceId cmd) (cmdSrcBundleName cmd) (cmdDstDeviceId cmd)
     (cmdDstBundleName cmd) (cmdContinueType cmd))\<lparr>missionId := cmdSourceMissionId cmd\<rparr>"

lemma exec_Init_remote:
  "cmdSrcBundleName cmd \<noteq> '''' \<Longrightarrow> startDirection cmd = CONTINUE_SOURCE \<Longrightarrow>
   exec Init (DSchedContinueRemote env sid cmd session acc) =
     \<lparr>version = 1, subServiceType = cmdSubServiceType cmd, continueByType = cmdContinueByType cmd, direction = CONTINUE_SINK,
      continueInfo = remote_info cmd, isSourceExit = True, softbusSessionId = session, callback = None,
      eventData = continue_event_data env (remote_info cmd), accountId = acc, machine = Some SINK_START_STATE,
      eventHandler = True, queue = [], sceneSessionId = sid,
      calls = [CallDSchedEventCallback ERR_OK (continue_event_data env (remote_info cmd))]\<rparr>"
  by (simp add: Init_def DSchedContinueRemote_def new_object_def SetEventData_def NotifyDSchedEventResult_def call_def
      DSCHED_CONTINUE_PROTOCOL_VERSION_def remote_info_def DSchedContinueInfo5_def continue_kinds Let_def)

text \<open>
  C35: When every service succeeds and the data command passes its checks, the sink of a push runs
  through as well: it answers the start command with its version of the bundle, starts the
  ability with the want of the data command under the account it was made for, sends the end
  command when the application reports success, and, on the acknowledgement, reports the event
  finished and tells the manager. It never closes a connection, which is the source's to close.
\<close>

theorem push_sink_completes:
  assumes "services_ok env" "startDirection cmd = CONTINUE_SOURCE" "cmdSubServiceType cmd = CONTINUE_PUSH" "cmdSrcBundleName cmd \<noteq> ''''"
    and "unmarshalData p dataTxt = (ERR_OK, dc)"
    and "data_checked env (remote_info cmd) (snd (UpdateElementInfo env (bundled env dc)))"
    and "unmarshalReply p replyTxt = (ERR_OK, rc)" "replyCmd rc = DSCHED_CONTINUE_CMD_END" "0 < mid"
    and w0: "w0 = exec Init (DSchedContinueRemote env sid cmd session acc)"
    and w': "w' = push_sink_run env p appVersion dataTxt mid replyTxt w0"
  shows "machine w' = Some SINK_END_STATE \<and> queue w' = [] \<and>
     (\<exists>reply quick endc info. calls w' = calls w0 @
        [CallSendData session (cmd_buffer env (ReplyCmd reply)),
         CallStartAbility (started_want env (remote_info cmd) (bundled env dc)) DEFAULT_REQUEST_CODE acc] @ quick @
        [CallSendData session (cmd_buffer env (EndCmd endc)),
         CallDSchedEventCallback (if replyResult rc = ERR_OK then ERR_OK else NOTIFYCOMPLETECONTINUATION_FAILED)
           (end_event_data (replyResult rc) w0),
         CallManagerOnContinueEnd info] \<and>
        replyCmd reply = DSCHED_CONTINUE_CMD_START \<and> replyResult reply = ERR_OK \<and> endResult endc = ERR_OK \<and>
        (\<forall>c \<in> set quick. \<exists>i t. c = CallNotifyQuickStartState i QUICK_START_SUCCESS t) \<and>
        info_key info = info_key (remote_info cmd))"
proof -
  have f0: "machine w0 = Some SINK_START_STATE" "eventHandler w0" "queue w0 = []" "direction w0 = CONTINUE_SINK"
    "subServiceType w0 = CONTINUE_PUSH" "continueInfo w0 = remote_info cmd" "callback w0 = None" "softbusSessionId w0 = session"
    "accountId w0 = acc"
    by (simp_all add: w0 exec_Init_remote assms(2-4))
  let ?want = "started_want env (remote_info cmd) (bundled env dc)"
  define w1 where "w1 = handle env (OnStartCmd env appVersion) w0"
  define w2 where "w2 = handle env (recv_command p env DSCHED_CONTINUE_CMD_DATA dataTxt) w1"
  define w3 where "w3 = handle env (OnNotifyComplete env mid True) w2"
  obtain reply where w1: "w1 = w0\<lparr>machine := Some DATA_STATE, calls := calls w0 @ [CallSendData session (cmd_buffer env (ReplyCmd reply))]\<rparr>"
    and reply: "replyCmd reply = DSCHED_CONTINUE_CMD_START" "replyResult reply = ERR_OK"
    using start_received [OF assms(1) f0(1-3), of appVersion, unfolded f0(8), folded w1_def]
    by (rule that) (simp_all add: PackReplyCmd_def)
  obtain quick info where w2: "w2 = w1\<lparr>continueInfo := info, machine := Some SINK_WAIT_END_STATE,
       calls := calls w1 @ CallStartAbility ?want DEFAULT_REQUEST_CODE acc # quick\<rparr>"
    and info: "info_key info = info_key (remote_info cmd)"
    and quick: "\<forall>c \<in> set quick. \<exists>i t. c = CallNotifyQuickStartState i QUICK_START_SUCCESS t"
  proof (rule that)
    let ?info = "(remote_info cmd)\<lparr>sinkAbilityName := GetElementAbilityName (wapi env) ?want\<rparr>"
    let ?quick = "quick_start_calls env (w1\<lparr>continueInfo := ?info\<rparr>) QUICK_START_SUCCESS QUICK_START_SUCCESS_MESSAGE"
    show "w2 = w1\<lparr>continueInfo := ?info, machine := Some SINK_WAIT_END_STATE,
       calls := calls w1 @ CallStartAbility ?want DEFAULT_REQUEST_CODE acc # ?quick\<rparr>"
      unfolding w2_def by (subst data_received [OF assms(1) _ _ _ _ assms(5)]) (simp_all add: w1 f0 continue_kinds assms(6))
    show "\<forall>c \<in> set ?quick. \<exists>i t. c = CallNotifyQuickStartState i QUICK_START_SUCCESS t"
      by (auto simp: quick_start_calls_def split: option.splits)
  qed (simp add: info_key_def)
  obtain endc where w3: "w3 = w2\<lparr>machine := Some SINK_END_STATE, calls := calls w2 @ [CallSendData session (cmd_buffer env (EndCmd endc))]\<rparr>"
    and endc: "endResult endc = ERR_OK"
  proof (rule that)
    show "w3 = w2\<lparr>machine := Some SINK_END_STATE,
        calls := calls w2 @ [CallSendData session (cmd_buffer env (EndCmd (outcome (PackEndCmd ERR_OK) w2)))]\<rparr>"
      unfolding w3_def by (subst completed [OF assms(1) _ _ _ _ assms(9)]) (simp_all add: w2 w1 f0)
  qed (simp add: PackEndCmd_def)
  have "w' = exec (ExecuteContinueEnd env (replyResult rc)) w3"
    unfolding w' push_sink_run_def w1_def [symmetric] w2_def [symmetric] w3_def [symmetric]
    by (subst end_replied [OF assms(1) _ _ _ assms(7,8)]) (simp_all add: w3 w2 w1 f0)
  moreover have "end_calls env (replyResult rc) w3 =
      [CallDSchedEventCallback (if replyResult rc = ERR_OK then ERR_OK else NOTIFYCOMPLETECONTINUATION_FAILED)
         (end_event_data (replyResult rc) w0), CallManagerOnContinueEnd info]"
    by (simp add: end_calls_def w3 w2 w1 f0 callback_delivered_def end_event_data_def isInitiator_def continue_kinds)
  ultimately show ?thesis
    using reply info quick endc
    by (auto simp: exec_ExecuteContinueEnd w3 w2 w1 f0 callback_delivered_def)
qed

subsection \<open>The assumptions can hold\<close>

lemma sample_services_ok [simp]: "services_ok (sample_continue_env dev)"
  by (simp add: services_ok_def sample_continue_env_def runner_accepts_def DSCHED_MAX_BUFFER_SIZE_def)

theorem push_source_completes_witness:
  "machine (push_source_run (sample_continue_env ''A'') (sample_parser DSCHED_CONTINUE_CMD_START) 0 [] (sample_empty_want\<lparr>swFlags := 8\<rparr>) 1 2 []
     sample_source) = Some SOURCE_END_STATE"
  by (rule push_source_completes [where rc = "sample_reply DSCHED_CONTINUE_CMD_START" and ec = sample_end, THEN conjunct1,
        OF sample_services_ok _ _ _ _ _ sample_source_def refl])
    (simp_all add: sample_cmds sample_env_simps)

theorem push_sink_completes_witness:
  "machine (push_sink_run (sample_continue_env ''B'') (sample_parser DSCHED_CONTINUE_CMD_END) 3 [] 9 []
     (exec Init (DSchedContinueRemote (sample_continue_env ''B'') '''' sample_start 5 100))) = Some SINK_END_STATE"
  by (rule push_sink_completes [where rc = "sample_reply DSCHED_CONTINUE_CMD_END" and dc = sample_data, THEN conjunct1,
        OF sample_services_ok _ _ _ _ _ _ _ _ refl refl])
    (simp_all add: sample_cmds sample_env_simps continue_kinds data_checked_def UpdateElementInfo_def bundled_def remote_info_def
      caller_info_default_def Let_def)

theorem ability_started_only_checked_witness:
  "\<exists>want. CallStartAbility want DEFAULT_REQUEST_CODE 100 \<in> set (calls (exec (ProcessEvent (sample_continue_env ''B'') (DATA_EVENT sample_data)) sample_sink)) \<and>
     data_checked (sample_continue_env ''B'') (continueInfo sample_sink) (snd (UpdateElementInfo (sample_continue_env ''B'') sample_data))"
proof -
  let ?env = "sample_continue_env ''B''"
  let ?want = "started_want ?env (continueInfo sample_sink) sample_data"
  have sink: "machine sample_sink = Some DATA_STATE" "subServiceType sample_sink \<noteq> CONTINUE_PULL" "accountId sample_sink = 100"
    "continueInfo sample_sink = remote_info sample_start"
    by (simp_all add: sample_sink_def exec_Init_remote sample_cmds continue_kinds)
  have "data_checked ?env (continueInfo sample_sink) (snd (UpdateElementInfo ?env sample_data))"
    by (simp add: sink data_checked_def UpdateElementInfo_def sample_env_simps sample_cmds remote_info_def caller_info_default_def Let_def)
  note started = checked_data_starts [OF sample_services_ok this sink(2,1)]
  obtain quick where calls: "calls (exec (ProcessEvent ?env (DATA_EVENT sample_data)) sample_sink) =
      calls sample_sink @ CallStartAbility ?want DEFAULT_REQUEST_CODE 100 # quick"
    using started sink by (simp add: ProcessEvent_def machine_execute_def ExecuteQuickStartSuccess_def exec_notify_quick_start)
  with ability_started_only_checked [OF sink(1) calls] show ?thesis
    by auto
qed

subsection \<open>An end that comes twice\<close>

fun is_disconnect :: "'w continue_call \<Rightarrow> bool" where
  "is_disconnect (CallDisconnectDevice d) = True"
| "is_disconnect _ = False"

lemma end_calls_disconnects:
  "filter is_disconnect (end_calls env r w) = (if isInitiator w then [CallDisconnectDevice (peerDevice w)] else [])"
  by (simp add: end_calls_def split: option.split)

text \<open>
  The end state executes every end event it gets: when two are waiting (the acknowledged end
  and, say, the loss of the session), the initiator gives up its connection to the peer twice,
  although it took it once.
\<close>

theorem second_end_disconnects_again:
  assumes "machine w = Some st" "stage st = 3" "queue w = END_EVENT a # END_EVENT b # q" "isInitiator w"
  shows "filter is_disconnect (calls (drain env 2 w)) =
     filter is_disconnect (calls w) @ [CallDisconnectDevice (peerDevice w), CallDisconnectDevice (peerDevice w)]"
proof -
  have step: "filter is_disconnect (calls (exec (run_event env) v)) = filter is_disconnect (calls v) @ [CallDisconnectDevice (peerDevice v)] \<and>
      machine (exec (run_event env) v) = machine v \<and> queue (exec (run_event env) v) = q' \<and>
      isInitiator (exec (run_event env) v) \<and> peerDevice (exec (run_event env) v) = peerDevice v"
    if "machine v = Some st" "queue v = END_EVENT r # q'" "isInitiator v" for v r q'
  proof -
    have "exec (run_event env) v = exec (ExecuteContinueEnd env r) (v\<lparr>queue := q'\<rparr>)"
      using that assms(2) by (auto simp: run_event_Cons ProcessEvent_def machine_execute_def stage_3_cases)
    then show ?thesis
      using that by (simp add: exec_ExecuteContinueEnd end_calls_disconnects isInitiator_def peerDevice_def)
  qed
  have "drain env 2 w = exec (run_event env) (exec (run_event env) w)"
    by (simp add: drain_def numeral_2_eq_2)
  moreover note first = step [OF assms(1,3,4)]
  ultimately show ?thesis
    using step [of "exec (run_event env) w" b q] assms(1) by simp
qed

theorem second_end_disconnects_again_witness:
  "filter is_disconnect (calls (drain (sample_continue_env ''A'') 2
     (sample_source\<lparr>machine := Some SOURCE_END_STATE, queue := [END_EVENT 0, END_EVENT CONTINUE_SESSION_SHUTDOWN]\<rparr>))) =
   [CallDisconnectDevice ''B'', CallDisconnectDevice ''B'']"
  by (subst second_end_disconnects_again [where st = SOURCE_END_STATE and q = "[]", OF _ _ _ ])
    (simp_all add: sample_source_eq isInitiator_def peerDevice_def continue_kinds sample_info_def DSchedContinueInfo5_def)

end
