(* ===== verification/State_Callback.thy ===== *)
theory State_Callback
  imports Continue_Types "HOL-Library.Product_Lexorder"
begin

text \<open>
  The cache of the quick-start callbacks, the part of \<^verbatim>\<open>DSchedContinueManager\<close> that connects an
  application waiting for the quick start of its ability with the continuation that starts it
  (\<^verbatim>\<open>services/dtbschedmgr/src/continue/dsched_continue_manager.cpp\<close>, lines 576 to 718). The cache is a
  \<^verbatim>\<open>std::map\<close> ordered by mission id, bundle, module and ability. \<^verbatim>\<open>FindStateCallbackData\<close> gives a copy
  of the entry, and \<^verbatim>\<open>AddStateCallbackData\<close> is \<^verbatim>\<open>emplace\<close>, which leaves an existing entry alone.
\<close>

type_synonym callback_key = "int \<times> string \<times> string \<times> string"

definition callback_key :: "state_callback_info \<Rightarrow> callback_key" where
  "callback_key i = (cbMissionId i, cbBundleName i, cbModuleName i, cbAbilityName i)"

text \<open>The order of the keys is the one of \<^verbatim>\<open>operator<\<close>.\<close>

definition callback_info_less :: "state_callback_info \<Rightarrow> state_callback_info \<Rightarrow> bool" where
  "callback_info_less l r =
     (if cbMissionId l < cbMissionId r then True
      else if cbMissionId r < cbMissionId l then False
      else if cbBundleName l < cbBundleName r then True
      else if cbBundleName r < cbBundleName l then False
      else if cbModuleName l < cbModuleName r then True
      else if cbModuleName r < cbModuleName l then False
      else cbAbilityName l < cbAbilityName r)"

lemma callback_info_less_key: "callback_info_less l r \<longleftrightarrow> callback_key l < callback_key r"
  by (auto simp: callback_info_less_def callback_key_def less_prod_def')

record state_callback_data =
  remoteObject :: "nat option"
  diedListener :: "state_callback_info option"
  cbState :: int
  cbMessage :: string

definition StateCallbackData :: state_callback_data where
  "StateCallbackData = \<lparr>remoteObject = None, diedListener = None, cbState = -1, cbMessage = ''''\<rparr>"

type_synonym callback_cache = "(callback_key, state_callback_data) smap"

text \<open>Calls to the registered remote objects.\<close>

datatype callback_call =
    CallAddDeathRecipient nat state_callback_info
  | CallContinueStateCallback nat int string

text \<open>
  Whether the token, the state and the message can be written to the message parcel, and the
  error code of the inter-process framework for a failed write.
\<close>

record parcel_env =
  ERR_FLATTEN_OBJECT :: ret
  tokenWritten :: bool
  stateWritten :: bool
  messageWritten :: bool

definition FindStateCallbackData :: "state_callback_info \<Rightarrow> callback_cache \<Rightarrow> state_callback_data option" where
  "FindStateCallbackData i c = smap_find c (callback_key i)"

definition AddStateCallbackData :: "state_callback_info \<Rightarrow> state_callback_data \<Rightarrow> callback_cache \<Rightarrow> callback_cache" where
  "AddStateCallbackData i d c = smap_insert (callback_key i) d c"

definition RemoveStateCallbackData :: "state_callback_info \<Rightarrow> callback_cache \<Rightarrow> callback_cache" where
  "RemoveStateCallbackData i c = smap_erase (callback_key i) c"

definition NotifyQuickStartState ::
    "parcel_env \<Rightarrow> state_callback_info \<Rightarrow> int \<Rightarrow> string \<Rightarrow> callback_cache \<Rightarrow> callback_cache \<times> callback_call list \<times> ret" where
  "NotifyQuickStartState env i st msg c =
     (case FindStateCallbackData i c of
        None \<Rightarrow> (AddStateCallbackData i (StateCallbackData\<lparr>cbState := st, cbMessage := msg\<rparr>) c, [], ERR_OK)
      | Some d \<Rightarrow>
          (case remoteObject d of
             None \<Rightarrow> (AddStateCallbackData i (d\<lparr>cbState := st, cbMessage := msg\<rparr>) c, [], ERR_OK)
           | Some ro \<Rightarrow>
               if \<not> tokenWritten env then (c, [], ERR_FLATTEN_OBJECT env)
               else if \<not> stateWritten env then (c, [], ERR_FLATTEN_OBJECT env)
               else if \<not> messageWritten env then (c, [], ERR_FLATTEN_OBJECT env)
               else (c, [CallContinueStateCallback ro st msg], ERR_OK)))"

definition ContinueStateCallbackRegister ::
    "parcel_env \<Rightarrow> state_callback_info \<Rightarrow> nat \<Rightarrow> callback_cache \<Rightarrow> callback_cache \<times> callback_call list \<times> ret" where
  "ContinueStateCallbackRegister env i cb c =
     (case FindStateCallbackData i c of
        None \<Rightarrow>
          (AddStateCallbackData i (StateCallbackData\<lparr>diedListener := Some i, remoteObject := Some cb\<rparr>) c,
           [CallAddDeathRecipient cb i], ERR_OK)
      | Some d \<Rightarrow>
          if cbState d \<noteq> -1 then NotifyQuickStartState env i (cbState d) (cbMessage d) c
          else (c, [], ERR_OK))"

definition ContinueStateCallbackUnRegister :: "state_callback_info \<Rightarrow> callback_cache \<Rightarrow> callback_cache \<times> ret" where
  "ContinueStateCallbackUnRegister i c = (RemoveStateCallbackData i c, ERR_OK)"

text \<open>The death of the remote object of an entry removes the entry.\<close>

definition OnRemoteDied :: "state_callback_info \<Rightarrow> callback_cache \<Rightarrow> callback_cache" where
  "OnRemoteDied i c = fst (ContinueStateCallbackUnRegister i c)"

subsection \<open>Sequences of operations\<close>

datatype callback_op =
    OpRegister state_callback_info nat
  | OpUnRegister state_callback_info
  | OpNotify state_callback_info int string
  | OpDied state_callback_info

fun op_info :: "callback_op \<Rightarrow> state_callback_info" where
  "op_info (OpRegister i cb) = i"
| "op_info (OpUnRegister i) = i"
| "op_info (OpNotify i st msg) = i"
| "op_info (OpDied i) = i"

fun removes :: "callback_op \<Rightarrow> bool" where
  "removes (OpUnRegister i) = True"
| "removes (OpDied i) = True"
| "removes _ = False"

fun callback_step :: "parcel_env \<Rightarrow> callback_op \<Rightarrow> callback_cache \<Rightarrow> callback_cache \<times> callback_call list" where
  "callback_step env (OpRegister i cb) c = (case ContinueStateCallbackRegister env i cb c of (c', cs, _) \<Rightarrow> (c', cs))"
| "callback_step env (OpUnRegister i) c = (fst (ContinueStateCallbackUnRegister i c), [])"
| "callback_step env (OpNotify i st msg) c = (case NotifyQuickStartState env i st msg c of (c', cs, _) \<Rightarrow> (c', cs))"
| "callback_step env (OpDied i) c = (OnRemoteDied i c, [])"

text \<open>The calls of a sequence of operations, each with the key of the operation that made it.\<close>

fun callback_run :: "parcel_env \<Rightarrow> callback_op list \<Rightarrow> callback_cache \<Rightarrow> (callback_key \<times> callback_call) list" where
  "callback_run env [] c = []"
| "callback_run env (op # ops) c =
     (case callback_step env op c of (c', cs) \<Rightarrow> map (Pair (callback_key (op_info op))) cs @ callback_run env ops c')"

definition sent_for :: "state_callback_info \<Rightarrow> (callback_key \<times> callback_call) list \<Rightarrow> callback_call list" where
  "sent_for i xs = map snd (filter (\<lambda>x. fst x = callback_key i) xs)"

lemma sent_for_append [simp]: "sent_for i (xs @ ys) = sent_for i xs @ sent_for i ys"
  by (simp add: sent_for_def)

lemma sent_for_map: "sent_for i (map (Pair k) cs) = (if k = callback_key i then cs else [])"
  by (simp add: sent_for_def filter_map comp_def)

lemma callback_step_ok: "smap_ok c \<Longrightarrow> smap_ok (fst (callback_step env op c))"
  by (cases op)
    (auto simp: ContinueStateCallbackRegister_def NotifyQuickStartState_def AddStateCallbackData_def OnRemoteDied_def
      ContinueStateCallbackUnRegister_def RemoveStateCallbackData_def sm.ok_ins smap_ok_erase split: option.split)

text \<open>An entry is only ever made and removed, never changed.\<close>

lemma callback_step_find:
  assumes "smap_ok c" "smap_find c (callback_key i) = Some d" "\<not> (removes op \<and> callback_key (op_info op) = callback_key i)"
  shows "smap_find (fst (callback_step env op c)) (callback_key i) = Some d"
  using assms
  by (cases op)
    (auto simp: ContinueStateCallbackRegister_def NotifyQuickStartState_def AddStateCallbackData_def OnRemoteDied_def
      ContinueStateCallbackUnRegister_def RemoveStateCallbackData_def sm.find_ins sm.find_del split: option.split)

definition keeps_entry :: "state_callback_info \<Rightarrow> callback_op list \<Rightarrow> bool" where
  "keeps_entry i ops \<longleftrightarrow> (\<forall>op \<in> set ops. removes op \<longrightarrow> callback_key (op_info op) \<noteq> callback_key i)"

text \<open>What the operations on an entry send, as long as the entry stays.\<close>

definition notify_sends :: "parcel_env \<Rightarrow> state_callback_data \<Rightarrow> int \<Rightarrow> string \<Rightarrow> callback_call list" where
  "notify_sends env d st msg = (case remoteObject d of
     None \<Rightarrow> []
   | Some ro \<Rightarrow> if tokenWritten env \<and> stateWritten env \<and> messageWritten env then [CallContinueStateCallback ro st msg] else [])"

fun entry_sends :: "parcel_env \<Rightarrow> state_callback_data \<Rightarrow> callback_op \<Rightarrow> callback_call list" where
  "entry_sends env d (OpRegister i cb) = (if cbState d \<noteq> -1 then notify_sends env d (cbState d) (cbMessage d) else [])"
| "entry_sends env d (OpNotify i st msg) = notify_sends env d st msg"
| "entry_sends env d _ = []"

lemma callback_step_sends:
  "smap_find c (callback_key (op_info op)) = Some d \<Longrightarrow> snd (callback_step env op c) = entry_sends env d op"
  by (cases op)
    (auto simp: ContinueStateCallbackRegister_def NotifyQuickStartState_def FindStateCallbackData_def notify_sends_def
      split: option.split)

lemma callback_run_entry:
  assumes "smap_ok c" "smap_find c (callback_key i) = Some d" "keeps_entry i ops"
  shows "sent_for i (callback_run env ops c) =
     concat (map (\<lambda>op. if callback_key (op_info op) = callback_key i then entry_sends env d op else []) ops)"
  using assms
proof (induction ops arbitrary: c)
  case Nil
  then show ?case
    by (simp add: sent_for_def)
next
  case (Cons op ops)
  then have "smap_find (fst (callback_step env op c)) (callback_key i) = Some d" "keeps_entry i ops"
    using callback_step_find [of c i d op env] by (auto simp: keeps_entry_def)
  with Cons.IH [of "fst (callback_step env op c)"] Cons.prems show ?case
    using callback_step_ok [of c env op] callback_step_sends [of c op d env]
    by (auto simp: split_beta sent_for_map)
qed

text \<open>
  An application that registers before anything is reported for its ability gets every report
  for it, in order, until it unregisters or dies: whatever other applications do meanwhile, the
  calls made for it are one for each report, with its state and its message.
\<close>

fun reports :: "state_callback_info \<Rightarrow> callback_op \<Rightarrow> (int \<times> string) list" where
  "reports i (OpNotify j st msg) = (if callback_key j = callback_key i then [(st, msg)] else [])"
| "reports i _ = []"

theorem registered_gets_reports:
  assumes "smap_ok c" "smap_find c (callback_key i) = None" "keeps_entry i ops"
    and "tokenWritten env" "stateWritten env" "messageWritten env"
  shows "sent_for i (callback_run env (OpRegister i cb # ops) c) =
     CallAddDeathRecipient cb i # map (\<lambda>(st, msg). CallContinueStateCallback cb st msg) (concat (map (reports i) ops))"
proof -
  let ?d = "StateCallbackData\<lparr>diedListener := Some i, remoteObject := Some cb\<rparr>"
  let ?c = "smap_insert (callback_key i) ?d c"
  have entry: "smap_ok ?c" "smap_find ?c (callback_key i) = Some ?d"
    using assms(1,2) by (simp_all add: sm.ok_ins sm.find_ins)
  have "(if callback_key (op_info op) = callback_key i then entry_sends env ?d op else []) =
      map (\<lambda>(st, msg). CallContinueStateCallback cb st msg) (reports i op)" for op
    using assms(4-6) by (cases op) (auto simp: notify_sends_def StateCallbackData_def)
  then have "sent_for i (callback_run env ops ?c) =
      map (\<lambda>(st, msg). CallContinueStateCallback cb st msg) (concat (map (reports i) ops))"
    by (simp add: callback_run_entry [OF entry assms(3)] map_concat comp_def)
  with assms(2) show ?thesis
    by (simp add: ContinueStateCallbackRegister_def FindStateCallbackData_def AddStateCallbackData_def sent_for_def)
qed

theorem registered_gets_reports_witness:
  "sent_for \<lparr>cbMissionId = 1, cbBundleName = ''b'', cbModuleName = ''m'', cbAbilityName = ''a''\<rparr>
     (callback_run \<lparr>ERR_FLATTEN_OBJECT = 1, tokenWritten = True, stateWritten = True, messageWritten = True\<rparr>
       [OpRegister \<lparr>cbMissionId = 1, cbBundleName = ''b'', cbModuleName = ''m'', cbAbilityName = ''a''\<rparr> 5,
        OpNotify \<lparr>cbMissionId = 1, cbBundleName = ''b'', cbModuleName = ''m'', cbAbilityName = ''a''\<rparr> 0 ''ok''] []) =
   [CallAddDeathRecipient 5 \<lparr>cbMissionId = 1, cbBundleName = ''b'', cbModuleName = ''m'', cbAbilityName = ''a''\<rparr>,
    CallContinueStateCallback 5 0 ''ok'']"
  by (subst registered_gets_reports) (simp_all add: smap_find_def keeps_entry_def)

text \<open>
  An application that registers after the quick start was reported never hears of it, nor of
  any later report: the entry made by the report has no remote object, a registration that finds
  an entry changes only a copy of it, and storing the copy does not replace the entry. The report
  that the code keeps for this very case is never delivered.
\<close>

theorem report_before_registration_lost:
  assumes "smap_ok c" "smap_find c (callback_key i) = None" "keeps_entry i ops"
  shows "sent_for i (callback_run env (OpNotify i st msg # OpRegister i cb # ops) c) = []"
proof -
  let ?d = "StateCallbackData\<lparr>cbState := st, cbMessage := msg\<rparr>"
  let ?c = "smap_insert (callback_key i) ?d c"
  have entry: "smap_ok ?c" "smap_find ?c (callback_key i) = Some ?d"
    using assms(1,2) by (simp_all add: sm.ok_ins sm.find_ins)
  have "notify_sends env ?d st' msg' = []" for st' msg'
    by (simp add: notify_sends_def StateCallbackData_def)
  moreover from this have "entry_sends env ?d op = []" for op
    by (cases op) simp_all
  moreover have "keeps_entry i (OpRegister i cb # ops)"
    using assms(3) by (simp add: keeps_entry_def)
  ultimately have "sent_for i (callback_run env (OpRegister i cb # ops) ?c) = []"
    by (subst callback_run_entry [OF entry]) auto
  moreover have "callback_step env (OpNotify i st msg) c = (?c, [])"
    using assms(2) by (simp add: NotifyQuickStartState_def FindStateCallbackData_def AddStateCallbackData_def)
  ultimately show ?thesis
    by (subst callback_run.simps(2)) (simp del: callback_run.simps callback_step.simps)
qed

theorem report_before_registration_lost_witness:
  "sent_for \<lparr>cbMissionId = 1, cbBundleName = ''b'', cbModuleName = ''m'', cbAbilityName = ''a''\<rparr>
     (callback_run \<lparr>ERR_FLATTEN_OBJECT = 1, tokenWritten = True, stateWritten = True, messageWritten = True\<rparr>
       [OpNotify \<lparr>cbMissionId = 1, cbBundleName = ''b'', cbModuleName = ''m'', cbAbilityName = ''a''\<rparr> 0 ''ok'',
        OpRegister \<lparr>cbMissionId = 1, cbBundleName = ''b'', cbModuleName = ''m'', cbAbilityName = ''a''\<rparr> 5] []) = []"
  by (subst report_before_registration_lost) (simp_all add: smap_find_def keeps_entry_def)

end
