(* ===== verification/Base64.thy ===== *)
theory Base64
  imports Dms_Prelude
begin

text \<open>
  \<^verbatim>\<open>Base64Encode\<close> and \<^verbatim>\<open>Base64Decode\<close> of \<^verbatim>\<open>common/src/distributed_sched_utils.cpp\<close>, which carry parcels
  inside JSON texts. Both are loops that fill an array of three or four bytes and turn it over when it
  is full; the loop's array and its fill index are the list \<open>buf\<close>. The arithmetic is that of
  \<^verbatim>\<open>unsigned char\<close>, \<open>8 word\<close>. A text has fewer than \<open>2\<^sup>3\<^sup>1\<close> characters, so that its length is an \<^verbatim>\<open>int\<close>.
\<close>

definition BASE_64_CHARS :: string where
  "BASE_64_CHARS = ''ABCDEFGHIJKLMNOPQRSTUVWXYZabcdefghijklmnopqrstuvwxyz0123456789+/''"

definition base64_quad :: "byte \<Rightarrow> byte \<Rightarrow> byte \<Rightarrow> byte list" where
  "base64_quad a b c =
     [drop_bit 2 (a AND 0xfc),
      push_bit 4 (a AND 0x03) + drop_bit 4 (b AND 0xf0),
      push_bit 2 (b AND 0x0f) + drop_bit 6 (c AND 0xc0),
      c AND 0x3f]"

definition base64_triple :: "byte \<Rightarrow> byte \<Rightarrow> byte \<Rightarrow> byte \<Rightarrow> byte list" where
  "base64_triple p q r s =
     [push_bit 2 p + drop_bit 4 (q AND 0x30),
      push_bit 4 (q AND 0xf) + drop_bit 2 (r AND 0x3c),
      push_bit 6 (r AND 0x3) + s]"

definition base64_char :: "byte \<Rightarrow> char" where
  "base64_char v = BASE_64_CHARS ! unat v"

text \<open>Element \<open>j\<close> of the array when the elements from the fill index on are set to zero.\<close>

definition array_get :: "byte list \<Rightarrow> nat \<Rightarrow> byte" where
  "array_get buf j = (if j < length buf then buf ! j else 0)"

fun encode_loop :: "byte list \<Rightarrow> byte list \<Rightarrow> string" where
  "encode_loop buf [] =
     (if buf = [] then ''''
      else map base64_char (take (length buf + 1) (base64_quad (array_get buf 0) (array_get buf 1) (array_get buf 2)))
           @ replicate (3 - length buf) (CHR ''=''))"
| "encode_loop buf (x # xs) =
     (let buf' = buf @ [x] in
      if length buf' = 3
      then map base64_char (base64_quad (buf' ! 0) (buf' ! 1) (buf' ! 2)) @ encode_loop [] xs
      else encode_loop buf' xs)"

definition Base64Encode :: "byte list \<Rightarrow> string" where
  "Base64Encode bs = (if bs = [] then '''' else encode_loop [] bs)"

definition IsBase64 :: "char \<Rightarrow> bool" where
  "IsBase64 c \<longleftrightarrow>
     CHR ''0'' \<le> c \<and> c \<le> CHR ''9'' \<or> CHR ''A'' \<le> c \<and> c \<le> CHR ''Z'' \<or> CHR ''a'' \<le> c \<and> c \<le> CHR ''z'' \<or>
     c = CHR ''+'' \<or> c = CHR ''/''"

text \<open>
  \<^verbatim>\<open>BASE_64_CHARS.find\<close> stored in an \<^verbatim>\<open>unsigned char\<close>: a character that is not found gives \<^verbatim>\<open>npos\<close>, whose
  low byte is 255.
\<close>

definition base64_index :: "byte \<Rightarrow> byte" where
  "base64_index v = (case find (\<lambda>i. of_char (BASE_64_CHARS ! i) = v) [0..<length BASE_64_CHARS] of
     None \<Rightarrow> 255 | Some i \<Rightarrow> of_nat i)"

fun decode_rest :: "byte list \<Rightarrow> byte list" where
  "decode_rest buf =
     (if buf = [] then []
      else take (length buf - 1) (base64_triple (base64_index (array_get buf 0)) (base64_index (array_get buf 1))
        (base64_index (array_get buf 2)) (base64_index (array_get buf 3))))"

fun decode_loop :: "byte list \<Rightarrow> string \<Rightarrow> byte list" where
  "decode_loop buf [] = decode_rest buf"
| "decode_loop buf (c # cs) =
     (if c \<noteq> CHR ''='' \<and> IsBase64 c then
        (let buf' = buf @ [of_char c] in
         if length buf' = 4
         then base64_triple (base64_index (buf' ! 0)) (base64_index (buf' ! 1)) (base64_index (buf' ! 2)) (base64_index (buf' ! 3))
              @ decode_loop [] cs
         else decode_loop buf' cs)
      else decode_rest buf)"

definition Base64Decode :: "string \<Rightarrow> byte list" where
  "Base64Decode s = (if s = '''' then [] else decode_loop [] s)"

subsection \<open>The alphabet\<close>

lemma alphabet_list:
  "list_all (\<lambda>i. base64_index (of_char (BASE_64_CHARS ! i)) = of_nat i \<and> IsBase64 (BASE_64_CHARS ! i) \<and> BASE_64_CHARS ! i \<noteq> CHR ''='')
     [0..<64]"
  by code_simp

lemma alphabet_64:
  assumes "v < 64"
  shows "base64_index (of_char (base64_char v)) = v" "IsBase64 (base64_char v)" "base64_char v \<noteq> CHR ''=''"
proof -
  have "unat v < 64"
    using assms by (simp add: word_less_nat_alt)
  then have "unat v \<in> set [0..<64]"
    by simp
  then show "base64_index (of_char (base64_char v)) = v" "IsBase64 (base64_char v)" "base64_char v \<noteq> CHR ''=''"
    using alphabet_list unfolding list_all_iff base64_char_def by fastforce+
qed

subsection \<open>Three bytes and four digits\<close>

lemma below_8: "n < 8 \<Longrightarrow> n \<in> {0, 1, 2, 3, 4, 5, 6, 7 :: nat}"
  by auto

lemma byte_eqI:
  assumes "\<And>n. n \<in> {0, 1, 2, 3, 4, 5, 6, 7} \<Longrightarrow> bit (x :: byte) n = bit y n"
  shows "x = y"
proof (rule bit_word_eqI)
  fix n :: nat
  assume "n < LENGTH(8)"
  then have "n < 8"
    by simp
  then show "bit x n = bit y n"
    using assms below_8 by blast
qed

lemma byte_add_or:
  assumes "\<And>n. n \<in> {0, 1, 2, 3, 4, 5, 6, 7} \<Longrightarrow> \<not> bit (x :: byte) n \<or> \<not> bit y n"
  shows "x + y = x OR y"
proof (rule disjunctive_add)
  fix n
  have "bit x n \<Longrightarrow> n < 8"
    using bit_imp_le_length [of x n] by simp
  then show "\<not> bit x n \<or> \<not> bit y n"
    using assms below_8 by blast
qed

lemmas byte_bits = bit_simps numeral_2_eq_2 [symmetric] numeral_3_eq_3 [symmetric]

lemma base64_sums:
  "push_bit 4 (a AND 0x03) + drop_bit 4 (b AND 0xf0) = (push_bit 4 (a AND 0x03) OR drop_bit 4 (b AND 0xf0) :: byte)"
  "push_bit 2 (b AND 0x0f) + drop_bit 6 (c AND 0xc0) = (push_bit 2 (b AND 0x0f) OR drop_bit 6 (c AND 0xc0) :: byte)"
  "push_bit 2 x + drop_bit 4 (q AND 0x30) = (push_bit 2 x OR drop_bit 4 (q AND 0x30) :: byte)"
  "push_bit 4 (q AND 0xf) + drop_bit 2 (r AND 0x3c) = (push_bit 4 (q AND 0xf) OR drop_bit 2 (r AND 0x3c) :: byte)"
  "push_bit 6 (r AND 0x3) + (c AND 0x3f) = (push_bit 6 (r AND 0x3) OR (c AND 0x3f) :: byte)"
  by (rule byte_add_or, auto simp: byte_bits)+

lemma quad_or:
  "base64_quad a b c =
     [drop_bit 2 (a AND 0xfc), push_bit 4 (a AND 0x03) OR drop_bit 4 (b AND 0xf0),
      push_bit 2 (b AND 0x0f) OR drop_bit 6 (c AND 0xc0), c AND 0x3f]"
  unfolding base64_quad_def base64_sums ..

lemma triple_quad_or:
  "base64_triple (drop_bit 2 (a AND 0xfc)) (push_bit 4 (a AND 0x03) OR drop_bit 4 (b AND 0xf0))
     (push_bit 2 (b AND 0x0f) OR drop_bit 6 (c AND 0xc0)) (c AND 0x3f) = [a, b, c]"
  unfolding base64_triple_def base64_sums list.inject
  by (intro conjI byte_eqI) (auto simp: byte_bits)

lemma triple_quad: "base64_quad a b c = [p, q, r, s] \<Longrightarrow> base64_triple p q r s = [a, b, c]"
  using triple_quad_or [of a b c] unfolding quad_or list.inject by blast

lemma below_64: "\<not> bit (v :: byte) 6 \<Longrightarrow> \<not> bit v 7 \<Longrightarrow> v < 64"
proof -
  assume "\<not> bit v 6" "\<not> bit v 7"
  then have "take_bit 6 v = v"
    by (intro byte_eqI) (auto simp: byte_bits)
  then have "take_bit 6 (unat v) = unat v"
    by (metis unsigned_take_bit_eq)
  then have "unat v < 2 ^ 6"
    by (simp only: take_bit_nat_eq_self_iff)
  then show ?thesis
    by (simp add: word_less_nat_alt)
qed

lemma quad_small: "v \<in> set (base64_quad a b c) \<Longrightarrow> v < 64"
  unfolding quad_or by (auto simp: byte_bits intro!: below_64)

lemma array_get_simps [simp]:
  "array_get (x # xs) 0 = x"
  "array_get (x # xs) (Suc n) = array_get xs n"
  "array_get [] n = 0"
  by (simp_all add: array_get_def)

lemma quad_triple_prefix:
  assumes "base64_quad a b c = [p, q, r, s]"
  shows "take 1 (base64_triple p q x y) = [a]" "take 2 (base64_triple p q r y) = [a, b]"
  using triple_quad [OF assms] by (simp_all add: base64_triple_def)

lemma quad_cases:
  obtains p q r s where "base64_quad a b c = [p, q, r, s]" "p < 64" "q < 64" "r < 64" "s < 64"
proof -
  obtain p q r s where quad: "base64_quad a b c = [p, q, r, s]"
    by (simp add: base64_quad_def)
  have "set (base64_quad a b c) = {p, q, r, s}"
    unfolding quad by simp
  with quad show ?thesis
    using that quad_small [of _ a b c] by blast
qed

lemma decode_quad:
  "decode_loop [] (map base64_char (base64_quad a b c) @ cs) = [a, b, c] @ decode_loop [] cs"
proof -
  obtain p q r s where quad: "base64_quad a b c = [p, q, r, s]" "p < 64" "q < 64" "r < 64" "s < 64"
    by (rule quad_cases)
  then show ?thesis
    using triple_quad [OF quad(1)] by (simp add: alphabet_64 del: decode_rest.simps)
qed

lemma decode_last:
  "decode_loop [] (encode_loop [a] []) = [a]"
  "decode_loop [] (encode_loop [a, b] []) = [a, b]"
proof -
  obtain p q r s where quad: "base64_quad a 0 0 = [p, q, r, s]" "p < 64" "q < 64" "r < 64" "s < 64"
    by (rule quad_cases)
  then show "decode_loop [] (encode_loop [a] []) = [a]"
    using quad_triple_prefix(1) [OF quad(1)] by (simp add: alphabet_64 numeral_2_eq_2)
  obtain p q r s where quad: "base64_quad a b 0 = [p, q, r, s]" "p < 64" "q < 64" "r < 64" "s < 64"
    by (rule quad_cases)
  then show "decode_loop [] (encode_loop [a, b] []) = [a, b]"
    using quad_triple_prefix(2) [OF quad(1)] by (simp add: alphabet_64 numeral_2_eq_2)
qed

lemma base64_decode_encode: "Base64Decode (Base64Encode bs) = bs"
proof -
  have loop: "decode_loop [] (encode_loop [] bs) = bs"
  proof (induction bs rule: length_induct)
    case (1 bs)
    consider "bs = []" | a where "bs = [a]" | a b where "bs = [a, b]" | a b c cs where "bs = a # b # c # cs"
      by (metis list.exhaust)
    then show ?case
    proof cases
      case (4 a b c cs)
      then have "encode_loop [] bs = map base64_char (base64_quad a b c) @ encode_loop [] cs"
        by (simp add: eval_nat_numeral)
      with 1 4 show ?thesis
        by (simp only: decode_quad) simp
    qed (simp, simp_all add: decode_last del: encode_loop.simps(1) decode_loop.simps)
  qed
  have "encode_loop [] bs \<noteq> []" if "bs \<noteq> []"
    using that loop by (metis decode_loop.simps(1) decode_rest.simps)
  with loop show ?thesis
    by (simp add: Base64Decode_def Base64Encode_def)
qed

text \<open>
  C6: Decoding what was encoded gives the bytes back, for every sequence of bytes of any length, with
  and without padding.
\<close>

theorem base64_roundtrip: "Base64Decode (Base64Encode bs) = bs"
  by (rule base64_decode_encode)

text \<open>The encoded text has no zero byte and survives being passed as a C string.\<close>

lemma encode_loop_chars: "c \<in> set (encode_loop buf bs) \<Longrightarrow> IsBase64 c \<or> c = CHR ''=''"
proof (induction buf bs rule: encode_loop.induct)
  case (1 buf)
  then show ?case
    using alphabet_64(2) quad_small by (auto simp: in_set_replicate split: if_splits dest!: in_set_takeD)
next
  case (2 buf x xs)
  then show ?case
    using alphabet_64(2) quad_small by (auto simp: Let_def simp del: encode_loop.simps(1) split: if_splits)
qed

lemma encode_chars: "c \<in> set (Base64Encode bs) \<Longrightarrow> c \<noteq> CHR 0x00"
  using encode_loop_chars [of c "[]" bs]
  by (auto simp: Base64Encode_def IsBase64_def less_eq_char_def split: if_splits)

end
