(* ===== verification/Command_Json.thy ===== *)
theory Command_Json
  imports Continue_Sample Base64 "HOL-Library.Countable"
begin

text \<open>
  The JSON texts of the commands that the two devices of a continuation exchange
  (\<^verbatim>\<open>services/dtbschedmgr/src/continue/dsched_continue_event.cpp\<close>). Printing and parsing JSON is the
  library cJSON, outside this repository: values are \<open>cjson\<close>, \<open>jsonPrint\<close> and \<open>jsonParse\<close> are parameters, and
  the accessors of the library that the code uses are defined on the values. A number is the integer it
  was written as; \<open>valueint\<close> is that integer limited to the range of \<^verbatim>\<open>int\<close>, as cJSON documents.
  Marshalling wants, want parameters and ability infos into parcels belongs to other libraries and is a
  parameter as well.
\<close>

datatype cjson =
    CNumber int
  | CString string
  | CArray "cjson list"
  | CObject "(string \<times> cjson) list"
  | CBool bool
  | COther

definition valueint :: "int \<Rightarrow> int" where
  "valueint n = (if n \<ge> 2147483647 then 2147483647 else if n \<le> -2147483648 then -2147483648 else n)"

fun cJSON_GetObjectItemCaseSensitive :: "cjson \<Rightarrow> string \<Rightarrow> cjson option" where
  "cJSON_GetObjectItemCaseSensitive (CObject items) key = map_of items key"
| "cJSON_GetObjectItemCaseSensitive _ key = None"

text \<open>An item that must be a number, and one that must be a string.\<close>

definition number_item :: "cjson \<Rightarrow> string \<Rightarrow> int option" where
  "number_item j key = (case cJSON_GetObjectItemCaseSensitive j key of Some (CNumber n) \<Rightarrow> Some (valueint n) | _ \<Rightarrow> None)"

definition string_item :: "cjson \<Rightarrow> string \<Rightarrow> string option" where
  "string_item j key = (case cJSON_GetObjectItemCaseSensitive j key of Some (CString s) \<Rightarrow> Some s | _ \<Rightarrow> None)"

text \<open>\<^verbatim>\<open>cJSON_ArrayForEach\<close> over the children of an item, each of which must be a string; an absent item has none.\<close>

fun as_string :: "cjson \<Rightarrow> string option" where
  "as_string (CString s) = Some s"
| "as_string _ = None"

fun children :: "cjson option \<Rightarrow> cjson list" where
  "children (Some (CArray js)) = js"
| "children (Some (CObject items)) = map snd items"
| "children _ = []"

definition string_children :: "cjson \<Rightarrow> string \<Rightarrow> string list option" where
  "string_children j key = those (map as_string (children (cJSON_GetObjectItemCaseSensitive j key)))"

text \<open>\<^verbatim>\<open>c_str()\<close> given to a function that reads a C string: the characters before the first zero.\<close>

definition c_str :: "string \<Rightarrow> string" where
  "c_str s = takeWhile (\<lambda>c. c \<noteq> CHR 0x00) s"

record 'w json_lib =
  jsonPrint :: "cjson \<Rightarrow> string option"
  jsonParse :: "string \<Rightarrow> cjson option"
  dumpExtra :: "int option \<Rightarrow> string"
  wantToParcel :: "'w \<Rightarrow> byte list option"
  parcelToWant :: "byte list \<Rightarrow> 'w option"
  paramsToParcel :: "nat \<Rightarrow> byte list option"
  parcelToParams :: "byte list \<Rightarrow> nat option"
  abilityToParcel :: "byte list option"
  parcelIsAbility :: "byte list \<Rightarrow> bool"
  setDataCapacity :: "nat \<Rightarrow> bool"
  setDataSize :: "nat \<Rightarrow> bool"
  parcelMaxCapacity :: nat
  ACCOUNT_ID_KEY :: string
  USERID_ID_KEY :: string

definition ParcelToBase64Str :: "byte list \<Rightarrow> string" where
  "ParcelToBase64Str parcel = Base64Encode parcel"

definition Base64StrToParcel :: "'w json_lib \<Rightarrow> string \<Rightarrow> byte list option" where
  "Base64StrToParcel lib rawStr =
     (let str = Base64Decode rawStr in
      if \<not> setDataCapacity lib (length str) then None
      else if memcpy_s False (parcelMaxCapacity lib) False (length str) \<noteq> ERR_OK \<or> \<not> setDataSize lib (length str) then None
      else Some str)"

subsection \<open>The base of every command\<close>

definition cmd_base_default :: cmd_base where
  "cmd_base_default =
     \<lparr>cmdVersion = 0, cmdServiceType = 0, cmdSubServiceType = 0, cmdCommand = 0, cmdSrcDeviceId = '''', cmdSrcBundleName = '''',
      cmdSrcDeveloperId = '''', cmdDstDeviceId = '''', cmdDstBundleName = '''', cmdDstDeveloperId = '''', cmdContinueType = '''',
      cmdContinueByType = 0, cmdSourceMissionId = 0, cmdDmsVersion = 0\<rparr>"

definition MarshalBase :: "'w json_lib \<Rightarrow> 'a cmd_base_scheme \<Rightarrow> string option" where
  "MarshalBase lib c = jsonPrint lib (CObject
     [(''Version'', CNumber (cmdVersion c)), (''ServiceType'', CNumber (cmdServiceType c)),
      (''SubServiceType'', CNumber (cmdSubServiceType c)), (''Command'', CNumber (cmdCommand c)),
      (''SrcDeviceId'', CString (c_str (cmdSrcDeviceId c))), (''SrcBundleName'', CString (c_str (cmdSrcBundleName c))),
      (''SrcDeveloperId'', CString (c_str (cmdSrcDeveloperId c))), (''DstDeviceId'', CString (c_str (cmdDstDeviceId c))),
      (''DstBundleName'', CString (c_str (cmdDstBundleName c))), (''DstDeveloperId'', CString (c_str (cmdDstDeveloperId c))),
      (''ContinueType'', CString (c_str (cmdContinueType c))), (''ContinueByType'', CNumber (cmdContinueByType c)),
      (''SourceMissionId'', CNumber (cmdSourceMissionId c)), (''DmsVersion'', CNumber (cmdDmsVersion c))])"

text \<open>
  The item \<^verbatim>\<open>Command\<close> is written but not read: the command of an unmarshalled object keeps its initial
  value. The developer ids may be missing.
\<close>

definition UnmarshalBase :: "'w json_lib \<Rightarrow> string \<Rightarrow> cmd_base option" where
  "UnmarshalBase lib jsonStr = do {
     root \<leftarrow> jsonParse lib (c_str jsonStr);
     v \<leftarrow> number_item root ''Version'';
     st \<leftarrow> number_item root ''ServiceType'';
     sst \<leftarrow> number_item root ''SubServiceType'';
     cbt \<leftarrow> number_item root ''ContinueByType'';
     smi \<leftarrow> number_item root ''SourceMissionId'';
     dv \<leftarrow> number_item root ''DmsVersion'';
     sd \<leftarrow> string_item root ''SrcDeviceId'';
     sb \<leftarrow> string_item root ''SrcBundleName'';
     dd \<leftarrow> string_item root ''DstDeviceId'';
     db \<leftarrow> string_item root ''DstBundleName'';
     ct \<leftarrow> string_item root ''ContinueType'';
     let sdev = (case string_item root ''SrcDeveloperId'' of None \<Rightarrow> '''' | Some s \<Rightarrow> s);
     let ddev = (case string_item root ''DstDeveloperId'' of None \<Rightarrow> '''' | Some s \<Rightarrow> s);
     Some (cmd_base_default\<lparr>cmdVersion := v, cmdServiceType := st, cmdSubServiceType := sst, cmdContinueByType := cbt,
       cmdSourceMissionId := smi, cmdDmsVersion := dv, cmdSrcDeviceId := sd, cmdSrcBundleName := sb, cmdDstDeviceId := dd,
       cmdDstBundleName := db, cmdContinueType := ct, cmdSrcDeveloperId := sdev, cmdDstDeveloperId := ddev\<rparr>)
   }"

definition base_item :: "'w json_lib \<Rightarrow> cjson \<Rightarrow> cmd_base option" where
  "base_item lib root = do { baseCmdStr \<leftarrow> string_item root ''BaseCmd''; UnmarshalBase lib baseCmdStr }"

subsection \<open>Start, reply and end\<close>

definition MarshalStart :: "'w json_lib \<Rightarrow> start_cmd \<Rightarrow> string option" where
  "MarshalStart lib c = do {
     base \<leftarrow> MarshalBase lib c;
     parcel \<leftarrow> paramsToParcel lib (startWantParams c);
     jsonPrint lib (CObject [(''BaseCmd'', CString (c_str base)), (''Direction'', CNumber (startDirection c)),
       (''AppVersion'', CNumber (startAppVersion c)), (''WantParams'', CString (c_str (ParcelToBase64Str parcel)))])
   }"

definition UnmarshalStart :: "'w json_lib \<Rightarrow> string \<Rightarrow> start_cmd option" where
  "UnmarshalStart lib jsonStr = do {
     root \<leftarrow> jsonParse lib (c_str jsonStr);
     b \<leftarrow> base_item lib root;
     d \<leftarrow> number_item root ''Direction'';
     v \<leftarrow> number_item root ''AppVersion'';
     wp \<leftarrow> string_item root ''WantParams'';
     parcel \<leftarrow> Base64StrToParcel lib wp;
     params \<leftarrow> parcelToParams lib parcel;
     Some (cmd_base.extend b (start_cmd.fields d v params))
   }"

definition MarshalReply :: "'w json_lib \<Rightarrow> reply_cmd \<Rightarrow> string option" where
  "MarshalReply lib c = do {
     base \<leftarrow> MarshalBase lib c;
     jsonPrint lib (CObject [(''BaseCmd'', CString (c_str base)), (''ReplyCmd'', CNumber (replyCmd c)),
       (''AppVersion'', CNumber (replyAppVersion c)), (''Result'', CNumber (replyResult c)),
       (''Reason'', CString (c_str (replyReason c)))])
   }"

definition UnmarshalReply :: "'w json_lib \<Rightarrow> string \<Rightarrow> reply_cmd option" where
  "UnmarshalReply lib jsonStr = do {
     root \<leftarrow> jsonParse lib (c_str jsonStr);
     b \<leftarrow> base_item lib root;
     rc \<leftarrow> number_item root ''ReplyCmd'';
     v \<leftarrow> number_item root ''AppVersion'';
     r \<leftarrow> number_item root ''Result'';
     reason \<leftarrow> string_item root ''Reason'';
     Some (cmd_base.extend b (reply_cmd.fields rc v r reason))
   }"

definition MarshalEnd :: "'w json_lib \<Rightarrow> end_cmd \<Rightarrow> string option" where
  "MarshalEnd lib c = do {
     base \<leftarrow> MarshalBase lib c;
     jsonPrint lib (CObject [(''BaseCmd'', CString (c_str base)), (''Result'', CNumber (endResult c))])
   }"

definition UnmarshalEnd :: "'w json_lib \<Rightarrow> string \<Rightarrow> end_cmd option" where
  "UnmarshalEnd lib jsonStr = do {
     root \<leftarrow> jsonParse lib (c_str jsonStr);
     b \<leftarrow> base_item lib root;
     r \<leftarrow> number_item root ''Result'';
     Some (cmd_base.extend b (end_cmd.fields r))
   }"

subsection \<open>Data\<close>

definition account_info_default :: account_info where
  "account_info_default = \<lparr>accountType = 1, groupIdList = [], activeAccountId = '''', userId = -1\<rparr>"

text \<open>\<^verbatim>\<open>extraInfoJson.dump()\<close> prints the JSON value of another library; its only member is the version.\<close>

definition MarshalCallerInfo :: "'w json_lib \<Rightarrow> caller_info \<Rightarrow> string option" where
  "MarshalCallerInfo lib ci = jsonPrint lib (CObject
     [(''Uid'', CNumber (callerUid ci)), (''Pid'', CNumber (callerPid ci)), (''CallerType'', CNumber (callerType ci)),
      (''SourceDeviceId'', CString (c_str (callerSourceDeviceId ci))), (''Duid'', CNumber (callerDuid ci)),
      (''CallerAppId'', CString (c_str (callerAppId ci))),
      (''BundleNames'', CArray (map (\<lambda>b. CString (c_str b)) (callerBundleNames ci))),
      (''ExtraInfo'', CString (c_str (dumpExtra lib (callerExtraDmsVersion ci))))])"

definition MarshalAccountInfo :: "'w json_lib \<Rightarrow> account_info \<Rightarrow> string option" where
  "MarshalAccountInfo lib ai = jsonPrint lib (CObject
     [(''AccountType'', CNumber (accountType ai)), (''GroupIdList'', CArray (map (\<lambda>g. CString (c_str g)) (groupIdList ai))),
      (ACCOUNT_ID_KEY lib, CString (c_str (activeAccountId ai))), (USERID_ID_KEY lib, CNumber (userId ai))])"

definition MarshalInner :: "'w json_lib \<Rightarrow> 'w data_cmd \<Rightarrow> (string \<times> cjson) list option" where
  "MarshalInner lib c = do {
     want \<leftarrow> wantToParcel lib (dataWant c);
     ability \<leftarrow> abilityToParcel lib;
     caller \<leftarrow> MarshalCallerInfo lib (dataCallerInfo c);
     account \<leftarrow> MarshalAccountInfo lib (dataAccountInfo c);
     Some [(''Want'', CString (c_str (ParcelToBase64Str want))), (''AbilityInfo'', CString (c_str (ParcelToBase64Str ability))),
       (''RequestCode'', CNumber (dataRequestCode c)), (''CallerInfo'', CString (c_str caller)),
       (''AccountInfo'', CString (c_str account))]
   }"

definition MarshalData :: "'w json_lib \<Rightarrow> 'w data_cmd \<Rightarrow> string option" where
  "MarshalData lib c = do {
     base \<leftarrow> MarshalBase lib c;
     items \<leftarrow> MarshalInner lib c;
     jsonPrint lib (CObject ((''BaseCmd'', CString (c_str base)) # items))
   }"

definition UnmarshalWantParcel :: "'w json_lib \<Rightarrow> cjson \<Rightarrow> 'w option" where
  "UnmarshalWantParcel lib root = do {
     wantStr \<leftarrow> string_item root ''Want'';
     parcel \<leftarrow> Base64StrToParcel lib wantStr;
     parcelToWant lib parcel
   }"

definition UnmarshalParcel :: "'w json_lib \<Rightarrow> string \<Rightarrow> 'w option" where
  "UnmarshalParcel lib jsonStr = do {
     root \<leftarrow> jsonParse lib (c_str jsonStr);
     want \<leftarrow> UnmarshalWantParcel lib root;
     abilityStr \<leftarrow> string_item root ''AbilityInfo'';
     parcel \<leftarrow> Base64StrToParcel lib abilityStr;
     if parcelIsAbility lib parcel then Some want else None
   }"

text \<open>
  The access token is taken from the extra info when it is there as a number. The version is taken
  from an item that is not a string and has a string value (\<open>dms_version_item\<close>); there is none.
\<close>

definition access_token_item :: "cjson \<Rightarrow> u32 option" where
  "access_token_item extra = (case cJSON_GetObjectItemCaseSensitive extra ''accessTokenID'' of
     Some (CNumber n) \<Rightarrow> Some (word_of_int (valueint n)) | _ \<Rightarrow> None)"

definition cJSON_IsString :: "cjson \<Rightarrow> bool" where
  "cJSON_IsString j = (case j of CString s \<Rightarrow> True | _ \<Rightarrow> False)"

definition dms_version_item :: "cjson \<Rightarrow> string option" where
  "dms_version_item extra = (case cJSON_GetObjectItemCaseSensitive extra ''dmsVersion'' of
     None \<Rightarrow> None
   | Some j \<Rightarrow> if \<not> cJSON_IsString j then as_string j else None)"

lemma dms_version_never_read: "dms_version_item extra = None"
  by (auto simp: dms_version_item_def cJSON_IsString_def split: option.split cjson.split)

definition UnmarshalCallerInfoExtra :: "'w json_lib \<Rightarrow> string \<Rightarrow> caller_info \<Rightarrow> caller_info option" where
  "UnmarshalCallerInfoExtra lib jsonStr ci = do {
     root \<leftarrow> jsonParse lib (c_str jsonStr);
     names \<leftarrow> string_children root ''BundleNames'';
     extraText \<leftarrow> string_item root ''ExtraInfo'';
     extra \<leftarrow> jsonParse lib extraText;
     let ci = ci\<lparr>callerBundleNames := names\<rparr>;
     let ci = (case access_token_item extra of None \<Rightarrow> ci | Some t \<Rightarrow> ci\<lparr>callerAccessToken := t\<rparr>);
     Some ci
   }"

definition UnmarshalCallerInfo :: "'w json_lib \<Rightarrow> string \<Rightarrow> caller_info \<Rightarrow> caller_info option" where
  "UnmarshalCallerInfo lib jsonStr ci = do {
     root \<leftarrow> jsonParse lib (c_str jsonStr);
     sd \<leftarrow> string_item root ''SourceDeviceId'';
     ca \<leftarrow> string_item root ''CallerAppId'';
     u \<leftarrow> number_item root ''Uid'';
     p \<leftarrow> number_item root ''Pid'';
     ct \<leftarrow> number_item root ''CallerType'';
     d \<leftarrow> number_item root ''Duid'';
     UnmarshalCallerInfoExtra lib jsonStr (ci\<lparr>callerSourceDeviceId := sd, callerAppId := ca, callerUid := u, callerPid := p,
       callerType := ct, callerDuid := d\<rparr>)
   }"

definition UnmarshalAccountInfo :: "'w json_lib \<Rightarrow> string \<Rightarrow> account_info \<Rightarrow> account_info option" where
  "UnmarshalAccountInfo lib jsonStr ai = do {
     root \<leftarrow> jsonParse lib (c_str jsonStr);
     t \<leftarrow> number_item root ''AccountType'';
     ids \<leftarrow> string_children root ''groupIdList'';
     let ai = ai\<lparr>accountType := t, groupIdList := ids\<rparr>;
     let ai = (case string_item root (ACCOUNT_ID_KEY lib) of None \<Rightarrow> ai | Some a \<Rightarrow> ai\<lparr>activeAccountId := a\<rparr>);
     let ai = (case number_item root (USERID_ID_KEY lib) of None \<Rightarrow> ai | Some u \<Rightarrow> ai\<lparr>userId := u\<rparr>);
     Some ai
   }"

definition UnmarshalData :: "'w json_lib \<Rightarrow> string \<Rightarrow> 'w data_cmd option" where
  "UnmarshalData lib jsonStr = do {
     root \<leftarrow> jsonParse lib (c_str jsonStr);
     b \<leftarrow> base_item lib root;
     want \<leftarrow> UnmarshalParcel lib jsonStr;
     rc \<leftarrow> number_item root ''RequestCode'';
     callerText \<leftarrow> string_item root ''CallerInfo'';
     ci \<leftarrow> UnmarshalCallerInfo lib callerText caller_info_default;
     accountText \<leftarrow> string_item root ''AccountInfo'';
     ai \<leftarrow> UnmarshalAccountInfo lib accountText account_info_default;
     Some (cmd_base.extend b (data_cmd.fields want rc ci ai))
   }"

subsection \<open>What the libraries promise\<close>

definition nul_free :: "string \<Rightarrow> bool" where
  "nul_free s \<longleftrightarrow> CHR 0x00 \<notin> set s"

definition int32_range :: "int \<Rightarrow> bool" where
  "int32_range n \<longleftrightarrow> -2147483648 \<le> n \<and> n \<le> 2147483647"

fun json_clean :: "cjson \<Rightarrow> bool" where
  "json_clean (CNumber n) = int32_range n"
| "json_clean (CString s) = nul_free s"
| "json_clean (CArray js) = list_all json_clean js"
| "json_clean (CObject items) = list_all (\<lambda>(k, j). nul_free k \<and> json_clean j) items"
| "json_clean (CBool b) = True"
| "json_clean COther = True"

text \<open>Parsing a printed value gives it back, for values with numbers of 32 bits and texts without zero bytes.\<close>

definition json_faithful :: "'w json_lib \<Rightarrow> bool" where
  "json_faithful lib \<longleftrightarrow>
     (\<forall>j. json_clean j \<longrightarrow> (\<exists>t. jsonPrint lib j = Some t \<and> nul_free t \<and> jsonParse lib t = Some j))"

fun extra_json :: "int option \<Rightarrow> cjson" where
  "extra_json None = COther"
| "extra_json (Some v) = CObject [(''dmsVersion'', CNumber v)]"

definition lib_faithful :: "'w json_lib \<Rightarrow> bool" where
  "lib_faithful lib \<longleftrightarrow> json_faithful lib \<and>
     (\<forall>e. nul_free (dumpExtra lib e) \<and> jsonParse lib (dumpExtra lib e) = Some (extra_json e)) \<and>
     nul_free (ACCOUNT_ID_KEY lib) \<and> nul_free (USERID_ID_KEY lib) \<and>
     distinct [''AccountType'', ''GroupIdList'', ''groupIdList'', ACCOUNT_ID_KEY lib, USERID_ID_KEY lib]"

definition parcel_ok :: "'w json_lib \<Rightarrow> byte list \<Rightarrow> bool" where
  "parcel_ok lib bs \<longleftrightarrow> setDataCapacity lib (length bs) \<and> setDataSize lib (length bs) \<and>
     length bs \<le> parcelMaxCapacity lib \<and> parcelMaxCapacity lib \<le> RSIZE_MAX"

lemma c_str_id [simp]: "nul_free s \<Longrightarrow> c_str s = s"
  by (auto simp: nul_free_def c_str_def takeWhile_eq_all_conv)

lemma valueint_id [simp]: "int32_range n \<Longrightarrow> valueint n = n"
  by (auto simp: int32_range_def valueint_def)

lemma parcel_text_roundtrip [simp]:
  assumes "parcel_ok lib bs"
  shows "Base64StrToParcel lib (ParcelToBase64Str bs) = Some bs"
  using assms by (simp add: Base64StrToParcel_def ParcelToBase64Str_def base64_decode_encode parcel_ok_def memcpy_s_ok_iff Let_def)

lemma parcel_text_clean [simp]: "nul_free (ParcelToBase64Str bs)"
  using encode_chars by (auto simp: nul_free_def ParcelToBase64Str_def)

lemma json_print:
  assumes "json_faithful lib" "json_clean j"
  obtains t where "jsonPrint lib j = Some t" "nul_free t" "jsonParse lib t = Some j"
  using assms by (auto simp: json_faithful_def)

lemma item_simps [simp]:
  "number_item (CObject items) k = (case map_of items k of Some (CNumber n) \<Rightarrow> Some (valueint n) | _ \<Rightarrow> None)"
  "string_item (CObject items) k = (case map_of items k of Some (CString s) \<Rightarrow> Some s | _ \<Rightarrow> None)"
  by (simp_all add: number_item_def string_item_def)

subsection \<open>Round trips\<close>

definition base_clean :: "'a cmd_base_scheme \<Rightarrow> bool" where
  "base_clean c \<longleftrightarrow>
     list_all int32_range [cmdVersion c, cmdServiceType c, cmdSubServiceType c, cmdCommand c, cmdContinueByType c,
       cmdSourceMissionId c, cmdDmsVersion c] \<and>
     list_all nul_free [cmdSrcDeviceId c, cmdSrcBundleName c, cmdSrcDeveloperId c, cmdDstDeviceId c, cmdDstBundleName c,
       cmdDstDeveloperId c, cmdContinueType c]"

lemma nul_free_text [simp]: "nul_free ''''" "nul_free (c # s) \<longleftrightarrow> c \<noteq> CHR 0x00 \<and> nul_free s"
  by (auto simp: nul_free_def)

lemma base_roundtrip:
  assumes "json_faithful lib" "base_clean c"
  obtains t where "MarshalBase lib c = Some t" "nul_free t" "UnmarshalBase lib t = Some ((cmd_base.truncate c)\<lparr>cmdCommand := 0\<rparr>)"
proof -
  let ?j = "CObject
     [(''Version'', CNumber (cmdVersion c)), (''ServiceType'', CNumber (cmdServiceType c)),
      (''SubServiceType'', CNumber (cmdSubServiceType c)), (''Command'', CNumber (cmdCommand c)),
      (''SrcDeviceId'', CString (cmdSrcDeviceId c)), (''SrcBundleName'', CString (cmdSrcBundleName c)),
      (''SrcDeveloperId'', CString (cmdSrcDeveloperId c)), (''DstDeviceId'', CString (cmdDstDeviceId c)),
      (''DstBundleName'', CString (cmdDstBundleName c)), (''DstDeveloperId'', CString (cmdDstDeveloperId c)),
      (''ContinueType'', CString (cmdContinueType c)), (''ContinueByType'', CNumber (cmdContinueByType c)),
      (''SourceMissionId'', CNumber (cmdSourceMissionId c)), (''DmsVersion'', CNumber (cmdDmsVersion c))]"
  have "json_clean ?j"
    using assms(2) by (simp add: base_clean_def)
  then obtain t where "jsonPrint lib ?j = Some t" "nul_free t" "jsonParse lib t = Some ?j"
    by (rule json_print [OF assms(1)])
  then have "MarshalBase lib c = Some t" "nul_free t" "UnmarshalBase lib t = Some ((cmd_base.truncate c)\<lparr>cmdCommand := 0\<rparr>)"
    using assms(2) by (simp_all add: MarshalBase_def UnmarshalBase_def base_clean_def cmd_base_default_def cmd_base.truncate_def)
  then show ?thesis ..
qed

lemma base_item_simp [simp]:
  "base_item lib (CObject ((''BaseCmd'', CString t) # items)) = UnmarshalBase lib t"
  by (simp add: base_item_def)

definition params_ok :: "'w json_lib \<Rightarrow> nat \<Rightarrow> bool" where
  "params_ok lib n \<longleftrightarrow> (\<exists>bs. paramsToParcel lib n = Some bs \<and> parcel_ok lib bs \<and> parcelToParams lib bs = Some n)"

lemma start_roundtrip:
  assumes "json_faithful lib" "base_clean c" "int32_range (startDirection c)" "int32_range (startAppVersion c)"
    and "params_ok lib (startWantParams c)"
  shows "\<exists>t. MarshalStart lib c = Some t \<and> nul_free t \<and> UnmarshalStart lib t = Some (c\<lparr>cmdCommand := 0\<rparr>)"
proof -
  obtain b where b: "MarshalBase lib c = Some b" "nul_free b" "UnmarshalBase lib b = Some ((cmd_base.truncate c)\<lparr>cmdCommand := 0\<rparr>)"
    by (rule base_roundtrip [OF assms(1,2)])
  obtain bs where bs: "paramsToParcel lib (startWantParams c) = Some bs" "parcel_ok lib bs"
      "parcelToParams lib bs = Some (startWantParams c)"
    using assms(5) by (auto simp: params_ok_def)
  let ?j = "CObject [(''BaseCmd'', CString b), (''Direction'', CNumber (startDirection c)),
       (''AppVersion'', CNumber (startAppVersion c)), (''WantParams'', CString (ParcelToBase64Str bs))]"
  have "json_clean ?j"
    using assms b(2) by simp
  then obtain t where "jsonPrint lib ?j = Some t" "nul_free t" "jsonParse lib t = Some ?j"
    by (rule json_print [OF assms(1)])
  then show ?thesis
    using b bs assms(3,4)
    by (simp add: MarshalStart_def UnmarshalStart_def cmd_base.defs start_cmd.defs)
qed

lemma reply_roundtrip:
  assumes "json_faithful lib" "base_clean c" "int32_range (replyCmd c)" "int32_range (replyAppVersion c)"
    and "int32_range (replyResult c)" "nul_free (replyReason c)"
  shows "\<exists>t. MarshalReply lib c = Some t \<and> nul_free t \<and> UnmarshalReply lib t = Some (c\<lparr>cmdCommand := 0\<rparr>)"
proof -
  obtain b where b: "MarshalBase lib c = Some b" "nul_free b" "UnmarshalBase lib b = Some ((cmd_base.truncate c)\<lparr>cmdCommand := 0\<rparr>)"
    by (rule base_roundtrip [OF assms(1,2)])
  let ?j = "CObject [(''BaseCmd'', CString b), (''ReplyCmd'', CNumber (replyCmd c)),
       (''AppVersion'', CNumber (replyAppVersion c)), (''Result'', CNumber (replyResult c)), (''Reason'', CString (replyReason c))]"
  have "json_clean ?j"
    using assms b(2) by simp
  then obtain t where "jsonPrint lib ?j = Some t" "nul_free t" "jsonParse lib t = Some ?j"
    by (rule json_print [OF assms(1)])
  then show ?thesis
    using b assms(3-6)
    by (simp add: MarshalReply_def UnmarshalReply_def cmd_base.defs reply_cmd.defs)
qed

lemma end_roundtrip:
  assumes "json_faithful lib" "base_clean c" "int32_range (endResult c)"
  shows "\<exists>t. MarshalEnd lib c = Some t \<and> nul_free t \<and> UnmarshalEnd lib t = Some (c\<lparr>cmdCommand := 0\<rparr>)"
proof -
  obtain b where b: "MarshalBase lib c = Some b" "nul_free b" "UnmarshalBase lib b = Some ((cmd_base.truncate c)\<lparr>cmdCommand := 0\<rparr>)"
    by (rule base_roundtrip [OF assms(1,2)])
  let ?j = "CObject [(''BaseCmd'', CString b), (''Result'', CNumber (endResult c))]"
  have "json_clean ?j"
    using assms b(2) by simp
  then obtain t where "jsonPrint lib ?j = Some t" "nul_free t" "jsonParse lib t = Some ?j"
    by (rule json_print [OF assms(1)])
  then show ?thesis
    using b assms(3) by (simp add: MarshalEnd_def UnmarshalEnd_def cmd_base.defs end_cmd.defs)
qed

definition caller_clean :: "caller_info \<Rightarrow> bool" where
  "caller_clean ci \<longleftrightarrow> list_all int32_range [callerUid ci, callerPid ci, callerType ci, callerDuid ci] \<and>
     nul_free (callerSourceDeviceId ci) \<and> nul_free (callerAppId ci) \<and> list_all nul_free (callerBundleNames ci)"

definition account_clean :: "account_info \<Rightarrow> bool" where
  "account_clean ai \<longleftrightarrow> int32_range (accountType ai) \<and> int32_range (userId ai) \<and> nul_free (activeAccountId ai) \<and>
     list_all nul_free (groupIdList ai)"

definition want_ok :: "'w json_lib \<Rightarrow> 'w \<Rightarrow> bool" where
  "want_ok lib w \<longleftrightarrow>
     (\<exists>bs. wantToParcel lib w = Some bs \<and> parcel_ok lib bs \<and> parcelToWant lib bs = Some w) \<and>
     (\<exists>bs. abilityToParcel lib = Some bs \<and> parcel_ok lib bs \<and> parcelIsAbility lib bs)"

text \<open>What is left of the caller and of the account at the other side.\<close>

definition received_caller :: "caller_info \<Rightarrow> caller_info" where
  "received_caller ci = ci\<lparr>callerAccessToken := 0, callerDmsVersion := -1, callerExtraDmsVersion := None\<rparr>"

definition received_account :: "account_info \<Rightarrow> account_info" where
  "received_account ai = ai\<lparr>groupIdList := []\<rparr>"

lemma those_strings [simp]: "those (map (as_string \<circ> (\<lambda>b. CString (c_str b))) xs) = Some (map c_str xs)"
  by (induction xs) auto

lemma map_c_str [simp]: "list_all nul_free xs \<Longrightarrow> map c_str xs = xs"
  by (induction xs) auto

lemma caller_roundtrip:
  assumes "lib_faithful lib" "caller_clean ci"
  obtains t where "MarshalCallerInfo lib ci = Some t" "nul_free t" "UnmarshalCallerInfo lib t caller_info_default = Some (received_caller ci)"
proof -
  let ?j = "CObject
     [(''Uid'', CNumber (callerUid ci)), (''Pid'', CNumber (callerPid ci)), (''CallerType'', CNumber (callerType ci)),
      (''SourceDeviceId'', CString (callerSourceDeviceId ci)), (''Duid'', CNumber (callerDuid ci)),
      (''CallerAppId'', CString (callerAppId ci)),
      (''BundleNames'', CArray (map (\<lambda>b. CString (c_str b)) (callerBundleNames ci))),
      (''ExtraInfo'', CString (dumpExtra lib (callerExtraDmsVersion ci)))]"
  have extra: "nul_free (dumpExtra lib e)" "jsonParse lib (dumpExtra lib e) = Some (extra_json e)" for e
    using assms(1) by (simp_all add: lib_faithful_def)
  have "json_clean ?j"
    using assms(2) extra by (simp add: caller_clean_def list_all_iff)
  moreover have "json_faithful lib"
    using assms(1) by (simp add: lib_faithful_def)
  ultimately obtain t where t: "jsonPrint lib ?j = Some t" "nul_free t" "jsonParse lib t = Some ?j"
    using json_print by blast
  have "access_token_item (extra_json e) = None" for e
    by (cases e) (simp_all add: access_token_item_def)
  with t have "MarshalCallerInfo lib ci = Some t" "nul_free t" "UnmarshalCallerInfo lib t caller_info_default = Some (received_caller ci)"
    using assms(2) extra
    by (simp_all add: MarshalCallerInfo_def UnmarshalCallerInfo_def UnmarshalCallerInfoExtra_def caller_clean_def
        string_children_def caller_info_default_def received_caller_def)
  then show ?thesis ..
qed

lemma account_roundtrip:
  assumes "lib_faithful lib" "account_clean ai"
  obtains t where "MarshalAccountInfo lib ai = Some t" "nul_free t" "UnmarshalAccountInfo lib t account_info_default = Some (received_account ai)"
proof -
  let ?j = "CObject
     [(''AccountType'', CNumber (accountType ai)), (''GroupIdList'', CArray (map (\<lambda>g. CString (c_str g)) (groupIdList ai))),
      (ACCOUNT_ID_KEY lib, CString (activeAccountId ai)), (USERID_ID_KEY lib, CNumber (userId ai))]"
  have keys: "nul_free (ACCOUNT_ID_KEY lib)" "nul_free (USERID_ID_KEY lib)"
      "distinct [''AccountType'', ''GroupIdList'', ''groupIdList'', ACCOUNT_ID_KEY lib, USERID_ID_KEY lib]" "json_faithful lib"
    using assms(1) by (simp_all add: lib_faithful_def)
  then have "json_clean ?j"
    using assms(2) by (simp add: account_clean_def list_all_iff)
  then obtain t where t: "jsonPrint lib ?j = Some t" "nul_free t" "jsonParse lib t = Some ?j"
    using json_print keys(4) by blast
  then have "MarshalAccountInfo lib ai = Some t" "nul_free t" "UnmarshalAccountInfo lib t account_info_default = Some (received_account ai)"
    using assms(2) keys
    by (auto simp: MarshalAccountInfo_def UnmarshalAccountInfo_def account_clean_def string_children_def account_info_default_def
        received_account_def)
  then show ?thesis ..
qed

lemma data_roundtrip:
  assumes "lib_faithful lib" "base_clean c" "int32_range (dataRequestCode c)" "caller_clean (dataCallerInfo c)"
    and "account_clean (dataAccountInfo c)" "want_ok lib (dataWant c)"
  shows "\<exists>t. MarshalData lib c = Some t \<and> nul_free t \<and>
     UnmarshalData lib t = Some (c\<lparr>cmdCommand := 0, dataCallerInfo := received_caller (dataCallerInfo c),
       dataAccountInfo := received_account (dataAccountInfo c)\<rparr>)"
proof -
  have faithful: "json_faithful lib"
    using assms(1) by (simp add: lib_faithful_def)
  obtain b where b: "MarshalBase lib c = Some b" "nul_free b" "UnmarshalBase lib b = Some ((cmd_base.truncate c)\<lparr>cmdCommand := 0\<rparr>)"
    by (rule base_roundtrip [OF faithful assms(2)])
  obtain ct where ct: "MarshalCallerInfo lib (dataCallerInfo c) = Some ct" "nul_free ct"
      "UnmarshalCallerInfo lib ct caller_info_default = Some (received_caller (dataCallerInfo c))"
    by (rule caller_roundtrip [OF assms(1,4)])
  obtain at where at: "MarshalAccountInfo lib (dataAccountInfo c) = Some at" "nul_free at"
      "UnmarshalAccountInfo lib at account_info_default = Some (received_account (dataAccountInfo c))"
    by (rule account_roundtrip [OF assms(1,5)])
  obtain ws as where parcels: "wantToParcel lib (dataWant c) = Some ws" "parcel_ok lib ws" "parcelToWant lib ws = Some (dataWant c)"
      "abilityToParcel lib = Some as" "parcel_ok lib as" "parcelIsAbility lib as"
    using assms(6) by (auto simp: want_ok_def)
  let ?j = "CObject [(''BaseCmd'', CString b), (''Want'', CString (ParcelToBase64Str ws)),
     (''AbilityInfo'', CString (ParcelToBase64Str as)), (''RequestCode'', CNumber (dataRequestCode c)),
     (''CallerInfo'', CString ct), (''AccountInfo'', CString at)]"
  have "json_clean ?j"
    using assms(3) b(2) ct(2) at(2) by simp
  then obtain t where "jsonPrint lib ?j = Some t" "nul_free t" "jsonParse lib t = Some ?j"
    by (rule json_print [OF faithful])
  then show ?thesis
    using b ct at parcels assms(3)
    by (simp add: MarshalData_def MarshalInner_def UnmarshalData_def UnmarshalParcel_def UnmarshalWantParcel_def
        cmd_base.defs data_cmd.defs)
qed

subsection \<open>Every command\<close>

fun Marshal :: "'w json_lib \<Rightarrow> 'w continue_cmd \<Rightarrow> string option" where
  "Marshal lib (StartCmd c) = MarshalStart lib c"
| "Marshal lib (DataCmd c) = MarshalData lib c"
| "Marshal lib (ReplyCmd c) = MarshalReply lib c"
| "Marshal lib (EndCmd c) = MarshalEnd lib c"

text \<open>Unmarshalling as the class of the command given.\<close>

fun Unmarshal_as :: "'w json_lib \<Rightarrow> 'w continue_cmd \<Rightarrow> string \<Rightarrow> 'w continue_cmd option" where
  "Unmarshal_as lib (StartCmd _) t = map_option StartCmd (UnmarshalStart lib t)"
| "Unmarshal_as lib (DataCmd _) t = map_option DataCmd (UnmarshalData lib t)"
| "Unmarshal_as lib (ReplyCmd _) t = map_option ReplyCmd (UnmarshalReply lib t)"
| "Unmarshal_as lib (EndCmd _) t = map_option EndCmd (UnmarshalEnd lib t)"

fun sendable :: "'w json_lib \<Rightarrow> 'w continue_cmd \<Rightarrow> bool" where
  "sendable lib (StartCmd c) \<longleftrightarrow> base_clean c \<and> int32_range (startDirection c) \<and> int32_range (startAppVersion c) \<and>
     params_ok lib (startWantParams c)"
| "sendable lib (DataCmd c) \<longleftrightarrow> base_clean c \<and> int32_range (dataRequestCode c) \<and> caller_clean (dataCallerInfo c) \<and>
     account_clean (dataAccountInfo c) \<and> want_ok lib (dataWant c)"
| "sendable lib (ReplyCmd c) \<longleftrightarrow> base_clean c \<and> int32_range (replyCmd c) \<and> int32_range (replyAppVersion c) \<and>
     int32_range (replyResult c) \<and> nul_free (replyReason c)"
| "sendable lib (EndCmd c) \<longleftrightarrow> base_clean c \<and> int32_range (endResult c)"

fun received :: "'w continue_cmd \<Rightarrow> 'w continue_cmd" where
  "received (StartCmd c) = StartCmd (c\<lparr>cmdCommand := 0\<rparr>)"
| "received (DataCmd c) = DataCmd (c\<lparr>cmdCommand := 0, dataCallerInfo := received_caller (dataCallerInfo c),
     dataAccountInfo := received_account (dataAccountInfo c)\<rparr>)"
| "received (ReplyCmd c) = ReplyCmd (c\<lparr>cmdCommand := 0\<rparr>)"
| "received (EndCmd c) = EndCmd (c\<lparr>cmdCommand := 0\<rparr>)"

lemma marshal_received:
  assumes "lib_faithful lib" "sendable lib cmd"
  shows "\<exists>t. Marshal lib cmd = Some t \<and> nul_free t \<and> Unmarshal_as lib cmd t = Some (received cmd)"
proof -
  have "json_faithful lib"
    using assms(1) by (simp add: lib_faithful_def)
  then show ?thesis
    using assms start_roundtrip reply_roundtrip end_roundtrip data_roundtrip by (cases cmd) fastforce+
qed

text \<open>
  C11: A command survives the way through its JSON text up to \<open>received\<close>: every start, reply, end and
  data command with 32 bit numbers and texts without zero bytes is printed, and unmarshalling the text
  gives the command back, but for the command number, which nobody reads, and in a data command the
  access token, the version and the group ids of the caller, which are lost.
\<close>

theorem command_roundtrip:
  assumes "lib_faithful lib" "sendable lib cmd"
  shows "\<exists>t. Marshal lib cmd = Some t \<and> Unmarshal_as lib cmd t = Some (received cmd)"
  using marshal_received [OF assms] by blast

text \<open>
  Whatever access token, version and groups the source device sends along, the permission checks of
  the sink device see the access token 0, no version and no group: the token and the version are not
  read from where the source writes them, and the groups are written under a key that differs from the
  one read in the case of its first letter.
\<close>

theorem data_loses_identity:
  assumes "lib_faithful lib" "sendable lib (DataCmd c)" "MarshalData lib c = Some t" "UnmarshalData lib t = Some c'"
  shows "callerAccessToken (dataCallerInfo c') = 0 \<and> callerExtraDmsVersion (dataCallerInfo c') = None \<and>
    groupIdList (dataAccountInfo c') = []"
  using marshal_received [OF assms(1,2)] assms(3,4) by (auto simp: received_caller_def received_account_def)

subsection \<open>A library that keeps the promises\<close>

text \<open>
  Printing a value as a row of as many characters as its number in an enumeration of all values, and
  parsing by counting them, is faithful.
\<close>

instance cjson :: countable
  by countable_datatype

definition sample_lib :: "sample_want json_lib" where
  "sample_lib = \<lparr>jsonPrint = (\<lambda>j. Some (replicate (to_nat j) (CHR ''x''))), jsonParse = (\<lambda>t. Some (from_nat (length t))),
     dumpExtra = (\<lambda>e. replicate (to_nat (extra_json e)) (CHR ''x'')),
     wantToParcel = (\<lambda>w. Some [1, 2, 3]), parcelToWant = (\<lambda>bs. Some (dataWant sample_data)),
     paramsToParcel = (\<lambda>n. Some [7]), parcelToParams = (\<lambda>bs. Some 0),
     abilityToParcel = Some [4], parcelIsAbility = (\<lambda>bs. True), setDataCapacity = (\<lambda>n. True), setDataSize = (\<lambda>n. True),
     parcelMaxCapacity = 204800, ACCOUNT_ID_KEY = ''accountId'', USERID_ID_KEY = ''userId''\<rparr>"

lemma nul_free_replicate [simp]: "nul_free (replicate n (CHR ''x''))"
  by (auto simp: nul_free_def)

lemma sample_lib_faithful: "lib_faithful sample_lib"
  by (auto simp: lib_faithful_def json_faithful_def sample_lib_def)

lemma sample_data_sendable: "sendable sample_lib (DataCmd sample_data)"
  by (simp add: sample_data_def sample_base_def base_clean_def int32_range_def caller_clean_def account_clean_def want_ok_def
      sample_lib_def parcel_ok_def caller_info_default_def sample_account_def RSIZE_MAX_def DMS_VERSION_def continue_kinds
      continue_commands)

theorem command_roundtrip_witness:
  "\<exists>t. Marshal sample_lib (DataCmd sample_data) = Some t \<and>
     Unmarshal_as sample_lib (DataCmd sample_data) t = Some (received (DataCmd sample_data))"
  by (rule command_roundtrip [OF sample_lib_faithful sample_data_sendable])

theorem data_loses_identity_witness:
  "\<exists>t c'. MarshalData sample_lib sample_data = Some t \<and> UnmarshalData sample_lib t = Some c' \<and>
     callerAccessToken (dataCallerInfo c') = 0 \<and> groupIdList (dataAccountInfo c') = []"
proof -
  obtain t c' where "MarshalData sample_lib sample_data = Some t" "UnmarshalData sample_lib t = Some c'"
    using marshal_received [OF sample_lib_faithful sample_data_sendable] by auto
  then show ?thesis
    using data_loses_identity [OF sample_lib_faithful sample_data_sendable] by blast
qed

subsection \<open>Texts and bytes\<close>

definition bytes_of :: "string \<Rightarrow> byte list" where
  "bytes_of s = map of_char s"

definition text_of :: "byte list \<Rightarrow> string" where
  "text_of bs = map (\<lambda>b. char_of (unat b)) bs"

lemma text_of_bytes [simp]: "text_of (bytes_of s) = s"
proof -
  have "char_of (unat (of_char c :: byte)) = c" for c
  proof -
    have "(of_char c :: byte) = word_of_nat (of_char c)"
      by (simp add: of_char_def horner_sum_eq_sum_funpow)
    then show ?thesis
      by (simp add: unsigned_of_nat take_bit_nat_eq_self)
  qed
  then show ?thesis
    by (simp add: text_of_def bytes_of_def comp_def)
qed

text \<open>The marshalling of a sender and the unmarshalling of a receiver with this library.\<close>

definition json_marshal :: "'w json_lib \<Rightarrow> 'w continue_cmd \<Rightarrow> ret \<times> byte list" where
  "json_marshal lib cmd = (case Marshal lib cmd of None \<Rightarrow> (INVALID_PARAMETERS_ERR, []) | Some t \<Rightarrow> (ERR_OK, bytes_of t))"

definition result_of :: "'a \<Rightarrow> 'a option \<Rightarrow> ret \<times> 'a" where
  "result_of dflt r = (case r of None \<Rightarrow> (INVALID_PARAMETERS_ERR, dflt) | Some c \<Rightarrow> (ERR_OK, c))"

definition json_parser :: "'w json_lib \<Rightarrow> 'w \<Rightarrow> 'w cmd_parser" where
  "json_parser lib w =
     \<lparr>unmarshalStart = (\<lambda>bs. result_of (cmd_base.extend cmd_base_default (start_cmd.fields 0 0 0)) (UnmarshalStart lib (text_of bs))),
      unmarshalData = (\<lambda>bs. result_of
        (cmd_base.extend cmd_base_default (data_cmd.fields w 0 caller_info_default account_info_default)) (UnmarshalData lib (text_of bs))),
      unmarshalReply = (\<lambda>bs. result_of (cmd_base.extend cmd_base_default (reply_cmd.fields 0 0 0 '''')) (UnmarshalReply lib (text_of bs))),
      unmarshalEnd = (\<lambda>bs. result_of (cmd_base.extend cmd_base_default (end_cmd.fields 0)) (UnmarshalEnd lib (text_of bs)))\<rparr>"

end
