(* ===== verification/Continue_Manager.thy ===== *)
theory Continue_Manager
  imports Continue_Liveness State_Callback Command_Json
begin

text \<open>
  \<^verbatim>\<open>DSchedContinueManager\<close> (\<^verbatim>\<open>services/dtbschedmgr/src/continue/dsched_continue_manager.cpp\<close>): the map of
  the continuations in progress, the requests of the applications and of the peer devices, the
  limit on concurrent continuations and the time-outs.

  The public operations check their arguments on the caller's thread and post a task; the tasks run
  one after the other on the manager's thread. \<open>tasks\<close> are the tasks posted without a name, oldest
  first; \<open>timers\<close> the delayed tasks, which have a name and can be removed. The map is ordered by
  \<^verbatim>\<open>operator<\<close> of \<^verbatim>\<open>DSchedContinueInfo\<close>, which compares the texts \<open>compareInfo\<close>; they are the keys here.
  The objects of the map are \<open>cworld\<close>s: an operation of the manager on an object is the program of
  \<open>Continue_Object\<close> run on it, with the session id of the window handler, which all objects share.

  With \<^verbatim>\<open>DMSFWK_ALL_CONNECT_MGR\<close> (the flag \<open>allConnectMgr\<close>) the manager's thread waits for the decision
  on the connection before it sets the time-out: \<open>waiting\<close> holds the arguments while it does.
\<close>

abbreviation GET_LOCAL_DEVICE_ERR :: ret where "GET_LOCAL_DEVICE_ERR \<equiv> 29360144"

definition MAX_CONCURRENT_SINK :: int where "MAX_CONCURRENT_SINK = 1"
definition MAX_CONCURRENT_SOURCE :: int where "MAX_CONCURRENT_SOURCE = 1"
definition CONTINUE_TIMEOUT :: int where "CONTINUE_TIMEOUT = 10000"

subsection \<open>Names of the time-outs\<close>

definition GetAnonymStr :: "string \<Rightarrow> string" where
  "GetAnonymStr value =
     (if length value < 6 then ''******''
      else if length value \<le> 20 then [value ! 0] @ ''******'' @ [value ! (length value - 1)]
      else take 4 value @ ''******'' @ drop (length value - 4) value)"

definition ToStringIgnoreMissionId :: "continue_info \<Rightarrow> string" where
  "ToStringIgnoreMissionId i =
     ''SrcDevId: '' @ GetAnonymStr (sourceDeviceId i) @ '' '' @ ''SrcBundle: '' @ sourceBundleName i @ '' '' @
     ''DstDevId: '' @ GetAnonymStr (sinkDeviceId i) @ '' '' @ ''DstBundle: '' @ sinkBundleName i @ '' '' @
     ''ContiType: '' @ continueType i"

subsection \<open>State\<close>

datatype 'w manager_task =
    TaskContinueMissionById string string int "nat option" nat
  | TaskContinueMission continue_info "nat option" nat
  | TaskStartContinuation 'w int int ret u32
  | TaskNotifyComplete string int bool string
  | TaskContinueEnd continue_info
  | TaskDataRecv int "data_buffer option"
  | TaskShutdown int
  | TaskTimeout continue_info

datatype manager_call =
    CallInitChannel
  | CallRegisterListener
  | CallUnregisterListener
  | CallStateCallback callback_call

record 'w cmanager =
  hasInit :: bool
  managerHandler :: bool
  continues :: "(string, 'w cworld) smap"
  cntSink :: int
  cntSource :: int
  peerConnectDecision :: "(string, bool) smap"
  tasks :: "'w manager_task list"
  timers :: "(string \<times> continue_info \<times> int) list"
  waiting :: "(int \<times> continue_info \<times> int) option"
  sceneId :: string
  stateCallbackCache :: callback_cache
  managerCalls :: "manager_call list"

definition DSchedContinueManager :: "'w cmanager" where
  "DSchedContinueManager =
     \<lparr>hasInit = False, managerHandler = False, continues = [], cntSink = 0, cntSource = 0, peerConnectDecision = [],
      tasks = [], timers = [], waiting = None, sceneId = '''', stateCallbackCache = [], managerCalls = []\<rparr>"

record mission_status =
  launchFlag :: u32
  statusBundleName :: string
  statusAbilityName :: string

text \<open>What the services answer during one step of the manager.\<close>

record 'w manager_env =
  continueEnv :: "'w continue_env"
  cmdParser :: "'w cmd_parser"
  parcelEnv :: parcel_env
  allConnectMgr :: bool
  knownDevice :: "string \<Rightarrow> bool"
  foregroundUser :: int
  getMissionStatus :: "int \<Rightarrow> int \<Rightarrow> ret \<times> mission_status"
  parseJson :: "string \<Rightarrow> cjson option"

subsection \<open>Objects of the map\<close>

text \<open>An operation on an object of the map.\<close>

definition on_object :: "('w, 'a) prog \<Rightarrow> string \<Rightarrow> 'w cmanager \<Rightarrow> 'w cmanager" where
  "on_object p k m = (case smap_find (continues m) k of
     None \<Rightarrow> m
   | Some w \<Rightarrow>
       (let w' = exec p (w\<lparr>sceneSessionId := sceneId m\<rparr>)
        in m\<lparr>continues := smap_put k w' (continues m), sceneId := sceneSessionId w'\<rparr>))"

text \<open>The first entry, in the order of the map, that satisfies a condition: its key and its object.\<close>

definition first_entry :: "('w cworld \<Rightarrow> bool) \<Rightarrow> 'w cmanager \<Rightarrow> (string \<times> 'w cworld) option" where
  "first_entry P m = find (\<lambda>e. P (snd e)) (continues m)"

definition PostTask :: "'w manager_task \<Rightarrow> 'w cmanager \<Rightarrow> 'w cmanager \<times> ret" where
  "PostTask t m = (if \<not> managerHandler m then (m, INVALID_PARAMETERS_ERR) else (m\<lparr>tasks := tasks m @ [t]\<rparr>, ERR_OK))"

subsection \<open>Start and stop of the manager\<close>

definition Init_mgr :: "'w cmanager \<Rightarrow> 'w cmanager" where
  "Init_mgr m =
     (if hasInit m then m
      else if managerHandler m then m\<lparr>hasInit := True\<rparr>
      else m\<lparr>hasInit := True, managerCalls := managerCalls m @ [CallInitChannel, CallRegisterListener],
             managerHandler := True\<rparr>)"

text \<open>Stopping the event runner drops what is posted.\<close>

definition UnInit :: "'w cmanager \<Rightarrow> 'w cmanager" where
  "UnInit m =
     (if \<not> hasInit m then m
      else m\<lparr>hasInit := False, managerCalls := managerCalls m @ [CallUnregisterListener], continues := [],
             cntSink := 0, cntSource := 0, managerHandler := False, tasks := [], timers := []\<rparr>)"

subsection \<open>Time-outs\<close>

definition SetTimeOut :: "continue_info \<Rightarrow> int \<Rightarrow> 'w cmanager \<Rightarrow> 'w cmanager" where
  "SetTimeOut info timeout m =
     (if \<not> managerHandler m then m
      else if timeout > 0 then m\<lparr>timers := timers m @ [(ToStringIgnoreMissionId info, info, timeout)]\<rparr>
      else m\<lparr>tasks := tasks m @ [TaskTimeout info]\<rparr>)"

definition RemoveTimeout :: "continue_info \<Rightarrow> 'w cmanager \<Rightarrow> 'w cmanager" where
  "RemoveTimeout info m =
     (if \<not> managerHandler m then m
      else m\<lparr>timers := filter (\<lambda>t. fst t \<noteq> ToStringIgnoreMissionId info) (timers m)\<rparr>)"

text \<open>The function posted by \<^verbatim>\<open>SetTimeOut\<close>.\<close>

definition continue_timeout :: "'w manager_env \<Rightarrow> continue_info \<Rightarrow> 'w cmanager \<Rightarrow> 'w cmanager" where
  "continue_timeout env info m =
     (if smap_find (continues m) (compareInfo info) = None then m
      else on_object (OnContinueEnd (continueEnv env) CONTINUE_ABILITY_TIMEOUT_ERR) (compareInfo info) m)"

subsection \<open>The decision on the connection\<close>

definition NotifyAllConnectDecision :: "'w manager_env \<Rightarrow> string \<Rightarrow> bool \<Rightarrow> 'w cmanager \<Rightarrow> 'w cmanager" where
  "NotifyAllConnectDecision env peer isSupport m =
     (if allConnectMgr env then m\<lparr>peerConnectDecision := smap_put peer isSupport (peerConnectDecision m)\<rparr> else m)"

definition peer_of :: "int \<Rightarrow> continue_info \<Rightarrow> string" where
  "peer_of dir info = (if dir = CONTINUE_SOURCE then sinkDeviceId info else sourceDeviceId info)"

definition WaitAllConnectDecision :: "'w manager_env \<Rightarrow> int \<Rightarrow> continue_info \<Rightarrow> int \<Rightarrow> 'w cmanager \<Rightarrow> 'w cmanager" where
  "WaitAllConnectDecision env dir info timeout m =
     (if allConnectMgr env then m\<lparr>waiting := Some (dir, info, timeout)\<rparr> else SetTimeOut info timeout m)"

text \<open>
  The wait ends when the peer has agreed, or after \<^verbatim>\<open>CONNECT_DECISION_WAIT_S\<close> seconds; then the rest of
  \<^verbatim>\<open>WaitAllConnectDecision\<close> runs.
\<close>

definition decision_known :: "'w cmanager \<Rightarrow> bool" where
  "decision_known m = (case waiting m of
     None \<Rightarrow> False
   | Some (dir, info, timeout) \<Rightarrow> smap_find (peerConnectDecision m) (peer_of dir info) = Some True)"

definition AfterConnectDecision :: "'w cmanager \<Rightarrow> 'w cmanager" where
  "AfterConnectDecision m = (case waiting m of
     None \<Rightarrow> m
   | Some (dir, info, timeout) \<Rightarrow>
       (let m' = m\<lparr>waiting := None\<rparr>; peer = peer_of dir info in
        case smap_find (peerConnectDecision m) peer of
          None \<Rightarrow> SetTimeOut info 0 m'
        | Some False \<Rightarrow> SetTimeOut info 0 (m'\<lparr>peerConnectDecision := smap_erase peer (peerConnectDecision m)\<rparr>)
        | Some True \<Rightarrow> SetTimeOut info timeout (m'\<lparr>peerConnectDecision := smap_erase peer (peerConnectDecision m)\<rparr>)))"

subsection \<open>Requests\<close>

definition CheckContinuationLimit :: "'w manager_env \<Rightarrow> string \<Rightarrow> string \<Rightarrow> 'w cmanager \<Rightarrow> ret \<times> int" where
  "CheckContinuationLimit env srcDevice dstDevice m =
     (case storageLocalDeviceId (continueEnv env) of
        None \<Rightarrow> (GET_LOCAL_DEVICE_ERR, CONTINUE_SINK)
      | Some localDevId \<Rightarrow>
          if dstDevice = localDevId then
            (if cntSink m \<ge> MAX_CONCURRENT_SINK then (CONTINUE_ALREADY_IN_PROGRESS, CONTINUE_SINK)
             else if \<not> knownDevice env srcDevice then (INVALID_PARAMETERS_ERR, CONTINUE_SINK)
             else (ERR_OK, CONTINUE_SINK))
          else if srcDevice = localDevId then
            (if cntSource m \<ge> MAX_CONCURRENT_SOURCE then (CONTINUE_ALREADY_IN_PROGRESS, CONTINUE_SINK)
             else if \<not> knownDevice env dstDevice then (INVALID_PARAMETERS_ERR, CONTINUE_SINK)
             else (ERR_OK, CONTINUE_SOURCE))
          else (OPERATION_DEVICE_NOT_INITIATOR_OR_TARGET, CONTINUE_SINK))"

text \<open>
  The checks that both forms of \<^verbatim>\<open>ContinueMission\<close> begin with: the error of the first
  that fails, or the local device.
\<close>

definition check_request :: "'w manager_env \<Rightarrow> string \<Rightarrow> string \<Rightarrow> nat option \<Rightarrow> ret + string" where
  "check_request env srcDevice dstDevice cb =
     (if srcDevice = '''' \<or> dstDevice = '''' \<or> cb = None then Inl INVALID_PARAMETERS_ERR
      else case storageLocalDeviceId (continueEnv env) of
        None \<Rightarrow> Inl INVALID_PARAMETERS_ERR
      | Some localDevId \<Rightarrow>
          if localDevId \<noteq> srcDevice \<and> localDevId \<noteq> dstDevice then Inl OPERATION_DEVICE_NOT_INITIATOR_OR_TARGET
          else if \<not> knownDevice env (if localDevId = srcDevice then dstDevice else srcDevice)
          then Inl INVALID_REMOTE_PARAMETERS_ERR
          else Inr localDevId)"

definition ContinueMissionById ::
    "'w manager_env \<Rightarrow> string \<Rightarrow> string \<Rightarrow> int \<Rightarrow> nat option \<Rightarrow> nat \<Rightarrow> 'w cmanager \<Rightarrow> 'w cmanager \<times> ret" where
  "ContinueMissionById env srcDevice dstDevice mid cb params m =
     (case check_request env srcDevice dstDevice cb of
        Inl r \<Rightarrow> (m, r)
      | Inr localDevId \<Rightarrow> PostTask (TaskContinueMissionById srcDevice dstDevice mid cb params) m)"

definition ContinueMission ::
    "'w manager_env \<Rightarrow> continue_info \<Rightarrow> nat option \<Rightarrow> nat \<Rightarrow> 'w cmanager \<Rightarrow> 'w cmanager \<times> ret" where
  "ContinueMission env info cb params m =
     (case check_request env (sourceDeviceId info) (sinkDeviceId info) cb of
        Inl r \<Rightarrow> (m, r)
      | Inr localDevId \<Rightarrow>
          if supportDistributedMissionManager (continueEnv env) \<and> localDevId = sourceDeviceId info \<and>
             fst (condGetMissionIdByBundleName (continueEnv env) (foregroundUser env) (sinkBundleName info) (-1)) \<noteq> ERR_OK
          then (m, INVALID_PARAMETERS_ERR)
          else PostTask (TaskContinueMission info cb params) m)"

text \<open>The first ability with the continue type and a non-empty list of continue bundle names.\<close>

fun first_continue_bundle :: "string \<Rightarrow> dms_ability_info list \<Rightarrow> string option" where
  "first_continue_bundle t [] = None"
| "first_continue_bundle t (a # as) =
     (if t \<in> set (dmsContinueTypes a) \<and> dmsContinueBundleNames a \<noteq> [] then Some (hd (dmsContinueBundleNames a))
      else first_continue_bundle t as)"

definition GetFirstBundleName :: "'w manager_env \<Rightarrow> continue_info \<Rightarrow> string \<Rightarrow> string \<Rightarrow> string option" where
  "GetFirstBundleName env info bundle device =
     (case getDistributedBundleInfo (continueEnv env) device bundle of
        None \<Rightarrow> None
      | Some abilities \<Rightarrow> first_continue_bundle (continueType info) abilities)"

definition HandleContinueMissionWithBundleName ::
    "'w manager_env \<Rightarrow> continue_info \<Rightarrow> nat \<Rightarrow> nat \<Rightarrow> 'w cmanager \<Rightarrow> 'w cmanager" where
  "HandleContinueMissionWithBundleName env info cb params m =
     (case CheckContinuationLimit env (sourceDeviceId info) (sinkDeviceId info) m of (r, dir) \<Rightarrow>
        if r \<noteq> ERR_OK then m
        else
          let m1 = (if dir = CONTINUE_SOURCE then m\<lparr>cntSource := cntSource m + 1\<rparr> else m\<lparr>cntSink := cntSink m + 1\<rparr>);
              sub = (if dir = CONTINUE_SOURCE then CONTINUE_PUSH else CONTINUE_PULL);
              info' = (if dir \<noteq> CONTINUE_SOURCE \<and> sourceBundleName info = ''''
                       then (case GetFirstBundleName env info (sinkBundleName info) (sinkDeviceId info) of
                               None \<Rightarrow> info
                             | Some name \<Rightarrow> info\<lparr>sourceBundleName := name\<rparr>)
                       else info)
          in if smap_find (continues m1) (compareInfo info') \<noteq> None then m1
             else
               let w = exec Init (DSchedContinueLocal (continueEnv env) (sceneId m1) sub dir cb info' (foregroundUser env));
                   m2 = m1\<lparr>continues := smap_insert (compareInfo info') w (continues m1)\<rparr>;
                   m3 = (if allConnectMgr env
                         then m2\<lparr>peerConnectDecision := smap_erase (peer_of dir info') (peerConnectDecision m2)\<rparr> else m2);
                   m4 = on_object (OnContinueMission (continueEnv env) params) (compareInfo info') m3
               in WaitAllConnectDecision env dir info' CONTINUE_TIMEOUT m4)"

definition HandleContinueMissionById ::
    "'w manager_env \<Rightarrow> string \<Rightarrow> string \<Rightarrow> int \<Rightarrow> nat option \<Rightarrow> nat \<Rightarrow> 'w cmanager \<Rightarrow> 'w cmanager" where
  "HandleContinueMissionById env srcDevice dstDevice mid cb params m =
     (case cb of
        None \<Rightarrow> m
      | Some c \<Rightarrow>
          if srcDevice = '''' \<or> dstDevice = '''' then m
          else case storageLocalDeviceId (continueEnv env) of
            None \<Rightarrow> m
          | Some localDevId \<Rightarrow>
              (let info = DSchedContinueInfo3 srcDevice dstDevice mid;
                   (r, mission) = getMissionInfo (continueEnv env) mid;
                   info' = (if r = ERR_OK \<and> srcDevice = localDevId
                            then info\<lparr>sourceBundleName := missionBundle mission, sinkBundleName := missionBundle mission\<rparr>
                            else info)
               in HandleContinueMissionWithBundleName env info' c params m))"

definition HandleContinueMission ::
    "'w manager_env \<Rightarrow> continue_info \<Rightarrow> nat option \<Rightarrow> nat \<Rightarrow> 'w cmanager \<Rightarrow> 'w cmanager" where
  "HandleContinueMission env info cb params m =
     (case cb of
        None \<Rightarrow> m
      | Some c \<Rightarrow>
          if sourceDeviceId info = '''' \<or> sinkDeviceId info = '''' then m
          else HandleContinueMissionWithBundleName env
            (DSchedContinueInfo5 (sourceDeviceId info)
              (if sourceBundleName info = '''' then sinkBundleName info else sourceBundleName info)
              (sinkDeviceId info) (sinkBundleName info) (continueType info)) c params m)"

subsection \<open>Messages of the ability manager\<close>

definition GetDSchedContinueByWant :: "'w manager_env \<Rightarrow> 'w \<Rightarrow> int \<Rightarrow> 'w cmanager \<Rightarrow> (string \<times> 'w cworld) option" where
  "GetDSchedContinueByWant env want mid m =
     (case storageLocalDeviceId (continueEnv env) of
        None \<Rightarrow> None
      | Some srcDevice \<Rightarrow>
          first_entry (\<lambda>w. srcDevice = sourceDeviceId (continueInfo w) \<and>
            GetElementBundleName (wapi (continueEnv env)) want = sourceBundleName (continueInfo w) \<and>
            GetElementDeviceID (wapi (continueEnv env)) want = sinkDeviceId (continueInfo w)) m)"

definition StartContinuation ::
    "'w manager_env \<Rightarrow> 'w \<Rightarrow> int \<Rightarrow> int \<Rightarrow> ret \<Rightarrow> u32 \<Rightarrow> 'w cmanager \<Rightarrow> 'w cmanager \<times> ret" where
  "StartContinuation env want mid uid status accessToken m =
     (if \<not> knownDevice env (GetElementDeviceID (wapi (continueEnv env)) want) then (m, INVALID_REMOTE_PARAMETERS_ERR)
      else if GetDSchedContinueByWant env want mid m = None then (m, INVALID_REMOTE_PARAMETERS_ERR)
      else PostTask (TaskStartContinuation want mid uid status accessToken) m)"

definition HandleStartContinuation ::
    "'w manager_env \<Rightarrow> 'w \<Rightarrow> int \<Rightarrow> int \<Rightarrow> ret \<Rightarrow> u32 \<Rightarrow> 'w cmanager \<Rightarrow> 'w cmanager" where
  "HandleStartContinuation env want mid uid status accessToken m =
     (case GetDSchedContinueByWant env want mid m of
        None \<Rightarrow> m
      | Some (k, w) \<Rightarrow> on_object (OnStartContinuation (continueEnv env) want uid status accessToken) k m)"

definition GetDSchedContinueByDevId :: "string \<Rightarrow> int \<Rightarrow> 'w cmanager \<Rightarrow> (string \<times> 'w cworld) option" where
  "GetDSchedContinueByDevId device mid m = first_entry (\<lambda>w. device = sourceDeviceId (continueInfo w)) m"

definition NotifyCompleteContinuation ::
    "string \<Rightarrow> int \<Rightarrow> bool \<Rightarrow> string \<Rightarrow> 'w cmanager \<Rightarrow> 'w cmanager \<times> ret" where
  "NotifyCompleteContinuation device mid isSuccess callerBundle m =
     PostTask (TaskNotifyComplete device mid isSuccess callerBundle) m"

definition HandleNotifyCompleteContinuation ::
    "'w manager_env \<Rightarrow> string \<Rightarrow> int \<Rightarrow> bool \<Rightarrow> string \<Rightarrow> 'w cmanager \<Rightarrow> 'w cmanager" where
  "HandleNotifyCompleteContinuation env device mid isSuccess callerBundle m =
     (case GetDSchedContinueByDevId device mid m of
        None \<Rightarrow> m
      | Some (k, w) \<Rightarrow>
          if sinkBundleName (continueInfo w) \<noteq> callerBundle then m
          else on_object (OnNotifyComplete (continueEnv env) mid isSuccess) k m)"

definition started_by_continue :: "'w want_api \<Rightarrow> u32 \<Rightarrow> bool" where
  "started_by_continue api flag \<longleftrightarrow>
     \<not> (and flag (FLAG_ABILITY_CONTINUATION api) \<noteq> FLAG_ABILITY_CONTINUATION api \<and>
        and flag (FLAG_ABILITY_PREPARE_CONTINUATION api) \<noteq> FLAG_ABILITY_PREPARE_CONTINUATION api)"

definition NotifyTerminateContinuation :: "'w manager_env \<Rightarrow> int \<Rightarrow> 'w cmanager \<Rightarrow> 'w cmanager" where
  "NotifyTerminateContinuation env mid m =
     (if continues m = [] then m
      else case getMissionStatus env (foregroundUser env) mid of (r, status) \<Rightarrow>
        if r \<noteq> ERR_OK then m
        else if \<not> started_by_continue (wapi (continueEnv env)) (launchFlag status) then m
        else case first_entry (\<lambda>w. statusBundleName status = sinkBundleName (continueInfo w) \<and>
               statusAbilityName status = sinkAbilityName (continueInfo w)) m of
          None \<Rightarrow> m
        | Some (k, w) \<Rightarrow> on_object (OnContinueEnd (continueEnv env) CONTINUE_SINK_ABILITY_TERMINATED) k m)"

subsection \<open>The end of a continuation\<close>

definition OnContinueEnd_mgr :: "continue_info \<Rightarrow> 'w cmanager \<Rightarrow> 'w cmanager \<times> ret" where
  "OnContinueEnd_mgr info m = PostTask (TaskContinueEnd info) m"

definition HandleContinueEnd :: "'w manager_env \<Rightarrow> continue_info \<Rightarrow> 'w cmanager \<Rightarrow> 'w cmanager" where
  "HandleContinueEnd env info m =
     (if continues m = [] \<or> smap_find (continues m) (compareInfo info) = None then m
      else
        let m1 = RemoveTimeout info m;
            m2 = m1\<lparr>continues := smap_erase (compareInfo info) (continues m1), sceneId := ClearContinueSessionId (sceneId m1)\<rparr>
        in case storageLocalDeviceId (continueEnv env) of
             None \<Rightarrow> m2
           | Some localDevId \<Rightarrow>
               if sinkDeviceId info = localDevId then m2\<lparr>cntSink := cntSink m2 - 1\<rparr>
               else if sourceDeviceId info = localDevId then m2\<lparr>cntSource := cntSource m2 - 1\<rparr>
               else m2)"

subsection \<open>Data of the peer\<close>

text \<open>The command number of a message: the text of \<^verbatim>\<open>BaseCmd\<close> is itself JSON with a number \<^verbatim>\<open>Command\<close>.\<close>

definition message_command :: "'w manager_env \<Rightarrow> byte list \<Rightarrow> int option" where
  "message_command env jsonStr =
     (case parseJson env (c_str (text_of jsonStr)) of
        None \<Rightarrow> None
      | Some rootValue \<Rightarrow>
          (case cJSON_GetObjectItemCaseSensitive rootValue ''BaseCmd'' of
             Some (CString baseCmd) \<Rightarrow>
               (case parseJson env baseCmd of
                  None \<Rightarrow> None
                | Some cmdValue \<Rightarrow>
                    (case cJSON_GetObjectItemCaseSensitive cmdValue ''Command'' of
                       Some (CNumber command) \<Rightarrow> Some (valueint command)
                     | _ \<Rightarrow> None))
           | _ \<Rightarrow> None))"

definition NotifyContinueDataRecv ::
    "'w manager_env \<Rightarrow> int \<Rightarrow> int \<Rightarrow> byte list \<Rightarrow> data_buffer \<Rightarrow> 'w cmanager \<Rightarrow> 'w cmanager" where
  "NotifyContinueDataRecv env sessionId command jsonStr dataBuffer m =
     (case first_entry (\<lambda>w. sessionId = softbusSessionId w) m of
        Some (k, w) \<Rightarrow> on_object (OnDataRecv (cmdParser env) (continueEnv env) command dataBuffer) k m
      | None \<Rightarrow>
          if command = DSCHED_CONTINUE_CMD_START then
            (case unmarshalStart (cmdParser env) jsonStr of (r, startCmd) \<Rightarrow>
               if r \<noteq> ERR_OK then m
               else case CheckContinuationLimit env (cmdSrcDeviceId startCmd) (cmdDstDeviceId startCmd) m of (r, dir) \<Rightarrow>
                 if r \<noteq> ERR_OK then m
                 else
                   let newContinue = exec Init
                         (DSchedContinueRemote (continueEnv env) (sceneId m) startCmd sessionId (foregroundUser env));
                       k = compareInfo (continueInfo newContinue);
                       started = exec (OnStartCmd (continueEnv env) (startAppVersion startCmd)) newContinue
                   in m\<lparr>continues := smap_insert k started (continues m)\<rparr>)
          else m)"

definition OnDataRecv_mgr :: "int \<Rightarrow> data_buffer option \<Rightarrow> 'w cmanager \<Rightarrow> 'w cmanager" where
  "OnDataRecv_mgr sessionId dataBuffer m = fst (PostTask (TaskDataRecv sessionId dataBuffer) m)"

definition HandleDataRecv ::
    "'w manager_env \<Rightarrow> int \<Rightarrow> data_buffer option \<Rightarrow> 'w cmanager \<Rightarrow> 'w cmanager ub" where
  "HandleDataRecv env sessionId dataBuffer m =
     (case dataBuffer of
        None \<Rightarrow> Done m
      | Some b \<Rightarrow>
          (case buffer_text b of
             OutOfBounds \<Rightarrow> OutOfBounds
           | Done jsonStr \<Rightarrow>
               (case message_command env jsonStr of
                  None \<Rightarrow> Done m
                | Some command \<Rightarrow> Done (NotifyContinueDataRecv env sessionId command jsonStr b m))))"

subsection \<open>The loss of a session\<close>

definition OnShutdown_mgr :: "int \<Rightarrow> bool \<Rightarrow> 'w cmanager \<Rightarrow> 'w cmanager" where
  "OnShutdown_mgr socket isSelfCalled m =
     (if isSelfCalled then m else fst (PostTask (TaskShutdown socket) m))"

text \<open>The function posted by \<^verbatim>\<open>OnShutdown\<close>: a loop over the map.\<close>

fun shutdown_loop :: "'w manager_env \<Rightarrow> int \<Rightarrow> (string \<times> 'w cworld) list \<Rightarrow> 'w cmanager \<Rightarrow> 'w cmanager" where
  "shutdown_loop env socket [] m = m"
| "shutdown_loop env socket ((k, w) # rest) m =
     shutdown_loop env socket rest
       (if socket = softbusSessionId w
        then on_object (OnContinueEnd (continueEnv env) CONTINUE_SESSION_SHUTDOWN) k m else m)"

definition HandleShutdown :: "'w manager_env \<Rightarrow> int \<Rightarrow> 'w cmanager \<Rightarrow> 'w cmanager" where
  "HandleShutdown env socket m = shutdown_loop env socket (continues m) m"

definition GetContinueInfo :: "'w cmanager \<Rightarrow> ret \<times> (string \<times> string) option" where
  "GetContinueInfo m = (case continues m of
     [] \<Rightarrow> (ERR_OK, None)
   | (k, w) # rest \<Rightarrow> (ERR_OK, Some (sourceDeviceId (continueInfo w), sinkDeviceId (continueInfo w))))"

subsection \<open>The manager's thread and the objects' threads\<close>

fun run_manager_task :: "'w manager_env \<Rightarrow> 'w manager_task \<Rightarrow> 'w cmanager \<Rightarrow> 'w cmanager ub" where
  "run_manager_task env (TaskContinueMissionById src dst mid cb params) m =
     Done (HandleContinueMissionById env src dst mid cb params m)"
| "run_manager_task env (TaskContinueMission info cb params) m = Done (HandleContinueMission env info cb params m)"
| "run_manager_task env (TaskStartContinuation want mid uid status token) m =
     Done (HandleStartContinuation env want mid uid status token m)"
| "run_manager_task env (TaskNotifyComplete device mid isSuccess caller) m =
     Done (HandleNotifyCompleteContinuation env device mid isSuccess caller m)"
| "run_manager_task env (TaskContinueEnd info) m = Done (HandleContinueEnd env info m)"
| "run_manager_task env (TaskDataRecv sessionId b) m = HandleDataRecv env sessionId b m"
| "run_manager_task env (TaskShutdown socket) m = Done (HandleShutdown env socket m)"
| "run_manager_task env (TaskTimeout info) m = Done (continue_timeout env info m)"

text \<open>
  An object's thread handles one event. Its calls of the manager take effect in the manager: the
  end of the continuation posts a task, a quick-start report goes to the callback cache.
\<close>

fun manager_effect :: "'w manager_env \<Rightarrow> 'w continue_call \<Rightarrow> 'w cmanager \<Rightarrow> 'w cmanager" where
  "manager_effect env (CallManagerOnContinueEnd info) m = fst (OnContinueEnd_mgr info m)"
| "manager_effect env (CallNotifyQuickStartState i st msg) m =
     (case NotifyQuickStartState (parcelEnv env) i st msg (stateCallbackCache m) of
        (c, cs, r) \<Rightarrow> m\<lparr>stateCallbackCache := c, managerCalls := managerCalls m @ map CallStateCallback cs\<rparr>)"
| "manager_effect env _ m = m"

definition object_event :: "'w manager_env \<Rightarrow> string \<Rightarrow> 'w cmanager \<Rightarrow> 'w cmanager" where
  "object_event env k m = (case smap_find (continues m) k of
     None \<Rightarrow> m
   | Some w \<Rightarrow>
       let m' = on_object (run_event (continueEnv env)) k m
       in case smap_find (continues m') k of
            None \<Rightarrow> m'
          | Some w' \<Rightarrow> fold (manager_effect env) (drop (length (calls w)) (calls w')) m')"

text \<open>The steps of the manager with its objects. The services may answer differently in every step.\<close>

inductive mstep :: "'w cmanager \<Rightarrow> 'w cmanager \<Rightarrow> bool" where
  init: "mstep m (Init_mgr m)"
| uninit: "waiting m = None \<Longrightarrow> mstep m (UnInit m)"
| decision: "mstep m (NotifyAllConnectDecision env peer isSupport m)"
| decided: "waiting m \<noteq> None \<Longrightarrow> mstep m (AfterConnectDecision m)"
| request_by_id: "mstep m (fst (ContinueMissionById env src dst mid cb params m))"
| request: "mstep m (fst (ContinueMission env info cb params m))"
| start_continuation: "mstep m (fst (StartContinuation env want mid uid status token m))"
| complete: "mstep m (fst (NotifyCompleteContinuation device mid isSuccess caller m))"
| terminate: "mstep m (NotifyTerminateContinuation env mid m)"
| data: "mstep m (OnDataRecv_mgr sessionId b m)"
| shutdown: "mstep m (OnShutdown_mgr socket isSelfCalled m)"
| register: "ContinueStateCallbackRegister penv i cb (stateCallbackCache m) = (c, cs, r) \<Longrightarrow>
     mstep m (m\<lparr>stateCallbackCache := c, managerCalls := managerCalls m @ map CallStateCallback cs\<rparr>)"
| unregister: "mstep m (m\<lparr>stateCallbackCache := fst (ContinueStateCallbackUnRegister i (stateCallbackCache m))\<rparr>)"
| task: "waiting m = None \<Longrightarrow> tasks m = t # ts \<Longrightarrow> run_manager_task env t (m\<lparr>tasks := ts\<rparr>) = Done m' \<Longrightarrow> mstep m m'"
| timer: "waiting m = None \<Longrightarrow> timers m = ts1 @ (name, info, delay) # ts2 \<Longrightarrow>
     mstep m (continue_timeout env info (m\<lparr>timers := ts1 @ ts2\<rparr>))"
| object: "smap_find (continues m) k = Some w \<Longrightarrow> mstep m (object_event env k m)"

inductive manager_reachable :: "'w cmanager \<Rightarrow> bool" where
  start: "manager_reachable DSchedContinueManager"
| step: "manager_reachable m \<Longrightarrow> mstep m m' \<Longrightarrow> manager_reachable m'"

end
