(* ===== verification/Manager_System.thy ===== *)
theory Manager_System
  imports Continue_Manager
begin

text \<open>
  The manager implements a system of independent continuations. The abstract system is a partial
  map from keys to continuation objects: objects appear as a constructor makes them, each takes the
  steps of \<open>cstep\<close> on its own, and they disappear. Every step of the manager, with its tasks,
  timers, counters and iterations over the map, is a sequence of steps of this system; what holds of
  a single continuation in \<open>Continue_Safety\<close> holds of every continuation of the manager.
\<close>

definition objects :: "'w cmanager \<Rightarrow> string \<Rightarrow> 'w cworld option" where
  "objects m = smap_find (continues m)"

inductive made :: "'w cworld \<Rightarrow> bool" where
  made_local: "dir = CONTINUE_SOURCE \<or> dir = CONTINUE_SINK \<Longrightarrow>
     made (exec Init (DSchedContinueLocal env sid sub dir cb info acc))"
| made_remote: "made (exec Init (DSchedContinueRemote env sid cmd session acc))"

inductive sys_step :: "(string \<Rightarrow> 'w cworld option) \<Rightarrow> (string \<Rightarrow> 'w cworld option) \<Rightarrow> bool" where
  sys_begin: "S k = None \<Longrightarrow> made w \<Longrightarrow> k = compareInfo (continueInfo w) \<Longrightarrow> sys_step S (S(k \<mapsto> w))"
| sys_object: "S k = Some w \<Longrightarrow> cstep w w' \<Longrightarrow> sys_step S (S(k \<mapsto> w'))"
| sys_end: "S k = Some w \<Longrightarrow> sys_step S (S(k := None))"
| sys_clear: "sys_step S Map.empty"

definition simulates :: "'w cmanager \<Rightarrow> 'w cmanager \<Rightarrow> bool" where
  "simulates m m' \<longleftrightarrow> (smap_ok (continues m) \<longrightarrow> smap_ok (continues m') \<and> sys_step\<^sup>*\<^sup>* (objects m) (objects m'))"

interpretation sim: effect_order simulates
proof
  show "simulates s s" for s :: "'w cmanager"
    by (simp add: simulates_def)
  show "simulates s s''" if "simulates s s'" "simulates s' s''" for s s' s'' :: "'w cmanager"
    using that by (auto simp: simulates_def)
qed

lemma simulates_same: "continues m' = continues m \<Longrightarrow> simulates m m'"
  by (simp add: simulates_def objects_def)

lemma sys_object_star:
  assumes "cstep\<^sup>*\<^sup>* w w'" "S k = Some w"
  shows "sys_step\<^sup>*\<^sup>* S (S(k \<mapsto> w'))"
  using assms(1)
proof (induction rule: rtranclp_induct)
  case base
  then show ?case
    using assms(2) by (simp add: fun_upd_idem)
next
  case (step v u)
  then have "sys_step (S(k \<mapsto> v)) ((S(k \<mapsto> v))(k \<mapsto> u))"
    by (intro sys_step.sys_object) auto
  then show ?case
    using step.IH by (simp only: fun_upd_upd rtranclp.rtrancl_into_rtrancl)
qed

lemma objects_continues [simp]:
  "objects (m\<lparr>continues := c\<rparr>) = smap_find c"
  "smap_ok c \<Longrightarrow> smap_find (smap_put k w c) = (smap_find c)(k \<mapsto> w)"
  "smap_ok c \<Longrightarrow> smap_find c k = None \<Longrightarrow> smap_find (smap_insert k w c) = (smap_find c)(k \<mapsto> w)"
  "smap_ok c \<Longrightarrow> smap_find (smap_erase k c) = (smap_find c)(k := None)"
  by (auto simp: objects_def sm.find_put sm.find_ins sm.find_del)

subsection \<open>The operations\<close>

named_theorems simulating \<open>operations of the manager that are steps of the system\<close>

lemma on_object_simulates:
  assumes "\<And>v. cstep\<^sup>*\<^sup>* v (exec p v)"
  shows "simulates m (on_object p k m)"
proof (cases "smap_find (continues m) k")
  case (Some w)
  let ?w' = "exec p (w\<lparr>sceneSessionId := sceneId m\<rparr>)"
  have "cstep\<^sup>*\<^sup>* w ?w'"
    using assms [of "w\<lparr>sceneSessionId := sceneId m\<rparr>"]
    by (rule converse_rtranclp_into_rtranclp [rotated]) (rule cstep.scene_changed)
  with Some show ?thesis
    using sys_object_star [of w ?w' "objects m" k]
    by (auto simp: simulates_def on_object_def objects_def sm.ok_put Let_def)
qed (simp add: on_object_def sim.refl)

lemma on_object_posts [simulating]:
  "simulates m (on_object (OnContinueMission env params) k m)"
  "simulates m (on_object (OnStartContinuation env want uid status token) k m)"
  "simulates m (on_object (OnNotifyComplete env mid success) k m)"
  "simulates m (on_object (OnContinueEnd env r) k m)"
  "simulates m (on_object (OnDataRecv p env command b) k m)"
  by (rule on_object_simulates, rule r_into_rtranclp, rule cstep.intros)+

lemma run_event_star: "cstep\<^sup>*\<^sup>* w (exec (run_event env) w)"
  using cstep.runner [of w env] by (cases "queue w = []") (auto simp: exec_run_event)

lemma simulates_via: "simulates m m1 \<Longrightarrow> continues m' = continues m1 \<Longrightarrow> simulates m m'"
  by (metis sim.trans simulates_same)

lemma SetTimeOut_continues [simp]: "continues (SetTimeOut info t m) = continues m"
  by (simp add: SetTimeOut_def)

lemma WaitAllConnectDecision_continues [simp]: "continues (WaitAllConnectDecision env dir info t m) = continues m"
  by (simp add: WaitAllConnectDecision_def)

lemma PostTask_continues [simp]: "continues (fst (PostTask t m)) = continues m"
  by (simp add: PostTask_def)

lemma manager_effect_continues [simp]: "continues (manager_effect env c m) = continues m"
  by (cases c) (simp_all add: OnContinueEnd_mgr_def split: prod.split)

lemma manager_effects_continues [simp]: "continues (fold (manager_effect env) cs m) = continues m"
  by (induction cs arbitrary: m) simp_all

lemma limit_direction:
  "CheckContinuationLimit env src dst m = (r, dir) \<Longrightarrow> dir = CONTINUE_SOURCE \<or> dir = CONTINUE_SINK"
  by (auto simp: CheckContinuationLimit_def split: option.splits if_splits)

lemma simulates_begin:
  assumes "objects m k = None" "made w" "k = compareInfo (continueInfo w)" "cstep\<^sup>*\<^sup>* w w'"
    and "continues m' = smap_insert k w' (continues m)"
  shows "simulates m m'"
proof -
  have "objects m' = (objects m)(k \<mapsto> w')" "smap_ok (continues m')" if "smap_ok (continues m)"
    using that assms(1) by (simp_all add: objects_def assms(5) sm.ok_ins)
  moreover have "sys_step (objects m) ((objects m)(k \<mapsto> w))"
    using assms(1-3) by (rule sys_step.sys_begin)
  moreover have "sys_step\<^sup>*\<^sup>* ((objects m)(k \<mapsto> w)) ((objects m)(k \<mapsto> w'))"
    using sys_object_star [OF assms(4), of "(objects m)(k \<mapsto> w)" k] by simp
  ultimately show ?thesis
    by (auto simp only: simulates_def intro: converse_rtranclp_into_rtranclp)
qed

lemma continueInfo_local [simp]:
  "continueInfo (exec Init (DSchedContinueLocal env sid sub dir cb info acc)) = info"
  by (simp add: Init_def DSchedContinueLocal_def new_object_def SetEventData_def NotifyDSchedEventResult_def call_def)

lemma HandleContinueMissionWithBundleName_simulates [simulating]:
  "simulates m (HandleContinueMissionWithBundleName env info cb params m)"
proof -
  obtain r dir where limit: "CheckContinuationLimit env (sourceDeviceId info) (sinkDeviceId info) m = (r, dir)"
    by fastforce
  let ?m1 = "if dir = CONTINUE_SOURCE then m\<lparr>cntSource := cntSource m + 1\<rparr> else m\<lparr>cntSink := cntSink m + 1\<rparr>"
  have same: "continues ?m1 = continues m"
    by simp
  have begun: "simulates m (on_object (OnContinueMission (continueEnv env) params) (compareInfo i) m3)"
    if "smap_find (continues m) (compareInfo i) = None"
      and "continues m3 = smap_insert (compareInfo i)
        (exec Init (DSchedContinueLocal (continueEnv env) sid sub dir cb i (foregroundUser env))) (continues m)"
    for i m3 sid sub
  proof (rule sim.trans)
    show "simulates m m3"
      using that made.made_local [OF limit_direction [OF limit]]
      by (intro simulates_begin [of _ "compareInfo i" "exec Init (DSchedContinueLocal (continueEnv env) sid sub dir cb i (foregroundUser env))"])
        (simp_all add: objects_def)
  qed (rule simulating)
  show ?thesis
    unfolding HandleContinueMissionWithBundleName_def limit
    by (auto simp: Let_def simulates_same intro!: simulates_via [OF begun] split: option.split)
qed

lemma HandleContinueMission_simulates [simulating]:
  "simulates m (HandleContinueMission env info cbo params m)"
  "simulates m (HandleContinueMissionById env src dst mid cbo params m)"
  unfolding HandleContinueMission_def HandleContinueMissionById_def
  by (auto simp: Let_def sim.refl intro: simulating split: option.split prod.split)

lemma ability_messages_simulate [simulating]:
  "simulates m (HandleStartContinuation env want mid uid status token m)"
  "simulates m (HandleNotifyCompleteContinuation env device mid success caller m)"
  "simulates m (NotifyTerminateContinuation env mid m)"
  "simulates m (continue_timeout env info m)"
  unfolding HandleStartContinuation_def HandleNotifyCompleteContinuation_def NotifyTerminateContinuation_def
    continue_timeout_def
  by (auto simp: sim.refl intro: simulating split: option.split prod.split)

lemma HandleContinueEnd_continues:
  "continues (HandleContinueEnd env info m) =
     (if smap_find (continues m) (compareInfo info) = None then continues m
      else smap_erase (compareInfo info) (continues m))"
  by (auto simp: HandleContinueEnd_def RemoveTimeout_def Let_def split: option.split)

lemma HandleContinueEnd_simulates [simulating]: "simulates m (HandleContinueEnd env info m)"
proof (cases "objects m (compareInfo info)")
  case None
  then show ?thesis
    by (simp add: simulates_same HandleContinueEnd_continues objects_def)
next
  case (Some w)
  then have "sys_step (objects m) ((objects m)(compareInfo info := None))"
    by (rule sys_step.sys_end)
  with Some show ?thesis
    by (auto simp: simulates_def objects_def HandleContinueEnd_continues sm.ok_del)
qed

lemma NotifyContinueDataRecv_simulates [simulating]:
  "simulates m (NotifyContinueDataRecv env sessionId command txt b m)"
proof -
  let ?w = "\<lambda>cmd. exec Init (DSchedContinueRemote (continueEnv env) (sceneId m) cmd sessionId (foregroundUser env))"
  have "simulates m (m\<lparr>continues := smap_insert (compareInfo (continueInfo (?w cmd)))
      (exec (OnStartCmd (continueEnv env) v) (?w cmd)) (continues m)\<rparr>)" for cmd v
  proof (cases "objects m (compareInfo (continueInfo (?w cmd)))")
    case None
    then show ?thesis
      by (rule simulates_begin [OF _ made.made_remote refl]) (auto intro: cstep.start_cmd)
  qed (simp add: simulates_same smap_insert_def objects_def)
  then show ?thesis
    unfolding NotifyContinueDataRecv_def
    by (auto simp: Let_def sim.refl intro: simulating split: option.split prod.split)
qed

lemma shutdown_loop_simulates: "simulates m (shutdown_loop env socket es m)"
proof (induction env socket es m rule: shutdown_loop.induct)
  case (2 env socket k w rest m)
  show ?case
    using sim.trans [OF _ "2.IH"] by (simp add: sim.refl simulating)
qed (simp add: sim.refl)

lemma run_manager_task_simulates: "run_manager_task env t m = Done m' \<Longrightarrow> simulates m m'"
  by (cases t) (auto simp: HandleDataRecv_def HandleShutdown_def sim.refl shutdown_loop_simulates intro: simulating
      split: option.splits ub.splits)

lemma object_event_simulates [simulating]: "simulates m (object_event env k m)"
  using on_object_simulates [OF run_event_star, of m "continueEnv env" k]
  by (auto simp: object_event_def Let_def sim.refl intro: simulates_via split: option.split)

lemma requests_continues [simp]:
  "continues (fst (ContinueMissionById env src dst mid cbo params m)) = continues m"
  "continues (fst (ContinueMission env info cbo params m)) = continues m"
  "continues (fst (StartContinuation env want mid uid status token m)) = continues m"
  "continues (fst (NotifyCompleteContinuation device mid success caller m)) = continues m"
  "continues (OnDataRecv_mgr sessionId b m) = continues m"
  "continues (OnShutdown_mgr socket isSelf m) = continues m"
  "continues (Init_mgr m) = continues m"
  "continues (NotifyAllConnectDecision env peer ok m) = continues m"
  "continues (AfterConnectDecision m) = continues m"
  by (auto simp: ContinueMissionById_def ContinueMission_def StartContinuation_def NotifyCompleteContinuation_def
      OnDataRecv_mgr_def OnShutdown_mgr_def Init_mgr_def NotifyAllConnectDecision_def AfterConnectDecision_def Let_def
      split: sum.split option.split bool.split prod.split)

lemma empty_find: "smap_find [] = Map.empty"
  by (simp add: fun_eq_iff)

lemma mstep_simulates: "mstep m m' \<Longrightarrow> simulates m m'"
proof (induction rule: mstep.induct)
  case (uninit m)
  then show ?case
    using sys_step.sys_clear [of "objects m"]
    by (auto simp: UnInit_def simulates_def objects_def empty_find)
next
  case (task m t ts env m')
  then show ?case
    by (intro sim.trans [OF simulates_same run_manager_task_simulates]) simp_all
next
  case (timer m ts1 name info delay ts2 env)
  show ?case
    by (rule sim.trans [OF simulates_same ability_messages_simulate(4)]) simp
qed (auto intro: simulates_same simulating)

subsection \<open>Every reachable manager\<close>

definition system_inv :: "(string \<Rightarrow> 'w cworld option) \<Rightarrow> bool" where
  "system_inv S \<longleftrightarrow> (\<forall>k w. S k = Some w \<longrightarrow> reachable w \<and> compareInfo (continueInfo w) = k)"

lemma compareInfo_key: "info_key i = info_key j \<Longrightarrow> compareInfo i = compareInfo j"
  by (simp add: info_key_def compareInfo_def)

lemma made_reachable: "made w \<Longrightarrow> reachable w"
  by (induction rule: made.induct) (auto intro: reachable.intros)

lemma sys_step_inv: "sys_step S S' \<Longrightarrow> system_inv S \<Longrightarrow> system_inv S'"
proof (induction rule: sys_step.induct)
  case (sys_object S k w w')
  then have "reachable w'" "compareInfo (continueInfo w') = k"
    using cstep_advances [OF sys_object.hyps(2)]
    by (auto simp: system_inv_def advances_def intro: reachable.step dest: compareInfo_key)
  with sys_object.prems show ?case
    by (simp add: system_inv_def)
qed (auto simp: system_inv_def made_reachable)

lemma sys_steps_inv: "sys_step\<^sup>*\<^sup>* S S' \<Longrightarrow> system_inv S \<Longrightarrow> system_inv S'"
  by (induction rule: rtranclp_induct) (auto intro: sys_step_inv)

lemma manager_reachable_inv: "manager_reachable m \<Longrightarrow> smap_ok (continues m) \<and> system_inv (objects m)"
proof (induction rule: manager_reachable.induct)
  case start
  show ?case
    by (simp add: DSchedContinueManager_def objects_def empty_find system_inv_def)
next
  case (step m m')
  then show ?case
    using mstep_simulates [of m m'] sys_steps_inv by (auto simp: simulates_def)
qed


text \<open>
  Every continuation of a reachable manager is under the key that its own info compares as,
  whatever its bundle, mission or ability fields have become, so that it can be found when it ends;
  the map stays sorted; and every object is one that the safety theorems of a single continuation
  are about.
\<close>

theorem continues_keyed:
  assumes "manager_reachable m"
  shows "smap_ok (continues m) \<and>
     (\<forall>k w. smap_find (continues m) k = Some w \<longrightarrow> reachable w \<and> compareInfo (continueInfo w) = k)"
  using manager_reachable_inv [OF assms] by (simp add: system_inv_def objects_def)

end
