(* ===== verification/Manager_Invariant.thy ===== *)
theory Manager_Invariant
  imports Manager_System
begin

text \<open>
  The invariant of the manager: the counters stay within the limits, nothing is posted and no
  continuation exists without the event handler, and for every continuation that has told the
  manager that it is over, the task that will remove it is waiting. \<open>grows\<close> is the effect bound of
  the operations that remove no task and no continuation.
\<close>

definition within_limits :: "'w cmanager \<Rightarrow> bool" where
  "within_limits m \<longleftrightarrow> cntSink m \<le> MAX_CONCURRENT_SINK \<and> cntSource m \<le> MAX_CONCURRENT_SOURCE"

definition removal_posted :: "'w cmanager \<Rightarrow> string \<Rightarrow> bool" where
  "removal_posted m k \<longleftrightarrow> (\<exists>i. TaskContinueEnd i \<in> set (tasks m) \<and> compareInfo i = k)"

definition manager_inv :: "'w cmanager \<Rightarrow> bool" where
  "manager_inv m \<longleftrightarrow> smap_ok (continues m) \<and> within_limits m \<and>
     (\<not> managerHandler m \<longrightarrow> tasks m = [] \<and> continues m = []) \<and>
     (\<forall>k w. objects m k = Some w \<longrightarrow> manager_told w \<longrightarrow> removal_posted m k)"

definition grows :: "'w cmanager \<Rightarrow> 'w cmanager \<Rightarrow> bool" where
  "grows m m' \<longleftrightarrow> (smap_ok (continues m) \<longrightarrow>
     smap_ok (continues m') \<and> managerHandler m' = managerHandler m \<and> (within_limits m \<longrightarrow> within_limits m') \<and>
     set (tasks m) \<subseteq> set (tasks m') \<and>
     (\<not> managerHandler m \<longrightarrow> tasks m' = tasks m \<and> (continues m = [] \<longrightarrow> continues m' = [])) \<and>
     (\<forall>k w'. objects m' k = Some w' \<longrightarrow> manager_told w' \<longrightarrow> (\<exists>w. objects m k = Some w \<and> manager_told w)))"

interpretation gr: effect_order grows
proof
  show "grows s s" for s :: "'w cmanager"
    by (simp add: grows_def)
  show "grows s s''" if "grows s s'" "grows s' s''" for s s' s'' :: "'w cmanager"
    using that unfolding grows_def by (auto 0 4)
qed

lemma grows_inv: "grows m m' \<Longrightarrow> manager_inv m \<Longrightarrow> manager_inv m'"
  unfolding grows_def manager_inv_def removal_posted_def by (auto 0 4) (meson subsetD)+

subsection \<open>Operations that only grow\<close>

named_theorems growing \<open>operations of the manager bounded by the relation\<close>

lemma grows_quiet:
  assumes "continues m' = continues m" "managerHandler m' = managerHandler m" "cntSink m' = cntSink m"
    "cntSource m' = cntSource m" "tasks m' = tasks m"
  shows "grows m m'"
  using assms by (simp add: grows_def within_limits_def objects_def)

lemma PostTask_grows [growing]: "grows m (fst (PostTask t m))"
  by (auto simp: PostTask_def grows_def within_limits_def objects_def)

lemma SetTimeOut_grows [growing]: "grows m (SetTimeOut info t m)"
  by (auto simp: SetTimeOut_def grows_def within_limits_def objects_def)

text \<open>Posting an event changes nothing but the queue.\<close>

definition only_queue :: "'w cworld \<Rightarrow> 'w cworld \<Rightarrow> bool" where
  "only_queue w w' \<longleftrightarrow> (\<exists>q. w' = w\<lparr>queue := q\<rparr>)"

interpretation oq: effect_order only_queue
proof
  show "only_queue s s" for s :: "'w cworld"
    by (auto simp: only_queue_def intro: exI [of _ "queue s"])
  show "only_queue s s''" if "only_queue s s'" "only_queue s' s''" for s s' s'' :: "'w cworld"
    using that by (auto simp: only_queue_def)
qed

lemma post_only_queue: "keeps only_queue (post env e)"
  unfolding post_def by (intro oq.keeps_rules keeps_update) (auto simp: only_queue_def)

lemma recv_only_queue: "keeps only_queue (recv_command p env command txt)"
  unfolding recv_command_def post_defs by (intro oq.keeps_rules post_only_queue)

lemma posts_only_queue:
  "keeps only_queue (OnContinueMission env params)"
  "keeps only_queue (OnStartCmd env appVersion)"
  "keeps only_queue (OnStartContinuation env want uid status token)"
  "keeps only_queue (OnNotifyComplete env mid success)"
  "keeps only_queue (OnContinueEnd env r)"
  unfolding post_defs by (intro oq.keeps_rules post_only_queue)+

lemma OnDataRecv_only_queue: "keeps only_queue (OnDataRecv p env command b)"
  unfolding OnDataRecv_def by (cases "buffer_text b") (simp_all, (intro oq.keeps_rules recv_only_queue)+)

lemma on_object_grows:
  assumes "keeps only_queue p"
  shows "grows m (on_object p k m)"
proof (cases "smap_find (continues m) k")
  case (Some w)
  obtain q where "exec p (w\<lparr>sceneSessionId := sceneId m\<rparr>) = w\<lparr>sceneSessionId := sceneId m\<rparr>\<lparr>queue := q\<rparr>"
    using keepsD [OF assms] by (auto simp: only_queue_def)
  with Some show ?thesis
    by (auto simp: on_object_def Let_def grows_def within_limits_def objects_def sm.ok_put manager_told_def)
qed (simp add: on_object_def gr.refl)

lemma on_object_posts_grow [growing]:
  "grows m (on_object (OnContinueMission env params) k m)"
  "grows m (on_object (OnStartContinuation env want uid status token) k m)"
  "grows m (on_object (OnNotifyComplete env mid success) k m)"
  "grows m (on_object (OnContinueEnd env r) k m)"
  "grows m (on_object (OnDataRecv p env command b) k m)"
  by (rule on_object_grows, rule posts_only_queue OnDataRecv_only_queue)+

lemma WaitAllConnectDecision_grows [growing]: "grows m (WaitAllConnectDecision env dir info t m)"
  by (simp add: WaitAllConnectDecision_def growing grows_quiet)

lemma made_not_told: "made w \<Longrightarrow> \<not> manager_told w"
  by (induction rule: made.induct)
    (simp_all add: manager_told_def Init_def DSchedContinueLocal_def DSchedContinueRemote_def new_object_def SetEventData_def
      NotifyDSchedEventResult_def call_def updInfo_def Let_def)

lemma only_queue_told: "only_queue w w' \<Longrightarrow> manager_told w' \<longleftrightarrow> manager_told w"
  by (auto simp: only_queue_def manager_told_def)

lemma insert_grows:
  assumes "managerHandler m" "\<not> manager_told w"
  shows "grows m (m\<lparr>continues := smap_insert k w (continues m)\<rparr>)"
  using assms by (auto simp: grows_def within_limits_def objects_def sm.ok_ins sm.find_ins)

lemma count_grows:
  assumes "CheckContinuationLimit env src dst m = (ERR_OK, dir)"
  shows "grows m (if dir = CONTINUE_SOURCE then m\<lparr>cntSource := cntSource m + 1\<rparr> else m\<lparr>cntSink := cntSink m + 1\<rparr>)"
  using assms
  by (auto simp: CheckContinuationLimit_def grows_def within_limits_def objects_def MAX_CONCURRENT_SINK_def
      MAX_CONCURRENT_SOURCE_def continue_kinds split: option.splits if_splits)

lemma begin_grows:
  assumes "managerHandler m" "made w"
  shows "grows m (WaitAllConnectDecision menv dir i t (on_object (OnContinueMission env params) k
      (m\<lparr>continues := smap_insert k w (continues m)\<rparr>)))" (is ?A)
    and "grows m (WaitAllConnectDecision menv dir i t (on_object (OnContinueMission env params) k
      (m\<lparr>continues := smap_insert k w (continues m), peerConnectDecision := d\<rparr>)))" (is ?B)
proof -
  let ?m2 = "m\<lparr>continues := smap_insert k w (continues m)\<rparr>"
  have begun: "grows m ?m2"
    using assms(1) made_not_told [OF assms(2)] by (rule insert_grows)
  moreover have "grows ?m2 (?m2\<lparr>peerConnectDecision := d\<rparr>)"
    by (rule grows_quiet) simp_all
  ultimately have "grows m (m\<lparr>continues := smap_insert k w (continues m), peerConnectDecision := d\<rparr>)"
    using gr.trans by fastforce
  with begun show ?A ?B
    by (meson gr.trans WaitAllConnectDecision_grows on_object_posts_grow(1))+
qed

lemma HandleContinueMissionWithBundleName_grows [growing]:
  assumes "managerHandler m"
  shows "grows m (HandleContinueMissionWithBundleName env info cb params m)"
proof -
  obtain r dir where limit: "CheckContinuationLimit env (sourceDeviceId info) (sinkDeviceId info) m = (r, dir)"
    by fastforce
  define m1 where "m1 = (if dir = CONTINUE_SOURCE then m\<lparr>cntSource := cntSource m + 1\<rparr> else m\<lparr>cntSink := cntSink m + 1\<rparr>)"
  have counted: "r = ERR_OK \<Longrightarrow> grows m m1" "managerHandler m1"
    using limit assms by (simp_all add: m1_def count_grows del: if_split)
  note begun = begin_grows [OF counted(2)]
  show ?thesis
    unfolding HandleContinueMissionWithBundleName_def limit prod.case
    using limit_direction [OF limit]
    by (auto simp: Let_def gr.refl counted simp flip: m1_def intro!: gr.trans [OF counted(1)] begun made.made_local)
qed

lemma HandleContinueMission_grows [growing]:
  assumes "managerHandler m"
  shows "grows m (HandleContinueMission env info cbo params m)"
    and "grows m (HandleContinueMissionById env src dst mid cbo params m)"
  using assms unfolding HandleContinueMission_def HandleContinueMissionById_def
  by (auto simp: Let_def gr.refl intro: growing split: option.split prod.split)

lemma ability_messages_grow [growing]:
  "grows m (HandleStartContinuation env want mid uid status token m)"
  "grows m (HandleNotifyCompleteContinuation env device mid success caller m)"
  "grows m (NotifyTerminateContinuation env mid m)"
  "grows m (continue_timeout env info m)"
  unfolding HandleStartContinuation_def HandleNotifyCompleteContinuation_def NotifyTerminateContinuation_def
    continue_timeout_def
  by (auto simp: gr.refl intro: growing split: option.split prod.split)

lemma NotifyContinueDataRecv_grows [growing]:
  assumes "managerHandler m"
  shows "grows m (NotifyContinueDataRecv env sessionId command txt b m)"
proof -
  have "\<not> manager_told (exec (OnStartCmd env' v) (exec Init (DSchedContinueRemote env' sid cmd ses acc)))"
    for env' :: "'a continue_env" and sid cmd ses acc v
    using only_queue_told [OF keepsD [OF posts_only_queue(2)]] made_not_told [OF made.made_remote] by blast
  with assms show ?thesis
    unfolding NotifyContinueDataRecv_def
    by (auto simp: Let_def gr.refl intro: growing insert_grows split: option.split prod.split)
qed

lemma shutdown_loop_grows: "grows m (shutdown_loop env socket es m)"
proof (induction env socket es m rule: shutdown_loop.induct)
  case (2 env socket k w rest m)
  show ?case
    using gr.trans [OF _ "2.IH"] by (simp add: gr.refl growing)
qed (simp add: gr.refl)

lemma requests_grow [growing]:
  "grows m (fst (ContinueMissionById env src dst mid cbo params m))"
  "grows m (fst (ContinueMission env info cbo params m))"
  "grows m (fst (StartContinuation env want mid uid status token m))"
  "grows m (fst (NotifyCompleteContinuation device mid success caller m))"
  "grows m (OnDataRecv_mgr sessionId b m)"
  "grows m (OnShutdown_mgr socket isSelf m)"
  by (auto simp: ContinueMissionById_def ContinueMission_def StartContinuation_def NotifyCompleteContinuation_def
      OnDataRecv_mgr_def OnShutdown_mgr_def gr.refl intro: growing split: sum.split)

lemma decisions_grow [growing]:
  "grows m (NotifyAllConnectDecision env peer isSupport m)"
  "grows m (AfterConnectDecision m)"
proof -
  show "grows m (NotifyAllConnectDecision env peer isSupport m)"
    by (simp add: NotifyAllConnectDecision_def gr.refl grows_quiet)
  show "grows m (AfterConnectDecision m)"
    by (auto simp: AfterConnectDecision_def Let_def gr.refl grows_quiet split: option.split bool.split
        intro: gr.trans [OF _ SetTimeOut_grows])
qed

subsection \<open>The end of a continuation\<close>

text \<open>Taking a task from the queue costs at most the continuations that the task is about.\<close>

lemma pop_inv:
  assumes "manager_inv m" "tasks m = t # ts" "\<And>i. t \<noteq> TaskContinueEnd i"
  shows "manager_inv (m\<lparr>tasks := ts\<rparr>)"
  using assms by (simp add: manager_inv_def within_limits_def objects_def removal_posted_def) metis

lemma HandleContinueEnd_fields:
  "managerHandler (HandleContinueEnd env i m) = managerHandler m"
  "tasks (HandleContinueEnd env i m) = tasks m"
  "cntSink (HandleContinueEnd env i m) \<le> cntSink m"
  "cntSource (HandleContinueEnd env i m) \<le> cntSource m"
  by (auto simp: HandleContinueEnd_def RemoveTimeout_def Let_def split: option.split)

lemma objects_HandleContinueEnd:
  "smap_ok (continues m) \<Longrightarrow> objects (HandleContinueEnd env i m) = (objects m)(compareInfo i := None)"
  by (auto simp: objects_def HandleContinueEnd_continues fun_eq_iff)

lemma end_task_inv:
  assumes "manager_inv m" "tasks m = TaskContinueEnd i # ts"
  shows "manager_inv (HandleContinueEnd env i (m\<lparr>tasks := ts\<rparr>))"
proof -
  let ?m = "m\<lparr>tasks := ts\<rparr>"
  have "smap_ok (continues (HandleContinueEnd env i ?m))" "managerHandler m"
    using assms by (auto simp: manager_inv_def HandleContinueEnd_continues sm.ok_del)
  moreover have "removal_posted (HandleContinueEnd env i ?m) k"
    if "objects (HandleContinueEnd env i ?m) k = Some w" "manager_told w" for k w
  proof -
    have "k \<noteq> compareInfo i" "objects m k = Some w"
      using that(1) assms(1) objects_HandleContinueEnd [of ?m env i] by (auto simp: manager_inv_def objects_def split: if_splits)
    with that assms show ?thesis
      by (auto simp: manager_inv_def removal_posted_def HandleContinueEnd_fields)
  qed
  ultimately show ?thesis
    using assms HandleContinueEnd_fields(3,4) [of env i ?m]
    by (auto simp: manager_inv_def within_limits_def HandleContinueEnd_fields)
qed

lemma task_inv:
  assumes "manager_inv m" "tasks m = t # ts" "run_manager_task env t (m\<lparr>tasks := ts\<rparr>) = Done m'"
  shows "manager_inv m'"
proof (cases "\<exists>i. t = TaskContinueEnd i")
  case True
  with assms show ?thesis
    by (auto intro: end_task_inv)
next
  case False
  have "managerHandler (m\<lparr>tasks := ts\<rparr>)"
    using assms(1,2) by (auto simp: manager_inv_def)
  with False assms(3) have "grows (m\<lparr>tasks := ts\<rparr>) m'"
    by (cases t) (auto simp: HandleDataRecv_def HandleShutdown_def gr.refl shutdown_loop_grows intro: growing
        split: option.splits ub.splits)
  with False assms(1,2) show ?thesis
    using grows_inv pop_inv by blast
qed

subsection \<open>Events of the objects\<close>

lemma manager_effect_fields [simp]:
  "managerHandler (manager_effect env c m) = managerHandler m"
  "cntSink (manager_effect env c m) = cntSink m"
  "cntSource (manager_effect env c m) = cntSource m"
  "sceneId (manager_effect env c m) = sceneId m"
  by (cases c; simp add: OnContinueEnd_mgr_def PostTask_def split: prod.split)+

lemma manager_effects_fields [simp]:
  "managerHandler (fold (manager_effect env) cs m) = managerHandler m"
  "cntSink (fold (manager_effect env) cs m) = cntSink m"
  "cntSource (fold (manager_effect env) cs m) = cntSource m"
  "sceneId (fold (manager_effect env) cs m) = sceneId m"
  by (induction cs arbitrary: m) simp_all

lemma manager_effect_tasks:
  "managerHandler m \<Longrightarrow>
     tasks (manager_effect env c m) = tasks m @ (case c of CallManagerOnContinueEnd i \<Rightarrow> [TaskContinueEnd i] | _ \<Rightarrow> [])"
  by (cases c) (simp_all add: OnContinueEnd_mgr_def PostTask_def split: prod.split)

lemma manager_effects_tasks:
  "managerHandler m \<Longrightarrow> set (tasks (fold (manager_effect env) cs m)) =
     set (tasks m) \<union> {TaskContinueEnd i |i. CallManagerOnContinueEnd i \<in> set cs}"
proof (induction cs arbitrary: m)
  case (Cons c cs)
  then show ?case
    by (cases c) (auto simp: manager_effect_tasks simp del: manager_effect.simps)
qed simp

lemma object_event_eq:
  fixes env :: "'w manager_env"
  assumes "smap_ok (continues m)" "objects m k = Some w"
  defines "w' \<equiv> exec (run_event (continueEnv env)) (w\<lparr>sceneSessionId := sceneId m\<rparr>)"
  shows "object_event env k m = fold (manager_effect env) (drop (length (calls w)) (calls w'))
     (m\<lparr>continues := smap_put k w' (continues m), sceneId := sceneSessionId w'\<rparr>)"
  using assms by (simp add: object_event_def on_object_def objects_def Let_def)

lemma objects_object_event:
  assumes "smap_ok (continues m)" "objects m k = Some w"
  shows "objects (object_event env k m) =
     (objects m)(k \<mapsto> exec (run_event (continueEnv env)) (w\<lparr>sceneSessionId := sceneId m\<rparr>))"
    and "sceneId (object_event env k m) =
     sceneSessionId (exec (run_event (continueEnv env)) (w\<lparr>sceneSessionId := sceneId m\<rparr>))"
    and "smap_ok (continues (object_event env k m))"
  using assms by (simp_all add: object_event_eq objects_def sm.ok_put)

lemma object_event_inv:
  assumes "manager_inv m" "objects m k = Some w" "compareInfo (continueInfo w) = k"
  shows "manager_inv (object_event env k m)"
proof -
  let ?w = "w\<lparr>sceneSessionId := sceneId m\<rparr>"
  let ?w' = "exec (run_event (continueEnv env)) ?w"
  let ?m = "object_event env k m"
  have ok: "smap_ok (continues m)" and handler: "managerHandler m"
    using assms by (auto simp: manager_inv_def objects_def)
  note eq = object_event_eq [OF ok assms(2), of env]
  have tasks: "set (tasks ?m) =
      set (tasks m) \<union> {TaskContinueEnd i |i. CallManagerOnContinueEnd i \<in> set (drop (length (calls w)) (calls ?w'))}"
    using handler unfolding eq by (simp add: manager_effects_tasks)
  have adv: "prefix (calls w) (calls ?w')" "info_key (continueInfo ?w') = info_key (continueInfo w)"
    using run_event_advances [of ?w "continueEnv env"] by (simp_all add: advances_def)
  have "removal_posted ?m k" if told: "manager_told ?w'"
  proof -
    obtain i where i: "CallManagerOnContinueEnd i \<in> set (calls ?w')" "info_key i = info_key (continueInfo w)"
      using told adv(2) by (auto simp: manager_told_def)
    show ?thesis
    proof (cases "CallManagerOnContinueEnd i \<in> set (calls w)")
      case True
      with i(2) have "manager_told w"
        by (auto simp: manager_told_def)
      then have "removal_posted m k"
        using assms by (simp add: manager_inv_def)
      then show ?thesis
        unfolding removal_posted_def tasks by auto
    next
      case False
      with adv(1) i have "CallManagerOnContinueEnd i \<in> set (drop (length (calls w)) (calls ?w'))"
        by (auto simp: prefix_def)
      with i(2) assms(3) show ?thesis
        unfolding removal_posted_def tasks by (auto dest: compareInfo_key intro!: exI [of _ i])
    qed
  qed
  moreover have "removal_posted ?m k'" if "removal_posted m k'" for k'
    using that unfolding removal_posted_def tasks by auto
  ultimately show ?thesis
    using assms(1) handler objects_object_event [OF ok assms(2), of env]
    by (auto simp: manager_inv_def within_limits_def eq split: if_splits)
qed

lemma Init_UnInit_inv:
  "manager_inv m \<Longrightarrow> manager_inv (Init_mgr m)"
  "manager_inv m \<Longrightarrow> manager_inv (UnInit m)"
  by (auto simp: manager_inv_def Init_mgr_def UnInit_def within_limits_def objects_def removal_posted_def
      MAX_CONCURRENT_SINK_def MAX_CONCURRENT_SOURCE_def)

lemma mstep_inv: "mstep m m' \<Longrightarrow> manager_inv m \<Longrightarrow> system_inv (objects m) \<Longrightarrow> manager_inv m'"
proof (induction rule: mstep.induct)
  case (task m t ts env m')
  then show ?case
    by (auto intro: task_inv)
next
  case (timer m ts1 name info delay ts2 env)
  have "grows m (m\<lparr>timers := ts1 @ ts2\<rparr>)"
    by (rule grows_quiet) simp_all
  with timer.prems show ?case
    by (meson grows_inv gr.trans ability_messages_grow(4))
next
  case (object m k w env)
  then show ?case
    by (auto simp: system_inv_def objects_def intro!: object_event_inv)
next
  case (register penv i cb m c cs r)
  have "grows m (m\<lparr>stateCallbackCache := c, managerCalls := managerCalls m @ map CallStateCallback cs\<rparr>)"
    by (rule grows_quiet) simp_all
  with register show ?case
    by (blast intro: grows_inv)
next
  case (unregister m i)
  have "grows m (m\<lparr>stateCallbackCache := fst (ContinueStateCallbackUnRegister i (stateCallbackCache m))\<rparr>)"
    by (rule grows_quiet) simp_all
  with unregister show ?case
    by (blast intro: grows_inv)
qed (auto intro: grows_inv growing Init_UnInit_inv)

lemma manager_reachable_manager_inv: "manager_reachable m \<Longrightarrow> manager_inv m"
proof (induction rule: manager_reachable.induct)
  case start
  show ?case
    by (simp add: manager_inv_def DSchedContinueManager_def within_limits_def objects_def
        MAX_CONCURRENT_SINK_def MAX_CONCURRENT_SOURCE_def)
next
  case (step m m')
  then show ?case
    using mstep_inv manager_reachable_inv by blast
qed


text \<open>
  A continuation that has told the manager that it is over does not stay in the map for ever:
  as long as it is there, the task that removes it is waiting on the manager's thread, and that
  task, when it runs, removes this entry and leaves every other continuation as it is.
\<close>

theorem ended_continuation_removed:
  assumes "manager_reachable m" "objects m k = Some w" "manager_told w"
  shows "\<exists>i. TaskContinueEnd i \<in> set (tasks m) \<and>
     (\<forall>env m'. smap_ok (continues m') \<longrightarrow> objects (HandleContinueEnd env i m') = (objects m')(k := None))"
proof -
  obtain i where "TaskContinueEnd i \<in> set (tasks m)" "compareInfo i = k"
    using manager_reachable_manager_inv [OF assms(1)] assms(2,3) by (auto simp: manager_inv_def removal_posted_def)
  then show ?thesis
    using objects_HandleContinueEnd by blast
qed

subsection \<open>Progress\<close>

definition object_events :: "'w manager_env \<Rightarrow> string \<Rightarrow> nat \<Rightarrow> 'w cmanager \<Rightarrow> 'w cmanager" where
  "object_events env k n m = (object_event env k ^^ n) m"

lemma objects_object_events:
  assumes "smap_ok (continues m)" "objects m k = Some w"
  shows "objects (object_events env k (Suc n) m) k = Some (drain (continueEnv env) (Suc n) (w\<lparr>sceneSessionId := sceneId m\<rparr>))"
  using assms
proof (induction n arbitrary: m w)
  case 0
  then show ?case
    by (simp add: object_events_def drain_Suc objects_object_event)
next
  case (Suc n)
  let ?m = "object_event env k m" and ?v = "exec (run_event (continueEnv env)) (w\<lparr>sceneSessionId := sceneId m\<rparr>)"
  have "objects ?m k = Some ?v" "?v\<lparr>sceneSessionId := sceneId ?m\<rparr> = ?v" "smap_ok (continues ?m)"
    using objects_object_event [OF Suc.prems, of env] by simp_all
  with Suc.IH [of ?m ?v] show ?case
    by (simp only: object_events_def drain_Suc funpow_Suc_right o_apply)
qed

lemma object_events_reachable:
  assumes "manager_reachable m" "objects m k = Some w"
  shows "manager_reachable (object_events env k n m) \<and> (\<exists>w'. objects (object_events env k n m) k = Some w')"
proof (induction n)
  case (Suc n)
  let ?m = "object_events env k n m"
  from Suc obtain w' where w': "manager_reachable ?m" "objects ?m k = Some w'"
    by blast
  then have "manager_reachable (object_event env k ?m)"
    by (auto intro: manager_reachable.step mstep.object simp: objects_def)
  moreover have "objects (object_event env k ?m) k \<noteq> None"
    using objects_object_event(1) [OF _ w'(2)] manager_reachable_inv [OF w'(1)] by simp
  ultimately show ?case
    by (simp add: object_events_def)
qed (use assms in \<open>simp add: object_events_def\<close>)

lemma scene_told [simp]: "manager_told (w\<lparr>sceneSessionId := sid\<rparr>) = manager_told w"
  by (simp add: manager_told_def)

lemma ending_object_told:
  assumes "manager_reachable m" "objects m k = Some w" "END_EVENT r \<in> set (queue w)" "runner_accepts (continueEnv env)"
  shows "\<exists>n w'. manager_reachable (object_events env k n m) \<and> objects (object_events env k n m) k = Some w' \<and> manager_told w'"
proof -
  let ?v = "w\<lparr>sceneSessionId := sceneId m\<rparr>"
  have inv: "smap_ok (continues m)" "reachable w"
    using manager_reachable_inv [OF assms(1)] assms(2) by (auto simp: system_inv_def)
  have "well_placed ?v"
    using reachable_invariant [OF inv(2)] by (simp add: well_placed_def)
  then obtain n where told: "manager_told (drain (continueEnv env) n ?v)"
    using END_leads_to_manager [OF _ assms(4)] assms(3) by fastforce
  have "objects (object_events env k n m) k = Some w \<and> n = 0 \<or>
      objects (object_events env k n m) k = Some (drain (continueEnv env) n ?v)"
    using objects_object_events [OF inv(1) assms(2), of env] assms(2)
    by (cases n) (simp_all add: object_events_def)
  with told show ?thesis
    using object_events_reachable [OF assms(1,2)] by fastforce
qed

text \<open>
  A continuation of the manager that is to end is removed: when an end event waits at an object
  of a reachable manager (a time-out, a shutdown, an error, the death of the sink ability), then
  after finitely many events of this object, the task that removes it is posted, whatever waits at the
  object before the end event and whatever the services answer, as long as the event runner accepts
  events.
\<close>

theorem ending_continuation_removed:
  assumes "manager_reachable m" "objects m k = Some w" "END_EVENT r \<in> set (queue w)" "runner_accepts (continueEnv env)"
  shows "\<exists>n i. TaskContinueEnd i \<in> set (tasks (object_events env k n m)) \<and> compareInfo i = k"
  using ending_object_told [OF assms] manager_reachable_manager_inv
  unfolding manager_inv_def removal_posted_def by blast

end
