(* ===== verification/Manager_Sample.thy ===== *)
theory Manager_Sample
  imports Manager_Invariant
begin

text \<open>
  A concrete manager on device \<open>A\<close>, with the services of \<open>Continue_Sample\<close>, that has accepted one
  request of an application; the theorems about reachable managers are applied to it.
\<close>

definition sample_parcel :: parcel_env where
  "sample_parcel = \<lparr>ERR_FLATTEN_OBJECT = 1, tokenWritten = True, stateWritten = True, messageWritten = True\<rparr>"

definition sample_manager_env :: "string \<Rightarrow> sample_want manager_env" where
  "sample_manager_env dev =
     \<lparr>continueEnv = sample_continue_env dev, cmdParser = sample_parser DSCHED_CONTINUE_CMD_START, parcelEnv = sample_parcel,
      allConnectMgr = False, knownDevice = (\<lambda>d. d = ''A'' \<or> d = ''B''), foregroundUser = 100,
      getMissionStatus = (\<lambda>_ _. (ERR_OK, \<lparr>launchFlag = 8, statusBundleName = ''app'', statusAbilityName = ''Main''\<rparr>)),
      parseJson = (\<lambda>_. Some (CObject [(''BaseCmd'', CString ''b''), (''Command'', CNumber 1)]))\<rparr>"

definition sample_manager0 :: "sample_want cmanager" where
  "sample_manager0 = Init_mgr DSchedContinueManager"

definition sample_manager :: "sample_want cmanager" where
  "sample_manager = HandleContinueMission (sample_manager_env ''A'') sample_info (Some 1) 0 sample_manager0"

text \<open>The time-out of the continuation has fired.\<close>

definition sample_timed_out :: "sample_want cmanager" where
  "sample_timed_out = continue_timeout (sample_manager_env ''A'') sample_info (sample_manager\<lparr>timers := []\<rparr>)"

lemmas sample_manager_defs = sample_manager_env_def sample_manager0_def DSchedContinueManager_def Init_mgr_def

abbreviation sample_key :: string where
  "sample_key \<equiv> ''AappBapp''"

lemma sample_key [simp]: "compareInfo sample_info = sample_key"
  by (simp add: compareInfo_def sample_info_def DSchedContinueInfo5_def)

lemma sample_info_fields [simp]:
  "sourceDeviceId sample_info = ''A''" "sourceBundleName sample_info = ''app''" "sinkDeviceId sample_info = ''B''"
  "sinkBundleName sample_info = ''app''" "continueType sample_info = ''t''" "missionId sample_info = 0"
  by (simp_all add: sample_info_def DSchedContinueInfo5_def)

lemma sample_manager0_reachable: "manager_reachable sample_manager0"
  unfolding sample_manager0_def by (rule manager_reachable.step [OF manager_reachable.start mstep.init])

lemma sample_manager_eq:
  "sample_manager = sample_manager0\<lparr>cntSource := 1, continues := [(sample_key, sample_source\<lparr>queue := [REQ_PUSH_EVENT 0]\<rparr>)],
     timers := [(ToStringIgnoreMissionId sample_info, sample_info, 10000)]\<rparr>"
proof -
  have "DSchedContinueInfo5 ''A'' ''app'' ''B'' ''app'' ''t'' = sample_info"
    by (simp add: sample_info_def)
  moreover have "CheckContinuationLimit (sample_manager_env ''A'') ''A'' ''B'' sample_manager0 = (ERR_OK, CONTINUE_SOURCE)"
    by (simp add: CheckContinuationLimit_def sample_manager_defs sample_continue_env_def MAX_CONCURRENT_SOURCE_def)
  moreover have "exec Init (DSchedContinueLocal (sample_continue_env ''A'') '''' CONTINUE_PUSH CONTINUE_SOURCE 1 sample_info 100)
      = sample_source"
    by (simp add: sample_source_def)
  ultimately show ?thesis
    by (simp add: sample_manager_def HandleContinueMission_def HandleContinueMissionWithBundleName_def)
      (simp add: sample_manager_defs Let_def WaitAllConnectDecision_def SetTimeOut_def on_object_def
        smap_insert_def CONTINUE_TIMEOUT_def post_defs post_def sample_source_eq sample_continue_env_def continue_kinds)
qed

lemma sample_request:
  "ContinueMission (sample_manager_env ''A'') sample_info (Some 1) 0 sample_manager0 =
     (sample_manager0\<lparr>tasks := [TaskContinueMission sample_info (Some 1) 0]\<rparr>, ERR_OK)"
  by (simp add: ContinueMission_def check_request_def PostTask_def sample_manager_defs sample_continue_env_def)

lemma sample_manager_reachable: "manager_reachable sample_manager"
proof -
  let ?m = "sample_manager0\<lparr>tasks := [TaskContinueMission sample_info (Some 1) 0]\<rparr>"
  have "manager_reachable ?m"
    using manager_reachable.step [OF sample_manager0_reachable
        mstep.request [of _ "sample_manager_env ''A''" sample_info "Some 1" 0]] by (simp only: sample_request fst_conv)
  moreover have "mstep ?m sample_manager"
  proof (rule mstep.task [where env = "sample_manager_env ''A''"])
    show "waiting ?m = None" "tasks ?m = [TaskContinueMission sample_info (Some 1) 0]"
      by (simp_all add: sample_manager0_def DSchedContinueManager_def Init_mgr_def)
    have "?m\<lparr>tasks := []\<rparr> = sample_manager0"
      by (simp add: sample_manager0_def DSchedContinueManager_def Init_mgr_def)
    then show "run_manager_task (sample_manager_env ''A'') (TaskContinueMission sample_info (Some 1) 0) (?m\<lparr>tasks := []\<rparr>) = Done sample_manager"
      by (simp add: sample_manager_def)
  qed
  ultimately show ?thesis
    by (rule manager_reachable.step)
qed

lemma sample_timed_out_reachable: "manager_reachable sample_timed_out"
proof (rule manager_reachable.step [OF sample_manager_reachable])
  have "timers sample_manager = [] @ (ToStringIgnoreMissionId sample_info, sample_info, 10000) # []" "waiting sample_manager = None"
    by (simp_all add: sample_manager_eq sample_manager0_def DSchedContinueManager_def Init_mgr_def)
  from mstep.timer [OF this(2,1)] show "mstep sample_manager sample_timed_out"
    by (simp add: sample_timed_out_def)
qed

lemma sample_timed_out_object:
  "objects sample_timed_out sample_key =
     Some (sample_source\<lparr>queue := [REQ_PUSH_EVENT 0, END_EVENT CONTINUE_ABILITY_TIMEOUT_ERR]\<rparr>)"
  by (simp add: sample_timed_out_def sample_manager_eq continue_timeout_def on_object_def objects_def sample_source_eq
      sample_manager_defs)


theorem continues_keyed_witness:
  "compareInfo (continueInfo (sample_source\<lparr>queue := [REQ_PUSH_EVENT 0]\<rparr>)) = sample_key \<and>
   reachable (sample_source\<lparr>queue := [REQ_PUSH_EVENT 0]\<rparr>)"
proof -
  have "smap_find (continues sample_manager) sample_key = Some (sample_source\<lparr>queue := [REQ_PUSH_EVENT 0]\<rparr>)"
    by (simp add: sample_manager_eq)
  then show ?thesis
    using continues_keyed [OF sample_manager_reachable] by blast
qed


theorem ending_continuation_removed_witness:
  "\<exists>n i. TaskContinueEnd i \<in> set (tasks (object_events (sample_manager_env ''A'') sample_key n sample_timed_out)) \<and>
     compareInfo i = sample_key"
proof (rule ending_continuation_removed [OF sample_timed_out_reachable sample_timed_out_object])
  show "END_EVENT CONTINUE_ABILITY_TIMEOUT_ERR \<in>
      set (queue (sample_source\<lparr>queue := [REQ_PUSH_EVENT 0, END_EVENT CONTINUE_ABILITY_TIMEOUT_ERR]\<rparr>))"
    by simp
  show "runner_accepts (continueEnv (sample_manager_env ''A''))"
    by (simp add: sample_manager_env_def)
qed

theorem ended_continuation_removed_witness:
  "\<exists>n i. TaskContinueEnd i \<in> set (tasks (object_events (sample_manager_env ''A'') sample_key n sample_timed_out)) \<and>
     objects (HandleContinueEnd (sample_manager_env ''A'') i sample_manager) sample_key = None"
proof -
  have "runner_accepts (continueEnv (sample_manager_env ''A''))"
    by (simp add: sample_manager_env_def)
  then obtain n w where "manager_reachable (object_events (sample_manager_env ''A'') sample_key n sample_timed_out)"
      "objects (object_events (sample_manager_env ''A'') sample_key n sample_timed_out) sample_key = Some w" "manager_told w"
    using ending_object_told [OF sample_timed_out_reachable sample_timed_out_object, of CONTINUE_ABILITY_TIMEOUT_ERR "sample_manager_env ''A''"]
    by auto
  from ended_continuation_removed [OF this] show ?thesis
    using manager_reachable_inv [OF sample_manager_reachable] by (metis fun_upd_same)
qed

end
