(* ===== verification/Manager_Behaviour.thy ===== *)
theory Manager_Behaviour
  imports Manager_Sample
begin

text \<open>
  What the single operations of the manager do: which requests are accepted, which continuations a
  lost session or a message reaches, and what a continuation started by the peer does to the
  counter of the limit.
\<close>

subsection \<open>Requests\<close>

definition valid_request :: "'w manager_env \<Rightarrow> continue_info \<Rightarrow> nat option \<Rightarrow> bool" where
  "valid_request env info cb \<longleftrightarrow>
     cb \<noteq> None \<and> sourceDeviceId info \<noteq> '''' \<and> sinkDeviceId info \<noteq> '''' \<and>
     (case storageLocalDeviceId (continueEnv env) of
        None \<Rightarrow> False
      | Some dev \<Rightarrow>
          if dev = sourceDeviceId info then
            knownDevice env (sinkDeviceId info) \<and>
            (if supportDistributedMissionManager (continueEnv env) then
               fst (condGetMissionIdByBundleName (continueEnv env) (foregroundUser env) (sinkBundleName info) (-1)) = ERR_OK
             else True)
          else dev = sinkDeviceId info \<and> knownDevice env (sourceDeviceId info))"

text \<open>
  A request to continue a mission is accepted exactly when it names two devices of which one is
  this device and the other is known, brings a callback, and, if this device is the source, the
  bundle has a mission; then exactly this request is appended to the work of the manager. Every
  other request is answered with an error and leaves the manager as it was.
\<close>

theorem request_accepted_iff:
  "(snd (ContinueMission env info cb params m) = ERR_OK \<longleftrightarrow> managerHandler m \<and> valid_request env info cb) \<and>
   fst (ContinueMission env info cb params m) =
     (if managerHandler m \<and> valid_request env info cb
      then m\<lparr>tasks := tasks m @ [TaskContinueMission info cb params]\<rparr> else m)"
  by (auto simp: ContinueMission_def check_request_def valid_request_def PostTask_def split: option.split)

subsection \<open>The loss of a session\<close>

lemma on_object_OnContinueEnd:
  assumes "runner_accepts env" "objects m k = Some w" "eventHandler w" "smap_ok (continues m)"
  shows "objects (on_object (OnContinueEnd env r) k m) =
      (objects m)(k \<mapsto> w\<lparr>sceneSessionId := sceneId m, queue := queue w @ [END_EVENT r]\<rparr>)"
    and "sceneId (on_object (OnContinueEnd env r) k m) = sceneId m"
    and "smap_ok (continues (on_object (OnContinueEnd env r) k m))"
  using assms by (simp_all add: on_object_def objects_def sm.ok_put)

definition end_on_shutdown :: "int \<Rightarrow> string \<Rightarrow> 'w cworld \<Rightarrow> 'w cworld" where
  "end_on_shutdown socket sid w = (if softbusSessionId w = socket
     then w\<lparr>sceneSessionId := sid, queue := queue w @ [END_EVENT CONTINUE_SESSION_SHUTDOWN]\<rparr> else w)"

lemma shutdown_loop_objects:
  assumes "runner_accepts (continueEnv env)" "smap_ok (continues m)" "distinct (map fst es)"
    and "\<And>k w. (k, w) \<in> set es \<Longrightarrow> objects m k = Some w \<and> eventHandler w"
  shows "objects (shutdown_loop env socket es m) k =
     (if k \<in> fst ` set es then map_option (end_on_shutdown socket (sceneId m)) (objects m k) else objects m k)"
  using assms(2-)
proof (induction es arbitrary: m)
  case (Cons e es)
  obtain k' w' where e: "e = (k', w')"
    by (cases e)
  let ?m = "if socket = softbusSessionId w' then on_object (OnContinueEnd (continueEnv env) CONTINUE_SESSION_SHUTDOWN) k' m else m"
  have w': "objects m k' = Some w'" "eventHandler w'"
    using Cons.prems(3) e by auto
  have m: "objects ?m = (objects m)(k' \<mapsto> end_on_shutdown socket (sceneId m) w')" "sceneId ?m = sceneId m" "smap_ok (continues ?m)"
    using on_object_OnContinueEnd [OF assms(1) w' Cons.prems(1)] w' Cons.prems(1) by (auto simp: end_on_shutdown_def fun_upd_idem)
  have fresh: "k' \<notin> fst ` set es"
    using Cons.prems(2) e by simp
  have "objects (shutdown_loop env socket es ?m) k =
     (if k \<in> fst ` set es then map_option (end_on_shutdown socket (sceneId ?m)) (objects ?m k) else objects ?m k)"
  proof (rule Cons.IH)
    show "objects ?m j = Some v \<and> eventHandler v" if "(j, v) \<in> set es" for j v
      using that fresh Cons.prems(3) [of j v] unfolding m(1) by force
  qed (use Cons.prems m e in auto)
  with m w' fresh e show ?case
    by (auto simp del: fun_upd_apply simp: fun_upd_apply)
qed simp

text \<open>
  When a session is lost, the manager tells exactly the continuations of this session to end:
  each of them, and no other, gets one end event with the shutdown error behind what waits there.
\<close>

theorem shutdown_reaches_session:
  assumes "manager_reachable m" "runner_accepts (continueEnv env)"
  shows "objects (HandleShutdown env socket m) k =
     (case objects m k of
        None \<Rightarrow> None
      | Some w \<Rightarrow> Some (if softbusSessionId w = socket
          then w\<lparr>sceneSessionId := sceneId m, queue := queue w @ [END_EVENT CONTINUE_SESSION_SHUTDOWN]\<rparr> else w))"
proof -
  have inv: "smap_ok (continues m)" "system_inv (objects m)"
    using manager_reachable_inv [OF assms(1)] by auto
  have "objects m j = Some w \<and> eventHandler w" if "(j, w) \<in> set (continues m)" for j w
    using that inv reachable_invariant by (auto simp: objects_def smap_mem_find system_inv_def well_placed_def)
  moreover have "k \<notin> fst ` set (continues m) \<Longrightarrow> objects m k = None"
    by (auto simp: objects_def smap_find_def map_of_eq_None_iff)
  ultimately show ?thesis
    using shutdown_loop_objects [OF assms(2) inv(1) smap_ok_distinct [OF inv(1)], of socket k]
    by (auto simp: HandleShutdown_def end_on_shutdown_def split: option.split)
qed

subsection \<open>The limit and continuations started by the peer\<close>

definition remote_object :: "'w manager_env \<Rightarrow> int \<Rightarrow> byte list \<Rightarrow> 'w cmanager \<Rightarrow> 'w cworld" where
  "remote_object env sessionId txt m = (let cmd = snd (unmarshalStart (cmdParser env) txt) in
     exec (OnStartCmd (continueEnv env) (startAppVersion cmd))
       (exec Init (DSchedContinueRemote (continueEnv env) (sceneId m) cmd sessionId (foregroundUser env))))"

definition starts_remote :: "'w manager_env \<Rightarrow> int \<Rightarrow> byte list \<Rightarrow> 'w cmanager \<Rightarrow> bool" where
  "starts_remote env sessionId txt m \<longleftrightarrow>
     first_entry (\<lambda>w. sessionId = softbusSessionId w) m = None \<and> fst (unmarshalStart (cmdParser env) txt) = ERR_OK \<and>
     fst (CheckContinuationLimit env (cmdSrcDeviceId (snd (unmarshalStart (cmdParser env) txt)))
       (cmdDstDeviceId (snd (unmarshalStart (cmdParser env) txt))) m) = ERR_OK \<and>
     objects m (compareInfo (continueInfo (remote_object env sessionId txt m))) = None"

lemma start_cmd_info [simp]: "continueInfo (exec (OnStartCmd env v) w) = continueInfo w"
  using keepsD [OF posts_only_queue(2), of w env v] by (auto simp: only_queue_def)

lemma NotifyContinueDataRecv_start:
  assumes "starts_remote env sessionId txt m"
  shows "NotifyContinueDataRecv env sessionId DSCHED_CONTINUE_CMD_START txt b m =
    m\<lparr>continues := smap_insert (compareInfo (continueInfo (remote_object env sessionId txt m)))
        (remote_object env sessionId txt m) (continues m)\<rparr>"
  using assms by (auto simp: NotifyContinueDataRecv_def starts_remote_def remote_object_def Let_def split: prod.split)

lemma WaitAllConnectDecision_counts [simp]:
  "cntSource (WaitAllConnectDecision env dir info t m) = cntSource m"
  "cntSink (WaitAllConnectDecision env dir info t m) = cntSink m"
  by (simp_all add: WaitAllConnectDecision_def SetTimeOut_def)

lemma on_object_counts [simp]:
  "cntSource (on_object p k m) = cntSource m"
  "cntSink (on_object p k m) = cntSink m"
  by (simp_all add: on_object_def Let_def split: option.split)

lemma direction_local [simp]:
  "direction (exec (OnContinueMission env params)
     ((exec Init (DSchedContinueLocal env sid sub dir cb info acc))\<lparr>sceneSessionId := sid'\<rparr>)) = dir"
  using keepsD [OF posts_only_queue(1), of "(exec Init (DSchedContinueLocal env sid sub dir cb info acc))\<lparr>sceneSessionId := sid'\<rparr>" env params]
  by (auto simp: only_queue_def Init_def DSchedContinueLocal_def new_object_def SetEventData_def NotifyDSchedEventResult_def call_def)

lemma local_source_begins:
  assumes "cntSource m \<le> 0" "storageLocalDeviceId (continueEnv env) = Some (sourceDeviceId info)"
    and "sinkDeviceId info \<noteq> sourceDeviceId info" "knownDevice env (sinkDeviceId info)"
    and "objects m (compareInfo info) = None" "smap_ok (continues m)"
  shows "\<exists>w. objects (HandleContinueMissionWithBundleName env info cb params m) = (objects m)(compareInfo info \<mapsto> w) \<and>
      direction w = CONTINUE_SOURCE"
    and "cntSource (HandleContinueMissionWithBundleName env info cb params m) = cntSource m + 1"
    and "smap_ok (continues (HandleContinueMissionWithBundleName env info cb params m))"
proof -
  have limit: "CheckContinuationLimit env (sourceDeviceId info) (sinkDeviceId info) m = (ERR_OK, CONTINUE_SOURCE)"
    using assms by (simp add: CheckContinuationLimit_def MAX_CONCURRENT_SOURCE_def)
  show "cntSource (HandleContinueMissionWithBundleName env info cb params m) = cntSource m + 1"
    using assms(5) by (simp add: HandleContinueMissionWithBundleName_def limit Let_def)
  have "smap_find (continues m) (compareInfo info) = None"
    using assms(5) by (simp add: objects_def)
  then show "\<exists>w. objects (HandleContinueMissionWithBundleName env info cb params m) = (objects m)(compareInfo info \<mapsto> w) \<and>
      direction w = CONTINUE_SOURCE"
    and "smap_ok (continues (HandleContinueMissionWithBundleName env info cb params m))"
    using assms(6)
    by (auto simp: HandleContinueMissionWithBundleName_def limit Let_def objects_def on_object_def sm.ok_ins sm.ok_put)
qed

text \<open>
  A continuation started by the peer makes the limit useless. Starting it does not count, but
  its end is counted: after one such continuation has come and gone the counter is one lower than
  before, and the device accepts two concurrent continuations as source where the limit is one.
\<close>

theorem remote_end_lifts_limit:
  assumes "smap_ok (continues m)" "cntSource m = 0" "starts_remote env sessionId txt m"
    and "storageLocalDeviceId (continueEnv env) = Some dev"
    and "i = continueInfo (remote_object env sessionId txt m)" "sourceDeviceId i = dev" "sinkDeviceId i \<noteq> dev"
    and "sourceDeviceId i1 = dev" "sinkDeviceId i1 \<noteq> dev" "knownDevice env (sinkDeviceId i1)" "objects m (compareInfo i1) = None"
    and "sourceDeviceId i2 = dev" "sinkDeviceId i2 \<noteq> dev" "knownDevice env (sinkDeviceId i2)" "objects m (compareInfo i2) = None"
    and "compareInfo i1 \<noteq> compareInfo i2"
  shows "\<exists>m2 m4 w1 w2.
     m2 = HandleContinueEnd env i (NotifyContinueDataRecv env sessionId DSCHED_CONTINUE_CMD_START txt b m) \<and>
     objects m2 = objects m \<and> cntSource m2 = -1 \<and>
     m4 = HandleContinueMissionWithBundleName env i2 cb2 params2 (HandleContinueMissionWithBundleName env i1 cb1 params1 m2) \<and>
     objects m4 (compareInfo i1) = Some w1 \<and> objects m4 (compareInfo i2) = Some w2 \<and>
     direction w1 = CONTINUE_SOURCE \<and> direction w2 = CONTINUE_SOURCE"
proof -
  let ?m1 = "NotifyContinueDataRecv env sessionId DSCHED_CONTINUE_CMD_START txt b m"
  let ?m2 = "HandleContinueEnd env i ?m1"
  let ?m3 = "HandleContinueMissionWithBundleName env i1 cb1 params1 ?m2"
  let ?m4 = "HandleContinueMissionWithBundleName env i2 cb2 params2 ?m3"
  have none: "objects m (compareInfo i) = None"
    using assms(3,5) by (simp add: starts_remote_def)
  have m1: "?m1 = m\<lparr>continues := smap_insert (compareInfo i) (remote_object env sessionId txt m) (continues m)\<rparr>"
    using NotifyContinueDataRecv_start [OF assms(3)] assms(5) by simp
  have m2: "objects ?m2 = objects m" "smap_ok (continues ?m2)"
    using assms(1) none objects_HandleContinueEnd [of ?m1 env i]
    by (auto simp: m1 sm.ok_ins sm.ok_del HandleContinueEnd_continues objects_def)
  have "smap_find (continues ?m1) (compareInfo i) \<noteq> None"
    using assms(1) none by (simp add: m1 objects_def sm.find_ins)
  moreover from this have "continues ?m1 \<noteq> []"
    by auto
  ultimately have count: "cntSource ?m2 = -1"
    using assms(2,4,6,7) by (simp add: HandleContinueEnd_def RemoveTimeout_def Let_def) (simp add: m1)
  obtain w1 where m3: "objects ?m3 = (objects m)(compareInfo i1 \<mapsto> w1)" "direction w1 = CONTINUE_SOURCE"
      "cntSource ?m3 = 0" "smap_ok (continues ?m3)"
    using local_source_begins [of ?m2 env i1 cb1 params1] assms(4,8-11) m2 count by auto
  obtain w2 where "objects ?m4 = (objects ?m3)(compareInfo i2 \<mapsto> w2)" "direction w2 = CONTINUE_SOURCE"
    using local_source_begins(1) [of ?m3 env i2 cb2 params2] assms(4,12-16) m3 by auto
  then have "objects ?m4 (compareInfo i1) = Some w1" "objects ?m4 (compareInfo i2) = Some w2" "direction w2 = CONTINUE_SOURCE"
    using m3(1) assms(16) by simp_all
  with m2(1) count m3(2) show ?thesis
    by blast
qed

theorem shutdown_reaches_session_witness:
  "objects (HandleShutdown (sample_manager_env ''A'') (-1) sample_manager) sample_key =
     Some (sample_source\<lparr>queue := [REQ_PUSH_EVENT 0, END_EVENT CONTINUE_SESSION_SHUTDOWN]\<rparr>)"
proof -
  have "runner_accepts (continueEnv (sample_manager_env ''A''))"
    by (simp add: sample_manager_env_def)
  note shutdown_reaches_session [OF sample_manager_reachable this, of "-1" sample_key]
  moreover have "objects sample_manager sample_key = Some (sample_source\<lparr>queue := [REQ_PUSH_EVENT 0]\<rparr>)" "sceneId sample_manager = ''''"
    by (simp_all add: sample_manager_eq objects_def sample_manager0_def DSchedContinueManager_def Init_mgr_def)
  ultimately show ?thesis
    by (simp add: sample_source_eq)
qed

text \<open>A pull of device \<open>B\<close>, then two pushes of device \<open>A\<close> to \<open>B\<close>.\<close>

definition sample_pull :: start_cmd where
  "sample_pull = sample_start\<lparr>startDirection := CONTINUE_SINK, cmdSubServiceType := CONTINUE_PULL\<rparr>"

definition sample_pull_env :: "sample_want manager_env" where
  "sample_pull_env = (sample_manager_env ''A'')\<lparr>cmdParser := (sample_parser 1)\<lparr>unmarshalStart := (\<lambda>_. (ERR_OK, sample_pull))\<rparr>\<rparr>"

lemma sample_pull_fields [simp]:
  "cmdSrcDeviceId sample_pull = ''A''" "cmdSrcBundleName sample_pull = ''app''" "cmdDstDeviceId sample_pull = ''B''"
  "cmdDstBundleName sample_pull = ''app''" "cmdContinueType sample_pull = ''t''" "cmdSourceMissionId sample_pull = 11"
  by (simp_all add: sample_pull_def sample_start_def sample_base_def)

lemma sample_pull_object:
  "continueInfo (remote_object sample_pull_env 7 [] sample_manager0) = sample_info\<lparr>missionId := 11\<rparr>"
  by (simp add: remote_object_def sample_pull_env_def Let_def Init_def DSchedContinueRemote_def new_object_def SetEventData_def
      NotifyDSchedEventResult_def call_def sample_info_def DSchedContinueInfo5_def)

theorem remote_end_lifts_limit_witness:
  "\<exists>m2 m4 w1 w2.
     m2 = HandleContinueEnd sample_pull_env (sample_info\<lparr>missionId := 11\<rparr>)
       (NotifyContinueDataRecv sample_pull_env 7 DSCHED_CONTINUE_CMD_START [] (DSchedDataBuffer 0) sample_manager0) \<and>
     objects m2 = objects sample_manager0 \<and> cntSource m2 = -1 \<and>
     m4 = HandleContinueMissionWithBundleName sample_pull_env (DSchedContinueInfo5 ''A'' ''app2'' ''B'' ''app2'' '''') 2 0
       (HandleContinueMissionWithBundleName sample_pull_env sample_info 1 0 m2) \<and>
     objects m4 (compareInfo sample_info) = Some w1 \<and>
     objects m4 (compareInfo (DSchedContinueInfo5 ''A'' ''app2'' ''B'' ''app2'' '''')) = Some w2 \<and>
     direction w1 = CONTINUE_SOURCE \<and> direction w2 = CONTINUE_SOURCE"
proof (rule remote_end_lifts_limit [where dev = "''A''"])
  have none: "continues sample_manager0 = []" "cntSource sample_manager0 = 0"
    by (simp_all add: sample_manager0_def DSchedContinueManager_def Init_mgr_def)
  then show "smap_ok (continues sample_manager0)" "cntSource sample_manager0 = 0"
    by simp_all
  show "starts_remote sample_pull_env 7 [] sample_manager0"
    using none by (simp add: starts_remote_def first_entry_def objects_def CheckContinuationLimit_def MAX_CONCURRENT_SOURCE_def)
      (simp add: sample_pull_env_def sample_manager_env_def sample_continue_env_def)
  show "sample_info\<lparr>missionId := 11\<rparr> = continueInfo (remote_object sample_pull_env 7 [] sample_manager0)"
    by (simp add: sample_pull_object)
  show "storageLocalDeviceId (continueEnv sample_pull_env) = Some ''A''"
    by (simp add: sample_pull_env_def sample_manager_env_def sample_continue_env_def)
qed (simp_all add: sample_pull_env_def sample_manager_env_def objects_def sample_manager0_def DSchedContinueManager_def
    Init_mgr_def DSchedContinueInfo5_def compareInfo_def)

end
