(* ===== verification/Command_Delivery.thy ===== *)
theory Command_Delivery
  imports Manager_Behaviour
begin

text \<open>
  A command on its whole way between two devices: \<^verbatim>\<open>SendCommand\<close> of a continuation marshals it and gives
  the text to the transport adapter, the packets reach the peer's adapter, which calls the listener of
  the peer's continuation manager, and the manager's thread hands the command to the continuation of the
  session. The theorem composes the models of all these parts.
\<close>

text \<open>\<^verbatim>\<open>SERVICE_TYPE_CONTINUE\<close> as the 32 bit data type of a packet.\<close>

definition CONTINUE_DATA_TYPE :: u32 where "CONTINUE_DATA_TYPE = 0"

definition sent_buffer :: "string \<Rightarrow> data_buffer" where
  "sent_buffer t = buf_write (DSchedDataBuffer (length t + 1)) 0 (bytes_of t)"

lemma length_bytes_of [simp]: "length (bytes_of t) = length t"
  by (simp add: bytes_of_def)

lemma sent_buffer_simps:
  assumes "length t + 1 < DSCHED_MAX_BUFFER_SIZE"
  shows "buffer_wf (sent_buffer t)" "Size (sent_buffer t) = length t + 1" "buf_bytes (sent_buffer t) = bytes_of t @ [0]"
proof -
  have "Size (DSchedDataBuffer (length t + 1)) = length t + 1"
    "buf_bytes (DSchedDataBuffer (length t + 1)) = replicate (length t) 0 @ [0]"
    using assms by (simp_all add: DSchedDataBuffer_def Size_def buf_bytes_def replicate_append_same)
  then show "buffer_wf (sent_buffer t)" "Size (sent_buffer t) = length t + 1" "buf_bytes (sent_buffer t) = bytes_of t @ [0]"
    by (simp_all add: sent_buffer_def buf_write_wf buf_bytes_write poke_def)
qed

lemma SendCommand_json:
  assumes "marshalCmd env = json_marshal lib" "Marshal lib cmd = Some t" "length t + 1 < DSCHED_MAX_BUFFER_SIZE"
  shows "exec (SendCommand env cmd) w = w\<lparr>calls := calls w @ [CallSendData (softbusSessionId w) (sent_buffer t)]\<rparr>"
proof -
  have "memcpy_s (Data (DSchedDataBuffer (length t + 1)) = None) (Capacity (DSchedDataBuffer (length t + 1))) False (length t) = ERR_OK"
    using assms(3) by (simp add: memcpy_s_ok_iff DSchedDataBuffer_def Data_def Capacity_def RSIZE_MAX_def DSCHED_MAX_BUFFER_SIZE_def)
  then show ?thesis
    using assms(1,2) by (simp add: SendCommand_def json_marshal_def call_def sent_buffer_def)
qed

subsection \<open>The command number\<close>

fun command_of :: "'w continue_cmd \<Rightarrow> int" where
  "command_of (StartCmd c) = cmdCommand c"
| "command_of (DataCmd c) = cmdCommand c"
| "command_of (ReplyCmd c) = cmdCommand c"
| "command_of (EndCmd c) = cmdCommand c"

text \<open>The number every class of commands is packed with.\<close>

fun class_number :: "'w continue_cmd \<Rightarrow> int" where
  "class_number (StartCmd c) = DSCHED_CONTINUE_CMD_START"
| "class_number (DataCmd c) = DSCHED_CONTINUE_CMD_DATA"
| "class_number (ReplyCmd c) = DSCHED_CONTINUE_CMD_REPLY"
| "class_number (EndCmd c) = DSCHED_CONTINUE_CMD_END"

lemma printed:
  assumes "json_faithful lib" "json_clean j" "jsonPrint lib j = Some t"
  shows "jsonParse lib t = Some j" "nul_free t"
  using json_print [OF assms(1,2)] assms(3) by auto

lemma base_command:
  assumes "json_faithful lib" "base_clean c" "MarshalBase lib c = Some t"
  shows "nul_free t \<and> (\<exists>j. jsonParse lib t = Some j \<and> cJSON_GetObjectItemCaseSensitive j ''Command'' = Some (CNumber (cmdCommand c)))"
  using printed [OF assms(1) _ assms(3) [unfolded MarshalBase_def]] assms(2) by (simp add: base_clean_def)

definition has_command :: "'w json_lib \<Rightarrow> string \<Rightarrow> int \<Rightarrow> bool" where
  "has_command lib t n \<longleftrightarrow>
     (\<exists>j b j'. jsonParse lib t = Some j \<and> cJSON_GetObjectItemCaseSensitive j ''BaseCmd'' = Some (CString b) \<and>
       jsonParse lib b = Some j' \<and> cJSON_GetObjectItemCaseSensitive j' ''Command'' = Some (CNumber n))"

lemma command_text_base:
  assumes "json_faithful lib" "MarshalBase lib c = Some b" "base_clean c"
    and "jsonPrint lib (CObject ((''BaseCmd'', CString (c_str b)) # items)) = Some t"
    and "list_all (\<lambda>(k, j). nul_free k \<and> json_clean j) items"
  shows "has_command lib t (cmdCommand c)"
proof -
  obtain j' where j': "nul_free b" "jsonParse lib b = Some j'" "cJSON_GetObjectItemCaseSensitive j' ''Command'' = Some (CNumber (cmdCommand c))"
    using base_command [OF assms(1,3,2)] by auto
  then have "jsonParse lib t = Some (CObject ((''BaseCmd'', CString b) # items))"
    using printed(1) [OF assms(1) _ assms(4)] assms(5) by simp
  with j' show ?thesis
    by (auto simp: has_command_def)
qed

lemma nul_free_printed:
  "json_faithful lib \<Longrightarrow> caller_clean ci \<Longrightarrow> lib_faithful lib \<Longrightarrow> MarshalCallerInfo lib ci = Some t \<Longrightarrow> nul_free t"
  "json_faithful lib \<Longrightarrow> account_clean ai \<Longrightarrow> lib_faithful lib \<Longrightarrow> MarshalAccountInfo lib ai = Some t \<Longrightarrow> nul_free t"
  using caller_roundtrip account_roundtrip by (metis option.inject)+

lemma command_text:
  assumes "lib_faithful lib" "sendable lib cmd" "Marshal lib cmd = Some t"
  shows "has_command lib t (command_of cmd)"
proof -
  have faithful: "json_faithful lib"
    using assms(1) by (simp add: lib_faithful_def)
  show ?thesis
  proof (cases cmd)
    case (StartCmd c)
    with assms(2,3) show ?thesis
      by (auto simp: MarshalStart_def bind_eq_Some_conv intro!: command_text_base [OF faithful])
  next
    case (DataCmd c)
    with assms(1-3) show ?thesis
      by (auto simp: MarshalData_def MarshalInner_def bind_eq_Some_conv nul_free_printed [OF faithful]
          intro!: command_text_base [OF faithful])
  next
    case (ReplyCmd c)
    with assms(2,3) show ?thesis
      by (auto simp: MarshalReply_def bind_eq_Some_conv intro!: command_text_base [OF faithful])
  next
    case (EndCmd c)
    with assms(2,3) show ?thesis
      by (auto simp: MarshalEnd_def bind_eq_Some_conv intro!: command_text_base [OF faithful])
  qed
qed

subsection \<open>The receiving manager\<close>

lemma text_of_terminated: "text_of (bytes_of t @ [0]) = t @ [CHR 0x00]"
  using text_of_bytes [of t] by (simp add: text_of_def bytes_of_def char_of_def)

lemma c_str_terminated [simp]: "nul_free t \<Longrightarrow> c_str (t @ [CHR 0x00]) = t"
  by (auto simp: c_str_def nul_free_def takeWhile_append)

lemma packet_text: "length t + 1 < DSCHED_MAX_BUFFER_SIZE \<Longrightarrow> buffer_text (packet_buffer (bytes_of t @ [0])) = Done (bytes_of t @ [0])"
  by (simp add: buffer_text_def packet_buffer_eq Data_def Capacity_def)

text \<open>Unmarshalling reads the text up to its terminating zero byte.\<close>

lemma Unmarshal_terminated:
  assumes "nul_free t"
  shows "UnmarshalStart lib (t @ [CHR 0x00]) = UnmarshalStart lib t" "UnmarshalData lib (t @ [CHR 0x00]) = UnmarshalData lib t"
    "UnmarshalReply lib (t @ [CHR 0x00]) = UnmarshalReply lib t" "UnmarshalEnd lib (t @ [CHR 0x00]) = UnmarshalEnd lib t"
  using assms
  by (simp_all add: UnmarshalStart_def UnmarshalData_def UnmarshalReply_def UnmarshalEnd_def UnmarshalParcel_def)

lemma message_command_text:
  assumes "parseJson menv = jsonParse lib" "nul_free t" "has_command lib t n" "int32_range n"
  shows "message_command menv (bytes_of t @ [0]) = Some n"
  using assms by (auto simp: message_command_def text_of_terminated has_command_def)

fun arrives :: "'w continue_env \<Rightarrow> 'w continue_cmd \<Rightarrow> 'w continue_event list" where
  "arrives env (StartCmd c) = []"
| "arrives env (DataCmd c) = [DATA_EVENT (c\<lparr>cmdCommand := 0, dataCallerInfo := received_caller (dataCallerInfo c),
     dataAccountInfo := received_account (dataAccountInfo c),
     dataWant := SetBundle (wapi env) (cmdDstBundleName c) (dataWant c)\<rparr>)]"
| "arrives env (ReplyCmd c) =
     (if replyCmd c = DSCHED_CONTINUE_CMD_START then [ABILITY_EVENT (replyAppVersion c)]
      else if replyCmd c = DSCHED_CONTINUE_CMD_END then [END_EVENT (replyResult c)] else [])"
| "arrives env (EndCmd c) = [COMPLETE_EVENT (endResult c)]"

lemma recv_command_arrives:
  assumes "lib_faithful lib" "sendable lib cmd" "Marshal lib cmd = Some t" "runner_accepts env" "eventHandler w"
  shows "exec (recv_command (json_parser lib w0) env (class_number cmd) (bytes_of t @ [0])) w = w\<lparr>queue := queue w @ arrives env cmd\<rparr>"
proof -
  have t: "nul_free t" "Unmarshal_as lib cmd t = Some (received cmd)"
    using marshal_received [OF assms(1,2)] assms(3) by auto
  show ?thesis
    using t assms(4,5) Unmarshal_terminated [OF t(1), of lib]
    by (cases cmd) (auto simp: recv_command_def json_parser_def result_of_def text_of_terminated continue_commands post_defs
        intro!: dcontinue.equality)
qed

lemma first_entry_found:
  assumes "smap_ok (continues m)" "first_entry P m = Some (k, w)"
  shows "smap_find (continues m) k = Some w"
proof -
  have "(k, w) \<in> set (continues m)"
    using assms(2) by (auto simp: first_entry_def find_Some_iff)
  then show ?thesis
    using assms(1) by (simp add: smap_mem_find)
qed

lemma HandleDataRecv_arrives:
  assumes "lib_faithful lib" "sendable lib cmd" "command_of cmd = class_number cmd" "Marshal lib cmd = Some t"
    and "length t + 1 < DSCHED_MAX_BUFFER_SIZE"
    and "parseJson menv = jsonParse lib" "cmdParser menv = json_parser lib w0" "runner_accepts (continueEnv menv)"
    and "smap_ok (continues m)" "first_entry (\<lambda>w. sid = softbusSessionId w) m = Some (k, w)" "eventHandler w"
  shows "\<exists>m'. HandleDataRecv menv sid (Some (packet_buffer (bytes_of t @ [0]))) m = Done m' \<and>
     objects m' = (objects m)(k \<mapsto> w\<lparr>sceneSessionId := sceneId m, queue := queue w @ arrives (continueEnv menv) cmd\<rparr>)"
proof -
  have t: "nul_free t" "has_command lib t (class_number cmd)"
    using marshal_received [OF assms(1,2)] command_text [OF assms(1,2,4)] assms(3,4) by auto
  have "int32_range (class_number cmd)"
    by (cases cmd) (simp_all add: int32_range_def continue_commands)
  then have number: "message_command menv (bytes_of t @ [0]) = Some (class_number cmd)"
    by (rule message_command_text [OF assms(6) t])
  note found = first_entry_found [OF assms(9,10)]
  let ?p = "OnDataRecv (cmdParser menv) (continueEnv menv) (class_number cmd) (packet_buffer (bytes_of t @ [0]))"
  have "exec ?p (w\<lparr>sceneSessionId := sceneId m\<rparr>) =
      w\<lparr>sceneSessionId := sceneId m, queue := queue w @ arrives (continueEnv menv) cmd\<rparr>"
    using recv_command_arrives [OF assms(1,2,4,8), of "w\<lparr>sceneSessionId := sceneId m\<rparr>" w0] assms(11)
    by (simp add: OnDataRecv_def packet_text [OF assms(5)] assms(7))
  then have "objects (on_object ?p k m) = (objects m)(k \<mapsto> w\<lparr>sceneSessionId := sceneId m, queue := queue w @ arrives (continueEnv menv) cmd\<rparr>)"
    using found assms(9) by (simp add: on_object_def objects_def)
  then show ?thesis
    by (simp add: HandleDataRecv_def packet_text [OF assms(5)] number NotifyContinueDataRecv_def assms(10))
qed

text \<open>
  C1: A command crosses the two devices: a continuation that sends a start, data, reply or end command
  through its session makes the transport send packets which, arriving in order at the peer, lead to
  one call of the listener of the peer's continuation manager, and the manager gives exactly the event
  that this command stands for to the continuation of the session, behind the events waiting there, and
  touches no other continuation. The session ids of the two devices, the size of the text and the changing
  send limit of the transport do not matter.
\<close>

theorem command_reaches_continuation:
  assumes "lib_faithful lib" "sendable lib cmd" "command_of cmd = class_number cmd"
    and "\<forall>t. Marshal lib cmd = Some t \<longrightarrow> length t + 1 < DSCHED_MAX_BUFFER_SIZE \<and> length t + 1 \<le> 65535 * (L - 512)"
    and "marshalCmd env = json_marshal lib"
    and "smap_find (sessions b) (softbusSessionId v) = Some (Some sb)" "env_ok L senv"
    and "adapter_inv a" "smap_find (sessions a) sid = Some (Some sa)" "listeners_of a CONTINUE_DATA_TYPE = [l]"
    and "manager_reachable m" "first_entry (\<lambda>w. sid = softbusSessionId w) m = Some (k, w)"
    and "parseJson menv = jsonParse lib" "cmdParser menv = json_parser lib w0" "runner_accepts (continueEnv menv)"
  shows "\<exists>buf pkts a' buf' m'.
     exec (SendCommand env cmd) v = v\<lparr>calls := calls v @ [CallSendData (softbusSessionId v) buf]\<rparr> \<and>
     AdapterSendData senv (softbusSessionId v) CONTINUE_DATA_TYPE (Some buf) b =
       Done (map (CallSendBytes (softbusSessionId v)) pkts, ERR_OK) \<and>
     run_bytes junk sid a pkts = Done (a', [ListenerOnDataRecv l sid buf']) \<and>
     HandleDataRecv menv sid (Some buf') m = Done m' \<and>
     objects m' = (objects m)(k \<mapsto> w\<lparr>sceneSessionId := sceneId m, queue := queue w @ arrives (continueEnv menv) cmd\<rparr>)"
proof -
  obtain t where t: "Marshal lib cmd = Some t"
    using marshal_received [OF assms(1,2)] by auto
  then have len: "length t + 1 < DSCHED_MAX_BUFFER_SIZE" "length t + 1 \<le> 65535 * (L - 512)"
    using assms(4) by auto
  note buf = sent_buffer_simps [OF len(1)]
  obtain pkts a' where "AdapterSendData senv (softbusSessionId v) CONTINUE_DATA_TYPE (Some (sent_buffer t)) b =
       Done (map (CallSendBytes (softbusSessionId v)) pkts, ERR_OK)"
    "run_bytes junk sid a pkts = Done (a', [ListenerOnDataRecv l sid (packet_buffer (bytes_of t @ [0]))])"
    using message_delivered [OF assms(8,9,6) buf(1) _ assms(7), of CONTINUE_DATA_TYPE junk] buf len(2) assms(10) by auto
  moreover have "smap_ok (continues m)" "eventHandler w"
    using manager_reachable_inv [OF assms(11)] first_entry_found [OF _ assms(12)] reachable_invariant [of w]
    by (auto simp: system_inv_def objects_def well_placed_def)
  then obtain m' where "HandleDataRecv menv sid (Some (packet_buffer (bytes_of t @ [0]))) m = Done m'"
     "objects m' = (objects m)(k \<mapsto> w\<lparr>sceneSessionId := sceneId m, queue := queue w @ arrives (continueEnv menv) cmd\<rparr>)"
    using HandleDataRecv_arrives [OF assms(1-3) t len(1) assms(13-15) _ assms(12)] by blast
  ultimately show ?thesis
    using SendCommand_json [OF assms(5) t len(1), of v] by blast
qed


subsection \<open>An end command between two devices\<close>

text \<open>
  A faithful library that prints the two values an end command consists of in one character each, and
  every other value as \<open>sample_lib\<close> does.
\<close>

definition short_base :: cjson where
  "short_base = CObject
     [(''Version'', CNumber 1), (''ServiceType'', CNumber 0), (''SubServiceType'', CNumber CONTINUE_PUSH),
      (''Command'', CNumber DSCHED_CONTINUE_CMD_END), (''SrcDeviceId'', CString ''A''), (''SrcBundleName'', CString ''app''),
      (''SrcDeveloperId'', CString ''dev''), (''DstDeviceId'', CString ''B''), (''DstBundleName'', CString ''app''),
      (''DstDeveloperId'', CString ''''), (''ContinueType'', CString ''t''), (''ContinueByType'', CNumber 1),
      (''SourceMissionId'', CNumber 11), (''DmsVersion'', CNumber DMS_VERSION)]"

definition short_end :: cjson where
  "short_end = CObject [(''BaseCmd'', CString ''a''), (''Result'', CNumber 0)]"

definition short_print :: "cjson \<Rightarrow> string" where
  "short_print j = (if j = short_base then ''a'' else if j = short_end then ''b'' else replicate (to_nat j) (CHR ''x''))"

definition short_parse :: "string \<Rightarrow> cjson" where
  "short_parse t = (if t = ''a'' then short_base else if t = ''b'' then short_end else from_nat (length t))"

definition short_lib :: "sample_want json_lib" where
  "short_lib = sample_lib\<lparr>jsonPrint := (\<lambda>j. Some (short_print j)), jsonParse := (\<lambda>t. Some (short_parse t)),
     dumpExtra := (\<lambda>e. short_print (extra_json e))\<rparr>"

lemma short_roundtrip: "short_parse (short_print j) = j" "nul_free (short_print j)"
proof -
  have "replicate n (CHR ''x'') \<noteq> ''a''" "replicate n (CHR ''x'') \<noteq> ''b''" for n
    by (cases n; simp)+
  then show "short_parse (short_print j) = j"
    by (auto simp: short_print_def short_parse_def short_base_def short_end_def)
  show "nul_free (short_print j)"
    using nul_free_replicate by (auto simp: short_print_def nul_free_def)
qed

lemma short_lib_faithful: "lib_faithful short_lib"
  by (simp add: lib_faithful_def json_faithful_def short_lib_def short_roundtrip) (simp add: sample_lib_def nul_free_def)

lemma short_marshal: "Marshal short_lib (EndCmd sample_end) = Some ''b''"
proof -
  have "MarshalBase short_lib sample_end = Some (short_print short_base)"
    by (simp add: MarshalBase_def short_lib_def sample_end_def sample_base_def cmd_base.defs short_base_def nul_free_def)
  then have "MarshalBase short_lib sample_end = Some ''a''"
    by (simp add: short_print_def)
  then show ?thesis
    by (simp add: MarshalEnd_def nul_free_def short_lib_def sample_end_def cmd_base.defs end_cmd.defs
        short_print_def short_end_def [symmetric]) (simp add: short_base_def short_end_def)
qed

text \<open>The manager of device \<open>B\<close>, which has received a start command on session 5.\<close>

definition sample_sink_manager :: "sample_want cmanager" where
  "sample_sink_manager = NotifyContinueDataRecv (sample_manager_env ''B'') 5 DSCHED_CONTINUE_CMD_START [0] (packet_buffer [0]) sample_manager0"

definition sample_started :: "sample_want cworld" where
  "sample_started = exec (OnStartCmd (sample_continue_env ''B'') 3)
     (exec Init (DSchedContinueRemote (sample_continue_env ''B'') '''' sample_start 5 100))"


lemma sample_started_session: "softbusSessionId sample_started = 5" "compareInfo (continueInfo sample_started) = sample_key"
  by (simp_all add: sample_started_def OnStartCmd_def PostCotinueAbilityTask_def post_def sample_continue_env_def
      DSchedContinueRemote_def sample_start_def sample_base_def cmd_base.defs start_cmd.defs new_object_def Init_def
      SetEventData_def NotifyDSchedEventResult_def call_def compareInfo_def DSchedContinueInfo5_def Let_def)

lemma sample_sink_manager_eq: "sample_sink_manager = sample_manager0\<lparr>continues := [(sample_key, sample_started)]\<rparr>"
proof -
  let ?env = "sample_manager_env ''B''"
  have m: "continues sample_manager0 = []" "cntSink sample_manager0 = 0" "sceneId sample_manager0 = ''''"
    by (simp_all add: sample_manager_defs)
  have env: "continueEnv ?env = sample_continue_env ''B''" "unmarshalStart (cmdParser ?env) bs = (ERR_OK, sample_start)"
      "foregroundUser ?env = 100" "knownDevice ?env ''A''" "storageLocalDeviceId (sample_continue_env ''B'') = Some ''B''" for bs
    by (simp_all add: sample_manager_env_def sample_parser_def sample_continue_env_def)
  have "startAppVersion sample_start = 3" "cmdSrcDeviceId sample_start = ''A''" "cmdDstDeviceId sample_start = ''B''"
    by (simp_all add: sample_start_def sample_base_def cmd_base.defs start_cmd.defs)
  moreover have "compareInfo (continueInfo (exec Init (DSchedContinueRemote (sample_continue_env ''B'') '''' sample_start 5 100))) = sample_key"
    using sample_started_session(2) by (simp add: sample_started_def OnStartCmd_def PostCotinueAbilityTask_def post_def split: if_splits)
  ultimately show ?thesis
    using m
    by (simp add: sample_sink_manager_def NotifyContinueDataRecv_def first_entry_def env CheckContinuationLimit_def
        MAX_CONCURRENT_SINK_def Let_def smap_insert_def sample_started_def)
qed

lemma sample_sink_manager_reachable: "manager_reachable sample_sink_manager"
proof -
  let ?env = "sample_manager_env ''B''"
  let ?t = "TaskDataRecv 5 (Some (packet_buffer [0]))"
  let ?m = "sample_manager0\<lparr>tasks := [?t]\<rparr>"
  have m0: "managerHandler sample_manager0" "tasks sample_manager0 = []" "waiting sample_manager0 = None"
      "sample_manager0\<lparr>tasks := []\<rparr> = sample_manager0"
    by (simp_all add: sample_manager_defs)
  have "manager_reachable ?m"
    using manager_reachable.step [OF sample_manager0_reachable mstep.data [of _ 5 "Some (packet_buffer [0])"]] m0
    by (simp add: OnDataRecv_mgr_def PostTask_def)
  moreover have "message_command ?env [0] = Some DSCHED_CONTINUE_CMD_START"
    by (simp add: message_command_def sample_manager_env_def int32_range_def continue_commands)
  then have "run_manager_task ?env ?t (?m\<lparr>tasks := []\<rparr>) = Done sample_sink_manager"
    using packet_text [of "''''"] m0(4)
    by (simp add: HandleDataRecv_def bytes_of_def sample_sink_manager_def DSCHED_MAX_BUFFER_SIZE_def)
  then have "mstep ?m sample_sink_manager"
    by (rule mstep.task [rotated 2]) (simp_all add: m0)
  ultimately show ?thesis
    by (rule manager_reachable.step)
qed

definition sample_receiver :: adapter where
  "sample_receiver = sample_adapter\<lparr>listeners := [(0, [7])]\<rparr>"

theorem command_reaches_continuation_witness:
  "\<exists>buf pkts a' buf' m'.
     AdapterSendData sample_env 5 CONTINUE_DATA_TYPE (Some buf) sample_adapter = Done (map (CallSendBytes 5) pkts, ERR_OK) \<and>
     run_bytes (frag_head 0 0 0 0 0) 5 sample_receiver pkts = Done (a', [ListenerOnDataRecv 7 5 buf']) \<and>
     objects m' sample_key = Some (sample_started\<lparr>sceneSessionId := sceneId sample_sink_manager,
       queue := queue sample_started @ [COMPLETE_EVENT 0]\<rparr>)"
proof -
  let ?s = "DSchedSoftbusSession 5 ''me'' ''peer'' ''dms'' True"
  let ?env = "(sample_continue_env ''A'')\<lparr>marshalCmd := json_marshal short_lib\<rparr>"
  let ?menv = "(sample_manager_env ''B'')\<lparr>parseJson := jsonParse short_lib, cmdParser := json_parser short_lib sample_empty_want\<rparr>"
  have "sendable short_lib (EndCmd sample_end)"
    by (simp add: sample_end_def sample_base_def base_clean_def int32_range_def cmd_base.defs end_cmd.defs nul_free_def
        DMS_VERSION_def continue_kinds continue_commands)
  moreover have "command_of (EndCmd sample_end) = class_number (EndCmd sample_end)"
    by (simp add: sample_end_def sample_base_def cmd_base.defs end_cmd.defs)
  moreover have "\<forall>t. Marshal short_lib (EndCmd sample_end) = Some t \<longrightarrow>
      length t + 1 < DSCHED_MAX_BUFFER_SIZE \<and> length t + 1 \<le> 65535 * (1024 - 512)"
    using short_marshal by (simp add: DSCHED_MAX_BUFFER_SIZE_def)
  moreover have "marshalCmd ?env = json_marshal short_lib"
    by simp
  moreover have "smap_find (sessions sample_adapter) (softbusSessionId sample_started) = Some (Some ?s)"
    by (simp add: sample_adapter_def sample_started_session)
  moreover have "env_ok 1024 sample_env"
    by (simp add: env_ok_def sample_env_def)
  moreover have "adapter_inv sample_receiver"
    by (simp add: adapter_inv_def sample_receiver_def sample_adapter_def smap_ok_Cons new_session_ok)
  moreover have "smap_find (sessions sample_receiver) 5 = Some (Some ?s)" "listeners_of sample_receiver CONTINUE_DATA_TYPE = [7]"
    by (simp_all add: sample_receiver_def sample_adapter_def listeners_of_def CONTINUE_DATA_TYPE_def)
  moreover have "first_entry (\<lambda>w. 5 = softbusSessionId w) sample_sink_manager = Some (sample_key, sample_started)"
    by (simp add: sample_sink_manager_eq first_entry_def sample_started_session)
  moreover have "parseJson ?menv = jsonParse short_lib" "cmdParser ?menv = json_parser short_lib sample_empty_want"
      "runner_accepts (continueEnv ?menv)"
    by (simp_all add: sample_manager_env_def)
  ultimately have "\<exists>buf pkts a' buf' m'.
     exec (SendCommand ?env (EndCmd sample_end)) sample_started =
       sample_started\<lparr>calls := calls sample_started @ [CallSendData (softbusSessionId sample_started) buf]\<rparr> \<and>
     AdapterSendData sample_env (softbusSessionId sample_started) CONTINUE_DATA_TYPE (Some buf) sample_adapter =
       Done (map (CallSendBytes (softbusSessionId sample_started)) pkts, ERR_OK) \<and>
     run_bytes (frag_head 0 0 0 0 0) 5 sample_receiver pkts = Done (a', [ListenerOnDataRecv 7 5 buf']) \<and>
     HandleDataRecv ?menv 5 (Some buf') sample_sink_manager = Done m' \<and>
     objects m' = (objects sample_sink_manager)(sample_key \<mapsto> sample_started\<lparr>sceneSessionId := sceneId sample_sink_manager,
       queue := queue sample_started @ arrives (continueEnv ?menv) (EndCmd sample_end)\<rparr>)"
    by (intro command_reaches_continuation [OF short_lib_faithful, where L = 1024 and m = sample_sink_manager]
        sample_sink_manager_reachable)
  moreover have "arrives (continueEnv ?menv) (EndCmd sample_end) = [COMPLETE_EVENT 0]"
    by (simp add: sample_end_def cmd_base.defs end_cmd.defs)
  ultimately show ?thesis
    unfolding sample_started_session by (metis fun_upd_same)
qed

end
