(* ===== verification/Collab_Types.thy ===== *)
theory Collab_Types
  imports Command_Json
begin

text \<open>
  The data of a collaboration, two abilities on two devices that work together:
  \<^verbatim>\<open>include/collab/dsched_collab.h\<close>, \<^verbatim>\<open>include/collab/dsched_collab_event.h\<close> and the members of the manager
  in \<^verbatim>\<open>include/collab/dsched_collab_manager.h\<close> of \<^verbatim>\<open>services/dtbschedmgr\<close>.

  \<^item> Wants (\<open>'w\<close>) and want parameters (\<open>'p\<close>) belong to the ability framework; the methods the code
    calls are the record \<open>collab_want_api\<close>. Remote callback objects are identified by numbers.
  \<^item> \<open>collab_env\<close> is what the other services answer during one step, \<open>collab_call\<close> a call made to one.
  \<^item> An operation of a collaboration is a program over \<open>crun\<close>: the object itself and the manager, whose
    map it leaves at its end. A null pointer that the code dereferences sets \<open>nullUse\<close>.
\<close>

abbreviation SEND_REQUEST_DEF_FAIL :: ret where "SEND_REQUEST_DEF_FAIL \<equiv> 29360163"
abbreviation COLLAB_SEND_EVENT_FAILED :: ret where "COLLAB_SEND_EVENT_FAILED \<equiv> 29360330"
abbreviation FIND_REMOTE_DEVICEID_ERR :: ret where "FIND_REMOTE_DEVICEID_ERR \<equiv> 29360332"
abbreviation COLLAB_SESSION_SHUTDOWN :: ret where "COLLAB_SESSION_SHUTDOWN \<equiv> 29360333"
abbreviation FIND_LOCAL_DEVICEID_ERR :: ret where "FIND_LOCAL_DEVICEID_ERR \<equiv> 29360334"
abbreviation GET_APPID_ERR :: ret where "GET_APPID_ERR \<equiv> 29360335"
abbreviation GET_BUNDLENAMELIST_ERR :: ret where "GET_BUNDLENAMELIST_ERR \<equiv> 29360336"
abbreviation GET_ACCOUNT_INFO_ERR :: ret where "GET_ACCOUNT_INFO_ERR \<equiv> 29360337"
abbreviation COLLAB_STATE_MACHINE_INVALID_STATE :: ret where "COLLAB_STATE_MACHINE_INVALID_STATE \<equiv> 29360339"
abbreviation COLLAB_ABILITY_TIMEOUT_ERR :: ret where "COLLAB_ABILITY_TIMEOUT_ERR \<equiv> 29360340"
abbreviation COLLAB_ABILITY_REJECT_ERR :: ret where "COLLAB_ABILITY_REJECT_ERR \<equiv> 29360341"

subsection \<open>The participants and the info\<close>

record collab_message =
  msgPid :: int
  msgUid :: int
  msgAccessToken :: int
  msgDeviceId :: string
  msgBundleName :: string
  msgAbilityName :: string
  msgModuleName :: string
  msgServerId :: string
  msgSocketName :: string

definition collab_message_default :: collab_message where
  "collab_message_default =
     \<lparr>msgPid = -1, msgUid = -1, msgAccessToken = -1, msgDeviceId = '''', msgBundleName = '''', msgAbilityName = '''',
      msgModuleName = '''', msgServerId = '''', msgSocketName = ''''\<rparr>"

record 'p connect_opt =
  needSendBigData :: bool
  needSendStream :: bool
  needRecvStream :: bool
  startParams :: 'p
  messageParams :: 'p

definition COLLAB_SOURCE :: int where "COLLAB_SOURCE = 0"
definition COLLAB_SINK :: int where "COLLAB_SINK = 1"

lemma collab_directions [simp]: "COLLAB_SOURCE \<noteq> COLLAB_SINK" "COLLAB_SINK \<noteq> COLLAB_SOURCE"
  by (simp_all add: COLLAB_SOURCE_def COLLAB_SINK_def)

record 'p collab_info =
  srcCollabSessionId :: int
  sinkCollabSessionId :: int
  sinkUserId :: int
  srcCollabVersion :: int
  sinkCollabVersion :: int
  srcAppVersion :: int
  collabDirection :: int
  collabToken :: string
  srcUdid :: string
  sinkUdid :: string
  sinkAccountId :: int
  collabCallerInfo :: caller_info
  srcAccountInfo :: account_info
  srcInfo :: collab_message
  sinkInfo :: collab_message
  srcOpt :: "'p connect_opt"
  srcClientCB :: "nat option"
  sinkClientCB :: "nat option"

text \<open>A default object; \<open>garbage\<close> is the value of \<^verbatim>\<open>sinkAccountId_\<close>, which has no initialiser.\<close>

definition collab_info_default :: "'p \<Rightarrow> int \<Rightarrow> 'p collab_info" where
  "collab_info_default noParams garbage =
     \<lparr>srcCollabSessionId = -1, sinkCollabSessionId = -1, sinkUserId = -1, srcCollabVersion = 0, sinkCollabVersion = 0,
      srcAppVersion = 0, collabDirection = COLLAB_SOURCE, collabToken = '''', srcUdid = '''', sinkUdid = '''',
      sinkAccountId = garbage, collabCallerInfo = caller_info_default, srcAccountInfo = account_info_default,
      srcInfo = collab_message_default, sinkInfo = collab_message_default,
      srcOpt = \<lparr>needSendBigData = False, needSendStream = False, needRecvStream = False, startParams = noParams,
        messageParams = noParams\<rparr>,
      srcClientCB = None, sinkClientCB = None\<rparr>"

subsection \<open>Commands\<close>

definition SINK_GET_VERSION_CMD :: int where "SINK_GET_VERSION_CMD = 1"
definition SOURCE_GET_VERSION_CMD :: int where "SOURCE_GET_VERSION_CMD = 2"
definition SINK_START_CMD :: int where "SINK_START_CMD = 3"
definition NOTIFY_RESULT_CMD :: int where "NOTIFY_RESULT_CMD = 4"
definition DISCONNECT_CMD :: int where "DISCONNECT_CMD = 5"

lemmas collab_commands = SINK_GET_VERSION_CMD_def SOURCE_GET_VERSION_CMD_def SINK_START_CMD_def NOTIFY_RESULT_CMD_def
  DISCONNECT_CMD_def

record base_cmd =
  bcNeedSendBigData :: bool
  bcNeedSendStream :: bool
  bcNeedRecvStream :: bool
  bcCollabVersion :: int
  bcDmsVersion :: int
  bcCommand :: int
  bcSrcCollabSessionId :: int
  bcCollabToken :: string
  bcSrcDeviceId :: string
  bcSrcBundleName :: string
  bcSrcAbilityName :: string
  bcSrcModuleName :: string
  bcSrcServerId :: string
  bcSinkDeviceId :: string
  bcSinkBundleName :: string
  bcSinkAbilityName :: string
  bcSinkModuleName :: string
  bcSinkServerId :: string

definition base_cmd_default :: base_cmd where
  "base_cmd_default =
     \<lparr>bcNeedSendBigData = False, bcNeedSendStream = False, bcNeedRecvStream = False, bcCollabVersion = -1, bcDmsVersion = -1,
      bcCommand = -1, bcSrcCollabSessionId = -1, bcCollabToken = '''', bcSrcDeviceId = '''', bcSrcBundleName = '''',
      bcSrcAbilityName = '''', bcSrcModuleName = '''', bcSrcServerId = '''', bcSinkDeviceId = '''', bcSinkBundleName = '''',
      bcSinkAbilityName = '''', bcSinkModuleName = '''', bcSinkServerId = ''''\<rparr>"

record version_cmd = base_cmd +
  vcSrcPid :: int
  vcSrcUid :: int
  vcSrcAccessToken :: int
  vcSinkCollabVersion :: int

record 'p sink_start_cmd = base_cmd +
  scSrcPid :: int
  scSrcUid :: int
  scSrcAccessToken :: int
  scAppVersion :: int
  scCallerInfo :: caller_info
  scAccountInfo :: account_info
  scStartParams :: 'p
  scMessageParams :: 'p

record notify_result_cmd = base_cmd +
  ncResult :: int
  ncSinkCollabSessionId :: int
  ncSinkPid :: int
  ncSinkAccessToken :: int
  ncSinkUserId :: int
  ncSinkAccountId :: int
  ncSinkSocketName :: string
  ncAbilityRejectReason :: string

datatype 'p collab_cmd =
    VersionCmd version_cmd
  | SinkStart "'p sink_start_cmd"
  | NotifyResult notify_result_cmd
  | Disconnect base_cmd

subsection \<open>Events and states\<close>

datatype collab_event =
    SOURCE_GET_PEER_VERSION_EVENT
  | SOURCE_GET_VERSION_EVENT
  | SOURCE_START_EVENT
  | NOTIFY_RESULT_EVENT int
  | GET_SINK_VERSION_EVENT
  | START_ABILITY_EVENT
  | NOTIFY_PREPARE_RESULT_EVENT int
  | ERR_END_EVENT int
  | END_EVENT_C
  | ABILITY_REJECT_EVENT string

datatype collab_state =
    SOURCE_GET_PEER_VERSION_STATE
  | SOURCE_START_STATE_C
  | SOURCE_WAIT_RESULT_STATE
  | SOURCE_WAIT_END_STATE_C
  | SINK_GET_VERSION_STATE
  | SINK_START_STATE_C
  | SINK_CONNECT_STATE
  | SINK_WAIT_END_STATE_C

text \<open>
  The members of \<^verbatim>\<open>DSchedCollab\<close>: \<open>stateMachine\<close> is \<open>None\<close> before \<^verbatim>\<open>Init\<close> and \<open>Some None\<close> before the first
  state; \<open>collabQueue\<close> are the events waiting in the event runner.
\<close>

record 'p collab =
  collabInfo :: "'p collab_info"
  collabSession :: int
  stateMachine :: "collab_state option option"
  collabHandler :: bool
  collabQueue :: "collab_event list"
  appStateObserver :: bool

subsection \<open>The services around a collaboration\<close>

record ('w, 'p) collab_want_api =
  cEmptyWant :: 'w
  cAddFlags :: "u32 \<Rightarrow> 'w \<Rightarrow> 'w"
  cSetParam :: "string \<Rightarrow> string \<Rightarrow> 'w \<Rightarrow> 'w"
  cSetElementName :: "string \<Rightarrow> string \<Rightarrow> string \<Rightarrow> 'w \<Rightarrow> 'w"
  cSetParams :: "'p \<Rightarrow> 'w \<Rightarrow> 'w"
  emptyParams :: 'p
  setString :: "string \<Rightarrow> string \<Rightarrow> 'p \<Rightarrow> 'p"
  setBool :: "string \<Rightarrow> bool \<Rightarrow> 'p \<Rightarrow> 'p"
  setNested :: "string \<Rightarrow> 'p \<Rightarrow> 'p \<Rightarrow> 'p"
  queryString :: "string \<Rightarrow> 'p \<Rightarrow> string option"
  FLAG_ABILITY_ON_COLLABORATE :: u32

record 'p collab_parser =
  unmarshalVersion :: "byte list \<Rightarrow> ret \<times> version_cmd"
  unmarshalSinkStart :: "byte list \<Rightarrow> ret \<times> 'p sink_start_cmd"
  unmarshalNotifyResult :: "byte list \<Rightarrow> ret \<times> notify_result_cmd"

record ('w, 'p) collab_env =
  cwapi :: "('w, 'p) collab_want_api"
  collabParser :: "'p collab_parser"
  collabBuild :: build
  osAccountPart :: bool
  collabSendEvent :: "collab_event \<Rightarrow> bool"
  collabConnect :: "string \<Rightarrow> int \<Rightarrow> ret \<times> int"
  collabSend :: "int \<Rightarrow> data_buffer \<Rightarrow> ret"
  collabMarshal :: "'p collab_cmd \<Rightarrow> ret \<times> byte list"
  collabBundleInfo :: "string \<Rightarrow> ret \<times> bundle_info"
  collabAppId :: "int \<Rightarrow> string option"
  collabBundleNames :: "int \<Rightarrow> string list option"
  collabAccountInfo :: "string \<Rightarrow> caller_info \<Rightarrow> ret \<times> account_info"
  checkCollabStart :: "'w \<Rightarrow> caller_info \<Rightarrow> account_info \<Rightarrow> ret \<times> 'w"
  collabAmsConnect :: ret
  startAbilityByCall :: "'w \<Rightarrow> ret"
  udidByNetworkId :: "string \<Rightarrow> string"
  activeAccountIds :: "ret \<times> int list"
  screenSecure :: bool
  screenLocked :: bool
  tokenWrites :: bool
  valueWrites :: bool
  ERR_FLATTEN :: ret
  ERR_NULL_OBJECT :: ret
  clientRequest :: "nat \<Rightarrow> ret"
  appManager :: bool
  registerRet :: ret
  localDevice :: "string option"
  deviceKnown :: "string \<Rightarrow> bool"
  networkIdOf :: "string \<Rightarrow> string \<Rightarrow> bool"
  collabNeedAllConnect :: bool
  relationChecker :: ret
  collabParse :: "string \<Rightarrow> cjson option"
  uninitialised :: int
  orphanTurns :: nat

datatype 'w collab_call =
    CollabConnectDevice string
  | CollabDisconnectDevice string
  | CollabSendData int data_buffer
  | CollabClientNotify nat int int string string string
  | CollabClientDisconnect nat int
  | CollabClientWifiOpen nat int
  | CollabClientPeerVersion nat int int
  | CollabStartAbility 'w
  | CollabRegisterObserver string
  | CollabUnregisterObserver
  | CollabPrivilegeShutdown int int string
  | CollabInitChannel
  | CollabReleaseChannel
  | CollabRegisterListener
  | CollabUnregisterListener

subsection \<open>The manager\<close>

datatype 'p collab_task =
    TaskGetSinkVersion "'p collab_info"
  | TaskPrepareResult string int int string nat
  | TaskCloseSessions string int
  | TaskCollabData int "data_buffer option"
  | TaskCollabShutdown int

datatype collab_delayed =
    DelayedTimeout string
  | DelayedRelease string int

record ('w, 'p) collab_mgr =
  collabs :: "(string, 'p collab) smap"
  mgrHandler :: bool
  mgrTasks :: "'p collab_task list"
  mgrTimers :: "(string \<times> collab_delayed \<times> int) list"
  connectDecision :: "(string, bool) smap"
  mgrWaiting :: "(string \<times> string) option"
  mgrCalls :: "'w collab_call list"
  nullUse :: bool

record ('w, 'p) crun =
  self :: "'p collab"
  mgr :: "('w, 'p) collab_mgr"

type_synonym ('w, 'p, 'a) cprog = "(('w, 'p) crun, 'a) state"

definition cupd :: "('p collab \<Rightarrow> 'p collab) \<Rightarrow> ('w, 'p, unit) cprog" where
  "cupd f = mupd (\<lambda>s. s\<lparr>self := f (self s)\<rparr>)"

definition cinfo :: "('p collab_info \<Rightarrow> 'p collab_info) \<Rightarrow> ('w, 'p, unit) cprog" where
  "cinfo f = cupd (\<lambda>c. c\<lparr>collabInfo := f (collabInfo c)\<rparr>)"

definition mupdate :: "(('w, 'p) collab_mgr \<Rightarrow> ('w, 'p) collab_mgr) \<Rightarrow> ('w, 'p, unit) cprog" where
  "mupdate f = mupd (\<lambda>s. s\<lparr>mgr := f (mgr s)\<rparr>)"

definition log_call :: "'w collab_call \<Rightarrow> ('w, 'p) collab_mgr \<Rightarrow> ('w, 'p) collab_mgr" where
  "log_call c m = m\<lparr>mgrCalls := mgrCalls m @ [c]\<rparr>"

definition ccall :: "'w collab_call \<Rightarrow> ('w, 'p, unit) cprog" where
  "ccall c = mupdate (log_call c)"

definition theSelf :: "('w, 'p, 'p collab) cprog" where
  "theSelf = do { s \<leftarrow> mget; mreturn (self s) }"

definition theInfo :: "('w, 'p, 'p collab_info) cprog" where
  "theInfo = do { s \<leftarrow> mget; mreturn (collabInfo (self s)) }"

lemma crun_simps [simp]:
  "exec (cupd f) s = s\<lparr>self := f (self s)\<rparr>" "exec (mupdate g) s = s\<lparr>mgr := g (mgr s)\<rparr>"
  "exec theSelf s = s" "outcome theSelf s = self s" "exec theInfo s = s" "outcome theInfo s = collabInfo (self s)"
  "exec (cinfo h) s = s\<lparr>self := (self s)\<lparr>collabInfo := h (collabInfo (self s))\<rparr>\<rparr>"
  "exec (ccall c) s = s\<lparr>mgr := log_call c (mgr s)\<rparr>"
  by (simp_all add: cupd_def mupdate_def theSelf_def theInfo_def cinfo_def ccall_def)

end
