(* ===== verification/Collab_Object.thy ===== *)
theory Collab_Object
  imports Collab_Types
begin

text \<open>
  The operations of \<^verbatim>\<open>DSchedCollab\<close> (\<^verbatim>\<open>services/dtbschedmgr/src/collab/dsched_collab.cpp\<close>), one definition per
  method, as programs over the object and the manager. Each definition keeps the order of the checks,
  the calls and the updates of the method. Logging is left out.
\<close>

definition DSCHED_COLLAB_PROTOCOL_VERSION :: int where "DSCHED_COLLAB_PROTOCOL_VERSION = 1"
definition DMS_VERSION_C :: int where "DMS_VERSION_C = 5"
definition KEY_START_OPTION :: string where "KEY_START_OPTION = ''ohos.collabrate.key.start.option''"
definition VALUE_START_OPTION_BACKGROUND :: string where
  "VALUE_START_OPTION_BACKGROUND = ''ohos.collabrate.value.background''"

subsection \<open>Construction\<close>

definition new_collab :: "'p collab_info \<Rightarrow> 'p collab" where
  "new_collab info = \<lparr>collabInfo = info, collabSession = -1, stateMachine = None, collabHandler = False, collabQueue = [],
     appStateObserver = False\<rparr>"

definition DSchedCollabLocal :: "string \<Rightarrow> 'p collab_info \<Rightarrow> 'p collab" where
  "DSchedCollabLocal token info =
     new_collab (info\<lparr>collabToken := token, srcCollabVersion := DSCHED_COLLAB_PROTOCOL_VERSION\<rparr>)"

definition DSchedCollabRemote :: "('w, 'p) collab_env \<Rightarrow> version_cmd \<Rightarrow> int \<Rightarrow> 'p collab" where
  "DSchedCollabRemote env cmd session =
     (new_collab ((collab_info_default (emptyParams (cwapi env)) (uninitialised env))
        \<lparr>srcCollabSessionId := bcSrcCollabSessionId cmd, collabToken := bcCollabToken cmd,
         srcInfo := collab_message_default\<lparr>msgPid := vcSrcPid cmd, msgUid := vcSrcUid cmd, msgAccessToken := vcSrcAccessToken cmd\<rparr>,
         collabDirection := COLLAB_SINK\<rparr>))\<lparr>collabSession := session\<rparr>"

definition SetSrcCollabInfo :: "'p collab_info \<Rightarrow> ('w, 'p, unit) cprog" where
  "SetSrcCollabInfo info = cinfo (\<lambda>i. info\<lparr>srcClientCB := srcClientCB i\<rparr>)"

definition sink_collab_info :: "'p sink_start_cmd \<Rightarrow> 'p collab_info \<Rightarrow> 'p collab_info" where
  "sink_collab_info cmd i = i
     \<lparr>srcCollabVersion := bcCollabVersion cmd,
      srcOpt := \<lparr>needSendBigData = bcNeedSendBigData cmd, needSendStream = bcNeedSendStream cmd,
        needRecvStream = bcNeedRecvStream cmd, startParams = scStartParams cmd, messageParams = scMessageParams cmd\<rparr>,
      srcInfo := (srcInfo i)\<lparr>msgDeviceId := bcSrcDeviceId cmd, msgBundleName := bcSrcBundleName cmd,
        msgAbilityName := bcSrcAbilityName cmd, msgModuleName := bcSrcModuleName cmd, msgServerId := bcSrcServerId cmd,
        msgPid := scSrcPid cmd, msgUid := scSrcUid cmd, msgAccessToken := scSrcAccessToken cmd\<rparr>,
      sinkInfo := (sinkInfo i)\<lparr>msgDeviceId := bcSinkDeviceId cmd, msgBundleName := bcSinkBundleName cmd,
        msgAbilityName := bcSinkAbilityName cmd\<rparr>,
      srcAppVersion := scAppVersion cmd, collabCallerInfo := scCallerInfo cmd, srcAccountInfo := scAccountInfo cmd\<rparr>"

definition SetSinkCollabInfo :: "('w, 'p) collab_env \<Rightarrow> 'p sink_start_cmd \<Rightarrow> ('w, 'p, unit) cprog" where
  "SetSinkCollabInfo env cmd = do {
     cinfo (sink_collab_info cmd);
     if osAccountPart env then
       (case activeAccountIds env of (r, ids) \<Rightarrow>
          if r \<noteq> ERR_OK \<or> ids = [] then mreturn () else cinfo (\<lambda>i. i\<lparr>sinkUserId := hd ids\<rparr>))
     else mreturn ()
   }"

text \<open>\<^verbatim>\<open>Init\<close> makes the state machine, starts the event thread and waits until the handler exists.\<close>

definition Init_collab :: "'p collab \<Rightarrow> 'p collab" where
  "Init_collab c = (if collabHandler c then c else c\<lparr>stateMachine := Some None, collabHandler := True\<rparr>)"

definition UpdateState_obj :: "collab_state \<Rightarrow> 'p collab \<Rightarrow> 'p collab" where
  "UpdateState_obj st c = (if stateMachine c = None then c else c\<lparr>stateMachine := Some (Some st)\<rparr>)"

definition UpdateState_collab :: "collab_state \<Rightarrow> ('w, 'p, unit) cprog" where
  "UpdateState_collab st = cupd (UpdateState_obj st)"

subsection \<open>Posting events\<close>

definition cpost :: "('w, 'p) collab_env \<Rightarrow> collab_event \<Rightarrow> ('w, 'p, ret) cprog" where
  "cpost env e = do {
     c \<leftarrow> theSelf;
     if \<not> collabHandler c then mreturn INVALID_PARAMETERS_ERR
     else if \<not> collabSendEvent env e then mreturn COLLAB_SEND_EVENT_FAILED
     else do { cupd (\<lambda>c. c\<lparr>collabQueue := collabQueue c @ [e]\<rparr>); mreturn ERR_OK }
   }"

definition PostSrcGetPeerVersionTask :: "('w, 'p) collab_env \<Rightarrow> ('w, 'p, ret) cprog" where
  "PostSrcGetPeerVersionTask env = cpost env SOURCE_GET_PEER_VERSION_EVENT"

definition PostSrcGetVersionTask :: "('w, 'p) collab_env \<Rightarrow> ('w, 'p, ret) cprog" where
  "PostSrcGetVersionTask env = cpost env SOURCE_GET_VERSION_EVENT"

definition PostSrcStartTask :: "('w, 'p) collab_env \<Rightarrow> ('w, 'p, ret) cprog" where
  "PostSrcStartTask env = cpost env SOURCE_START_EVENT"

definition PostSinkGetVersionTask :: "('w, 'p) collab_env \<Rightarrow> ('w, 'p, ret) cprog" where
  "PostSinkGetVersionTask env = cpost env GET_SINK_VERSION_EVENT"

definition PostSinkStartTask :: "('w, 'p) collab_env \<Rightarrow> ('w, 'p, ret) cprog" where
  "PostSinkStartTask env = cpost env START_ABILITY_EVENT"

definition PostSinkPrepareResultTask ::
    "('w, 'p) collab_env \<Rightarrow> int \<Rightarrow> int \<Rightarrow> string \<Rightarrow> nat \<Rightarrow> ('w, 'p, ret) cprog" where
  "PostSinkPrepareResultTask env result sessionId socketName clientCB = do {
     c \<leftarrow> theSelf;
     if \<not> collabHandler c then mreturn INVALID_PARAMETERS_ERR
     else do {
       cinfo (\<lambda>i. i\<lparr>sinkCollabSessionId := sessionId, sinkInfo := (sinkInfo i)\<lparr>msgSocketName := socketName\<rparr>,
         sinkClientCB := Some clientCB\<rparr>);
       cpost env (NOTIFY_PREPARE_RESULT_EVENT result)
     }
   }"

definition PostSrcResultTask :: "('w, 'p) collab_env \<Rightarrow> notify_result_cmd \<Rightarrow> ('w, 'p, ret) cprog" where
  "PostSrcResultTask env cmd = do {
     c \<leftarrow> theSelf;
     if \<not> collabHandler c then mreturn INVALID_PARAMETERS_ERR
     else if ncAbilityRejectReason cmd \<noteq> '''' then cpost env (ABILITY_REJECT_EVENT (ncAbilityRejectReason cmd))
     else do {
       cinfo (\<lambda>i. i\<lparr>sinkCollabSessionId := ncSinkCollabSessionId cmd,
         sinkInfo := (sinkInfo i)\<lparr>msgSocketName := ncSinkSocketName cmd, msgPid := ncSinkPid cmd,
           msgAccessToken := ncSinkAccessToken cmd\<rparr>,
         sinkUserId := ncSinkUserId cmd, sinkAccountId := ncSinkAccountId cmd,
         sinkUdid := udidByNetworkId env (msgDeviceId (sinkInfo i)), srcUdid := udidByNetworkId env (msgDeviceId (srcInfo i))\<rparr>);
       cpost env (NOTIFY_RESULT_EVENT (ncResult cmd))
     }
   }"

definition PostErrEndTask :: "('w, 'p) collab_env \<Rightarrow> int \<Rightarrow> ('w, 'p, ret) cprog" where
  "PostErrEndTask env result = cpost env (ERR_END_EVENT result)"

definition PostAbilityRejectTask :: "('w, 'p) collab_env \<Rightarrow> string \<Rightarrow> ('w, 'p, ret) cprog" where
  "PostAbilityRejectTask env reason = cpost env (ABILITY_REJECT_EVENT reason)"

definition PostEndTask :: "('w, 'p) collab_env \<Rightarrow> ('w, 'p, ret) cprog" where
  "PostEndTask env = cpost env END_EVENT_C"

lemmas cpost_defs = PostSrcGetPeerVersionTask_def PostSrcGetVersionTask_def PostSrcStartTask_def PostSinkGetVersionTask_def
  PostSinkStartTask_def PostErrEndTask_def PostAbilityRejectTask_def PostEndTask_def

subsection \<open>Commands to the peer\<close>

definition PackGetPeerVersionCmd :: "'p collab_info \<Rightarrow> version_cmd" where
  "PackGetPeerVersionCmd i = base_cmd.extend
     (base_cmd_default\<lparr>bcCommand := SINK_GET_VERSION_CMD, bcSrcCollabSessionId := srcCollabSessionId i,
        bcCollabToken := collabToken i, bcSinkDeviceId := msgDeviceId (sinkInfo i), bcSrcDeviceId := msgDeviceId (srcInfo i)\<rparr>)
     (version_cmd.fields (-1) (-1) (-1) (-1))"

definition PackSinkCollabVersionCmd :: "'p collab_info \<Rightarrow> version_cmd" where
  "PackSinkCollabVersionCmd i = base_cmd.extend
     (base_cmd_default\<lparr>bcCommand := SOURCE_GET_VERSION_CMD, bcCollabToken := collabToken i,
        bcSrcDeviceId := msgDeviceId (srcInfo i), bcSinkDeviceId := msgDeviceId (sinkInfo i)\<rparr>)
     (version_cmd.fields (-1) (-1) (-1) DSCHED_COLLAB_PROTOCOL_VERSION)"

definition start_base :: "'p collab_info \<Rightarrow> base_cmd" where
  "start_base i =
     \<lparr>bcNeedSendBigData = needSendBigData (srcOpt i), bcNeedSendStream = needSendStream (srcOpt i),
      bcNeedRecvStream = needRecvStream (srcOpt i), bcCollabVersion = srcCollabVersion i, bcDmsVersion = DMS_VERSION_C,
      bcCommand = SINK_START_CMD, bcSrcCollabSessionId = srcCollabSessionId i, bcCollabToken = collabToken i,
      bcSrcDeviceId = msgDeviceId (srcInfo i), bcSrcBundleName = msgBundleName (srcInfo i),
      bcSrcAbilityName = msgAbilityName (srcInfo i), bcSrcModuleName = msgModuleName (srcInfo i),
      bcSrcServerId = msgServerId (srcInfo i), bcSinkDeviceId = msgDeviceId (sinkInfo i),
      bcSinkBundleName = msgBundleName (sinkInfo i), bcSinkAbilityName = msgAbilityName (sinkInfo i),
      bcSinkModuleName = msgModuleName (sinkInfo i), bcSinkServerId = msgServerId (sinkInfo i)\<rparr>"

definition collab_caller :: "'p collab_info \<Rightarrow> caller_info" where
  "collab_caller i = caller_info_default\<lparr>callerSourceDeviceId := msgDeviceId (srcInfo i), callerUid := msgUid (srcInfo i),
     callerAccessToken := word_of_int (msgAccessToken (srcInfo i))\<rparr>"

definition PackPartCmd :: "('w, 'p) collab_env \<Rightarrow> 'p sink_start_cmd \<Rightarrow> ('w, 'p, ret + 'p sink_start_cmd) cprog" where
  "PackPartCmd env cmd = (case collabBundleInfo env (bcSrcBundleName cmd) of (r, bundle) \<Rightarrow>
     if r \<noteq> ERR_OK then mreturn (Inl r)
     else do {
       i \<leftarrow> theInfo;
       (case collabAppId env (msgUid (srcInfo i)) of
          None \<Rightarrow> mreturn (Inl GET_APPID_ERR)
        | Some appId \<Rightarrow>
            (case collabBundleNames env (msgUid (srcInfo i)) of
               None \<Rightarrow> mreturn (Inl GET_BUNDLENAMELIST_ERR)
             | Some names \<Rightarrow>
                 let ci = (collab_caller i)\<lparr>callerAppId := appId, callerBundleNames := names,
                       callerExtraDmsVersion := Some DMS_VERSION_C\<rparr>
                 in (case collabAccountInfo env (msgDeviceId (sinkInfo i)) ci of (r, ai) \<Rightarrow>
                       if r \<noteq> ERR_OK then mreturn (Inl GET_ACCOUNT_INFO_ERR)
                       else do {
                         cinfo (\<lambda>i. i\<lparr>collabCallerInfo := ci, srcAccountInfo := ai\<rparr>);
                         mreturn (Inr (cmd\<lparr>scAppVersion := sint (versionCode bundle), scCallerInfo := ci, scAccountInfo := ai\<rparr>))
                       })))
     })"

definition PackStartCmd_collab :: "('w, 'p) collab_env \<Rightarrow> ('w, 'p, ret + 'p sink_start_cmd) cprog" where
  "PackStartCmd_collab env = do {
     i \<leftarrow> theInfo;
     PackPartCmd env (base_cmd.extend (start_base i)
       (sink_start_cmd.fields (msgPid (srcInfo i)) (msgUid (srcInfo i)) (msgAccessToken (srcInfo i)) (-1) caller_info_default
         account_info_default (startParams (srcOpt i)) (messageParams (srcOpt i))))
   }"

definition PackNotifyResultCmd :: "int \<Rightarrow> string \<Rightarrow> 'p collab_info \<Rightarrow> notify_result_cmd" where
  "PackNotifyResultCmd result reason i = base_cmd.extend
     (base_cmd_default\<lparr>bcCommand := NOTIFY_RESULT_CMD, bcCollabToken := collabToken i\<rparr>)
     (notify_result_cmd.fields result (sinkCollabSessionId i) (msgPid (sinkInfo i)) (msgAccessToken (sinkInfo i))
        (sinkUserId i) (sinkAccountId i) (msgSocketName (sinkInfo i)) reason)"

definition PackDisconnectCmd :: "'p collab_info \<Rightarrow> base_cmd" where
  "PackDisconnectCmd i = base_cmd_default\<lparr>bcCommand := DISCONNECT_CMD, bcCollabToken := collabToken i\<rparr>"

definition SendCommand_collab :: "('w, 'p) collab_env \<Rightarrow> 'p collab_cmd \<Rightarrow> ('w, 'p, ret) cprog" where
  "SendCommand_collab env cmd = (case collabMarshal env cmd of (r, jsonStr) \<Rightarrow>
     if r \<noteq> ERR_OK then mreturn r
     else let buffer = DSchedDataBuffer (length jsonStr + 1);
              r = memcpy_s (Data buffer = None) (Capacity buffer) False (length jsonStr)
          in if r \<noteq> ERR_OK then mreturn r
             else do {
               c \<leftarrow> theSelf;
               ccall (CollabSendData (collabSession c) (buf_write buffer 0 jsonStr));
               mreturn (collabSend env (collabSession c) (buf_write buffer 0 jsonStr))
             })"

definition send_result :: "('w, 'p) collab_env \<Rightarrow> int \<Rightarrow> string \<Rightarrow> ('w, 'p, ret) cprog" where
  "send_result env result reason = do {
     i \<leftarrow> theInfo; SendCommand_collab env (NotifyResult (PackNotifyResultCmd result reason i))
   }"

definition connect_peer :: "('w, 'p) collab_env \<Rightarrow> ('w, 'p, ret) cprog" where
  "connect_peer env = do {
     c \<leftarrow> theSelf;
     ccall (CollabConnectDevice (msgDeviceId (sinkInfo (collabInfo c))));
     (case collabConnect env (msgDeviceId (sinkInfo (collabInfo c))) (collabSession c) of (r, session) \<Rightarrow> do {
        cupd (\<lambda>c. c\<lparr>collabSession := session\<rparr>);
        mreturn r
      })
   }"

subsection \<open>The client\<close>

definition ExeSrcClientNotify :: "('w, 'p) collab_env \<Rightarrow> int \<Rightarrow> string \<Rightarrow> ('w, 'p, ret) cprog" where
  "ExeSrcClientNotify env result reason = do {
     i \<leftarrow> theInfo;
     (case srcClientCB i of
        None \<Rightarrow> mreturn INVALID_PARAMETERS_ERR
      | Some cb \<Rightarrow>
          if \<not> tokenWrites env then mreturn INVALID_PARAMETERS_ERR
          else if \<not> valueWrites env then mreturn (ERR_FLATTEN env)
          else do {
            ccall (CollabClientNotify cb (srcCollabSessionId i) result (msgSocketName (sinkInfo i)) (collabToken i) reason);
            mreturn (clientRequest env cb)
          })
   }"

text \<open>\<^verbatim>\<open>SrcPeerVersionNotify\<close> uses the callback without looking whether it is null.\<close>

definition SrcPeerVersionNotify :: "('w, 'p) collab_env \<Rightarrow> ('w, 'p, ret) cprog" where
  "SrcPeerVersionNotify env =
     (if \<not> tokenWrites env then mreturn INVALID_PARAMETERS_ERR
      else if \<not> valueWrites env then mreturn (ERR_FLATTEN env)
      else do {
        i \<leftarrow> theInfo;
        (case srcClientCB i of
           None \<Rightarrow> do { mupdate (\<lambda>m. m\<lparr>nullUse := True\<rparr>); mreturn ERR_OK }
         | Some cb \<Rightarrow> do {
             ccall (CollabClientPeerVersion cb (srcCollabSessionId i) (sinkCollabVersion i));
             mreturn (clientRequest env cb)
           })
      })"

text \<open>The session id and the callback of the side this device is on.\<close>

definition own_client :: "'p collab_info \<Rightarrow> (nat \<times> int) option" where
  "own_client i =
     (if collabDirection i = COLLAB_SOURCE then map_option (\<lambda>cb. (cb, srcCollabSessionId i)) (srcClientCB i)
      else map_option (\<lambda>cb. (cb, sinkCollabSessionId i)) (sinkClientCB i))"

definition client_message :: "('w, 'p) collab_env \<Rightarrow> (nat \<Rightarrow> int \<Rightarrow> 'w collab_call) \<Rightarrow> ('w, 'p, ret) cprog" where
  "client_message env c = do {
     i \<leftarrow> theInfo;
     (case own_client i of
        None \<Rightarrow> mreturn (ERR_NULL_OBJECT env)
      | Some (cb, sessionId) \<Rightarrow>
          if \<not> tokenWrites env then mreturn SEND_REQUEST_DEF_FAIL
          else if \<not> valueWrites env then mreturn (ERR_FLATTEN env)
          else do {
            ccall (c cb sessionId);
            mreturn (if clientRequest env cb \<noteq> ERR_OK then SEND_REQUEST_DEF_FAIL else ERR_OK)
          })
   }"

definition ExeClientDisconnectNotify :: "('w, 'p) collab_env \<Rightarrow> ('w, 'p, ret) cprog" where
  "ExeClientDisconnectNotify env = client_message env CollabClientDisconnect"

definition NotifyWifiOpen_collab :: "('w, 'p) collab_env \<Rightarrow> ('w, 'p, ret) cprog" where
  "NotifyWifiOpen_collab env = client_message env CollabClientWifiOpen"

subsection \<open>Leaving the manager\<close>

definition RemoveTask :: "string \<Rightarrow> ('w, 'p) collab_mgr \<Rightarrow> ('w, 'p) collab_mgr" where
  "RemoveTask name m = m\<lparr>mgrTimers := filter (\<lambda>t. fst t \<noteq> name) (mgrTimers m)\<rparr>"

definition RemoveTimeout_cmgr :: "string \<Rightarrow> ('w, 'p) collab_mgr \<Rightarrow> ('w, 'p) collab_mgr" where
  "RemoveTimeout_cmgr token m = (if mgrHandler m then RemoveTask token m else m)"

definition GetDSchedCollabByTokenId :: "string \<Rightarrow> ('w, 'p) collab_mgr \<Rightarrow> 'p collab option" where
  "GetDSchedCollabByTokenId token m = (if token = '''' then None else smap_find (collabs m) token)"

definition CleanUpSession_cmgr :: "string \<Rightarrow> ('w, 'p) collab_mgr \<Rightarrow> ('w, 'p) collab_mgr \<times> ret" where
  "CleanUpSession_cmgr token m =
     (case GetDSchedCollabByTokenId token m of
        None \<Rightarrow> (m, INVALID_PARAMETERS_ERR)
      | Some _ \<Rightarrow> let m = RemoveTimeout_cmgr token m in (m\<lparr>collabs := smap_erase token (collabs m)\<rparr>, ERR_OK))"

definition CleanUpSession_collab :: "('w, 'p) collab_env \<Rightarrow> ('w, 'p, ret) cprog" where
  "CleanUpSession_collab env = do {
     i \<leftarrow> theInfo;
     (if collabDirection i = COLLAB_SOURCE then ccall (CollabDisconnectDevice (msgDeviceId (sinkInfo i))) else mreturn ());
     ExeClientDisconnectNotify env;
     s \<leftarrow> mget;
     (case CleanUpSession_cmgr (collabToken i) (mgr s) of (m, r) \<Rightarrow> do {
        mupdate (\<lambda>_. m);
        mreturn r
      })
   }"

text \<open>The observer object is stored before it is registered.\<close>

definition RegisterAbilityLifecycleObserver :: "('w, 'p) collab_env \<Rightarrow> string \<Rightarrow> ('w, 'p, bool) cprog" where
  "RegisterAbilityLifecycleObserver env bundleName =
     (if \<not> appManager env then mreturn False
      else do {
        cupd (\<lambda>c. c\<lparr>appStateObserver := True\<rparr>);
        ccall (CollabRegisterObserver bundleName);
        mreturn (registerRet env = ERR_OK)
      })"

text \<open>The destructor, when the last reference is gone.\<close>

definition destroy_collab :: "('w, 'p) collab_env \<Rightarrow> 'p collab \<Rightarrow> ('w, 'p) collab_mgr \<Rightarrow> ('w, 'p) collab_mgr" where
  "destroy_collab env c m = (if appStateObserver c \<and> appManager env then log_call CollabUnregisterObserver m else m)"

end
