(* ===== verification/Collab_Machine.thy ===== *)
theory Collab_Machine
  imports Collab_Object
begin

text \<open>
  What a collaboration does when an event is handled: the \<^verbatim>\<open>Exe...\<close> methods of \<^verbatim>\<open>DSchedCollab\<close>, the eight
  states with their tables (\<^verbatim>\<open>services/dtbschedmgr/src/collab/state\<close>), \<^verbatim>\<open>ProcessEvent\<close>, and the commands of
  the peer (\<^verbatim>\<open>OnDataRecv\<close>).
\<close>

subsection \<open>The source\<close>

definition ExeSrcGetPeerVersion :: "('w, 'p) collab_env \<Rightarrow> ('w, 'p, ret) cprog" where
  "ExeSrcGetPeerVersion env = do {
     r \<leftarrow> connect_peer env;
     if r \<noteq> ERR_OK then mreturn r
     else do { i \<leftarrow> theInfo; SendCommand_collab env (VersionCmd (PackGetPeerVersionCmd i)) }
   }"

definition ExeSrcGetVersion :: "('w, 'p) collab_env \<Rightarrow> ('w, 'p, ret) cprog" where
  "ExeSrcGetVersion env = do {
     r \<leftarrow> SrcPeerVersionNotify env;
     if r \<noteq> ERR_OK then PostErrEndTask env r else mreturn ERR_OK
   }"

definition ExeSrcStart :: "('w, 'p) collab_env \<Rightarrow> ('w, 'p, ret) cprog" where
  "ExeSrcStart env = do {
     r \<leftarrow> connect_peer env;
     if r \<noteq> ERR_OK then mreturn r
     else do {
       packed \<leftarrow> PackStartCmd_collab env;
       (case packed of
          Inl r \<Rightarrow> mreturn r
        | Inr cmd \<Rightarrow> do {
            r \<leftarrow> SendCommand_collab env (SinkStart cmd);
            if r \<noteq> ERR_OK then mreturn r
            else do {
              UpdateState_collab SOURCE_WAIT_RESULT_STATE;
              i \<leftarrow> theInfo;
              RegisterAbilityLifecycleObserver env (msgBundleName (srcInfo i));
              mreturn ERR_OK
            }
          })
     }
   }"

definition ExeSrcCollabResult :: "('w, 'p) collab_env \<Rightarrow> int \<Rightarrow> string \<Rightarrow> ('w, 'p, ret) cprog" where
  "ExeSrcCollabResult env result reason =
     (if result \<noteq> ERR_OK \<and> result \<noteq> COLLAB_ABILITY_REJECT_ERR then PostErrEndTask env result
      else do {
        r \<leftarrow> ExeSrcClientNotify env result reason;
        if reason \<noteq> '''' then CleanUpSession_collab env
        else if r \<noteq> ERR_OK then PostErrEndTask env result
        else do { UpdateState_collab SOURCE_WAIT_END_STATE_C; mreturn ERR_OK }
      })"

definition ExeSrcGetPeerVersionError :: "('w, 'p) collab_env \<Rightarrow> int \<Rightarrow> ('w, 'p, ret) cprog" where
  "ExeSrcGetPeerVersionError env result = do {
     ExeSrcClientNotify env result ''''; CleanUpSession_collab env; mreturn ERR_OK }"

definition ExeSrcStartError :: "('w, 'p) collab_env \<Rightarrow> int \<Rightarrow> ('w, 'p, ret) cprog" where
  "ExeSrcStartError env result = do {
     ExeSrcClientNotify env result ''''; CleanUpSession_collab env; mreturn ERR_OK }"

definition ExeSrcWaitResultError :: "('w, 'p) collab_env \<Rightarrow> int \<Rightarrow> ('w, 'p, ret) cprog" where
  "ExeSrcWaitResultError env result = do {
     send_result env result ''''; ExeSrcClientNotify env result ''''; CleanUpSession_collab env; mreturn ERR_OK }"

subsection \<open>The sink\<close>

definition IsStartForeground :: "('w, 'p) collab_env \<Rightarrow> 'p collab_info \<Rightarrow> bool" where
  "IsStartForeground env i = (case queryString (cwapi env) KEY_START_OPTION (startParams (srcOpt i)) of
     Some startOpt \<Rightarrow> startOpt \<noteq> VALUE_START_OPTION_BACKGROUND | None \<Rightarrow> True)"

definition SetScreenLockParameters :: "('w, 'p) collab_env \<Rightarrow> 'p \<Rightarrow> 'p" where
  "SetScreenLockParameters env ps =
     setBool (cwapi env) ''isFromScreenLock'' (screenLocked env) (setBool (cwapi env) ''isSecureMode'' (screenSecure env) ps)"

definition GenerateCollabWant :: "('w, 'p) collab_env \<Rightarrow> 'p collab_info \<Rightarrow> 'w" where
  "GenerateCollabWant env i =
     (let A = cwapi env;
          want = cSetElementName A (msgDeviceId (sinkInfo i)) (msgBundleName (sinkInfo i)) (msgAbilityName (sinkInfo i))
            (cSetParam A ''deviceId'' (msgDeviceId (sinkInfo i)) (cAddFlags A (FLAG_ABILITY_ON_COLLABORATE A) (cEmptyWant A)));
          peerInfo = fold (\<lambda>(k, v). setString A k v)
            [(''deviceId'', msgDeviceId (srcInfo i)), (''bundleName'', msgBundleName (srcInfo i)),
             (''moduleName'', msgModuleName (srcInfo i)), (''abilityName'', msgAbilityName (srcInfo i)),
             (''serverId'', msgServerId (srcInfo i))] (emptyParams A);
          opt = setNested A ''parameters'' (messageParams (srcOpt i))
            (fold (\<lambda>(k, v). setBool A k v)
              [(''needSendData'', needSendBigData (srcOpt i)), (''needSendStream'', needSendStream (srcOpt i)),
               (''needReceiveStream'', needRecvStream (srcOpt i))] (emptyParams A));
          collab = setString A ''ohos.dms.collabToken'' (collabToken i)
            (setNested A ''ConnectOption'' opt (setNested A ''PeerInfo'' peerInfo (emptyParams A)));
          params = setBool A ''ohos.aafwk.param.callAbilityToForeground'' (IsStartForeground env i)
            (setNested A ''ohos.extra.param.key.supportCollaborateIndex'' collab (SetScreenLockParameters env (emptyParams A)))
      in cSetParams A params want)"

definition ExeSinkGetVersion :: "('w, 'p) collab_env \<Rightarrow> ('w, 'p, ret) cprog" where
  "ExeSinkGetVersion env = do {
     i \<leftarrow> theInfo;
     SendCommand_collab env (VersionCmd (PackSinkCollabVersionCmd i));
     UpdateState_collab SINK_START_STATE_C;
     mreturn ERR_OK
   }"

definition ExeStartAbility :: "('w, 'p) collab_env \<Rightarrow> ('w, 'p, ret) cprog" where
  "ExeStartAbility env = do {
     i \<leftarrow> theInfo;
     let (r, want) = checkCollabStart env (GenerateCollabWant env i) (collabCallerInfo i) (srcAccountInfo i);
     if r \<noteq> ERR_OK then mreturn r
     else if collabAmsConnect env \<noteq> ERR_OK then mreturn (collabAmsConnect env)
     else do {
       ccall (CollabStartAbility want);
       if startAbilityByCall env want \<noteq> ERR_OK then PostErrEndTask env (startAbilityByCall env want)
       else do {
         UpdateState_collab SINK_CONNECT_STATE;
         RegisterAbilityLifecycleObserver env (msgBundleName (sinkInfo i));
         mreturn ERR_OK
       }
     }
   }"

definition SaveSinkAbilityData :: "int \<Rightarrow> int \<Rightarrow> int \<Rightarrow> ('w, 'p, ret) cprog" where
  "SaveSinkAbilityData sinkPid sinkUid sinkAccessTokenId = do {
     cinfo (\<lambda>i. i\<lparr>sinkInfo := (sinkInfo i)\<lparr>msgPid := sinkPid, msgUid := sinkUid, msgAccessToken := sinkAccessTokenId\<rparr>\<rparr>);
     mreturn ERR_OK
   }"

definition ExeSinkPrepareResult :: "('w, 'p) collab_env \<Rightarrow> int \<Rightarrow> ('w, 'p, ret) cprog" where
  "ExeSinkPrepareResult env result =
     (if result \<noteq> ERR_OK \<and> result \<noteq> COLLAB_ABILITY_REJECT_ERR then PostErrEndTask env result
      else do {
        r \<leftarrow> send_result env result '''';
        if r \<noteq> ERR_OK then mreturn r
        else do {
          UpdateState_collab SINK_WAIT_END_STATE_C;
          cinfo (\<lambda>i. i\<lparr>srcUdid := udidByNetworkId env (msgDeviceId (srcInfo i)),
            sinkUdid := udidByNetworkId env (msgDeviceId (sinkInfo i))\<rparr>);
          mreturn ERR_OK
        }
      })"

definition ExeAbilityRejectError :: "('w, 'p) collab_env \<Rightarrow> string \<Rightarrow> ('w, 'p, ret) cprog" where
  "ExeAbilityRejectError env reason = do {
     send_result env COLLAB_ABILITY_REJECT_ERR reason; CleanUpSession_collab env; mreturn ERR_OK }"

definition ExeSinkError :: "('w, 'p) collab_env \<Rightarrow> int \<Rightarrow> ('w, 'p, ret) cprog" where
  "ExeSinkError env result = do { send_result env result ''''; CleanUpSession_collab env; mreturn ERR_OK }"

definition ExeSinkGetVersionError :: "('w, 'p) collab_env \<Rightarrow> int \<Rightarrow> ('w, 'p, ret) cprog" where
  "ExeSinkGetVersionError env result = do { send_result env result ''''; CleanUpSession_collab env; mreturn ERR_OK }"

definition ExeSinkStartError :: "('w, 'p) collab_env \<Rightarrow> int \<Rightarrow> ('w, 'p, ret) cprog" where
  "ExeSinkStartError env result = do { send_result env result ''''; CleanUpSession_collab env; mreturn ERR_OK }"

definition ExeSinkConnectError :: "('w, 'p) collab_env \<Rightarrow> int \<Rightarrow> ('w, 'p, ret) cprog" where
  "ExeSinkConnectError env result = do { send_result env result ''''; CleanUpSession_collab env; mreturn ERR_OK }"

definition ExeDisconnect :: "('w, 'p) collab_env \<Rightarrow> ('w, 'p, ret) cprog" where
  "ExeDisconnect env = do {
     i \<leftarrow> theInfo;
     SendCommand_collab env (Disconnect (PackDisconnectCmd i));
     CleanUpSession_collab env;
     mreturn ERR_OK
   }"

subsection \<open>The states\<close>

fun source_get_peer_version_execute :: "('w, 'p) collab_env \<Rightarrow> collab_event \<Rightarrow> ('w, 'p, ret) cprog" where
  "source_get_peer_version_execute env SOURCE_GET_PEER_VERSION_EVENT = ExeSrcGetPeerVersion env"
| "source_get_peer_version_execute env SOURCE_GET_VERSION_EVENT = ExeSrcGetVersion env"
| "source_get_peer_version_execute env (ERR_END_EVENT result) = ExeSrcGetPeerVersionError env result"
| "source_get_peer_version_execute env _ = mreturn COLLAB_STATE_MACHINE_INVALID_STATE"

fun collab_source_start_execute :: "('w, 'p) collab_env \<Rightarrow> collab_event \<Rightarrow> ('w, 'p, ret) cprog" where
  "collab_source_start_execute env SOURCE_START_EVENT = ExeSrcStart env"
| "collab_source_start_execute env (ERR_END_EVENT result) = ExeSrcStartError env result"
| "collab_source_start_execute env _ = mreturn COLLAB_STATE_MACHINE_INVALID_STATE"

fun source_wait_result_execute :: "('w, 'p) collab_env \<Rightarrow> collab_event \<Rightarrow> ('w, 'p, ret) cprog" where
  "source_wait_result_execute env (NOTIFY_RESULT_EVENT result) = ExeSrcCollabResult env result ''''"
| "source_wait_result_execute env (ABILITY_REJECT_EVENT reason) = ExeSrcCollabResult env COLLAB_ABILITY_REJECT_ERR reason"
| "source_wait_result_execute env (ERR_END_EVENT result) = ExeSrcWaitResultError env result"
| "source_wait_result_execute env _ = mreturn COLLAB_STATE_MACHINE_INVALID_STATE"

fun collab_source_wait_end_execute :: "('w, 'p) collab_env \<Rightarrow> collab_event \<Rightarrow> ('w, 'p, ret) cprog" where
  "collab_source_wait_end_execute env (ERR_END_EVENT result) = ExeDisconnect env"
| "collab_source_wait_end_execute env END_EVENT_C = ExeDisconnect env"
| "collab_source_wait_end_execute env _ = mreturn COLLAB_STATE_MACHINE_INVALID_STATE"

fun sink_get_version_execute :: "('w, 'p) collab_env \<Rightarrow> collab_event \<Rightarrow> ('w, 'p, ret) cprog" where
  "sink_get_version_execute env GET_SINK_VERSION_EVENT = ExeSinkGetVersion env"
| "sink_get_version_execute env (ERR_END_EVENT result) = ExeSinkGetVersionError env result"
| "sink_get_version_execute env _ = mreturn COLLAB_STATE_MACHINE_INVALID_STATE"

fun collab_sink_start_execute :: "('w, 'p) collab_env \<Rightarrow> collab_event \<Rightarrow> ('w, 'p, ret) cprog" where
  "collab_sink_start_execute env START_ABILITY_EVENT = ExeStartAbility env"
| "collab_sink_start_execute env (ERR_END_EVENT result) = ExeSinkStartError env result"
| "collab_sink_start_execute env _ = mreturn COLLAB_STATE_MACHINE_INVALID_STATE"

fun sink_connect_execute :: "('w, 'p) collab_env \<Rightarrow> collab_event \<Rightarrow> ('w, 'p, ret) cprog" where
  "sink_connect_execute env (NOTIFY_PREPARE_RESULT_EVENT result) = ExeSinkPrepareResult env result"
| "sink_connect_execute env (ABILITY_REJECT_EVENT reason) = ExeAbilityRejectError env reason"
| "sink_connect_execute env (ERR_END_EVENT result) = ExeSinkConnectError env result"
| "sink_connect_execute env _ = mreturn COLLAB_STATE_MACHINE_INVALID_STATE"

fun collab_sink_wait_end_execute :: "('w, 'p) collab_env \<Rightarrow> collab_event \<Rightarrow> ('w, 'p, ret) cprog" where
  "collab_sink_wait_end_execute env (ERR_END_EVENT result) = ExeDisconnect env"
| "collab_sink_wait_end_execute env END_EVENT_C = ExeDisconnect env"
| "collab_sink_wait_end_execute env _ = mreturn COLLAB_STATE_MACHINE_INVALID_STATE"

fun collab_state_execute :: "('w, 'p) collab_env \<Rightarrow> collab_state \<Rightarrow> collab_event \<Rightarrow> ('w, 'p, ret) cprog" where
  "collab_state_execute env SOURCE_GET_PEER_VERSION_STATE e = source_get_peer_version_execute env e"
| "collab_state_execute env SOURCE_START_STATE_C e = collab_source_start_execute env e"
| "collab_state_execute env SOURCE_WAIT_RESULT_STATE e = source_wait_result_execute env e"
| "collab_state_execute env SOURCE_WAIT_END_STATE_C e = collab_source_wait_end_execute env e"
| "collab_state_execute env SINK_GET_VERSION_STATE e = sink_get_version_execute env e"
| "collab_state_execute env SINK_START_STATE_C e = collab_sink_start_execute env e"
| "collab_state_execute env SINK_CONNECT_STATE e = sink_connect_execute env e"
| "collab_state_execute env SINK_WAIT_END_STATE_C e = collab_sink_wait_end_execute env e"

definition collab_machine_execute :: "('w, 'p) collab_env \<Rightarrow> collab_event \<Rightarrow> ('w, 'p, ret) cprog" where
  "collab_machine_execute env e = do {
     c \<leftarrow> theSelf;
     (case stateMachine c of
        Some (Some st) \<Rightarrow> collab_state_execute env st e
      | _ \<Rightarrow> mreturn INVALID_PARAMETERS_ERR)
   }"

definition ProcessEvent_collab :: "('w, 'p) collab_env \<Rightarrow> collab_event \<Rightarrow> ('w, 'p, unit) cprog" where
  "ProcessEvent_collab env e = do {
     c \<leftarrow> theSelf;
     if stateMachine c = None then mreturn ()
     else do {
       r \<leftarrow> collab_machine_execute env e;
       if r \<noteq> ERR_OK then do { PostErrEndTask env r; mreturn () } else mreturn ()
     }
   }"

text \<open>The event runner hands over the oldest event.\<close>

definition run_collab_event :: "('w, 'p) collab_env \<Rightarrow> ('w, 'p, unit) cprog" where
  "run_collab_event env = do {
     c \<leftarrow> theSelf;
     (case collabQueue c of
        [] \<Rightarrow> mreturn ()
      | e # q \<Rightarrow> do { cupd (\<lambda>c. c\<lparr>collabQueue := q\<rparr>); ProcessEvent_collab env e })
   }"

subsection \<open>Commands of the peer\<close>

definition recv_collab_command :: "('w, 'p) collab_env \<Rightarrow> int \<Rightarrow> byte list \<Rightarrow> ('w, 'p, unit) cprog" where
  "recv_collab_command env command jsonStr =
     (if command = SOURCE_GET_VERSION_CMD then
        (case unmarshalVersion (collabParser env) jsonStr of (r, cmd) \<Rightarrow>
           if r \<noteq> ERR_OK then do { PostErrEndTask env r; mreturn () }
           else do {
             cinfo (\<lambda>i. i\<lparr>sinkCollabVersion := vcSinkCollabVersion cmd\<rparr>);
             PostSrcGetVersionTask env;
             mreturn ()
           })
      else if command = SINK_START_CMD then
        (case unmarshalSinkStart (collabParser env) jsonStr of (r, cmd) \<Rightarrow>
           if r \<noteq> ERR_OK then do { PostErrEndTask env r; mreturn () }
           else do { SetSinkCollabInfo env cmd; PostSinkStartTask env; mreturn () })
      else if command = NOTIFY_RESULT_CMD then
        (case unmarshalNotifyResult (collabParser env) jsonStr of (r, cmd) \<Rightarrow>
           if r \<noteq> ERR_OK then do { PostErrEndTask env r; mreturn () }
           else do { PostSrcResultTask env cmd; mreturn () })
      else if command = DISCONNECT_CMD then do { CleanUpSession_collab env; mreturn () }
      else mreturn ())"

definition OnDataRecv_collab :: "('w, 'p) collab_env \<Rightarrow> int \<Rightarrow> data_buffer \<Rightarrow> ('w, 'p, unit ub) cprog" where
  "OnDataRecv_collab env command dataBuffer = (case buffer_text dataBuffer of
       OutOfBounds \<Rightarrow> mreturn OutOfBounds
     | Done jsonStr \<Rightarrow> do { recv_collab_command env command jsonStr; mreturn (Done ()) })"

end
