(* ===== verification/Collab_Manager.thy ===== *)
theory Collab_Manager
  imports Collab_Machine
begin

text \<open>
  \<^verbatim>\<open>DSchedCollabManager\<close> (\<^verbatim>\<open>services/dtbschedmgr/src/collab/dsched_collab_manager.cpp\<close>): the map of the
  collaborations by their token, the requests of the applications, the tasks of the manager's thread, the
  time-outs, and the data and the loss of sessions. \<open>cmstep\<close> is one step of the manager with its objects:
  a call from outside, a task or a delayed task of the manager's thread, or one event of an object.
\<close>

definition COLLAB_TIMEOUT :: int where "COLLAB_TIMEOUT = 20000"
definition BACKGROUND_TIMEOUT :: int where "BACKGROUND_TIMEOUT = 5000"
definition NO_NEED_TO_CHECK_ID :: int where "NO_NEED_TO_CHECK_ID = -1"
definition RANDOM_STRING_LENGTH :: nat where "RANDOM_STRING_LENGTH = 20"

definition DSchedCollabManager :: "('w, 'p) collab_mgr" where
  "DSchedCollabManager = \<lparr>collabs = [], mgrHandler = False, mgrTasks = [], mgrTimers = [], connectDecision = [],
     mgrWaiting = None, mgrCalls = [], nullUse = False\<rparr>"

subsection \<open>Objects of the map\<close>

text \<open>
  A method called on the object under \<open>k\<close>: the object is stored back, or destroyed when the method has taken
  it out of the map.
\<close>

definition on_collab :: "('w, 'p) collab_env \<Rightarrow> ('w, 'p, 'a) cprog \<Rightarrow> string \<Rightarrow> ('w, 'p) collab_mgr \<Rightarrow> ('w, 'p) collab_mgr" where
  "on_collab env p k m = (case smap_find (collabs m) k of
     None \<Rightarrow> m
   | Some c \<Rightarrow>
       let s = exec p \<lparr>self = c, mgr = m\<rparr>; m' = mgr s
       in if smap_find (collabs m') k = None then destroy_collab env (self s) m'
          else m'\<lparr>collabs := smap_put k (self s) (collabs m')\<rparr>)"

definition on_collab_ret :: "('w, 'p) collab_env \<Rightarrow> ('w, 'p, ret) cprog \<Rightarrow> string \<Rightarrow> ('w, 'p) collab_mgr \<Rightarrow> ret" where
  "on_collab_ret env p k m = (case smap_find (collabs m) k of
     None \<Rightarrow> INVALID_PARAMETERS_ERR | Some c \<Rightarrow> outcome p \<lparr>self = c, mgr = m\<rparr>)"

text \<open>
  An object that \<^verbatim>\<open>insert\<close> did not take, because its token is in use: it lives until the function that made it
  returns, and its thread may handle some of its events before.
\<close>

definition orphan :: "('w, 'p) collab_env \<Rightarrow> 'p collab \<Rightarrow> ('w, 'p) collab_mgr \<Rightarrow> ('w, 'p) collab_mgr" where
  "orphan env c m =
     (let s = (exec (run_collab_event env) ^^ orphanTurns env) \<lparr>self = c, mgr = m\<rparr> in destroy_collab env (self s) (mgr s))"

definition add_collab :: "('w, 'p) collab_env \<Rightarrow> string \<Rightarrow> 'p collab \<Rightarrow> ('w, 'p) collab_mgr \<Rightarrow> ('w, 'p) collab_mgr" where
  "add_collab env k c m = (if smap_find (collabs m) k = None then m\<lparr>collabs := smap_insert k c (collabs m)\<rparr> else orphan env c m)"

definition posted :: "('w, 'p) collab_env \<Rightarrow> collab_event \<Rightarrow> 'p collab \<Rightarrow> 'p collab" where
  "posted env e c = (if collabHandler c \<and> collabSendEvent env e then c\<lparr>collabQueue := collabQueue c @ [e]\<rparr> else c)"

definition PostCollabTask :: "'p collab_task \<Rightarrow> ('w, 'p) collab_mgr \<Rightarrow> ('w, 'p) collab_mgr \<times> ret" where
  "PostCollabTask t m = (if \<not> mgrHandler m then (m, INVALID_PARAMETERS_ERR) else (m\<lparr>mgrTasks := mgrTasks m @ [t]\<rparr>, ERR_OK))"

subsection \<open>Start and stop\<close>

definition Init_cmgr :: "('w, 'p) collab_env \<Rightarrow> ('w, 'p) collab_mgr \<Rightarrow> ('w, 'p) collab_mgr" where
  "Init_cmgr env m =
     (if mgrHandler m then m
      else let m = log_call CollabRegisterListener (log_call CollabInitChannel m)
           in if relationChecker env \<noteq> ERR_OK then m else m\<lparr>mgrHandler := True\<rparr>)"

definition UnInit_cmgr :: "('w, 'p) collab_env \<Rightarrow> ('w, 'p) collab_mgr \<Rightarrow> ('w, 'p) collab_mgr" where
  "UnInit_cmgr env m =
     (let m = log_call CollabReleaseChannel (log_call CollabUnregisterListener m);
          m = fold (\<lambda>e. destroy_collab env (snd e)) (collabs m) (m\<lparr>collabs := []\<rparr>)
      in if mgrHandler m then m\<lparr>mgrHandler := False, mgrTasks := [], mgrTimers := []\<rparr> else m)"

subsection \<open>Who collaborates with whom\<close>

record relation_info =
  riDeviceId :: string
  riPid :: int
  riTokenId :: u64
  riUserId :: int

definition CheckSrcCollabRelation :: "relation_info \<Rightarrow> 'p collab_info \<Rightarrow> ret" where
  "CheckSrcCollabRelation ri i =
     (if riDeviceId ri = srcUdid i \<and> riPid ri = msgPid (srcInfo i) \<and>
         sint (ucast (riTokenId ri) :: u32) = msgAccessToken (srcInfo i) \<and> riUserId ri = userId (srcAccountInfo i)
      then ERR_OK else INVALID_PARAMETERS_ERR)"

definition CheckSinkCollabRelation :: "relation_info \<Rightarrow> 'p collab_info \<Rightarrow> ret" where
  "CheckSinkCollabRelation ri i =
     (if riDeviceId ri = sinkUdid i \<and> riPid ri = msgPid (sinkInfo i) \<and>
         sint (ucast (riTokenId ri) :: u32) = msgAccessToken (sinkInfo i) \<and> riUserId ri = sinkUserId i
      then ERR_OK else INVALID_PARAMETERS_ERR)"

definition relation_matches :: "relation_info \<Rightarrow> relation_info \<Rightarrow> 'p collab_info \<Rightarrow> bool" where
  "relation_matches src sink i \<longleftrightarrow> CheckSrcCollabRelation src i = ERR_OK \<and>
     (riPid sink = NO_NEED_TO_CHECK_ID \<or> CheckSinkCollabRelation sink i = ERR_OK)"

fun relation_loop :: "relation_info \<Rightarrow> relation_info \<Rightarrow> (string \<times> 'p collab) list \<Rightarrow> ret" where
  "relation_loop src sink [] = INVALID_PARAMETERS_ERR"
| "relation_loop src sink ((k, c) # rest) =
     (if relation_matches src sink (collabInfo c) then ERR_OK else relation_loop src sink rest)"

definition CheckCollabRelation :: "relation_info \<Rightarrow> relation_info \<Rightarrow> ('w, 'p) collab_mgr \<Rightarrow> ret" where
  "CheckCollabRelation src sink m = (if collabs m = [] then INVALID_PARAMETERS_ERR else relation_loop src sink (collabs m))"

subsection \<open>Time-outs\<close>

definition SetTimeOut_cmgr :: "string \<Rightarrow> int \<Rightarrow> ('w, 'p) collab_mgr \<Rightarrow> ('w, 'p) collab_mgr" where
  "SetTimeOut_cmgr token timeout m =
     (if \<not> mgrHandler m then m else m\<lparr>mgrTimers := mgrTimers m @ [(token, DelayedTimeout token, timeout)]\<rparr>)"

definition collab_timeout :: "('w, 'p) collab_env \<Rightarrow> string \<Rightarrow> ('w, 'p) collab_mgr \<Rightarrow> ('w, 'p) collab_mgr" where
  "collab_timeout env token m = on_collab env (PostErrEndTask env COLLAB_ABILITY_TIMEOUT_ERR) token m"

subsection \<open>The decision to connect\<close>

definition NotifyAllConnectDecision_cmgr :: "('w, 'p) collab_env \<Rightarrow> string \<Rightarrow> bool \<Rightarrow> ('w, 'p) collab_mgr \<Rightarrow> ('w, 'p) collab_mgr" where
  "NotifyAllConnectDecision_cmgr env peer isSupport m =
     (if DMSFWK_ALL_CONNECT_MGR (collabBuild env) then m\<lparr>connectDecision := smap_put peer isSupport (connectDecision m)\<rparr> else m)"

text \<open>The manager's thread waits for the decision; what it does when it wakes is \<open>AfterDecision\<close>.\<close>

definition WaitAllConnectDecision_cmgr :: "('w, 'p) collab_env \<Rightarrow> string \<Rightarrow> string \<Rightarrow> ('w, 'p) collab_mgr \<Rightarrow> ('w, 'p) collab_mgr" where
  "WaitAllConnectDecision_cmgr env peer token m =
     (if DMSFWK_ALL_CONNECT_MGR (collabBuild env) then m\<lparr>mgrWaiting := Some (peer, token)\<rparr> else m)"

definition AfterDecision :: "('w, 'p) collab_env \<Rightarrow> ('w, 'p) collab_mgr \<Rightarrow> ('w, 'p) collab_mgr" where
  "AfterDecision env m = (case mgrWaiting m of
     None \<Rightarrow> m
   | Some (peer, token) \<Rightarrow>
       let m = m\<lparr>mgrWaiting := None\<rparr> in
       (case smap_find (connectDecision m) peer of
          None \<Rightarrow> on_collab env (PostErrEndTask env COLLAB_ABILITY_TIMEOUT_ERR) token m
        | Some ok \<Rightarrow>
            let m = m\<lparr>connectDecision := smap_erase peer (connectDecision m)\<rparr>
            in if ok then m else on_collab env (PostErrEndTask env COLLAB_ABILITY_TIMEOUT_ERR) token m))"

subsection \<open>Requests of the source application\<close>

definition GetSinkCollabVersion :: "('w, 'p) collab_env \<Rightarrow> 'p collab_info \<Rightarrow> ('w, 'p) collab_mgr \<Rightarrow> ('w, 'p) collab_mgr \<times> ret" where
  "GetSinkCollabVersion env info m =
     (if srcCollabSessionId info < 0 \<or> msgDeviceId (sinkInfo info) = '''' \<or> srcClientCB info = None
      then (m, INVALID_PARAMETERS_ERR)
      else case localDevice env of
        None \<Rightarrow> (m, FIND_LOCAL_DEVICEID_ERR)
      | Some dev \<Rightarrow> PostCollabTask (TaskGetSinkVersion (info\<lparr>srcInfo := (srcInfo info)\<lparr>msgDeviceId := dev\<rparr>\<rparr>)) m)"

definition HandleGetSinkCollabVersion :: "('w, 'p) collab_env \<Rightarrow> 'p collab_info \<Rightarrow> ('w, 'p) collab_mgr \<Rightarrow> ('w, 'p) collab_mgr" where
  "HandleGetSinkCollabVersion env info m =
     (let token = collabToken info;
          newCollab = UpdateState_obj SOURCE_GET_PEER_VERSION_STATE (Init_collab (DSchedCollabLocal token info));
          m = add_collab env token (posted env SOURCE_GET_PEER_VERSION_EVENT newCollab) m;
          m = SetTimeOut_cmgr token COLLAB_TIMEOUT m
      in if COLLAB_ALL_CONNECT_DECISIONS (collabBuild env) \<and> collabNeedAllConnect env
         then WaitAllConnectDecision_cmgr env (msgDeviceId (sinkInfo info)) token
                (m\<lparr>connectDecision := smap_erase (msgDeviceId (sinkInfo info)) (connectDecision m)\<rparr>)
         else m)"

definition CollabMission :: "('w, 'p) collab_env \<Rightarrow> 'p collab_info \<Rightarrow> ('w, 'p) collab_mgr \<Rightarrow> ('w, 'p) collab_mgr \<times> ret" where
  "CollabMission env info m =
     (if msgBundleName (srcInfo info) = '''' \<or> msgBundleName (sinkInfo info) = '''' \<or> msgModuleName (srcInfo info) = '''' \<or>
         msgModuleName (sinkInfo info) = '''' \<or> msgAbilityName (srcInfo info) = '''' \<or> msgAbilityName (sinkInfo info) = ''''
      then (m, INVALID_PARAMETERS_ERR)
      else case localDevice env of
        None \<Rightarrow> (m, FIND_LOCAL_DEVICEID_ERR)
      | Some dev \<Rightarrow>
          if \<not> deviceKnown env (msgDeviceId (sinkInfo info)) \<and>
             \<not> networkIdOf env (msgBundleName (sinkInfo info)) (msgDeviceId (sinkInfo info))
          then (m, FIND_REMOTE_DEVICEID_ERR)
          else case GetDSchedCollabByTokenId (collabToken info) m of
            None \<Rightarrow> (m, INVALID_PARAMETERS_ERR)
          | Some _ \<Rightarrow>
              (on_collab env (do {
                 SetSrcCollabInfo (info\<lparr>srcInfo := (srcInfo info)\<lparr>msgDeviceId := dev\<rparr>\<rparr>);
                 UpdateState_collab SOURCE_START_STATE_C;
                 PostSrcStartTask env
               }) (collabToken info) m, ERR_OK))"

definition IsSessionExists :: "'p collab_info \<Rightarrow> ('w, 'p) collab_mgr \<Rightarrow> bool" where
  "IsSessionExists info m \<longleftrightarrow> list_ex (\<lambda>(k, c). msgPid (srcInfo (collabInfo c)) = msgPid (srcInfo info) \<and>
     srcCollabSessionId (collabInfo c) = srcCollabSessionId info) (collabs m)"

text \<open>Nobody calls \<^verbatim>\<open>HandleCollabMission\<close>; without the collaboration it would use a null pointer.\<close>

definition HandleCollabMission :: "('w, 'p) collab_env \<Rightarrow> 'p collab_info \<Rightarrow> ('w, 'p) collab_mgr \<Rightarrow> ('w, 'p) collab_mgr" where
  "HandleCollabMission env info m = (case GetDSchedCollabByTokenId (collabToken info) m of
     None \<Rightarrow> m\<lparr>nullUse := True\<rparr>
   | Some _ \<Rightarrow> on_collab env (do { UpdateState_collab SOURCE_START_STATE_C; PostSrcStartTask env }) (collabToken info) m)"

definition NotifySessionClose :: "('w, 'p) collab_env \<Rightarrow> string \<Rightarrow> ('w, 'p) collab_mgr \<Rightarrow> ('w, 'p) collab_mgr \<times> ret" where
  "NotifySessionClose env token m = (case GetDSchedCollabByTokenId token m of
     None \<Rightarrow> (m, INVALID_PARAMETERS_ERR)
   | Some _ \<Rightarrow> (on_collab env (PostEndTask env) token m, ERR_OK))"

subsection \<open>Tokens\<close>

text \<open>
  \<^verbatim>\<open>GenerateCollabToken\<close>: \<open>rnd n\<close> are the twenty characters drawn in turn \<open>n\<close>. Each turn overwrites the first
  twenty characters of the text and puts the device id before it, until the text is no token in use; \<open>fuel\<close>
  bounds the number of turns.
\<close>

fun token_loop :: "nat \<Rightarrow> (nat \<Rightarrow> string) \<Rightarrow> nat \<Rightarrow> string \<Rightarrow> (string, 'p collab) smap \<Rightarrow> string \<Rightarrow> string option" where
  "token_loop 0 rnd n dev used randomValue = None"
| "token_loop (Suc fuel) rnd n dev used randomValue =
     (let randomValue = dev @ rnd n @ drop RANDOM_STRING_LENGTH randomValue in
      if smap_find used randomValue = None then Some randomValue
      else token_loop fuel rnd (Suc n) dev used randomValue)"

definition GenerateCollabToken :: "nat \<Rightarrow> (nat \<Rightarrow> string) \<Rightarrow> string \<Rightarrow> ('w, 'p) collab_mgr \<Rightarrow> string option" where
  "GenerateCollabToken fuel rnd dev m = token_loop fuel rnd 0 dev (collabs m) (replicate RANDOM_STRING_LENGTH (CHR 0x00))"

subsection \<open>Answers of the sink application\<close>

definition NotifyStartAbilityResult ::
    "('w, 'p) collab_env \<Rightarrow> string \<Rightarrow> int \<Rightarrow> int \<Rightarrow> int \<Rightarrow> int \<Rightarrow> ('w, 'p) collab_mgr \<Rightarrow> ('w, 'p) collab_mgr \<times> ret" where
  "NotifyStartAbilityResult env token result sinkPid sinkUid sinkAccessTokenId m =
     (case GetDSchedCollabByTokenId token m of
        None \<Rightarrow> (m, INVALID_PARAMETERS_ERR)
      | Some _ \<Rightarrow>
          if result \<noteq> ERR_OK
          then (on_collab env (PostErrEndTask env result) token m, on_collab_ret env (PostErrEndTask env result) token m)
          else (on_collab env (SaveSinkAbilityData sinkPid sinkUid sinkAccessTokenId) token m, ERR_OK))"

definition NotifySinkPrepareResult ::
    "string \<Rightarrow> int \<Rightarrow> int \<Rightarrow> string \<Rightarrow> nat \<Rightarrow> ('w, 'p) collab_mgr \<Rightarrow> ('w, 'p) collab_mgr \<times> ret" where
  "NotifySinkPrepareResult token result sessionId socketName cb m =
     PostCollabTask (TaskPrepareResult token result sessionId socketName cb) m"

definition HandleCollabPrepareResult ::
    "('w, 'p) collab_env \<Rightarrow> string \<Rightarrow> int \<Rightarrow> int \<Rightarrow> string \<Rightarrow> nat \<Rightarrow> ('w, 'p) collab_mgr \<Rightarrow> ('w, 'p) collab_mgr" where
  "HandleCollabPrepareResult env token result sessionId socketName cb m =
     (case GetDSchedCollabByTokenId token m of
        None \<Rightarrow> m
      | Some _ \<Rightarrow> RemoveTimeout_cmgr token (on_collab env (PostSinkPrepareResultTask env result sessionId socketName cb) token m))"

definition NotifySinkRejectReason ::
    "('w, 'p) collab_env \<Rightarrow> string \<Rightarrow> string \<Rightarrow> ('w, 'p) collab_mgr \<Rightarrow> ('w, 'p) collab_mgr \<times> ret" where
  "NotifySinkRejectReason env token reason m =
     (case GetDSchedCollabByTokenId token m of
        None \<Rightarrow> (m, INVALID_PARAMETERS_ERR)
      | Some _ \<Rightarrow> (on_collab env (PostAbilityRejectTask env reason) token m,
                   on_collab_ret env (PostAbilityRejectTask env reason) token m))"

subsection \<open>Abilities that die or leave the foreground\<close>

definition NotifyAbilityDied :: "string \<Rightarrow> int \<Rightarrow> ('w, 'p) collab_mgr \<Rightarrow> ('w, 'p) collab_mgr \<times> ret" where
  "NotifyAbilityDied bundleName pid m = PostCollabTask (TaskCloseSessions bundleName pid) m"

definition closes :: "string \<Rightarrow> int \<Rightarrow> 'p collab_info \<Rightarrow> bool" where
  "closes bundleName pid i \<longleftrightarrow>
     bundleName = msgBundleName (srcInfo i) \<and> pid = msgPid (srcInfo i) \<or>
     bundleName = msgBundleName (srcInfo i) \<and> pid = msgPid (sinkInfo i)"

definition HandleCloseSessions :: "('w, 'p) collab_env \<Rightarrow> string \<Rightarrow> int \<Rightarrow> ('w, 'p) collab_mgr \<Rightarrow> ('w, 'p) collab_mgr" where
  "HandleCloseSessions env bundleName pid m = (case find (\<lambda>e. closes bundleName pid (collabInfo (snd e))) (collabs m) of
     None \<Rightarrow> m
   | Some (k, c) \<Rightarrow> on_collab env (PostEndTask env) k m)"

definition ReleaseAbilityLink :: "string \<Rightarrow> int \<Rightarrow> ('w, 'p) collab_mgr \<Rightarrow> ('w, 'p) collab_mgr \<times> ret" where
  "ReleaseAbilityLink bundleName pid m =
     (if \<not> mgrHandler m then (m, INVALID_PARAMETERS_ERR)
      else (m\<lparr>mgrTimers := mgrTimers m @ [(bundleName @ to_string pid, DelayedRelease bundleName pid, BACKGROUND_TIMEOUT)]\<rparr>, ERR_OK))"

definition release_step :: "('w, 'p) collab_env \<Rightarrow> string \<Rightarrow> int \<Rightarrow> string \<Rightarrow> 'p collab_info \<Rightarrow> ('w, 'p) collab_mgr \<Rightarrow> ('w, 'p) collab_mgr" where
  "release_step env bundleName pid k i m =
     (let m = (if bundleName = msgBundleName (srcInfo i) \<and> pid = msgPid (srcInfo i)
               then on_collab env (PostEndTask env) k
                 (log_call (CollabPrivilegeShutdown (msgAccessToken (srcInfo i)) pid (msgDeviceId (sinkInfo i))) m)
               else m)
      in if bundleName = msgBundleName (srcInfo i) \<and> pid = msgPid (sinkInfo i) then on_collab env (PostEndTask env) k m else m)"

fun release_loop :: "('w, 'p) collab_env \<Rightarrow> string \<Rightarrow> int \<Rightarrow> (string \<times> 'p collab) list \<Rightarrow> ('w, 'p) collab_mgr \<Rightarrow> ('w, 'p) collab_mgr" where
  "release_loop env bundleName pid [] m = m"
| "release_loop env bundleName pid ((k, c) # rest) m =
     release_loop env bundleName pid rest (release_step env bundleName pid k (collabInfo c) m)"

definition HandleReleaseAbilityLink :: "('w, 'p) collab_env \<Rightarrow> string \<Rightarrow> int \<Rightarrow> ('w, 'p) collab_mgr \<Rightarrow> ('w, 'p) collab_mgr" where
  "HandleReleaseAbilityLink env bundleName pid m = release_loop env bundleName pid (collabs m) m"

definition CancleReleaseAbilityLink :: "string \<Rightarrow> int \<Rightarrow> ('w, 'p) collab_mgr \<Rightarrow> ('w, 'p) collab_mgr \<times> ret" where
  "CancleReleaseAbilityLink bundleName pid m =
     (if \<not> mgrHandler m then (m, INVALID_PARAMETERS_ERR) else (RemoveTask (bundleName @ to_string pid) m, ERR_OK))"

definition NotifyWifiOpen_cmgr :: "('w, 'p) collab_env \<Rightarrow> ('w, 'p) collab_mgr \<Rightarrow> ('w, 'p) collab_mgr" where
  "NotifyWifiOpen_cmgr env m = fold (\<lambda>e. on_collab env (NotifyWifiOpen_collab env) (fst e)) (collabs m) m"

subsection \<open>Data of the peer\<close>

definition OnDataRecv_cmgr :: "int \<Rightarrow> data_buffer option \<Rightarrow> ('w, 'p) collab_mgr \<Rightarrow> ('w, 'p) collab_mgr" where
  "OnDataRecv_cmgr session dataBuffer m = fst (PostCollabTask (TaskCollabData session dataBuffer) m)"

definition collab_message_head :: "('w, 'p) collab_env \<Rightarrow> byte list \<Rightarrow> (int \<times> string) option" where
  "collab_message_head env jsonStr = do {
     root \<leftarrow> collabParse env (c_str (text_of jsonStr));
     base \<leftarrow> string_item root ''BaseCmd'';
     cmd \<leftarrow> collabParse env base;
     command \<leftarrow> number_item cmd ''Command'';
     token \<leftarrow> string_item cmd ''CollabToken'';
     Some (command, token)
   }"

definition session_of :: "int \<Rightarrow> string \<Rightarrow> 'p collab \<Rightarrow> bool" where
  "session_of session token c \<longleftrightarrow> session = collabSession c \<and> token = collabToken (collabInfo c)"

definition NotifyDataRecv ::
    "('w, 'p) collab_env \<Rightarrow> int \<Rightarrow> int \<Rightarrow> byte list \<Rightarrow> data_buffer \<Rightarrow> string \<Rightarrow> ('w, 'p) collab_mgr \<Rightarrow> ('w, 'p) collab_mgr" where
  "NotifyDataRecv env session command jsonStr dataBuffer token m =
     (case find (\<lambda>e. session_of session token (snd e)) (collabs m) of
        Some (k, c) \<Rightarrow>
          let m = on_collab env (OnDataRecv_collab env command dataBuffer) k m
          in if command = NOTIFY_RESULT_CMD then RemoveTimeout_cmgr k m else m
      | None \<Rightarrow>
          if command = SINK_GET_VERSION_CMD then
            (case unmarshalVersion (collabParser env) jsonStr of (r, cmd) \<Rightarrow>
               if r \<noteq> ERR_OK then m
               else case localDevice env of
                 None \<Rightarrow> m
               | Some dev \<Rightarrow>
                   if bcSinkDeviceId cmd \<noteq> dev then m
                   else let newCollab = UpdateState_obj SINK_GET_VERSION_STATE (Init_collab (DSchedCollabRemote env cmd session))
                        in SetTimeOut_cmgr (bcCollabToken cmd) COLLAB_TIMEOUT
                             (add_collab env (bcCollabToken cmd) (posted env GET_SINK_VERSION_EVENT newCollab) m))
          else m)"

definition HandleDataRecv_cmgr :: "('w, 'p) collab_env \<Rightarrow> int \<Rightarrow> data_buffer option \<Rightarrow> ('w, 'p) collab_mgr \<Rightarrow> ('w, 'p) collab_mgr ub" where
  "HandleDataRecv_cmgr env session dataBuffer m = (case dataBuffer of
     None \<Rightarrow> Done m
   | Some b \<Rightarrow> (case buffer_text b of
       OutOfBounds \<Rightarrow> OutOfBounds
     | Done jsonStr \<Rightarrow> (case collab_message_head env jsonStr of
         None \<Rightarrow> Done m
       | Some (command, token) \<Rightarrow> Done (NotifyDataRecv env session command jsonStr b token m))))"

subsection \<open>The loss of a session\<close>

definition OnShutdown_cmgr :: "int \<Rightarrow> bool \<Rightarrow> ('w, 'p) collab_mgr \<Rightarrow> ('w, 'p) collab_mgr" where
  "OnShutdown_cmgr socket isSelfCalled m = (if isSelfCalled then m else fst (PostCollabTask (TaskCollabShutdown socket) m))"

definition HandleShutdown_cmgr :: "('w, 'p) collab_env \<Rightarrow> int \<Rightarrow> ('w, 'p) collab_mgr \<Rightarrow> ('w, 'p) collab_mgr" where
  "HandleShutdown_cmgr env socket m =
     fold (\<lambda>e m. if socket = collabSession (snd e) then on_collab env (PostErrEndTask env COLLAB_SESSION_SHUTDOWN) (fst e) m else m)
       (collabs m) m"

subsection \<open>The threads\<close>

fun run_collab_task :: "('w, 'p) collab_env \<Rightarrow> 'p collab_task \<Rightarrow> ('w, 'p) collab_mgr \<Rightarrow> ('w, 'p) collab_mgr ub" where
  "run_collab_task env (TaskGetSinkVersion info) m = Done (HandleGetSinkCollabVersion env info m)"
| "run_collab_task env (TaskPrepareResult token result sessionId socketName cb) m =
     Done (HandleCollabPrepareResult env token result sessionId socketName cb m)"
| "run_collab_task env (TaskCloseSessions bundleName pid) m = Done (HandleCloseSessions env bundleName pid m)"
| "run_collab_task env (TaskCollabData session b) m = HandleDataRecv_cmgr env session b m"
| "run_collab_task env (TaskCollabShutdown socket) m = Done (HandleShutdown_cmgr env socket m)"

fun run_delayed :: "('w, 'p) collab_env \<Rightarrow> collab_delayed \<Rightarrow> ('w, 'p) collab_mgr \<Rightarrow> ('w, 'p) collab_mgr" where
  "run_delayed env (DelayedTimeout token) m = collab_timeout env token m"
| "run_delayed env (DelayedRelease bundleName pid) m = HandleReleaseAbilityLink env bundleName pid m"

definition collab_object_event :: "('w, 'p) collab_env \<Rightarrow> string \<Rightarrow> ('w, 'p) collab_mgr \<Rightarrow> ('w, 'p) collab_mgr" where
  "collab_object_event env k m = on_collab env (run_collab_event env) k m"

inductive cmstep :: "('w, 'p) collab_mgr \<Rightarrow> ('w, 'p) collab_mgr \<Rightarrow> bool" where
  init: "cmstep m (Init_cmgr env m)"
| uninit: "mgrWaiting m = None \<Longrightarrow> cmstep m (UnInit_cmgr env m)"
| decision: "cmstep m (NotifyAllConnectDecision_cmgr env peer isSupport m)"
| decided: "mgrWaiting m \<noteq> None \<Longrightarrow> cmstep m (AfterDecision env m)"
| version: "collabDirection info = COLLAB_SOURCE \<Longrightarrow> cmstep m (fst (GetSinkCollabVersion env info m))"
| mission: "collabDirection info = COLLAB_SOURCE \<Longrightarrow> cmstep m (fst (CollabMission env info m))"
| start_result: "cmstep m (fst (NotifyStartAbilityResult env token result pid uid tok m))"
| prepare_result: "cmstep m (fst (NotifySinkPrepareResult token result sid socket cb m))"
| reject: "cmstep m (fst (NotifySinkRejectReason env token reason m))"
| close: "cmstep m (fst (NotifySessionClose env token m))"
| died: "cmstep m (fst (NotifyAbilityDied bundle pid m))"
| release: "cmstep m (fst (ReleaseAbilityLink bundle pid m))"
| cancel: "cmstep m (fst (CancleReleaseAbilityLink bundle pid m))"
| wifi: "cmstep m (NotifyWifiOpen_cmgr env m)"
| data: "cmstep m (OnDataRecv_cmgr session b m)"
| shutdown: "cmstep m (OnShutdown_cmgr socket isSelfCalled m)"
| task: "mgrWaiting m = None \<Longrightarrow> mgrTasks m = t # ts \<Longrightarrow> run_collab_task env t (m\<lparr>mgrTasks := ts\<rparr>) = Done m' \<Longrightarrow> cmstep m m'"
| delayed: "mgrWaiting m = None \<Longrightarrow> mgrTimers m = ts1 @ (name, d, delay) # ts2 \<Longrightarrow>
     cmstep m (run_delayed env d (m\<lparr>mgrTimers := ts1 @ ts2\<rparr>))"
| object: "smap_find (collabs m) k = Some c \<Longrightarrow> cmstep m (collab_object_event env k m)"

inductive collab_reachable :: "('w, 'p) collab_mgr \<Rightarrow> bool" where
  start: "collab_reachable DSchedCollabManager"
| step: "collab_reachable m \<Longrightarrow> cmstep m m' \<Longrightarrow> collab_reachable m'"

end
