(* ===== verification/Collab_Evolution.thy ===== *)
theory Collab_Evolution
  imports Collab_Manager "HOL-Library.Sublist"
begin

text \<open>
  What an operation of a collaboration may change. \<open>cevolves n F\<close> relates the object and the manager before
  and after: token, direction, source callback and handler stay, events are only added at the end of the
  queue, the state stays or becomes one of \<open>F\<close>, a null callback is used only if \<open>n\<close>; of the manager only the object's own entry, its time-outs
  and the log change, and the log only grows. The relation is an interpretation of \<open>effect_order\<close>, which
  carries the bound through every program.
\<close>

definition keeps_identity :: "'p collab_info \<Rightarrow> 'p collab_info \<Rightarrow> bool" where
  "keeps_identity i j \<longleftrightarrow> collabToken j = collabToken i \<and> collabDirection j = collabDirection i \<and> srcClientCB j = srcClientCB i"

definition mgr_evolves :: "string \<Rightarrow> bool \<Rightarrow> ('w, 'p) collab_mgr \<Rightarrow> ('w, 'p) collab_mgr \<Rightarrow> bool" where
  "mgr_evolves k nu m m' \<longleftrightarrow>
     (collabs m' = collabs m \<or> collabs m' = smap_erase k (collabs m)) \<and> mgrHandler m' = mgrHandler m \<and> mgrTasks m' = mgrTasks m \<and>
     set (mgrTimers m') \<subseteq> set (mgrTimers m) \<and> connectDecision m' = connectDecision m \<and> mgrWaiting m' = mgrWaiting m \<and>
     prefix (mgrCalls m) (mgrCalls m') \<and> (nullUse m' \<longrightarrow> nullUse m \<or> nu)"

definition obj_evolves :: "collab_state set \<Rightarrow> 'p collab \<Rightarrow> 'p collab \<Rightarrow> bool" where
  "obj_evolves F c c' \<longleftrightarrow>
     keeps_identity (collabInfo c) (collabInfo c') \<and> collabHandler c' = collabHandler c \<and> prefix (collabQueue c) (collabQueue c') \<and>
     (stateMachine c' = stateMachine c \<or> stateMachine c \<noteq> None \<and> (\<exists>st \<in> F. stateMachine c' = Some (Some st)))"

definition cevolves :: "bool \<Rightarrow> collab_state set \<Rightarrow> ('w, 'p) crun \<Rightarrow> ('w, 'p) crun \<Rightarrow> bool" where
  "cevolves n F s s' \<longleftrightarrow> obj_evolves F (self s) (self s') \<and>
     mgr_evolves (collabToken (collabInfo (self s))) (n \<and> srcClientCB (collabInfo (self s)) = None) (mgr s) (mgr s')"

lemma smap_erase_twice [simp]: "smap_erase k (smap_erase k m) = smap_erase k m"
  by (simp add: smap_erase_def)

lemma mgr_evolves_refl [simp]: "mgr_evolves k nu m m"
  by (simp add: mgr_evolves_def)

lemma mgr_evolves_trans: "mgr_evolves k nu m m' \<Longrightarrow> mgr_evolves k nu m' m'' \<Longrightarrow> mgr_evolves k nu m m''"
  unfolding mgr_evolves_def by (auto intro: prefix_order.trans)

lemma obj_evolves_refl [simp]: "obj_evolves F c c"
  by (simp add: obj_evolves_def keeps_identity_def)

lemma obj_evolves_trans: "obj_evolves F c c' \<Longrightarrow> obj_evolves F c' c'' \<Longrightarrow> obj_evolves F c c''"
  unfolding obj_evolves_def keeps_identity_def by (metis prefix_order.trans)

interpretation cev: effect_order "cevolves n F" for n F
proof
  show "cevolves n F s s" for s :: "('w, 'p) crun"
    by (simp add: cevolves_def)
  show "cevolves n F s s''" if "cevolves n F s s'" "cevolves n F s' s''" for s s' s'' :: "('w, 'p) crun"
  proof -
    have "keeps_identity (collabInfo (self s)) (collabInfo (self s'))"
      using that(1) by (simp add: cevolves_def obj_evolves_def)
    then show ?thesis
      using that unfolding cevolves_def keeps_identity_def by (metis obj_evolves_trans mgr_evolves_trans)
  qed
qed

lemma cevolves_mono: "cevolves n F s s' \<Longrightarrow> F \<subseteq> G \<Longrightarrow> cevolves n G s s'"
  unfolding cevolves_def obj_evolves_def by blast

subsection \<open>Primitive updates\<close>

named_theorems cevolving \<open>programs bounded by the relation\<close>

lemma cev_cinfo [cevolving]: "(\<And>i. keeps_identity i (f i)) \<Longrightarrow> keeps (cevolves n F) (cinfo f)"
  by (simp add: keeps_def cevolves_def obj_evolves_def)

lemma cev_ccall [cevolving]: "keeps (cevolves n F) (ccall c)"
  by (simp add: keeps_def cevolves_def mgr_evolves_def log_call_def)

lemma cev_cupd_quiet [cevolving]:
  "keeps (cevolves n F) (cupd (\<lambda>c. c\<lparr>collabSession := ses\<rparr>))"
  "keeps (cevolves n F) (cupd (\<lambda>c. c\<lparr>appStateObserver := b\<rparr>))"
  by (simp_all add: keeps_def cevolves_def obj_evolves_def keeps_identity_def)

lemma cev_theInfo [cevolving]: "keeps (cevolves n F) theInfo" "keeps (cevolves n F) theSelf"
  by (simp_all add: keeps_def cev.refl)

lemma cev_UpdateState [cevolving]: "st \<in> F \<Longrightarrow> keeps (cevolves n F) (UpdateState_collab st)"
  by (auto simp: keeps_def cevolves_def obj_evolves_def keeps_identity_def UpdateState_collab_def UpdateState_obj_def)

lemma cev_cpost [cevolving]: "keeps (cevolves n F) (cpost env e)"
  by (auto simp: keeps_def cpost_def cevolves_def obj_evolves_def keeps_identity_def)

lemma cev_posts [cevolving]:
  "keeps (cevolves n F) (PostErrEndTask env r)" "keeps (cevolves n F) (PostSrcGetVersionTask env)"
  "keeps (cevolves n F) (PostSinkStartTask env)" "keeps (cevolves n F) (PostEndTask env)"
  "keeps (cevolves n F) (PostAbilityRejectTask env t)" "keeps (cevolves n F) (PostSrcStartTask env)"
  unfolding cpost_defs by (rule cev_cpost)+

subsection \<open>Programs\<close>

lemma cev_PostSrcResultTask [cevolving]: "keeps (cevolves n F) (PostSrcResultTask env cmd)"
  unfolding PostSrcResultTask_def by (intro cev.keeps_rules cevolving) (simp add: keeps_identity_def)

lemma cev_PostSinkPrepareResultTask [cevolving]: "keeps (cevolves n F) (PostSinkPrepareResultTask env r sid sn cb)"
  unfolding PostSinkPrepareResultTask_def by (intro cev.keeps_rules cevolving) (simp add: keeps_identity_def)

lemma cev_SendCommand [cevolving]: "keeps (cevolves n F) (SendCommand_collab env cmd)"
  unfolding SendCommand_collab_def by (intro cev.keeps_rules cevolving)

lemma cev_send_result [cevolving]: "keeps (cevolves n F) (send_result env r t)"
  unfolding send_result_def by (intro cev.keeps_rules cevolving)

lemma cev_connect_peer [cevolving]: "keeps (cevolves n F) (connect_peer env)"
  unfolding connect_peer_def by (intro cev.keeps_rules cevolving)

lemma cev_PackStart [cevolving]: "keeps (cevolves n F) (PackStartCmd_collab env)"
  unfolding PackStartCmd_collab_def PackPartCmd_def by (intro cev.keeps_rules cevolving) (simp add: keeps_identity_def)

lemma cev_client [cevolving]:
  "keeps (cevolves n F) (ExeSrcClientNotify env r t)" "keeps (cevolves n F) (client_message env c)"
  unfolding ExeSrcClientNotify_def client_message_def by (intro cev.keeps_rules cevolving)+

lemma cev_clients [cevolving]: "keeps (cevolves n F) (ExeClientDisconnectNotify env)" "keeps (cevolves n F) (NotifyWifiOpen_collab env)"
  unfolding ExeClientDisconnectNotify_def NotifyWifiOpen_collab_def by (rule cev_client)+

lemma cev_SrcPeerVersionNotify [cevolving]: "keeps (cevolves True F) (SrcPeerVersionNotify env)"
  unfolding SrcPeerVersionNotify_def
  by (auto simp: keeps_def cevolves_def mgr_evolves_def log_call_def split: option.split)

lemma mgr_evolves_CleanUp: "mgr_evolves k nu m (fst (CleanUpSession_cmgr k m))"
  by (auto simp: CleanUpSession_cmgr_def mgr_evolves_def RemoveTimeout_cmgr_def RemoveTask_def Let_def split: option.split)

lemma cev_CleanUp_mgr:
  "cevolves n F s (exec (do { s \<leftarrow> mget; (case CleanUpSession_cmgr (collabToken (collabInfo (self s0))) (mgr s) of (m, r) \<Rightarrow> do {
     mupdate (\<lambda>_. m); mreturn r }) }) s)" if "cevolves n F s0 s"
  using that mgr_evolves_CleanUp [of "collabToken (collabInfo (self s0))" _ "mgr s"]
  by (auto simp: cevolves_def obj_evolves_def keeps_identity_def split_beta)

lemma cev_CleanUpSession [cevolving]: "keeps (cevolves n F) (CleanUpSession_collab env)"
  unfolding keeps_def
proof
  fix s :: "('a, 'b) crun"
  let ?p = "do { (if collabDirection (collabInfo (self s)) = COLLAB_SOURCE
      then ccall (CollabDisconnectDevice (msgDeviceId (sinkInfo (collabInfo (self s))))) else mreturn ()); ExeClientDisconnectNotify env }"
  have p: "cevolves n F s (exec ?p s)"
    by (rule keepsD) (intro cev.keeps_rules cevolving)
  show "cevolves n F s (exec (CleanUpSession_collab env) s)"
    using cev.trans [OF p cev_CleanUp_mgr [OF p]] by (simp add: CleanUpSession_collab_def split: if_splits)
qed

lemma cev_Register [cevolving]: "keeps (cevolves n F) (RegisterAbilityLifecycleObserver env b)"
  unfolding RegisterAbilityLifecycleObserver_def by (intro cev.keeps_rules cevolving)

lemma cev_SaveSink [cevolving]: "keeps (cevolves n F) (SaveSinkAbilityData p u t)"
  unfolding SaveSinkAbilityData_def by (intro cev.keeps_rules cevolving) (simp add: keeps_identity_def)

lemma cev_SetSink [cevolving]: "keeps (cevolves n F) (SetSinkCollabInfo env cmd)"
  unfolding SetSinkCollabInfo_def by (intro cev.keeps_rules cevolving) (simp_all add: keeps_identity_def sink_collab_info_def)

lemma cev_errors [cevolving]:
  "keeps (cevolves n F) (ExeSrcGetPeerVersionError env r)" "keeps (cevolves n F) (ExeSrcStartError env r)"
  "keeps (cevolves n F) (ExeSrcWaitResultError env r)" "keeps (cevolves n F) (ExeSinkGetVersionError env r)"
  "keeps (cevolves n F) (ExeSinkStartError env r)" "keeps (cevolves n F) (ExeSinkConnectError env r)"
  "keeps (cevolves n F) (ExeAbilityRejectError env t)" "keeps (cevolves n F) (ExeDisconnect env)"
  "keeps (cevolves n F) (ExeSrcGetPeerVersion env)"
  unfolding ExeSrcGetPeerVersionError_def ExeSrcStartError_def ExeSrcWaitResultError_def ExeSinkGetVersionError_def
    ExeSinkStartError_def ExeSinkConnectError_def ExeAbilityRejectError_def ExeDisconnect_def ExeSrcGetPeerVersion_def
  by (intro cev.keeps_rules cevolving)+

lemma cev_ExeSrcGetVersion [cevolving]: "keeps (cevolves True F) (ExeSrcGetVersion env)"
  unfolding ExeSrcGetVersion_def by (intro cev.keeps_rules cevolving)

lemma cev_moves [cevolving]:
  "keeps (cevolves n {SOURCE_WAIT_RESULT_STATE}) (ExeSrcStart env)"
  "keeps (cevolves n {SOURCE_WAIT_END_STATE_C}) (ExeSrcCollabResult env r t)"
  "keeps (cevolves n {SINK_START_STATE_C}) (ExeSinkGetVersion env)"
  "keeps (cevolves n {SINK_CONNECT_STATE}) (ExeStartAbility env)"
  "keeps (cevolves n {SINK_WAIT_END_STATE_C}) (ExeSinkPrepareResult env r)"
  unfolding ExeSrcStart_def ExeSrcCollabResult_def ExeSinkGetVersion_def ExeStartAbility_def ExeSinkPrepareResult_def
  by (intro cev.keeps_rules cevolving; simp add: keeps_identity_def)+

lemma cev_recv_command [cevolving]: "keeps (cevolves n F) (recv_collab_command env command jsonStr)"
  unfolding recv_collab_command_def by (intro cev.keeps_rules cevolving) (simp add: keeps_identity_def)

lemma cev_recv [cevolving]: "keeps (cevolves n F) (OnDataRecv_collab env command b)"
proof (cases "buffer_text b")
  case (Done jsonStr)
  have "keeps (cevolves n F) (do { recv_collab_command env command jsonStr; mreturn (Done ()) })"
    by (intro cev.keeps_rules cevolving)
  with Done show ?thesis
    by (simp add: OnDataRecv_collab_def)
qed (simp add: OnDataRecv_collab_def cev.keeps_return)

subsection \<open>The states\<close>

fun collab_side :: "collab_state \<Rightarrow> int" where
  "collab_side SOURCE_GET_PEER_VERSION_STATE = COLLAB_SOURCE"
| "collab_side SOURCE_START_STATE_C = COLLAB_SOURCE"
| "collab_side SOURCE_WAIT_RESULT_STATE = COLLAB_SOURCE"
| "collab_side SOURCE_WAIT_END_STATE_C = COLLAB_SOURCE"
| "collab_side SINK_GET_VERSION_STATE = COLLAB_SINK"
| "collab_side SINK_START_STATE_C = COLLAB_SINK"
| "collab_side SINK_CONNECT_STATE = COLLAB_SINK"
| "collab_side SINK_WAIT_END_STATE_C = COLLAB_SINK"

fun collab_successors :: "collab_state \<Rightarrow> collab_state set" where
  "collab_successors SOURCE_GET_PEER_VERSION_STATE = {}"
| "collab_successors SOURCE_START_STATE_C = {SOURCE_WAIT_RESULT_STATE}"
| "collab_successors SOURCE_WAIT_RESULT_STATE = {SOURCE_WAIT_END_STATE_C}"
| "collab_successors SOURCE_WAIT_END_STATE_C = {}"
| "collab_successors SINK_GET_VERSION_STATE = {SINK_START_STATE_C}"
| "collab_successors SINK_START_STATE_C = {SINK_CONNECT_STATE}"
| "collab_successors SINK_CONNECT_STATE = {SINK_WAIT_END_STATE_C}"
| "collab_successors SINK_WAIT_END_STATE_C = {}"

lemma successors_side: "st' \<in> collab_successors st \<Longrightarrow> collab_side st' = collab_side st \<and> st' \<noteq> SOURCE_GET_PEER_VERSION_STATE"
  by (cases st) auto

lemma cev_state_execute: "keeps (cevolves (st = SOURCE_GET_PEER_VERSION_STATE) (collab_successors st)) (collab_state_execute env st e)"
  by (cases st; cases e) (simp_all add: cevolving cev.keeps_return)

lemma cev_ProcessEvent:
  assumes "stateMachine (self s) = Some (Some st)"
  shows "cevolves (st = SOURCE_GET_PEER_VERSION_STATE) (collab_successors st) s (exec (ProcessEvent_collab env e) s)"
proof -
  have "cevolves (st = SOURCE_GET_PEER_VERSION_STATE) (collab_successors st) s (exec (do { r \<leftarrow> collab_state_execute env st e;
      if r \<noteq> ERR_OK then do { PostErrEndTask env r; mreturn () } else mreturn () }) s)"
    by (rule keepsD) (intro cev.keeps_rules cev_state_execute cevolving)
  then show ?thesis
    using assms by (simp add: ProcessEvent_collab_def collab_machine_execute_def)
qed

end
