(* ===== verification/Collab_Invariant.thy ===== *)
theory Collab_Invariant
  imports Collab_Evolution
begin

text \<open>
  The invariant of the collaboration manager: every object is in the map under its own token, has its
  event handler and a state of its own side, and an object that waits for the version of the peer has a
  callback; so no null callback is ever used. The locale \<open>collab_contract\<close> states what the manager relies on
  when it calls a method of an object; every method it calls is an interpretation.
\<close>

definition collab_ok :: "string \<Rightarrow> 'p collab \<Rightarrow> bool" where
  "collab_ok k c \<longleftrightarrow> collabToken (collabInfo c) = k \<and> collabHandler c \<and>
     (\<exists>st. stateMachine c = Some (Some st) \<and> collab_side st = collabDirection (collabInfo c) \<and>
       (st = SOURCE_GET_PEER_VERSION_STATE \<longrightarrow> srcClientCB (collabInfo c) \<noteq> None))"

definition request_ok :: "'p collab_info \<Rightarrow> bool" where
  "request_ok info \<longleftrightarrow> srcClientCB info \<noteq> None \<and> collabDirection info = COLLAB_SOURCE"

definition collab_inv :: "('w, 'p) collab_mgr \<Rightarrow> bool" where
  "collab_inv m \<longleftrightarrow> smap_ok (collabs m) \<and> (\<forall>k c. smap_find (collabs m) k = Some c \<longrightarrow> collab_ok k c) \<and>
     (\<forall>info. TaskGetSinkVersion info \<in> set (mgrTasks m) \<longrightarrow> request_ok info) \<and> \<not> nullUse m"

lemma collab_invD:
  "collab_inv m \<Longrightarrow> smap_find (collabs m) k = Some c \<Longrightarrow> collab_ok k c"
  "collab_inv m \<Longrightarrow> smap_ok (collabs m)" "collab_inv m \<Longrightarrow> \<not> nullUse m"
  by (simp_all add: collab_inv_def)

text \<open>Changes of the manager that do not concern the objects.\<close>

lemma collab_inv_cong:
  "collab_inv m \<Longrightarrow> collabs m' = collabs m \<Longrightarrow> set (mgrTasks m') \<subseteq> set (mgrTasks m) \<Longrightarrow> nullUse m' = nullUse m \<Longrightarrow> collab_inv m'"
  by (auto simp: collab_inv_def)

lemma collab_inv_log [simp]: "collab_inv (log_call c m) = collab_inv m"
  by (simp add: collab_inv_def log_call_def)

lemma collab_inv_upd [simp]:
  "collab_inv (m\<lparr>mgrTimers := ts\<rparr>) = collab_inv m"
  "collab_inv (m\<lparr>connectDecision := d\<rparr>) = collab_inv m"
  "collab_inv (m\<lparr>mgrWaiting := w\<rparr>) = collab_inv m"
  "collab_inv (m\<lparr>mgrHandler := h\<rparr>) = collab_inv m"
  by (simp_all add: collab_inv_def)

lemma collab_inv_destroy [simp]: "collab_inv (destroy_collab env c m) = collab_inv m"
  by (simp add: destroy_collab_def)

lemma collab_inv_RemoveTimeout [simp]:
  "collab_inv (RemoveTimeout_cmgr k m) = collab_inv m" "collab_inv (RemoveTask k m) = collab_inv m"
  by (simp_all add: RemoveTimeout_cmgr_def RemoveTask_def)

lemma collab_inv_SetTimeOut [simp]: "collab_inv (SetTimeOut_cmgr k t m) = collab_inv m"
  by (simp add: SetTimeOut_cmgr_def)

lemma mgr_evolves_inv:
  assumes "collab_inv m" "mgr_evolves k False m m'"
  shows "collab_inv m'"
  using assms by (auto simp: collab_inv_def mgr_evolves_def smap_ok_erase smap_find_def map_of_erase split: if_splits)

lemma obj_evolves_ok:
  assumes "collab_ok k c" "obj_evolves F c c'"
    and "\<And>st. st \<in> F \<Longrightarrow> collab_side st = collabDirection (collabInfo c) \<and> st \<noteq> SOURCE_GET_PEER_VERSION_STATE"
  shows "collab_ok k c'"
  using assms unfolding collab_ok_def obj_evolves_def keeps_identity_def by fastforce

subsection \<open>The contract\<close>

locale collab_contract =
  fixes K :: "string set"
    and p :: "('w, 'p, 'a) cprog"
  assumes keeps_ok: "k \<in> K \<Longrightarrow> collab_inv (mgr s) \<Longrightarrow> collab_ok k (self s) \<Longrightarrow> collab_ok k (self (exec p s))"
    and keeps_mgr: "k \<in> K \<Longrightarrow> collab_inv (mgr s) \<Longrightarrow> collab_ok k (self s) \<Longrightarrow> mgr_evolves k False (mgr s) (mgr (exec p s))"
begin

lemma keeps_inv: "k \<in> K \<Longrightarrow> collab_inv (mgr s) \<Longrightarrow> collab_ok k (self s) \<Longrightarrow> collab_inv (mgr (exec p s))"
  using mgr_evolves_inv keeps_mgr by blast

lemma on_collab_inv:
  assumes "k \<in> K" "collab_inv m"
  shows "collab_inv (on_collab env p k m)"
proof (cases "smap_find (collabs m) k")
  case (Some c)
  let ?s = "exec p \<lparr>self = c, mgr = m\<rparr>"
  have ok: "collab_ok k (self ?s)" "collab_inv (mgr ?s)"
    using keeps_ok [of k "\<lparr>self = c, mgr = m\<rparr>"] keeps_inv [of k "\<lparr>self = c, mgr = m\<rparr>"] collab_invD(1) [OF assms(2) Some] assms by simp_all
  then have "collab_inv ((mgr ?s)\<lparr>collabs := smap_put k (self ?s) (collabs (mgr ?s))\<rparr>)"
    by (auto simp: collab_inv_def smap_ok_put smap_find_def map_of_put split: if_splits)
  then show ?thesis
    using Some ok(2) by (simp add: on_collab_def Let_def)
qed (simp add: on_collab_def assms)

text \<open>Only the object itself and its entry change.\<close>

lemma on_collab_frame:
  assumes "k \<in> K" "collab_inv m" "k' \<noteq> k"
  shows "smap_find (collabs (on_collab env p k m)) k' = smap_find (collabs m) k'"
proof (cases "smap_find (collabs m) k")
  case (Some c)
  let ?s = "exec p \<lparr>self = c, mgr = m\<rparr>"
  have ok: "mgr_evolves k False m (mgr ?s)" "smap_ok (collabs (mgr ?s))"
    using keeps_mgr [of k "\<lparr>self = c, mgr = m\<rparr>"] keeps_inv [of k "\<lparr>self = c, mgr = m\<rparr>"] collab_invD [OF assms(2)] Some assms(1,2)
    by (auto simp: collab_inv_def)
  then show ?thesis
    using Some assms(3)
    by (auto simp: on_collab_def Let_def destroy_collab_def log_call_def mgr_evolves_def smap_find_def map_of_put map_of_erase)
qed (simp add: on_collab_def)

end

lemma contractI:
  assumes "\<And>s. cevolves False {} s (exec p s)"
  shows "collab_contract UNIV p"
proof
  show "collab_ok k (self (exec p s))" if "collab_ok k (self s)" for k and s :: "('a, 'b) crun"
    using obj_evolves_ok [OF that] assms [of s] by (auto simp: cevolves_def)
  show "mgr_evolves k False (mgr s) (mgr (exec p s))" if "collab_ok k (self s)" for k and s :: "('a, 'b) crun"
    using assms [of s] that by (auto simp: cevolves_def collab_ok_def)
qed

lemma quiet_contract: "keeps (cevolves False {}) p \<Longrightarrow> collab_contract UNIV p"
  by (rule contractI) (rule keepsD)

interpretation err_end: collab_contract UNIV "PostErrEndTask env r" for env r
  by (rule quiet_contract) (rule cevolving)

interpretation end_task: collab_contract UNIV "PostEndTask env" for env
  by (rule quiet_contract) (rule cevolving)

interpretation reject_task: collab_contract UNIV "PostAbilityRejectTask env t" for env t
  by (rule quiet_contract) (rule cevolving)

interpretation prepare_task: collab_contract UNIV "PostSinkPrepareResultTask env r sid sn cb" for env r sid sn cb
  by (rule quiet_contract) (rule cevolving)

interpretation save_data: collab_contract UNIV "SaveSinkAbilityData p u t" for p u t
  by (rule quiet_contract) (rule cevolving)

interpretation wifi_open: collab_contract UNIV "NotifyWifiOpen_collab env" for env
  by (rule quiet_contract) (rule cevolving)

interpretation data_recv: collab_contract UNIV "OnDataRecv_collab env command b" for env command b
  by (rule quiet_contract) (rule cevolving)

lemma collab_ok_state: "collab_ok k c \<Longrightarrow> \<exists>st. stateMachine c = Some (Some st)"
  by (auto simp: collab_ok_def)

lemma exec_run_collab_event:
  "exec (run_collab_event env) s = (case collabQueue (self s) of
     [] \<Rightarrow> s | e # q \<Rightarrow> exec (ProcessEvent_collab env e) (s\<lparr>self := (self s)\<lparr>collabQueue := q\<rparr>\<rparr>))"
  by (simp add: run_collab_event_def split: list.split)

interpretation runner: collab_contract UNIV "run_collab_event env" for env
proof
  fix k and s :: "('a, 'b) crun"
  assume ok: "collab_ok k (self s)"
  have "collab_ok k (self (exec (run_collab_event env) s)) \<and> mgr_evolves k False (mgr s) (mgr (exec (run_collab_event env) s))"
  proof (cases "collabQueue (self s)")
    case (Cons e q)
    let ?s = "s\<lparr>self := (self s)\<lparr>collabQueue := q\<rparr>\<rparr>"
    obtain st where st: "stateMachine (self ?s) = Some (Some st)"
      using collab_ok_state [OF ok] by auto
    note ev = cev_ProcessEvent [OF st, of env e]
    have "collab_ok k (self ?s)"
      using ok by (simp add: collab_ok_def)
    moreover have "collab_side st' = collabDirection (collabInfo (self ?s)) \<and> st' \<noteq> SOURCE_GET_PEER_VERSION_STATE"
      if "st' \<in> collab_successors st" for st'
      using ok st successors_side [OF that] by (auto simp: collab_ok_def)
    ultimately have "collab_ok k (self (exec (ProcessEvent_collab env e) ?s))"
      using ev obj_evolves_ok unfolding cevolves_def by blast
    moreover have "mgr_evolves k False (mgr s) (mgr (exec (ProcessEvent_collab env e) ?s))"
      using ev ok st by (auto simp: cevolves_def collab_ok_def mgr_evolves_def)
    ultimately show ?thesis
      by (simp add: exec_run_collab_event Cons)
  qed (simp add: exec_run_collab_event ok)
  then show "collab_ok k (self (exec (run_collab_event env) s))" "mgr_evolves k False (mgr s) (mgr (exec (run_collab_event env) s))"
    by simp_all
qed

definition mission_prog :: "('w, 'p) collab_env \<Rightarrow> 'p collab_info \<Rightarrow> ('w, 'p, ret) cprog" where
  "mission_prog env info = do { SetSrcCollabInfo info; UpdateState_collab SOURCE_START_STATE_C; PostSrcStartTask env }"

lemma mission_contract:
  assumes "collabDirection info = COLLAB_SOURCE"
  shows "collab_contract {collabToken info} (mission_prog env info)"
  by standard
    (auto simp: mission_prog_def SetSrcCollabInfo_def UpdateState_collab_def UpdateState_obj_def PostSrcStartTask_def cpost_def
      collab_ok_def assms)


subsection \<open>New objects\<close>

lemma run_events_ok:
  assumes "collab_inv (mgr s)" "collab_ok k (self s)"
  shows "collab_inv (mgr ((exec (run_collab_event env) ^^ n) s)) \<and> collab_ok k (self ((exec (run_collab_event env) ^^ n) s))"
proof (induction n)
  case (Suc n)
  then show ?case
    by (simp add: runner.keeps_inv [of k] runner.keeps_ok [of k])
qed (simp add: assms)

lemma add_collab_inv:
  assumes "collab_inv m" "collab_ok k c"
  shows "collab_inv (add_collab env k c m)"
proof (cases "smap_find (collabs m) k")
  case None
  with assms show ?thesis
    by (auto simp: add_collab_def collab_inv_def smap_insert_def smap_ok_put smap_find_def map_of_put split: if_splits)
next
  case (Some c')
  with run_events_ok [of "\<lparr>self = c, mgr = m\<rparr>" k "orphanTurns env" env] assms show ?thesis
    by (simp add: add_collab_def orphan_def Let_def)
qed

lemma posted_ok: "collab_ok k c \<Longrightarrow> collab_ok k (posted env e c)"
  by (simp add: posted_def collab_ok_def)

lemma new_source_ok:
  "request_ok info \<Longrightarrow> collab_ok (collabToken info)
     (UpdateState_obj SOURCE_GET_PEER_VERSION_STATE (Init_collab (DSchedCollabLocal (collabToken info) info)))"
  by (simp add: collab_ok_def UpdateState_obj_def Init_collab_def DSchedCollabLocal_def new_collab_def request_ok_def)

lemma new_sink_ok:
  "collab_ok (bcCollabToken cmd) (UpdateState_obj SINK_GET_VERSION_STATE (Init_collab (DSchedCollabRemote env cmd session)))"
  by (simp add: collab_ok_def UpdateState_obj_def Init_collab_def DSchedCollabRemote_def new_collab_def)

subsection \<open>Every step\<close>

lemma HandleGetSinkCollabVersion_inv:
  "collab_inv m \<Longrightarrow> request_ok info \<Longrightarrow> collab_inv (HandleGetSinkCollabVersion env info m)"
  by (simp add: HandleGetSinkCollabVersion_def Let_def WaitAllConnectDecision_cmgr_def add_collab_inv posted_ok new_source_ok)

lemma NotifyDataRecv_inv: "collab_inv m \<Longrightarrow> collab_inv (NotifyDataRecv env session command jsonStr b token m)"
  by (auto simp: NotifyDataRecv_def Let_def data_recv.on_collab_inv add_collab_inv posted_ok new_sink_ok split: option.splits prod.splits)

lemma PostCollabTask_inv:
  "collab_inv m \<Longrightarrow> (\<And>info. t = TaskGetSinkVersion info \<Longrightarrow> request_ok info) \<Longrightarrow> collab_inv (fst (PostCollabTask t m))"
  by (auto simp: PostCollabTask_def collab_inv_def)

lemma CollabMission_inv:
  assumes "collab_inv m" "collabDirection info = COLLAB_SOURCE"
  shows "collab_inv (fst (CollabMission env info m))"
proof -
  have "collab_inv (on_collab env (mission_prog env (info\<lparr>srcInfo := x\<rparr>)) (collabToken info) m)" for x
    by (rule collab_contract.on_collab_inv [OF mission_contract]) (simp_all add: assms)
  then show ?thesis
    using assms(1) by (simp add: CollabMission_def mission_prog_def split: option.split)
qed

lemma release_loop_inv: "collab_inv m \<Longrightarrow> collab_inv (release_loop env bn pid es m)"
  by (induction env bn pid es m rule: release_loop.induct) (simp_all add: release_step_def Let_def end_task.on_collab_inv)

lemma fold_inv: "(\<And>e m. collab_inv m \<Longrightarrow> collab_inv (f e m)) \<Longrightarrow> collab_inv m \<Longrightarrow> collab_inv (fold f es m)"
  by (induction es arbitrary: m) simp_all

lemma HandleShutdown_inv: "collab_inv m \<Longrightarrow> collab_inv (HandleShutdown_cmgr env socket m)"
  unfolding HandleShutdown_cmgr_def by (rule fold_inv) (simp_all add: err_end.on_collab_inv)

lemma run_collab_task_inv:
  assumes "collab_inv m" "run_collab_task env t m = Done m'" "\<And>info. t = TaskGetSinkVersion info \<Longrightarrow> request_ok info"
  shows "collab_inv m'"
proof (cases t)
  case (TaskCollabData session b)
  with assms show ?thesis
    by (auto simp: HandleDataRecv_cmgr_def NotifyDataRecv_inv split: option.splits ub.splits)
qed (use assms in \<open>auto simp: HandleGetSinkCollabVersion_inv HandleCollabPrepareResult_def HandleCloseSessions_def
    prepare_task.on_collab_inv end_task.on_collab_inv HandleShutdown_inv split: option.splits\<close>)

lemma collab_inv_no_tasks: "collab_inv m \<Longrightarrow> collab_inv (m\<lparr>mgrTasks := []\<rparr>)"
  by (simp add: collab_inv_def)

lemma UnInit_inv:
  assumes "collab_inv m"
  shows "collab_inv (UnInit_cmgr env m)"
proof -
  let ?m = "log_call CollabReleaseChannel (log_call CollabUnregisterListener m)"
  have "collab_inv (?m\<lparr>collabs := []\<rparr>)"
    using assms by (simp add: collab_inv_def log_call_def smap_find_def)
  then have "collab_inv (fold (\<lambda>e. destroy_collab env (snd e)) (collabs ?m) (?m\<lparr>collabs := []\<rparr>))"
    by (intro fold_inv) simp_all
  then show ?thesis
    by (simp add: UnInit_cmgr_def Let_def collab_inv_no_tasks)
qed

lemma cmstep_inv:
  assumes "cmstep m m'" "collab_inv m"
  shows "collab_inv m'"
  using assms
proof (cases rule: cmstep.cases)
  case (decided env)
  then show ?thesis
    using assms(2) by (auto simp: AfterDecision_def Let_def err_end.on_collab_inv split: option.split)
next
  case (version info env)
  then show ?thesis
    using assms(2) by (auto simp: GetSinkCollabVersion_def request_ok_def intro!: PostCollabTask_inv split: option.split)
next
  case (task t ts env)
  then have "collab_inv (m\<lparr>mgrTasks := ts\<rparr>)" "\<And>info. t = TaskGetSinkVersion info \<Longrightarrow> request_ok info"
    using assms(2) by (auto simp: collab_inv_def)
  with task show ?thesis
    using run_collab_task_inv by blast
next
  case (delayed ts1 name d delay ts2 env)
  then show ?thesis
    using assms(2) by (cases d) (simp_all add: collab_timeout_def err_end.on_collab_inv HandleReleaseAbilityLink_def release_loop_inv)
next
  case (wifi env)
  then show ?thesis
    using assms(2) by (auto simp: NotifyWifiOpen_cmgr_def wifi_open.on_collab_inv intro!: fold_inv)
qed (auto simp: Init_cmgr_def Let_def UnInit_inv NotifyAllConnectDecision_cmgr_def CollabMission_inv NotifyStartAbilityResult_def
    err_end.on_collab_inv save_data.on_collab_inv NotifySinkPrepareResult_def NotifySinkRejectReason_def
    reject_task.on_collab_inv NotifySessionClose_def end_task.on_collab_inv NotifyAbilityDied_def ReleaseAbilityLink_def
    CancleReleaseAbilityLink_def OnDataRecv_cmgr_def OnShutdown_cmgr_def collab_object_event_def runner.on_collab_inv
    intro!: PostCollabTask_inv split: option.split)

lemma collab_reachable_inv: "collab_reachable m \<Longrightarrow> collab_inv m"
proof (induction rule: collab_reachable.induct)
  case start
  show ?case
    by (simp add: collab_inv_def DSchedCollabManager_def smap_find_def)
qed (rule cmstep_inv)

end
