(* ===== verification/Collab_Sample.thy ===== *)
theory Collab_Sample
  imports Collab_Invariant Continue_Sample
begin

text \<open>
  A concrete instance of the parameters of the collaboration model: want parameters as association lists,
  services that all succeed, and a manager that has just been asked for the version of device \<open>B\<close>.
\<close>

datatype sample_param = SText string | SFlag bool | SParams "(string \<times> sample_param) list"

type_synonym sample_params = "(string \<times> sample_param) list"

definition sample_collab_wapi :: "(sample_want, sample_params) collab_want_api" where
  "sample_collab_wapi =
     \<lparr>cEmptyWant = sample_empty_want, cAddFlags = (\<lambda>f w. w\<lparr>swFlags := swFlags w + f\<rparr>),
      cSetParam = (\<lambda>k v w. w\<lparr>swTexts := (k, v) # swTexts w\<rparr>),
      cSetElementName = (\<lambda>d b a w. w\<lparr>swDevice := d, swBundle := b, swAbility := a\<rparr>),
      cSetParams = (\<lambda>ps w. w), emptyParams = [],
      setString = (\<lambda>k v ps. (k, SText v) # ps), setBool = (\<lambda>k v ps. (k, SFlag v) # ps),
      setNested = (\<lambda>k v ps. (k, SParams v) # ps),
      queryString = (\<lambda>k ps. case map_of ps k of Some (SText v) \<Rightarrow> Some v | _ \<Rightarrow> None),
      FLAG_ABILITY_ON_COLLABORATE = 0x2000\<rparr>"

definition sample_version_cmd :: version_cmd where
  "sample_version_cmd = base_cmd.extend (base_cmd_default\<lparr>bcCommand := SOURCE_GET_VERSION_CMD, bcCollabToken := ''T''\<rparr>)
     (version_cmd.fields (-1) (-1) (-1) 1)"

definition sample_result_cmd :: notify_result_cmd where
  "sample_result_cmd = base_cmd.extend (base_cmd_default\<lparr>bcCommand := NOTIFY_RESULT_CMD, bcCollabToken := ''T''\<rparr>)
     (notify_result_cmd.fields ERR_OK 9 40 41 100 0 ''socket'' '''')"

definition sample_start_cmd :: "sample_params sink_start_cmd" where
  "sample_start_cmd = base_cmd.extend (base_cmd_default\<lparr>bcCommand := SINK_START_CMD, bcCollabToken := ''T''\<rparr>)
     (sink_start_cmd.fields 30 31 32 3 caller_info_default account_info_default [] [])"

definition sample_collab_parser :: "sample_params collab_parser" where
  "sample_collab_parser = \<lparr>unmarshalVersion = (\<lambda>_. (ERR_OK, sample_version_cmd)),
     unmarshalSinkStart = (\<lambda>_. (ERR_OK, sample_start_cmd)), unmarshalNotifyResult = (\<lambda>_. (ERR_OK, sample_result_cmd))\<rparr>"

definition sample_collab_env :: "(sample_want, sample_params) collab_env" where
  "sample_collab_env =
     \<lparr>cwapi = sample_collab_wapi, collabParser = sample_collab_parser, collabBuild = sample_build, osAccountPart = True,
      collabSendEvent = (\<lambda>_. True), collabConnect = (\<lambda>_ _. (ERR_OK, 12)), collabSend = (\<lambda>_ _. ERR_OK),
      collabMarshal = (\<lambda>_. (ERR_OK, [123, 125])),
      collabBundleInfo = (\<lambda>_. (ERR_OK, \<lparr>versionCode = 3, abilityNames = [''Main'']\<rparr>)),
      collabAppId = (\<lambda>_. Some ''id''), collabBundleNames = (\<lambda>_. Some [''app'']),
      collabAccountInfo = (\<lambda>_ _. (ERR_OK, sample_account)), checkCollabStart = (\<lambda>w _ _. (ERR_OK, w)), collabAmsConnect = ERR_OK,
      startAbilityByCall = (\<lambda>_. ERR_OK), udidByNetworkId = (\<lambda>d. ''udid'' @ d), activeAccountIds = (ERR_OK, [100]),
      screenSecure = False, screenLocked = False, tokenWrites = True, valueWrites = True, ERR_FLATTEN = 5, ERR_NULL_OBJECT = 22,
      clientRequest = (\<lambda>_. ERR_OK), appManager = True, registerRet = ERR_OK, localDevice = Some ''A'',
      deviceKnown = (\<lambda>_. True), networkIdOf = (\<lambda>_ _. True), collabNeedAllConnect = False, relationChecker = ERR_OK,
      collabParse = (\<lambda>_. None), uninitialised = 0, orphanTurns = 0\<rparr>"

definition sample_collab_info :: "sample_params collab_info" where
  "sample_collab_info = (collab_info_default [] 0)
     \<lparr>srcCollabSessionId := 1, collabToken := ''T'', srcClientCB := Some 4,
      srcInfo := collab_message_default\<lparr>msgPid := 30, msgBundleName := ''app'', msgAbilityName := ''Main'', msgModuleName := ''m''\<rparr>,
      sinkInfo := collab_message_default\<lparr>msgDeviceId := ''B'', msgBundleName := ''app'', msgAbilityName := ''Main'', msgModuleName := ''m''\<rparr>\<rparr>"

text \<open>The collaboration that has just been made, with its first event in its queue, and the manager with it.\<close>

definition sample_collab :: "sample_params collab" where
  "sample_collab =
     (new_collab (sample_collab_info\<lparr>srcInfo := (srcInfo sample_collab_info)\<lparr>msgDeviceId := ''A''\<rparr>, srcCollabVersion := 1\<rparr>))
       \<lparr>stateMachine := Some (Some SOURCE_GET_PEER_VERSION_STATE), collabHandler := True,
        collabQueue := [SOURCE_GET_PEER_VERSION_EVENT]\<rparr>"

definition sample_collab_mgr :: "(sample_want, sample_params) collab_mgr" where
  "sample_collab_mgr = DSchedCollabManager
     \<lparr>collabs := [(''T'', sample_collab)], mgrHandler := True, mgrTimers := [(''T'', DelayedTimeout ''T'', COLLAB_TIMEOUT)],
      mgrCalls := [CollabInitChannel, CollabRegisterListener]\<rparr>"

lemma sample_collab_reachable: "collab_reachable sample_collab_mgr"
proof -
  let ?E = sample_collab_env
  let ?m1 = "Init_cmgr ?E DSchedCollabManager"
  let ?i = "sample_collab_info\<lparr>srcInfo := (srcInfo sample_collab_info)\<lparr>msgDeviceId := ''A''\<rparr>\<rparr>"
  have m1: "collab_reachable ?m1"
    by (rule collab_reachable.step [OF collab_reachable.start cmstep.init])
  have "collabDirection sample_collab_info = COLLAB_SOURCE"
    by (simp add: sample_collab_info_def collab_info_default_def)
  from cmstep.version [OF this, of ?m1 ?E] have "cmstep ?m1 (?m1\<lparr>mgrTasks := [TaskGetSinkVersion ?i]\<rparr>)"
    by (simp add: GetSinkCollabVersion_def sample_collab_info_def sample_collab_env_def PostCollabTask_def Init_cmgr_def
        DSchedCollabManager_def log_call_def)
  note m2 = collab_reachable.step [OF m1 this]
  have "cmstep (?m1\<lparr>mgrTasks := [TaskGetSinkVersion ?i]\<rparr>) sample_collab_mgr"
    by (rule cmstep.task [where ts = "[]" and t = "TaskGetSinkVersion ?i" and env = ?E])
      (simp_all add: HandleGetSinkCollabVersion_def add_collab_def posted_def UpdateState_obj_def Init_collab_def DSchedCollabLocal_def
        new_collab_def SetTimeOut_cmgr_def Let_def Init_cmgr_def DSchedCollabManager_def log_call_def smap_find_def smap_insert_def
        sample_collab_mgr_def sample_collab_def sample_collab_env_def sample_collab_info_def sample_build_def
        DSCHED_COLLAB_PROTOCOL_VERSION_def)
  then show ?thesis
    by (rule collab_reachable.step [OF m2])
qed

lemma sample_collab_found: "smap_find (collabs sample_collab_mgr) ''T'' = Some sample_collab"
  by (simp add: sample_collab_mgr_def smap_find_def)

lemma sample_collab_queue: "collabQueue sample_collab = [SOURCE_GET_PEER_VERSION_EVENT]"
  by (simp add: sample_collab_def)

end
