(* ===== verification/Collab_Liveness.thy ===== *)
theory Collab_Liveness
  imports Collab_Sample
begin

text \<open>
  Collaborations end. An error event in the queue of a collaboration, a failed event, the time-out and the
  loss of the session all lead to its removal from the manager, after at most as many events as were
  waiting, whatever the other services answer meanwhile.
\<close>

definition object_turns :: "('w, 'p) collab_env list \<Rightarrow> string \<Rightarrow> ('w, 'p) collab_mgr \<Rightarrow> ('w, 'p) collab_mgr" where
  "object_turns envs k m = fold (\<lambda>env. collab_object_event env k) envs m"

definition removed :: "string \<Rightarrow> ('w, 'p) collab_mgr \<Rightarrow> bool" where
  "removed k m \<longleftrightarrow> smap_find (collabs m) k = None"

lemma on_collab_removed: "removed k m \<Longrightarrow> on_collab env p k m = m"
  by (simp add: on_collab_def removed_def)

lemma turns_removed: "removed k m \<Longrightarrow> removed k (object_turns envs k m)"
  by (induction envs arbitrary: m) (simp_all add: object_turns_def collab_object_event_def on_collab_removed)

lemma removed_destroy [simp]: "removed k (destroy_collab env c m) = removed k m"
  by (simp add: removed_def destroy_collab_def log_call_def)

subsection \<open>The end\<close>

lemma CleanUp_removes:
  assumes "collabToken (collabInfo (self s)) \<noteq> ''''"
  shows "removed (collabToken (collabInfo (self s))) (mgr (exec (CleanUpSession_collab env) s))"
  using assms
  by (auto simp: CleanUpSession_collab_def removed_def CleanUpSession_cmgr_def GetDSchedCollabByTokenId_def Let_def smap_find_def
      map_of_erase split_beta split: option.split if_splits)

text \<open>A program before the clean-up leaves the token alone.\<close>

lemma then_CleanUp:
  assumes "keeps (cevolves True {}) p" "collab_ok k (self s)" "k \<noteq> ''''"
  shows "removed k (mgr (exec (do { p; CleanUpSession_collab env; mreturn r }) s))"
proof -
  have "collabToken (collabInfo (self (exec p s))) = k"
    using keepsD [OF assms(1), of s] assms(2) by (simp add: cevolves_def obj_evolves_def keeps_identity_def collab_ok_def)
  then show ?thesis
    using CleanUp_removes [of "exec p s"] assms(3) by simp
qed

lemma err_end_removes:
  assumes "collab_ok k (self s)" "k \<noteq> ''''"
  shows "removed k (mgr (exec (ProcessEvent_collab env (ERR_END_EVENT r)) s))"
proof -
  obtain st where st: "stateMachine (self s) = Some (Some st)"
    using collab_ok_state [OF assms(1)] by blast
  have wait: "removed k (mgr (exec (ExeSrcWaitResultError env r) s))"
    using then_CleanUp [OF cev.keeps_bind [OF cev_send_result cev_client(1)] assms, of env r "''''"]
    by (simp add: ExeSrcWaitResultError_def)
  have disconnect: "removed k (mgr (exec (ExeDisconnect env) s))"
    using then_CleanUp [OF cev_SendCommand assms] by (simp add: ExeDisconnect_def)
  have "removed k (mgr (exec (collab_state_execute env st (ERR_END_EVENT r)) s))"
    using wait disconnect then_CleanUp [OF cev_client(1) assms] then_CleanUp [OF cev_send_result assms]
    by (cases st) (simp_all add: ExeSrcGetPeerVersionError_def ExeSrcStartError_def ExeSinkGetVersionError_def ExeSinkStartError_def
        ExeSinkConnectError_def)
  moreover have "outcome (collab_state_execute env st (ERR_END_EVENT r)) s = ERR_OK"
    by (cases st) (simp_all add: ExeSrcGetPeerVersionError_def ExeSrcStartError_def ExeSinkGetVersionError_def ExeSinkStartError_def
        ExeSinkConnectError_def ExeSrcWaitResultError_def ExeDisconnect_def)
  ultimately show ?thesis
    using st by (simp add: ProcessEvent_collab_def collab_machine_execute_def)
qed

subsection \<open>Turns of the event runner\<close>

lemma object_event_Cons:
  assumes "collab_inv m" "smap_find (collabs m) k = Some c" "collabQueue c = e # q"
  obtains (gone) "removed k (collab_object_event env k m)"
  | (kept) c' where "smap_find (collabs (collab_object_event env k m)) k = Some c'" "prefix q (collabQueue c')"
proof -
  let ?s = "\<lparr>self = c\<lparr>collabQueue := q\<rparr>, mgr = m\<rparr>"
  let ?t = "exec (ProcessEvent_collab env e) ?s"
  obtain st where "stateMachine c = Some (Some st)"
    using collab_ok_state collab_invD(1) [OF assms(1,2)] by blast
  then have ev: "cevolves (st = SOURCE_GET_PEER_VERSION_STATE) (collab_successors st) ?s ?t"
    by (intro cev_ProcessEvent) simp
  then have q: "prefix q (collabQueue (self ?t))"
    by (simp add: cevolves_def obj_evolves_def)
  have step: "collab_object_event env k m =
      (if removed k (mgr ?t) then destroy_collab env (self ?t) (mgr ?t) else (mgr ?t)\<lparr>collabs := smap_put k (self ?t) (collabs (mgr ?t))\<rparr>)"
    using assms(2,3) by (simp add: collab_object_event_def on_collab_def exec_run_collab_event removed_def Let_def)
  have "smap_ok (collabs (mgr ?t))"
    using ev collab_invD(2) [OF assms(1)] by (auto simp: cevolves_def mgr_evolves_def smap_ok_erase)
  then show ?thesis
    using gone kept [of "self ?t"] step q by (cases "removed k (mgr ?t)") (simp_all add: smap_find_def map_of_put)
qed

lemma err_end_turn:
  assumes "collab_inv m" "smap_find (collabs m) k = Some c" "collabQueue c = ERR_END_EVENT r # q" "k \<noteq> ''''"
  shows "removed k (collab_object_event env k m)"
proof -
  have "collab_ok k (c\<lparr>collabQueue := q\<rparr>)"
    using collab_invD(1) [OF assms(1,2)] by (simp add: collab_ok_def)
  then show ?thesis
    using err_end_removes [of k "\<lparr>self = c\<lparr>collabQueue := q\<rparr>, mgr = m\<rparr>" env r] assms(2-4)
    by (simp add: collab_object_event_def on_collab_def exec_run_collab_event Let_def removed_def [symmetric])
qed

lemma collab_event_inv: "collab_inv m \<Longrightarrow> collab_inv (collab_object_event env k m)"
  by (simp add: collab_object_event_def runner.on_collab_inv)

lemma err_end_leads_to_removal:
  assumes "collab_inv m" "smap_find (collabs m) k = Some c" "collabQueue c = q1 @ ERR_END_EVENT r # q2" "k \<noteq> ''''"
    and "length q1 < length envs"
  shows "removed k (object_turns envs k m)"
  using assms
proof (induction envs arbitrary: m c q1 q2)
  case (Cons env envs)
  let ?m = "collab_object_event env k m"
  have rest: "object_turns (env # envs) k m = object_turns envs k ?m"
    by (simp add: object_turns_def)
  show ?case
  proof (cases q1)
    case Nil
    then show ?thesis
      using err_end_turn [OF Cons.prems(1,2), of r q2 env] Cons.prems(3,4) rest by (simp add: turns_removed)
  next
    case (Cons e q)
    with Cons.prems(3) have "collabQueue c = e # q @ ERR_END_EVENT r # q2"
      by simp
    then consider (gone) "removed k ?m" | (kept) c' where "smap_find (collabs ?m) k = Some c'" "prefix (q @ ERR_END_EVENT r # q2) (collabQueue c')"
      by (rule object_event_Cons [OF Cons.prems(1,2)]) blast+
    then show ?thesis
    proof cases
      case gone
      then show ?thesis
        by (simp add: rest turns_removed)
    next
      case (kept c')
      then obtain q3 where "collabQueue c' = q @ ERR_END_EVENT r # (q2 @ q3)"
        by (auto simp: prefix_def)
      then show ?thesis
        using Cons.IH [OF collab_event_inv [OF Cons.prems(1)] kept(1)] Cons.prems(4,5) \<open>q1 = e # q\<close> by (simp add: rest)
    qed
  qed
qed simp

definition collab_runner_accepts :: "('w, 'p) collab_env \<Rightarrow> bool" where
  "collab_runner_accepts env \<longleftrightarrow> (\<forall>e. collabSendEvent env e)"

lemma exec_cpost:
  "collabHandler (self s) \<Longrightarrow> collab_runner_accepts env \<Longrightarrow>
     exec (cpost env e) s = s\<lparr>self := (self s)\<lparr>collabQueue := collabQueue (self s) @ [e]\<rparr>\<rparr>"
  "collabHandler (self s) \<Longrightarrow> collab_runner_accepts env \<Longrightarrow> outcome (cpost env e) s = ERR_OK"
  by (simp_all add: cpost_def collab_runner_accepts_def)

text \<open>An object that is told of an error keeps its queue and gets the event at its end.\<close>

lemma on_collab_err_end:
  assumes "collab_inv m" "smap_find (collabs m) k = Some c" "collab_runner_accepts env"
  shows "on_collab env (PostErrEndTask env r) k m = m\<lparr>collabs := smap_put k (c\<lparr>collabQueue := collabQueue c @ [ERR_END_EVENT r]\<rparr>) (collabs m)\<rparr>"
  using assms collab_invD(1) [OF assms(1,2)]
  by (simp add: on_collab_def PostErrEndTask_def exec_cpost Let_def collab_ok_def)

lemma put_entry: "collab_inv m \<Longrightarrow> smap_find (collabs (m\<lparr>collabs := smap_put k c (collabs m)\<rparr>)) k = Some c"
  by (simp add: smap_find_def map_of_put collab_invD(2))


subsection \<open>Every way to end\<close>



lemma shutdown_entries:
  assumes "distinct (map fst es)" "\<forall>(k, c) \<in> set es. smap_find (collabs m) k = Some c" "collab_inv m" "collab_runner_accepts env"
  shows "smap_find (collabs (fold (\<lambda>e m. if socket = collabSession (snd e)
       then on_collab env (PostErrEndTask env COLLAB_SESSION_SHUTDOWN) (fst e) m else m) es m)) k =
     (case map_of es k of
        Some c \<Rightarrow> Some (if socket = collabSession c then c\<lparr>collabQueue := collabQueue c @ [ERR_END_EVENT COLLAB_SESSION_SHUTDOWN]\<rparr> else c)
      | None \<Rightarrow> smap_find (collabs m) k)"
  using assms
proof (induction es arbitrary: m)
  case (Cons e es)
  obtain k' c where e: "e = (k', c)"
    by (cases e)
  let ?m = "if socket = collabSession c then on_collab env (PostErrEndTask env COLLAB_SESSION_SHUTDOWN) k' m else m"
  have inv: "collab_inv ?m"
    using Cons.prems(3) by (simp add: err_end.on_collab_inv)
  have found: "smap_find (collabs m) k' = Some c"
    using Cons.prems(2) e by simp
  have put: "smap_find (collabs ?m) k' =
      Some (if socket = collabSession c then c\<lparr>collabQueue := collabQueue c @ [ERR_END_EVENT COLLAB_SESSION_SHUTDOWN]\<rparr> else c)"
    using on_collab_err_end [OF Cons.prems(3) found Cons.prems(4)] put_entry [OF Cons.prems(3)] found by simp
  have frame: "smap_find (collabs ?m) j = smap_find (collabs m) j" if "j \<noteq> k'" for j
    using err_end.on_collab_frame [OF _ Cons.prems(3) that] by simp
  have "\<forall>(j, d) \<in> set es. smap_find (collabs ?m) j = Some d"
    using Cons.prems(1,2) e frame by (fastforce simp: image_iff)
  from Cons.IH [OF _ this inv Cons.prems(4)] show ?case
    using Cons.prems(1) e put frame by (auto simp: map_of_eq_None_iff [symmetric] split: option.split)
qed simp

text \<open>
  The loss of a session ends exactly the collaborations of this session: each of them is taken out of
  the manager after its waiting events and one more, and every other collaboration stays as it is.
\<close>

theorem collab_shutdown_ends:
  assumes "collab_reachable m" "collab_runner_accepts env" "smap_find (collabs m) k = Some c"
  shows "if socket = collabSession c
     then k \<noteq> '''' \<longrightarrow> (\<forall>envs. length envs = Suc (length (collabQueue c)) \<longrightarrow> removed k (object_turns envs k (HandleShutdown_cmgr env socket m)))
     else smap_find (collabs (HandleShutdown_cmgr env socket m)) k = Some c"
proof -
  note inv = collab_reachable_inv [OF assms(1)]
  have "\<forall>(k, c) \<in> set (collabs m). smap_find (collabs m) k = Some c"
    using smap_mem_find [OF collab_invD(2) [OF inv]] by blast
  note entry = shutdown_entries [OF smap_ok_distinct [OF collab_invD(2) [OF inv]] this inv assms(2), of socket k]
  then have after: "smap_find (collabs (HandleShutdown_cmgr env socket m)) k =
      Some (if socket = collabSession c then c\<lparr>collabQueue := collabQueue c @ [ERR_END_EVENT COLLAB_SESSION_SHUTDOWN]\<rparr> else c)"
    using assms(3) by (simp add: HandleShutdown_cmgr_def smap_find_def)
  show ?thesis
  proof (cases "socket = collabSession c")
    case True
    with after show ?thesis
      using err_end_leads_to_removal [OF HandleShutdown_inv [OF inv], of env socket k _ "collabQueue c" COLLAB_SESSION_SHUTDOWN "[]"] by simp
  qed (simp add: after)
qed

theorem collab_shutdown_ends_witness:
  "removed ''T'' (object_turns [sample_collab_env, sample_collab_env] ''T'' (HandleShutdown_cmgr sample_collab_env (-1) sample_collab_mgr))"
  using collab_shutdown_ends [OF sample_collab_reachable _ sample_collab_found, of sample_collab_env "-1"]
  by (simp add: collab_runner_accepts_def sample_collab_env_def sample_collab_def new_collab_def)

text \<open>
  A collaboration whose time-out fires ends: it is taken out of the manager after the events that were
  waiting and one more, whatever the other services answer meanwhile.
\<close>

theorem collab_timeout_ends:
  assumes "collab_reachable m" "collab_runner_accepts env" "smap_find (collabs m) k = Some c" "k \<noteq> ''''"
    and "length envs = Suc (length (collabQueue c))"
  shows "removed k (object_turns envs k (collab_timeout env k m))"
proof -
  note inv = collab_reachable_inv [OF assms(1)]
  have "smap_find (collabs (collab_timeout env k m)) k = Some (c\<lparr>collabQueue := collabQueue c @ [ERR_END_EVENT COLLAB_ABILITY_TIMEOUT_ERR]\<rparr>)"
    unfolding collab_timeout_def on_collab_err_end [OF inv assms(3,2)] by (rule put_entry [OF inv])
  moreover have "collab_inv (collab_timeout env k m)"
    by (simp add: collab_timeout_def err_end.on_collab_inv inv)
  ultimately show ?thesis
    using assms(4,5) err_end_leads_to_removal [where ?q2.0 = "[]"] by fastforce
qed

theorem collab_timeout_ends_witness:
  "removed ''T'' (object_turns [sample_collab_env, sample_collab_env] ''T'' (collab_timeout sample_collab_env ''T'' sample_collab_mgr))"
  by (rule collab_timeout_ends [OF sample_collab_reachable _ sample_collab_found])
    (simp_all add: collab_runner_accepts_def sample_collab_env_def sample_collab_queue)

end
