(* ===== verification/Collab_Protocol.thy ===== *)
theory Collab_Protocol
  imports Collab_Liveness
begin

text \<open>
  A whole collaboration on the side of the source, from the question for the peer's version to its end,
  and what it does to the reference count of the transport adapter. Also: who is found to collaborate,
  the tokens, and the end of the sessions of a dead ability.
\<close>

subsection \<open>A source from its start to its end\<close>

text \<open>The methods that are called on the object, in order: its events, the commands of the peer, the requests of the application.\<close>

definition source_life ::
    "('w, 'p) collab_env \<Rightarrow> byte list \<Rightarrow> 'p collab_info \<Rightarrow> byte list \<Rightarrow> ('w, 'p, unit) cprog" where
  "source_life env versionText info resultText = do {
     run_collab_event env;
     recv_collab_command env SOURCE_GET_VERSION_CMD versionText;
     run_collab_event env;
     mission_prog env info;
     run_collab_event env;
     recv_collab_command env NOTIFY_RESULT_CMD resultText;
     run_collab_event env;
     PostEndTask env;
     run_collab_event env
   }"

text \<open>Everything succeeds: the peer is reached through session \<open>sid\<close> and the client answers.\<close>

definition all_well :: "('w, 'p) collab_env \<Rightarrow> string \<Rightarrow> int \<Rightarrow> nat \<Rightarrow> bool" where
  "all_well env peer sid cb \<longleftrightarrow> collab_runner_accepts env \<and> (\<forall>s. collabConnect env peer s = (ERR_OK, sid)) \<and>
     (\<forall>cmd. fst (collabMarshal env cmd) = ERR_OK \<and> length (snd (collabMarshal env cmd)) + 1 < DSCHED_MAX_BUFFER_SIZE) \<and>
     (\<forall>b. collabSend env sid b = ERR_OK) \<and> tokenWrites env \<and> valueWrites env \<and> clientRequest env cb = ERR_OK \<and>
     (\<forall>b. fst (collabBundleInfo env b) = ERR_OK) \<and> (\<forall>u. collabAppId env u \<noteq> None) \<and> (\<forall>u. collabBundleNames env u \<noteq> None) \<and>
     (\<forall>d ci. fst (collabAccountInfo env d ci) = ERR_OK) \<and> appManager env"

definition sent_text :: "byte list \<Rightarrow> data_buffer" where
  "sent_text jsonStr = buf_write (DSchedDataBuffer (length jsonStr + 1)) 0 jsonStr"

lemma SendCommand_well:
  assumes "all_well env peer sid cb" "collabSession (self s) = sid"
  shows "exec (SendCommand_collab env cmd) s = s\<lparr>mgr := log_call (CollabSendData sid (sent_text (snd (collabMarshal env cmd)))) (mgr s)\<rparr>"
    "outcome (SendCommand_collab env cmd) s = ERR_OK"
proof -
  let ?t = "snd (collabMarshal env cmd)"
  have len: "fst (collabMarshal env cmd) = ERR_OK" "length ?t + 1 < DSCHED_MAX_BUFFER_SIZE" "collabSend env sid b = ERR_OK" for b
    using assms(1) by (simp_all add: all_well_def)
  have "memcpy_s (Data (DSchedDataBuffer (length ?t + 1)) = None) (Capacity (DSchedDataBuffer (length ?t + 1))) False (length ?t) = ERR_OK"
    using len(2) by (simp add: memcpy_s_ok_iff DSchedDataBuffer_def Data_def Capacity_def RSIZE_MAX_def DSCHED_MAX_BUFFER_SIZE_def)
  then show "exec (SendCommand_collab env cmd) s = s\<lparr>mgr := log_call (CollabSendData sid (sent_text ?t)) (mgr s)\<rparr>"
    "outcome (SendCommand_collab env cmd) s = ERR_OK"
    using len(1,3) assms(2) by (simp_all add: SendCommand_collab_def split_beta sent_text_def)
qed

fun is_connection :: "'w collab_call \<Rightarrow> bool" where
  "is_connection (CollabConnectDevice d) = True"
| "is_connection (CollabDisconnectDevice d) = True"
| "is_connection _ = False"

definition connections :: "('w, 'p) collab_mgr \<Rightarrow> 'w collab_call list" where
  "connections m = filter is_connection (mgrCalls m)"

lemma connections_log [simp]: "connections (log_call c m) = connections m @ (if is_connection c then [c] else [])"
  by (simp add: connections_def log_call_def)

lemma log_call_simps [simp]:
  "collabs (log_call c m) = collabs m" "mgrHandler (log_call c m) = mgrHandler m" "mgrTimers (log_call c m) = mgrTimers m"
  by (simp_all add: log_call_def)

text \<open>
  Where a source stands between two events: its state, its session, nothing in its queue, the connection calls so
  far and the map of the manager. The peer, the callback of the client and the token are fixed.
\<close>

definition stands :: "collab_state \<Rightarrow> string \<Rightarrow> nat \<Rightarrow> string \<Rightarrow> int \<Rightarrow> 'p collab \<Rightarrow> bool" where
  "stands st peer cb token sid c \<longleftrightarrow> stateMachine c = Some (Some st) \<and> collabHandler c \<and> collabQueue c = [] \<and> collabSession c = sid \<and>
     collabDirection (collabInfo c) = COLLAB_SOURCE \<and> srcClientCB (collabInfo c) = Some cb \<and> collabToken (collabInfo c) = token \<and>
     msgDeviceId (sinkInfo (collabInfo c)) = peer"

definition stage ::
    "collab_state \<Rightarrow> string \<Rightarrow> nat \<Rightarrow> string \<Rightarrow> int \<Rightarrow> 'w collab_call list \<Rightarrow> (string, 'p collab) smap \<Rightarrow> ('w, 'p) crun \<Rightarrow> bool" where
  "stage st peer cb token sid cs K s \<longleftrightarrow> stands st peer cb token sid (self s) \<and> connections (mgr s) = cs \<and> collabs (mgr s) = K"

definition asks :: "string \<Rightarrow> nat \<Rightarrow> string \<Rightarrow> 'p collab \<Rightarrow> bool" where
  "asks peer cb token c \<longleftrightarrow> collabQueue c = [SOURCE_GET_PEER_VERSION_EVENT] \<and>
     stands SOURCE_GET_PEER_VERSION_STATE peer cb token (collabSession c) (c\<lparr>collabQueue := []\<rparr>)"

lemmas event_defs = exec_run_collab_event ProcessEvent_collab_def collab_machine_execute_def

lemma connect_well:
  assumes "all_well env peer sid cb" "msgDeviceId (sinkInfo (collabInfo (self s))) = peer"
  shows "exec (connect_peer env) s = s\<lparr>self := (self s)\<lparr>collabSession := sid\<rparr>, mgr := log_call (CollabConnectDevice peer) (mgr s)\<rparr>"
    "outcome (connect_peer env) s = ERR_OK"
  using assms by (simp_all add: connect_peer_def all_well_def)

lemma asks_version:
  assumes "all_well env peer sid cb" "asks peer cb token (self s)"
  shows "stage SOURCE_GET_PEER_VERSION_STATE peer cb token sid (connections (mgr s) @ [CollabConnectDevice peer]) (collabs (mgr s))
     (exec (run_collab_event env) s)"
  using assms(2) by (simp add: event_defs ExeSrcGetPeerVersion_def connect_well [OF assms(1)] SendCommand_well [OF assms(1)]
      asks_def stands_def stage_def)

lemma posted_well:
  "collab_runner_accepts env \<Longrightarrow> collabHandler (self s) \<Longrightarrow>
     exec (cpost env e) s = s\<lparr>self := (self s)\<lparr>collabQueue := collabQueue (self s) @ [e]\<rparr>\<rparr>"
  by (simp add: exec_cpost)

lemma version_answer:
  assumes "all_well env peer sid cb" "stage SOURCE_GET_PEER_VERSION_STATE peer cb token sid cs K s"
    and "fst (unmarshalVersion (collabParser env) versionText) = ERR_OK"
  shows "stage SOURCE_GET_PEER_VERSION_STATE peer cb token sid cs K
     (exec (do { recv_collab_command env SOURCE_GET_VERSION_CMD versionText; run_collab_event env }) s)"
  using assms by (simp add: event_defs recv_collab_command_def split_beta collab_commands PostSrcGetVersionTask_def posted_well
      ExeSrcGetVersion_def SrcPeerVersionNotify_def stage_def stands_def all_well_def)

lemma pack_well:
  assumes "all_well env peer sid cb"
  obtains cmd ci ai where "outcome (PackStartCmd_collab env) s = Inr cmd"
    "exec (PackStartCmd_collab env) s =
       s\<lparr>self := (self s)\<lparr>collabInfo := (collabInfo (self s))\<lparr>collabCallerInfo := ci, srcAccountInfo := ai\<rparr>\<rparr>\<rparr>"
proof -
  let ?u = "msgUid (srcInfo (collabInfo (self s)))"
  obtain appId names where "collabAppId env ?u = Some appId" "collabBundleNames env ?u = Some names"
    using assms by (fastforce simp: all_well_def)
  then show thesis
    using assms that by (simp add: PackStartCmd_collab_def PackPartCmd_def all_well_def split_beta Let_def)
qed

lemma mission_started:
  assumes "all_well env peer sid cb" "stage st peer cb token sid cs K s"
    and "collabDirection info = COLLAB_SOURCE" "collabToken info = token" "msgDeviceId (sinkInfo info) = peer"
  shows "stage SOURCE_WAIT_RESULT_STATE peer cb token sid (cs @ [CollabConnectDevice peer]) K
     (exec (do { mission_prog env info; run_collab_event env }) s)"
proof -
  let ?c = "(self s)\<lparr>collabInfo := info\<lparr>srcClientCB := srcClientCB (collabInfo (self s))\<rparr>, stateMachine := Some (Some SOURCE_START_STATE_C)\<rparr>"
  let ?t = "s\<lparr>self := ?c\<lparr>collabQueue := [], collabSession := sid\<rparr>, mgr := log_call (CollabConnectDevice peer) (mgr s)\<rparr>"
  have accepts: "collab_runner_accepts env" and am: "appManager env"
    using assms(1) by (simp_all add: all_well_def)
  have start: "exec (mission_prog env info) s = s\<lparr>self := ?c\<lparr>collabQueue := [SOURCE_START_EVENT]\<rparr>\<rparr>"
    using assms(2) accepts by (simp add: mission_prog_def SetSrcCollabInfo_def UpdateState_collab_def UpdateState_obj_def PostSrcStartTask_def
        posted_well stage_def stands_def)
  obtain cmd ci ai where pack: "outcome (PackStartCmd_collab env) ?t = Inr cmd"
    "exec (PackStartCmd_collab env) ?t = ?t\<lparr>self := (self ?t)\<lparr>collabInfo := (collabInfo (self ?t))\<lparr>collabCallerInfo := ci, srcAccountInfo := ai\<rparr>\<rparr>\<rparr>"
    by (rule pack_well [OF assms(1)])
  show ?thesis
    using assms(2-5) pack am
    by (simp add: start event_defs ExeSrcStart_def connect_well [OF assms(1)] SendCommand_well [OF assms(1)] UpdateState_collab_def UpdateState_obj_def
        RegisterAbilityLifecycleObserver_def stage_def stands_def)
qed

lemma result_answer:
  assumes "all_well env peer sid cb" "stage SOURCE_WAIT_RESULT_STATE peer cb token sid cs K s"
    and "unmarshalNotifyResult (collabParser env) resultText = (ERR_OK, cmd)" "ncResult cmd = ERR_OK" "ncAbilityRejectReason cmd = ''''"
  shows "stage SOURCE_WAIT_END_STATE_C peer cb token sid cs K
     (exec (do { recv_collab_command env NOTIFY_RESULT_CMD resultText; run_collab_event env }) s)"
  using assms by (simp add: event_defs recv_collab_command_def collab_commands PostSrcResultTask_def posted_well
      ExeSrcCollabResult_def ExeSrcClientNotify_def UpdateState_collab_def UpdateState_obj_def stage_def stands_def all_well_def)

lemma connections_simps [simp]:
  "connections (RemoveTimeout_cmgr k m) = connections m" "connections (m\<lparr>collabs := x\<rparr>) = connections m"
  by (simp_all add: connections_def RemoveTimeout_cmgr_def RemoveTask_def)

lemma CleanUp_connections:
  assumes "collabDirection (collabInfo (self s)) = COLLAB_SOURCE"
  shows "connections (mgr (exec (CleanUpSession_collab env) s)) =
     connections (mgr s) @ [CollabDisconnectDevice (msgDeviceId (sinkInfo (collabInfo (self s))))]"
proof -
  have clean: "connections (fst (CleanUpSession_cmgr k m)) = connections m" for k m
    by (simp add: CleanUpSession_cmgr_def Let_def split: option.split)
  have client: "connections (mgr (exec (ExeClientDisconnectNotify env) u)) = connections (mgr u)" for u
    by (simp add: ExeClientDisconnectNotify_def client_message_def split: option.split)
  show ?thesis
    using assms by (simp add: CleanUpSession_collab_def split_beta clean client)
qed

lemma ended:
  assumes "all_well env peer sid cb" "stage SOURCE_WAIT_END_STATE_C peer cb token sid cs K s" "token \<noteq> ''''"
  shows "connections (mgr (exec (do { PostEndTask env; run_collab_event env }) s)) = cs @ [CollabDisconnectDevice peer]"
    "removed token (mgr (exec (do { PostEndTask env; run_collab_event env }) s))"
proof -
  let ?u = "s\<lparr>self := (self s)\<lparr>collabQueue := []\<rparr>, mgr := log_call (CollabSendData sid (sent_text (snd (collabMarshal env (Disconnect (PackDisconnectCmd (collabInfo (self s)))))))) (mgr s)\<rparr>"
  have "exec (do { PostEndTask env; run_collab_event env }) s = exec (CleanUpSession_collab env) ?u"
    using assms(1,2) by (simp add: PostEndTask_def posted_well event_defs ExeDisconnect_def SendCommand_well [OF assms(1)]
        stage_def stands_def all_well_def)
  then show "connections (mgr (exec (do { PostEndTask env; run_collab_event env }) s)) = cs @ [CollabDisconnectDevice peer]"
    "removed token (mgr (exec (do { PostEndTask env; run_collab_event env }) s))"
    using assms(2,3) CleanUp_removes [of ?u env] CleanUp_connections [of ?u env] by (simp_all add: stage_def stands_def)
qed

text \<open>The connection calls of a whole life.\<close>

lemma source_life_connections:
  assumes "all_well env peer sid cb" "asks peer cb token (self s)" "token \<noteq> ''''"
    and "fst (unmarshalVersion (collabParser env) versionText) = ERR_OK"
    and "collabDirection info = COLLAB_SOURCE" "collabToken info = token" "msgDeviceId (sinkInfo info) = peer"
    and "unmarshalNotifyResult (collabParser env) resultText = (ERR_OK, cmd)" "ncResult cmd = ERR_OK" "ncAbilityRejectReason cmd = ''''"
  defines "t \<equiv> exec (source_life env versionText info resultText) s"
  shows "connections (mgr t) = connections (mgr s) @ [CollabConnectDevice peer, CollabConnectDevice peer, CollabDisconnectDevice peer]"
    "removed token (mgr t)"
  using ended [OF assms(1) result_answer [OF assms(1) mission_started [OF assms(1) version_answer [OF assms(1) asks_version [OF assms(1,2)]
    assms(4)] assms(5-7)] assms(8-10)] assms(3)]
  by (simp_all add: t_def source_life_def)

subsection \<open>What it leaves in the transport adapter\<close>

fun on_adapter :: "build \<Rightarrow> adapter_env \<Rightarrow> 'w collab_call \<Rightarrow> adapter \<Rightarrow> adapter" where
  "on_adapter bd aenv (CollabConnectDevice d) a = fst (ConnectDevice bd aenv d 0 SERVICE_TYPE_COLLAB a)"
| "on_adapter bd aenv (CollabDisconnectDevice d) a = fst (DisconnectDevice bd d a)"
| "on_adapter bd aenv _ a = a"

text \<open>
  C13: A collaboration that runs from the question for the version to its end without any error calls
  \<^verbatim>\<open>ConnectDevice\<close> twice and \<^verbatim>\<open>DisconnectDevice\<close> once. When it is gone from the manager, the session that it
  opened in the transport adapter is still there with one reference, which nobody will give back.
\<close>

theorem collab_leaks_connection:
  assumes "all_well env peer sid cb" "asks peer cb token (self s)" "token \<noteq> ''''"
    and "fst (unmarshalVersion (collabParser env) versionText) = ERR_OK"
    and "collabDirection info = COLLAB_SOURCE" "collabToken info = token" "msgDeviceId (sinkInfo info) = peer"
    and "unmarshalNotifyResult (collabParser env) resultText = (ERR_OK, cmd)" "ncResult cmd = ERR_OK" "ncAbilityRejectReason cmd = ''''"
    and "connections (mgr s) = []" "adapter_inv a" "GetSessionIdByDeviceId a peer = None"
    and "ConnectDevice bd aenv peer 0 SERVICE_TYPE_COLLAB a = (a1, cs, ERR_OK, sid)"
  defines "t \<equiv> exec (source_life env versionText info resultText) s"
  shows "removed token (mgr t) \<and> GetSessionIdByDeviceId (fold (on_adapter bd aenv) (connections (mgr t)) a) peer = Some sid \<and>
     refs (fold (on_adapter bd aenv) (connections (mgr t)) a) sid = 1"
proof -
  have new: "GetSessionIdByDeviceId a1 peer = Some sid" "refs a1 sid = 1" "sid \<noteq> 0"
    using connect_new_or_clean [OF assms(12-14)] by auto
  have "adapter_inv a1"
    using inv_ConnectDevice [OF assms(12), of bd aenv peer 0 SERVICE_TYPE_COLLAB] assms(14) by simp
  from connect_disconnect_undone [OF this new(1,3)] obtain a2 cs'
    where undone: "ConnectDevice bd aenv peer 0 SERVICE_TYPE_COLLAB a1 = (a2, cs', ERR_OK, sid)" "DisconnectDevice bd peer a2 = (a1, [])"
    by blast
  have "fold (on_adapter bd aenv) (connections (mgr t)) a = a1"
    using source_life_connections(1) [OF assms(1-10)] assms(11,14) undone by (simp add: t_def)
  then show ?thesis
    using source_life_connections(2) [OF assms(1-10)] new by (simp add: t_def)
qed

theorem collab_leaks_connection_witness:
  "\<exists>a. let t = exec (source_life sample_collab_env [] sample_collab_info []) \<lparr>self = sample_collab, mgr = sample_collab_mgr\<rparr>
     in removed ''T'' (mgr t) \<and> refs (fold (on_adapter sample_build sample_adapter_env) (connections (mgr t)) a) 12 = 1"
proof -
  let ?a = sample_adapter
  have "GetSessionIdByDeviceId ?a ''B'' = None"
    by (simp add: GetSessionIdByDeviceId_def sample_adapter_def DSchedSoftbusSession_def)
  moreover have "\<exists>a1 cs. ConnectDevice sample_build sample_adapter_env ''B'' 0 SERVICE_TYPE_COLLAB ?a = (a1, cs, ERR_OK, 12)"
    by (simp add: ConnectDevice_def sample_adapter_def DSchedSoftbusSession_def IsNeedAllConnect_def DecisionByAllConnect_def
        sample_build_def sample_adapter_env_def AddNewPeerSession_def CreateClientSocket_def CreateSessionRecord_def Let_def)
  moreover have "all_well sample_collab_env ''B'' 12 4"
    by (simp add: all_well_def collab_runner_accepts_def sample_collab_env_def DSCHED_MAX_BUFFER_SIZE_def)
  moreover have "asks ''B'' 4 ''T'' sample_collab"
    by (simp add: asks_def stands_def sample_collab_def new_collab_def sample_collab_info_def collab_info_default_def)
  ultimately show ?thesis
    using collab_leaks_connection [OF _ _ _ _ _ _ _ _ _ _ _ sample_adapter_inv, where s = "\<lparr>self = sample_collab, mgr = sample_collab_mgr\<rparr>"
        and env = sample_collab_env and versionText = "[]" and resultText = "[]" and info = sample_collab_info and peer = "''B''"
        and sid = 12 and cb = 4 and token = "''T''" and cmd = sample_result_cmd and bd = sample_build and aenv = sample_adapter_env]
    by (force simp: Let_def sample_collab_env_def sample_collab_parser_def sample_result_cmd_def sample_collab_info_def
        collab_info_default_def base_cmd.defs notify_result_cmd.defs connections_def sample_collab_mgr_def)
qed

subsection \<open>The manager\<close>

text \<open>
  C9: In every state that the manager reaches, every collaboration is found under its own token and only there, is
  in a state of the side it is on, has its event handler and, as long as it waits for the version of the
  peer, a callback; and no null callback has been used.
\<close>

theorem collab_reachable_safe:
  assumes "collab_reachable m"
  shows "distinct (map (\<lambda>(k, c). collabToken (collabInfo c)) (collabs m)) \<and> \<not> nullUse m \<and>
     (\<forall>(k, c) \<in> set (collabs m). collabToken (collabInfo c) = k \<and> collabHandler c \<and>
       (\<exists>st. stateMachine c = Some (Some st) \<and> collab_side st = collabDirection (collabInfo c) \<and>
         (st = SOURCE_GET_PEER_VERSION_STATE \<longrightarrow> srcClientCB (collabInfo c) \<noteq> None)))"
proof -
  note inv = collab_reachable_inv [OF assms]
  have ok: "collab_ok k c" if "(k, c) \<in> set (collabs m)" for k c
    using collab_invD(1) [OF inv] smap_mem_find [OF collab_invD(2) [OF inv]] that by blast
  then have tokens: "map (\<lambda>(k, c). collabToken (collabInfo c)) (collabs m) = map fst (collabs m)"
    by (auto simp: collab_ok_def)
  show ?thesis
    unfolding tokens using ok smap_ok_distinct [OF collab_invD(2) [OF inv]] collab_invD(3) [OF inv] by (auto simp: collab_ok_def)
qed

theorem collab_reachable_safe_witness:
  "collabToken (collabInfo sample_collab) = ''T'' \<and> \<not> nullUse sample_collab_mgr"
  using collab_reachable_safe [OF sample_collab_reachable] by (simp add: sample_collab_mgr_def)

subsection \<open>Tokens\<close>

text \<open>Every turn makes the text longer, so that it meets every token in use at most once.\<close>

lemma token_loop_ends:
  assumes "dev \<noteq> ''''" "\<forall>n. length (rnd n) = RANDOM_STRING_LENGTH" "RANDOM_STRING_LENGTH \<le> length v"
    and "card {k \<in> fst ` set used. length v < length k} < fuel"
  shows "\<exists>t. token_loop fuel rnd n dev used v = Some t \<and> smap_find used t = None \<and> prefix dev t \<and> length v < length t"
  using assms
proof (induction fuel arbitrary: n v)
  case (Suc fuel)
  let ?v = "dev @ rnd n @ drop RANDOM_STRING_LENGTH v"
  have longer: "length v < length ?v"
    using Suc.prems(1-3) by simp
  show ?case
  proof (cases "smap_find used ?v")
    case None
    with longer show ?thesis
      by (simp add: Let_def)
  next
    case (Some c)
    then have "?v \<in> fst ` set used"
      using smap_find_mem by (metis fst_conv image_eqI)
    with longer have "?v \<in> {k \<in> fst ` set used. length v < length k} - {k \<in> fst ` set used. length ?v < length k}"
      by blast
    moreover have "{k \<in> fst ` set used. length ?v < length k} \<subseteq> {k \<in> fst ` set used. length v < length k}"
      using longer by auto
    ultimately have "{k \<in> fst ` set used. length ?v < length k} \<subset> {k \<in> fst ` set used. length v < length k}"
      by blast
    then have "card {k \<in> fst ` set used. length ?v < length k} < card {k \<in> fst ` set used. length v < length k}"
      by (intro psubset_card_mono) simp_all
    then have "card {k \<in> fst ` set used. length ?v < length k} < fuel"
      using Suc.prems(4) by (simp only: less_Suc_eq_le order_less_le_trans)
    moreover have "RANDOM_STRING_LENGTH \<le> length ?v"
      using longer Suc.prems(3) by simp
    ultimately obtain t where "token_loop fuel rnd (Suc n) dev used ?v = Some t" "smap_find used t = None" "prefix dev t" "length ?v < length t"
      using Suc.IH [of ?v "Suc n"] Suc.prems(1,2) by blast
    with Some longer show ?thesis
      by (simp add: Let_def)
  qed
qed simp

text \<open>
  C39: The search for a new token ends, whatever random characters are drawn: it takes at most one turn more than there
  are collaborations. The token is not in use and begins with the id of the source device.
\<close>

theorem token_search_ends:
  assumes "dev \<noteq> ''''" "\<forall>n. length (rnd n) = RANDOM_STRING_LENGTH"
  shows "\<exists>t. GenerateCollabToken (Suc (length (collabs m))) rnd dev m = Some t \<and> GetDSchedCollabByTokenId t m = None \<and> prefix dev t"
proof -
  let ?v = "replicate RANDOM_STRING_LENGTH (CHR 0x00)"
  have "card {k \<in> fst ` set (collabs m). length ?v < length k} \<le> card (fst ` set (collabs m))"
    by (rule card_mono) auto
  also have "\<dots> \<le> length (collabs m)"
    using card_image_le [of "set (collabs m)" fst] card_length [of "collabs m"] by simp
  finally obtain t where "token_loop (Suc (length (collabs m))) rnd 0 dev (collabs m) ?v = Some t" "smap_find (collabs m) t = None" "prefix dev t"
    using token_loop_ends [OF assms, of ?v "collabs m" "Suc (length (collabs m))" 0] by auto
  then show ?thesis
    unfolding GenerateCollabToken_def GetDSchedCollabByTokenId_def by simp
qed

theorem token_search_ends_witness:
  "\<exists>t. GenerateCollabToken 2 (\<lambda>n. replicate 20 (CHR ''x'')) ''A'' sample_collab_mgr = Some t \<and>
     GetDSchedCollabByTokenId t sample_collab_mgr = None \<and> prefix ''A'' t"
  using token_search_ends [of "''A''" "\<lambda>n. replicate 20 (CHR ''x'')" sample_collab_mgr]
  by (simp add: RANDOM_STRING_LENGTH_def sample_collab_mgr_def numeral_2_eq_2)

subsection \<open>Dead abilities\<close>

text \<open>
  When an ability dies, at most one collaboration is told to end: the first one, in the order of the tokens, whose
  source has the bundle of the dead ability and whose source or sink has its process id. Every other collaboration
  of the dead ability goes on, and so does one whose sink has died when its source has another bundle.
\<close>

theorem died_ability_ends_first:
  assumes "collab_reachable m" "collab_runner_accepts env"
  shows "HandleCloseSessions env bundle pid m = (case find (\<lambda>(k, c). msgBundleName (srcInfo (collabInfo c)) = bundle \<and>
       (msgPid (srcInfo (collabInfo c)) = pid \<or> msgPid (sinkInfo (collabInfo c)) = pid)) (collabs m) of
     None \<Rightarrow> m
   | Some (k, c) \<Rightarrow> m\<lparr>collabs := smap_put k (c\<lparr>collabQueue := collabQueue c @ [END_EVENT_C]\<rparr>) (collabs m)\<rparr>)"
proof -
  note inv = collab_reachable_inv [OF assms(1)]
  let ?P = "\<lambda>(k, c). msgBundleName (srcInfo (collabInfo c)) = bundle \<and>
       (msgPid (srcInfo (collabInfo c)) = pid \<or> msgPid (sinkInfo (collabInfo c)) = pid)"
  have P: "(\<lambda>e. closes bundle pid (collabInfo (snd e))) = ?P"
    by (auto simp: closes_def fun_eq_iff)
  show ?thesis
  proof (cases "find ?P (collabs m)")
    case (Some e)
    obtain k c where e: "e = (k, c)"
      by (cases e)
    then have "(k, c) \<in> set (collabs m)"
      using find_mem [OF Some] by simp
    then have found: "smap_find (collabs m) k = Some c"
      using smap_mem_find [OF collab_invD(2) [OF inv]] by blast
    then have "on_collab env (PostEndTask env) k m = m\<lparr>collabs := smap_put k (c\<lparr>collabQueue := collabQueue c @ [END_EVENT_C]\<rparr>) (collabs m)\<rparr>"
      using assms(2) collab_invD(1) [OF inv found] by (simp add: on_collab_def PostEndTask_def exec_cpost Let_def collab_ok_def)
    then show ?thesis
      using Some e by (simp add: HandleCloseSessions_def P)
  qed (simp add: HandleCloseSessions_def P)
qed

theorem died_ability_ends_first_witness:
  "HandleCloseSessions sample_collab_env ''app'' 30 sample_collab_mgr =
     sample_collab_mgr\<lparr>collabs := [(''T'', sample_collab\<lparr>collabQueue := [SOURCE_GET_PEER_VERSION_EVENT, END_EVENT_C]\<rparr>)]\<rparr> \<and>
   HandleCloseSessions sample_collab_env ''other'' 30 sample_collab_mgr = sample_collab_mgr"
proof -
  have "collab_runner_accepts sample_collab_env"
    by (simp add: collab_runner_accepts_def sample_collab_env_def)
  note ends = died_ability_ends_first [OF sample_collab_reachable this]
  have "msgBundleName (srcInfo (collabInfo sample_collab)) = ''app''" "msgPid (srcInfo (collabInfo sample_collab)) = 30"
      "collabs sample_collab_mgr = [(''T'', sample_collab)]"
    by (simp_all add: sample_collab_def new_collab_def sample_collab_info_def sample_collab_mgr_def)
  then show ?thesis
    using ends [of "''app''" 30] ends [of "''other''" 30] by (simp add: sample_collab_queue)
qed

end
