(* ===== verification/Collab_Json.thy ===== *)
theory Collab_Json
  imports Collab_Sample
begin

text \<open>
  The JSON texts of the commands of a collaboration (\<^verbatim>\<open>services/dtbschedmgr/src/collab/dsched_collab_event.cpp\<close>).
  cJSON is used as in the commands of a continuation. The two sets of want parameters of a start command are
  written one after the other into the same parcel and read with the same parcel, so that the place where
  reading stopped matters: a parcel is its bytes together with the position of the next byte to read.
\<close>

record ('w, 'p) collab_lib =
  jsonLib :: "'w json_lib"
  appendParams :: "'p \<Rightarrow> byte list \<Rightarrow> byte list option"
  readParams :: "byte list \<Rightarrow> nat \<Rightarrow> ('p \<times> nat) option"
  growCapacity :: "nat \<Rightarrow> nat \<Rightarrow> bool"

type_synonym parcel = "byte list \<times> nat"

text \<open>\<^verbatim>\<open>Base64StrToParcel\<close> on a parcel that may have been used before: its bytes are replaced, the read position stays.\<close>

definition Base64StrToUsedParcel :: "('w, 'p) collab_lib \<Rightarrow> string \<Rightarrow> parcel \<Rightarrow> parcel option" where
  "Base64StrToUsedParcel lib rawStr p =
     (let str = Base64Decode rawStr in
      if \<not> growCapacity lib (length (fst p)) (length str) then None
      else if memcpy_s False (parcelMaxCapacity (jsonLib lib)) False (length str) \<noteq> ERR_OK \<or> \<not> setDataSize (jsonLib lib) (length str) then None
      else Some (str, snd p))"

definition UnmarshallingParams :: "('w, 'p) collab_lib \<Rightarrow> parcel \<Rightarrow> ('p \<times> parcel) option" where
  "UnmarshallingParams lib p = map_option (\<lambda>(ps, pos). (ps, fst p, pos)) (readParams lib (fst p) (snd p))"

definition bool_item :: "cjson \<Rightarrow> string \<Rightarrow> bool option" where
  "bool_item j key = (case cJSON_GetObjectItemCaseSensitive j key of Some (CBool b) \<Rightarrow> Some b | _ \<Rightarrow> None)"

lemma bool_item_simps [simp]:
  "bool_item (CObject items) k = (case map_of items k of Some (CBool b) \<Rightarrow> Some b | _ \<Rightarrow> None)"
  by (simp add: bool_item_def)

subsection \<open>The base of every command\<close>

definition base_json :: "'a base_cmd_scheme \<Rightarrow> cjson" where
  "base_json c = CObject
     [(''Command'', CNumber (bcCommand c)), (''CollabVersion'', CNumber (bcCollabVersion c)), (''DmsVersion'', CNumber (bcDmsVersion c)),
      (''CollabSessionId'', CNumber (bcSrcCollabSessionId c)), (''CollabToken'', CString (c_str (bcCollabToken c))),
      (''SrcDeviceId'', CString (c_str (bcSrcDeviceId c))), (''SrcBundleName'', CString (c_str (bcSrcBundleName c))),
      (''SrcAbilityName'', CString (c_str (bcSrcAbilityName c))), (''SrcModuleName'', CString (c_str (bcSrcModuleName c))),
      (''SrcServiceId'', CString (c_str (bcSrcServerId c))), (''SinkDeviceId'', CString (c_str (bcSinkDeviceId c))),
      (''SinkBundleName'', CString (c_str (bcSinkBundleName c))), (''SinkAbilityName'', CString (c_str (bcSinkAbilityName c))),
      (''SinkModuleName'', CString (c_str (bcSinkModuleName c))), (''SinkServiceId'', CString (c_str (bcSinkServerId c))),
      (''NeedSendBigData'', CBool (bcNeedSendBigData c)), (''NeedSendStream_'', CBool (bcNeedSendStream c)),
      (''NeedRecvStream'', CBool (bcNeedRecvStream c))]"

definition BaseCmd_Marshal :: "('w, 'p) collab_lib \<Rightarrow> 'a base_cmd_scheme \<Rightarrow> string option" where
  "BaseCmd_Marshal lib c = jsonPrint (jsonLib lib) (base_json c)"

definition BaseCmd_Unmarshal :: "('w, 'p) collab_lib \<Rightarrow> string \<Rightarrow> base_cmd option" where
  "BaseCmd_Unmarshal lib jsonStr = do {
     root \<leftarrow> jsonParse (jsonLib lib) (c_str jsonStr);
     cm \<leftarrow> number_item root ''Command'';
     cv \<leftarrow> number_item root ''CollabVersion'';
     dv \<leftarrow> number_item root ''DmsVersion'';
     sid \<leftarrow> number_item root ''CollabSessionId'';
     ct \<leftarrow> string_item root ''CollabToken'';
     sd \<leftarrow> string_item root ''SrcDeviceId'';
     sb \<leftarrow> string_item root ''SrcBundleName'';
     sa \<leftarrow> string_item root ''SrcAbilityName'';
     sm \<leftarrow> string_item root ''SrcModuleName'';
     ss \<leftarrow> string_item root ''SrcServiceId'';
     kd \<leftarrow> string_item root ''SinkDeviceId'';
     kb \<leftarrow> string_item root ''SinkBundleName'';
     ka \<leftarrow> string_item root ''SinkAbilityName'';
     km \<leftarrow> string_item root ''SinkModuleName'';
     ks \<leftarrow> string_item root ''SinkServiceId'';
     nb \<leftarrow> bool_item root ''NeedSendBigData'';
     ns \<leftarrow> bool_item root ''NeedSendStream_'';
     nr \<leftarrow> bool_item root ''NeedRecvStream'';
     Some \<lparr>bcNeedSendBigData = nb, bcNeedSendStream = ns, bcNeedRecvStream = nr, bcCollabVersion = cv, bcDmsVersion = dv,
       bcCommand = cm, bcSrcCollabSessionId = sid, bcCollabToken = ct, bcSrcDeviceId = sd, bcSrcBundleName = sb,
       bcSrcAbilityName = sa, bcSrcModuleName = sm, bcSrcServerId = ss, bcSinkDeviceId = kd, bcSinkBundleName = kb,
       bcSinkAbilityName = ka, bcSinkModuleName = km, bcSinkServerId = ks\<rparr>
   }"

definition collab_base_item :: "('w, 'p) collab_lib \<Rightarrow> cjson \<Rightarrow> base_cmd option" where
  "collab_base_item lib root = do { baseCmdStr \<leftarrow> string_item root ''BaseCmd''; BaseCmd_Unmarshal lib baseCmdStr }"

subsection \<open>Versions, results and the end\<close>

definition GetSinkCollabVersionCmd_Marshal :: "('w, 'p) collab_lib \<Rightarrow> version_cmd \<Rightarrow> string option" where
  "GetSinkCollabVersionCmd_Marshal lib c = do {
     base \<leftarrow> BaseCmd_Marshal lib c;
     jsonPrint (jsonLib lib) (CObject
       [(''BaseCmd'', CString (c_str base)), (''SrcPid'', CNumber (vcSrcPid c)), (''SrcUid'', CNumber (vcSrcUid c)),
        (''SrcAccessToken'', CNumber (vcSrcAccessToken c)), (''SinkCollabVersion'', CNumber (vcSinkCollabVersion c))])
   }"

definition GetSinkCollabVersionCmd_Unmarshal :: "('w, 'p) collab_lib \<Rightarrow> string \<Rightarrow> version_cmd option" where
  "GetSinkCollabVersionCmd_Unmarshal lib jsonStr = do {
     root \<leftarrow> jsonParse (jsonLib lib) (c_str jsonStr);
     b \<leftarrow> collab_base_item lib root;
     pid \<leftarrow> number_item root ''SrcPid'';
     uid \<leftarrow> number_item root ''SrcUid'';
     tok \<leftarrow> number_item root ''SrcAccessToken'';
     v \<leftarrow> number_item root ''SinkCollabVersion'';
     Some (base_cmd.extend b (version_cmd.fields pid uid tok v))
   }"

definition NotifyResultCmd_Marshal :: "('w, 'p) collab_lib \<Rightarrow> notify_result_cmd \<Rightarrow> string option" where
  "NotifyResultCmd_Marshal lib c = do {
     base \<leftarrow> BaseCmd_Marshal lib c;
     jsonPrint (jsonLib lib) (CObject
       [(''BaseCmd'', CString (c_str base)), (''SinkCollabSessionId'', CNumber (ncSinkCollabSessionId c)),
        (''Result'', CNumber (ncResult c)), (''SinkSocketName'', CString (c_str (ncSinkSocketName c))),
        (''AbilityRejectReason'', CString (c_str (ncAbilityRejectReason c))), (''SinkPid'', CNumber (ncSinkPid c)),
        (''SinkUserId'', CNumber (ncSinkUserId c)), (''SinkAccessToken'', CNumber (ncSinkAccessToken c)),
        (''SinkAccountId'', CNumber (ncSinkAccountId c))])
   }"

text \<open>The numbers of the sink are read until one is missing, and that one is missing is not reported.\<close>

definition UnmarshalSinkInfo :: "cjson \<Rightarrow> notify_result_cmd \<Rightarrow> notify_result_cmd" where
  "UnmarshalSinkInfo root c = (case number_item root ''SinkPid'' of None \<Rightarrow> c | Some pid \<Rightarrow>
     let c = c\<lparr>ncSinkPid := pid\<rparr> in (case number_item root ''SinkUserId'' of None \<Rightarrow> c | Some uid \<Rightarrow>
     let c = c\<lparr>ncSinkUserId := uid\<rparr> in (case number_item root ''SinkAccessToken'' of None \<Rightarrow> c | Some tok \<Rightarrow>
     let c = c\<lparr>ncSinkAccessToken := tok\<rparr> in (case number_item root ''SinkAccountId'' of None \<Rightarrow> c | Some acc \<Rightarrow>
     c\<lparr>ncSinkAccountId := acc\<rparr>))))"

definition NotifyResultCmd_Unmarshal :: "('w, 'p) collab_lib \<Rightarrow> string \<Rightarrow> notify_result_cmd option" where
  "NotifyResultCmd_Unmarshal lib jsonStr = do {
     root \<leftarrow> jsonParse (jsonLib lib) (c_str jsonStr);
     b \<leftarrow> collab_base_item lib root;
     sid \<leftarrow> number_item root ''SinkCollabSessionId'';
     r \<leftarrow> number_item root ''Result'';
     socket \<leftarrow> string_item root ''SinkSocketName'';
     let reason = (case string_item root ''AbilityRejectReason'' of None \<Rightarrow> '''' | Some t \<Rightarrow> t);
     Some (UnmarshalSinkInfo root (base_cmd.extend b (notify_result_cmd.fields r sid (-1) (-1) (-1) (-1) socket reason)))
   }"

definition DisconnectCmd_Marshal :: "('w, 'p) collab_lib \<Rightarrow> base_cmd \<Rightarrow> string option" where
  "DisconnectCmd_Marshal lib c = do {
     base \<leftarrow> BaseCmd_Marshal lib c; jsonPrint (jsonLib lib) (CObject [(''BaseCmd'', CString (c_str base))]) }"

definition DisconnectCmd_Unmarshal :: "('w, 'p) collab_lib \<Rightarrow> string \<Rightarrow> base_cmd option" where
  "DisconnectCmd_Unmarshal lib jsonStr = do { root \<leftarrow> jsonParse (jsonLib lib) (c_str jsonStr); collab_base_item lib root }"

subsection \<open>The start\<close>

text \<open>Caller and account are written and read by the code that a continuation has, repeated word by word.\<close>

definition SinkStartCmd_MarshalCallerInfo :: "('w, 'p) collab_lib \<Rightarrow> caller_info \<Rightarrow> string option" where
  "SinkStartCmd_MarshalCallerInfo lib = MarshalCallerInfo (jsonLib lib)"

definition SinkStartCmd_MarshalAccountInfo :: "('w, 'p) collab_lib \<Rightarrow> account_info \<Rightarrow> string option" where
  "SinkStartCmd_MarshalAccountInfo lib = MarshalAccountInfo (jsonLib lib)"

definition SinkStartCmd_UnmarshalCallerInfoExtra :: "('w, 'p) collab_lib \<Rightarrow> string \<Rightarrow> caller_info \<Rightarrow> caller_info option" where
  "SinkStartCmd_UnmarshalCallerInfoExtra lib = UnmarshalCallerInfoExtra (jsonLib lib)"

definition SinkStartCmd_UnmarshalCallerInfo :: "('w, 'p) collab_lib \<Rightarrow> string \<Rightarrow> caller_info \<Rightarrow> caller_info option" where
  "SinkStartCmd_UnmarshalCallerInfo lib = UnmarshalCallerInfo (jsonLib lib)"

definition SinkStartCmd_UnmarshalAccountInfo :: "('w, 'p) collab_lib \<Rightarrow> string \<Rightarrow> account_info \<Rightarrow> account_info option" where
  "SinkStartCmd_UnmarshalAccountInfo lib = UnmarshalAccountInfo (jsonLib lib)"

lemmas shared_infos = SinkStartCmd_MarshalCallerInfo_def SinkStartCmd_MarshalAccountInfo_def SinkStartCmd_UnmarshalCallerInfo_def
  SinkStartCmd_UnmarshalAccountInfo_def

definition SinkStartCmd_Marshal :: "('w, 'p) collab_lib \<Rightarrow> 'p sink_start_cmd \<Rightarrow> string option" where
  "SinkStartCmd_Marshal lib c = do {
     base \<leftarrow> BaseCmd_Marshal lib c;
     parcel \<leftarrow> appendParams lib (scStartParams c) [];
     let startParamsStr = ParcelToBase64Str parcel;
     parcel \<leftarrow> appendParams lib (scMessageParams c) parcel;
     let wantParamsStr = ParcelToBase64Str parcel;
     caller \<leftarrow> SinkStartCmd_MarshalCallerInfo lib (scCallerInfo c);
     account \<leftarrow> SinkStartCmd_MarshalAccountInfo lib (scAccountInfo c);
     jsonPrint (jsonLib lib) (CObject
       [(''BaseCmd'', CString (c_str base)), (''AppVersion'', CNumber (scAppVersion c)), (''SrcPid'', CNumber (scSrcPid c)),
        (''SrcUid'', CNumber (scSrcUid c)), (''SrcAccessToken'', CNumber (scSrcAccessToken c)),
        (''StartParams'', CString (c_str startParamsStr)), (''WantParams'', CString (c_str wantParamsStr)),
        (''CallerInfo'', CString (c_str caller)), (''AccountInfo'', CString (c_str account))])
   }"

definition UnmarshalOptParams :: "('w, 'p) collab_lib \<Rightarrow> cjson \<Rightarrow> ('p \<times> 'p) option" where
  "UnmarshalOptParams lib root = do {
     startParamsStr \<leftarrow> string_item root ''StartParams'';
     parcel \<leftarrow> Base64StrToUsedParcel lib startParamsStr ([], 0);
     (startPs, parcel) \<leftarrow> UnmarshallingParams lib parcel;
     wantParamsStr \<leftarrow> string_item root ''WantParams'';
     parcel \<leftarrow> Base64StrToUsedParcel lib wantParamsStr parcel;
     (messagePs, parcel) \<leftarrow> UnmarshallingParams lib parcel;
     Some (startPs, messagePs)
   }"

definition UnmarshalPartParcel :: "('w, 'p) collab_lib \<Rightarrow> cjson \<Rightarrow> (('p \<times> 'p) \<times> caller_info \<times> account_info) option" where
  "UnmarshalPartParcel lib root = do {
     ps \<leftarrow> UnmarshalOptParams lib root;
     callerInfoStr \<leftarrow> string_item root ''CallerInfo'';
     ci \<leftarrow> SinkStartCmd_UnmarshalCallerInfo lib callerInfoStr caller_info_default;
     accountInfoStr \<leftarrow> string_item root ''AccountInfo'';
     ai \<leftarrow> SinkStartCmd_UnmarshalAccountInfo lib accountInfoStr account_info_default;
     Some (ps, ci, ai)
   }"

definition SinkStartCmd_Unmarshal :: "('w, 'p) collab_lib \<Rightarrow> string \<Rightarrow> 'p sink_start_cmd option" where
  "SinkStartCmd_Unmarshal lib jsonStr = do {
     root \<leftarrow> jsonParse (jsonLib lib) (c_str jsonStr);
     b \<leftarrow> collab_base_item lib root;
     v \<leftarrow> number_item root ''AppVersion'';
     pid \<leftarrow> number_item root ''SrcPid'';
     uid \<leftarrow> number_item root ''SrcUid'';
     tok \<leftarrow> number_item root ''SrcAccessToken'';
     ((startPs, messagePs), ci, ai) \<leftarrow> UnmarshalPartParcel lib root;
     Some (base_cmd.extend b (sink_start_cmd.fields pid uid tok v ci ai startPs messagePs))
   }"

subsection \<open>What the libraries promise\<close>

text \<open>
  Want parameters written behind other data are read from where they begin, and reading stops behind them;
  and the parcels are not too big.
\<close>

definition params_faithful :: "('w, 'p) collab_lib \<Rightarrow> bool" where
  "params_faithful lib \<longleftrightarrow> (\<forall>p pre bs. appendParams lib p pre = Some bs \<longrightarrow> readParams lib bs (length pre) = Some (p, length bs))"

definition params_fit :: "('w, 'p) collab_lib \<Rightarrow> 'p \<Rightarrow> 'p \<Rightarrow> bool" where
  "params_fit lib startPs messagePs \<longleftrightarrow> (\<exists>bs1 bs2. appendParams lib startPs [] = Some bs1 \<and> appendParams lib messagePs bs1 = Some bs2 \<and>
     growCapacity lib 0 (length bs1) \<and> growCapacity lib (length bs1) (length bs2) \<and>
     parcel_ok (jsonLib lib) bs1 \<and> parcel_ok (jsonLib lib) bs2)"

definition collab_base_clean :: "'a base_cmd_scheme \<Rightarrow> bool" where
  "collab_base_clean c \<longleftrightarrow> list_all int32_range [bcCommand c, bcCollabVersion c, bcDmsVersion c, bcSrcCollabSessionId c] \<and>
     list_all nul_free [bcCollabToken c, bcSrcDeviceId c, bcSrcBundleName c, bcSrcAbilityName c, bcSrcModuleName c, bcSrcServerId c,
       bcSinkDeviceId c, bcSinkBundleName c, bcSinkAbilityName c, bcSinkModuleName c, bcSinkServerId c]"

lemma collab_base_roundtrip:
  assumes "json_faithful (jsonLib lib)" "collab_base_clean c"
  obtains t where "BaseCmd_Marshal lib c = Some t" "nul_free t" "jsonParse (jsonLib lib) t = Some (base_json c)"
    "BaseCmd_Unmarshal lib t = Some (base_cmd.truncate c)"
proof -
  have "json_clean (base_json c)"
    using assms(2) by (simp add: collab_base_clean_def base_json_def)
  then obtain t where t: "jsonPrint (jsonLib lib) (base_json c) = Some t" "nul_free t" "jsonParse (jsonLib lib) t = Some (base_json c)"
    by (rule json_print [OF assms(1)])
  then have "BaseCmd_Unmarshal lib t = Some (base_cmd.truncate c)"
    using assms(2) by (simp add: BaseCmd_Unmarshal_def collab_base_clean_def base_json_def base_cmd.truncate_def)
  with t show ?thesis
    using that by (simp add: BaseCmd_Marshal_def)
qed

lemma used_parcel_roundtrip:
  assumes "parcel_ok (jsonLib lib) bs" "growCapacity lib (length (fst p)) (length bs)"
  shows "Base64StrToUsedParcel lib (ParcelToBase64Str bs) p = Some (bs, snd p)"
  using assms by (simp add: Base64StrToUsedParcel_def ParcelToBase64Str_def base64_decode_encode parcel_ok_def memcpy_s_ok_iff Let_def)

subsection \<open>Round trips\<close>

lemma collab_base_item_simp [simp]:
  "collab_base_item lib (CObject ((''BaseCmd'', CString t) # items)) = BaseCmd_Unmarshal lib t"
  by (simp add: collab_base_item_def)

fun collab_Marshal :: "('w, 'p) collab_lib \<Rightarrow> 'p collab_cmd \<Rightarrow> string option" where
  "collab_Marshal lib (VersionCmd c) = GetSinkCollabVersionCmd_Marshal lib c"
| "collab_Marshal lib (SinkStart c) = SinkStartCmd_Marshal lib c"
| "collab_Marshal lib (NotifyResult c) = NotifyResultCmd_Marshal lib c"
| "collab_Marshal lib (Disconnect c) = DisconnectCmd_Marshal lib c"

text \<open>Unmarshalling as the class of the command given.\<close>

fun collab_Unmarshal_as :: "('w, 'p) collab_lib \<Rightarrow> 'p collab_cmd \<Rightarrow> string \<Rightarrow> 'p collab_cmd option" where
  "collab_Unmarshal_as lib (VersionCmd _) t = map_option VersionCmd (GetSinkCollabVersionCmd_Unmarshal lib t)"
| "collab_Unmarshal_as lib (SinkStart _) t = map_option SinkStart (SinkStartCmd_Unmarshal lib t)"
| "collab_Unmarshal_as lib (NotifyResult _) t = map_option NotifyResult (NotifyResultCmd_Unmarshal lib t)"
| "collab_Unmarshal_as lib (Disconnect _) t = map_option Disconnect (DisconnectCmd_Unmarshal lib t)"

fun collab_base :: "'p collab_cmd \<Rightarrow> base_cmd" where
  "collab_base (VersionCmd c) = base_cmd.truncate c"
| "collab_base (SinkStart c) = base_cmd.truncate c"
| "collab_base (NotifyResult c) = base_cmd.truncate c"
| "collab_base (Disconnect c) = c"

fun collab_sendable :: "('w, 'p) collab_lib \<Rightarrow> 'p collab_cmd \<Rightarrow> bool" where
  "collab_sendable lib (VersionCmd c) \<longleftrightarrow> collab_base_clean c \<and>
     list_all int32_range [vcSrcPid c, vcSrcUid c, vcSrcAccessToken c, vcSinkCollabVersion c]"
| "collab_sendable lib (SinkStart c) \<longleftrightarrow> collab_base_clean c \<and>
     list_all int32_range [scSrcPid c, scSrcUid c, scSrcAccessToken c, scAppVersion c] \<and> caller_clean (scCallerInfo c) \<and>
     account_clean (scAccountInfo c) \<and> params_fit lib (scStartParams c) (scMessageParams c)"
| "collab_sendable lib (NotifyResult c) \<longleftrightarrow> collab_base_clean c \<and>
     list_all int32_range [ncResult c, ncSinkCollabSessionId c, ncSinkPid c, ncSinkAccessToken c, ncSinkUserId c, ncSinkAccountId c] \<and>
     nul_free (ncSinkSocketName c) \<and> nul_free (ncAbilityRejectReason c)"
| "collab_sendable lib (Disconnect c) \<longleftrightarrow> collab_base_clean c"

fun collab_received :: "'p collab_cmd \<Rightarrow> 'p collab_cmd" where
  "collab_received (SinkStart c) = SinkStart (c\<lparr>scCallerInfo := received_caller (scCallerInfo c),
     scAccountInfo := received_account (scAccountInfo c)\<rparr>)"
| "collab_received cmd = cmd"

lemma base_json_truncate [simp]: "base_json (base_cmd.truncate c) = base_json c"
  by (simp add: base_json_def base_cmd.defs)

text \<open>An object whose first item is the text of the base.\<close>

lemma envelope:
  assumes "json_faithful (jsonLib lib)" "collab_base_clean c" "json_clean (CObject items)"
  obtains b t where "BaseCmd_Marshal lib c = Some b" "nul_free b" "jsonParse (jsonLib lib) b = Some (base_json c)"
    "BaseCmd_Unmarshal lib b = Some (base_cmd.truncate c)" "jsonPrint (jsonLib lib) (CObject ((''BaseCmd'', CString b) # items)) = Some t"
    "nul_free t" "jsonParse (jsonLib lib) t = Some (CObject ((''BaseCmd'', CString b) # items))"
proof -
  obtain b where b: "BaseCmd_Marshal lib c = Some b" "nul_free b" "jsonParse (jsonLib lib) b = Some (base_json c)"
      "BaseCmd_Unmarshal lib b = Some (base_cmd.truncate c)"
    by (rule collab_base_roundtrip [OF assms(1,2)])
  then have "json_clean (CObject ((''BaseCmd'', CString b) # items))"
    using assms(3) by simp
  then show ?thesis
    using json_print [OF assms(1)] that [OF b] by blast
qed

text \<open>The text of a command: the head that the manager reads, and the command that the receiver unmarshals.\<close>

definition survives :: "('w, 'p) collab_lib \<Rightarrow> 'p collab_cmd \<Rightarrow> bool" where
  "survives lib cmd \<longleftrightarrow> (\<exists>t b items. collab_Marshal lib cmd = Some t \<and> nul_free t \<and> nul_free b \<and>
     jsonParse (jsonLib lib) t = Some (CObject ((''BaseCmd'', CString b) # items)) \<and>
     jsonParse (jsonLib lib) b = Some (base_json (collab_base cmd)) \<and> collab_Unmarshal_as lib cmd t = Some (collab_received cmd))"

lemma version_survives:
  assumes "json_faithful (jsonLib lib)" "collab_sendable lib (VersionCmd c)"
  shows "survives lib (VersionCmd c)"
proof -
  let ?items = "[(''SrcPid'', CNumber (vcSrcPid c)), (''SrcUid'', CNumber (vcSrcUid c)),
        (''SrcAccessToken'', CNumber (vcSrcAccessToken c)), (''SinkCollabVersion'', CNumber (vcSinkCollabVersion c))]"
  have "collab_base_clean c" "json_clean (CObject ?items)"
    using assms(2) by simp_all
  then obtain b t where b: "BaseCmd_Marshal lib c = Some b" "nul_free b" "jsonParse (jsonLib lib) b = Some (base_json c)"
    "BaseCmd_Unmarshal lib b = Some (base_cmd.truncate c)" "jsonPrint (jsonLib lib) (CObject ((''BaseCmd'', CString b) # ?items)) = Some t"
    "nul_free t" "jsonParse (jsonLib lib) t = Some (CObject ((''BaseCmd'', CString b) # ?items))"
    by (rule envelope [OF assms(1)])
  then have "collab_Unmarshal_as lib (VersionCmd c) t = Some (VersionCmd c)"
    using assms(2) by (simp add: GetSinkCollabVersionCmd_Unmarshal_def base_cmd.defs version_cmd.defs)
  then show ?thesis
    using b by (simp add: survives_def GetSinkCollabVersionCmd_Marshal_def)
qed

lemma result_survives:
  assumes "json_faithful (jsonLib lib)" "collab_sendable lib (NotifyResult c)"
  shows "survives lib (NotifyResult c)"
proof -
  let ?items = "[(''SinkCollabSessionId'', CNumber (ncSinkCollabSessionId c)), (''Result'', CNumber (ncResult c)),
        (''SinkSocketName'', CString (ncSinkSocketName c)), (''AbilityRejectReason'', CString (ncAbilityRejectReason c)),
        (''SinkPid'', CNumber (ncSinkPid c)), (''SinkUserId'', CNumber (ncSinkUserId c)),
        (''SinkAccessToken'', CNumber (ncSinkAccessToken c)), (''SinkAccountId'', CNumber (ncSinkAccountId c))]"
  have "collab_base_clean c" "json_clean (CObject ?items)"
    using assms(2) by simp_all
  then obtain b t where b: "BaseCmd_Marshal lib c = Some b" "nul_free b" "jsonParse (jsonLib lib) b = Some (base_json c)"
    "BaseCmd_Unmarshal lib b = Some (base_cmd.truncate c)" "jsonPrint (jsonLib lib) (CObject ((''BaseCmd'', CString b) # ?items)) = Some t"
    "nul_free t" "jsonParse (jsonLib lib) t = Some (CObject ((''BaseCmd'', CString b) # ?items))"
    by (rule envelope [OF assms(1)])
  then have "collab_Unmarshal_as lib (NotifyResult c) t = Some (NotifyResult c)"
    using assms(2) by (simp add: NotifyResultCmd_Unmarshal_def UnmarshalSinkInfo_def base_cmd.defs notify_result_cmd.defs Let_def)
  then show ?thesis
    using b assms(2) by (simp add: survives_def NotifyResultCmd_Marshal_def)
qed

lemma disconnect_survives:
  assumes "json_faithful (jsonLib lib)" "collab_sendable lib (Disconnect c)"
  shows "survives lib (Disconnect c)"
proof -
  have "collab_base_clean c" "json_clean (CObject [])"
    using assms(2) by simp_all
  then obtain b t where b: "BaseCmd_Marshal lib c = Some b" "nul_free b" "jsonParse (jsonLib lib) b = Some (base_json c)"
    "BaseCmd_Unmarshal lib b = Some (base_cmd.truncate c)" "jsonPrint (jsonLib lib) (CObject [(''BaseCmd'', CString b)]) = Some t"
    "nul_free t" "jsonParse (jsonLib lib) t = Some (CObject [(''BaseCmd'', CString b)])"
    by (rule envelope [OF assms(1)])
  then show ?thesis
    by (simp add: survives_def DisconnectCmd_Marshal_def DisconnectCmd_Unmarshal_def base_cmd.defs)
qed

lemma params_roundtrip:
  assumes "params_faithful lib" "params_fit lib p q"
  obtains bs1 bs2 where "appendParams lib p [] = Some bs1" "appendParams lib q bs1 = Some bs2"
    "\<forall>items. map_of items ''StartParams'' = Some (CString (ParcelToBase64Str bs1)) \<longrightarrow>
       map_of items ''WantParams'' = Some (CString (ParcelToBase64Str bs2)) \<longrightarrow> UnmarshalOptParams lib (CObject items) = Some (p, q)"
proof -
  obtain bs1 bs2 where bs: "appendParams lib p [] = Some bs1" "appendParams lib q bs1 = Some bs2"
      "growCapacity lib 0 (length bs1)" "growCapacity lib (length bs1) (length bs2)"
      "parcel_ok (jsonLib lib) bs1" "parcel_ok (jsonLib lib) bs2"
    using assms(2) by (auto simp: params_fit_def)
  have read: "readParams lib bs1 0 = Some (p, length bs1)" "readParams lib bs2 (length bs1) = Some (q, length bs2)"
    using assms(1) bs(1,2) by (fastforce simp: params_faithful_def)+
  then show ?thesis
    by (intro that [OF bs(1,2)]) (simp add: UnmarshalOptParams_def UnmarshallingParams_def used_parcel_roundtrip bs)
qed

lemma sink_start_survives:
  assumes "lib_faithful (jsonLib lib)" "params_faithful lib" "collab_sendable lib (SinkStart c)"
  shows "survives lib (SinkStart c)"
proof -
  have faithful: "json_faithful (jsonLib lib)"
    using assms(1) by (simp add: lib_faithful_def)
  have clean: "collab_base_clean c" "caller_clean (scCallerInfo c)" "account_clean (scAccountInfo c)"
      "params_fit lib (scStartParams c) (scMessageParams c)"
    using assms(3) by simp_all
  obtain ct where ct: "MarshalCallerInfo (jsonLib lib) (scCallerInfo c) = Some ct" "nul_free ct"
      "UnmarshalCallerInfo (jsonLib lib) ct caller_info_default = Some (received_caller (scCallerInfo c))"
    by (rule caller_roundtrip [OF assms(1) clean(2)])
  obtain at where at: "MarshalAccountInfo (jsonLib lib) (scAccountInfo c) = Some at" "nul_free at"
      "UnmarshalAccountInfo (jsonLib lib) at account_info_default = Some (received_account (scAccountInfo c))"
    by (rule account_roundtrip [OF assms(1) clean(3)])
  obtain bs1 bs2 where bs: "appendParams lib (scStartParams c) [] = Some bs1" "appendParams lib (scMessageParams c) bs1 = Some bs2"
    and opt: "\<forall>items. map_of items ''StartParams'' = Some (CString (ParcelToBase64Str bs1)) \<longrightarrow>
       map_of items ''WantParams'' = Some (CString (ParcelToBase64Str bs2)) \<longrightarrow>
       UnmarshalOptParams lib (CObject items) = Some (scStartParams c, scMessageParams c)"
    by (rule params_roundtrip [OF assms(2) clean(4)])
  let ?items = "[(''AppVersion'', CNumber (scAppVersion c)), (''SrcPid'', CNumber (scSrcPid c)),
        (''SrcUid'', CNumber (scSrcUid c)), (''SrcAccessToken'', CNumber (scSrcAccessToken c)),
        (''StartParams'', CString (ParcelToBase64Str bs1)), (''WantParams'', CString (ParcelToBase64Str bs2)),
        (''CallerInfo'', CString ct), (''AccountInfo'', CString at)]"
  have "json_clean (CObject ?items)"
    using assms(3) ct(2) at(2) by simp
  then obtain b t where b: "BaseCmd_Marshal lib c = Some b" "nul_free b" "jsonParse (jsonLib lib) b = Some (base_json c)"
    "BaseCmd_Unmarshal lib b = Some (base_cmd.truncate c)" "jsonPrint (jsonLib lib) (CObject ((''BaseCmd'', CString b) # ?items)) = Some t"
    "nul_free t" "jsonParse (jsonLib lib) t = Some (CObject ((''BaseCmd'', CString b) # ?items))"
    by (rule envelope [OF faithful clean(1)])
  have "UnmarshalPartParcel lib (CObject ((''BaseCmd'', CString b) # ?items)) =
      Some ((scStartParams c, scMessageParams c), received_caller (scCallerInfo c), received_account (scAccountInfo c))"
    using ct at by (simp add: UnmarshalPartParcel_def shared_infos opt)
  then have "collab_Unmarshal_as lib (SinkStart c) t = Some (collab_received (SinkStart c))"
    using b assms(3) by (simp add: SinkStartCmd_Unmarshal_def base_cmd.defs sink_start_cmd.defs)
  then show ?thesis
    using b bs ct at by (simp add: survives_def SinkStartCmd_Marshal_def shared_infos)
qed

lemma collab_survives:
  assumes "lib_faithful (jsonLib lib)" "params_faithful lib" "collab_sendable lib cmd"
  shows "survives lib cmd"
proof -
  have "json_faithful (jsonLib lib)"
    using assms(1) by (simp add: lib_faithful_def)
  then show ?thesis
    using assms version_survives sink_start_survives result_survives disconnect_survives by (cases cmd) blast+
qed


subsection \<open>A library that keeps the promises\<close>

text \<open>Only empty parameters can be written, as one byte.\<close>

definition sample_collab_lib :: "(sample_want, sample_params) collab_lib" where
  "sample_collab_lib = \<lparr>jsonLib = sample_lib, appendParams = (\<lambda>p pre. if p = [] then Some (pre @ [7]) else None),
     readParams = (\<lambda>bs pos. if pos < length bs \<and> bs ! pos = 7 then Some ([], Suc pos) else None), growCapacity = (\<lambda>old new. old \<le> new)\<rparr>"

lemma sample_collab_lib_faithful: "lib_faithful (jsonLib sample_collab_lib)" "params_faithful sample_collab_lib"
  using sample_lib_faithful by (simp_all add: sample_collab_lib_def params_faithful_def)

lemma params_fit_sample:
  assumes "appendParams lib = appendParams sample_collab_lib" "growCapacity lib = growCapacity sample_collab_lib"
    "setDataCapacity (jsonLib lib) = (\<lambda>n. True)" "setDataSize (jsonLib lib) = (\<lambda>n. True)" "parcelMaxCapacity (jsonLib lib) = 204800"
  shows "params_fit lib [] []"
  using assms by (simp add: params_fit_def sample_collab_lib_def parcel_ok_def RSIZE_MAX_def)

lemma sample_start_sendable: "collab_sendable sample_collab_lib (SinkStart sample_start_cmd)"
proof -
  have "params_fit sample_collab_lib [] []"
    by (rule params_fit_sample) (simp_all add: sample_collab_lib_def sample_lib_def)
  then show ?thesis
    by (simp add: sample_start_cmd_def base_cmd_default_def base_cmd.defs sink_start_cmd.defs collab_base_clean_def int32_range_def caller_clean_def
        account_clean_def caller_info_default_def account_info_default_def collab_commands)
qed


subsection \<open>The marshalling and the parser of a device\<close>

definition collab_json_marshal :: "('w, 'p) collab_lib \<Rightarrow> 'p collab_cmd \<Rightarrow> ret \<times> byte list" where
  "collab_json_marshal lib cmd = (case collab_Marshal lib cmd of None \<Rightarrow> (INVALID_PARAMETERS_ERR, []) | Some t \<Rightarrow> (ERR_OK, bytes_of t))"

definition collab_json_parser :: "('w, 'p) collab_lib \<Rightarrow> 'p \<Rightarrow> 'p collab_parser" where
  "collab_json_parser lib p =
     \<lparr>unmarshalVersion = (\<lambda>bs. result_of (base_cmd.extend base_cmd_default (version_cmd.fields (-1) (-1) (-1) (-1)))
        (GetSinkCollabVersionCmd_Unmarshal lib (text_of bs))),
      unmarshalSinkStart = (\<lambda>bs. result_of
        (base_cmd.extend base_cmd_default (sink_start_cmd.fields (-1) (-1) (-1) (-1) caller_info_default account_info_default p p))
        (SinkStartCmd_Unmarshal lib (text_of bs))),
      unmarshalNotifyResult = (\<lambda>bs. result_of
        (base_cmd.extend base_cmd_default (notify_result_cmd.fields (-1) (-1) (-1) (-1) (-1) (-1) '''' ''''))
        (NotifyResultCmd_Unmarshal lib (text_of bs)))\<rparr>"

text \<open>A device whose collaborations use this library.\<close>

definition speaks :: "('w, 'p) collab_env \<Rightarrow> ('w, 'p) collab_lib \<Rightarrow> 'p \<Rightarrow> bool" where
  "speaks env lib p \<longleftrightarrow> collabMarshal env = collab_json_marshal lib \<and> collabParser env = collab_json_parser lib p \<and>
     collabParse env = jsonParse (jsonLib lib)"

end
