(* ===== verification/Collab_Delivery.thy ===== *)
theory Collab_Delivery
  imports Collab_Json Collab_Liveness Command_Delivery
begin

text \<open>
  The start of a collaboration on its whole way between the two devices: the source packs the start command,
  marshals it and gives it to the transport adapter; the packets reach the sink's adapter, which calls the
  listener of the collaboration manager; the manager finds the collaboration by session and token, and the
  collaboration takes over what the command says. The want that the sink will start its ability with is then
  the one that the source describes.
\<close>

definition COLLAB_DATA_TYPE :: u32 where "COLLAB_DATA_TYPE = 1"

lemma SendCommand_collab_json:
  assumes "collabMarshal env = collab_json_marshal lib" "collab_Marshal lib cmd = Some t" "length t + 1 < DSCHED_MAX_BUFFER_SIZE"
  shows "exec (SendCommand_collab env cmd) s = s\<lparr>mgr := log_call (CollabSendData (collabSession (self s)) (sent_buffer t)) (mgr s)\<rparr>"
proof -
  have "memcpy_s (Data (DSchedDataBuffer (length t + 1)) = None) (Capacity (DSchedDataBuffer (length t + 1))) False (length t) = ERR_OK"
    using assms(3) by (simp add: memcpy_s_ok_iff DSchedDataBuffer_def Data_def Capacity_def RSIZE_MAX_def DSCHED_MAX_BUFFER_SIZE_def)
  then show ?thesis
    using assms(1,2) by (simp add: SendCommand_collab_def collab_json_marshal_def sent_buffer_def)
qed

subsection \<open>What a start command says\<close>

definition describes :: "'p sink_start_cmd \<Rightarrow> 'p collab_info \<Rightarrow> bool" where
  "describes cmd i \<longleftrightarrow> base_cmd.truncate cmd = start_base i \<and> scStartParams cmd = startParams (srcOpt i) \<and>
     scMessageParams cmd = messageParams (srcOpt i)"

lemma packed_describes:
  assumes "outcome (PackStartCmd_collab env) s = Inr cmd"
  shows "describes cmd (collabInfo (self s))"
  using assms
  by (auto simp: PackStartCmd_collab_def PackPartCmd_def describes_def Let_def base_cmd.defs sink_start_cmd.defs
      split: prod.splits option.splits if_splits)

text \<open>The want depends on the info only through what the command carries.\<close>

lemma want_of_sink:
  assumes "describes cmd i" "collabToken j = collabToken i"
  shows "GenerateCollabWant env (sink_collab_info cmd j) = GenerateCollabWant env i"
  using assms
  by (simp add: GenerateCollabWant_def sink_collab_info_def describes_def start_base_def base_cmd.defs IsStartForeground_def)

subsection \<open>The receiving manager\<close>

lemma message_head_text:
  assumes "survives lib cmd" "collab_Marshal lib cmd = Some t" "collabParse env = jsonParse (jsonLib lib)"
    and "int32_range (bcCommand (collab_base cmd))" "nul_free (bcCollabToken (collab_base cmd))"
  shows "collab_message_head env (bytes_of t @ [0]) = Some (bcCommand (collab_base cmd), bcCollabToken (collab_base cmd))"
  using assms by (auto simp: survives_def collab_message_head_def text_of_terminated base_json_def)

lemma collab_find_token:
  assumes "collab_inv m" "smap_find (collabs m) k = Some c" "collabSession c = session"
  shows "find (\<lambda>e. session_of session k (snd e)) (collabs m) = Some (k, c)"
proof -
  have mem: "(k, c) \<in> set (collabs m)" "session_of session k c"
    using assms collab_invD(1) [OF assms(1,2)] by (simp_all add: smap_find_mem session_of_def collab_ok_def)
  then have "find (\<lambda>e. session_of session k (snd e)) (collabs m) \<noteq> None"
    by (metis find_None_iff snd_conv)
  then obtain e where e: "find (\<lambda>e. session_of session k (snd e)) (collabs m) = Some e"
    by blast
  then have "e \<in> set (collabs m)" "session_of session k (snd e)"
    using find_mem by fastforce+
  then obtain k' c' where e': "e = (k', c')" "(k', c') \<in> set (collabs m)" "session_of session k c'"
    by (metis prod.collapse)
  then have found: "smap_find (collabs m) k' = Some c'"
    using smap_mem_find [OF collab_invD(2) [OF assms(1)]] by blast
  then have "k' = k"
    using collab_invD(1) [OF assms(1)] e'(3) by (auto simp: collab_ok_def session_of_def)
  with e e' found assms(2) show ?thesis
    by simp
qed

text \<open>What the collaboration knows after a start command.\<close>

definition told :: "('w, 'p) collab_env \<Rightarrow> 'p sink_start_cmd \<Rightarrow> 'p collab \<Rightarrow> 'p collab" where
  "told env cmd c = self (exec (SetSinkCollabInfo env cmd) \<lparr>self = c, mgr = DSchedCollabManager\<rparr>)"

lemma SetSinkCollabInfo_told: "exec (SetSinkCollabInfo env cmd) \<lparr>self = c, mgr = m\<rparr> = \<lparr>self = told env cmd c, mgr = m\<rparr>"
  by (simp add: told_def SetSinkCollabInfo_def split: prod.split)

lemma told_simps:
  "collabHandler (told env cmd c) = collabHandler c" "collabQueue (told env cmd c) = collabQueue c"
  "collabSession (told env cmd c) = collabSession c" "stateMachine (told env cmd c) = stateMachine c"
  by (simp_all add: told_def SetSinkCollabInfo_def split: prod.split)

lemma told_want:
  assumes "describes cmd i" "collabToken (collabInfo c) = collabToken i"
  shows "GenerateCollabWant env' (collabInfo (told env cmd c)) = GenerateCollabWant env' i"
proof -
  have "GenerateCollabWant env' (j\<lparr>sinkUserId := u\<rparr>) = GenerateCollabWant env' j" for j u
    by (simp add: GenerateCollabWant_def IsStartForeground_def)
  then show ?thesis
    by (simp add: told_def SetSinkCollabInfo_def want_of_sink [OF assms] split: prod.split)
qed

lemma collab_start_received:
  assumes "survives lib (SinkStart cmd)" "collab_Marshal lib (SinkStart cmd) = Some t" "length t + 1 < DSCHED_MAX_BUFFER_SIZE"
    and "bcCommand cmd = SINK_START_CMD" "nul_free (bcCollabToken cmd)" "speaks env lib p" "collab_runner_accepts env"
    and "collab_inv m" "smap_find (collabs m) (bcCollabToken cmd) = Some c" "collabSession c = session"
    and "collab_received (SinkStart cmd) = SinkStart cmd'"
  defines "c' \<equiv> (told env cmd' c)\<lparr>collabQueue := collabQueue c @ [START_ABILITY_EVENT]\<rparr>"
  shows "HandleDataRecv_cmgr env session (Some (packet_buffer (bytes_of t @ [0]))) m =
     Done (m\<lparr>collabs := smap_put (bcCollabToken cmd) c' (collabs m)\<rparr>)"
proof -
  have t: "nul_free t" "SinkStartCmd_Unmarshal lib t = Some cmd'"
    using assms(1,2,11) by (auto simp: survives_def)
  then have parsed: "unmarshalSinkStart (collabParser env) (bytes_of t @ [0]) = (ERR_OK, cmd')"
    using assms(6) by (simp add: speaks_def collab_json_parser_def result_of_def text_of_terminated SinkStartCmd_Unmarshal_def)
  have head: "collab_message_head env (bytes_of t @ [0]) = Some (SINK_START_CMD, bcCollabToken cmd)"
    using message_head_text [OF assms(1,2), of env] assms(4-6)
    by (simp add: speaks_def base_cmd.defs int32_range_def SINK_START_CMD_def)
  have "exec (OnDataRecv_collab env SINK_START_CMD (packet_buffer (bytes_of t @ [0]))) \<lparr>self = c, mgr = m\<rparr> = \<lparr>self = c', mgr = m\<rparr>"
    using parsed assms(7) collab_invD(1) [OF assms(8,9)]
    by (simp add: OnDataRecv_collab_def packet_text [OF assms(3)] recv_collab_command_def collab_commands SetSinkCollabInfo_told
        PostSinkStartTask_def exec_cpost told_simps collab_ok_def c'_def)
  then show ?thesis
    using collab_find_token [OF assms(8-10)] assms(9)
    by (simp add: HandleDataRecv_cmgr_def packet_text [OF assms(3)] head NotifyDataRecv_def on_collab_def Let_def)
      (simp add: collab_commands)
qed

text \<open>
  C8: The start of a collaboration crosses the two devices: the start command that a source packs makes the
  transport send packets which, arriving in order at the sink, lead to one call of the listener of its
  collaboration manager; the manager hands it to the collaboration of this session and token and touches no
  other; and the want with which that collaboration is going to start its ability is the one that the info
  of the source describes, with the want parameters, the options and the peer of the source. The session ids of
  the two devices, the size of the text and the changing send limit of the transport do not matter.
\<close>

theorem collab_start_reaches_sink:
  assumes "lib_faithful (jsonLib lib)" "params_faithful lib" "speaks senv lib p" "speaks env lib p"
    and "outcome (PackStartCmd_collab senv) s = Inr cmd" "collab_sendable lib (SinkStart cmd)"
    and "\<forall>t. collab_Marshal lib (SinkStart cmd) = Some t \<longrightarrow> length t + 1 < DSCHED_MAX_BUFFER_SIZE \<and> length t + 1 \<le> 65535 * (L - 512)"
    and "smap_find (sessions b) (collabSession (self s)) = Some (Some sb)" "env_ok L tenv"
    and "adapter_inv a" "smap_find (sessions a) session = Some (Some sa)" "listeners_of a COLLAB_DATA_TYPE = [l]"
    and "collab_reachable m" "smap_find (collabs m) (collabToken (collabInfo (self s))) = Some c" "collabSession c = session"
    and "collab_runner_accepts env"
  shows "\<exists>buf pkts a' buf' m' c'.
     exec (SendCommand_collab senv (SinkStart cmd)) s = s\<lparr>mgr := log_call (CollabSendData (collabSession (self s)) buf) (mgr s)\<rparr> \<and>
     AdapterSendData tenv (collabSession (self s)) COLLAB_DATA_TYPE (Some buf) b =
       Done (map (CallSendBytes (collabSession (self s))) pkts, ERR_OK) \<and>
     run_bytes junk session a pkts = Done (a', [ListenerOnDataRecv l session buf']) \<and>
     HandleDataRecv_cmgr env session (Some buf') m = Done m' \<and>
     collabs m' = smap_put (collabToken (collabInfo (self s))) c' (collabs m) \<and>
     collabQueue c' = collabQueue c @ [START_ABILITY_EVENT] \<and>
     GenerateCollabWant env (collabInfo c') = GenerateCollabWant env (collabInfo (self s))"
proof -
  have sv: "survives lib (SinkStart cmd)"
    by (rule collab_survives [OF assms(1,2,6)])
  then obtain t where t: "collab_Marshal lib (SinkStart cmd) = Some t"
    by (auto simp: survives_def)
  then have len: "length t + 1 < DSCHED_MAX_BUFFER_SIZE" "length t + 1 \<le> 65535 * (L - 512)"
    using assms(7) by auto
  note buf = sent_buffer_simps [OF len(1)]
  obtain pkts a' where sent: "AdapterSendData tenv (collabSession (self s)) COLLAB_DATA_TYPE (Some (sent_buffer t)) b =
       Done (map (CallSendBytes (collabSession (self s))) pkts, ERR_OK)"
    "run_bytes junk session a pkts = Done (a', [ListenerOnDataRecv l session (packet_buffer (bytes_of t @ [0]))])"
    using message_delivered [OF assms(10,11,8) buf(1) _ assms(9), of COLLAB_DATA_TYPE junk] buf len(2) assms(12) by auto
  note desc = packed_describes [OF assms(5)]
  then have cmd: "bcCommand cmd = SINK_START_CMD" "bcCollabToken cmd = collabToken (collabInfo (self s))"
    by (simp_all add: describes_def start_base_def base_cmd.defs)
  have token: "nul_free (bcCollabToken cmd)"
    using assms(6) by (simp add: collab_base_clean_def)
  obtain cmd' where cmd': "collab_received (SinkStart cmd) = SinkStart cmd'" and desc': "describes cmd' (collabInfo (self s))"
    using desc by (simp add: describes_def base_cmd.defs)
  let ?c = "(told env cmd' c)\<lparr>collabQueue := collabQueue c @ [START_ABILITY_EVENT]\<rparr>"
  have inv: "collab_inv m" "collabToken (collabInfo c) = collabToken (collabInfo (self s))"
    using collab_reachable_inv [OF assms(13)] collab_invD(1) [OF _ assms(14)] by (auto simp: collab_ok_def)
  have "HandleDataRecv_cmgr env session (Some (packet_buffer (bytes_of t @ [0]))) m =
      Done (m\<lparr>collabs := smap_put (collabToken (collabInfo (self s))) ?c (collabs m)\<rparr>)"
    using collab_start_received [OF sv t len(1) cmd(1) token assms(4,16) inv(1) _ assms(15) cmd'] assms(14) by (simp add: cmd(2))
  moreover have "GenerateCollabWant env (collabInfo ?c) = GenerateCollabWant env (collabInfo (self s))"
    using told_want [OF desc' inv(2)] by simp
  moreover have "exec (SendCommand_collab senv (SinkStart cmd)) s =
      s\<lparr>mgr := log_call (CollabSendData (collabSession (self s)) (sent_buffer t)) (mgr s)\<rparr>"
    using assms(3) by (intro SendCommand_collab_json [OF _ t len(1)]) (simp add: speaks_def)
  ultimately show ?thesis
    using sent by (intro exI conjI) (assumption | rule refl | simp)+
qed

subsection \<open>A start between two devices\<close>

text \<open>A faithful library that prints the values of a table as the table says, and every other value as \<open>sample_lib\<close> does.\<close>

definition table_print :: "(cjson \<times> string) list \<Rightarrow> cjson \<Rightarrow> string" where
  "table_print tbl j = (case map_of tbl j of Some t \<Rightarrow> t | None \<Rightarrow> replicate (to_nat j) (CHR ''x''))"

definition table_parse :: "(cjson \<times> string) list \<Rightarrow> string \<Rightarrow> cjson" where
  "table_parse tbl t = (case map_of (map prod.swap tbl) t of Some j \<Rightarrow> j | None \<Rightarrow> from_nat (length t))"

definition table_ok :: "(cjson \<times> string) list \<Rightarrow> bool" where
  "table_ok tbl \<longleftrightarrow> distinct (map fst tbl) \<and> distinct (map snd tbl) \<and> (\<forall>t \<in> snd ` set tbl. nul_free t \<and> t \<noteq> '''' \<and> hd t \<noteq> CHR ''x'')"

lemma table_roundtrip:
  assumes "table_ok tbl"
  shows "table_parse tbl (table_print tbl j) = j" "nul_free (table_print tbl j)"
proof -
  have "map_of (map prod.swap tbl) t = Some j" if "map_of tbl j = Some t" for t
    using assms map_of_SomeD [OF that] by (auto simp: table_ok_def comp_def intro!: map_of_is_SomeI)
  moreover have "map_of (map prod.swap tbl) (replicate n (CHR ''x'')) = None" for n
    using assms by (cases n) (force simp: table_ok_def map_of_eq_None_iff)+
  ultimately show "table_parse tbl (table_print tbl j) = j"
    by (simp add: table_print_def table_parse_def split: option.split)
  show "nul_free (table_print tbl j)"
    using assms map_of_SomeD by (fastforce simp: table_print_def table_ok_def split: option.split)
qed

definition table_lib :: "(cjson \<times> string) list \<Rightarrow> (sample_want, sample_params) collab_lib" where
  "table_lib tbl = sample_collab_lib\<lparr>jsonLib := sample_lib\<lparr>jsonPrint := (\<lambda>j. Some (table_print tbl j)),
     jsonParse := (\<lambda>t. Some (table_parse tbl t)), dumpExtra := (\<lambda>e. table_print tbl (extra_json e))\<rparr>\<rparr>"

lemma table_lib_faithful:
  assumes "table_ok tbl"
  shows "lib_faithful (jsonLib (table_lib tbl))" "params_faithful (table_lib tbl)"
  using sample_collab_lib_faithful(2) table_roundtrip [OF assms]
  by (simp_all add: lib_faithful_def json_faithful_def table_lib_def params_faithful_def) (simp add: sample_lib_def)

text \<open>The command that the sample source packs, and its text.\<close>

definition sample_caller :: caller_info where
  "sample_caller = (collab_caller (collabInfo sample_collab))\<lparr>callerAppId := ''id'', callerBundleNames := [''app''],
     callerExtraDmsVersion := Some DMS_VERSION_C\<rparr>"

definition sample_packed :: "sample_params sink_start_cmd" where
  "sample_packed = base_cmd.extend (start_base (collabInfo sample_collab))
     (sink_start_cmd.fields 30 (-1) (-1) 3 sample_caller sample_account [] [])"

definition caller_json :: cjson where
  "caller_json = CObject
     [(''Uid'', CNumber (-1)), (''Pid'', CNumber (-1)), (''CallerType'', CNumber 0),
      (''SourceDeviceId'', CString ''A''), (''Duid'', CNumber (-1)), (''CallerAppId'', CString ''id''),
      (''BundleNames'', CArray [CString ''app'']), (''ExtraInfo'', CString ''e'')]"

definition account_json :: cjson where
  "account_json = CObject [(''AccountType'', CNumber 0), (''GroupIdList'', CArray []), (''accountId'', CString ''''), (''userId'', CNumber 100)]"

definition start_json :: cjson where
  "start_json = CObject
     [(''BaseCmd'', CString ''a''), (''AppVersion'', CNumber 3), (''SrcPid'', CNumber 30), (''SrcUid'', CNumber (-1)),
      (''SrcAccessToken'', CNumber (-1)), (''StartParams'', CString (ParcelToBase64Str [7])),
      (''WantParams'', CString (ParcelToBase64Str [7, 7])), (''CallerInfo'', CString ''b''), (''AccountInfo'', CString ''c'')]"

definition start_table :: "(cjson \<times> string) list" where
  "start_table = [(base_json sample_packed, ''a''), (caller_json, ''b''), (account_json, ''c''), (start_json, ''d''),
     (extra_json (Some DMS_VERSION_C), ''e'')]"

lemma start_table_ok: "table_ok start_table"
  by (simp add: table_ok_def start_table_def base_json_def caller_json_def account_json_def start_json_def)

lemma sample_packed_eq: "outcome (PackStartCmd_collab sample_collab_env) \<lparr>self = sample_collab, mgr = m\<rparr> = Inr sample_packed"
  by (simp add: PackStartCmd_collab_def PackPartCmd_def Let_def sample_packed_def sample_caller_def sample_collab_env_def sample_collab_def
      new_collab_def sample_collab_info_def collab_info_default_def collab_message_default_def base_cmd.defs sink_start_cmd.defs)

lemma sample_packed_sendable: "collab_sendable (table_lib start_table) (SinkStart sample_packed)"
proof -
  have "params_fit (table_lib start_table) [] []"
    by (rule params_fit_sample) (simp_all add: table_lib_def sample_lib_def)
  then show ?thesis
    by (simp add: sample_packed_def start_base_def sample_collab_def new_collab_def sample_collab_info_def collab_info_default_def
        collab_message_default_def base_cmd.defs sink_start_cmd.defs collab_base_clean_def int32_range_def caller_clean_def
        account_clean_def sample_caller_def collab_caller_def caller_info_default_def sample_account_def collab_commands DMS_VERSION_C_def)
qed

lemma start_texts:
  "table_print start_table (base_json sample_packed) = ''a''" "table_print start_table caller_json = ''b''"
  "table_print start_table account_json = ''c''" "table_print start_table start_json = ''d''"
  "table_print start_table (extra_json (Some DMS_VERSION_C)) = ''e''"
  using start_table_ok by (auto simp: table_print_def table_ok_def start_table_def)

lemma sample_packed_text: "collab_Marshal (table_lib start_table) (SinkStart sample_packed) = Some ''d''"
proof -
  have caller: "MarshalCallerInfo (jsonLib (table_lib start_table)) sample_caller = Some ''b''"
    using start_texts(2,5)
    by (simp add: MarshalCallerInfo_def table_lib_def sample_caller_def collab_caller_def caller_info_default_def caller_json_def
        sample_collab_def new_collab_def sample_collab_info_def collab_message_default_def nul_free_def)
  have account: "MarshalAccountInfo (jsonLib (table_lib start_table)) sample_account = Some ''c''"
    using start_texts(3) by (simp add: MarshalAccountInfo_def table_lib_def sample_account_def account_json_def sample_lib_def nul_free_def)
  have fields: "scStartParams sample_packed = []" "scMessageParams sample_packed = []" "scCallerInfo sample_packed = sample_caller"
      "scAccountInfo sample_packed = sample_account" "scAppVersion sample_packed = 3" "scSrcPid sample_packed = 30"
      "scSrcUid sample_packed = -1" "scSrcAccessToken sample_packed = -1"
    by (simp_all add: sample_packed_def base_cmd.defs sink_start_cmd.defs)
  show ?thesis
    using caller account start_texts(1,4)
    by (simp add: SinkStartCmd_Marshal_def BaseCmd_Marshal_def shared_infos fields) 
      (simp add: table_lib_def sample_collab_lib_def start_json_def nul_free_def)
qed

text \<open>The sink, which has been asked for its version on session 5.\<close>

definition sample_ask_cmd :: version_cmd where
  "sample_ask_cmd = base_cmd.extend
     (base_cmd_default\<lparr>bcCommand := SINK_GET_VERSION_CMD, bcCollabToken := ''T'', bcSinkDeviceId := ''B''\<rparr>)
     (version_cmd.fields (-1) (-1) (-1) (-1))"

definition sample_sink_env :: "(sample_want, sample_params) collab_env" where
  "sample_sink_env = sample_collab_env
     \<lparr>localDevice := Some ''B'', collabParser := sample_collab_parser\<lparr>unmarshalVersion := (\<lambda>_. (ERR_OK, sample_ask_cmd))\<rparr>,
      collabParse := (\<lambda>_. Some (CObject [(''BaseCmd'', CString ''''), (''Command'', CNumber 1), (''CollabToken'', CString ''T'')]))\<rparr>"

definition sample_sink_collab :: "sample_params collab" where
  "sample_sink_collab = posted sample_sink_env GET_SINK_VERSION_EVENT
     (UpdateState_obj SINK_GET_VERSION_STATE (Init_collab (DSchedCollabRemote sample_sink_env sample_ask_cmd 5)))"

definition sample_sink_mgr :: "(sample_want, sample_params) collab_mgr" where
  "sample_sink_mgr = DSchedCollabManager
     \<lparr>collabs := [(''T'', sample_sink_collab)], mgrHandler := True, mgrTimers := [(''T'', DelayedTimeout ''T'', COLLAB_TIMEOUT)],
      mgrCalls := [CollabInitChannel, CollabRegisterListener]\<rparr>"

lemma sample_sink_session: "collabSession sample_sink_collab = 5"
  by (simp add: sample_sink_collab_def posted_def UpdateState_obj_def Init_collab_def DSchedCollabRemote_def new_collab_def)

lemma sample_sink_reachable: "collab_reachable sample_sink_mgr"
proof -
  let ?E = sample_sink_env
  let ?t = "TaskCollabData 5 (Some (packet_buffer [0]))"
  let ?m1 = "Init_cmgr ?E DSchedCollabManager"
  let ?m2 = "?m1\<lparr>mgrTasks := [?t]\<rparr>"
  have E: "relationChecker ?E = ERR_OK" "localDevice ?E = Some ''B''" "unmarshalVersion (collabParser ?E) bs = (ERR_OK, sample_ask_cmd)"
      "bcSinkDeviceId sample_ask_cmd = ''B''" "bcCollabToken sample_ask_cmd = ''T''" for bs
    by (simp_all add: sample_sink_env_def sample_collab_env_def sample_ask_cmd_def base_cmd.defs)
  have "collab_reachable ?m2"
    using collab_reachable.step [OF collab_reachable.step [OF collab_reachable.start cmstep.init [where env = ?E]]
      cmstep.data [where session = 5 and b = "Some (packet_buffer [0])"]] E
    by (simp add: OnDataRecv_cmgr_def PostCollabTask_def Init_cmgr_def DSchedCollabManager_def log_call_def)
  moreover have "collab_message_head ?E [0] = Some (SINK_GET_VERSION_CMD, ''T'')"
    by (simp add: collab_message_head_def sample_sink_env_def collab_commands int32_range_def)
  then have "run_collab_task ?E ?t (?m2\<lparr>mgrTasks := []\<rparr>) = Done sample_sink_mgr"
    using packet_text [of "''''"]
    by (simp add: HandleDataRecv_cmgr_def bytes_of_def DSCHED_MAX_BUFFER_SIZE_def NotifyDataRecv_def E sample_sink_collab_def [symmetric]
        Init_cmgr_def DSchedCollabManager_def log_call_def sample_sink_mgr_def add_collab_def smap_find_def smap_insert_def
        SetTimeOut_cmgr_def)
  then have "cmstep ?m2 sample_sink_mgr"
    by (rule cmstep.task [rotated 2]) (simp_all add: Init_cmgr_def DSchedCollabManager_def log_call_def E)
  ultimately show ?thesis
    by (rule collab_reachable.step)
qed

text \<open>Both devices with the library of the table, and the source on its session 5.\<close>

definition sample_json_env :: "(sample_want, sample_params) collab_env" where
  "sample_json_env = sample_collab_env\<lparr>collabMarshal := collab_json_marshal (table_lib start_table),
     collabParser := collab_json_parser (table_lib start_table) [], collabParse := jsonParse (jsonLib (table_lib start_table))\<rparr>"

definition sample_run :: "(sample_want, sample_params) crun" where
  "sample_run = \<lparr>self = sample_collab\<lparr>collabSession := 5\<rparr>, mgr = sample_collab_mgr\<rparr>"

theorem collab_start_reaches_sink_witness:
  "\<exists>buf pkts a' buf' m' c'.
     exec (SendCommand_collab sample_json_env (SinkStart sample_packed)) sample_run =
       sample_run\<lparr>mgr := log_call (CollabSendData (collabSession (self sample_run)) buf) (mgr sample_run)\<rparr> \<and>
     AdapterSendData sample_env (collabSession (self sample_run)) COLLAB_DATA_TYPE (Some buf) sample_adapter =
       Done (map (CallSendBytes (collabSession (self sample_run))) pkts, ERR_OK) \<and>
     run_bytes (frag_head 0 0 0 0 0) 5 sample_adapter pkts = Done (a', [ListenerOnDataRecv 8 5 buf']) \<and>
     HandleDataRecv_cmgr sample_json_env 5 (Some buf') sample_sink_mgr = Done m' \<and>
     collabs m' = smap_put (collabToken (collabInfo (self sample_run))) c' (collabs sample_sink_mgr) \<and>
     collabQueue c' = collabQueue sample_sink_collab @ [START_ABILITY_EVENT] \<and>
     GenerateCollabWant sample_json_env (collabInfo c') = GenerateCollabWant sample_json_env (collabInfo (self sample_run))"
proof -
  let ?lib = "table_lib start_table"
  let ?sb = "DSchedSoftbusSession 5 ''me'' ''peer'' ''dms'' True"
  have speaks: "speaks sample_json_env ?lib []"
    by (simp add: speaks_def sample_json_env_def)
  have packed: "outcome (PackStartCmd_collab sample_json_env) sample_run = Inr sample_packed"
    using sample_packed_eq by (simp add: PackStartCmd_collab_def PackPartCmd_def sample_json_env_def sample_run_def sample_collab_env_def)
  have len: "\<forall>t. collab_Marshal ?lib (SinkStart sample_packed) = Some t \<longrightarrow>
      length t + 1 < DSCHED_MAX_BUFFER_SIZE \<and> length t + 1 \<le> 65535 * (1024 - 512)"
    using sample_packed_text by (simp add: DSCHED_MAX_BUFFER_SIZE_def)
  have ad: "smap_find (sessions sample_adapter) (collabSession (self sample_run)) = Some (Some ?sb)" "env_ok 1024 sample_env"
      "smap_find (sessions sample_adapter) 5 = Some (Some ?sb)" "listeners_of sample_adapter COLLAB_DATA_TYPE = [8]"
    by (simp_all add: sample_run_def sample_adapter_def env_ok_def sample_env_def listeners_of_def COLLAB_DATA_TYPE_def)
  have sink: "smap_find (collabs sample_sink_mgr) (collabToken (collabInfo (self sample_run))) = Some sample_sink_collab"
      "collab_runner_accepts sample_json_env"
    by (simp_all add: sample_sink_mgr_def smap_find_def sample_collab_def new_collab_def sample_collab_info_def collab_runner_accepts_def
        sample_json_env_def sample_run_def sample_collab_env_def)
  show ?thesis
    by (rule collab_start_reaches_sink [OF table_lib_faithful [OF start_table_ok] speaks speaks packed sample_packed_sendable len ad(1,2)
      sample_adapter_inv ad(3,4) sample_sink_reachable sink(1) sample_sink_session sink(2)])
qed

end
