(* ===== verification/Parcel.thy ===== *)
theory Parcel
  imports Effects Ordered_Map
begin

text \<open>
  Parcels, the messages of the inter-process calls. The class is part of the IPC library, outside this
  repository: a parcel is a type variable \<open>'pc\<close> and the methods the code calls are the record \<open>parcel_lib\<close>,
  programs over the parcel. A method that writes returns whether it could; one that reads returns \<open>None\<close>
  when there is nothing to read. The mark is what \<^verbatim>\<open>WriteParcelable\<close> puts before an object.

  \<open>parcel_spec lib room holds\<close> is what the library documents: \<open>holds p xs\<close> says that the items \<open>xs\<close> are
  unread in \<open>p\<close>; a write succeeds and adds an item at the end as long as there is \<open>room\<close>, and a read of
  the right type takes the first item away.
\<close>

datatype parcel_item =
    PToken string
  | PInt int
  | PText string
  | PText16 "u16 list"
  | PTexts16 "u16 list list"
  | PObject nat
  | PMark

record 'pc parcel_lib =
  emptyParcel :: 'pc
  writeInterfaceToken :: "string \<Rightarrow> ('pc, bool) state"
  writeInt32 :: "int \<Rightarrow> ('pc, bool) state"
  writeString :: "string \<Rightarrow> ('pc, bool) state"
  writeString16 :: "u16 list \<Rightarrow> ('pc, bool) state"
  writeString16Vector :: "u16 list list \<Rightarrow> ('pc, bool) state"
  writeRemoteObject :: "nat \<Rightarrow> ('pc, bool) state"
  writeMark :: "('pc, bool) state"
  readInterfaceToken :: "('pc, string option) state"
  readInt32 :: "('pc, int option) state"
  readString :: "('pc, string option) state"
  readString16 :: "('pc, u16 list option) state"
  readString16Vector :: "('pc, u16 list list option) state"
  readRemoteObject :: "('pc, nat option) state"
  readMark :: "('pc, unit option) state"
  getReadableBytes :: "'pc \<Rightarrow> nat"
  str8ToStr16 :: "string \<Rightarrow> u16 list"
  str16ToStr8 :: "u16 list \<Rightarrow> string"
  ERR_FLATTEN_OBJECT :: ret
  ERR_NULL_PARCEL_OBJECT :: ret

text \<open>The methods without an out-parameter return a default when the read fails.\<close>

definition readInt32_or_0 :: "'pc parcel_lib \<Rightarrow> ('pc, int) state" where
  "readInt32_or_0 lib = do { v \<leftarrow> readInt32 lib; mreturn (case v of None \<Rightarrow> 0 | Some i \<Rightarrow> i) }"

definition readString16_or_empty :: "'pc parcel_lib \<Rightarrow> ('pc, u16 list) state" where
  "readString16_or_empty lib = do { v \<leftarrow> readString16 lib; mreturn (case v of None \<Rightarrow> [] | Some s \<Rightarrow> s) }"

definition WriteParcelable :: "'pc parcel_lib \<Rightarrow> ('pc, bool) state \<Rightarrow> ('pc, bool) state" where
  "WriteParcelable lib marshalling = do { ok \<leftarrow> writeMark lib; if ok then marshalling else mreturn False }"

definition ReadParcelable :: "'pc parcel_lib \<Rightarrow> ('pc, 'a option) state \<Rightarrow> ('pc, 'a option) state" where
  "ReadParcelable lib unmarshalling = do {
     mark \<leftarrow> readMark lib;
     case mark of None \<Rightarrow> mreturn None | Some _ \<Rightarrow> unmarshalling
   }"

subsection \<open>What the library promises\<close>

definition writes :: "(parcel_item list \<Rightarrow> bool) \<Rightarrow> ('pc \<Rightarrow> parcel_item list \<Rightarrow> bool) \<Rightarrow> ('pc, bool) state \<Rightarrow> parcel_item list \<Rightarrow> bool" where
  "writes room holds w xs \<longleftrightarrow>
     (\<forall>p ys. holds p ys \<and> room (ys @ xs) \<longrightarrow> outcome w p \<and> holds (exec w p) (ys @ xs))"

definition reads :: "('pc \<Rightarrow> parcel_item list \<Rightarrow> bool) \<Rightarrow> ('pc, 'a) state \<Rightarrow> parcel_item list \<Rightarrow> 'a \<Rightarrow> bool" where
  "reads holds r xs v \<longleftrightarrow> (\<forall>p ys. holds p (xs @ ys) \<longrightarrow> outcome r p = v \<and> holds (exec r p) ys)"

definition parcel_spec ::
    "'pc parcel_lib \<Rightarrow> (parcel_item list \<Rightarrow> bool) \<Rightarrow> ('pc \<Rightarrow> parcel_item list \<Rightarrow> bool) \<Rightarrow> bool" where
  "parcel_spec lib room holds \<longleftrightarrow>
     holds (emptyParcel lib) [] \<and> (\<forall>xs ys. room (xs @ ys) \<longrightarrow> room xs) \<and>
     (\<forall>t. writes room holds (writeInterfaceToken lib t) [PToken t] \<and> reads holds (readInterfaceToken lib) [PToken t] (Some t)) \<and>
     (\<forall>i. writes room holds (writeInt32 lib i) [PInt i] \<and> reads holds (readInt32 lib) [PInt i] (Some i)) \<and>
     (\<forall>s. writes room holds (writeString lib s) [PText s] \<and> reads holds (readString lib) [PText s] (Some s)) \<and>
     (\<forall>s. writes room holds (writeString16 lib s) [PText16 s] \<and> reads holds (readString16 lib) [PText16 s] (Some s)) \<and>
     (\<forall>ss. writes room holds (writeString16Vector lib ss) [PTexts16 ss] \<and> reads holds (readString16Vector lib) [PTexts16 ss] (Some ss)) \<and>
     (\<forall>n. writes room holds (writeRemoteObject lib n) [PObject n] \<and> reads holds (readRemoteObject lib) [PObject n] (Some n)) \<and>
     writes room holds (writeMark lib) [PMark] \<and> reads holds (readMark lib) [PMark] (Some ()) \<and>
     (\<forall>p xs. holds p xs \<longrightarrow> length xs \<le> getReadableBytes lib p)"

named_theorems parcel_rules \<open>what a sequence of parcel operations writes or reads\<close>

lemma parcel_writes:
  assumes "parcel_spec lib room holds"
  shows "writes room holds (writeInterfaceToken lib t) [PToken t]" "writes room holds (writeInt32 lib i) [PInt i]"
    "writes room holds (writeString lib s) [PText s]" "writes room holds (writeString16 lib w) [PText16 w]"
    "writes room holds (writeString16Vector lib ws) [PTexts16 ws]" "writes room holds (writeRemoteObject lib n) [PObject n]"
    "writes room holds (writeMark lib) [PMark]"
  using assms by (simp_all add: parcel_spec_def)

lemma parcel_reads:
  assumes "parcel_spec lib room holds"
  shows "reads holds (readInterfaceToken lib) [PToken t] (Some t)" "reads holds (readInt32 lib) [PInt i] (Some i)"
    "reads holds (readString lib) [PText s] (Some s)" "reads holds (readString16 lib) [PText16 w] (Some w)"
    "reads holds (readString16Vector lib) [PTexts16 ws] (Some ws)" "reads holds (readRemoteObject lib) [PObject n] (Some n)"
    "reads holds (readMark lib) [PMark] (Some ())"
  using assms by (simp_all add: parcel_spec_def)

lemma room_prefix: "parcel_spec lib room holds \<Longrightarrow> room (xs @ ys) \<Longrightarrow> room xs"
  by (auto simp: parcel_spec_def)

lemma readsD: "reads holds r xs v \<Longrightarrow> holds p (xs @ ys) \<Longrightarrow> outcome r p = v \<and> holds (exec r p) ys"
  by (simp add: reads_def)

lemma readsD_all: "reads holds r xs v \<Longrightarrow> holds p xs \<Longrightarrow> outcome r p = v"
  using readsD [of holds r xs v p "[]"] by simp

lemma writesD: "writes room holds w xs \<Longrightarrow> holds p ys \<Longrightarrow> room (ys @ xs) \<Longrightarrow> outcome w p \<and> holds (exec w p) (ys @ xs)"
  by (simp add: writes_def)

lemma writes_nil: "writes room holds (mreturn True) []"
  by (simp add: writes_def)

lemma reads_return: "reads holds (mreturn v) [] v"
  by (simp add: reads_def)

lemma reads_bind:
  assumes "reads holds r xs v" "reads holds (f v) ys u"
  shows "reads holds (State_Monad.bind r f) (xs @ ys) u"
  using assms by (auto simp: reads_def)

lemma reads_step:
  assumes "reads holds r [x] v" "reads holds (f v) ys u"
  shows "reads holds (State_Monad.bind r f) (x # ys) u"
  using reads_bind [of holds r "[x]" v f ys u] assms by simp

text \<open>A write whose result is used to go on, and one whose result is ignored.\<close>

lemma writes_bind:
  assumes spec: "parcel_spec lib room holds" and w: "writes room holds w xs" and f: "writes room holds (f True) ys"
  shows "writes room holds (State_Monad.bind w f) (xs @ ys)"
  unfolding writes_def
proof (intro allI impI)
  fix p zs
  assume a: "holds p zs \<and> room (zs @ xs @ ys)"
  then have "outcome w p \<and> holds (exec w p) (zs @ xs)"
    using writesD [OF w] room_prefix [OF spec, of "zs @ xs" ys] by auto
  then show "outcome (State_Monad.bind w f) p \<and> holds (exec (State_Monad.bind w f) p) (zs @ xs @ ys)"
    using writesD [OF f, of "exec w p" "zs @ xs"] a by simp
qed

lemma writes_step:
  assumes "parcel_spec lib room holds" "writes room holds w [x]" "writes room holds (f True) ys"
  shows "writes room holds (State_Monad.bind w f) (x # ys)"
  using writes_bind [of lib room holds w "[x]" f ys] assms by simp

lemma writes_parcelable:
  assumes "parcel_spec lib room holds" "writes room holds m xs"
  shows "writes room holds (WriteParcelable lib m) (PMark # xs)"
  unfolding WriteParcelable_def
  by (rule writes_step [OF assms(1) parcel_writes(7)]) (simp_all add: assms)

lemma reads_parcelable:
  assumes "parcel_spec lib room holds" "reads holds r xs v"
  shows "reads holds (ReadParcelable lib r) (PMark # xs) v"
  unfolding ReadParcelable_def
  by (rule reads_step [OF parcel_reads(7) [OF assms(1)]]) (simp_all add: assms)

lemma reads_int32_or_0:
  assumes "parcel_spec lib room holds"
  shows "reads holds (readInt32_or_0 lib) [PInt i] i"
  unfolding readInt32_or_0_def
  by (rule reads_step [OF parcel_reads(2) [OF assms]]) (simp_all add: assms reads_return)

lemma reads_string16_or_empty:
  assumes "parcel_spec lib room holds"
  shows "reads holds (readString16_or_empty lib) [PText16 s] s"
  unfolding readString16_or_empty_def
  by (rule reads_step [OF parcel_reads(4) [OF assms]]) (simp_all add: assms reads_return)

text \<open>A library whose parcels are the lists of their items, with room for \<open>n\<close> items.\<close>

definition list_write :: "nat \<Rightarrow> parcel_item \<Rightarrow> (parcel_item list, bool) state" where
  "list_write n x = do {
     p \<leftarrow> mget;
     if length p < n then do { mupd (\<lambda>p. p @ [x]); mreturn True } else mreturn False
   }"

definition list_read :: "(parcel_item \<Rightarrow> 'a option) \<Rightarrow> (parcel_item list, 'a option) state" where
  "list_read get = do {
     p \<leftarrow> mget;
     case p of
       [] \<Rightarrow> mreturn None
     | x # _ \<Rightarrow> (case get x of None \<Rightarrow> mreturn None | Some v \<Rightarrow> do { mupd tl; mreturn (Some v) })
   }"

definition list_parcels :: "nat \<Rightarrow> parcel_item list parcel_lib" where
  "list_parcels n =
     \<lparr>emptyParcel = [], writeInterfaceToken = (\<lambda>t. list_write n (PToken t)), writeInt32 = (\<lambda>i. list_write n (PInt i)),
      writeString = (\<lambda>s. list_write n (PText s)), writeString16 = (\<lambda>s. list_write n (PText16 s)),
      writeString16Vector = (\<lambda>ss. list_write n (PTexts16 ss)), writeRemoteObject = (\<lambda>k. list_write n (PObject k)),
      writeMark = list_write n PMark,
      readInterfaceToken = list_read (\<lambda>x. case x of PToken t \<Rightarrow> Some t | _ \<Rightarrow> None),
      readInt32 = list_read (\<lambda>x. case x of PInt i \<Rightarrow> Some i | _ \<Rightarrow> None),
      readString = list_read (\<lambda>x. case x of PText s \<Rightarrow> Some s | _ \<Rightarrow> None),
      readString16 = list_read (\<lambda>x. case x of PText16 s \<Rightarrow> Some s | _ \<Rightarrow> None),
      readString16Vector = list_read (\<lambda>x. case x of PTexts16 ss \<Rightarrow> Some ss | _ \<Rightarrow> None),
      readRemoteObject = list_read (\<lambda>x. case x of PObject k \<Rightarrow> Some k | _ \<Rightarrow> None),
      readMark = list_read (\<lambda>x. case x of PMark \<Rightarrow> Some () | _ \<Rightarrow> None),
      getReadableBytes = (\<lambda>p. 4 * length p),
      str8ToStr16 = map (\<lambda>c. word_of_nat (of_char c)), str16ToStr8 = map (\<lambda>w. char_of (unat w)),
      ERR_FLATTEN_OBJECT = 5, ERR_NULL_PARCEL_OBJECT = 22\<rparr>"

lemma list_write_writes: "writes (\<lambda>xs. length xs \<le> n) (=) (list_write n x) [x]"
  by (auto simp: writes_def list_write_def)

lemma list_read_reads: "get x = Some v \<Longrightarrow> reads (=) (list_read get) [x] (Some v)"
  by (simp add: reads_def list_read_def)

lemma list_parcels_spec: "parcel_spec (list_parcels n) (\<lambda>xs. length xs \<le> n) (=)"
  by (simp add: parcel_spec_def list_parcels_def list_write_writes list_read_reads)

lemma list_parcels_text [simp]: "str16ToStr8 (list_parcels n) (str8ToStr16 (list_parcels n) s) = s"
proof -
  have "char_of (unat (word_of_nat (of_char c) :: u16)) = c" for c
  proof -
    have "(of_char c :: nat) < 65536"
      by (rule less_trans [OF nat_of_char_less_256]) simp
    then show ?thesis
      by (simp add: unat_of_nat)
  qed
  then show ?thesis
    by (simp add: list_parcels_def comp_def)
qed

end
