(* ===== verification/Selection_Types.thy ===== *)
theory Selection_Types
  imports Parcel
begin

text \<open>
  The data of the device selection (\<^verbatim>\<open>services/dtbabilitymgr\<close>): the extra parameters of a request, the devices
  the user selected, the connection status an application reports, and how they travel in parcels
  (\<^verbatim>\<open>src/continuation_manager\<close>). An \<^verbatim>\<open>enum class\<close> may hold any \<^verbatim>\<open>int32_t\<close> that was cast to it, so that modes and
  statuses are integers.
\<close>

record extra_params =
  deviceTypeVec :: "string list"
  targetBundle :: string
  description :: string
  paramFilter :: string
  continuationMode :: int
  authInfo :: string

record continuation_result =
  resDeviceId :: string
  resDeviceType :: string
  resDeviceName :: string

record connect_status_info =
  statusDeviceId :: string
  deviceConnectStatus :: int

abbreviation VALUE_NULL :: int where "VALUE_NULL \<equiv> -1"
abbreviation VALUE_OBJECT :: int where "VALUE_OBJECT \<equiv> 1"

abbreviation COLLABORATION_SINGLE :: int where "COLLABORATION_SINGLE \<equiv> 0"
abbreviation COLLABORATION_MUTIPLE :: int where "COLLABORATION_MUTIPLE \<equiv> 1"

abbreviation DEVICE_IDLE :: int where "DEVICE_IDLE \<equiv> 0"
abbreviation DEVICE_DISCONNECTING :: int where "DEVICE_DISCONNECTING \<equiv> 3"

subsection \<open>Extra parameters\<close>

definition Str8VecToStr16Vec :: "'pc parcel_lib \<Rightarrow> string list \<Rightarrow> u16 list list" where
  "Str8VecToStr16Vec lib input = map (str8ToStr16 lib) input"

definition Str16VecToStr8Vec :: "'pc parcel_lib \<Rightarrow> u16 list list \<Rightarrow> string list" where
  "Str16VecToStr8Vec lib input = map (str16ToStr8 lib) input"

definition ExtraParams_Marshalling :: "'pc parcel_lib \<Rightarrow> extra_params \<Rightarrow> ('pc, bool) state" where
  "ExtraParams_Marshalling lib e = do {
     _ \<leftarrow> writeString16Vector lib (Str8VecToStr16Vec lib (deviceTypeVec e));
     _ \<leftarrow> writeString16 lib (str8ToStr16 lib (targetBundle e));
     _ \<leftarrow> writeString16 lib (str8ToStr16 lib (description e));
     _ \<leftarrow> writeString16 lib (str8ToStr16 lib (paramFilter e));
     _ \<leftarrow> writeInt32 lib (continuationMode e);
     _ \<leftarrow> writeString16 lib (str8ToStr16 lib (authInfo e));
     mreturn True
   }"

definition ExtraParams_Unmarshalling :: "'pc parcel_lib \<Rightarrow> ('pc, extra_params option) state" where
  "ExtraParams_Unmarshalling lib = do {
     types \<leftarrow> readString16Vector lib;
     case types of
       None \<Rightarrow> mreturn None
     | Some deviceTypes \<Rightarrow> do {
         bundle \<leftarrow> readString16_or_empty lib;
         descr \<leftarrow> readString16_or_empty lib;
         filt \<leftarrow> readString16_or_empty lib;
         mode \<leftarrow> readInt32_or_0 lib;
         auth \<leftarrow> readString16_or_empty lib;
         mreturn (Some \<lparr>deviceTypeVec = Str16VecToStr8Vec lib deviceTypes, targetBundle = str16ToStr8 lib bundle,
           description = str16ToStr8 lib descr, paramFilter = str16ToStr8 lib filt, continuationMode = mode,
           authInfo = str16ToStr8 lib auth\<rparr>)
       }
   }"

subsection \<open>Selected devices\<close>

definition Result_Marshalling :: "'pc parcel_lib \<Rightarrow> continuation_result \<Rightarrow> ('pc, bool) state" where
  "Result_Marshalling lib r = do {
     _ \<leftarrow> writeString16 lib (str8ToStr16 lib (resDeviceId r));
     _ \<leftarrow> writeString16 lib (str8ToStr16 lib (resDeviceType r));
     _ \<leftarrow> writeString16 lib (str8ToStr16 lib (resDeviceName r));
     mreturn True
   }"

definition Result_Unmarshalling :: "'pc parcel_lib \<Rightarrow> ('pc, continuation_result option) state" where
  "Result_Unmarshalling lib = do {
     devId \<leftarrow> readString16_or_empty lib;
     devType \<leftarrow> readString16_or_empty lib;
     devName \<leftarrow> readString16_or_empty lib;
     mreturn (Some \<lparr>resDeviceId = str16ToStr8 lib devId, resDeviceType = str16ToStr8 lib devType,
       resDeviceName = str16ToStr8 lib devName\<rparr>)
   }"

fun write_results :: "'pc parcel_lib \<Rightarrow> continuation_result list \<Rightarrow> ('pc, bool) state" where
  "write_results lib [] = mreturn True"
| "write_results lib (r # rs) = do {
     ok \<leftarrow> WriteParcelable lib (Result_Marshalling lib r);
     if ok then write_results lib rs else mreturn False
   }"

text \<open>\<^verbatim>\<open>static_cast<int32_t>\<close> of a \<^verbatim>\<open>size_t\<close>.\<close>

definition int32_of_size :: "nat \<Rightarrow> int" where
  "int32_of_size n = sint (word_of_nat n :: 32 word)"

definition WriteContinuationResultsToParcel :: "'pc parcel_lib \<Rightarrow> continuation_result list \<Rightarrow> ('pc, bool) state" where
  "WriteContinuationResultsToParcel lib results =
     (if results = [] then writeInt32 lib VALUE_NULL
      else do {
        ok \<leftarrow> writeInt32 lib VALUE_OBJECT;
        if \<not> ok then mreturn False
        else do {
          ok' \<leftarrow> writeInt32 lib (int32_of_size (length results));
          if \<not> ok' then mreturn False else write_results lib results
        }
      })"

fun read_results :: "'pc parcel_lib \<Rightarrow> nat \<Rightarrow> ('pc, continuation_result list option) state" where
  "read_results lib 0 = mreturn (Some [])"
| "read_results lib (Suc n) = do {
     r \<leftarrow> ReadParcelable lib (Result_Unmarshalling lib);
     case r of
       None \<Rightarrow> mreturn None
     | Some x \<Rightarrow> do {
         rest \<leftarrow> read_results lib n;
         mreturn (case rest of None \<Rightarrow> None | Some xs \<Rightarrow> Some (x # xs))
       }
   }"

text \<open>\<^verbatim>\<open>max_size\<close> of the vector is beyond every \<^verbatim>\<open>int32_t\<close>, so that its check never fails.\<close>

definition ReadContinuationResultsFromParcel :: "'pc parcel_lib \<Rightarrow> ('pc, continuation_result list option) state" where
  "ReadContinuationResultsFromParcel lib = do {
     empty \<leftarrow> readInt32_or_0 lib;
     if empty \<noteq> VALUE_OBJECT then mreturn (Some [])
     else do {
       len \<leftarrow> readInt32_or_0 lib;
       if len < 0 then mreturn None
       else do {
         p \<leftarrow> mget;
         if nat len > getReadableBytes lib p then mreturn None else read_results lib (nat len)
       }
     }
   }"

subsection \<open>What travels arrives\<close>

definition texts_travel :: "'pc parcel_lib \<Rightarrow> string list \<Rightarrow> bool" where
  "texts_travel lib ss \<longleftrightarrow> (\<forall>s\<in>set ss. str16ToStr8 lib (str8ToStr16 lib s) = s)"

definition params_texts :: "extra_params \<Rightarrow> string list" where
  "params_texts e = deviceTypeVec e @ [targetBundle e, description e, paramFilter e, authInfo e]"

definition result_texts :: "continuation_result \<Rightarrow> string list" where
  "result_texts r = [resDeviceId r, resDeviceType r, resDeviceName r]"

definition params_items :: "'pc parcel_lib \<Rightarrow> extra_params \<Rightarrow> parcel_item list" where
  "params_items lib e = [PTexts16 (map (str8ToStr16 lib) (deviceTypeVec e)), PText16 (str8ToStr16 lib (targetBundle e)),
     PText16 (str8ToStr16 lib (description e)), PText16 (str8ToStr16 lib (paramFilter e)), PInt (continuationMode e),
     PText16 (str8ToStr16 lib (authInfo e))]"

definition result_items :: "'pc parcel_lib \<Rightarrow> continuation_result \<Rightarrow> parcel_item list" where
  "result_items lib r = PMark # map (\<lambda>s. PText16 (str8ToStr16 lib s)) (result_texts r)"

definition results_items :: "'pc parcel_lib \<Rightarrow> continuation_result list \<Rightarrow> parcel_item list" where
  "results_items lib rs =
     (if rs = [] then [PInt VALUE_NULL]
      else PInt VALUE_OBJECT # PInt (int32_of_size (length rs)) # concat (map (result_items lib) rs))"

lemma ExtraParams_writes:
  assumes "parcel_spec lib room holds"
  shows "writes room holds (ExtraParams_Marshalling lib e) (params_items lib e)"
  unfolding ExtraParams_Marshalling_def params_items_def Str8VecToStr16Vec_def
  by (intro writes_step [OF assms] parcel_writes [OF assms] writes_nil)

lemma ExtraParams_reads:
  assumes spec: "parcel_spec lib room holds" and t: "texts_travel lib (params_texts e)"
  shows "reads holds (ExtraParams_Unmarshalling lib) (params_items lib e) (Some e)"
proof -
  have "map (str16ToStr8 lib \<circ> str8ToStr16 lib) (deviceTypeVec e) = deviceTypeVec e"
    using t by (intro map_idI) (simp add: texts_travel_def params_texts_def)
  then have e: "Some e = Some \<lparr>deviceTypeVec = Str16VecToStr8Vec lib (map (str8ToStr16 lib) (deviceTypeVec e)),
      targetBundle = str16ToStr8 lib (str8ToStr16 lib (targetBundle e)),
      description = str16ToStr8 lib (str8ToStr16 lib (description e)), paramFilter = str16ToStr8 lib (str8ToStr16 lib (paramFilter e)),
      continuationMode = continuationMode e, authInfo = str16ToStr8 lib (str8ToStr16 lib (authInfo e))\<rparr>"
    using t by (simp add: texts_travel_def params_texts_def Str16VecToStr8Vec_def)
  show ?thesis
    unfolding ExtraParams_Unmarshalling_def params_items_def e
    apply (rule reads_step [OF parcel_reads(5) [OF spec]], unfold option.case)
    apply (intro reads_step [OF reads_string16_or_empty [OF spec]] reads_step [OF reads_int32_or_0 [OF spec]] reads_return)
    done
qed

lemma Result_writes:
  assumes "parcel_spec lib room holds"
  shows "writes room holds (WriteParcelable lib (Result_Marshalling lib r)) (result_items lib r)"
  unfolding Result_Marshalling_def result_items_def result_texts_def list.map
  by (intro writes_parcelable writes_step [OF assms] parcel_writes [OF assms] writes_nil assms)

lemma Result_reads:
  assumes spec: "parcel_spec lib room holds" and t: "texts_travel lib (result_texts r)"
  shows "reads holds (ReadParcelable lib (Result_Unmarshalling lib)) (result_items lib r) (Some r)"
proof -
  have e: "Some r = Some \<lparr>resDeviceId = str16ToStr8 lib (str8ToStr16 lib (resDeviceId r)),
      resDeviceType = str16ToStr8 lib (str8ToStr16 lib (resDeviceType r)),
      resDeviceName = str16ToStr8 lib (str8ToStr16 lib (resDeviceName r))\<rparr>"
    using t by (simp add: texts_travel_def result_texts_def)
  show ?thesis
    unfolding Result_Unmarshalling_def result_items_def result_texts_def list.map e
    by (intro reads_parcelable [OF spec] reads_step [OF reads_string16_or_empty [OF spec]] reads_return)
qed

lemma write_results_writes:
  assumes spec: "parcel_spec lib room holds"
  shows "writes room holds (write_results lib rs) (concat (map (result_items lib) rs))"
proof (induction rs)
  case (Cons r rs)
  show ?case
    unfolding write_results.simps list.map concat.simps
    by (rule writes_bind [OF spec Result_writes [OF spec]]) (simp add: Cons.IH)
qed (simp add: writes_nil)

lemma read_results_reads:
  assumes spec: "parcel_spec lib room holds" and t: "\<forall>r\<in>set rs. texts_travel lib (result_texts r)"
  shows "reads holds (read_results lib (length rs)) (concat (map (result_items lib) rs)) (Some rs)"
  using t
proof (induction rs)
  case (Cons r rs)
  have "reads holds (do { rest \<leftarrow> read_results lib (length rs); mreturn (case rest of None \<Rightarrow> None | Some xs \<Rightarrow> Some (r # xs)) })
      (concat (map (result_items lib) rs) @ []) (Some (r # rs))"
    using Cons by (intro reads_bind) (auto simp: reads_return)
  then show ?case
    using Cons.prems unfolding list.size(4) add_Suc_right add_0_right read_results.simps list.map concat.simps
    by (intro reads_bind [OF Result_reads [OF spec]]) simp_all
qed (simp add: reads_return)

lemma int32_of_size: "n < 2 ^ 31 \<Longrightarrow> int32_of_size n = int n"
  by (simp add: int32_of_size_def signed_of_nat signed_take_bit_int_eq_self)

lemma results_writes:
  assumes spec: "parcel_spec lib room holds"
  shows "writes room holds (WriteContinuationResultsToParcel lib rs) (results_items lib rs)"
proof (cases "rs = []")
  case False
  show ?thesis
    unfolding WriteContinuationResultsToParcel_def results_items_def if_not_P [OF False]
    apply (rule writes_step [OF spec parcel_writes(2) [OF spec]], unfold not_True_eq_False if_False)
    apply (rule writes_step [OF spec parcel_writes(2) [OF spec]])
    apply (simp add: write_results_writes [OF spec])
    done
qed (simp add: WriteContinuationResultsToParcel_def results_items_def parcel_writes [OF spec])


lemma length_result_items: "length (concat (map (result_items lib) rs)) = 4 * length rs"
  by (induction rs) (simp_all add: result_items_def result_texts_def)

lemma results_reads:
  assumes spec: "parcel_spec lib room holds" and t: "\<forall>r\<in>set rs. texts_travel lib (result_texts r)" and n: "length rs < 2 ^ 31"
  shows "reads holds (ReadContinuationResultsFromParcel lib) (results_items lib rs) (Some rs)"
proof (cases "rs = []")
  case True
  show ?thesis
    unfolding ReadContinuationResultsFromParcel_def True results_items_def if_P [OF refl]
    by (rule reads_step [OF reads_int32_or_0 [OF spec]]) (simp add: reads_return)
next
  case False
  have body: "reads holds (do { p \<leftarrow> mget; if length rs > getReadableBytes lib p then mreturn None else read_results lib (length rs) })
      (concat (map (result_items lib) rs)) (Some rs)"
    unfolding reads_def
  proof (intro allI impI)
    fix p ys
    assume h: "holds p (concat (map (result_items lib) rs) @ ys)"
    then have "length rs \<le> getReadableBytes lib p"
      using spec length_result_items [of lib rs] by (fastforce simp: parcel_spec_def)
    then show "outcome (do { p \<leftarrow> mget; if length rs > getReadableBytes lib p then mreturn None else read_results lib (length rs) }) p = Some rs \<and>
        holds (exec (do { p \<leftarrow> mget; if length rs > getReadableBytes lib p then mreturn None else read_results lib (length rs) }) p) ys"
      using readsD [OF read_results_reads [OF spec t] h] by simp
  qed
  show ?thesis
    unfolding ReadContinuationResultsFromParcel_def results_items_def if_not_P [OF False] int32_of_size [OF n]
    apply (rule reads_step [OF reads_int32_or_0 [OF spec]], simp)
    apply (rule reads_step [OF reads_int32_or_0 [OF spec]], simp add: body cong: if_cong)
    done
qed

end
