(* ===== verification/Device_Selection.thy ===== *)
theory Device_Selection
  imports Selection_Types
begin

text \<open>
  \<^verbatim>\<open>DistributedAbilityManagerService\<close> (\<^verbatim>\<open>services/dtbabilitymgr/src/distributed_ability_manager_service.cpp\<close>): an
  application registers and gets a token, registers its callbacks for the token, and starts the device
  manager, the window in which the user selects devices; the window is an ability to which the service
  connects. Remote objects are identified by numbers, the caller by its access token. The queue
  \<^verbatim>\<open>continuationHandler_\<close> is the list \<open>selQueue\<close> of the tasks that were submitted, each with the values its
  closure captured. Calls to other processes are logged in \<open>selCalls\<close>. \<open>callbackMap\<close> only ever holds objects, so
  that the null checks on its values have no counterpart.
\<close>

abbreviation MAX_TOKEN_NUM :: int where "MAX_TOKEN_NUM \<equiv> 100000000"
abbreviation MAX_REGISTER_NUM :: nat where "MAX_REGISTER_NUM \<equiv> 600"
abbreviation START_DEVICE_MANAGER_CODE :: nat where "START_DEVICE_MANAGER_CODE \<equiv> 1"
abbreviation UPDATE_CONNECT_STATUS_CODE :: nat where "UPDATE_CONNECT_STATUS_CODE \<equiv> 2"
definition HIPLAY_PANEL_INTERFACE_TOKEN :: string where "HIPLAY_PANEL_INTERFACE_TOKEN = ''ohos.hiplay.panel''"
definition EVENT_CONNECT :: string where "EVENT_CONNECT = ''deviceSelected''"
definition EVENT_DISCONNECT :: string where "EVENT_DISCONNECT = ''deviceUnselected''"

abbreviation SELECTION_INVALID_PARAMETERS :: ret where "SELECTION_INVALID_PARAMETERS \<equiv> 29360128"
abbreviation REGISTER_EXCEED_MAX_TIMES :: ret where "REGISTER_EXCEED_MAX_TIMES \<equiv> 29360207"
abbreviation TOKEN_HAS_NOT_REGISTERED :: ret where "TOKEN_HAS_NOT_REGISTERED \<equiv> 29360208"
abbreviation CALLBACK_HAS_REGISTERED :: ret where "CALLBACK_HAS_REGISTERED \<equiv> 29360209"
abbreviation CALLBACK_HAS_NOT_REGISTERED :: ret where "CALLBACK_HAS_NOT_REGISTERED \<equiv> 29360210"
abbreviation CONNECT_ABILITY_FAILED :: ret where "CONNECT_ABILITY_FAILED \<equiv> 29360211"
abbreviation DISCONNECT_ABILITY_FAILED :: ret where "DISCONNECT_ABILITY_FAILED \<equiv> 29360212"
abbreviation UNKNOWN_CALLBACK_TYPE :: ret where "UNKNOWN_CALLBACK_TYPE \<equiv> 29360214"
abbreviation INVALID_CONNECT_STATUS :: ret where "INVALID_CONNECT_STATUS \<equiv> 29360215"
abbreviation INVALID_CONTINUATION_MODE :: ret where "INVALID_CONTINUATION_MODE \<equiv> 29360216"

subsection \<open>The callbacks of a token (\<^verbatim>\<open>NotifierInfo\<close>)\<close>

record notifier_info =
  notifierMap :: "(string, nat) smap"
  connectStatusInfo :: "connect_status_info option"

definition new_NotifierInfo :: notifier_info where
  "new_NotifierInfo = \<lparr>notifierMap = [], connectStatusInfo = None\<rparr>"

definition GetNotifier :: "string \<Rightarrow> notifier_info \<Rightarrow> nat option" where
  "GetNotifier cbType i = smap_find (notifierMap i) cbType"

definition SetNotifier :: "string \<Rightarrow> nat \<Rightarrow> notifier_info \<Rightarrow> notifier_info" where
  "SetNotifier cbType notifier i = i\<lparr>notifierMap := smap_put cbType notifier (notifierMap i)\<rparr>"

definition DeleteNotifier :: "string \<Rightarrow> notifier_info \<Rightarrow> notifier_info" where
  "DeleteNotifier cbType i = i\<lparr>notifierMap := smap_erase cbType (notifierMap i)\<rparr>"

definition QueryNotifier :: "nat \<Rightarrow> notifier_info \<Rightarrow> bool" where
  "QueryNotifier notifier i = list_ex (\<lambda>(_, n). n = notifier) (notifierMap i)"

definition IsNotifierMapEmpty :: "notifier_info \<Rightarrow> bool" where
  "IsNotifierMapEmpty i \<longleftrightarrow> notifierMap i = []"

text \<open>The objects from which \<^verbatim>\<open>RemoveDeathRecipient\<close> removes the recipient; no type given means all.\<close>

definition RemoveDeathRecipient_targets :: "string \<Rightarrow> notifier_info \<Rightarrow> nat list" where
  "RemoveDeathRecipient_targets cbType i =
     (if cbType = [] then map snd (notifierMap i)
      else case smap_find (notifierMap i) cbType of None \<Rightarrow> [] | Some n \<Rightarrow> [n])"

subsection \<open>State and environment\<close>

record app_connection =
  connToken :: int
  connParams :: "extra_params option"

datatype sel_task =
    TaskDisconnectAbility
  | TaskDeviceConnect nat "continuation_result list"
  | TaskDeviceDisconnect nat "continuation_result list"
  | TaskStartDeviceManager int "extra_params option" "nat option"
  | TaskUpdateConnectStatus int string int "nat option"
  | TaskNotifierDied nat

datatype 'pc sel_call =
    CallAddDeathRecipient nat
  | CallRemoveDeathRecipient nat
  | CallConnectAbility app_connection int
  | CallDisconnectAbility app_connection
  | CallSendRequest nat nat 'pc

record 'pc sel_state =
  tokenCounter :: int
  tokenParameter :: string
  tokenMap :: "(u32, int list) smap"
  callbackMap :: "(int, notifier_info) smap"
  appConnect :: "app_connection option"
  appProxy :: "nat option"
  selHandler :: bool
  selQueue :: "sel_task list"
  selCalls :: "'pc sel_call list"

record 'pc sel_env =
  parcels :: "'pc parcel_lib"
  osAccountPart :: bool
  activeOsAccounts :: "ret \<times> int list"
  samgrFound :: bool
  bmsFound :: bool
  bmsCast :: bool
  extensionAbilityInfos :: "int \<Rightarrow> (string \<times> string) list"
  amsConnectRet :: ret
  amsConnectAbilityRet :: ret
  amsDisconnectAbilityRet :: ret
  deviceCallbackStub :: nat
  tokenDenied :: "u32 \<Rightarrow> string \<Rightarrow> bool"
  defaultRequestRet :: "nat \<Rightarrow> ret"
  abilityConnectionDescriptor :: string
  elementUnmarshalling :: "('pc, unit option) state"
  ON_ABILITY_CONNECT_DONE :: nat
  ON_ABILITY_DISCONNECT_DONE :: nat
  SEL_ERR_INVALID_STATE :: ret
  SEL_ERR_INVALID_VALUE :: ret
  SEL_ERR_INVALID_DATA :: ret

type_synonym ('pc, 'a) sprog = "('pc sel_state, 'a) state"

definition sel_log :: "'pc sel_call \<Rightarrow> ('pc, unit) sprog" where
  "sel_log c = mupd (\<lambda>s. s\<lparr>selCalls := selCalls s @ [c]\<rparr>)"

definition sel_submit :: "sel_task \<Rightarrow> ('pc, unit) sprog" where
  "sel_submit t = mupd (\<lambda>s. s\<lparr>selQueue := selQueue s @ [t]\<rparr>)"

definition remove_recipients :: "nat list \<Rightarrow> ('pc, unit) sprog" where
  "remove_recipients ns = mupd (\<lambda>s. s\<lparr>selCalls := selCalls s @ map CallRemoveDeathRecipient ns\<rparr>)"

subsection \<open>Start\<close>

text \<open>\<^verbatim>\<open>std::atoi\<close>: white space, a sign, and the digits that follow.\<close>

definition is_space :: "char \<Rightarrow> bool" where
  "is_space c \<longleftrightarrow> of_char c \<in> {9, 10, 11, 12, 13, 32 :: nat}"

definition is_digit :: "char \<Rightarrow> bool" where
  "is_digit c \<longleftrightarrow> 48 \<le> (of_char c :: nat) \<and> (of_char c :: nat) \<le> 57"

fun digits_value :: "int \<Rightarrow> string \<Rightarrow> int" where
  "digits_value a [] = a"
| "digits_value a (c # cs) = (if is_digit c then digits_value (10 * a + (of_char c - 48)) cs else a)"

definition atoi :: "string \<Rightarrow> int" where
  "atoi s = (case dropWhile is_space s of
     [] \<Rightarrow> 0
   | c # cs \<Rightarrow> if c = CHR ''-'' then - digits_value 0 cs else if c = CHR ''+'' then digits_value 0 cs else digits_value 0 (c # cs))"

definition init_sel_state :: "string \<Rightarrow> 'pc sel_state" where
  "init_sel_state parameter =
     \<lparr>tokenCounter = 0, tokenParameter = parameter, tokenMap = [], callbackMap = [], appConnect = None, appProxy = None,
      selHandler = False, selQueue = [], selCalls = []\<rparr>"

definition OnStart :: "('pc, unit) sprog" where
  "OnStart = do {
     s \<leftarrow> mget;
     (if tokenParameter s \<noteq> [] then mupd (\<lambda>s. s\<lparr>tokenCounter := atoi (tokenParameter s)\<rparr>) else mreturn ());
     mupd (\<lambda>s. s\<lparr>selHandler := True\<rparr>)
   }"

subsection \<open>Checks\<close>

definition IsExceededRegisterMaxNum :: "u32 \<Rightarrow> 'pc sel_state \<Rightarrow> bool" where
  "IsExceededRegisterMaxNum accessToken s =
     (case smap_find (tokenMap s) accessToken of None \<Rightarrow> False | Some ts \<Rightarrow> length ts \<ge> MAX_REGISTER_NUM)"

definition IsContinuationModeValid :: "int \<Rightarrow> bool" where
  "IsContinuationModeValid mode \<longleftrightarrow> \<not> (mode < COLLABORATION_SINGLE \<or> mode > COLLABORATION_MUTIPLE)"

definition IsConnectStatusValid :: "int \<Rightarrow> bool" where
  "IsConnectStatusValid st \<longleftrightarrow> \<not> (st < DEVICE_IDLE \<or> st > DEVICE_DISCONNECTING)"

definition IsTokenRegistered :: "u32 \<Rightarrow> int \<Rightarrow> 'pc sel_state \<Rightarrow> bool" where
  "IsTokenRegistered accessToken token s =
     (case smap_find (tokenMap s) accessToken of None \<Rightarrow> False | Some ts \<Rightarrow> token \<in> set ts)"

definition IsNotifierRegistered :: "int \<Rightarrow> 'pc sel_state \<Rightarrow> bool" where
  "IsNotifierRegistered token s \<longleftrightarrow> smap_find (callbackMap s) token \<noteq> None"

definition IsNotifierRegisteredLocked :: "int \<Rightarrow> string \<Rightarrow> 'pc sel_state \<Rightarrow> bool" where
  "IsNotifierRegisteredLocked token cbType s =
     (case smap_find (callbackMap s) token of None \<Rightarrow> False | Some i \<Rightarrow> GetNotifier cbType i \<noteq> None)"

definition params_valid :: "extra_params option \<Rightarrow> bool" where
  "params_valid p = (case p of None \<Rightarrow> True | Some e \<Rightarrow> IsContinuationModeValid (continuationMode e))"

subsection \<open>The connection to the window\<close>

definition DisconnectAbility :: "'pc sel_env \<Rightarrow> ('pc, ret) sprog" where
  "DisconnectAbility env = do {
     s \<leftarrow> mget;
     case appConnect s of
       None \<Rightarrow> mreturn (ERR_NULL_PARCEL_OBJECT (parcels env))
     | Some conn \<Rightarrow>
         if amsConnectRet env \<noteq> ERR_OK then mreturn (amsConnectRet env)
         else do {
           sel_log (CallDisconnectAbility conn);
           mupd (\<lambda>s. s\<lparr>appConnect := None\<rparr>);
           if amsDisconnectAbilityRet env \<noteq> ERR_OK then mreturn DISCONNECT_ABILITY_FAILED else mreturn ERR_OK
         }
   }"

definition HandleDisconnectAbility :: "('pc, bool) sprog" where
  "HandleDisconnectAbility = do {
     s \<leftarrow> mget;
     if \<not> selHandler s then mreturn False
     else do { sel_submit TaskDisconnectAbility; mreturn True }
   }"

definition QueryExtensionAbilityInfo :: "'pc sel_env \<Rightarrow> int \<Rightarrow> bool" where
  "QueryExtensionAbilityInfo env osAccount =
     (if \<not> samgrFound env \<or> \<not> bmsFound env \<or> \<not> bmsCast env then False
      else case extensionAbilityInfos env osAccount of
        [] \<Rightarrow> False
      | (bundleName, name) # _ \<Rightarrow> \<not> (bundleName = [] \<or> name = []))"

definition connect_with_account :: "'pc sel_env \<Rightarrow> int \<Rightarrow> int \<Rightarrow> extra_params option \<Rightarrow> ('pc, ret) sprog" where
  "connect_with_account env osAccount token params =
     (if \<not> QueryExtensionAbilityInfo env osAccount then mreturn CONNECT_ABILITY_FAILED
      else do {
        mupd (\<lambda>s. if appConnect s = None then s\<lparr>appConnect := Some \<lparr>connToken = token, connParams = params\<rparr>\<rparr> else s);
        if amsConnectRet env \<noteq> ERR_OK then mreturn (amsConnectRet env)
        else do {
          s \<leftarrow> mget;
          sel_log (CallConnectAbility (the (appConnect s)) osAccount);
          if amsConnectAbilityRet env \<noteq> ERR_OK
          then do { mupd (\<lambda>s. s\<lparr>appConnect := None\<rparr>); mreturn CONNECT_ABILITY_FAILED }
          else mreturn ERR_OK
        }
      })"

definition ConnectAbility :: "'pc sel_env \<Rightarrow> int \<Rightarrow> extra_params option \<Rightarrow> ('pc, ret) sprog" where
  "ConnectAbility env token params =
     (if osAccountPart env
      then (case activeOsAccounts env of (r, ids) \<Rightarrow>
        if r \<noteq> ERR_OK \<or> ids = [] then mreturn SELECTION_INVALID_PARAMETERS else connect_with_account env (hd ids) token params)
      else connect_with_account env (-1) token params)"

definition HandleStartDeviceManager :: "int \<Rightarrow> extra_params option \<Rightarrow> ('pc, unit) sprog" where
  "HandleStartDeviceManager token params = do {
     s \<leftarrow> mget;
     if \<not> selHandler s then mreturn () else sel_submit (TaskStartDeviceManager token params (appProxy s))
   }"

definition HandleUpdateConnectStatus :: "int \<Rightarrow> string \<Rightarrow> int \<Rightarrow> ('pc, unit) sprog" where
  "HandleUpdateConnectStatus token deviceId st = do {
     s \<leftarrow> mget;
     if \<not> selHandler s then mreturn () else sel_submit (TaskUpdateConnectStatus token deviceId st (appProxy s))
   }"

definition ScheduleStartDeviceManager :: "nat option \<Rightarrow> int \<Rightarrow> extra_params option \<Rightarrow> ('pc, unit) sprog" where
  "ScheduleStartDeviceManager proxy token params = do {
     mupd (\<lambda>s. s\<lparr>appProxy := proxy\<rparr>);
     if proxy = None then mreturn () else HandleStartDeviceManager token params
   }"

text \<open>What the ability manager calls on the connection object it was given.\<close>

definition OnAbilityConnectDone :: "app_connection \<Rightarrow> nat \<Rightarrow> ('pc, unit) sprog" where
  "OnAbilityConnectDone conn remoteObject = ScheduleStartDeviceManager (Some remoteObject) (connToken conn) (connParams conn)"

definition OnAbilityDisconnectDone :: "app_connection \<Rightarrow> ('pc, unit) sprog" where
  "OnAbilityDisconnectDone conn = ScheduleStartDeviceManager None (connToken conn) (connParams conn)"

subsection \<open>Operations of the applications\<close>

definition Register :: "u32 \<Rightarrow> extra_params option \<Rightarrow> ('pc, ret \<times> int) sprog" where
  "Register accessToken params =
     (if \<not> params_valid params then mreturn (INVALID_CONTINUATION_MODE, -1)
      else do {
        s \<leftarrow> mget;
        if IsExceededRegisterMaxNum accessToken s then mreturn (REGISTER_EXCEED_MAX_TIMES, -1)
        else let tToken = (if tokenCounter s + 1 > MAX_TOKEN_NUM then 1 else tokenCounter s + 1) in do {
          mupd (\<lambda>s. s\<lparr>tokenCounter := tToken, tokenParameter := to_string tToken\<rparr>);
          mupd (\<lambda>s. s\<lparr>tokenMap := smap_put accessToken
            ((case smap_find (tokenMap s) accessToken of None \<Rightarrow> [] | Some ts \<Rightarrow> ts) @ [tToken]) (tokenMap s)\<rparr>);
          mreturn (ERR_OK, tToken)
        }
      })"

text \<open>The loop over \<^verbatim>\<open>tokenMap_\<close>: it stops behind the first entry that becomes empty.\<close>

fun drop_token :: "int \<Rightarrow> (u32, int list) smap \<Rightarrow> (u32, int list) smap" where
  "drop_token token [] = []"
| "drop_token token ((a, ts) # m) =
     (let ts' = filter (\<lambda>n. n \<noteq> token) ts in if ts' = [] then m else (a, ts') # drop_token token m)"

text \<open>What \<^verbatim>\<open>Unregister\<close> and \<^verbatim>\<open>HandleNotifierDied\<close> do to the maps.\<close>

definition forget_token :: "int \<Rightarrow> ('pc, unit) sprog" where
  "forget_token token = do {
     s \<leftarrow> mget;
     (case smap_find (callbackMap s) token of
       None \<Rightarrow> mreturn ()
     | Some i \<Rightarrow> do {
         remove_recipients (RemoveDeathRecipient_targets [] i);
         mupd (\<lambda>s. s\<lparr>callbackMap := smap_erase token (callbackMap s)\<rparr>)
       });
     mupd (\<lambda>s. s\<lparr>tokenMap := drop_token token (tokenMap s)\<rparr>)
   }"

definition Unregister :: "u32 \<Rightarrow> int \<Rightarrow> ('pc, ret) sprog" where
  "Unregister accessToken token = do {
     s \<leftarrow> mget;
     if \<not> IsTokenRegistered accessToken token s then mreturn TOKEN_HAS_NOT_REGISTERED
     else do {
       forget_token token;
       _ \<leftarrow> HandleDisconnectAbility;
       mreturn ERR_OK
     }
   }"

definition RegisterDeviceSelectionCallback :: "u32 \<Rightarrow> int \<Rightarrow> string \<Rightarrow> nat \<Rightarrow> ('pc, ret) sprog" where
  "RegisterDeviceSelectionCallback accessToken token cbType notifier =
     (if cbType \<noteq> EVENT_CONNECT \<and> cbType \<noteq> EVENT_DISCONNECT then mreturn UNKNOWN_CALLBACK_TYPE
      else do {
        s \<leftarrow> mget;
        if \<not> IsTokenRegistered accessToken token s then mreturn TOKEN_HAS_NOT_REGISTERED
        else if IsNotifierRegisteredLocked token cbType s then mreturn CALLBACK_HAS_REGISTERED
        else do {
          (case smap_find (callbackMap s) token of
            Some i \<Rightarrow> mupd (\<lambda>s. s\<lparr>callbackMap := smap_put token (SetNotifier cbType notifier i) (callbackMap s)\<rparr>)
          | None \<Rightarrow> do {
              mupd (\<lambda>s. s\<lparr>callbackMap := smap_put token (SetNotifier cbType notifier new_NotifierInfo) (callbackMap s)\<rparr>);
              sel_log (CallAddDeathRecipient notifier)
            });
          mreturn ERR_OK
        }
      })"

definition UnregisterDeviceSelectionCallback :: "u32 \<Rightarrow> int \<Rightarrow> string \<Rightarrow> ('pc, ret) sprog" where
  "UnregisterDeviceSelectionCallback accessToken token cbType =
     (if cbType \<noteq> EVENT_CONNECT \<and> cbType \<noteq> EVENT_DISCONNECT then mreturn UNKNOWN_CALLBACK_TYPE
      else do {
        s \<leftarrow> mget;
        if \<not> IsTokenRegistered accessToken token s then mreturn TOKEN_HAS_NOT_REGISTERED
        else if \<not> IsNotifierRegisteredLocked token cbType s then mreturn CALLBACK_HAS_NOT_REGISTERED
        else do {
          (case smap_find (callbackMap s) token of
            None \<Rightarrow> mreturn ()
          | Some i \<Rightarrow> do {
              remove_recipients (RemoveDeathRecipient_targets cbType i);
              mupd (\<lambda>s. s\<lparr>callbackMap :=
                if IsNotifierMapEmpty (DeleteNotifier cbType i) then smap_erase token (callbackMap s)
                else smap_put token (DeleteNotifier cbType i) (callbackMap s)\<rparr>)
            });
          mreturn ERR_OK
        }
      })"

definition UpdateConnectStatus :: "'pc sel_env \<Rightarrow> u32 \<Rightarrow> int \<Rightarrow> string \<Rightarrow> int \<Rightarrow> ('pc, ret) sprog" where
  "UpdateConnectStatus env accessToken token deviceId st =
     (if deviceId = [] then mreturn (ERR_NULL_PARCEL_OBJECT (parcels env))
      else if \<not> IsConnectStatusValid st then mreturn INVALID_CONNECT_STATUS
      else do {
        s \<leftarrow> mget;
        if \<not> IsTokenRegistered accessToken token s then mreturn TOKEN_HAS_NOT_REGISTERED
        else case smap_find (callbackMap s) token of
          None \<Rightarrow> mreturn CALLBACK_HAS_NOT_REGISTERED
        | Some i \<Rightarrow> do {
            mupd (\<lambda>s. s\<lparr>callbackMap := smap_put token
              (i\<lparr>connectStatusInfo := Some \<lparr>statusDeviceId = deviceId, deviceConnectStatus = st\<rparr>\<rparr>) (callbackMap s)\<rparr>);
            (if appProxy s \<noteq> None then HandleUpdateConnectStatus token deviceId st else mreturn ());
            mreturn ERR_OK
          }
      })"

definition StartDeviceManager :: "'pc sel_env \<Rightarrow> u32 \<Rightarrow> int \<Rightarrow> extra_params option \<Rightarrow> ('pc, ret) sprog" where
  "StartDeviceManager env accessToken token params =
     (if \<not> params_valid params then mreturn INVALID_CONTINUATION_MODE
      else do {
        s \<leftarrow> mget;
        if \<not> IsTokenRegistered accessToken token s then mreturn TOKEN_HAS_NOT_REGISTERED
        else if \<not> IsNotifierRegistered token s then mreturn CALLBACK_HAS_NOT_REGISTERED
        else if appProxy s \<noteq> None then do { HandleStartDeviceManager token params; mreturn ERR_OK }
        else do {
          errCode \<leftarrow> ConnectAbility env token params;
          if errCode \<noteq> ERR_OK then mreturn CONNECT_ABILITY_FAILED else mreturn ERR_OK
        }
      })"

subsection \<open>Calls of the window\<close>

definition HandleDeviceConnect :: "nat option \<Rightarrow> continuation_result list \<Rightarrow> ('pc, bool) sprog" where
  "HandleDeviceConnect notifier results = do {
     s \<leftarrow> mget;
     if \<not> selHandler s then mreturn False
     else case notifier of
       None \<Rightarrow> mreturn False
     | Some n \<Rightarrow> do { sel_submit (TaskDeviceConnect n results); mreturn True }
   }"

definition HandleDeviceDisconnect :: "nat option \<Rightarrow> continuation_result list \<Rightarrow> ('pc, bool) sprog" where
  "HandleDeviceDisconnect notifier results = do {
     s \<leftarrow> mget;
     if \<not> selHandler s then mreturn False
     else case notifier of
       None \<Rightarrow> mreturn False
     | Some n \<Rightarrow> do { sel_submit (TaskDeviceDisconnect n results); mreturn True }
   }"

definition OnDeviceConnect :: "int \<Rightarrow> continuation_result list \<Rightarrow> ('pc, ret) sprog" where
  "OnDeviceConnect token results = do {
     ok \<leftarrow> HandleDisconnectAbility;
     if \<not> ok then mreturn DISCONNECT_ABILITY_FAILED
     else do {
       s \<leftarrow> mget;
       if \<not> IsNotifierRegisteredLocked token EVENT_CONNECT s then mreturn CALLBACK_HAS_NOT_REGISTERED
       else do {
         sent \<leftarrow> HandleDeviceConnect (Option.bind (smap_find (callbackMap s) token) (GetNotifier EVENT_CONNECT)) results;
         if \<not> sent then mreturn SELECTION_INVALID_PARAMETERS else mreturn ERR_OK
       }
     }
   }"

definition OnDeviceDisconnect :: "int \<Rightarrow> continuation_result list \<Rightarrow> ('pc, ret) sprog" where
  "OnDeviceDisconnect token results = do {
     ok \<leftarrow> HandleDisconnectAbility;
     if \<not> ok then mreturn DISCONNECT_ABILITY_FAILED
     else do {
       s \<leftarrow> mget;
       if \<not> IsNotifierRegisteredLocked token EVENT_DISCONNECT s then mreturn CALLBACK_HAS_NOT_REGISTERED
       else do {
         sent \<leftarrow> HandleDeviceDisconnect (Option.bind (smap_find (callbackMap s) token) (GetNotifier EVENT_DISCONNECT)) results;
         if \<not> sent then mreturn SELECTION_INVALID_PARAMETERS else mreturn ERR_OK
       }
     }
   }"

definition OnDeviceCancel :: "('pc, ret) sprog" where
  "OnDeviceCancel = do {
     ok \<leftarrow> HandleDisconnectAbility;
     if \<not> ok then mreturn DISCONNECT_ABILITY_FAILED else mreturn ERR_OK
   }"

definition HandleNotifierDied :: "nat \<Rightarrow> ('pc, unit) sprog" where
  "HandleNotifierDied notifier = do {
     s \<leftarrow> mget;
     if \<not> selHandler s then mreturn () else sel_submit (TaskNotifierDied notifier)
   }"

definition ProcessNotifierDied :: "nat option \<Rightarrow> ('pc, unit) sprog" where
  "ProcessNotifierDied notifier = (case notifier of None \<Rightarrow> mreturn () | Some n \<Rightarrow> HandleNotifierDied n)"

definition QueryTokenByNotifier :: "nat \<Rightarrow> 'pc sel_state \<Rightarrow> int option" where
  "QueryTokenByNotifier notifier s = map_option fst (find (\<lambda>(_, i). QueryNotifier notifier i) (callbackMap s))"


subsection \<open>The tasks of the queue\<close>

text \<open>The message that opens the window for a token, as far as its parts can be written (\<^verbatim>\<open>PARCEL_WRITE_HELPER_NORET\<close>).\<close>

definition write_checked :: "('pc, bool) state \<Rightarrow> ('pc, bool) state \<Rightarrow> ('pc, bool) state" where
  "write_checked w rest = do { ok \<leftarrow> w; if ok then rest else mreturn False }"

definition write_optional_params :: "'pc parcel_lib \<Rightarrow> extra_params option \<Rightarrow> ('pc, bool) state" where
  "write_optional_params lib params =
     (case params of
        None \<Rightarrow> writeInt32 lib VALUE_NULL
      | Some e \<Rightarrow> write_checked (writeInt32 lib VALUE_OBJECT) (WriteParcelable lib (ExtraParams_Marshalling lib e)))"

definition write_optional_status :: "'pc parcel_lib \<Rightarrow> connect_status_info option \<Rightarrow> ('pc, bool) state" where
  "write_optional_status lib st =
     (case st of
        None \<Rightarrow> writeInt32 lib VALUE_NULL
      | Some c \<Rightarrow> write_checked (writeInt32 lib VALUE_OBJECT)
          (write_checked (writeString16 lib (str8ToStr16 lib (statusDeviceId c)))
            (writeInt32 lib (deviceConnectStatus c))))"

definition start_message :: "'pc sel_env \<Rightarrow> int \<Rightarrow> extra_params option \<Rightarrow> connect_status_info option \<Rightarrow> ('pc, bool) state" where
  "start_message env token params st =
     write_checked (writeInterfaceToken (parcels env) HIPLAY_PANEL_INTERFACE_TOKEN)
      (write_checked (writeInt32 (parcels env) token)
        (write_checked (write_optional_params (parcels env) params)
          (write_checked (writeRemoteObject (parcels env) (deviceCallbackStub env))
            (write_optional_status (parcels env) st))))"

definition status_message :: "'pc sel_env \<Rightarrow> int \<Rightarrow> string \<Rightarrow> int \<Rightarrow> ('pc, bool) state" where
  "status_message env token deviceId st =
     write_checked (writeInterfaceToken (parcels env) HIPLAY_PANEL_INTERFACE_TOKEN)
      (write_checked (writeInt32 (parcels env) token)
        (write_checked (writeString16 (parcels env) (str8ToStr16 (parcels env) deviceId))
          (writeInt32 (parcels env) st)))"

text \<open>A message is sent when all of it could be written.\<close>

definition send_parcel :: "'pc sel_env \<Rightarrow> ('pc, bool) state \<Rightarrow> nat \<Rightarrow> nat \<Rightarrow> ('pc, unit) sprog" where
  "send_parcel env w target code =
     (if outcome w (emptyParcel (parcels env))
      then sel_log (CallSendRequest target code (exec w (emptyParcel (parcels env)))) else mreturn ())"

definition status_of :: "int \<Rightarrow> 'pc sel_state \<Rightarrow> connect_status_info option" where
  "status_of token s = Option.bind (smap_find (callbackMap s) token) connectStatusInfo"

definition run_start_task :: "'pc sel_env \<Rightarrow> int \<Rightarrow> extra_params option \<Rightarrow> nat option \<Rightarrow> ('pc, unit) sprog" where
  "run_start_task env token params proxy = do {
     s \<leftarrow> mget;
     case proxy of
       None \<Rightarrow> mreturn ()
     | Some p \<Rightarrow> send_parcel env (start_message env token params (status_of token s)) p START_DEVICE_MANAGER_CODE
   }"

definition run_status_task :: "'pc sel_env \<Rightarrow> int \<Rightarrow> string \<Rightarrow> int \<Rightarrow> nat option \<Rightarrow> ('pc, unit) sprog" where
  "run_status_task env token deviceId st proxy =
     (case proxy of
        None \<Rightarrow> mreturn ()
      | Some p \<Rightarrow> send_parcel env (status_message env token deviceId st) p UPDATE_CONNECT_STATUS_CODE)"

definition DEVICE_SELECTION_NOTIFIER_INTERFACE_TOKEN :: string where
  "DEVICE_SELECTION_NOTIFIER_INTERFACE_TOKEN = ''OHOS.DistributedSchedule.IDeviceSelectionNotifier''"

abbreviation EVENT_DEVICE_CONNECT :: nat where "EVENT_DEVICE_CONNECT \<equiv> 1"
abbreviation EVENT_DEVICE_DISCONNECT :: nat where "EVENT_DEVICE_DISCONNECT \<equiv> 2"
abbreviation EVENT_DEVICE_CANCEL :: nat where "EVENT_DEVICE_CANCEL \<equiv> 3"

text \<open>\<^verbatim>\<open>DeviceSelectionNotifierProxy\<close>, in the service.\<close>

definition results_message :: "'pc parcel_lib \<Rightarrow> continuation_result list \<Rightarrow> ('pc, bool) state" where
  "results_message lib results =
     write_checked (writeInterfaceToken lib DEVICE_SELECTION_NOTIFIER_INTERFACE_TOKEN)
       (WriteContinuationResultsToParcel lib results)"

definition NotifierProxy_OnDeviceConnect :: "'pc sel_env \<Rightarrow> nat \<Rightarrow> continuation_result list \<Rightarrow> ('pc, unit) sprog" where
  "NotifierProxy_OnDeviceConnect env notifier results =
     send_parcel env (results_message (parcels env) results) notifier EVENT_DEVICE_CONNECT"

definition NotifierProxy_OnDeviceDisconnect :: "'pc sel_env \<Rightarrow> nat \<Rightarrow> continuation_result list \<Rightarrow> ('pc, unit) sprog" where
  "NotifierProxy_OnDeviceDisconnect env notifier results =
     send_parcel env (results_message (parcels env) results) notifier EVENT_DEVICE_DISCONNECT"

definition run_died_task :: "nat \<Rightarrow> ('pc, unit) sprog" where
  "run_died_task notifier = do {
     s \<leftarrow> mget;
     case QueryTokenByNotifier notifier s of
       None \<Rightarrow> mreturn ()
     | Some token \<Rightarrow> do {
         forget_token token;
         _ \<leftarrow> HandleDisconnectAbility;
         mreturn ()
       }
   }"

fun run_sel_task :: "'pc sel_env \<Rightarrow> sel_task \<Rightarrow> ('pc, unit) sprog" where
  "run_sel_task env TaskDisconnectAbility = do { _ \<leftarrow> DisconnectAbility env; mreturn () }"
| "run_sel_task env (TaskDeviceConnect n results) = NotifierProxy_OnDeviceConnect env n results"
| "run_sel_task env (TaskDeviceDisconnect n results) = NotifierProxy_OnDeviceDisconnect env n results"
| "run_sel_task env (TaskStartDeviceManager token params proxy) = run_start_task env token params proxy"
| "run_sel_task env (TaskUpdateConnectStatus token deviceId st proxy) = run_status_task env token deviceId st proxy"
| "run_sel_task env (TaskNotifierDied n) = run_died_task n"

definition run_sel_queue :: "'pc sel_env \<Rightarrow> ('pc, unit) sprog" where
  "run_sel_queue env = do {
     s \<leftarrow> mget;
     case selQueue s of
       [] \<Rightarrow> mreturn ()
     | t # ts \<Rightarrow> do { mupd (\<lambda>s. s\<lparr>selQueue := ts\<rparr>); run_sel_task env t }
   }"

subsection \<open>The register dump\<close>

definition notifier_dump :: "notifier_info \<Rightarrow> string" where
  "notifier_dump i =
     (if IsNotifierMapEmpty i then []
      else '', '' @ ''cbType: '' @ (if GetNotifier EVENT_CONNECT i \<noteq> None then '' '' @ EVENT_CONNECT else []) @
        (if GetNotifier EVENT_DISCONNECT i \<noteq> None then '' '' @ EVENT_DISCONNECT else []))"

definition DumpNotifierLocked :: "int list \<Rightarrow> 'pc sel_state \<Rightarrow> string" where
  "DumpNotifierLocked tokenVec s =
     concat (map (\<lambda>token. '', '' @ ''token: '' @ to_string token @
       (case smap_find (callbackMap s) token of None \<Rightarrow> [] | Some i \<Rightarrow> notifier_dump i)) tokenVec)"

definition LINE_END :: string where "LINE_END = [CHR 0x0A]"

definition DumpAppRegisterInfo :: "'pc sel_state \<Rightarrow> string" where
  "DumpAppRegisterInfo s = ''application register infos:'' @ LINE_END @ ''  '' @
     (if tokenMap s \<noteq> []
      then concat (map (\<lambda>(accessToken, tokenVec). ''accessToken: '' @ to_string (uint accessToken) @
        DumpNotifierLocked tokenVec s @ LINE_END @ ''  '') (tokenMap s))
      else ''  <none info>'' @ LINE_END)"

text \<open>\<^verbatim>\<open>DistributedAbilityManagerDumper\<close>: \<open>allowed\<close> is that the caller is the dump service (\<^verbatim>\<open>CanDump\<close>).\<close>

definition ABILITY_DUMP_HELP :: string where
  "ABILITY_DUMP_HELP = ''ContinuationManagerService Dump options:'' @ LINE_END @ ''  [-h] [cmd]...'' @ LINE_END @
     ''cmd maybe one of:'' @ LINE_END @ ''  -register: show all application register infos.'' @ LINE_END"

definition ability_dump :: "bool \<Rightarrow> string list \<Rightarrow> 'pc sel_state \<Rightarrow> bool \<times> string" where
  "ability_dump allowed args s =
     (if \<not> allowed then (False, ''Dump failed, not allowed'')
      else case args of
        [] \<Rightarrow> (True, ''ContinuationManagerService Dump'' @ LINE_END @ LINE_END @ DumpAppRegisterInfo s)
      | [a] \<Rightarrow>
          if a = ''-h'' then (True, ABILITY_DUMP_HELP)
          else if a = ''-register'' then (True, DumpAppRegisterInfo s)
          else (False, ''The arguments are illegal and you can enter '' @ [CHR 0x27] @ ''-h'' @ [CHR 0x27] @ '' for help.'' @ LINE_END)
      | _ \<Rightarrow> (False, ''The arguments are illegal and you can enter '' @ [CHR 0x27] @ ''-h'' @ [CHR 0x27] @ '' for help.'' @ LINE_END))"

end
