(* ===== verification/Selection_Ipc.thy ===== *)
theory Selection_Ipc
  imports Device_Selection
begin

text \<open>
  The calls between the processes of a device selection: the proxy that applications use
  (\<^verbatim>\<open>distributed_ability_manager_proxy.cpp\<close>), the stub that receives their calls
  (\<^verbatim>\<open>distributed_ability_manager_stub.cpp\<close>), the objects that the ability manager and the window call
  (\<^verbatim>\<open>app_connection_stub.cpp\<close>, \<^verbatim>\<open>app_device_callback_stub.cpp\<close>), and the application's end of its callbacks
  (\<^verbatim>\<open>device_selection_notifier_stub.cpp\<close>). A call hands its parcel over unchanged; the stub fills a reply.
\<close>

abbreviation CODE_REGISTER :: nat where "CODE_REGISTER \<equiv> 500"
abbreviation CODE_UNREGISTER :: nat where "CODE_UNREGISTER \<equiv> 501"
abbreviation CODE_REGISTER_DEVICE_SELECTION_CALLBACK :: nat where "CODE_REGISTER_DEVICE_SELECTION_CALLBACK \<equiv> 502"
abbreviation CODE_UNREGISTER_DEVICE_SELECTION_CALLBACK :: nat where "CODE_UNREGISTER_DEVICE_SELECTION_CALLBACK \<equiv> 503"
abbreviation CODE_UPDATE_CONNECT_STATUS :: nat where "CODE_UPDATE_CONNECT_STATUS \<equiv> 504"
abbreviation CODE_START_DEVICE_MANAGER :: nat where "CODE_START_DEVICE_MANAGER \<equiv> 505"

abbreviation DMS_PERMISSION_DENIED :: ret where "DMS_PERMISSION_DENIED \<equiv> 29360157"
abbreviation ERR_NONE :: ret where "ERR_NONE \<equiv> 0"

definition ABILITY_MANAGER_DESCRIPTOR :: string where
  "ABILITY_MANAGER_DESCRIPTOR = ''OHOS.DistributedSchedule.IDistributedAbilityManager''"
definition APP_DEVICE_CALLBACK_DESCRIPTOR :: string where
  "APP_DEVICE_CALLBACK_DESCRIPTOR = ''OHOS.DistributedSchedule.IAppDeviceCallback''"
definition PERMISSION_DISTRIBUTED_DATASYNC :: string where
  "PERMISSION_DISTRIBUTED_DATASYNC = ''ohos.permission.DISTRIBUTED_DATASYNC''"

subsection \<open>Reading and replying\<close>

text \<open>\<^verbatim>\<open>PARCEL_READ_HELPER\<close>: a failed read ends the call.\<close>

definition read_checked :: "'pc parcel_lib \<Rightarrow> ('pc, 'a option) state \<Rightarrow> ('a \<Rightarrow> ('pc, ret + 'b) state) \<Rightarrow> ('pc, ret + 'b) state" where
  "read_checked lib r f = do { v \<leftarrow> r; case v of None \<Rightarrow> mreturn (Inl (ERR_FLATTEN_OBJECT lib)) | Some x \<Rightarrow> f x }"

definition read_optional_params :: "'pc parcel_lib \<Rightarrow> ('pc, ret + extra_params option) state" where
  "read_optional_params lib = read_checked lib (readInt32 lib) (\<lambda>flag.
     if flag \<noteq> VALUE_OBJECT then mreturn (Inr None)
     else do {
       e \<leftarrow> ReadParcelable lib (ExtraParams_Unmarshalling lib);
       mreturn (case e of None \<Rightarrow> Inl (ERR_NULL_PARCEL_OBJECT lib) | Some x \<Rightarrow> Inr (Some x))
     })"

definition read_callback_type :: "'pc parcel_lib \<Rightarrow> ('pc, ret + int \<times> string) state" where
  "read_callback_type lib = read_checked lib (readInt32 lib) (\<lambda>token.
     read_checked lib (readString lib) (\<lambda>cbType.
       mreturn (if cbType = [] then Inl (ERR_NULL_PARCEL_OBJECT lib) else Inr (token, cbType))))"

text \<open>The arguments read from \<open>data\<close>, or the code the stub returns at once; the result goes into the reply.\<close>

definition reply_with :: "'pc parcel_lib \<Rightarrow> ('pc, bool) state \<Rightarrow> 'pc \<Rightarrow> ret \<times> 'pc" where
  "reply_with lib w reply = (if outcome w reply then ERR_NONE else ERR_FLATTEN_OBJECT lib, exec w reply)"

definition handle_args :: "('pc, ret + 'a) state \<Rightarrow> 'pc \<Rightarrow> 'pc \<Rightarrow> ('a \<Rightarrow> ('pc, ret \<times> 'pc) sprog) \<Rightarrow> ('pc, ret \<times> 'pc) sprog" where
  "handle_args rd data reply f = (case outcome rd data of Inl e \<Rightarrow> mreturn (e, reply) | Inr args \<Rightarrow> f args)"

definition RegisterInner :: "'pc sel_env \<Rightarrow> u32 \<Rightarrow> 'pc \<Rightarrow> 'pc \<Rightarrow> ('pc, ret \<times> 'pc) sprog" where
  "RegisterInner env caller data reply = handle_args (read_optional_params (parcels env)) data reply (\<lambda>params. do {
     (result, token) \<leftarrow> Register caller params;
     mreturn (reply_with (parcels env)
       (write_checked (writeInt32 (parcels env) result) (writeInt32 (parcels env) token)) reply)
   })"

definition UnregisterInner :: "'pc sel_env \<Rightarrow> u32 \<Rightarrow> 'pc \<Rightarrow> 'pc \<Rightarrow> ('pc, ret \<times> 'pc) sprog" where
  "UnregisterInner env caller data reply =
     handle_args (read_checked (parcels env) (readInt32 (parcels env)) (\<lambda>token. mreturn (Inr token))) data reply (\<lambda>token. do {
       result \<leftarrow> Unregister caller token;
       mreturn (reply_with (parcels env) (writeInt32 (parcels env) result) reply)
     })"

definition read_register_callback :: "'pc parcel_lib \<Rightarrow> ('pc, ret + int \<times> string \<times> nat) state" where
  "read_register_callback lib = do {
     r \<leftarrow> read_callback_type lib;
     case r of
       Inl e \<Rightarrow> mreturn (Inl e)
     | Inr (token, cbType) \<Rightarrow> do {
         notifier \<leftarrow> readRemoteObject lib;
         mreturn (case notifier of None \<Rightarrow> Inl (ERR_NULL_PARCEL_OBJECT lib) | Some n \<Rightarrow> Inr (token, cbType, n))
       }
   }"

definition RegisterDeviceSelectionCallbackInner :: "'pc sel_env \<Rightarrow> u32 \<Rightarrow> 'pc \<Rightarrow> 'pc \<Rightarrow> ('pc, ret \<times> 'pc) sprog" where
  "RegisterDeviceSelectionCallbackInner env caller data reply =
     handle_args (read_register_callback (parcels env)) data reply (\<lambda>(token, cbType, notifier). do {
       result \<leftarrow> RegisterDeviceSelectionCallback caller token cbType notifier;
       mreturn (reply_with (parcels env) (writeInt32 (parcels env) result) reply)
     })"

definition UnregisterDeviceSelectionCallbackInner :: "'pc sel_env \<Rightarrow> u32 \<Rightarrow> 'pc \<Rightarrow> 'pc \<Rightarrow> ('pc, ret \<times> 'pc) sprog" where
  "UnregisterDeviceSelectionCallbackInner env caller data reply =
     handle_args (read_callback_type (parcels env)) data reply (\<lambda>(token, cbType). do {
       result \<leftarrow> UnregisterDeviceSelectionCallback caller token cbType;
       mreturn (reply_with (parcels env) (writeInt32 (parcels env) result) reply)
     })"

definition read_connect_status :: "'pc parcel_lib \<Rightarrow> ('pc, ret + int \<times> string \<times> int) state" where
  "read_connect_status lib = read_checked lib (readInt32 lib) (\<lambda>token.
     read_checked lib (readString lib) (\<lambda>deviceId. do {
       st \<leftarrow> readInt32_or_0 lib;
       mreturn (Inr (token, deviceId, st))
     }))"

definition UpdateConnectStatusInner :: "'pc sel_env \<Rightarrow> u32 \<Rightarrow> 'pc \<Rightarrow> 'pc \<Rightarrow> ('pc, ret \<times> 'pc) sprog" where
  "UpdateConnectStatusInner env caller data reply =
     handle_args (read_connect_status (parcels env)) data reply (\<lambda>(token, deviceId, st). do {
       result \<leftarrow> UpdateConnectStatus env caller token deviceId st;
       mreturn (reply_with (parcels env) (writeInt32 (parcels env) result) reply)
     })"

definition read_start :: "'pc parcel_lib \<Rightarrow> ('pc, ret + int \<times> extra_params option) state" where
  "read_start lib = read_checked lib (readInt32 lib) (\<lambda>token. do {
     p \<leftarrow> read_optional_params lib;
     mreturn (case p of Inl e \<Rightarrow> Inl e | Inr params \<Rightarrow> Inr (token, params))
   })"

definition StartDeviceManagerInner :: "'pc sel_env \<Rightarrow> u32 \<Rightarrow> 'pc \<Rightarrow> 'pc \<Rightarrow> ('pc, ret \<times> 'pc) sprog" where
  "StartDeviceManagerInner env caller data reply =
     handle_args (read_start (parcels env)) data reply (\<lambda>(token, params). do {
       result \<leftarrow> StartDeviceManager env caller token params;
       mreturn (reply_with (parcels env) (writeInt32 (parcels env) result) reply)
     })"

subsection \<open>The stub of the service\<close>

definition ability_stub_func ::
    "'pc sel_env \<Rightarrow> nat \<Rightarrow> (u32 \<Rightarrow> 'pc \<Rightarrow> 'pc \<Rightarrow> ('pc, ret \<times> 'pc) sprog) option" where
  "ability_stub_func env code =
     (if code = CODE_REGISTER then Some (RegisterInner env)
      else if code = CODE_UNREGISTER then Some (UnregisterInner env)
      else if code = CODE_REGISTER_DEVICE_SELECTION_CALLBACK then Some (RegisterDeviceSelectionCallbackInner env)
      else if code = CODE_UNREGISTER_DEVICE_SELECTION_CALLBACK then Some (UnregisterDeviceSelectionCallbackInner env)
      else if code = CODE_UPDATE_CONNECT_STATUS then Some (UpdateConnectStatusInner env)
      else if code = CODE_START_DEVICE_MANAGER then Some (StartDeviceManagerInner env)
      else None)"

definition token_matches :: "string \<Rightarrow> string option \<Rightarrow> bool" where
  "token_matches descriptor t \<longleftrightarrow> (case t of None \<Rightarrow> [] | Some x \<Rightarrow> x) = descriptor"

definition AbilityManager_OnRemoteRequest :: "'pc sel_env \<Rightarrow> u32 \<Rightarrow> nat \<Rightarrow> 'pc \<Rightarrow> ('pc, ret \<times> 'pc) sprog" where
  "AbilityManager_OnRemoteRequest env caller code data =
     (let reply = emptyParcel (parcels env) in
      case ability_stub_func env code of
        None \<Rightarrow> mreturn (defaultRequestRet env code, reply)
      | Some func \<Rightarrow>
          (let (t, data') = run_state (readInterfaceToken (parcels env)) data in
           if \<not> token_matches ABILITY_MANAGER_DESCRIPTOR t then mreturn (DMS_PERMISSION_DENIED, reply)
           else if tokenDenied env caller PERMISSION_DISTRIBUTED_DATASYNC then mreturn (DMS_PERMISSION_DENIED, reply)
           else func caller data' reply))"

subsection \<open>The proxy of the applications\<close>

type_synonym 'pc sel_remote = "nat \<Rightarrow> 'pc \<Rightarrow> ('pc, ret \<times> 'pc) sprog"

text \<open>\<^verbatim>\<open>PARCEL_TRANSACT_SYNC_RET_INT\<close>, after the request was written.\<close>

definition transact_ret :: "'pc parcel_lib \<Rightarrow> 'pc sel_remote \<Rightarrow> nat \<Rightarrow> ('pc, bool) state \<Rightarrow> ('pc, ret) sprog" where
  "transact_ret lib remote code w =
     (if \<not> outcome w (emptyParcel lib) then mreturn (ERR_FLATTEN_OBJECT lib)
      else do {
        (error, reply) \<leftarrow> remote code (exec w (emptyParcel lib));
        mreturn (if error \<noteq> ERR_NONE then error else outcome (readInt32_or_0 lib) reply)
      })"

definition with_descriptor :: "'pc parcel_lib \<Rightarrow> ('pc, bool) state \<Rightarrow> ('pc, bool) state" where
  "with_descriptor lib w = write_checked (writeInterfaceToken lib ABILITY_MANAGER_DESCRIPTOR) w"

definition Proxy_Register :: "'pc parcel_lib \<Rightarrow> 'pc sel_remote option \<Rightarrow> extra_params option \<Rightarrow> int \<Rightarrow> ('pc, ret \<times> int) sprog" where
  "Proxy_Register lib remote params token =
     (case remote of
        None \<Rightarrow> mreturn (ERR_NULL_PARCEL_OBJECT lib, token)
      | Some send \<Rightarrow>
          let w = with_descriptor lib (write_optional_params lib params) in
          if \<not> outcome w (emptyParcel lib) then mreturn (ERR_FLATTEN_OBJECT lib, token)
          else do {
            (error, reply) \<leftarrow> send CODE_REGISTER (exec w (emptyParcel lib));
            mreturn
              (if error \<noteq> ERR_NONE then (error, token)
               else let (result, reply') = run_state (readInt32_or_0 lib) reply in
                 if result \<noteq> ERR_NONE then (result, token)
                 else case outcome (readInt32 lib) reply' of
                   None \<Rightarrow> (ERR_FLATTEN_OBJECT lib, token)
                 | Some t \<Rightarrow> (ERR_NONE, t))
          })"

definition Proxy_Unregister :: "'pc parcel_lib \<Rightarrow> 'pc sel_remote option \<Rightarrow> int \<Rightarrow> ('pc, ret) sprog" where
  "Proxy_Unregister lib remote token =
     (case remote of
        None \<Rightarrow> mreturn (ERR_NULL_PARCEL_OBJECT lib)
      | Some send \<Rightarrow> transact_ret lib send CODE_UNREGISTER (with_descriptor lib (writeInt32 lib token)))"

definition Proxy_RegisterDeviceSelectionCallback ::
    "'pc parcel_lib \<Rightarrow> 'pc sel_remote option \<Rightarrow> int \<Rightarrow> string \<Rightarrow> nat option \<Rightarrow> ('pc, ret) sprog" where
  "Proxy_RegisterDeviceSelectionCallback lib remote token cbType notifier =
     (if cbType = [] then mreturn (ERR_NULL_PARCEL_OBJECT lib)
      else case notifier of
        None \<Rightarrow> mreturn (ERR_NULL_PARCEL_OBJECT lib)
      | Some n \<Rightarrow> (case remote of
          None \<Rightarrow> mreturn (ERR_NULL_PARCEL_OBJECT lib)
        | Some send \<Rightarrow> transact_ret lib send CODE_REGISTER_DEVICE_SELECTION_CALLBACK (with_descriptor lib
            (write_checked (writeInt32 lib token) (write_checked (writeString lib cbType) (writeRemoteObject lib n))))))"

definition Proxy_UnregisterDeviceSelectionCallback ::
    "'pc parcel_lib \<Rightarrow> 'pc sel_remote option \<Rightarrow> int \<Rightarrow> string \<Rightarrow> ('pc, ret) sprog" where
  "Proxy_UnregisterDeviceSelectionCallback lib remote token cbType =
     (if cbType = [] then mreturn (ERR_NULL_PARCEL_OBJECT lib)
      else case remote of
        None \<Rightarrow> mreturn (ERR_NULL_PARCEL_OBJECT lib)
      | Some send \<Rightarrow> transact_ret lib send CODE_UNREGISTER_DEVICE_SELECTION_CALLBACK (with_descriptor lib
          (write_checked (writeInt32 lib token) (writeString lib cbType))))"

definition Proxy_UpdateConnectStatus ::
    "'pc parcel_lib \<Rightarrow> 'pc sel_remote option \<Rightarrow> int \<Rightarrow> string \<Rightarrow> int \<Rightarrow> ('pc, ret) sprog" where
  "Proxy_UpdateConnectStatus lib remote token deviceId st =
     (case remote of
        None \<Rightarrow> mreturn (ERR_NULL_PARCEL_OBJECT lib)
      | Some send \<Rightarrow> transact_ret lib send CODE_UPDATE_CONNECT_STATUS (with_descriptor lib
          (write_checked (writeInt32 lib token) (write_checked (writeString lib deviceId) (writeInt32 lib st)))))"

definition Proxy_StartDeviceManager ::
    "'pc parcel_lib \<Rightarrow> 'pc sel_remote option \<Rightarrow> int \<Rightarrow> extra_params option \<Rightarrow> ('pc, ret) sprog" where
  "Proxy_StartDeviceManager lib remote token params =
     (case remote of
        None \<Rightarrow> mreturn (ERR_NULL_PARCEL_OBJECT lib)
      | Some send \<Rightarrow> transact_ret lib send CODE_START_DEVICE_MANAGER (with_descriptor lib
          (write_checked (writeInt32 lib token) (write_optional_params lib params))))"

subsection \<open>The objects the ability manager and the window call\<close>

definition AppConnection_OnRemoteRequest :: "'pc sel_env \<Rightarrow> app_connection \<Rightarrow> nat \<Rightarrow> 'pc \<Rightarrow> ('pc, ret) sprog" where
  "AppConnection_OnRemoteRequest env conn code data =
     (let (t, data1) = run_state (readInterfaceToken (parcels env)) data in
      if \<not> token_matches (abilityConnectionDescriptor env) t then mreturn (SEL_ERR_INVALID_STATE env)
      else let (element, data2) = run_state (ReadParcelable (parcels env) (elementUnmarshalling env)) data1 in
        if element = None then mreturn (SEL_ERR_INVALID_VALUE env)
        else if code = ON_ABILITY_CONNECT_DONE env then
          (case outcome (readRemoteObject (parcels env)) data2 of
             None \<Rightarrow> mreturn (SEL_ERR_INVALID_DATA env)
           | Some remoteObject \<Rightarrow> do { OnAbilityConnectDone conn remoteObject; mreturn ERR_NONE })
        else if code = ON_ABILITY_DISCONNECT_DONE env then do { OnAbilityDisconnectDone conn; mreturn ERR_NONE }
        else mreturn (defaultRequestRet env code))"

definition read_selection :: "'pc parcel_lib \<Rightarrow> ('pc, ret + int \<times> continuation_result list) state" where
  "read_selection lib = read_checked lib (readInt32 lib) (\<lambda>token. do {
     rs \<leftarrow> ReadContinuationResultsFromParcel lib;
     mreturn (case rs of None \<Rightarrow> Inl (ERR_FLATTEN_OBJECT lib) | Some results \<Rightarrow> Inr (token, results))
   })"

definition AppDeviceCallback_OnRemoteRequest :: "'pc sel_env \<Rightarrow> nat \<Rightarrow> 'pc \<Rightarrow> ('pc, ret) sprog" where
  "AppDeviceCallback_OnRemoteRequest env code data =
     (let (t, data1) = run_state (readInterfaceToken (parcels env)) data in
      if \<not> token_matches APP_DEVICE_CALLBACK_DESCRIPTOR t then mreturn (SEL_ERR_INVALID_STATE env)
      else if code = EVENT_DEVICE_CONNECT then
        (case outcome (read_selection (parcels env)) data1 of Inl e \<Rightarrow> mreturn e | Inr (token, rs) \<Rightarrow> OnDeviceConnect token rs)
      else if code = EVENT_DEVICE_DISCONNECT then
        (case outcome (read_selection (parcels env)) data1 of Inl e \<Rightarrow> mreturn e | Inr (token, rs) \<Rightarrow> OnDeviceDisconnect token rs)
      else if code = EVENT_DEVICE_CANCEL then OnDeviceCancel
      else mreturn (defaultRequestRet env code))"

text \<open>\<^verbatim>\<open>DeviceSelectionNotifierStub\<close>, in the application: which of its two handlers is called with what, or the code returned.\<close>

datatype notifier_event = DeviceConnected "continuation_result list" | DeviceDisconnected "continuation_result list"

definition NotifierStub_OnRemoteRequest :: "'pc sel_env \<Rightarrow> nat \<Rightarrow> 'pc \<Rightarrow> ret + notifier_event" where
  "NotifierStub_OnRemoteRequest env code data =
     (let (t, data1) = run_state (readInterfaceToken (parcels env)) data in
      if \<not> token_matches DEVICE_SELECTION_NOTIFIER_INTERFACE_TOKEN t then Inl (SEL_ERR_INVALID_VALUE env)
      else if code = EVENT_DEVICE_CONNECT then
        (case outcome (ReadContinuationResultsFromParcel (parcels env)) data1 of
           None \<Rightarrow> Inl (ERR_FLATTEN_OBJECT (parcels env)) | Some rs \<Rightarrow> Inr (DeviceConnected rs))
      else if code = EVENT_DEVICE_DISCONNECT then
        (case outcome (ReadContinuationResultsFromParcel (parcels env)) data1 of
           None \<Rightarrow> Inl (ERR_FLATTEN_OBJECT (parcels env)) | Some rs \<Rightarrow> Inr (DeviceDisconnected rs))
      else Inl (defaultRequestRet env code))"

end
