(* ===== verification/Selection_Calls.thy ===== *)
theory Selection_Calls
  imports Selection_Ipc
begin

text \<open>
  What the calls between the processes achieve: a call through the proxy is the operation of the service,
  and the devices a user selects in the window arrive at the application's callback.
\<close>

datatype sel_request =
    ReqRegister "extra_params option"
  | ReqUnregister int
  | ReqRegisterCallback int string nat
  | ReqUnregisterCallback int string
  | ReqUpdateStatus int string int
  | ReqStart int "extra_params option"

text \<open>A request as an operation of the service and as a call of the proxy; only \<^verbatim>\<open>Register\<close> has a token to return.\<close>

definition no_token :: "('pc, ret) sprog \<Rightarrow> ('pc, ret \<times> int) sprog" where
  "no_token m = do { r \<leftarrow> m; mreturn (r, -1) }"

fun service_call :: "'pc sel_env \<Rightarrow> u32 \<Rightarrow> sel_request \<Rightarrow> ('pc, ret \<times> int) sprog" where
  "service_call env caller (ReqRegister params) = Register caller params"
| "service_call env caller (ReqUnregister token) = no_token (Unregister caller token)"
| "service_call env caller (ReqRegisterCallback token cbType n) = no_token (RegisterDeviceSelectionCallback caller token cbType n)"
| "service_call env caller (ReqUnregisterCallback token cbType) = no_token (UnregisterDeviceSelectionCallback caller token cbType)"
| "service_call env caller (ReqUpdateStatus token deviceId st) = no_token (UpdateConnectStatus env caller token deviceId st)"
| "service_call env caller (ReqStart token params) = no_token (StartDeviceManager env caller token params)"

fun proxy_call :: "'pc parcel_lib \<Rightarrow> 'pc sel_remote option \<Rightarrow> sel_request \<Rightarrow> ('pc, ret \<times> int) sprog" where
  "proxy_call lib remote (ReqRegister params) = Proxy_Register lib remote params (-1)"
| "proxy_call lib remote (ReqUnregister token) = no_token (Proxy_Unregister lib remote token)"
| "proxy_call lib remote (ReqRegisterCallback token cbType n) =
     no_token (Proxy_RegisterDeviceSelectionCallback lib remote token cbType (Some n))"
| "proxy_call lib remote (ReqUnregisterCallback token cbType) =
     no_token (Proxy_UnregisterDeviceSelectionCallback lib remote token cbType)"
| "proxy_call lib remote (ReqUpdateStatus token deviceId st) =
     no_token (Proxy_UpdateConnectStatus lib remote token deviceId st)"
| "proxy_call lib remote (ReqStart token params) = no_token (Proxy_StartDeviceManager lib remote token params)"

subsection \<open>The items of a request\<close>

definition optional_params_items :: "'pc parcel_lib \<Rightarrow> extra_params option \<Rightarrow> parcel_item list" where
  "optional_params_items lib params =
     (case params of None \<Rightarrow> [PInt VALUE_NULL] | Some e \<Rightarrow> PInt VALUE_OBJECT # PMark # params_items lib e)"

definition params_travel :: "'pc parcel_lib \<Rightarrow> extra_params option \<Rightarrow> bool" where
  "params_travel lib params = (case params of None \<Rightarrow> True | Some e \<Rightarrow> texts_travel lib (params_texts e))"

fun request_items :: "'pc parcel_lib \<Rightarrow> sel_request \<Rightarrow> parcel_item list" where
  "request_items lib (ReqRegister params) = optional_params_items lib params"
| "request_items lib (ReqUnregister token) = [PInt token]"
| "request_items lib (ReqRegisterCallback token cbType n) = [PInt token, PText cbType, PObject n]"
| "request_items lib (ReqUnregisterCallback token cbType) = [PInt token, PText cbType]"
| "request_items lib (ReqUpdateStatus token deviceId st) = [PInt token, PText deviceId, PInt st]"
| "request_items lib (ReqStart token params) = PInt token # optional_params_items lib params"

text \<open>The texts arrive, and a callback type is not empty: the proxy refuses an empty one itself.\<close>

fun request_travels :: "'pc parcel_lib \<Rightarrow> sel_request \<Rightarrow> bool" where
  "request_travels lib (ReqRegister params) = params_travel lib params"
| "request_travels lib (ReqRegisterCallback token cbType n) \<longleftrightarrow> cbType \<noteq> []"
| "request_travels lib (ReqUnregisterCallback token cbType) \<longleftrightarrow> cbType \<noteq> []"
| "request_travels lib (ReqStart token params) = params_travel lib params"
| "request_travels lib _ = True"

lemma writes_checked:
  assumes "parcel_spec lib room holds" "writes room holds w xs" "writes room holds rest ys"
  shows "writes room holds (write_checked w rest) (xs @ ys)"
  unfolding write_checked_def by (rule writes_bind [OF assms(1,2)]) (simp add: assms(3))

lemma writes_checked_step:
  assumes "parcel_spec lib room holds" "writes room holds w [x]" "writes room holds rest ys"
  shows "writes room holds (write_checked w rest) (x # ys)"
  using writes_checked [of lib room holds w "[x]" rest ys] assms by simp

lemma reads_checked:
  assumes "reads holds r [x] (Some v)" "reads holds (f v) ys u"
  shows "reads holds (read_checked lib r f) (x # ys) u"
  unfolding read_checked_def by (rule reads_step [OF assms(1)]) (simp add: assms(2))

lemma optional_params_writes:
  assumes "parcel_spec lib room holds"
  shows "writes room holds (write_optional_params lib params) (optional_params_items lib params)"
proof (cases params)
  case (Some e)
  show ?thesis
    unfolding write_optional_params_def optional_params_items_def Some option.case
    by (intro writes_checked_step [OF assms] parcel_writes [OF assms] writes_parcelable [OF assms] ExtraParams_writes [OF assms])
qed (simp add: write_optional_params_def optional_params_items_def parcel_writes [OF assms])

lemma optional_params_reads:
  assumes spec: "parcel_spec lib room holds" and t: "params_travel lib params"
  shows "reads holds (read_optional_params lib) (optional_params_items lib params) (Inr params)"
proof (cases params)
  case None
  show ?thesis
    unfolding read_optional_params_def optional_params_items_def None option.case
    by (rule reads_checked [OF parcel_reads(2) [OF spec]]) (simp add: reads_return)
next
  case (Some e)
  have "reads holds (do { x \<leftarrow> ReadParcelable lib (ExtraParams_Unmarshalling lib);
        mreturn (case x of None \<Rightarrow> Inl (ERR_NULL_PARCEL_OBJECT lib) | Some y \<Rightarrow> Inr (Some y)) })
      ((PMark # params_items lib e) @ []) (Inr (Some e))"
    using t Some by (intro reads_bind [OF reads_parcelable [OF spec ExtraParams_reads [OF spec]]])
      (simp_all add: params_travel_def reads_return)
  then show ?thesis
    unfolding read_optional_params_def optional_params_items_def Some option.case
    by (intro reads_checked [OF parcel_reads(2) [OF spec]]) simp
qed

subsection \<open>A request through the stub\<close>

text \<open>What the stub does once the descriptor is read: the arguments of the request are those that were written.\<close>

fun request_code :: "sel_request \<Rightarrow> nat" where
  "request_code (ReqRegister _) = CODE_REGISTER"
| "request_code (ReqUnregister _) = CODE_UNREGISTER"
| "request_code (ReqRegisterCallback _ _ _) = CODE_REGISTER_DEVICE_SELECTION_CALLBACK"
| "request_code (ReqUnregisterCallback _ _) = CODE_UNREGISTER_DEVICE_SELECTION_CALLBACK"
| "request_code (ReqUpdateStatus _ _ _) = CODE_UPDATE_CONNECT_STATUS"
| "request_code (ReqStart _ _) = CODE_START_DEVICE_MANAGER"

fun request_writer :: "'pc parcel_lib \<Rightarrow> sel_request \<Rightarrow> ('pc, bool) state" where
  "request_writer lib (ReqRegister params) = write_optional_params lib params"
| "request_writer lib (ReqUnregister token) = writeInt32 lib token"
| "request_writer lib (ReqRegisterCallback token cbType n) =
     write_checked (writeInt32 lib token) (write_checked (writeString lib cbType) (writeRemoteObject lib n))"
| "request_writer lib (ReqUnregisterCallback token cbType) = write_checked (writeInt32 lib token) (writeString lib cbType)"
| "request_writer lib (ReqUpdateStatus token deviceId st) =
     write_checked (writeInt32 lib token) (write_checked (writeString lib deviceId) (writeInt32 lib st))"
| "request_writer lib (ReqStart token params) = write_checked (writeInt32 lib token) (write_optional_params lib params)"

fun reply_writer :: "'pc parcel_lib \<Rightarrow> sel_request \<Rightarrow> ret \<times> int \<Rightarrow> ('pc, bool) state" where
  "reply_writer lib (ReqRegister params) r = write_checked (writeInt32 lib (fst r)) (writeInt32 lib (snd r))"
| "reply_writer lib _ r = writeInt32 lib (fst r)"

lemma request_writes:
  assumes "parcel_spec lib room holds"
  shows "writes room holds (request_writer lib req) (request_items lib req)"
  by (cases req) (simp_all, (intro writes_checked_step [OF assms] parcel_writes [OF assms] optional_params_writes [OF assms])+)

lemma callback_type_reads:
  assumes "parcel_spec lib room holds" "cbType \<noteq> []"
  shows "reads holds (read_callback_type lib) [PInt token, PText cbType] (Inr (token, cbType))"
  unfolding read_callback_type_def
  by (intro reads_checked [OF parcel_reads(2) [OF assms(1)]] reads_checked [OF parcel_reads(3) [OF assms(1)]])
    (simp add: assms reads_return)

lemma register_callback_reads:
  assumes "parcel_spec lib room holds" "cbType \<noteq> []"
  shows "reads holds (read_register_callback lib) [PInt token, PText cbType, PObject n] (Inr (token, cbType, n))"
proof -
  have "reads holds (do { notifier \<leftarrow> readRemoteObject lib;
        mreturn (case notifier of None \<Rightarrow> Inl (ERR_NULL_PARCEL_OBJECT lib) | Some n \<Rightarrow> Inr (token, cbType, n)) })
      [PObject n] (Inr (token, cbType, n))"
    by (rule reads_step [OF parcel_reads(6) [OF assms(1)]]) (simp add: reads_return)
  then have "reads holds (read_register_callback lib) ([PInt token, PText cbType] @ [PObject n]) (Inr (token, cbType, n))"
    unfolding read_register_callback_def by (intro reads_bind [OF callback_type_reads [OF assms]]) simp
  then show ?thesis
    by simp
qed

lemma connect_status_reads:
  assumes spec: "parcel_spec lib room holds"
  shows "reads holds (read_connect_status lib) [PInt token, PText deviceId, PInt st] (Inr (token, deviceId, st))"
  unfolding read_connect_status_def
  by (intro reads_checked [OF parcel_reads(2) [OF spec]] reads_checked [OF parcel_reads(3) [OF spec]]
      reads_step [OF reads_int32_or_0 [OF spec]] reads_return)

lemma start_reads:
  assumes spec: "parcel_spec lib room holds" and t: "params_travel lib params"
  shows "reads holds (read_start lib) (PInt token # optional_params_items lib params) (Inr (token, params))"
proof -
  have "reads holds (do { p \<leftarrow> read_optional_params lib; mreturn (case p of Inl e \<Rightarrow> Inl e | Inr x \<Rightarrow> Inr (token, x)) })
      (optional_params_items lib params @ []) (Inr (token, params))"
    by (rule reads_bind [OF optional_params_reads [OF spec t]]) (simp add: reads_return)
  then show ?thesis
    unfolding read_start_def by (intro reads_checked [OF parcel_reads(2) [OF spec]]) simp
qed

lemma handle_args_reads: "holds data xs \<Longrightarrow> reads holds rd xs (Inr args) \<Longrightarrow> handle_args rd data reply f = f args"
  using readsD_all by (fastforce simp: handle_args_def)

lemma stub_func_runs:
  assumes spec: "parcel_spec (parcels env) room holds" and t: "request_travels (parcels env) req"
    and h: "holds data (request_items (parcels env) req)"
  shows "\<exists>func. ability_stub_func env (request_code req) = Some func \<and>
    func caller data reply = do { r \<leftarrow> service_call env caller req; mreturn (reply_with (parcels env) (reply_writer (parcels env) req r) reply) }"
proof (cases req)
  case (ReqRegister params)
  have "reads holds (read_optional_params (parcels env)) (request_items (parcels env) req) (Inr params)"
    using optional_params_reads [OF spec] t ReqRegister by simp
  note handle_args_reads [of holds, OF h this, simp]
  show ?thesis
    using ReqRegister by (simp add: ability_stub_func_def RegisterInner_def case_prod_unfold)
next
  case (ReqUnregister token)
  have "reads holds (read_checked (parcels env) (readInt32 (parcels env)) (\<lambda>token. mreturn (Inr token)))
      (request_items (parcels env) req) (Inr token)"
    using ReqUnregister by (simp add: reads_checked [OF parcel_reads(2) [OF spec]] reads_return)
  note handle_args_reads [of holds, OF h this, simp]
  show ?thesis
    using ReqUnregister by (simp add: ability_stub_func_def UnregisterInner_def no_token_def)
next
  case (ReqRegisterCallback token cbType n)
  have "reads holds (read_register_callback (parcels env)) (request_items (parcels env) req) (Inr (token, cbType, n))"
    using register_callback_reads [OF spec] t ReqRegisterCallback by simp
  note handle_args_reads [of holds, OF h this, simp]
  show ?thesis
    using ReqRegisterCallback by (simp add: ability_stub_func_def RegisterDeviceSelectionCallbackInner_def no_token_def)
next
  case (ReqUnregisterCallback token cbType)
  have "reads holds (read_callback_type (parcels env)) (request_items (parcels env) req) (Inr (token, cbType))"
    using callback_type_reads [OF spec] t ReqUnregisterCallback by simp
  note handle_args_reads [of holds, OF h this, simp]
  show ?thesis
    using ReqUnregisterCallback by (simp add: ability_stub_func_def UnregisterDeviceSelectionCallbackInner_def no_token_def)
next
  case (ReqUpdateStatus token deviceId st)
  have "reads holds (read_connect_status (parcels env)) (request_items (parcels env) req) (Inr (token, deviceId, st))"
    using connect_status_reads [OF spec] ReqUpdateStatus by simp
  note handle_args_reads [of holds, OF h this, simp]
  show ?thesis
    using ReqUpdateStatus by (simp add: ability_stub_func_def UpdateConnectStatusInner_def no_token_def)
next
  case (ReqStart token params)
  have "reads holds (read_start (parcels env)) (request_items (parcels env) req) (Inr (token, params))"
    using start_reads [OF spec] t ReqStart by simp
  note handle_args_reads [of holds, OF h this, simp]
  show ?thesis
    using ReqStart by (simp add: ability_stub_func_def StartDeviceManagerInner_def no_token_def)
qed


lemma stub_serves:
  assumes spec: "parcel_spec (parcels env) room holds" and t: "request_travels (parcels env) req"
    and perm: "\<not> tokenDenied env caller PERMISSION_DISTRIBUTED_DATASYNC"
    and h: "holds data (PToken ABILITY_MANAGER_DESCRIPTOR # request_items (parcels env) req)"
  shows "AbilityManager_OnRemoteRequest env caller (request_code req) data =
    do { r \<leftarrow> service_call env caller req;
         mreturn (reply_with (parcels env) (reply_writer (parcels env) req r) (emptyParcel (parcels env))) }"
proof -
  let ?rd = "readInterfaceToken (parcels env)"
  have rd: "outcome ?rd data = Some ABILITY_MANAGER_DESCRIPTOR" "holds (exec ?rd data) (request_items (parcels env) req)"
    using readsD [OF parcel_reads(1) [OF spec], of data _ "request_items (parcels env) req"] h by auto
  obtain func where func: "ability_stub_func env (request_code req) = Some func"
    "func caller (exec ?rd data) (emptyParcel (parcels env)) =
       do { r \<leftarrow> service_call env caller req;
            mreturn (reply_with (parcels env) (reply_writer (parcels env) req r) (emptyParcel (parcels env))) }"
    using stub_func_runs [OF spec t rd(2)] by blast
  have "run_state ?rd data = (outcome ?rd data, exec ?rd data)"
    by (simp add: outcome_def exec_def)
  then show ?thesis
    using func perm rd by (simp add: AbilityManager_OnRemoteRequest_def token_matches_def)
qed

lemma request_sent:
  assumes spec: "parcel_spec lib room holds" and room: "room (PToken ABILITY_MANAGER_DESCRIPTOR # request_items lib req)"
  defines "w \<equiv> with_descriptor lib (request_writer lib req)"
  shows "outcome w (emptyParcel lib)" "holds (exec w (emptyParcel lib)) (PToken ABILITY_MANAGER_DESCRIPTOR # request_items lib req)"
proof -
  have "writes room holds w (PToken ABILITY_MANAGER_DESCRIPTOR # request_items lib req)"
    unfolding w_def with_descriptor_def
    by (rule writes_checked_step [OF spec parcel_writes(1) [OF spec] request_writes [OF spec]])
  moreover have "holds (emptyParcel lib) []"
    using spec by (simp add: parcel_spec_def)
  ultimately show "outcome w (emptyParcel lib)" "holds (exec w (emptyParcel lib)) (PToken ABILITY_MANAGER_DESCRIPTOR # request_items lib req)"
    using writesD [of room holds w _ "emptyParcel lib" "[]"] room by auto
qed

text \<open>The reply: its status is good, and its numbers are those of the service.\<close>

lemma reply_arrives:
  assumes spec: "parcel_spec lib room holds" and room: "\<And>r t. room [PInt r, PInt t]"
  shows "fst (reply_with lib (reply_writer lib req r) (emptyParcel lib)) = ERR_NONE"
    "outcome (readInt32_or_0 lib) (snd (reply_with lib (reply_writer lib req r) (emptyParcel lib))) = fst r"
    "req = ReqRegister params \<Longrightarrow>
      outcome (readInt32 lib) (exec (readInt32_or_0 lib) (snd (reply_with lib (reply_writer lib req r) (emptyParcel lib)))) = Some (snd r)"
proof -
  let ?w = "reply_writer lib req r"
  define rest where "rest = (case req of ReqRegister _ \<Rightarrow> [PInt (snd r)] | _ \<Rightarrow> [])"
  have "room [PInt (fst r)]"
    using room_prefix [OF spec, of "[PInt (fst r)]" "[PInt (snd r)]"] room by simp
  then have room': "room (PInt (fst r) # rest)"
    using room by (cases req) (simp_all add: rest_def)
  have "writes room holds ?w (PInt (fst r) # rest)"
    by (cases req) (simp_all add: rest_def writes_checked_step [OF spec] parcel_writes [OF spec])
  moreover have "holds (emptyParcel lib) []"
    using spec by (simp add: parcel_spec_def)
  ultimately have w: "outcome ?w (emptyParcel lib)" "holds (exec ?w (emptyParcel lib)) (PInt (fst r) # rest)"
    using writesD [of room holds ?w _ "emptyParcel lib" "[]"] room' by auto
  show "fst (reply_with lib ?w (emptyParcel lib)) = ERR_NONE"
    by (simp add: reply_with_def w)
  have first: "outcome (readInt32_or_0 lib) (exec ?w (emptyParcel lib)) = fst r \<and>
      holds (exec (readInt32_or_0 lib) (exec ?w (emptyParcel lib))) rest"
    using readsD [OF reads_int32_or_0 [OF spec]] w(2) by force
  then show "outcome (readInt32_or_0 lib) (snd (reply_with lib ?w (emptyParcel lib))) = fst r"
    by (simp add: reply_with_def)
  show "outcome (readInt32 lib) (exec (readInt32_or_0 lib) (snd (reply_with lib ?w (emptyParcel lib)))) = Some (snd r)"
    if "req = ReqRegister params"
    using that first readsD_all [OF parcel_reads(2) [OF spec]] by (simp add: reply_with_def rest_def)
qed

lemma Register_failed_token: "fst (outcome (Register caller params) s) \<noteq> ERR_OK \<Longrightarrow> snd (outcome (Register caller params) s) = -1"
  by (simp add: Register_def Let_def split: if_splits)

lemma run_state_pair: "run_state m s = (outcome m s, exec m s)"
  by (simp add: outcome_def exec_def)

lemma transact_serves:
  assumes spec: "parcel_spec (parcels env) room holds" and t: "request_travels (parcels env) req"
    and perm: "\<not> tokenDenied env caller PERMISSION_DISTRIBUTED_DATASYNC"
    and room: "room (PToken ABILITY_MANAGER_DESCRIPTOR # request_items (parcels env) req)" "\<And>r t. room [PInt r, PInt t]"
  shows "transact_ret (parcels env) (AbilityManager_OnRemoteRequest env caller) (request_code req)
      (with_descriptor (parcels env) (request_writer (parcels env) req)) =
    do { r \<leftarrow> service_call env caller req; mreturn (fst r) }"
  using request_sent [OF spec room(1)] stub_serves [OF spec t perm, where data = "exec (with_descriptor (parcels env) (request_writer (parcels env) req)) (emptyParcel (parcels env))"]
    reply_arrives [OF spec room(2)]
  by (simp add: transact_ret_def case_prod_unfold)

text \<open>
  C14: A call of an application through the proxy does exactly what the operation of the service does, and returns its
  result, when the caller has the permission and the parcels work as documented: every argument arrives
  unchanged, through both directions of the call.
\<close>

theorem proxy_is_service:
  assumes spec: "parcel_spec (parcels env) room holds"
    and room: "room (PToken ABILITY_MANAGER_DESCRIPTOR # request_items (parcels env) req)" "\<And>r t. room [PInt r, PInt t]"
    and travels: "request_travels (parcels env) req"
    and perm: "\<not> tokenDenied env caller PERMISSION_DISTRIBUTED_DATASYNC"
  shows "run_state (proxy_call (parcels env) (Some (AbilityManager_OnRemoteRequest env caller)) req) s =
    run_state (service_call env caller req) s"
proof (cases req)
  case (ReqRegister params)
  have "AbilityManager_OnRemoteRequest env caller CODE_REGISTER
      (exec (with_descriptor (parcels env) (write_optional_params (parcels env) params)) (emptyParcel (parcels env))) =
    do { r \<leftarrow> Register caller params;
         mreturn (reply_with (parcels env) (reply_writer (parcels env) req r) (emptyParcel (parcels env))) }"
    using stub_serves [OF spec travels perm request_sent(2) [OF spec room(1)]] ReqRegister by simp
  then show ?thesis
    using request_sent(1) [OF spec room(1)] ReqRegister reply_arrives(1,2) [OF spec room(2), where req = "ReqRegister params"]
      reply_arrives(3) [OF spec room(2) refl, of params "outcome (Register caller params) s"]
      Register_failed_token [of caller params s]
    by (cases "fst (outcome (Register caller params) s) = ERR_NONE")
      (simp_all add: Proxy_Register_def run_state_pair case_prod_unfold prod_eq_iff Let_def split: option.split)
next
  case (ReqUnregister token)
  then show ?thesis
    using transact_serves [OF spec travels perm room] by (simp add: Proxy_Unregister_def no_token_def)
next
  case (ReqRegisterCallback token cbType n)
  then show ?thesis
    using transact_serves [OF spec travels perm room] travels by (simp add: Proxy_RegisterDeviceSelectionCallback_def no_token_def)
next
  case (ReqUnregisterCallback token cbType)
  then show ?thesis
    using transact_serves [OF spec travels perm room] travels by (simp add: Proxy_UnregisterDeviceSelectionCallback_def no_token_def)
next
  case (ReqUpdateStatus token deviceId st)
  then show ?thesis
    using transact_serves [OF spec travels perm room] by (simp add: Proxy_UpdateConnectStatus_def no_token_def)
next
  case (ReqStart token params)
  then show ?thesis
    using transact_serves [OF spec travels perm room] by (simp add: Proxy_StartDeviceManager_def no_token_def)
qed


text \<open>Services that all succeed, over parcels that are lists.\<close>

definition sample_sel_env :: "parcel_item list sel_env" where
  "sample_sel_env =
     \<lparr>parcels = list_parcels 100, osAccountPart = True, activeOsAccounts = (0, [100]), samgrFound = True, bmsFound = True,
      bmsCast = True, extensionAbilityInfos = (\<lambda>_. [(''com.ohos.hiplay'', ''Panel'')]), amsConnectRet = 0, amsConnectAbilityRet = 0,
      amsDisconnectAbilityRet = 0, deviceCallbackStub = 77, tokenDenied = (\<lambda>_ _. False), defaultRequestRet = (\<lambda>_. 305),
      abilityConnectionDescriptor = ''ohos.abilityshell.AbilityConnection'', elementUnmarshalling = mreturn (Some ()),
      ON_ABILITY_CONNECT_DONE = 1, ON_ABILITY_DISCONNECT_DONE = 2, SEL_ERR_INVALID_STATE = 1, SEL_ERR_INVALID_VALUE = 2,
      SEL_ERR_INVALID_DATA = 3\<rparr>"

definition sample_params :: extra_params where
  "sample_params = \<lparr>deviceTypeVec = [''phone'', ''pad''], targetBundle = ''com.app'', description = ''d'', paramFilter = [],
     continuationMode = 1, authInfo = []\<rparr>"

lemma sample_parcels: "parcel_spec (parcels sample_sel_env) (\<lambda>xs. length xs \<le> 100) (=)"
  by (simp add: sample_sel_env_def list_parcels_spec)

lemma sample_travel [simp]: "texts_travel (parcels sample_sel_env) ss"
  by (simp add: sample_sel_env_def texts_travel_def)

lemma proxy_is_service_witness:
  "run_state (proxy_call (parcels sample_sel_env) (Some (AbilityManager_OnRemoteRequest sample_sel_env 7)) (ReqRegister (Some sample_params)))
     (init_sel_state ''0'') =
   run_state (service_call sample_sel_env 7 (ReqRegister (Some sample_params))) (init_sel_state ''0'')"
  by (rule proxy_is_service [OF sample_parcels])
    (simp_all add: optional_params_items_def params_items_def params_travel_def, simp add: sample_sel_env_def)


subsection \<open>From the window to the application\<close>

lemma selection_reads:
  assumes spec: "parcel_spec lib room holds" and t: "\<forall>r\<in>set rs. texts_travel lib (result_texts r)" and n: "length rs < 2 ^ 31"
  shows "reads holds (read_selection lib) (PInt token # results_items lib rs) (Inr (token, rs))"
proof -
  have "reads holds (do { x \<leftarrow> ReadContinuationResultsFromParcel lib;
        mreturn (case x of None \<Rightarrow> Inl (ERR_FLATTEN_OBJECT lib) | Some results \<Rightarrow> Inr (token, results)) })
      (results_items lib rs @ []) (Inr (token, rs))"
    by (rule reads_bind [OF results_reads [OF spec t n]]) (simp add: reads_return)
  then show ?thesis
    unfolding read_selection_def by (intro reads_checked [OF parcel_reads(2) [OF spec]]) simp
qed

lemma notifier_message_arrives:
  assumes spec: "parcel_spec (parcels env) room holds" and t: "\<forall>r\<in>set rs. texts_travel (parcels env) (result_texts r)"
    and n: "length rs < 2 ^ 31" and room: "room (PToken DEVICE_SELECTION_NOTIFIER_INTERFACE_TOKEN # results_items (parcels env) rs)"
  defines "w \<equiv> results_message (parcels env) rs"
  shows "outcome w (emptyParcel (parcels env))"
    "NotifierStub_OnRemoteRequest env EVENT_DEVICE_CONNECT (exec w (emptyParcel (parcels env))) = Inr (DeviceConnected rs)"
    "NotifierStub_OnRemoteRequest env EVENT_DEVICE_DISCONNECT (exec w (emptyParcel (parcels env))) = Inr (DeviceDisconnected rs)"
proof -
  have "writes room holds w (PToken DEVICE_SELECTION_NOTIFIER_INTERFACE_TOKEN # results_items (parcels env) rs)"
    unfolding w_def results_message_def
    by (rule writes_checked_step [OF spec parcel_writes(1) [OF spec] results_writes [OF spec]])
  moreover have "holds (emptyParcel (parcels env)) []"
    using spec by (simp add: parcel_spec_def)
  ultimately have w: "outcome w (emptyParcel (parcels env))"
    "holds (exec w (emptyParcel (parcels env))) ([PToken DEVICE_SELECTION_NOTIFIER_INTERFACE_TOKEN] @ results_items (parcels env) rs)"
    using writesD [of room holds w _ "emptyParcel (parcels env)" "[]"] room by auto
  show "outcome w (emptyParcel (parcels env))"
    by (rule w(1))
  note readsD [OF parcel_reads(1) [OF spec] w(2)]
  with readsD_all [OF results_reads [OF spec t n]]
  show "NotifierStub_OnRemoteRequest env EVENT_DEVICE_CONNECT (exec w (emptyParcel (parcels env))) = Inr (DeviceConnected rs)"
    "NotifierStub_OnRemoteRequest env EVENT_DEVICE_DISCONNECT (exec w (emptyParcel (parcels env))) = Inr (DeviceDisconnected rs)"
    by (simp_all add: NotifierStub_OnRemoteRequest_def run_state_pair token_matches_def)
qed

lemma selection_delivered:
  assumes spec: "parcel_spec (parcels env) room holds"
    and room: "room (PToken DEVICE_SELECTION_NOTIFIER_INTERFACE_TOKEN # results_items (parcels env) rs)"
    and travel: "\<forall>r\<in>set rs. texts_travel (parcels env) (result_texts r)" and len: "length rs < 2 ^ 31"
    and data: "holds data (PToken APP_DEVICE_CALLBACK_DESCRIPTOR # PInt token # results_items (parcels env) rs)"
    and handler: "selHandler s"
    and callback: "smap_find (callbackMap s) token = Some i" "GetNotifier EVENT_CONNECT i = Some n"
  shows "outcome (AppDeviceCallback_OnRemoteRequest env EVENT_DEVICE_CONNECT data) s = ERR_OK"
    and "selQueue (exec (AppDeviceCallback_OnRemoteRequest env EVENT_DEVICE_CONNECT data) s) =
      selQueue s @ [TaskDisconnectAbility, TaskDeviceConnect n rs]"
    and "\<exists>p. selCalls (exec (run_sel_task env (TaskDeviceConnect n rs)) s') = selCalls s' @ [CallSendRequest n EVENT_DEVICE_CONNECT p] \<and>
      NotifierStub_OnRemoteRequest env EVENT_DEVICE_CONNECT p = Inr (DeviceConnected rs)"
proof -
  let ?rd = "readInterfaceToken (parcels env)"
  have rd: "outcome ?rd data = Some APP_DEVICE_CALLBACK_DESCRIPTOR" "holds (exec ?rd data) (PInt token # results_items (parcels env) rs)"
    using readsD [OF parcel_reads(1) [OF spec], of data _ "PInt token # results_items (parcels env) rs"] data by auto
  have "AppDeviceCallback_OnRemoteRequest env EVENT_DEVICE_CONNECT data = OnDeviceConnect token rs"
    using rd readsD_all [OF selection_reads [OF spec travel len] rd(2)]
    by (simp add: AppDeviceCallback_OnRemoteRequest_def run_state_pair token_matches_def)
  then show "outcome (AppDeviceCallback_OnRemoteRequest env EVENT_DEVICE_CONNECT data) s = ERR_OK"
    "selQueue (exec (AppDeviceCallback_OnRemoteRequest env EVENT_DEVICE_CONNECT data) s) =
      selQueue s @ [TaskDisconnectAbility, TaskDeviceConnect n rs]"
    using handler callback
    by (simp_all add: OnDeviceConnect_def HandleDisconnectAbility_def sel_submit_def IsNotifierRegisteredLocked_def HandleDeviceConnect_def)
  show "\<exists>p. selCalls (exec (run_sel_task env (TaskDeviceConnect n rs)) s') = selCalls s' @ [CallSendRequest n EVENT_DEVICE_CONNECT p] \<and>
      NotifierStub_OnRemoteRequest env EVENT_DEVICE_CONNECT p = Inr (DeviceConnected rs)"
    using notifier_message_arrives [OF spec travel len room]
    by (simp add: NotifierProxy_OnDeviceConnect_def send_parcel_def sel_log_def)
qed

text \<open>
  C17: The devices that the user selected in the window reach the application. When the window reports them for a
  token with a callback, the service answers that all is well and queues the end of its connection to the window
  and the report; when the report's turn comes, the application's callback object is sent a message, and what
  the stub in the application reads from it is exactly the list of selected devices.
\<close>

theorem selection_reaches_application:
  assumes spec: "parcel_spec (parcels env) room holds"
    and room: "room (PToken DEVICE_SELECTION_NOTIFIER_INTERFACE_TOKEN # results_items (parcels env) rs)"
    and travel: "\<forall>r\<in>set rs. texts_travel (parcels env) (result_texts r)" and len: "length rs < 2 ^ 31"
    and data: "holds data (PToken APP_DEVICE_CALLBACK_DESCRIPTOR # PInt token # results_items (parcels env) rs)"
    and handler: "selHandler s"
    and callback: "smap_find (callbackMap s) token = Some i" "GetNotifier EVENT_CONNECT i = Some n"
  shows "outcome (AppDeviceCallback_OnRemoteRequest env EVENT_DEVICE_CONNECT data) s = ERR_OK \<and>
    selQueue (exec (AppDeviceCallback_OnRemoteRequest env EVENT_DEVICE_CONNECT data) s) =
      selQueue s @ [TaskDisconnectAbility, TaskDeviceConnect n rs] \<and>
    (\<forall>s'. \<exists>p. selCalls (exec (run_sel_task env (TaskDeviceConnect n rs)) s') = selCalls s' @ [CallSendRequest n EVENT_DEVICE_CONNECT p] \<and>
      NotifierStub_OnRemoteRequest env EVENT_DEVICE_CONNECT p = Inr (DeviceConnected rs))"
  using selection_delivered [OF assms] by blast

definition sample_results :: "continuation_result list" where
  "sample_results = [\<lparr>resDeviceId = ''B'', resDeviceType = ''pad'', resDeviceName = ''Tablet''\<rparr>]"

definition sample_sel_state :: "parcel_item list sel_state" where
  "sample_sel_state = (init_sel_state ''1'')\<lparr>tokenCounter := 1, tokenMap := [(7, [1])],
     callbackMap := [(1, \<lparr>notifierMap = [(EVENT_CONNECT, 30)], connectStatusInfo = None\<rparr>)], selHandler := True\<rparr>"

lemma selection_reaches_application_witness:
  "let data = PToken APP_DEVICE_CALLBACK_DESCRIPTOR # PInt 1 # results_items (parcels sample_sel_env) sample_results in
     outcome (AppDeviceCallback_OnRemoteRequest sample_sel_env EVENT_DEVICE_CONNECT data) sample_sel_state = ERR_OK \<and>
     selQueue (exec (AppDeviceCallback_OnRemoteRequest sample_sel_env EVENT_DEVICE_CONNECT data) sample_sel_state) =
       [TaskDisconnectAbility, TaskDeviceConnect 30 sample_results]"
proof -
  let ?rs = sample_results
  have callback: "smap_find (callbackMap sample_sel_state) 1 = Some \<lparr>notifierMap = [(EVENT_CONNECT, 30)], connectStatusInfo = None\<rparr>"
    by (simp add: sample_sel_state_def)
  have notifier: "GetNotifier EVENT_CONNECT \<lparr>notifierMap = [(EVENT_CONNECT, 30)], connectStatusInfo = None\<rparr> = Some 30"
    by (simp add: GetNotifier_def)
  have len: "length (PToken DEVICE_SELECTION_NOTIFIER_INTERFACE_TOKEN # results_items (parcels sample_sel_env) ?rs) \<le> 100" "length ?rs < 2 ^ 31"
    by (simp_all add: results_items_def sample_results_def result_items_def result_texts_def)
  have "\<forall>r\<in>set ?rs. texts_travel (parcels sample_sel_env) (result_texts r)" "selHandler sample_sel_state"
    by (simp_all add: sample_sel_state_def)
  note selection_reaches_application [OF sample_parcels len(1) this(1) len(2) refl this(2) callback notifier]
  moreover have "selQueue sample_sel_state = []"
    by (simp add: sample_sel_state_def init_sel_state_def)
  ultimately show ?thesis
    by (simp add: Let_def)
qed

end
