(* ===== verification/Selection_Safety.thy ===== *)
theory Selection_Safety
  imports Selection_Calls
begin

text \<open>
  The service of the device selection under every sequence of calls: the invariant of its maps, the uniqueness of
  its tokens, who may use a token, and two places where it does not do what it means to. \<open>sel_run\<close> are the states
  that are reached by any messages, well-formed or not, of applications, the ability manager and the window, by deaths of
  callback objects, and by the turns of the queue; it counts the tokens that were handed out.
\<close>

subsection \<open>Tokens as texts\<close>

lemma digits_value_append:
  "list_all is_digit xs \<Longrightarrow> digits_value a (xs @ ys) = digits_value (digits_value a xs) ys"
  by (induction xs arbitrary: a) simp_all

lemma of_char_digit: "d < 10 \<Longrightarrow> (of_char (char_of (48 + d :: nat)) :: nat) = 48 + d"
  by simp

lemma of_char_digit_int: "d < 10 \<Longrightarrow> (of_char (char_of (48 + d :: nat)) :: int) = 48 + int d"
  using of_char_digit [of d] by (metis of_nat_add of_nat_numeral of_nat_of_char)

lemma is_digit_digit: "d < 10 \<Longrightarrow> is_digit (char_of (48 + d :: nat))"
  by (simp add: is_digit_def)

lemma nat_text_digits: "list_all is_digit (nat_text n) \<and> digits_value 0 (nat_text n) = int n \<and> nat_text n \<noteq> []"
proof (induction n rule: nat_text.induct)
  case (1 n)
  show ?case
  proof (cases "n < 10")
    case True
    then show ?thesis
      by (simp add: nat_text.simps [of n] is_digit_digit of_char_digit_int)
  next
    case False
    moreover have "10 * (int n div 10) + int (n mod 10) = int n"
      by (simp add: zmod_int)
    ultimately show ?thesis
      using "1.IH" [OF False] is_digit_digit [of "n mod 10"] of_char_digit_int [of "n mod 10"]
      by (simp add: nat_text.simps [of n] digits_value_append zdiv_int)
  qed
qed

lemma atoi_to_string: "0 \<le> t \<Longrightarrow> atoi (to_string t) = t"
proof -
  assume t: "0 \<le> t"
  obtain c cs where cs: "nat_text (nat t) = c # cs"
    using nat_text_digits [of "nat t"] by (cases "nat_text (nat t)") auto
  then have "is_digit c"
    using nat_text_digits [of "nat t"] by simp
  then have "\<not> is_space c" "c \<noteq> CHR ''-''" "c \<noteq> CHR ''+''"
    by (auto simp: is_digit_def is_space_def)
  then show ?thesis
    using t cs nat_text_digits [of "nat t"] by (simp add: atoi_def to_string_def split: if_splits)
qed

lemma to_string_not_empty: "0 \<le> t \<Longrightarrow> to_string t \<noteq> []"
  using nat_text_digits [of "nat t"] by (simp add: to_string_def)

subsection \<open>The loop over the tokens\<close>

definition held :: "(u32, int list) smap \<Rightarrow> int \<Rightarrow> bool" where
  "held m t \<longleftrightarrow> (\<exists>a ts. smap_find m a = Some ts \<and> t \<in> set ts)"

lemma drop_token_keys: "fst ` set (drop_token t m) \<subseteq> fst ` set m"
  by (induction t m rule: drop_token.induct) (auto simp: Let_def)

lemma drop_token_ok: "smap_ok m \<Longrightarrow> smap_ok (drop_token t m)"
proof (induction t m rule: drop_token.induct)
  case (2 t a ts m)
  then show ?case
    using drop_token_keys [of t m] by (fastforce simp: Let_def smap_ok_Cons)
qed simp

lemma drop_token_find:
  "smap_ok m \<Longrightarrow> smap_find (drop_token t m) a = Some ts' \<Longrightarrow>
     \<exists>ts. smap_find m a = Some ts \<and> (ts' = ts \<or> ts' = filter (\<lambda>n. n \<noteq> t) ts \<and> ts' \<noteq> [])"
proof (induction t m rule: drop_token.induct)
  case (2 t b us m)
  show ?case
  proof (cases "a = b")
    case True
    then have "smap_find m a = None"
      using 2(2) smap_find_mem [of m a] by (cases "smap_find m a") (auto simp: smap_ok_Cons)
    then show ?thesis
      using 2(3) True by (auto simp: Let_def split: if_splits)
  next
    case False
    then show ?thesis
      using 2 by (auto simp: Let_def smap_ok_Cons split: if_splits)
  qed
qed simp

lemma drop_token_other:
  "smap_ok m \<Longrightarrow> smap_find m a = Some ts \<Longrightarrow> u \<in> set ts \<Longrightarrow> u \<noteq> t \<Longrightarrow>
     \<exists>ts'. smap_find (drop_token t m) a = Some ts' \<and> u \<in> set ts'"
proof (induction t m rule: drop_token.induct)
  case (2 t b us m)
  then show ?case
    by (auto simp: Let_def smap_ok_Cons filter_empty_conv split: if_splits)
qed simp

lemma held_drop_token: "smap_ok m \<Longrightarrow> held m u \<Longrightarrow> u \<noteq> t \<Longrightarrow> held (drop_token t m) u"
  using drop_token_other unfolding held_def by blast

lemma held_drop_tokenD: "smap_ok m \<Longrightarrow> held (drop_token t m) u \<Longrightarrow> held m u"
  using drop_token_find unfolding held_def by fastforce

subsection \<open>The invariant\<close>

definition notifiers_ok :: "notifier_info \<Rightarrow> bool" where
  "notifiers_ok i \<longleftrightarrow> smap_ok (notifierMap i) \<and> notifierMap i \<noteq> [] \<and>
     (\<forall>k n. smap_find (notifierMap i) k = Some n \<longrightarrow> k = EVENT_CONNECT \<or> k = EVENT_DISCONNECT)"

definition tokens_ok :: "int list \<Rightarrow> bool" where
  "tokens_ok ts \<longleftrightarrow> ts \<noteq> [] \<and> length ts \<le> MAX_REGISTER_NUM \<and> (\<forall>t\<in>set ts. 1 \<le> t \<and> t \<le> MAX_TOKEN_NUM)"

definition sel_ok :: "'pc sel_state \<Rightarrow> bool" where
  "sel_ok s \<longleftrightarrow> smap_ok (tokenMap s) \<and> smap_ok (callbackMap s) \<and>
     0 \<le> tokenCounter s \<and> tokenCounter s \<le> MAX_TOKEN_NUM \<and>
     (\<forall>a ts. smap_find (tokenMap s) a = Some ts \<longrightarrow> tokens_ok ts) \<and>
     (\<forall>t i. smap_find (callbackMap s) t = Some i \<longrightarrow> notifiers_ok i \<and> held (tokenMap s) t)"

interpretation si: effect_order "\<lambda>s s' :: 'pc sel_state. sel_ok s \<longrightarrow> sel_ok s'"
  by unfold_locales auto

abbreviation sel_keeps :: "('pc, 'a) sprog \<Rightarrow> bool" where
  "sel_keeps m \<equiv> keeps (\<lambda>s s'. sel_ok s \<longrightarrow> sel_ok s') m"

text \<open>Updates of the other fields do not matter.\<close>

lemma sel_ok_others [simp]:
  "sel_ok (s\<lparr>tokenParameter := x1\<rparr>) = sel_ok s" "sel_ok (s\<lparr>appConnect := x2\<rparr>) = sel_ok s" "sel_ok (s\<lparr>appProxy := x3\<rparr>) = sel_ok s"
  "sel_ok (s\<lparr>selHandler := x4\<rparr>) = sel_ok s" "sel_ok (s\<lparr>selQueue := x5\<rparr>) = sel_ok s" "sel_ok (s\<lparr>selCalls := x6\<rparr>) = sel_ok s"
  by (simp_all add: sel_ok_def)

lemma keeps_primitives:
  "sel_keeps (sel_log c)" "sel_keeps (sel_submit t)" "sel_keeps (remove_recipients ns)"
  by (simp_all add: keeps_def sel_log_def sel_submit_def remove_recipients_def)

lemma sel_ok_put_callback:
  assumes "sel_ok s" "held (tokenMap s) t" "notifiers_ok i"
  shows "sel_ok (s\<lparr>callbackMap := smap_put t i (callbackMap s)\<rparr>)"
  using assms by (auto simp: sel_ok_def sm.laws split: if_splits)

lemma sel_ok_erase_callback: "sel_ok s \<Longrightarrow> sel_ok (s\<lparr>callbackMap := smap_erase t (callbackMap s)\<rparr>)"
  by (auto simp: sel_ok_def sm.laws split: if_splits)

lemma IsTokenRegistered_held: "IsTokenRegistered a t s \<Longrightarrow> held (tokenMap s) t"
  by (auto simp: IsTokenRegistered_def held_def split: option.splits)

lemma tokens_ok_filter: "tokens_ok ts \<Longrightarrow> filter P ts \<noteq> [] \<Longrightarrow> tokens_ok (filter P ts)"
  using order_trans [OF length_filter_le [of P ts], of MAX_REGISTER_NUM] by (auto simp: tokens_ok_def)

lemma sel_ok_drop_token:
  assumes ok: "sel_ok s" and free: "smap_find (callbackMap s) t = None"
  shows "sel_ok (s\<lparr>tokenMap := drop_token t (tokenMap s)\<rparr>)"
proof -
  have "tokens_ok ts'" if "smap_find (drop_token t (tokenMap s)) a = Some ts'" for a ts'
    using drop_token_find [OF _ that] ok tokens_ok_filter by (auto simp: sel_ok_def)
  moreover have "held (drop_token t (tokenMap s)) u" if "smap_find (callbackMap s) u = Some i" for u i
    using held_drop_token [of "tokenMap s" u t] ok that free by (cases "u = t") (auto simp: sel_ok_def)
  ultimately show ?thesis
    using ok drop_token_ok [of "tokenMap s" t] by (auto simp: sel_ok_def)
qed

lemma forget_token_ok: "sel_ok s \<Longrightarrow> sel_ok (exec (forget_token t) s)"
proof (cases "smap_find (callbackMap s) t")
  case (Some i)
  assume ok: "sel_ok s"
  let ?s = "s\<lparr>selCalls := selCalls s @ map CallRemoveDeathRecipient (RemoveDeathRecipient_targets [] i),
    callbackMap := smap_erase t (callbackMap s)\<rparr>"
  have "sel_ok ?s"
    using sel_ok_erase_callback [of "s\<lparr>selCalls := selCalls s @ map CallRemoveDeathRecipient (RemoveDeathRecipient_targets [] i)\<rparr>" t] ok
    by simp
  moreover have "smap_find (callbackMap ?s) t = None"
    using ok by (simp add: sel_ok_def sm.laws)
  ultimately show ?thesis
    using sel_ok_drop_token [of ?s t] Some by (simp add: forget_token_def remove_recipients_def)
qed (simp add: forget_token_def sel_ok_drop_token)

lemma SetNotifier_ok:
  assumes "cbType = EVENT_CONNECT \<or> cbType = EVENT_DISCONNECT" "notifiers_ok i \<or> i = new_NotifierInfo"
  shows "notifiers_ok (SetNotifier cbType n i)"
proof -
  have ok: "smap_ok (notifierMap i)"
    using assms(2) by (auto simp: notifiers_ok_def new_NotifierInfo_def)
  moreover have "smap_put cbType n (notifierMap i) \<noteq> []"
    by (cases "notifierMap i") (auto split: if_splits)
  ultimately show ?thesis
    using assms by (auto simp: notifiers_ok_def SetNotifier_def sm.laws new_NotifierInfo_def split: if_splits)
qed

lemma DeleteNotifier_ok: "notifiers_ok i \<Longrightarrow> \<not> IsNotifierMapEmpty (DeleteNotifier cbType i) \<Longrightarrow> notifiers_ok (DeleteNotifier cbType i)"
  by (auto simp: notifiers_ok_def DeleteNotifier_def IsNotifierMapEmpty_def sm.laws split: if_splits)

lemma status_ok: "notifiers_ok (i\<lparr>connectStatusInfo := st\<rparr>) = notifiers_ok i"
  by (simp add: notifiers_ok_def)


subsection \<open>Every operation keeps it\<close>

lemma next_token: "0 \<le> c \<Longrightarrow> c \<le> MAX_TOKEN_NUM \<Longrightarrow>
  1 \<le> (if c + 1 > MAX_TOKEN_NUM then 1 else c + 1) \<and> (if c + 1 > MAX_TOKEN_NUM then 1 else c + 1) \<le> MAX_TOKEN_NUM"
  by simp

definition tokens_of :: "u32 \<Rightarrow> 'pc sel_state \<Rightarrow> int list" where
  "tokens_of a s = (case smap_find (tokenMap s) a of None \<Rightarrow> [] | Some ts \<Rightarrow> ts)"

text \<open>\<^verbatim>\<open>Register\<close> as an equation: it refuses, or it hands out the next token.\<close>

lemma Register_run:
  "run_state (Register a params) s =
     (if \<not> params_valid params then ((INVALID_CONTINUATION_MODE, -1), s)
      else if IsExceededRegisterMaxNum a s then ((REGISTER_EXCEED_MAX_TIMES, -1), s)
      else let t = (if tokenCounter s + 1 > MAX_TOKEN_NUM then 1 else tokenCounter s + 1) in
        ((ERR_OK, t), s\<lparr>tokenCounter := t, tokenParameter := to_string t, tokenMap := smap_put a (tokens_of a s @ [t]) (tokenMap s)\<rparr>))"
  by (simp add: Register_def run_state_pair tokens_of_def Let_def)

lemma Register_exec: "exec (Register a params) s = snd (run_state (Register a params) s)"
  by (simp add: exec_def)

lemma not_exceeded: "\<not> IsExceededRegisterMaxNum a s \<Longrightarrow> length (tokens_of a s) < MAX_REGISTER_NUM"
  by (auto simp: IsExceededRegisterMaxNum_def tokens_of_def split: option.splits)

lemma held_put:
  assumes "smap_ok (tokenMap s)"
  shows "held (smap_put a (tokens_of a s @ [t]) (tokenMap s)) u \<longleftrightarrow> u = t \<or> held (tokenMap s) u"
proof
  assume "held (smap_put a (tokens_of a s @ [t]) (tokenMap s)) u"
  then show "u = t \<or> held (tokenMap s) u"
    using assms unfolding held_def tokens_of_def by (auto simp: sm.laws split: if_splits option.splits)
next
  have "smap_find (smap_put a (tokens_of a s @ [t]) (tokenMap s)) b = (if b = a then Some (tokens_of a s @ [t]) else smap_find (tokenMap s) b)" for b
    using assms by (simp add: sm.laws)
  moreover assume "u = t \<or> held (tokenMap s) u"
  ultimately show "held (smap_put a (tokens_of a s @ [t]) (tokenMap s)) u"
    unfolding held_def tokens_of_def by (metis (no_types, lifting) UnI1 UnI2 list.set_intros(1) option.simps(5) set_append)
qed

lemma Register_keeps: "sel_keeps (Register a params)"
  unfolding keeps_def
proof (intro allI impI)
  fix s :: "'a sel_state"
  assume ok: "sel_ok s"
  let ?t = "if tokenCounter s + 1 > MAX_TOKEN_NUM then 1 else tokenCounter s + 1"
  let ?m = "smap_put a (tokens_of a s @ [?t]) (tokenMap s)"
  have t: "1 \<le> ?t \<and> ?t \<le> MAX_TOKEN_NUM"
    using ok next_token [of "tokenCounter s"] by (simp add: sel_ok_def)
  have "sel_ok (s\<lparr>tokenCounter := ?t, tokenMap := ?m\<rparr>)" if "\<not> IsExceededRegisterMaxNum a s"
  proof -
    have "\<forall>u\<in>set (tokens_of a s). 1 \<le> u \<and> u \<le> MAX_TOKEN_NUM"
      using ok by (cases "smap_find (tokenMap s) a") (auto simp: sel_ok_def tokens_of_def tokens_ok_def)
    then have "tokens_ok (tokens_of a s @ [?t])"
      using not_exceeded [OF that] t by (auto simp: tokens_ok_def)
    moreover have "held ?m u" if "held (tokenMap s) u" for u
      using that ok held_put [of s a ?t u] by (simp add: sel_ok_def)
    ultimately show ?thesis
      using ok t by (auto simp: sel_ok_def sm.laws split: if_splits)
  qed
  then show "sel_ok (exec (Register a params) s)"
    using ok by (simp add: Register_exec Register_run Let_def sel_ok_def)
qed

lemma RegisterCallback_keeps: "sel_keeps (RegisterDeviceSelectionCallback a t cbType n)"
  unfolding keeps_def
proof (intro allI impI)
  fix s :: "'a sel_state"
  assume ok: "sel_ok s"
  have "sel_ok (s\<lparr>callbackMap := smap_put t (SetNotifier cbType n i) (callbackMap s)\<rparr>)"
    if "cbType = EVENT_CONNECT \<or> cbType = EVENT_DISCONNECT" "IsTokenRegistered a t s"
      "smap_find (callbackMap s) t = Some i \<or> i = new_NotifierInfo" for i
    using that ok by (intro sel_ok_put_callback SetNotifier_ok IsTokenRegistered_held) (auto simp: sel_ok_def)
  then show "sel_ok (exec (RegisterDeviceSelectionCallback a t cbType n) s)"
    using ok by (auto simp: RegisterDeviceSelectionCallback_def sel_log_def split: option.split)
qed

lemma UnregisterCallback_keeps: "sel_keeps (UnregisterDeviceSelectionCallback a t cbType)"
  unfolding keeps_def
proof (intro allI impI)
  fix s :: "'a sel_state"
  assume ok: "sel_ok s"
  have *: "sel_ok (s\<lparr>callbackMap := smap_erase t (callbackMap s)\<rparr>)"
    using ok by (rule sel_ok_erase_callback)
  have **: "sel_ok (s\<lparr>callbackMap := smap_put t (DeleteNotifier cbType i) (callbackMap s)\<rparr>)"
    if "smap_find (callbackMap s) t = Some i" "IsTokenRegistered a t s" "\<not> IsNotifierMapEmpty (DeleteNotifier cbType i)" for i
    using that ok by (intro sel_ok_put_callback DeleteNotifier_ok IsTokenRegistered_held) (auto simp: sel_ok_def)
  have calls: "sel_ok (s\<lparr>selCalls := c, callbackMap := m\<rparr>) = sel_ok (s\<lparr>callbackMap := m\<rparr>)" for c m
    by (simp add: sel_ok_def)
  show "sel_ok (exec (UnregisterDeviceSelectionCallback a t cbType) s)"
    using ok * ** by (auto simp: UnregisterDeviceSelectionCallback_def remove_recipients_def calls split: option.split)
qed

lemma UpdateStatus_keeps: "sel_keeps (UpdateConnectStatus env a t d st)"
  unfolding keeps_def
proof (intro allI impI)
  fix s :: "'a sel_state"
  assume ok: "sel_ok s"
  have "sel_ok (s\<lparr>callbackMap := smap_put t (i\<lparr>connectStatusInfo := c\<rparr>) (callbackMap s)\<rparr>)"
    if "smap_find (callbackMap s) t = Some i" "IsTokenRegistered a t s" for i c
    using that ok by (intro sel_ok_put_callback IsTokenRegistered_held) (auto simp: sel_ok_def status_ok)
  then show "sel_ok (exec (UpdateConnectStatus env a t d st) s)"
    using ok by (auto simp: UpdateConnectStatus_def HandleUpdateConnectStatus_def sel_submit_def split: option.split)
qed

lemma HandleDisconnect_keeps: "sel_keeps HandleDisconnectAbility"
  unfolding HandleDisconnectAbility_def by (intro si.keeps_rules keeps_primitives)

lemma forget_keeps: "sel_keeps (forget_token t)"
  by (simp add: keeps_def forget_token_ok)

lemma Unregister_keeps: "sel_keeps (Unregister a t)"
  unfolding Unregister_def by (intro si.keeps_rules forget_keeps HandleDisconnect_keeps)

lemma keeps_others:
  "sel_keeps (mupd (\<lambda>s. s\<lparr>appConnect := f s\<rparr>))" "sel_keeps (mupd (\<lambda>s. s\<lparr>appProxy := g s\<rparr>))" "sel_keeps (mupd (\<lambda>s. s\<lparr>selQueue := h s\<rparr>))"
  "sel_keeps (mupd (\<lambda>s. if appConnect s = None then s\<lparr>appConnect := c\<rparr> else s))"
  by (simp_all add: keeps_def)

lemma start_keeps: "sel_keeps (HandleStartDeviceManager t params)"
  unfolding HandleStartDeviceManager_def by (intro si.keeps_rules keeps_primitives)

lemma StartDeviceManager_keeps: "sel_keeps (StartDeviceManager env a t params)"
  unfolding StartDeviceManager_def ConnectAbility_def connect_with_account_def
  by (intro si.keeps_rules keeps_primitives keeps_others start_keeps)

lemmas request_keeps = Register_keeps RegisterCallback_keeps UnregisterCallback_keeps UpdateStatus_keeps Unregister_keeps
  StartDeviceManager_keeps

lemma stub_keeps: "sel_keeps (AbilityManager_OnRemoteRequest env a code data)"
  unfolding AbilityManager_OnRemoteRequest_def ability_stub_func_def handle_args_def RegisterInner_def UnregisterInner_def
    RegisterDeviceSelectionCallbackInner_def UnregisterDeviceSelectionCallbackInner_def UpdateConnectStatusInner_def StartDeviceManagerInner_def
  by (simp add: Let_def split: option.split prod.split) (auto intro!: si.keeps_rules request_keeps)

lemma connection_keeps: "sel_keeps (AppConnection_OnRemoteRequest env conn code data)"
  unfolding AppConnection_OnRemoteRequest_def OnAbilityConnectDone_def OnAbilityDisconnectDone_def ScheduleStartDeviceManager_def
  by (intro si.keeps_rules start_keeps keeps_others)

lemma selection_keeps: "sel_keeps (OnDeviceConnect t rs)" "sel_keeps (OnDeviceDisconnect t rs)" "sel_keeps OnDeviceCancel"
  unfolding OnDeviceConnect_def OnDeviceDisconnect_def OnDeviceCancel_def HandleDeviceConnect_def HandleDeviceDisconnect_def
  by (intro si.keeps_rules HandleDisconnect_keeps keeps_primitives)+

lemma window_keeps: "sel_keeps (AppDeviceCallback_OnRemoteRequest env code data)"
  unfolding AppDeviceCallback_OnRemoteRequest_def by (intro si.keeps_rules selection_keeps)

lemma died_keeps: "sel_keeps (ProcessNotifierDied n)"
  unfolding ProcessNotifierDied_def HandleNotifierDied_def by (intro si.keeps_rules keeps_primitives)

lemma send_keeps: "sel_keeps (send_parcel env w target code)"
  unfolding send_parcel_def by (intro si.keeps_rules keeps_primitives)

lemma Disconnect_keeps: "sel_keeps (DisconnectAbility env)"
  unfolding DisconnectAbility_def by (intro si.keeps_rules keeps_primitives keeps_others)

lemma start_task_keeps: "sel_keeps (run_start_task env t params p)"
  unfolding run_start_task_def by (intro si.keeps_rules send_keeps)

lemma status_task_keeps: "sel_keeps (run_status_task env t d st p)"
  unfolding run_status_task_def by (intro si.keeps_rules send_keeps)

lemma died_task_keeps: "sel_keeps (run_died_task n)"
  unfolding run_died_task_def by (intro si.keeps_rules forget_keeps HandleDisconnect_keeps)

lemma task_keeps: "sel_keeps (run_sel_task env t)"
  by (cases t) (auto simp: NotifierProxy_OnDeviceConnect_def NotifierProxy_OnDeviceDisconnect_def
    intro!: si.keeps_rules Disconnect_keeps send_keeps start_task_keeps status_task_keeps died_task_keeps)

lemma queue_keeps: "sel_keeps (run_sel_queue env)"
  unfolding run_sel_queue_def
  by (intro si.keeps_rules) (auto split: list.split intro!: si.keeps_rules keeps_others task_keeps)


subsection \<open>All runs of the service\<close>

text \<open>A stored parameter that the service wrote itself, or none.\<close>

definition valid_parameter :: "string \<Rightarrow> bool" where
  "valid_parameter param \<longleftrightarrow> param = [] \<or> 0 \<le> atoi param \<and> atoi param \<le> MAX_TOKEN_NUM"

definition issued :: "'pc sel_state \<Rightarrow> 'pc sel_state \<Rightarrow> nat" where
  "issued s s' = (if tokenCounter s' = tokenCounter s then 0 else 1)"

inductive sel_run :: "string \<Rightarrow> nat \<Rightarrow> 'pc sel_state \<Rightarrow> bool" for param :: string where
  start: "sel_run param 0 (exec OnStart (init_sel_state param))"
| application: "sel_run param n s \<Longrightarrow> s' = exec (AbilityManager_OnRemoteRequest env a code data) s \<Longrightarrow> sel_run param (n + issued s s') s'"
| connection: "sel_run param n s \<Longrightarrow> sel_run param n (exec (AppConnection_OnRemoteRequest env conn code data) s)"
| window: "sel_run param n s \<Longrightarrow> sel_run param n (exec (AppDeviceCallback_OnRemoteRequest env code data) s)"
| died: "sel_run param n s \<Longrightarrow> sel_run param n (exec (ProcessNotifierDied notifier) s)"
| turn: "sel_run param n s \<Longrightarrow> sel_run param n (exec (run_sel_queue env) s)"

lemma started: "valid_parameter param \<Longrightarrow> sel_ok (exec OnStart (init_sel_state param))"
  by (auto simp: OnStart_def init_sel_state_def valid_parameter_def sel_ok_def)

lemma sel_run_ok: "sel_run param n s \<Longrightarrow> valid_parameter param \<Longrightarrow> sel_ok s"
proof (induction rule: sel_run.induct)
  case start
  then show ?case
    by (rule started)
next
  case (application n s s' env a code data)
  then show ?case
    using stub_keeps [of env a code data] by (simp add: keeps_def)
next
  case (connection n s env conn code data)
  then show ?case
    using connection_keeps [of env conn code data] by (simp add: keeps_def)
next
  case (window n s env code data)
  then show ?case
    using window_keeps [of env code data] by (simp add: keeps_def)
next
  case (died n s notifier)
  then show ?case
    by (intro mp [OF keepsD [OF died_keeps, of s]]) simp
next
  case (turn n s env)
  then show ?case
    using queue_keeps [of env] by (simp add: keeps_def)
qed

text \<open>A run in which application 7 registers.\<close>

definition sample_registered :: "parcel_item list sel_state" where
  "sample_registered = exec (AbilityManager_OnRemoteRequest sample_sel_env 7 CODE_REGISTER [PToken ABILITY_MANAGER_DESCRIPTOR, PInt (-1)])
     (exec OnStart (init_sel_state ''41''))"

lemma sample_parameter: "valid_parameter ''41''"
  by (simp add: valid_parameter_def atoi_def is_space_def is_digit_def)

lemma sample_run: "sel_run ''41'' 1 sample_registered"
proof -
  let ?s = "exec OnStart (init_sel_state ''41'')"
  let ?m = "AbilityManager_OnRemoteRequest sample_sel_env 7 CODE_REGISTER [PToken ABILITY_MANAGER_DESCRIPTOR, PInt (-1)]"
  have "?m = do { r \<leftarrow> service_call sample_sel_env 7 (ReqRegister None);
      mreturn (reply_with (parcels sample_sel_env) (reply_writer (parcels sample_sel_env) (ReqRegister None) r) (emptyParcel (parcels sample_sel_env))) }"
    using stub_serves [OF sample_parcels, of "ReqRegister None" 7]
    by (simp add: params_travel_def optional_params_items_def sample_sel_env_def)
  then have "issued ?s sample_registered = 1"
    by (simp add: issued_def sample_registered_def Register_exec Register_run params_valid_def IsExceededRegisterMaxNum_def OnStart_def
        init_sel_state_def atoi_def is_space_def is_digit_def Let_def)
  then show ?thesis
    using sel_run.application [OF sel_run.start sample_registered_def] by simp
qed



subsection \<open>Tokens are unique until the counter has gone round\<close>

definition tokens_unique :: "(u32, int list) smap \<Rightarrow> bool" where
  "tokens_unique m \<longleftrightarrow> (\<forall>a ts. smap_find m a = Some ts \<longrightarrow> distinct ts) \<and>
     (\<forall>a b ts us. a \<noteq> b \<and> smap_find m a = Some ts \<and> smap_find m b = Some us \<longrightarrow> set ts \<inter> set us = {})"

text \<open>Everything but \<^verbatim>\<open>Register\<close> only takes tokens away.\<close>

definition shrinks :: "'pc sel_state \<Rightarrow> 'pc sel_state \<Rightarrow> bool" where
  "shrinks s s' \<longleftrightarrow> smap_ok (tokenMap s) \<longrightarrow> smap_ok (tokenMap s') \<and> tokenCounter s' = tokenCounter s \<and>
     (\<forall>a ts'. smap_find (tokenMap s') a = Some ts' \<longrightarrow>
       (\<exists>ts. smap_find (tokenMap s) a = Some ts \<and> set ts' \<subseteq> set ts \<and> (distinct ts \<longrightarrow> distinct ts')))"

interpretation sh: effect_order shrinks
proof
  show "shrinks s s" for s :: "'a sel_state"
    by (simp add: shrinks_def)
  show "shrinks s s''" if "shrinks s s'" "shrinks s' s''" for s s' s'' :: "'a sel_state"
    unfolding shrinks_def
  proof (intro impI conjI allI)
    note steps = that
    assume ok: "smap_ok (tokenMap s)"
    then have ok': "smap_ok (tokenMap s')"
      using steps(1) by (simp add: shrinks_def)
    show "smap_ok (tokenMap s'')" "tokenCounter s'' = tokenCounter s"
      using steps ok ok' by (simp_all add: shrinks_def)
    fix a ts''
    assume "smap_find (tokenMap s'') a = Some ts''"
    then obtain ts' where ts': "smap_find (tokenMap s') a = Some ts'" "set ts'' \<subseteq> set ts'" "distinct ts' \<longrightarrow> distinct ts''"
      using steps(2) ok' unfolding shrinks_def by blast
    then obtain ts where "smap_find (tokenMap s) a = Some ts" "set ts' \<subseteq> set ts" "distinct ts \<longrightarrow> distinct ts'"
      using steps(1) ok unfolding shrinks_def by blast
    then show "\<exists>ts. smap_find (tokenMap s) a = Some ts \<and> set ts'' \<subseteq> set ts \<and> (distinct ts \<longrightarrow> distinct ts'')"
      using ts' by blast
  qed
qed

lemma shrinks_drop: "shrinks s (s\<lparr>tokenMap := drop_token t (tokenMap s)\<rparr>)"
  unfolding shrinks_def
proof (intro impI conjI allI)
  assume ok: "smap_ok (tokenMap s)"
  show "smap_ok (tokenMap (s\<lparr>tokenMap := drop_token t (tokenMap s)\<rparr>))"
    using drop_token_ok [OF ok] by simp
  fix a ts'
  assume "smap_find (tokenMap (s\<lparr>tokenMap := drop_token t (tokenMap s)\<rparr>)) a = Some ts'"
  then have "smap_find (drop_token t (tokenMap s)) a = Some ts'"
    by simp
  from drop_token_find [OF ok this] show "\<exists>ts. smap_find (tokenMap s) a = Some ts \<and> set ts' \<subseteq> set ts \<and> (distinct ts \<longrightarrow> distinct ts')"
    by auto
qed simp

lemma shrinks_primitives:
  "keeps shrinks (sel_log c)" "keeps shrinks (sel_submit t)" "keeps shrinks (remove_recipients ns)"
  "keeps shrinks (mupd (\<lambda>s. s\<lparr>appConnect := f s\<rparr>))" "keeps shrinks (mupd (\<lambda>s. s\<lparr>appProxy := g s\<rparr>))" "keeps shrinks (mupd (\<lambda>s. s\<lparr>selQueue := h s\<rparr>))"
  "keeps shrinks (mupd (\<lambda>s. if appConnect s = None then s\<lparr>appConnect := c'\<rparr> else s))"
  "keeps shrinks (mupd (\<lambda>s. s\<lparr>callbackMap := k s\<rparr>))" "keeps shrinks (mupd (\<lambda>s. s\<lparr>tokenMap := drop_token t' (tokenMap s)\<rparr>))"
  by (simp_all add: keeps_def sel_log_def sel_submit_def remove_recipients_def shrinks_drop) (simp_all add: shrinks_def)

lemmas shrinks_rules = sh.keeps_rules shrinks_primitives

lemma shrinks_forget: "keeps shrinks (forget_token t)" "keeps shrinks HandleDisconnectAbility" "keeps shrinks (HandleStartDeviceManager t params)"
  unfolding forget_token_def HandleDisconnectAbility_def HandleStartDeviceManager_def by (intro shrinks_rules)+

lemma shrinks_requests:
  "keeps shrinks (Unregister a t)" "keeps shrinks (RegisterDeviceSelectionCallback a t cbType n)"
  "keeps shrinks (UnregisterDeviceSelectionCallback a t cbType)" "keeps shrinks (UpdateConnectStatus env a t d st)"
  "keeps shrinks (StartDeviceManager env a t params)"
  unfolding Unregister_def RegisterDeviceSelectionCallback_def UnregisterDeviceSelectionCallback_def UpdateConnectStatus_def
    StartDeviceManager_def ConnectAbility_def connect_with_account_def HandleUpdateConnectStatus_def
  by (intro shrinks_rules shrinks_forget)+

lemma shrinks_send: "keeps shrinks (send_parcel env w target code)"
  unfolding send_parcel_def by (intro shrinks_rules)

lemma shrinks_task: "keeps shrinks (run_sel_task env t)"
  by (cases t) (auto simp: NotifierProxy_OnDeviceConnect_def NotifierProxy_OnDeviceDisconnect_def DisconnectAbility_def
      run_start_task_def run_status_task_def run_died_task_def intro!: shrinks_rules shrinks_send shrinks_forget)

lemma shrinks_queue: "keeps shrinks (run_sel_queue env)"
  unfolding run_sel_queue_def by (intro shrinks_rules) (auto split: list.split intro!: shrinks_rules shrinks_task)

lemma shrinks_connection: "keeps shrinks (AppConnection_OnRemoteRequest env conn code data)"
  unfolding AppConnection_OnRemoteRequest_def OnAbilityConnectDone_def OnAbilityDisconnectDone_def ScheduleStartDeviceManager_def
  by (intro shrinks_rules shrinks_forget)

lemma shrinks_window: "keeps shrinks (AppDeviceCallback_OnRemoteRequest env code data)"
  unfolding AppDeviceCallback_OnRemoteRequest_def OnDeviceConnect_def OnDeviceDisconnect_def OnDeviceCancel_def HandleDeviceConnect_def
    HandleDeviceDisconnect_def
  by (intro shrinks_rules shrinks_forget)

lemma shrinks_died: "keeps shrinks (ProcessNotifierDied n)"
  unfolding ProcessNotifierDied_def HandleNotifierDied_def by (intro shrinks_rules)

text \<open>A message to the service hands out a token by \<^verbatim>\<open>Register\<close>, or takes tokens away.\<close>

lemma stub_shrinks_or_registers:
  "shrinks s (exec (AbilityManager_OnRemoteRequest env a code data) s) \<or>
   (\<exists>params. exec (AbilityManager_OnRemoteRequest env a code data) s = exec (Register a params) s)"
proof (cases "code = CODE_REGISTER")
  case True
  then show ?thesis
    by (auto simp: AbilityManager_OnRemoteRequest_def ability_stub_func_def RegisterInner_def handle_args_def Let_def case_prod_unfold
        sh.refl split: sum.split)
next
  case False
  then have "keeps shrinks (AbilityManager_OnRemoteRequest env a code data)"
    unfolding AbilityManager_OnRemoteRequest_def ability_stub_func_def handle_args_def UnregisterInner_def
      RegisterDeviceSelectionCallbackInner_def UnregisterDeviceSelectionCallbackInner_def UpdateConnectStatusInner_def StartDeviceManagerInner_def
    by (simp add: Let_def split: option.split prod.split) (auto intro!: shrinks_rules shrinks_requests)
  then show ?thesis
    by (simp add: keeps_def)
qed


definition nth_token :: "int \<Rightarrow> nat \<Rightarrow> int" where
  "nth_token t0 k = (if k = 0 then t0 else (t0 + int k - 1) mod MAX_TOKEN_NUM + 1)"

lemma mod_next:
  fixes x m :: int
  assumes "0 < m"
  shows "(x + 1) mod m = (if x mod m + 1 = m then 0 else x mod m + 1)"
proof -
  have "(x + 1) mod m = (x mod m + 1) mod m"
    by (simp add: mod_add_left_eq)
  moreover have "0 \<le> x mod m" "x mod m < m"
    using assms by simp_all
  ultimately show ?thesis
    by (simp add: mod_pos_pos_trivial)
qed

lemma nth_token_Suc:
  assumes "0 \<le> t0" "t0 \<le> MAX_TOKEN_NUM"
  shows "nth_token t0 (Suc n) = (if nth_token t0 n + 1 > MAX_TOKEN_NUM then 1 else nth_token t0 n + 1)"
proof (cases n)
  case 0
  then show ?thesis
    using assms by (cases "t0 = MAX_TOKEN_NUM") (auto simp: nth_token_def)
next
  case (Suc k)
  define y where "y = (t0 + int n - 1) mod MAX_TOKEN_NUM"
  have "nth_token t0 (Suc n) = (t0 + int n - 1 + 1) mod MAX_TOKEN_NUM + 1" "nth_token t0 n = y + 1"
    using Suc by (simp_all add: nth_token_def y_def algebra_simps)
  moreover have "(t0 + int n - 1 + 1) mod MAX_TOKEN_NUM = (if y + 1 = MAX_TOKEN_NUM then 0 else y + 1)"
    unfolding y_def by (rule mod_next) simp
  moreover have "y < MAX_TOKEN_NUM"
    by (simp add: y_def)
  ultimately show ?thesis
    by (simp split: if_splits)
qed

lemma nth_token_distinct:
  assumes "0 < j" "j < k" "k \<le> nat MAX_TOKEN_NUM"
  shows "nth_token t0 j \<noteq> nth_token t0 k"
proof
  assume "nth_token t0 j = nth_token t0 k"
  then have "(t0 + int k - 1) mod MAX_TOKEN_NUM = (t0 + int j - 1) mod MAX_TOKEN_NUM"
    using assms by (simp add: nth_token_def)
  then have "MAX_TOKEN_NUM dvd int k - int j"
    by (simp add: mod_eq_dvd_iff algebra_simps)
  then show False
    using assms zdvd_imp_le [of MAX_TOKEN_NUM "int k - int j"] by simp
qed

definition numbered :: "int \<Rightarrow> nat \<Rightarrow> 'pc sel_state \<Rightarrow> bool" where
  "numbered t0 n s \<longleftrightarrow> smap_ok (tokenMap s) \<and> tokenCounter s = nth_token t0 n \<and>
     (\<forall>t. held (tokenMap s) t \<longrightarrow> (\<exists>k. 0 < k \<and> k \<le> n \<and> t = nth_token t0 k)) \<and>
     (n \<le> nat MAX_TOKEN_NUM \<longrightarrow> tokens_unique (tokenMap s))"

lemma numbered_shrinks:
  assumes n: "numbered t0 n s" and sh: "shrinks s s'"
  shows "numbered t0 n s'"
proof -
  have ok: "smap_ok (tokenMap s)"
    using n by (simp add: numbered_def)
  have sub: "\<exists>ts. smap_find (tokenMap s) a = Some ts \<and> set ts' \<subseteq> set ts \<and> (distinct ts \<longrightarrow> distinct ts')"
    if "smap_find (tokenMap s') a = Some ts'" for a ts'
    using that sh ok by (simp add: shrinks_def)
  have "held (tokenMap s) t" if "held (tokenMap s') t" for t
    using that sub unfolding held_def by blast
  moreover have "tokens_unique (tokenMap s')" if "tokens_unique (tokenMap s)"
    unfolding tokens_unique_def
  proof (intro conjI allI impI)
    note unique = that
    show "distinct ts'" if "smap_find (tokenMap s') a = Some ts'" for a ts'
      using sub [OF that] unique by (auto simp: tokens_unique_def)
    show "set ts' \<inter> set us' = {}" if "a \<noteq> b \<and> smap_find (tokenMap s') a = Some ts' \<and> smap_find (tokenMap s') b = Some us'" for a b ts' us'
      using sub [of a ts'] sub [of b us'] that unique unfolding tokens_unique_def by blast
  qed
  ultimately show ?thesis
    using n sh ok by (auto simp: numbered_def shrinks_def)
qed

lemma tokens_unique_put:
  assumes ok: "smap_ok (tokenMap s)" and unique: "tokens_unique (tokenMap s)" and new: "\<not> held (tokenMap s) t"
  shows "tokens_unique (smap_put a (tokens_of a s @ [t]) (tokenMap s))"
proof -
  have find: "smap_find (smap_put a (tokens_of a s @ [t]) (tokenMap s)) b =
      (if b = a then Some (tokens_of a s @ [t]) else smap_find (tokenMap s) b)" for b
    using ok by (simp add: sm.laws)
  have none: "t \<notin> set us" if "smap_find (tokenMap s) b = Some us" for b us
    using that new by (auto simp: held_def)
  have own: "distinct (tokens_of a s)" "t \<notin> set (tokens_of a s)"
    using unique none by (auto simp: tokens_unique_def tokens_of_def split: option.split)
  have apart: "set (tokens_of a s) \<inter> set us = {}" if "smap_find (tokenMap s) b = Some us" "b \<noteq> a" for b us
  proof (cases "smap_find (tokenMap s) a")
    case (Some ts)
    then show ?thesis
      using unique that unfolding tokens_unique_def tokens_of_def by (metis option.simps(5))
  qed (simp add: tokens_of_def)
  show ?thesis
    unfolding tokens_unique_def find
  proof (intro conjI allI impI)
    show "distinct ts" if "(if b = a then Some (tokens_of a s @ [t]) else smap_find (tokenMap s) b) = Some ts" for b ts
      using that own unique by (auto simp: tokens_unique_def split: if_splits)
    fix b c ts us
    assume *: "b \<noteq> c \<and> (if b = a then Some (tokens_of a s @ [t]) else smap_find (tokenMap s) b) = Some ts \<and>
      (if c = a then Some (tokens_of a s @ [t]) else smap_find (tokenMap s) c) = Some us"
    show "set ts \<inter> set us = {}"
    proof (cases "b = a \<or> c = a")
      case True
      then show ?thesis
        using * apart [of c us] none [of c us] apart [of b ts] none [of b ts] by (cases "b = a") auto
    next
      case False
      then show ?thesis
        using * unique unfolding tokens_unique_def by simp
    qed
  qed
qed

lemma numbered_register:
  fixes s :: "'pc sel_state" and a :: u32 and params :: "extra_params option"
  assumes n: "numbered t0 n s" and t0: "0 \<le> t0" "t0 \<le> MAX_TOKEN_NUM"
  defines "s' \<equiv> exec (Register a params) s"
  shows "numbered t0 (n + issued s s') s'"
proof (cases "params_valid params \<and> \<not> IsExceededRegisterMaxNum a s")
  case False
  then have "s' = s"
    by (auto simp: s'_def Register_exec Register_run)
  then show ?thesis
    using n by (simp add: issued_def)
next
  case True
  let ?t = "nth_token t0 (Suc n)"
  have counter: "tokenCounter s = nth_token t0 n" and ok: "smap_ok (tokenMap s)"
    using n by (simp_all add: numbered_def)
  have s': "tokenCounter s' = ?t" "tokenMap s' = smap_put a (tokens_of a s @ [?t]) (tokenMap s)"
    using True by (simp_all add: s'_def Register_exec Register_run counter nth_token_Suc [OF t0] Let_def)
  have "issued s s' = 1"
    using nth_token_Suc [OF t0, of n] by (auto simp: issued_def s' counter split: if_splits)
  moreover have "\<not> held (tokenMap s) ?t" if "Suc n \<le> nat MAX_TOKEN_NUM"
    using n nth_token_distinct [of _ "Suc n" t0] that unfolding numbered_def by (metis le_imp_less_Suc)
  then have "tokens_unique (tokenMap s')" if "Suc n \<le> nat MAX_TOKEN_NUM"
    using that tokens_unique_put [OF ok] n by (simp add: s' numbered_def)
  moreover have "\<exists>k. 0 < k \<and> k \<le> Suc n \<and> t = nth_token t0 k" if "held (tokenMap s') t" for t
  proof (cases "t = ?t")
    case False
    then have "held (tokenMap s) t"
      using that held_put [OF ok] by (simp add: s')
    then show ?thesis
      using n unfolding numbered_def by (meson le_Suc_eq)
  qed blast
  ultimately show ?thesis
    using ok by (simp add: numbered_def s' sm.laws)
qed

definition first_token :: "string \<Rightarrow> int" where
  "first_token param = (if param = [] then 0 else atoi param)"

lemma sel_run_numbered:
  assumes "sel_run param n s" and valid: "valid_parameter param"
  shows "numbered (first_token param) n s"
  using assms(1)
proof (induction rule: sel_run.induct)
  case start
  show ?case
    by (simp add: numbered_def OnStart_def init_sel_state_def first_token_def nth_token_def held_def tokens_unique_def)
next
  case (application n s s' env a code data)
  have t0: "0 \<le> first_token param" "first_token param \<le> MAX_TOKEN_NUM"
    using valid by (auto simp: first_token_def valid_parameter_def)
  from stub_shrinks_or_registers [of s env a code data] consider "shrinks s s'" | params where "s' = exec (Register a params) s"
    using application by auto
  then show ?case
  proof cases
    case 1
    moreover have "issued s s' = 0"
      using 1 application(3) by (simp add: issued_def shrinks_def numbered_def)
    ultimately show ?thesis
      using numbered_shrinks [OF application(3)] by simp
  next
    case 2
    then show ?thesis
      using numbered_register [OF application(3) t0] by simp
  qed
next
  case (connection n s env conn code data)
  show ?case
    by (rule numbered_shrinks [OF connection(2) keepsD [OF shrinks_connection]])
next
  case (window n s env code data)
  show ?case
    by (rule numbered_shrinks [OF window(2) keepsD [OF shrinks_window]])
next
  case (died n s notifier)
  show ?case
    by (rule numbered_shrinks [OF died(2) keepsD [OF shrinks_died]])
next
  case (turn n s env)
  show ?case
    by (rule numbered_shrinks [OF turn(2) keepsD [OF shrinks_queue]])
qed

text \<open>
  C16: As long as at most 100000000 tokens have been handed out since the service started, whatever the messages were,
  no token is held twice: not by two applications, nor twice by one.
\<close>

theorem tokens_stay_unique:
  assumes "sel_run param n s" "valid_parameter param" "n \<le> nat MAX_TOKEN_NUM"
  shows "tokens_unique (tokenMap s)"
  using sel_run_numbered [OF assms(1,2)] assms(3) by (simp add: numbered_def)

lemma tokens_stay_unique_witness: "sel_run ''41'' 1 sample_registered \<and> tokens_unique (tokenMap sample_registered)"
  using tokens_stay_unique [OF sample_run sample_parameter] sample_run by simp


subsection \<open>Who may use a token\<close>

fun request_token :: "sel_request \<Rightarrow> int option" where
  "request_token (ReqRegister _) = None"
| "request_token (ReqUnregister t) = Some t"
| "request_token (ReqRegisterCallback t _ _) = Some t"
| "request_token (ReqUnregisterCallback t _) = Some t"
| "request_token (ReqUpdateStatus t _ _) = Some t"
| "request_token (ReqStart t _) = Some t"

text \<open>
  An application cannot use a token that it did not register: every request about it fails and changes nothing,
  whatever the state of the service.
\<close>

theorem foreign_token_refused:
  assumes "request_token req = Some t" "\<not> IsTokenRegistered caller t s" "ERR_NULL_PARCEL_OBJECT (parcels env) \<noteq> ERR_OK"
  shows "exec (service_call env caller req) s = s \<and> fst (outcome (service_call env caller req) s) \<noteq> ERR_OK"
  using assms
  by (cases req) (auto simp: no_token_def Unregister_def RegisterDeviceSelectionCallback_def UnregisterDeviceSelectionCallback_def
      UpdateConnectStatus_def StartDeviceManager_def)

lemma foreign_token_refused_witness:
  "exec (service_call sample_sel_env 8 (ReqUnregister 1)) sample_sel_state = sample_sel_state \<and>
   fst (outcome (service_call sample_sel_env 8 (ReqUnregister 1)) sample_sel_state) \<noteq> ERR_OK"
proof -
  have "\<not> IsTokenRegistered 8 1 sample_sel_state"
    by (simp add: IsTokenRegistered_def sample_sel_state_def)
  moreover have "ERR_NULL_PARCEL_OBJECT (parcels sample_sel_env) \<noteq> ERR_OK"
    by (simp add: sample_sel_env_def list_parcels_def)
  ultimately show ?thesis
    using foreign_token_refused [of "ReqUnregister 1" 1 8 sample_sel_state sample_sel_env] by simp
qed

subsection \<open>A second request before the window is connected\<close>

lemma connect_reuses:
  assumes "osAccountPart env" "activeOsAccounts env = (ERR_OK, acc # accs)" "QueryExtensionAbilityInfo env acc"
    "amsConnectRet env = ERR_OK" "amsConnectAbilityRet env = ERR_OK" "appConnect s = Some conn"
  shows "run_state (ConnectAbility env t params) s = (ERR_OK, s\<lparr>selCalls := selCalls s @ [CallConnectAbility conn acc]\<rparr>)"
  using assms by (simp add: run_state_pair ConnectAbility_def connect_with_account_def sel_log_def)

text \<open>
  A request to open the window while the connection for another token is still being made is accepted, but lost: the
  ability manager is given the connection object of the first token again, and when the window is connected, it
  is opened with the first token and its parameters.
\<close>

theorem second_start_shows_first:
  assumes "sel_ok s" "IsTokenRegistered caller t s" "IsNotifierRegistered t s" "params_valid params" "selHandler s"
    and pending: "appProxy s = None" "appConnect s = Some conn" "connToken conn \<noteq> t"
    and services: "osAccountPart env" "activeOsAccounts env = (ERR_OK, acc # accs)" "QueryExtensionAbilityInfo env acc"
      "amsConnectRet env = ERR_OK" "amsConnectAbilityRet env = ERR_OK"
  shows "outcome (StartDeviceManager env caller t params) s = ERR_OK \<and>
    selCalls (exec (StartDeviceManager env caller t params) s) = selCalls s @ [CallConnectAbility conn acc] \<and>
    selQueue (exec (OnAbilityConnectDone conn p) (exec (StartDeviceManager env caller t params) s)) =
      selQueue s @ [TaskStartDeviceManager (connToken conn) (connParams conn) (Some p)]"
proof -
  have c: "outcome (ConnectAbility env t params) s = ERR_OK"
    "exec (ConnectAbility env t params) s = s\<lparr>selCalls := selCalls s @ [CallConnectAbility conn acc]\<rparr>"
    using connect_reuses [OF services pending(2)] by (simp_all add: run_state_pair)
  then have "outcome (StartDeviceManager env caller t params) s = ERR_OK"
    "exec (StartDeviceManager env caller t params) s = s\<lparr>selCalls := selCalls s @ [CallConnectAbility conn acc]\<rparr>"
    using assms(2-4) pending by (simp_all add: StartDeviceManager_def)
  then show ?thesis
    using assms(5)
    by (simp add: OnAbilityConnectDone_def ScheduleStartDeviceManager_def HandleStartDeviceManager_def sel_submit_def)
qed

definition sample_pending :: "parcel_item list sel_state" where
  "sample_pending = sample_sel_state\<lparr>tokenMap := [(7, [1]), (8, [2])], tokenCounter := 2,
     callbackMap := [(1, \<lparr>notifierMap = [(EVENT_CONNECT, 30)], connectStatusInfo = None\<rparr>),
       (2, \<lparr>notifierMap = [(EVENT_CONNECT, 40)], connectStatusInfo = None\<rparr>)],
     appConnect := Some \<lparr>connToken = 1, connParams = None\<rparr>\<rparr>"

lemma second_start_shows_first_witness:
  "outcome (StartDeviceManager sample_sel_env 8 2 None) sample_pending = ERR_OK \<and>
   selCalls (exec (StartDeviceManager sample_sel_env 8 2 None) sample_pending) =
     selCalls sample_pending @ [CallConnectAbility \<lparr>connToken = 1, connParams = None\<rparr> 100] \<and>
   selQueue (exec (OnAbilityConnectDone \<lparr>connToken = 1, connParams = None\<rparr> 5) (exec (StartDeviceManager sample_sel_env 8 2 None) sample_pending)) =
     selQueue sample_pending @ [TaskStartDeviceManager (connToken \<lparr>connToken = 1, connParams = None\<rparr>) (connParams \<lparr>connToken = 1, connParams = None\<rparr>) (Some 5)]"
proof (rule second_start_shows_first)
  show "sel_ok sample_pending"
    by (auto simp: sel_ok_def sample_pending_def sample_sel_state_def init_sel_state_def smap_ok_def tokens_ok_def notifiers_ok_def held_def
        intro: exI [of _ "7 :: u32"] split: if_splits)
qed (simp_all add: sample_pending_def sample_sel_state_def sample_sel_env_def init_sel_state_def IsTokenRegistered_def IsNotifierRegistered_def
    params_valid_def QueryExtensionAbilityInfo_def)

subsection \<open>The watch on callback objects\<close>

text \<open>Whether the service is told of the death of an object: the last call about it adds the recipient.\<close>

fun watch_step :: "nat \<Rightarrow> bool \<Rightarrow> 'pc sel_call \<Rightarrow> bool" where
  "watch_step n w (CallAddDeathRecipient m) \<longleftrightarrow> (if m = n then True else w)"
| "watch_step n w (CallRemoveDeathRecipient m) \<longleftrightarrow> (if m = n then False else w)"
| "watch_step n w _ = w"

definition watched :: "nat \<Rightarrow> 'pc sel_call list \<Rightarrow> bool" where
  "watched n cs = foldl (watch_step n) False cs"

lemma watched_append [simp]: "watched n (cs @ [c]) = watch_step n (watched n cs) c"
  by (simp add: watched_def)

lemma register_first:
  assumes "IsTokenRegistered a t s" "smap_find (callbackMap s) t = None" "k = EVENT_CONNECT \<or> k = EVENT_DISCONNECT"
  shows "run_state (RegisterDeviceSelectionCallback a t k n) s = (ERR_OK,
    s\<lparr>callbackMap := smap_put t (SetNotifier k n new_NotifierInfo) (callbackMap s), selCalls := selCalls s @ [CallAddDeathRecipient n]\<rparr>)"
  using assms by (auto simp: run_state_pair RegisterDeviceSelectionCallback_def IsNotifierRegisteredLocked_def sel_log_def)

lemma register_second:
  assumes "IsTokenRegistered a t s" "smap_find (callbackMap s) t = Some i" "GetNotifier k i = None" "k = EVENT_CONNECT \<or> k = EVENT_DISCONNECT"
  shows "run_state (RegisterDeviceSelectionCallback a t k n) s = (ERR_OK, s\<lparr>callbackMap := smap_put t (SetNotifier k n i) (callbackMap s)\<rparr>)"
  using assms by (auto simp: run_state_pair RegisterDeviceSelectionCallback_def IsNotifierRegisteredLocked_def)

lemma unregister_one:
  assumes "IsTokenRegistered a t s" "smap_find (callbackMap s) t = Some i" "GetNotifier k i = Some n" "k = EVENT_CONNECT \<or> k = EVENT_DISCONNECT"
    "\<not> IsNotifierMapEmpty (DeleteNotifier k i)"
  shows "run_state (UnregisterDeviceSelectionCallback a t k) s = (ERR_OK,
    s\<lparr>selCalls := selCalls s @ [CallRemoveDeathRecipient n], callbackMap := smap_put t (DeleteNotifier k i) (callbackMap s)\<rparr>)"
  using assms
  by (auto simp: run_state_pair UnregisterDeviceSelectionCallback_def IsNotifierRegisteredLocked_def remove_recipients_def
      RemoveDeathRecipient_targets_def GetNotifier_def EVENT_CONNECT_def EVENT_DISCONNECT_def)

lemma event_types: "EVENT_CONNECT < EVENT_DISCONNECT" "EVENT_CONNECT \<noteq> EVENT_DISCONNECT" "EVENT_DISCONNECT \<noteq> EVENT_CONNECT"
  "\<not> EVENT_DISCONNECT < EVENT_CONNECT"
  by (simp_all add: EVENT_CONNECT_def EVENT_DISCONNECT_def)

text \<open>The calls of an application that registers both callbacks and unregisters the first.\<close>

definition both_then_one :: "u32 \<Rightarrow> int \<Rightarrow> nat \<Rightarrow> nat \<Rightarrow> ('pc, ret \<times> ret \<times> ret) sprog" where
  "both_then_one a t n1 n2 = do {
     r1 \<leftarrow> RegisterDeviceSelectionCallback a t EVENT_CONNECT n1;
     r2 \<leftarrow> RegisterDeviceSelectionCallback a t EVENT_DISCONNECT n2;
     r3 \<leftarrow> UnregisterDeviceSelectionCallback a t EVENT_CONNECT;
     mreturn (r1, r2, r3)
   }"

lemma both_then_one_run:
  assumes cb: "smap_ok (callbackMap s)" and own: "IsTokenRegistered a t s" and none: "smap_find (callbackMap s) t = None"
  shows "run_state (both_then_one a t n1 n2) s = ((ERR_OK, ERR_OK, ERR_OK),
    s\<lparr>selCalls := selCalls s @ [CallAddDeathRecipient n1] @ [CallRemoveDeathRecipient n1],
      callbackMap := smap_put t (SetNotifier EVENT_DISCONNECT n2 new_NotifierInfo) (callbackMap s)\<rparr>)"
proof -
  let ?i1 = "SetNotifier EVENT_CONNECT n1 new_NotifierInfo"
  let ?i2 = "SetNotifier EVENT_DISCONNECT n2 ?i1"
  let ?s1 = "s\<lparr>callbackMap := smap_put t ?i1 (callbackMap s), selCalls := selCalls s @ [CallAddDeathRecipient n1]\<rparr>"
  let ?s2 = "?s1\<lparr>callbackMap := smap_put t ?i2 (callbackMap s)\<rparr>"
  note info = GetNotifier_def SetNotifier_def new_NotifierInfo_def IsNotifierMapEmpty_def DeleteNotifier_def smap_erase_def event_types
  have "run_state (RegisterDeviceSelectionCallback a t EVENT_DISCONNECT n2) ?s1 = (ERR_OK, ?s2)"
    using register_second [of a t ?s1 ?i1 EVENT_DISCONNECT n2] own cb by (simp add: IsTokenRegistered_def sm.laws info)
  moreover have "run_state (UnregisterDeviceSelectionCallback a t EVENT_CONNECT) ?s2 = (ERR_OK,
      s\<lparr>selCalls := selCalls s @ [CallAddDeathRecipient n1] @ [CallRemoveDeathRecipient n1],
        callbackMap := smap_put t (SetNotifier EVENT_DISCONNECT n2 new_NotifierInfo) (callbackMap s)\<rparr>)"
    using unregister_one [of a t ?s2 ?i2 EVENT_CONNECT n1] own cb by (simp add: IsTokenRegistered_def sm.laws info)
  ultimately show ?thesis
    using register_first [OF own none, of EVENT_CONNECT n1] by (simp add: both_then_one_def run_state_pair)
qed

text \<open>
  An application that registers its two callbacks with two objects, as the JavaScript interface does, and then
  unregisters the first one is no longer watched: all calls succeed, the second callback is still registered, but the service
  will not be told when the application dies, and so keeps its token and its callback for ever.
\<close>

theorem watch_lost:
  assumes "sel_ok s" "IsTokenRegistered a t s" "smap_find (callbackMap s) t = None" "n1 \<noteq> n2" "\<not> watched n2 (selCalls s)"
  shows "outcome (both_then_one a t n1 n2) s = (ERR_OK, ERR_OK, ERR_OK) \<and>
    (let s' = exec (both_then_one a t n1 n2) s in
      IsNotifierRegisteredLocked t EVENT_DISCONNECT s' \<and> \<not> watched n1 (selCalls s') \<and> \<not> watched n2 (selCalls s'))"
proof -
  have cb: "smap_ok (callbackMap s)"
    using assms(1) by (simp add: sel_ok_def)
  have "outcome (both_then_one a t n1 n2) s = (ERR_OK, ERR_OK, ERR_OK)"
    "exec (both_then_one a t n1 n2) s = s\<lparr>selCalls := (selCalls s @ [CallAddDeathRecipient n1]) @ [CallRemoveDeathRecipient n1],
      callbackMap := smap_put t (SetNotifier EVENT_DISCONNECT n2 new_NotifierInfo) (callbackMap s)\<rparr>"
    using both_then_one_run [OF cb assms(2,3), of n1 n2] by (simp_all add: run_state_pair)
  moreover have "GetNotifier EVENT_DISCONNECT (SetNotifier EVENT_DISCONNECT n2 new_NotifierInfo) = Some n2"
    by (simp add: GetNotifier_def SetNotifier_def new_NotifierInfo_def)
  ultimately show ?thesis
    using assms(4,5) cb by (simp add: Let_def IsNotifierRegisteredLocked_def sm.laws del: append_assoc)
qed

definition sample_registered_only :: "parcel_item list sel_state" where
  "sample_registered_only = sample_sel_state\<lparr>callbackMap := []\<rparr>"

lemma watch_lost_witness:
  "outcome (both_then_one 7 1 30 31) sample_registered_only = (ERR_OK, ERR_OK, ERR_OK) \<and>
    (let s' = exec (both_then_one 7 1 30 31) sample_registered_only in
      IsNotifierRegisteredLocked 1 EVENT_DISCONNECT s' \<and> \<not> watched 30 (selCalls s') \<and> \<not> watched 31 (selCalls s'))"
proof (rule watch_lost)
  show "sel_ok sample_registered_only"
    by (auto simp: sel_ok_def sample_registered_only_def sample_sel_state_def init_sel_state_def smap_ok_def tokens_ok_def split: if_splits)
qed (simp_all add: sample_registered_only_def sample_sel_state_def init_sel_state_def IsTokenRegistered_def watched_def)

subsection \<open>Restarts\<close>

lemma restart_continues:
  assumes "outcome (Register a params) s = (ERR_OK, t)" "sel_ok s"
  shows "tokenCounter (exec OnStart (init_sel_state (tokenParameter (exec (Register a params) s)))) = t"
proof -
  have "1 \<le> t" "tokenParameter (exec (Register a params) s) = to_string t"
    using assms next_token [of "tokenCounter s"] by (auto simp: Register_run exec_def outcome_def sel_ok_def Let_def split: if_splits)
  then show ?thesis
    by (simp add: OnStart_def init_sel_state_def atoi_to_string to_string_not_empty)
qed

end
