(* ===== verification/Sched_Permission.thy ===== *)
theory Sched_Permission
  imports Continue_Types
begin

text \<open>
  \<^verbatim>\<open>DistributedSchedPermission\<close> (\<^verbatim>\<open>services/dtbschedmgr/src/distributed_sched_permission.cpp\<close>) and the entry points of
  the service that use it (\<^verbatim>\<open>CheckTargetPermission\<close> and others of \<^verbatim>\<open>distributed_sched_service.cpp\<close>): whether an
  ability of this device may be started, called or sent a result by an application of another device.

  The check of the background permission removes parameters from the want it is given, through a
  \<^verbatim>\<open>const_cast\<close>; checks are therefore programs over the want. The device manager, the account manager, the
  bundle manager, the access tokens and the security levels of devices are parameters (\<open>perm_env\<close>); \<^verbatim>\<open>DMSFWK_SAME_ACCOUNT\<close> and
  \<^verbatim>\<open>OS_ACCOUNT_PART\<close> are flags of it.
\<close>

abbreviation DMS_ACCOUNT_ACCESS_PERMISSION_DENIED :: ret where "DMS_ACCOUNT_ACCESS_PERMISSION_DENIED \<equiv> 29360175"
abbreviation DMS_COMPONENT_ACCESS_PERMISSION_DENIED :: ret where "DMS_COMPONENT_ACCESS_PERMISSION_DENIED \<equiv> 29360176"
abbreviation CALL_PERMISSION_DENIED :: ret where "CALL_PERMISSION_DENIED \<equiv> 29360201"
abbreviation DMS_BACKGROUND_PERMISSION_DENIED :: ret where "DMS_BACKGROUND_PERMISSION_DENIED \<equiv> 29360219"
abbreviation DMS_START_CONTROL_PERMISSION_DENIED :: ret where "DMS_START_CONTROL_PERMISSION_DENIED \<equiv> 29360220"
abbreviation SCHED_PERMISSION_DENIED :: ret where "SCHED_PERMISSION_DENIED \<equiv> 29360157"

definition DMS_API_VERSION :: string where "DMS_API_VERSION = ''dmsApiVersion''"
definition DMS_IS_CALLER_BACKGROUND :: string where "DMS_IS_CALLER_BACKGROUND = ''dmsIsCallerBackGround''"
definition DMS_MISSION_ID :: string where "DMS_MISSION_ID = ''dmsMissionId''"
definition PARAMS_URI :: string where "PARAMS_URI = ''ability.verify.uri''"
definition PARAMS_STREAM :: string where "PARAMS_STREAM = ''ability.params.stream''"
definition PERMISSION_START_ABILIIES_FROM_BACKGROUND :: string where
  "PERMISSION_START_ABILIIES_FROM_BACKGROUND = ''ohos.permission.START_ABILIIES_FROM_BACKGROUND''"
definition PERMISSION_START_ABILITIES_FROM_BACKGROUND :: string where
  "PERMISSION_START_ABILITIES_FROM_BACKGROUND = ''ohos.permission.START_ABILITIES_FROM_BACKGROUND''"
definition PERMISSION_START_INVISIBLE_ABILITY :: string where
  "PERMISSION_START_INVISIBLE_ABILITY = ''ohos.permission.START_INVISIBLE_ABILITY''"
definition DISTRIBUTED_FILES_PATH :: string where "DISTRIBUTED_FILES_PATH = ''/data/storage/el2/distributedfiles/''"
definition FOUNDATION_PROCESS_NAME :: string where "FOUNDATION_PROCESS_NAME = ''foundation''"

abbreviation DEFAULT_DMS_API_VERSION :: int where "DEFAULT_DMS_API_VERSION \<equiv> 9"
abbreviation DEFAULT_DMS_MISSION_ID :: int where "DEFAULT_DMS_MISSION_ID \<equiv> -1"
abbreviation FA_MODULE_ALLOW_MIN_API_VERSION :: int where "FA_MODULE_ALLOW_MIN_API_VERSION \<equiv> 8"
abbreviation DEFAULT_DEVICE_SECURITY_LEVEL :: int where "DEFAULT_DEVICE_SECURITY_LEVEL \<equiv> -1"
abbreviation START_PERMISSION :: int where "START_PERMISSION \<equiv> 0"
abbreviation CALL_PERMISSION :: int where "CALL_PERMISSION \<equiv> 1"
abbreviation SEND_RESULT_PERMISSION :: int where "SEND_RESULT_PERMISSION \<equiv> 2"
abbreviation SAME_ACCOUNT_TYPE :: int where "SAME_ACCOUNT_TYPE \<equiv> 0"

subsection \<open>Data\<close>

text \<open>The members of \<^verbatim>\<open>AppExecFwk::AbilityInfo\<close> that the checks read.\<close>

datatype ability_type = PAGE_ABILITY | SERVICE_ABILITY | DATA_ABILITY | EXTENSION_ABILITY | OTHER_ABILITY

record target_ability =
  targetBundleName :: string
  targetName :: string
  targetVisible :: bool
  isStageBasedModel :: bool
  targetType :: ability_type
  associatedWakeUp :: bool

record dm_access_caller =
  dmAccountId :: string
  dmPkgName :: string
  dmNetworkId :: string
  dmUserId :: int
  dmTokenId :: u32

record group_info =
  groupName :: string
  groupId :: string
  groupOwner :: string
  groupType :: int
  groupVisibility :: int

text \<open>The values of the JSON library, as far as \<^verbatim>\<open>from_json\<close> tells them apart.\<close>

datatype gjson = GString string | GNumber int | GObject "(string \<times> gjson) list" | GArray "gjson list" | GOther

text \<open>
  The names of the members of a group and the limit on the length of texts are constants of other repositories.
\<close>

record group_keys =
  FIELD_GROUP_NAME :: string
  FIELD_GROUP_ID :: string
  FIELD_GROUP_OWNER :: string
  FIELD_GROUP_TYPE :: string
  FIELD_GROUP_VISIBILITY :: string
  MAX_JSON_ELEMENT_LENGTH :: nat

text \<open>The methods of \<^verbatim>\<open>AAFwk::Want\<close> that the checks call.\<close>

record 'w perm_want_api =
  pwFlags :: "'w \<Rightarrow> u32"
  pwDeviceId :: "'w \<Rightarrow> string"
  pwBool :: "string \<Rightarrow> bool \<Rightarrow> 'w \<Rightarrow> bool"
  pwInt :: "string \<Rightarrow> int \<Rightarrow> 'w \<Rightarrow> int"
  pwStrings :: "string \<Rightarrow> 'w \<Rightarrow> string list"
  pwUri :: "'w \<Rightarrow> string"
  pwRemove :: "string \<Rightarrow> 'w \<Rightarrow> 'w"
  pwSetStrings :: "string \<Rightarrow> string list \<Rightarrow> 'w \<Rightarrow> 'w"
  PW_FLAG_ABILITY_CONTINUATION :: u32
  PW_FLAG_AUTH_READ_URI_PERMISSION :: u32
  PW_FLAG_AUTH_WRITE_URI_PERMISSION :: u32

record 'w perm_env =
  pwant :: "'w perm_want_api"
  sameAccountPart :: bool
  permOsAccountPart :: bool
  udidOf :: "string \<Rightarrow> string"
  permLocalDeviceId :: "string option"
  dmIsSameAccount :: "dm_access_caller \<Rightarrow> string \<Rightarrow> bool"
  dmAccessControl :: "dm_access_caller \<Rightarrow> string \<Rightarrow> bool"
  accessToGroup :: "string \<Rightarrow> string \<Rightarrow> bool"
  relatedGroupsText :: "string \<Rightarrow> string \<Rightarrow> string option"
  groupKeys :: group_keys
  parseJson :: "string \<Rightarrow> gjson option"
  IDENTICAL_ACCOUNT_GROUP :: int
  PEER_TO_PEER_GROUP :: int
  permActiveIds :: "ret \<times> int list"
  ohosAccountUid :: "ret \<times> string"
  appIdOfBundle :: "string \<Rightarrow> string option"
  queryAbility :: "'w \<Rightarrow> target_ability option"
  queryExtension :: "'w \<Rightarrow> (string \<times> string \<times> bool) option"
  abilityInfoDefault :: target_ability
  allocLocalTokenID :: "string \<Rightarrow> u32 \<Rightarrow> u32"
  tokenHasNot :: "u32 \<Rightarrow> string \<Rightarrow> bool"
  DEVICE_ID_MAX_LEN :: nat
  requestSecurityInfo :: "string \<Rightarrow> nat option"
  securityLevelValue :: "nat \<Rightarrow> int option"
  nativeToken :: "u32 \<Rightarrow> ret \<times> string"
  sceneboardToken :: "int \<Rightarrow> ret \<times> u32"
  bundleManagerFound :: bool
  uriPath :: "string \<Rightarrow> string"
  uriAuthority :: "string \<Rightarrow> string"
  bundleToken :: "string \<Rightarrow> int \<Rightarrow> u32 option"
  PERM_ERR_NULL_OBJECT :: ret

type_synonym ('w, 'a) wprog = "('w, 'a) state"

subsection \<open>Tokens, applications and devices\<close>

definition VerifyPermission_sched :: "'w perm_env \<Rightarrow> u32 \<Rightarrow> string \<Rightarrow> bool" where
  "VerifyPermission_sched env accessToken permissionName \<longleftrightarrow> \<not> tokenHasNot env accessToken permissionName"

definition CheckPermission :: "'w perm_env \<Rightarrow> u32 \<Rightarrow> string \<Rightarrow> ret" where
  "CheckPermission env accessToken permissionName =
     (if VerifyPermission_sched env accessToken permissionName then ERR_OK else SCHED_PERMISSION_DENIED)"

definition CheckPermissionAll :: "'w perm_env \<Rightarrow> u32 \<Rightarrow> string \<Rightarrow> ret" where
  "CheckPermissionAll env accessToken permissionName =
     (if VerifyPermission_sched env accessToken permissionName then ERR_OK else SCHED_PERMISSION_DENIED)"

definition IsSameAppId :: "'w perm_env \<Rightarrow> string \<Rightarrow> string \<Rightarrow> bool" where
  "IsSameAppId env callerApp targetBundle =
     (if targetBundle = [] \<or> callerApp = [] then False
      else case appIdOfBundle env targetBundle of None \<Rightarrow> False | Some calleeAppId \<Rightarrow> callerApp = calleeAppId)"

definition IsFoundationCall :: "'w perm_env \<Rightarrow> u32 \<Rightarrow> bool" where
  "IsFoundationCall env callingToken =
     (case nativeToken env callingToken of (r, name) \<Rightarrow> r = ERR_OK \<and> name = FOUNDATION_PROCESS_NAME)"

definition IsSceneBoardCall :: "'w perm_env \<Rightarrow> u32 \<Rightarrow> bool" where
  "IsSceneBoardCall env callingToken =
     (case permActiveIds env of (errCode, ids) \<Rightarrow>
        if permOsAccountPart env \<and> (errCode \<noteq> ERR_OK \<or> ids = []) then False
        else case sceneboardToken env (if permOsAccountPart env then hd ids else 0) of (r, tok) \<Rightarrow>
          if r \<noteq> ERR_OK then False else callingToken = tok)"

text \<open>The identity is copied into an array of \<^verbatim>\<open>DEVICE_ID_MAX_LEN\<close> bytes; a longer one cannot be copied.\<close>

definition GetDeviceSecurityLevel :: "'w perm_env \<Rightarrow> string \<Rightarrow> int" where
  "GetDeviceSecurityLevel env udid =
     (if length udid > DEVICE_ID_MAX_LEN env then DEFAULT_DEVICE_SECURITY_LEVEL
      else case requestSecurityInfo env udid of
        None \<Rightarrow> DEFAULT_DEVICE_SECURITY_LEVEL
      | Some info \<Rightarrow> (case securityLevelValue env info of None \<Rightarrow> DEFAULT_DEVICE_SECURITY_LEVEL | Some level \<Rightarrow> level))"

definition CheckDeviceSecurityLevel :: "'w perm_env \<Rightarrow> string \<Rightarrow> string \<Rightarrow> bool" where
  "CheckDeviceSecurityLevel env srcDeviceId dstDeviceId =
     (if udidOf env srcDeviceId = [] then False
      else if udidOf env dstDeviceId = [] then False
      else let src = GetDeviceSecurityLevel env (udidOf env srcDeviceId); dst = GetDeviceSecurityLevel env (udidOf env dstDeviceId)
        in \<not> (src = DEFAULT_DEVICE_SECURITY_LEVEL \<or> src < dst))"

subsection \<open>Accounts\<close>

definition dm_caller_of :: "account_info \<Rightarrow> caller_info \<Rightarrow> string \<Rightarrow> dm_access_caller" where
  "dm_caller_of acc caller pkg =
     \<lparr>dmAccountId = activeAccountId acc, dmPkgName = pkg, dmNetworkId = callerSourceDeviceId caller, dmUserId = userId acc,
      dmTokenId = callerAccessToken caller\<rparr>"

definition CheckAccountAccessPermission :: "'w perm_env \<Rightarrow> caller_info \<Rightarrow> account_info \<Rightarrow> string \<Rightarrow> bool \<Rightarrow> bool" where
  "CheckAccountAccessPermission env caller acc targetBundle isNewCollab =
     (case permLocalDeviceId env of
        None \<Rightarrow> False
      | Some dstNet \<Rightarrow>
          let src = dm_caller_of acc caller targetBundle in
          if sameAccountPart env \<and> dmIsSameAccount env src dstNet then True
          else if sameAccountPart env \<and> isNewCollab \<and> \<not> IsSameAppId env (callerAppId caller) targetBundle then False
          else if accessToGroup env (udidOf env (callerSourceDeviceId caller)) targetBundle then True
          else dmAccessControl env src dstNet)"

definition GetOsAccountData :: "'w perm_env \<Rightarrow> account_info \<Rightarrow> bool \<times> account_info" where
  "GetOsAccountData env acc =
     (if \<not> permOsAccountPart env then (True, acc)
      else case permActiveIds env of (r, ids) \<Rightarrow>
        if r \<noteq> ERR_OK \<or> ids = [] then (False, acc)
        else let acc' = acc\<lparr>userId := hd ids\<rparr> in
          case ohosAccountUid env of (r', uid) \<Rightarrow>
            if r' \<noteq> 0 \<or> uid = [] then (False, acc') else (True, acc'\<lparr>activeAccountId := uid\<rparr>))"

definition CheckDstSameAccount :: "'w perm_env \<Rightarrow> string \<Rightarrow> account_info \<Rightarrow> caller_info \<Rightarrow> bool" where
  "CheckDstSameAccount env dstNet acc caller =
     (if sameAccountPart env
      then list_ex (\<lambda>b. dmIsSameAccount env (dm_caller_of acc caller b) dstNet) (callerBundleNames caller)
      else False)"

definition CheckAclList :: "'w perm_env \<Rightarrow> string \<Rightarrow> account_info \<Rightarrow> caller_info \<Rightarrow> bool" where
  "CheckAclList env dstNet acc caller =
     list_ex (\<lambda>b. dmAccessControl env (dm_caller_of acc caller b) dstNet) (callerBundleNames caller)"

fun json_member :: "gjson \<Rightarrow> string \<Rightarrow> gjson option" where
  "json_member (GObject ms) key = map_of ms key"
| "json_member _ key = None"

text \<open>
  \<^verbatim>\<open>GetValueIfFindKey\<close> for a text and for a number that may be missing. The flag is \<^verbatim>\<open>parseResult\<close>, which stays set after a
  member of another type or a text that is too long; the text that is too long is still stored.
\<close>

definition find_text :: "group_keys \<Rightarrow> gjson \<Rightarrow> string \<Rightarrow> string \<Rightarrow> bool \<Rightarrow> string \<times> bool" where
  "find_text K obj key v failed =
     (if failed then (v, failed)
      else case json_member obj key of
        None \<Rightarrow> (v, False)
      | Some (GString t) \<Rightarrow> (t, length t > MAX_JSON_ELEMENT_LENGTH K)
      | Some _ \<Rightarrow> (v, True))"

definition find_number :: "gjson \<Rightarrow> string \<Rightarrow> int \<Rightarrow> bool \<Rightarrow> int \<times> bool" where
  "find_number obj key v failed =
     (if failed then (v, failed)
      else case json_member obj key of None \<Rightarrow> (v, False) | Some (GNumber n) \<Rightarrow> (n, False) | Some _ \<Rightarrow> (v, True))"

definition from_json_group :: "group_keys \<Rightarrow> gjson \<Rightarrow> group_info" where
  "from_json_group K obj =
     (let (name, f1) = find_text K obj (FIELD_GROUP_NAME K) [] False;
          (ident, f2) = find_text K obj (FIELD_GROUP_ID K) [] f1;
          (owner, f3) = find_text K obj (FIELD_GROUP_OWNER K) [] f2;
          (kind, f4) = find_number obj (FIELD_GROUP_TYPE K) 0 f3;
          (visibility, f5) = find_number obj (FIELD_GROUP_VISIBILITY K) 0 f4
      in \<lparr>groupName = name, groupId = ident, groupOwner = owner, groupType = kind, groupVisibility = visibility\<rparr>)"

text \<open>
  The result \<open>None\<close> is the exception of the library when a value that is not an array is read as a vector; nothing
  catches it. \<open>Some None\<close> is the return of \<^verbatim>\<open>false\<close>.
\<close>

definition ParseGroupInfos :: "'w perm_env \<Rightarrow> string \<Rightarrow> group_info list option option" where
  "ParseGroupInfos env text =
     (case parseJson env text of
        None \<Rightarrow> Some None
      | Some (GArray vs) \<Rightarrow>
          (let gs = map (from_json_group (groupKeys env)) vs in if gs = [] then Some None else Some (Some gs))
      | Some _ \<Rightarrow> None)"

definition add_group :: "'w perm_env \<Rightarrow> group_info \<Rightarrow> account_info \<Rightarrow> account_info" where
  "add_group env g acc =
     (if groupType g \<noteq> IDENTICAL_ACCOUNT_GROUP env \<and> groupType g \<noteq> PEER_TO_PEER_GROUP env then acc
      else let acc' = acc\<lparr>groupIdList := groupIdList acc @ [groupId g]\<rparr> in
        if groupType g = IDENTICAL_ACCOUNT_GROUP env \<and> accountType acc' \<noteq> SAME_ACCOUNT_TYPE
        then acc'\<lparr>accountType := SAME_ACCOUNT_TYPE\<rparr> else acc')"

fun related_groups :: "'w perm_env \<Rightarrow> string \<Rightarrow> string list \<Rightarrow> account_info \<Rightarrow> account_info option" where
  "related_groups env udid [] acc = Some acc"
| "related_groups env udid (b # bs) acc =
     (case relatedGroupsText env udid b of
        None \<Rightarrow> related_groups env udid bs acc
      | Some text \<Rightarrow> (case ParseGroupInfos env text of
          None \<Rightarrow> None
        | Some None \<Rightarrow> related_groups env udid bs acc
        | Some (Some gs) \<Rightarrow> related_groups env udid bs (fold (add_group env) gs acc)))"

definition GetRelatedGroups :: "'w perm_env \<Rightarrow> string \<Rightarrow> string list \<Rightarrow> account_info \<Rightarrow> (bool \<times> account_info) option" where
  "GetRelatedGroups env udid bundleNames acc =
     map_option (\<lambda>acc'. (groupIdList acc' \<noteq> [], acc')) (related_groups env udid bundleNames acc)"

definition GetAccountInfo :: "'w perm_env \<Rightarrow> string \<Rightarrow> caller_info \<Rightarrow> account_info \<Rightarrow> (ret \<times> account_info) option" where
  "GetAccountInfo env remoteNetworkId caller acc =
     (if remoteNetworkId = [] then Some (PERM_ERR_NULL_OBJECT env, acc)
      else if udidOf env remoteNetworkId = [] then Some (PERM_ERR_NULL_OBJECT env, acc)
      else case GetOsAccountData env acc of (ok, acc1) \<Rightarrow>
        if \<not> ok then Some (INVALID_PARAMETERS_ERR, acc1)
        else if sameAccountPart env \<and> CheckDstSameAccount env remoteNetworkId acc1 caller then Some (ERR_OK, acc1)
        else map_option (\<lambda>(found, acc2).
            if found then (ERR_OK, acc2)
            else if CheckAclList env remoteNetworkId acc2 caller then (ERR_OK, acc2)
            else (INVALID_PARAMETERS_ERR, acc2))
          (GetRelatedGroups env (udidOf env remoteNetworkId) (callerBundleNames caller) acc1))"

subsection \<open>Starting an ability\<close>

definition CheckMinApiVersion :: "target_ability \<Rightarrow> int \<Rightarrow> bool" where
  "CheckMinApiVersion target apiVersion \<longleftrightarrow>
     \<not> isStageBasedModel target \<and> targetType target = SERVICE_ABILITY \<and> apiVersion \<le> FA_MODULE_ALLOW_MIN_API_VERSION"

definition CheckBackgroundPermission :: "'w perm_env \<Rightarrow> target_ability \<Rightarrow> caller_info \<Rightarrow> bool \<Rightarrow> ('w, bool) wprog" where
  "CheckBackgroundPermission env target caller needCheckApiVersion =
     (if callerExtraDmsVersion caller = None then mreturn True
      else do {
        w \<leftarrow> mget;
        let isCallerBackGround = pwBool (pwant env) DMS_IS_CALLER_BACKGROUND True w;
        mupd (pwRemove (pwant env) DMS_IS_CALLER_BACKGROUND);
        if \<not> isCallerBackGround then mreturn True
        else do {
          w' \<leftarrow> mget;
          let apiVersion = pwInt (pwant env) DMS_API_VERSION DEFAULT_DMS_API_VERSION w';
          mupd (pwRemove (pwant env) DMS_API_VERSION);
          if needCheckApiVersion \<and> CheckMinApiVersion target apiVersion then mreturn True
          else let dAccessToken = allocLocalTokenID env (callerSourceDeviceId caller) (callerAccessToken caller) in
            if dAccessToken = 0 then mreturn False
            else mreturn (CheckPermission env dAccessToken PERMISSION_START_ABILITIES_FROM_BACKGROUND = ERR_OK \<or>
              CheckPermission env dAccessToken PERMISSION_START_ABILIIES_FROM_BACKGROUND = ERR_OK)
        }
      })"

definition CheckTargetAbilityVisible :: "'w perm_env \<Rightarrow> target_ability \<Rightarrow> caller_info \<Rightarrow> bool" where
  "CheckTargetAbilityVisible env target caller =
     (if targetVisible target then True
      else let dAccessToken = allocLocalTokenID env (callerSourceDeviceId caller) (callerAccessToken caller) in
        if dAccessToken = 0 then False
        else CheckPermissionAll env dAccessToken PERMISSION_START_INVISIBLE_ABILITY = ERR_OK)"

definition CheckMigrateStartCtrlPer :: "'w perm_env \<Rightarrow> target_ability \<Rightarrow> caller_info \<Rightarrow> bool \<Rightarrow> bool" where
  "CheckMigrateStartCtrlPer env target caller isSameBundle =
     (if \<not> isSameBundle then True else IsSameAppId env (callerAppId caller) (targetBundleName target))"

text \<open>\<^verbatim>\<open>CheckCollabStartControlPermission\<close> has the same body as \<^verbatim>\<open>CheckCollaborateStartCtrlPer\<close>.\<close>

definition CheckCollaborateStartCtrlPer :: "'w perm_env \<Rightarrow> target_ability \<Rightarrow> caller_info \<Rightarrow> ('w, bool) wprog" where
  "CheckCollaborateStartCtrlPer env target caller = do {
     background \<leftarrow> CheckBackgroundPermission env target caller True;
     w \<leftarrow> mget;
     mreturn
       (if \<not> background then False
        else if \<not> targetVisible target \<and> \<not> CheckDeviceSecurityLevel env (callerSourceDeviceId caller) (pwDeviceId (pwant env) w) then False
        else if IsSameAppId env (callerAppId caller) (targetBundleName target) then True
        else if \<not> CheckTargetAbilityVisible env target caller then False
        else \<not> (\<not> isStageBasedModel target \<and> targetType target = SERVICE_ABILITY \<and> \<not> associatedWakeUp target))
   }"

definition CheckCollabStartControlPermission :: "'w perm_env \<Rightarrow> target_ability \<Rightarrow> caller_info \<Rightarrow> ('w, bool) wprog" where
  "CheckCollabStartControlPermission env target caller = do {
     background \<leftarrow> CheckBackgroundPermission env target caller True;
     w \<leftarrow> mget;
     mreturn
       (if \<not> background then False
        else if \<not> targetVisible target \<and> \<not> CheckDeviceSecurityLevel env (callerSourceDeviceId caller) (pwDeviceId (pwant env) w) then False
        else if IsSameAppId env (callerAppId caller) (targetBundleName target) then True
        else if \<not> CheckTargetAbilityVisible env target caller then False
        else \<not> (\<not> isStageBasedModel target \<and> targetType target = SERVICE_ABILITY \<and> \<not> associatedWakeUp target))
   }"

definition CheckStartControlPermission :: "'w perm_env \<Rightarrow> target_ability \<Rightarrow> caller_info \<Rightarrow> bool \<Rightarrow> ('w, bool) wprog" where
  "CheckStartControlPermission env target caller isSameBundle = do {
     w \<leftarrow> mget;
     if pwFlags (pwant env) w AND PW_FLAG_ABILITY_CONTINUATION (pwant env) \<noteq> 0
     then mreturn (CheckMigrateStartCtrlPer env target caller isSameBundle)
     else CheckCollaborateStartCtrlPer env target caller
   }"

definition CheckStartPermission_sched :: "'w perm_env \<Rightarrow> caller_info \<Rightarrow> account_info \<Rightarrow> target_ability \<Rightarrow> bool \<Rightarrow> ('w, ret) wprog" where
  "CheckStartPermission_sched env caller acc target isSameBundle =
     (if \<not> CheckAccountAccessPermission env caller acc (targetBundleName target) False
      then mreturn DMS_ACCOUNT_ACCESS_PERMISSION_DENIED
      else do {
        ok \<leftarrow> CheckStartControlPermission env target caller isSameBundle;
        mreturn (if \<not> ok then DMS_START_CONTROL_PERMISSION_DENIED else ERR_OK)
      })"

definition CheckCollabStartPermission_sched :: "'w perm_env \<Rightarrow> caller_info \<Rightarrow> account_info \<Rightarrow> target_ability \<Rightarrow> ('w, ret) wprog" where
  "CheckCollabStartPermission_sched env caller acc target =
     (if \<not> CheckAccountAccessPermission env caller acc (targetBundleName target) True
      then mreturn DMS_ACCOUNT_ACCESS_PERMISSION_DENIED
      else do {
        ok \<leftarrow> CheckCollabStartControlPermission env target caller;
        mreturn (if \<not> ok then DMS_START_CONTROL_PERMISSION_DENIED else ERR_OK)
      })"

definition CheckComponentAccessPermission :: "target_ability \<Rightarrow> bool" where
  "CheckComponentAccessPermission target \<longleftrightarrow> targetVisible target"

definition CheckSendResultPermission :: "'w perm_env \<Rightarrow> caller_info \<Rightarrow> account_info \<Rightarrow> target_ability \<Rightarrow> ret" where
  "CheckSendResultPermission env caller acc target =
     (if \<not> CheckAccountAccessPermission env caller acc (targetBundleName target) False then DMS_ACCOUNT_ACCESS_PERMISSION_DENIED
      else if \<not> CheckComponentAccessPermission target then DMS_COMPONENT_ACCESS_PERMISSION_DENIED
      else ERR_OK)"

definition CheckGetCallerPermission :: "'w perm_env \<Rightarrow> caller_info \<Rightarrow> account_info \<Rightarrow> target_ability \<Rightarrow> ('w, ret) wprog" where
  "CheckGetCallerPermission env caller acc target =
     (if \<not> CheckAccountAccessPermission env caller acc (targetBundleName target) False then mreturn DMS_ACCOUNT_ACCESS_PERMISSION_DENIED
      else if \<not> IsSameAppId env (callerAppId caller) (targetBundleName target) then mreturn CALL_PERMISSION_DENIED
      else do {
        background \<leftarrow> CheckBackgroundPermission env target caller False;
        w \<leftarrow> mget;
        mreturn
          (if \<not> background then DMS_BACKGROUND_PERMISSION_DENIED
           else if \<not> targetVisible target \<and> \<not> CheckDeviceSecurityLevel env (callerSourceDeviceId caller) (pwDeviceId (pwant env) w)
           then CALL_PERMISSION_DENIED
           else ERR_OK)
      })"

definition InitAbilityInfoFromExtension :: "string \<times> string \<times> bool \<Rightarrow> target_ability \<Rightarrow> target_ability" where
  "InitAbilityInfoFromExtension ext target =
     (case ext of (bundleName, name, visible) \<Rightarrow> target\<lparr>targetBundleName := bundleName, targetName := name, targetVisible := visible\<rparr>)"

definition GetTargetAbility :: "'w perm_env \<Rightarrow> 'w \<Rightarrow> bool \<Rightarrow> target_ability option" where
  "GetTargetAbility env want needQueryExtension =
     (case queryAbility env want of
        Some target \<Rightarrow>
          if pwInt (pwant env) DMS_MISSION_ID DEFAULT_DMS_MISSION_ID want \<noteq> DEFAULT_DMS_MISSION_ID \<and>
            (targetType target = SERVICE_ABILITY \<or> targetType target = EXTENSION_ABILITY) then None else Some target
      | None \<Rightarrow>
          if needQueryExtension
          then map_option (\<lambda>ext. InitAbilityInfoFromExtension ext (abilityInfoDefault env)) (queryExtension env want)
          else None)"

text \<open>The entry points of the service.\<close>

definition check_target_permission ::
    "'w perm_env \<Rightarrow> bool \<Rightarrow> caller_info \<Rightarrow> account_info \<Rightarrow> int \<Rightarrow> bool \<Rightarrow> ('w, ret) wprog" where
  "check_target_permission env isSameBundle caller acc flag needQueryExtension = do {
     want \<leftarrow> mget;
     case GetTargetAbility env want needQueryExtension of
       None \<Rightarrow> mreturn INVALID_PARAMETERS_ERR
     | Some target \<Rightarrow>
         if flag = START_PERMISSION then CheckStartPermission_sched env caller acc target isSameBundle
         else if flag = CALL_PERMISSION then CheckGetCallerPermission env caller acc target
         else if flag = SEND_RESULT_PERMISSION then mreturn (CheckSendResultPermission env caller acc target)
         else mreturn SCHED_PERMISSION_DENIED
   }"

definition CheckTargetPermission :: "'w perm_env \<Rightarrow> caller_info \<Rightarrow> account_info \<Rightarrow> int \<Rightarrow> bool \<Rightarrow> ('w, ret) wprog" where
  "CheckTargetPermission env = check_target_permission env True"

definition CheckTargetPermission4DiffBundle :: "'w perm_env \<Rightarrow> caller_info \<Rightarrow> account_info \<Rightarrow> int \<Rightarrow> bool \<Rightarrow> ('w, ret) wprog" where
  "CheckTargetPermission4DiffBundle env = check_target_permission env False"

definition CheckCollabStartPermission_service :: "'w perm_env \<Rightarrow> caller_info \<Rightarrow> account_info \<Rightarrow> bool \<Rightarrow> ('w, ret) wprog" where
  "CheckCollabStartPermission_service env caller acc needQueryExtension = do {
     want \<leftarrow> mget;
     case GetTargetAbility env want needQueryExtension of
       None \<Rightarrow> mreturn INVALID_PARAMETERS_ERR
     | Some target \<Rightarrow> CheckCollabStartPermission_sched env caller acc target
   }"

subsection \<open>Files and remote objects in a want\<close>

definition IsDistributedFile :: "string \<Rightarrow> bool" where
  "IsDistributedFile path \<longleftrightarrow> take (length DISTRIBUTED_FILES_PATH) path = DISTRIBUTED_FILES_PATH"

text \<open>The loop of \<^verbatim>\<open>MarkUriPermission\<close>; \<open>None\<close> is the return when there is no active account.\<close>

fun mark_uris :: "'w perm_env \<Rightarrow> u32 \<Rightarrow> string list \<Rightarrow> string list option" where
  "mark_uris env tok [] = Some []"
| "mark_uris env tok (u # us) =
     (if \<not> IsDistributedFile (uriPath env u) then mark_uris env tok us
      else case permActiveIds env of (r, ids) \<Rightarrow>
        if permOsAccountPart env \<and> (r \<noteq> ERR_OK \<or> ids = []) then None
        else (case bundleToken env (uriAuthority env u) (if permOsAccountPart env then hd ids else 0) of
            None \<Rightarrow> mark_uris env tok us
          | Some t \<Rightarrow> if t = tok then map_option ((#) u) (mark_uris env tok us) else mark_uris env tok us))"

definition MarkUriPermission :: "'w perm_env \<Rightarrow> u32 \<Rightarrow> 'w \<Rightarrow> 'w" where
  "MarkUriPermission env tok w =
     (let A = pwant env in
      if pwFlags A w AND (PW_FLAG_AUTH_READ_URI_PERMISSION A OR PW_FLAG_AUTH_WRITE_URI_PERMISSION A) = 0 then w
      else if \<not> bundleManagerFound env then w
      else case mark_uris env tok (pwStrings A PARAMS_STREAM w @ [pwUri A w]) of
        None \<Rightarrow> w
      | Some us \<Rightarrow> pwSetStrings A PARAMS_URI us w)"

text \<open>The values of want parameters, as far as \<^verbatim>\<open>RemoveRemoteObjectFromWant\<close> tells them apart.\<close>

datatype want_value = WString string | WParams "(string, want_value) smap" | WOther nat

definition TYPE_PROPERTY :: string where "TYPE_PROPERTY = ''type''"
definition REMOTE_OBJECT :: string where "REMOTE_OBJECT = ''RemoteObject''"

fun is_remote_object :: "want_value \<Rightarrow> bool" where
  "is_remote_object (WParams ps) = (smap_find ps TYPE_PROPERTY = Some (WString REMOTE_OBJECT))"
| "is_remote_object _ = False"

definition RemoveRemoteObjectFromWant :: "(string, want_value) smap \<Rightarrow> (string, want_value) smap" where
  "RemoveRemoteObjectFromWant params =
     fold (\<lambda>(k, v) ps. if is_remote_object v then smap_erase k ps else ps) params params"

end
