(* ===== verification/Permission_Checks.thy ===== *)
theory Permission_Checks
  imports Sched_Permission Continue_Protocol Collab_Delivery
begin

text \<open>
  What the permission checks guarantee: the exact condition under which a start is allowed, what it
  means for the abilities that continuations and collaborations start on the sink, and what is left of a
  want after remote objects and foreign files have been taken out of it.
\<close>

subsection \<open>When a start is allowed\<close>

text \<open>Removing a parameter of a want leaves the element of the want as it is.\<close>

definition element_kept :: "'w perm_want_api \<Rightarrow> bool" where
  "element_kept A \<longleftrightarrow> (\<forall>k w. pwDeviceId A (pwRemove A k w) = pwDeviceId A w)"

definition holds_permission :: "'w perm_env \<Rightarrow> caller_info \<Rightarrow> string \<Rightarrow> bool" where
  "holds_permission env caller p \<longleftrightarrow>
     (let tok = allocLocalTokenID env (callerSourceDeviceId caller) (callerAccessToken caller) in tok \<noteq> 0 \<and> \<not> tokenHasNot env tok p)"

definition background_allowed :: "'w perm_env \<Rightarrow> target_ability \<Rightarrow> caller_info \<Rightarrow> bool \<Rightarrow> 'w \<Rightarrow> bool" where
  "background_allowed env target caller api w \<longleftrightarrow>
     callerExtraDmsVersion caller = None \<or>
     \<not> pwBool (pwant env) DMS_IS_CALLER_BACKGROUND True w \<or>
     (api \<and> \<not> isStageBasedModel target \<and> targetType target = SERVICE_ABILITY \<and>
      pwInt (pwant env) DMS_API_VERSION DEFAULT_DMS_API_VERSION (pwRemove (pwant env) DMS_IS_CALLER_BACKGROUND w) \<le> 8) \<or>
     holds_permission env caller PERMISSION_START_ABILITIES_FROM_BACKGROUND \<or>
     holds_permission env caller PERMISSION_START_ABILIIES_FROM_BACKGROUND"

lemmas permission_defs = CheckPermission_def CheckPermissionAll_def VerifyPermission_sched_def CheckMinApiVersion_def
  CheckTargetAbilityVisible_def holds_permission_def

lemma outcome_background:
  "outcome (CheckBackgroundPermission env target caller api) w = background_allowed env target caller api w"
  by (simp add: CheckBackgroundPermission_def background_allowed_def permission_defs Let_def)

lemma background_keeps_element:
  "element_kept (pwant env) \<Longrightarrow>
   pwDeviceId (pwant env) (exec (CheckBackgroundPermission env target caller api) w) = pwDeviceId (pwant env) w"
  by (simp add: CheckBackgroundPermission_def element_kept_def Let_def)

text \<open>The rules for a start that is not a continuation.\<close>

definition collaborative_start :: "'w perm_env \<Rightarrow> target_ability \<Rightarrow> caller_info \<Rightarrow> 'w \<Rightarrow> bool" where
  "collaborative_start env target caller w \<longleftrightarrow>
     background_allowed env target caller True w \<and>
     (targetVisible target \<or> CheckDeviceSecurityLevel env (callerSourceDeviceId caller) (pwDeviceId (pwant env) w)) \<and>
     (IsSameAppId env (callerAppId caller) (targetBundleName target) \<or>
      (targetVisible target \<or> holds_permission env caller PERMISSION_START_INVISIBLE_ABILITY) \<and>
      (isStageBasedModel target \<or> targetType target \<noteq> SERVICE_ABILITY \<or> associatedWakeUp target))"

lemma outcome_collaborate:
  assumes "element_kept (pwant env)"
  shows "outcome (CheckCollaborateStartCtrlPer env target caller) w = collaborative_start env target caller w"
    and "outcome (CheckCollabStartControlPermission env target caller) w = collaborative_start env target caller w"
  using assms
  by (auto simp: CheckCollaborateStartCtrlPer_def CheckCollabStartControlPermission_def collaborative_start_def
      outcome_background background_keeps_element permission_defs Let_def)

definition continuation_want :: "'w perm_env \<Rightarrow> 'w \<Rightarrow> bool" where
  "continuation_want env w \<longleftrightarrow> pwFlags (pwant env) w AND PW_FLAG_ABILITY_CONTINUATION (pwant env) \<noteq> 0"

lemma start_permission:
  assumes "element_kept (pwant env)"
  shows "outcome (check_target_permission env same caller acc START_PERMISSION ext) w = ERR_OK \<longleftrightarrow>
     (\<exists>target. GetTargetAbility env w ext = Some target \<and>
        CheckAccountAccessPermission env caller acc (targetBundleName target) False \<and>
        (if continuation_want env w then same \<longrightarrow> IsSameAppId env (callerAppId caller) (targetBundleName target)
         else collaborative_start env target caller w))"
  by (auto simp: check_target_permission_def CheckStartPermission_sched_def CheckStartControlPermission_def
      CheckMigrateStartCtrlPer_def continuation_want_def outcome_collaborate [OF assms] split: option.split)

lemma collab_start_permission:
  assumes "element_kept (pwant env)"
  shows "outcome (CheckCollabStartPermission_service env caller acc ext) w = ERR_OK \<longleftrightarrow>
     (\<exists>target. GetTargetAbility env w ext = Some target \<and>
        CheckAccountAccessPermission env caller acc (targetBundleName target) True \<and>
        collaborative_start env target caller w)"
  by (auto simp: CheckCollabStartPermission_service_def CheckCollabStartPermission_sched_def
      outcome_collaborate [OF assms] split: option.split)


subsection \<open>Abilities that continuations start\<close>

text \<open>The continuation uses the checks of the service.\<close>

definition service_checks :: "'w perm_env \<Rightarrow> 'w continue_env \<Rightarrow> bool" where
  "service_checks penv env \<longleftrightarrow>
     checkTargetPermission env = (\<lambda>w c a. run_state (CheckTargetPermission penv c a START_PERMISSION True) w) \<and>
     checkTargetPermission4DiffBundle env = (\<lambda>w c a. run_state (CheckTargetPermission4DiffBundle penv c a START_PERMISSION True) w)"

lemma data_checked_target:
  assumes "element_kept (pwant penv)" "service_checks penv env" "data_checked env info cmd"
  shows "\<exists>target. GetTargetAbility penv (dataWant cmd) True = Some target \<and>
     CheckAccountAccessPermission penv (dataCallerInfo cmd) (dataAccountInfo cmd) (targetBundleName target) False \<and>
     (cmdSrcBundleName cmd = cmdDstBundleName cmd \<or> isSameDeveloperId env (cmdDstBundleName cmd) (cmdSrcDeveloperId cmd)) \<and>
     (if \<not> continuation_want penv (dataWant cmd) then collaborative_start penv target (dataCallerInfo cmd) (dataWant cmd)
      else cmdSrcBundleName cmd = cmdDstBundleName cmd \<longrightarrow>
        IsSameAppId penv (callerAppId (dataCallerInfo cmd)) (targetBundleName target))"
proof -
  let ?same = "cmdSrcBundleName cmd = cmdDstBundleName cmd"
  have "outcome (check_target_permission penv ?same (dataCallerInfo cmd) (dataAccountInfo cmd) START_PERMISSION True) (dataWant cmd) = ERR_OK"
    using assms(2,3) by (auto simp: data_checked_def service_checks_def CheckTargetPermission_def
        CheckTargetPermission4DiffBundle_def outcome_def split: if_splits)
  moreover have "?same \<or> isSameDeveloperId env (cmdDstBundleName cmd) (cmdSrcDeveloperId cmd)"
    using assms(3) by (auto simp: data_checked_def split: if_splits)
  ultimately show ?thesis
    unfolding start_permission [OF assms(1)] by auto
qed


subsection \<open>Abilities that collaborations start\<close>

text \<open>
  C20: A sink of a collaboration starts the ability only when it exists as an ability (extensions are not looked up), the rules
  for ordinary starts allow it, and, in a build that knows accounts, the two sides use the same account or
  the same application; the want it starts is the generated one less the parameters the check consumed.
\<close>

theorem collab_ability_authorised:
  assumes "element_kept (pwant penv)"
    and "checkCollabStart env = (\<lambda>w c a. run_state (CheckCollabStartPermission_service penv c a False) w)"
    and "mgrCalls (mgr (exec (ExeStartAbility env) s)) = mgrCalls (mgr s) @ cs" "CollabStartAbility want \<in> set cs"
    and "i = collabInfo (self s)" "generated = GenerateCollabWant env i"
  shows "\<exists>target. GetTargetAbility penv generated False = Some target \<and>
     want = exec (CheckCollabStartPermission_service penv (collabCallerInfo i) (srcAccountInfo i) False) generated \<and>
     CheckAccountAccessPermission penv (collabCallerInfo i) (srcAccountInfo i) (targetBundleName target) True \<and>
     (sameAccountPart penv \<longrightarrow>
       IsSameAppId penv (callerAppId (collabCallerInfo i)) (targetBundleName target) \<or>
       (\<exists>dst. permLocalDeviceId penv = Some dst \<and>
          dmIsSameAccount penv (dm_caller_of (srcAccountInfo i) (collabCallerInfo i) (targetBundleName target)) dst)) \<and>
     collaborative_start penv target (collabCallerInfo i) generated"
proof -
  let ?m = "CheckCollabStartPermission_service penv (collabCallerInfo i) (srcAccountInfo i) False"
  have "checkCollabStart env (GenerateCollabWant env (collabInfo (self s))) (collabCallerInfo (collabInfo (self s)))
      (srcAccountInfo (collabInfo (self s))) = (outcome ?m generated, exec ?m generated)"
    using assms(2,5,6) by (simp add: outcome_def exec_def)
  then have ok: "outcome ?m generated = ERR_OK" and w: "want = exec ?m generated"
    using assms(3,4) by (auto simp: ExeStartAbility_def PostErrEndTask_def cpost_def RegisterAbilityLifecycleObserver_def
        UpdateState_collab_def log_call_def split: if_splits)
  from ok obtain target where target: "GetTargetAbility penv generated False = Some target"
    "CheckAccountAccessPermission penv (collabCallerInfo i) (srcAccountInfo i) (targetBundleName target) True"
    "collaborative_start penv target (collabCallerInfo i) generated"
    using collab_start_permission [OF assms(1)] by blast
  with w show ?thesis
    by (auto simp: CheckAccountAccessPermission_def Let_def split: option.splits if_splits)
qed

subsection \<open>Security levels\<close>

text \<open>
  When the level of the target device cannot be determined, every source device whose level is known passes the
  check of the security levels, as if the target had the lowest level: the code tells \<open>unknown\<close> apart from a level
  for the source device only.
\<close>

theorem unknown_target_level_passes:
  assumes "udidOf env src \<noteq> []" "udidOf env dst \<noteq> []" "0 \<le> GetDeviceSecurityLevel env (udidOf env src)"
    and "requestSecurityInfo env (udidOf env dst) = None"
  shows "CheckDeviceSecurityLevel env src dst"
  using assms by (auto simp: CheckDeviceSecurityLevel_def GetDeviceSecurityLevel_def Let_def split: if_splits option.splits)

subsection \<open>Files and remote objects\<close>

definition own_distributed_file :: "'w perm_env \<Rightarrow> u32 \<Rightarrow> string \<Rightarrow> bool" where
  "own_distributed_file env tok u \<longleftrightarrow>
     (\<exists>rest. uriPath env u = DISTRIBUTED_FILES_PATH @ rest) \<and>
     bundleToken env (uriAuthority env u) (if permOsAccountPart env then hd (snd (permActiveIds env)) else 0) = Some tok"

lemma IsDistributedFile_iff: "IsDistributedFile path \<longleftrightarrow> (\<exists>rest. path = DISTRIBUTED_FILES_PATH @ rest)"
  unfolding IsDistributedFile_def by (metis append_take_drop_id append_eq_conv_conj)

lemma mark_uris_filter: "mark_uris env tok us = Some vs \<Longrightarrow> vs = filter (own_distributed_file env tok) us"
  by (induction us arbitrary: vs)
    (auto simp: own_distributed_file_def IsDistributedFile_iff split: if_splits prod.splits option.splits)

text \<open>
  The files of a want that the application at the other end may open are exactly the distributed files, among those
  the want names, that belong to the application with the given access token; no other want parameter changes.
\<close>

theorem uri_permission_own_files:
  "MarkUriPermission env tok w \<in>
     {w, pwSetStrings (pwant env) PARAMS_URI
        (filter (own_distributed_file env tok) (pwStrings (pwant env) PARAMS_STREAM w @ [pwUri (pwant env) w])) w}"
  by (auto simp: MarkUriPermission_def Let_def dest: mark_uris_filter split: option.split)

lemma find_fold_erase:
  "smap_find (fold (\<lambda>(k, v) ps. if P v then smap_erase k ps else ps) xs ps) k =
     (if \<exists>v. (k, v) \<in> set xs \<and> P v then None else smap_find ps k)"
proof (induction xs arbitrary: ps)
  case (Cons x xs)
  then show ?case
    by (cases x) (auto simp: smap_find_def map_of_erase)
qed simp

text \<open>
  Taking the remote objects out of a want removes every parameter that is a remote object and keeps all others.
\<close>

theorem remote_objects_removed:
  assumes "smap_ok params"
  shows "smap_find (RemoveRemoteObjectFromWant params) k =
     (case smap_find params k of None \<Rightarrow> None | Some v \<Rightarrow> if is_remote_object v then None else Some v)"
  using assms
  by (auto simp: RemoveRemoteObjectFromWant_def find_fold_erase smap_mem_find split: option.split)

subsection \<open>Witnesses\<close>

definition sample_perm_want :: "sample_want perm_want_api" where
  "sample_perm_want =
     \<lparr>pwFlags = swFlags, pwDeviceId = swDevice, pwBool = (\<lambda>k d w. case map_of (swBools w) k of None \<Rightarrow> d | Some v \<Rightarrow> v),
      pwInt = (\<lambda>k d w. case map_of (swInts w) k of None \<Rightarrow> d | Some v \<Rightarrow> v),
      pwStrings = (\<lambda>k w. map snd (filter (\<lambda>p. fst p = k) (swTexts w))), pwUri = (\<lambda>w. ''''),
      pwRemove = (\<lambda>k w. w\<lparr>swBools := filter (\<lambda>p. fst p \<noteq> k) (swBools w), swInts := filter (\<lambda>p. fst p \<noteq> k) (swInts w)\<rparr>),
      pwSetStrings = (\<lambda>k vs w. w\<lparr>swTexts := map (Pair k) vs @ filter (\<lambda>p. fst p \<noteq> k) (swTexts w)\<rparr>),
      PW_FLAG_ABILITY_CONTINUATION = 8, PW_FLAG_AUTH_READ_URI_PERMISSION = 1, PW_FLAG_AUTH_WRITE_URI_PERMISSION = 2\<rparr>"

definition sample_target :: target_ability where
  "sample_target = \<lparr>targetBundleName = ''app'', targetName = ''Main'', targetVisible = True, isStageBasedModel = True,
     targetType = PAGE_ABILITY, associatedWakeUp = False\<rparr>"

definition sample_perm_env :: "sample_want perm_env" where
  "sample_perm_env =
     \<lparr>pwant = sample_perm_want, sameAccountPart = True, permOsAccountPart = True, udidOf = (\<lambda>d. ''udid'' @ d),
      permLocalDeviceId = Some ''B'', dmIsSameAccount = (\<lambda>c d. dmPkgName c = ''app''), dmAccessControl = (\<lambda>_ _. False),
      accessToGroup = (\<lambda>_ _. False), relatedGroupsText = (\<lambda>_ _. None), groupKeys = \<lparr>FIELD_GROUP_NAME = ''groupName'', FIELD_GROUP_ID = ''groupId'', FIELD_GROUP_OWNER = ''groupOwner'',
        FIELD_GROUP_TYPE = ''groupType'', FIELD_GROUP_VISIBILITY = ''groupVisibility'', MAX_JSON_ELEMENT_LENGTH = 4096\<rparr>,
      parseJson = (\<lambda>_. None),
      IDENTICAL_ACCOUNT_GROUP = 1, PEER_TO_PEER_GROUP = 256, permActiveIds = (ERR_OK, [100]), ohosAccountUid = (0, ''u''),
      appIdOfBundle = (\<lambda>b. Some (b @ ''_id'')), queryAbility = (\<lambda>_. Some sample_target), queryExtension = (\<lambda>_. None),
      abilityInfoDefault = sample_target, allocLocalTokenID = (\<lambda>_ t. t), tokenHasNot = (\<lambda>_ _. False), DEVICE_ID_MAX_LEN = 64,
      requestSecurityInfo = (\<lambda>u. if u = ''udidB'' then None else Some 3), securityLevelValue = (\<lambda>n. Some (int n)),
      nativeToken = (\<lambda>_. (1, '''')), sceneboardToken = (\<lambda>_. (1, 0)), bundleManagerFound = True, uriPath = id, uriAuthority = id,
      bundleToken = (\<lambda>_ _. None), PERM_ERR_NULL_OBJECT = 22\<rparr>"

lemmas sample_perm_simps = sample_perm_env_def sample_perm_want_def sample_target_def

lemma sample_element_kept: "element_kept (pwant sample_perm_env)"
  by (simp add: element_kept_def sample_perm_simps)


theorem unknown_target_level_passes_witness: "CheckDeviceSecurityLevel sample_perm_env ''A'' ''B''"
  by (rule unknown_target_level_passes) (simp_all add: sample_perm_simps GetDeviceSecurityLevel_def)

theorem remote_objects_removed_witness:
  "smap_find (RemoveRemoteObjectFromWant
     [(''a'', WString ''x''), (''b'', WParams [(''type'', WString ''RemoteObject'')])]) ''b'' = None"
  by (subst remote_objects_removed) (simp_all add: smap_ok_def TYPE_PROPERTY_def REMOTE_OBJECT_def)

definition sample_checked_env :: "sample_want continue_env" where
  "sample_checked_env = (sample_continue_env ''B'')
     \<lparr>checkTargetPermission := (\<lambda>w c a. run_state (CheckTargetPermission sample_perm_env c a START_PERMISSION True) w),
      checkTargetPermission4DiffBundle := (\<lambda>w c a. run_state (CheckTargetPermission4DiffBundle sample_perm_env c a START_PERMISSION True) w)\<rparr>"

definition sample_app_data :: "sample_want data_cmd" where
  "sample_app_data = sample_data\<lparr>dataCallerInfo := (dataCallerInfo sample_data)\<lparr>callerAppId := ''app_id''\<rparr>\<rparr>"

lemma sample_run_check:
  "run_state (CheckTargetPermission sample_perm_env (dataCallerInfo sample_app_data) sample_account START_PERMISSION True)
     (dataWant sample_app_data) = (ERR_OK, dataWant sample_app_data)"
  by (simp add: sample_app_data_def sample_cmds sample_perm_simps CheckTargetPermission_def check_target_permission_def GetTargetAbility_def
      CheckStartPermission_sched_def CheckAccountAccessPermission_def CheckStartControlPermission_def CheckMigrateStartCtrlPer_def
      IsSameAppId_def sample_empty_want_def caller_info_default_def dm_caller_of_def Let_def)


theorem collab_ability_authorised_witness:
  "GetTargetAbility sample_perm_env (GenerateCollabWant sample_collab_env sample_collab_info) False = Some sample_target \<and>
   CheckAccountAccessPermission sample_perm_env caller_info_default account_info_default ''app'' True"
proof -
  let ?env = "sample_collab_env\<lparr>checkCollabStart := (\<lambda>w c a. run_state (CheckCollabStartPermission_service sample_perm_env c a False) w)\<rparr>"
  let ?s = "\<lparr>self = sample_collab\<lparr>collabInfo := sample_collab_info\<lparr>collabCallerInfo := caller_info_default,
      srcAccountInfo := account_info_default\<rparr>\<rparr>, mgr = sample_collab_mgr\<rparr>"
  have checked: "run_state (CheckCollabStartPermission_service sample_perm_env caller_info_default account_info_default False) w = (ERR_OK, w)" for w
    by (simp add: CheckCollabStartPermission_service_def CheckCollabStartPermission_sched_def GetTargetAbility_def sample_perm_simps
        CheckAccountAccessPermission_def CheckCollabStartControlPermission_def CheckBackgroundPermission_def IsSameAppId_def
        CheckTargetAbilityVisible_def caller_info_default_def dm_caller_of_def Let_def)
  have calls: "mgrCalls (mgr (exec (ExeStartAbility ?env) ?s)) = mgrCalls (mgr ?s) @
      [CollabStartAbility (GenerateCollabWant ?env (collabInfo (self ?s))), CollabRegisterObserver ''app'']"
    by (simp add: ExeStartAbility_def checked RegisterAbilityLifecycleObserver_def UpdateState_collab_def log_call_def
        sample_collab_env_def sample_collab_info_def)
  have same: "GenerateCollabWant ?env (collabInfo (self ?s)) = GenerateCollabWant sample_collab_env sample_collab_info"
    by (simp add: GenerateCollabWant_def SetScreenLockParameters_def IsStartForeground_def)
  have target: "GetTargetAbility sample_perm_env w False = Some sample_target" for w
    by (simp add: GetTargetAbility_def sample_perm_simps)
  from collab_ability_authorised [OF sample_element_kept _ calls _ refl refl, of "GenerateCollabWant ?env (collabInfo (self ?s))"]
  show ?thesis
    by (auto simp: same target sample_target_def)
qed

end
