(* ===== verification/Service_Types.thy ===== *)
theory Service_Types
  imports Sched_Permission
begin

text \<open>
  The data of \<^verbatim>\<open>DistributedSchedService\<close> (\<^verbatim>\<open>services/dtbschedmgr/src/distributed_sched_service.cpp\<close>): the tables of the
  abilities that applications of this device are connected to or have called on other devices, and of the abilities of this
  device that others are connected to or have called.

  Remote objects are \<open>Connect n\<close> (objects the applications hand in) and \<open>Stub n\<close> (wrappers the service makes, numbered); a
  pointer that may be null is an \<open>option\<close>. Maps with pointers as keys are ordered by them. The services the code calls are the
  record \<open>svc_env\<close>, whose answers are those of one operation; the calls themselves are recorded in the state. The
  permission checks are those of \<open>Sched_Permission\<close>. Each operation runs as one step; the mutexes of the code make the
  sections they guard atomic, and the operations that release a mutex between a check and an update are also available
  as their parts.
\<close>

abbreviation NO_CONNECT_CALLBACK_ERR :: ret where "NO_CONNECT_CALLBACK_ERR \<equiv> 29360130"
abbreviation REMOTE_DEVICE_BIND_ABILITY_ERR :: ret where "REMOTE_DEVICE_BIND_ABILITY_ERR \<equiv> 29360132"
abbreviation DEVICE_OFFLINE_ERR :: ret where "DEVICE_OFFLINE_ERR \<equiv> 29360142"
abbreviation BIND_ABILITY_UID_INVALID_ERR :: ret where "BIND_ABILITY_UID_INVALID_ERR \<equiv> 29360159"
abbreviation BIND_ABILITY_LEAK_ERR :: ret where "BIND_ABILITY_LEAK_ERR \<equiv> 29360160"
abbreviation NOT_FIND_SERVICE_REGISTRY :: ret where "NOT_FIND_SERVICE_REGISTRY \<equiv> 29360161"
abbreviation CONTINUE_FREE_INSTALL_FAILED :: ret where "CONTINUE_FREE_INSTALL_FAILED \<equiv> 29360205"
abbreviation NOT_FOREGROUND_USER :: ret where "NOT_FOREGROUND_USER \<equiv> 29360236"

definition DMS_SRC_NETWORK_ID :: string where "DMS_SRC_NETWORK_ID = ''dmsSrcNetworkId''"
definition DMS_CONNECT_TOKEN :: string where "DMS_CONNECT_TOKEN = ''connectToken''"
definition MAX_DISTRIBUTED_CONNECT_NUM :: nat where "MAX_DISTRIBUTED_CONNECT_NUM = 600"
definition MAX_CONNECT_TOKEN_NUM :: int where "MAX_CONNECT_TOKEN_NUM = 100000000"
definition BIND_CONNECT_RETRY_TIMES :: nat where "BIND_CONNECT_RETRY_TIMES = 3"
definition BIND_CONNECT_TIMEOUT :: int where "BIND_CONNECT_TIMEOUT = 500"
abbreviation INVALID_CALLER_UID :: int where "INVALID_CALLER_UID \<equiv> -1"
abbreviation DEFAULT_DMS_CONNECT_TOKEN :: int where "DEFAULT_DMS_CONNECT_TOKEN \<equiv> -1"
abbreviation CALLER_TYPE_HARMONY :: int where "CALLER_TYPE_HARMONY \<equiv> 1"

subsection \<open>Data\<close>

datatype remote_obj = Connect nat | Stub nat

instantiation remote_obj :: linorder
begin

fun less_eq_remote_obj :: "remote_obj \<Rightarrow> remote_obj \<Rightarrow> bool" where
  "less_eq_remote_obj (Connect m) (Connect n) = (m \<le> n)"
| "less_eq_remote_obj (Connect m) (Stub n) = True"
| "less_eq_remote_obj (Stub m) (Connect n) = False"
| "less_eq_remote_obj (Stub m) (Stub n) = (m \<le> n)"

definition less_remote_obj :: "remote_obj \<Rightarrow> remote_obj \<Rightarrow> bool" where
  "less_remote_obj x y \<longleftrightarrow> x \<le> y \<and> \<not> y \<le> x"

instance
proof
  fix x y z :: remote_obj
  show "x < y \<longleftrightarrow> x \<le> y \<and> \<not> y \<le> x"
    by (simp add: less_remote_obj_def)
  show "x \<le> x"
    by (cases x) simp_all
  show "x \<le> y \<Longrightarrow> y \<le> z \<Longrightarrow> x \<le> z"
    by (cases x; cases y; cases z) simp_all
  show "x \<le> y \<Longrightarrow> y \<le> x \<Longrightarrow> x = y"
    by (cases x; cases y) simp_all
  show "x \<le> y \<or> y \<le> x"
    by (cases x; cases y) auto
qed

end

record element_name =
  elDeviceId :: string
  elBundleName :: string
  elModuleName :: string
  elAbilityName :: string

text \<open>The caller with the member of \<^verbatim>\<open>extraInfoJson\<close> that names the bundle of its uid.\<close>

record svc_caller = caller_info +
  callerSpecBundle :: "string option"

datatype target_component = HARMONY_COMPONENT

record connect_session =
  sessSource :: string
  sessDestination :: string
  sessElements :: "element_name list"
  sessCaller :: svc_caller
  sessTarget :: target_component

record connect_info =
  ciCaller :: svc_caller
  ciWrapper :: remote_obj
  ciElement :: element_name

record call_info =
  callToken :: int
  callRemoteDevice :: string

record observer_info =
  obsObserver :: nat
  obsSrcDevice :: string
  obsConnectToken :: int
  obsBundle :: string
  obsAbility :: string
  obsSrcConnect :: remote_obj
  obsToken :: "nat option"

datatype component_change = COMPONENT_ADD | COMPONENT_REMOVE
datatype component_type = COMPONENT_CONNECT | COMPONENT_CALL
datatype device_role = ROLE_CALLER | ROLE_CALLEE

text \<open>The death recipients of the service: of connections, of local callers and of remote callers.\<close>

datatype death_recipient = ConnectDeath | LocalCallerDeath | CallerDeath

subsection \<open>Calls\<close>

datatype 'w svc_call =
    AddDeath remote_obj death_recipient
  | RemoveDeath remote_obj death_recipient
  | ReportCallerChange svc_caller component_change component_type device_role
  | ReportInfoChange connect_info component_change component_type device_role
  | CollaborateEvent ret event_notify
  | RemoteConnectAbility string 'w remote_obj svc_caller account_info
  | RemoteDisconnectAbility string remote_obj int string
  | RemoteProcessDied string svc_caller
  | RemoteStartAbility string 'w int svc_caller account_info
  | RemoteStartByCall string 'w remote_obj svc_caller account_info
  | RemoteReleaseAbility string remote_obj element_name svc_caller
  | RemoteStateChanged string int int element_name
  | RemoteStopExtension string 'w svc_caller account_info int
  | AmsConnectAbility 'w remote_obj
  | AmsDisconnectAbility remote_obj
  | AmsStartByCall 'w remote_obj
  | AmsReleaseAbility remote_obj element_name
  | AmsStartAbility 'w int int bool
  | AmsSendResult 'w int int
  | AmsStopExtension 'w int int
  | AppDisconnectDone remote_obj element_name ret
  | AppStateChanged remote_obj element_name int
  | RegisterObserver nat string
  | UnregisterObserver nat

subsection \<open>The service\<close>

record 'w svc =
  distributedConnectAbilityMap :: "(remote_obj, connect_session list) smap"
  connectAbilityMap :: "(remote_obj, connect_info) smap"
  trackingUidMap :: "(int, nat) smap"
  calleeMap :: "(remote_obj, connect_info) smap"
  callerMap :: "(remote_obj, connect_session list) smap"
  observerMap :: "(remote_obj, observer_info) smap"
  callMap :: "(remote_obj, call_info) smap"
  svcToken :: int
  bundleNameMap :: "(string, nat) smap"
  nextObject :: nat
  svcCalls :: "'w svc_call list"

definition svc_init :: "'w svc" where
  "svc_init = \<lparr>distributedConnectAbilityMap = [], connectAbilityMap = [], trackingUidMap = [], calleeMap = [], callerMap = [],
     observerMap = [], callMap = [], svcToken = 0, bundleNameMap = [], nextObject = 0, svcCalls = []\<rparr>"

text \<open>The methods of \<^verbatim>\<open>Want\<close> that the service calls itself.\<close>

record 'w svc_want_api =
  vwElement :: "'w \<Rightarrow> element_name"
  vwSetElement :: "element_name \<Rightarrow> 'w \<Rightarrow> 'w"
  vwString :: "string \<Rightarrow> 'w \<Rightarrow> string"
  vwInt :: "string \<Rightarrow> int \<Rightarrow> 'w \<Rightarrow> int"
  vwBool :: "string \<Rightarrow> bool \<Rightarrow> 'w \<Rightarrow> bool"
  vwSetString :: "string \<Rightarrow> string \<Rightarrow> 'w \<Rightarrow> 'w"
  vwSetInt :: "string \<Rightarrow> int \<Rightarrow> 'w \<Rightarrow> 'w"
  vwRemove :: "string \<Rightarrow> 'w \<Rightarrow> 'w"
  vwDeviceId :: "'w \<Rightarrow> string"
  PARAM_RESV_FOR_RESULT :: string

record 'w svc_env =
  svw :: "'w svc_want_api"
  svcPerm :: "'w perm_env"
  collaborateCbMgr :: bool
  callingDeviceID :: string
  callingUid :: int
  isLocalCalling :: bool
  isCallerForeground :: "int \<Rightarrow> bool"
  interactiveAdapter :: bool
  remoteOsEx :: "string \<Rightarrow> bool"
  adapterLoaded :: bool
  adapterResult :: "ret option"
  svcCallerAppId :: "int \<Rightarrow> string option"
  svcBundleNames :: "int \<Rightarrow> string list option"
  svcSpecBundle :: "int \<Rightarrow> string"
  svcAccountInfo :: "string \<Rightarrow> svc_caller \<Rightarrow> ret \<times> account_info"
  remoteDmsFound :: "string \<Rightarrow> bool"
  remoteConnectAnswer :: "nat \<Rightarrow> ret \<times> int"
  remoteAnswer :: "'w svc_call \<Rightarrow> ret"
  singularIsEnd :: bool
  parcelWrites :: bool
  svcAppMgr :: bool
  svcAmsConnect :: ret
  calleeAbilityToken :: "nat option"
  continueSwitchOn :: bool
  missionElement :: "int \<Rightarrow> ret \<times> element_name"
  svcDmsVersion :: int
  SVC_ERR_FLATTEN :: ret
  SVC_OBJECT_NULL :: ret

type_synonym ('w, 'a) sprog = "('w svc, 'a) state"

definition scall :: "'w svc_call \<Rightarrow> ('w, unit) sprog" where
  "scall c = mupd (\<lambda>s. s\<lparr>svcCalls := svcCalls s @ [c]\<rparr>)"

text \<open>A call whose answer the code uses.\<close>

definition ask :: "'w svc_env \<Rightarrow> 'w svc_call \<Rightarrow> ('w, ret) sprog" where
  "ask env c = do { scall c; mreturn (remoteAnswer env c) }"

lemma scall_simps [simp]:
  "exec (scall c) s = s\<lparr>svcCalls := svcCalls s @ [c]\<rparr>" "exec (ask env c) s = s\<lparr>svcCalls := svcCalls s @ [c]\<rparr>"
  "outcome (ask env c) s = remoteAnswer env c"
  by (simp_all add: scall_def ask_def)

subsection \<open>Sessions\<close>

definition ConnectAbilitySession :: "string \<Rightarrow> string \<Rightarrow> svc_caller \<Rightarrow> target_component \<Rightarrow> connect_session" where
  "ConnectAbilitySession src dst caller target =
     \<lparr>sessSource = src, sessDestination = dst, sessElements = [], sessCaller = caller, sessTarget = target\<rparr>"

definition AddElement :: "element_name \<Rightarrow> connect_session \<Rightarrow> connect_session" where
  "AddElement e s = (if e \<in> set (sessElements s) then s else s\<lparr>sessElements := sessElements s @ [e]\<rparr>)"

definition IsSameCaller :: "svc_caller \<Rightarrow> connect_session \<Rightarrow> bool" where
  "IsSameCaller caller s \<longleftrightarrow>
     callerUid caller = callerUid (sessCaller s) \<and> callerPid caller = callerPid (sessCaller s) \<and>
     callerSourceDeviceId caller = callerSourceDeviceId (sessCaller s) \<and> callerType caller = callerType (sessCaller s)"

text \<open>The loop that looks for the session of a device and appends a new one when there is none; the flag tells which.\<close>

fun session_add :: "connect_session \<Rightarrow> element_name \<Rightarrow> connect_session list \<Rightarrow> connect_session list \<times> bool" where
  "session_add new e [] = ([AddElement e new], True)"
| "session_add new e (s # ss) =
     (if sessDestination new = sessDestination s then (AddElement e s # ss, False)
      else case session_add new e ss of (ss', added) \<Rightarrow> (s # ss', added))"

text \<open>\<^verbatim>\<open>std::find_if\<close> and \<^verbatim>\<open>erase\<close> of the first session to a device.\<close>

fun session_take :: "string \<Rightarrow> connect_session list \<Rightarrow> (connect_session \<times> connect_session list) option" where
  "session_take dev [] = None"
| "session_take dev (s # ss) =
     (if sessDestination s = dev then Some (s, ss) else map_option (\<lambda>(t, ss'). (t, s # ss')) (session_take dev ss))"

subsection \<open>Device identities\<close>

abbreviation svc_local_device :: "'w svc_env \<Rightarrow> string option" where
  "svc_local_device env \<equiv> permLocalDeviceId (svcPerm env)"

definition CheckDeviceId_svc :: "string \<Rightarrow> string \<Rightarrow> bool" where
  "CheckDeviceId_svc here there \<longleftrightarrow> \<not> (here = [] \<or> there = [] \<or> here = there)"

definition CheckDeviceIdFromRemote_svc :: "'w svc_env \<Rightarrow> string \<Rightarrow> string \<Rightarrow> string \<Rightarrow> bool" where
  "CheckDeviceIdFromRemote_svc env here dst src =
     (if here = [] \<or> dst = [] \<or> src = [] then False
      else if here \<noteq> dst then False
      else if src = dst \<or> src = here then False
      else if src \<noteq> callingDeviceID env then False
      else True)"

definition GetRemoteDms_svc :: "'w svc_env \<Rightarrow> string \<Rightarrow> bool" where
  "GetRemoteDms_svc env dev = (if dev = [] then False else remoteDmsFound env dev)"

text \<open>\<^verbatim>\<open>StartRemoteAbilityAdapter\<close>, \<^verbatim>\<open>ConnectRemoteAbilityAdapter\<close> and \<^verbatim>\<open>DisconnectRemoteAbilityAdapter\<close> have the same shape.\<close>

definition RemoteAbilityAdapter :: "'w svc_env \<Rightarrow> ret" where
  "RemoteAbilityAdapter env =
     (if \<not> adapterLoaded env then NOT_FIND_SERVICE_REGISTRY
      else case adapterResult env of None \<Rightarrow> INVALID_PARAMETERS_ERR | Some r \<Rightarrow> r)"

subsection \<open>Events\<close>

definition NotifyCollaborateEventResult :: "'w svc_env \<Rightarrow> ret \<Rightarrow> event_notify \<Rightarrow> ('w, unit) sprog" where
  "NotifyCollaborateEventResult env r e = (if collaborateCbMgr env then scall (CollaborateEvent r e) else mreturn ())"

definition collaborate_event :: "string \<Rightarrow> svc_caller \<Rightarrow> element_name \<Rightarrow> dsched_event_state \<Rightarrow> int \<Rightarrow> event_notify" where
  "collaborate_event bundle caller e st r = event_notify_default
     \<lparr>eventResult := r, srcNetworkId := callerSourceDeviceId caller, dstNetworkId := elDeviceId e, srcBundleName := bundle,
      srcModuleName := [], srcAbilityName := [], destBundleName := elBundleName e, destModuleName := elModuleName e,
      destAbilityName := elAbilityName e, eventState := st\<rparr>"

definition GetCurSrcCollaborateEvent :: "'w svc_env \<Rightarrow> svc_caller \<Rightarrow> element_name \<Rightarrow> dsched_event_state \<Rightarrow> int \<Rightarrow> event_notify" where
  "GetCurSrcCollaborateEvent env caller = collaborate_event (svcSpecBundle env (callerUid caller)) caller"

definition GetCurDestCollaborateEvent :: "svc_caller \<Rightarrow> element_name \<Rightarrow> dsched_event_state \<Rightarrow> int \<Rightarrow> event_notify" where
  "GetCurDestCollaborateEvent caller = collaborate_event (case callerSpecBundle caller of None \<Rightarrow> [] | Some b \<Rightarrow> b) caller"

fun each :: "('a \<Rightarrow> ('w, unit) sprog) \<Rightarrow> 'a list \<Rightarrow> ('w, unit) sprog" where
  "each f [] = mreturn ()"
| "each f (x # xs) = do { f x; each f xs }"

definition NotifyCollaborateEventWithSessions :: "'w svc_env \<Rightarrow> connect_session list \<Rightarrow> dsched_event_state \<Rightarrow> ret \<Rightarrow> ('w, unit) sprog" where
  "NotifyCollaborateEventWithSessions env ss st r =
     each (\<lambda>s. each (\<lambda>e. NotifyCollaborateEventResult env r (GetCurSrcCollaborateEvent env (sessCaller s) e st r)) (sessElements s)) ss"

end
