(* ===== verification/Service_Connect.thy ===== *)
theory Service_Connect
  imports Service_Types
begin

text \<open>
  Connections: an application of this device binds an ability of another device
  (\<^verbatim>\<open>ConnectRemoteAbility\<close>, \<^verbatim>\<open>DisconnectRemoteAbility\<close>, \<^verbatim>\<open>ProcessConnectDied\<close>), and the other device serves it
  (\<^verbatim>\<open>ConnectAbilityFromRemote\<close>, \<^verbatim>\<open>DisconnectAbilityFromRemote\<close>, \<^verbatim>\<open>NotifyProcessDiedFromRemote\<close>).
\<close>

subsection \<open>The table of connections and the number of connections of a uid\<close>

definition svc_report_caller :: "svc_caller \<Rightarrow> component_change \<Rightarrow> component_type \<Rightarrow> device_role \<Rightarrow> ('w, unit) sprog" where
  "svc_report_caller caller ch ty role = scall (ReportCallerChange caller ch ty role)"

definition svc_report_info :: "connect_info \<Rightarrow> component_change \<Rightarrow> component_type \<Rightarrow> device_role \<Rightarrow> ('w, unit) sprog" where
  "svc_report_info info ch ty role = scall (ReportInfoChange info ch ty role)"

definition uid_count :: "(int, nat) smap \<Rightarrow> int \<Rightarrow> nat" where
  "uid_count m u = (case smap_find m u of None \<Rightarrow> 0 | Some n \<Rightarrow> n)"

definition RemoteConnectAbilityMappingLocked ::
    "remote_obj option \<Rightarrow> string \<Rightarrow> string \<Rightarrow> element_name \<Rightarrow> svc_caller \<Rightarrow> target_component \<Rightarrow> ('w, unit) sprog" where
  "RemoteConnectAbilityMappingLocked connect here there e caller target =
     (case connect of
        None \<Rightarrow> mreturn ()
      | Some c \<Rightarrow> do {
          s \<leftarrow> mget;
          (if smap_find (distributedConnectAbilityMap s) c = None
           then do {
             mupd (\<lambda>s. s\<lparr>trackingUidMap := smap_put (callerUid caller) (uid_count (trackingUidMap s) (callerUid caller) + 1) (trackingUidMap s)\<rparr>);
             scall (AddDeath c ConnectDeath);
             svc_report_caller caller COMPONENT_ADD COMPONENT_CONNECT ROLE_CALLER
           }
           else mreturn ());
          mupd (\<lambda>s. s\<lparr>distributedConnectAbilityMap := smap_put c
            (fst (session_add (ConnectAbilitySession here there caller target) e
               (case smap_find (distributedConnectAbilityMap s) c of None \<Rightarrow> [] | Some ss \<Rightarrow> ss)))
            (distributedConnectAbilityMap s)\<rparr>)
        })"

definition CheckDistributedConnectLocked :: "svc_caller \<Rightarrow> 'w svc \<Rightarrow> ret" where
  "CheckDistributedConnectLocked caller s =
     (if callerUid caller < 0 then BIND_ABILITY_UID_INVALID_ERR
      else case smap_find (trackingUidMap s) (callerUid caller) of
        None \<Rightarrow> ERR_OK
      | Some n \<Rightarrow> if n \<ge> MAX_DISTRIBUTED_CONNECT_NUM then BIND_ABILITY_LEAK_ERR else ERR_OK)"

definition decrease_connect :: "int \<Rightarrow> (int, nat) smap \<Rightarrow> (int, nat) smap" where
  "decrease_connect u m =
     (if u < 0 then m
      else case smap_find m u of
        None \<Rightarrow> m
      | Some n \<Rightarrow> let n' = (if n > 0 then n - 1 else n) in if n' = 0 then smap_erase u m else smap_put u n' m)"

definition DecreaseConnectLocked :: "int \<Rightarrow> ('w, unit) sprog" where
  "DecreaseConnectLocked u = mupd (\<lambda>s. s\<lparr>trackingUidMap := decrease_connect u (trackingUidMap s)\<rparr>)"

definition GetUidLocked :: "connect_session list \<Rightarrow> int" where
  "GetUidLocked ss = (case ss of [] \<Rightarrow> INVALID_CALLER_UID | s # _ \<Rightarrow> callerUid (sessCaller s))"

subsection \<open>Connecting\<close>

text \<open>
  The loop over the attempts: \<open>i\<close> counts them and \<open>n\<close> is what is left of \<^verbatim>\<open>retryTimes\<close>; the answer to an attempt comes with the time it
  took.
\<close>

fun connect_attempts ::
    "'w svc_env \<Rightarrow> 'w \<Rightarrow> remote_obj \<Rightarrow> svc_caller \<Rightarrow> account_info \<Rightarrow> nat \<Rightarrow> nat \<Rightarrow> ret \<Rightarrow> ('w, ret) sprog" where
  "connect_attempts env want c caller acc i 0 result = mreturn result"
| "connect_attempts env want c caller acc i (Suc n) result = do {
     let dev = elDeviceId (vwElement (svw env) want);
     scall (RemoteConnectAbility dev want c caller acc);
     let r = fst (remoteConnectAnswer env i);
     if r = ERR_OK
     then do {
       RemoteConnectAbilityMappingLocked (Some c) (callerSourceDeviceId caller) dev (vwElement (svw env) want) caller HARMONY_COMPONENT;
       mreturn r
     }
     else if r = INVALID_REMOTE_PARAMETERS_ERR \<or> r = REMOTE_DEVICE_BIND_ABILITY_ERR then mreturn r
     else if snd (remoteConnectAnswer env i) > BIND_CONNECT_TIMEOUT then mreturn r
     else connect_attempts env want c caller acc (Suc i) n r
   }"

definition TryConnectRemoteAbility :: "'w svc_env \<Rightarrow> 'w \<Rightarrow> remote_obj option \<Rightarrow> svc_caller \<Rightarrow> ('w, ret) sprog" where
  "TryConnectRemoteAbility env want connect caller =
     (let dev = elDeviceId (vwElement (svw env) want) in
      if \<not> GetRemoteDms_svc env dev then mreturn INVALID_PARAMETERS_ERR
      else case connect of
        None \<Rightarrow> mreturn INVALID_PARAMETERS_ERR
      | Some c \<Rightarrow>
          (case svcAccountInfo env dev caller of (r, acc) \<Rightarrow>
             if r \<noteq> ERR_OK then mreturn r
             else connect_attempts env want c caller acc 0 BIND_CONNECT_RETRY_TIMES REMOTE_DEVICE_BIND_ABILITY_ERR))"

definition svc_caller_default :: svc_caller where
  "svc_caller_default = caller_info.extend caller_info_default (svc_caller.fields None)"

text \<open>The caller with what the bundle manager knows about its uid; \<open>None\<close> when a query fails.\<close>

definition caller_from_bms :: "'w svc_env \<Rightarrow> svc_caller \<Rightarrow> svc_caller option" where
  "caller_from_bms env caller =
     (case svcCallerAppId env (callerUid caller) of
        None \<Rightarrow> None
      | Some app \<Rightarrow> (case svcBundleNames env (callerUid caller) of
          None \<Rightarrow> None
        | Some bs \<Rightarrow> Some (caller\<lparr>callerAppId := app, callerBundleNames := bs, callerExtraDmsVersion := Some (svcDmsVersion env)\<rparr>)))"

definition ConnectRemoteAbility :: "'w svc_env \<Rightarrow> 'w \<Rightarrow> remote_obj option \<Rightarrow> int \<Rightarrow> int \<Rightarrow> u32 \<Rightarrow> ('w, ret) sprog" where
  "ConnectRemoteAbility env want connect uid pid tok =
     (if \<not> isCallerForeground env uid then mreturn NOT_FOREGROUND_USER
      else let dev = elDeviceId (vwElement (svw env) want) in
        case svc_local_device env of
          None \<Rightarrow> mreturn INVALID_PARAMETERS_ERR
        | Some here \<Rightarrow>
            if \<not> CheckDeviceId_svc here dev then mreturn INVALID_PARAMETERS_ERR
            else if interactiveAdapter env \<and> remoteOsEx env dev then mreturn (RemoteAbilityAdapter env)
            else do {
              let caller = svc_caller_default\<lparr>callerUid := uid, callerPid := pid, callerType := CALLER_TYPE_HARMONY,
                callerSourceDeviceId := here, callerAccessToken := tok\<rparr>;
              s \<leftarrow> mget;
              let check = CheckDistributedConnectLocked caller s;
              if check \<noteq> ERR_OK then mreturn check
              else case caller_from_bms env caller of
                None \<Rightarrow> mreturn INVALID_PARAMETERS_ERR
              | Some caller' \<Rightarrow> TryConnectRemoteAbility env want connect caller'
            })"

subsection \<open>Serving a connection\<close>

text \<open>A new wrapper object around the connection of the caller.\<close>

definition new_stub :: "('w, remote_obj) sprog" where
  "new_stub = do { s \<leftarrow> mget; mupd (\<lambda>s. s\<lparr>nextObject := Suc (nextObject s)\<rparr>); mreturn (Stub (nextObject s)) }"

definition check_target :: "'w svc_env \<Rightarrow> 'w \<Rightarrow> svc_caller \<Rightarrow> account_info \<Rightarrow> int \<Rightarrow> bool \<Rightarrow> ret \<times> 'w" where
  "check_target env want caller acc flag ext =
     run_state (CheckTargetPermission (svcPerm env) (caller_info.truncate caller) acc flag ext) want"

text \<open>
  The iterator \<^verbatim>\<open>itConnect\<close> is only set for callers of type \<^verbatim>\<open>CALLER_TYPE_HARMONY\<close>. For others the code compares an iterator that
  belongs to no map with the end of the map, whose outcome (\<open>singularIsEnd\<close>) nothing fixes.
\<close>

definition ConnectAbilityFromRemote ::
    "'w svc_env \<Rightarrow> 'w \<Rightarrow> remote_obj option \<Rightarrow> svc_caller \<Rightarrow> account_info \<Rightarrow> ('w, ret) sprog" where
  "ConnectAbilityFromRemote env want0 connect caller acc =
     (case connect of
        None \<Rightarrow> mreturn INVALID_REMOTE_PARAMETERS_ERR
      | Some c \<Rightarrow>
          (case svc_local_device env of
             None \<Rightarrow> mreturn INVALID_REMOTE_PARAMETERS_ERR
           | Some here \<Rightarrow>
               if \<not> CheckDeviceIdFromRemote_svc env here (elDeviceId (vwElement (svw env) want0)) (callerSourceDeviceId caller)
               then mreturn INVALID_REMOTE_PARAMETERS_ERR
               else (case check_target env want0 caller acc START_PERMISSION True of (r, want) \<Rightarrow>
                 if r \<noteq> ERR_OK then mreturn r
                 else do {
                   s \<leftarrow> mget;
                   (wrapper, atEnd) \<leftarrow>
                     (if callerType caller = CALLER_TYPE_HARMONY
                      then (case smap_find (connectAbilityMap s) c of
                          Some info \<Rightarrow> mreturn (ciWrapper info, False)
                        | None \<Rightarrow> do { w \<leftarrow> new_stub; mreturn (w, True) })
                      else mreturn (c, singularIsEnd env));
                   err \<leftarrow> ask env (AmsConnectAbility want wrapper);
                   (if err = ERR_OK \<and> atEnd
                    then do {
                      let info = \<lparr>ciCaller = caller, ciWrapper = wrapper, ciElement = vwElement (svw env) want\<rparr>;
                      svc_report_info info COMPONENT_ADD COMPONENT_CONNECT ROLE_CALLEE;
                      mupd (\<lambda>s. s\<lparr>connectAbilityMap := smap_insert c info (connectAbilityMap s)\<rparr>)
                    }
                    else mreturn ());
                   mreturn err
                 })))"

subsection \<open>Disconnecting\<close>

definition DisconnectEachRemoteAbilityLocked :: "'w svc_env \<Rightarrow> string \<Rightarrow> string \<Rightarrow> remote_obj \<Rightarrow> ('w, ret) sprog" where
  "DisconnectEachRemoteAbilityLocked env here there c =
     (if \<not> GetRemoteDms_svc env there then mreturn INVALID_PARAMETERS_ERR
      else ask env (RemoteDisconnectAbility there c (callingUid env) here))"

definition DisconnectRemoteAbility :: "'w svc_env \<Rightarrow> remote_obj option \<Rightarrow> ('w, ret) sprog" where
  "DisconnectRemoteAbility env connect =
     (case connect of
        None \<Rightarrow> mreturn INVALID_PARAMETERS_ERR
      | Some c \<Rightarrow> do {
          s \<leftarrow> mget;
          (case smap_find (distributedConnectAbilityMap s) c of
             None \<Rightarrow> mreturn (if interactiveAdapter env then RemoteAbilityAdapter env else NO_CONNECT_CALLBACK_ERR)
           | Some ss \<Rightarrow> do {
               DecreaseConnectLocked (GetUidLocked ss);
               scall (RemoveDeath c ConnectDeath);
               (case ss of
                  [] \<Rightarrow> mreturn ()
                | t # _ \<Rightarrow> svc_report_caller (sessCaller t) COMPONENT_REMOVE COMPONENT_CONNECT ROLE_CALLER);
               mupd (\<lambda>s. s\<lparr>distributedConnectAbilityMap := smap_erase c (distributedConnectAbilityMap s)\<rparr>);
               if ss = [] then mreturn NO_CONNECT_CALLBACK_ERR
               else do {
                 each (\<lambda>t. case sessTarget t of HARMONY_COMPONENT \<Rightarrow>
                   do { _ \<leftarrow> DisconnectEachRemoteAbilityLocked env (sessSource t) (sessDestination t) c; mreturn () }) ss;
                 mreturn ERR_OK
               }
             })
        })"

definition DisconnectAbilityFromRemote :: "'w svc_env \<Rightarrow> remote_obj option \<Rightarrow> string \<Rightarrow> ('w, ret) sprog" where
  "DisconnectAbilityFromRemote env connect src =
     (case connect of
        None \<Rightarrow> mreturn INVALID_REMOTE_PARAMETERS_ERR
      | Some c \<Rightarrow>
          (case svc_local_device env of
             None \<Rightarrow> mreturn INVALID_REMOTE_PARAMETERS_ERR
           | Some here \<Rightarrow>
               if here = [] \<or> src = [] \<or> here = src then mreturn INVALID_REMOTE_PARAMETERS_ERR
               else do {
                 s \<leftarrow> mget;
                 (case smap_find (connectAbilityMap s) c of
                    Some info \<Rightarrow> do {
                      svc_report_info info COMPONENT_REMOVE COMPONENT_CONNECT ROLE_CALLEE;
                      mupd (\<lambda>s. s\<lparr>connectAbilityMap := smap_erase c (connectAbilityMap s)\<rparr>);
                      ask env (AmsDisconnectAbility (ciWrapper info))
                    }
                  | None \<Rightarrow>
                      if \<not> isLocalCalling env then mreturn INVALID_REMOTE_PARAMETERS_ERR
                      else ask env (AmsDisconnectAbility c))
               }))"

subsection \<open>Processes that die\<close>

definition same_process :: "svc_caller \<Rightarrow> connect_info \<Rightarrow> bool" where
  "same_process caller info \<longleftrightarrow>
     callerSourceDeviceId caller = callerSourceDeviceId (ciCaller info) \<and> callerUid caller = callerUid (ciCaller info) \<and>
     callerPid caller = callerPid (ciCaller info) \<and> callerType caller = callerType (ciCaller info)"

text \<open>The loop over the connections, with the error so far.\<close>

fun process_died_loop :: "'w svc_env \<Rightarrow> svc_caller \<Rightarrow> (remote_obj, connect_info) smap \<Rightarrow> ret \<Rightarrow> ('w, ret) sprog" where
  "process_died_loop env caller [] err = mreturn err"
| "process_died_loop env caller ((c, info) # rest) err =
     (if same_process caller info
      then do {
        r \<leftarrow> ask env (AmsDisconnectAbility (ciWrapper info));
        svc_report_info info COMPONENT_REMOVE COMPONENT_CONNECT ROLE_CALLEE;
        mupd (\<lambda>s. s\<lparr>connectAbilityMap := smap_erase c (connectAbilityMap s)\<rparr>);
        process_died_loop env caller rest (if r \<noteq> ERR_OK then r else err)
      }
      else process_died_loop env caller rest err)"

definition NotifyProcessDiedFromRemote :: "'w svc_env \<Rightarrow> svc_caller \<Rightarrow> ('w, ret) sprog" where
  "NotifyProcessDiedFromRemote env caller = do { s \<leftarrow> mget; process_died_loop env caller (connectAbilityMap s) ERR_OK }"

text \<open>The devices to tell, each once, in the order of the sessions; the key of the set is the device and the kind of component.\<close>

fun notify_list :: "svc_caller \<Rightarrow> connect_session list \<Rightarrow> (string \<times> target_component) list \<Rightarrow> (string \<times> target_component) list" where
  "notify_list caller [] seen = seen"
| "notify_list caller (t # ts) seen =
     notify_list caller ts (if (sessDestination t, sessTarget t) \<in> set seen then seen else seen @ [(sessDestination t, sessTarget t)])"

fun connect_died_loop ::
    "svc_caller \<Rightarrow> (remote_obj, connect_session list) smap \<Rightarrow> (string \<times> target_component) list \<Rightarrow> ('w, (string \<times> target_component) list) sprog" where
  "connect_died_loop caller [] seen = mreturn seen"
| "connect_died_loop caller ((c, ss) # rest) seen =
     (if ss \<noteq> [] \<and> IsSameCaller caller (hd ss)
      then do {
        DecreaseConnectLocked (callerUid caller);
        scall (RemoveDeath c ConnectDeath);
        svc_report_caller caller COMPONENT_REMOVE COMPONENT_CONNECT ROLE_CALLER;
        mupd (\<lambda>s. s\<lparr>distributedConnectAbilityMap := smap_erase c (distributedConnectAbilityMap s)\<rparr>);
        connect_died_loop caller rest (notify_list caller ss seen)
      }
      else connect_died_loop caller rest seen)"

definition NotifyProcessDied :: "'w svc_env \<Rightarrow> string \<Rightarrow> svc_caller \<Rightarrow> target_component \<Rightarrow> ('w, unit) sprog" where
  "NotifyProcessDied env dev caller target =
     (case target of HARMONY_COMPONENT \<Rightarrow>
        if \<not> GetRemoteDms_svc env dev then mreturn () else scall (RemoteProcessDied dev caller))"

definition ProcessConnectDied :: "'w svc_env \<Rightarrow> remote_obj option \<Rightarrow> ('w, unit) sprog" where
  "ProcessConnectDied env connect =
     (case connect of
        None \<Rightarrow> mreturn ()
      | Some c \<Rightarrow> do {
          s \<leftarrow> mget;
          (case smap_find (distributedConnectAbilityMap s) c of
             None \<Rightarrow> mreturn ()
           | Some [] \<Rightarrow> mreturn ()
           | Some (t # ts) \<Rightarrow> do {
               let caller = sessCaller t;
               tell \<leftarrow> connect_died_loop caller (distributedConnectAbilityMap s) [];
               each (\<lambda>(dev, target). NotifyProcessDied env dev caller target) tell
             })
        })"

subsection \<open>A device that goes offline\<close>

definition NotifyApp :: "'w svc_env \<Rightarrow> remote_obj \<Rightarrow> element_name \<Rightarrow> ret \<Rightarrow> ('w, unit) sprog" where
  "NotifyApp env c e err = (if parcelWrites env then scall (AppDisconnectDone c e err) else mreturn ())"

definition NotifyDeviceOfflineToAppLocked :: "'w svc_env \<Rightarrow> remote_obj \<Rightarrow> connect_session \<Rightarrow> ('w, unit) sprog" where
  "NotifyDeviceOfflineToAppLocked env c t = each (\<lambda>e. NotifyApp env c e DEVICE_OFFLINE_ERR) (sessElements t)"

fun offline_sessions_loop :: "'w svc_env \<Rightarrow> string \<Rightarrow> (remote_obj, connect_session list) smap \<Rightarrow> ('w, unit) sprog" where
  "offline_sessions_loop env dev [] = mreturn ()"
| "offline_sessions_loop env dev ((c, ss) # rest) = do {
     (caller, ss') \<leftarrow>
       (case session_take dev ss of
          None \<Rightarrow> mreturn (svc_caller_default, ss)
        | Some (t, ss') \<Rightarrow> do {
            NotifyDeviceOfflineToAppLocked env c t;
            mupd (\<lambda>s. s\<lparr>distributedConnectAbilityMap := smap_put c ss' (distributedConnectAbilityMap s)\<rparr>);
            mreturn (sessCaller t, ss')
          });
     (if ss' = []
      then do {
        scall (RemoveDeath c ConnectDeath);
        DecreaseConnectLocked (GetUidLocked ss);
        svc_report_caller caller COMPONENT_REMOVE COMPONENT_CONNECT ROLE_CALLER;
        mupd (\<lambda>s. s\<lparr>distributedConnectAbilityMap := smap_erase c (distributedConnectAbilityMap s)\<rparr>)
      }
      else mreturn ());
     offline_sessions_loop env dev rest
   }"

fun offline_served_loop :: "'w svc_env \<Rightarrow> string \<Rightarrow> (remote_obj, connect_info) smap \<Rightarrow> ('w, unit) sprog" where
  "offline_served_loop env dev [] = mreturn ()"
| "offline_served_loop env dev ((c, info) # rest) = do {
     (if dev = callerSourceDeviceId (ciCaller info)
      then do {
        scall (AmsDisconnectAbility (ciWrapper info));
        svc_report_info info COMPONENT_REMOVE COMPONENT_CONNECT ROLE_CALLEE;
        mupd (\<lambda>s. s\<lparr>connectAbilityMap := smap_erase c (connectAbilityMap s)\<rparr>)
      }
      else mreturn ());
     offline_served_loop env dev rest
   }"

definition RemoveConnectAbilityInfo :: "'w svc_env \<Rightarrow> string \<Rightarrow> ('w, unit) sprog" where
  "RemoveConnectAbilityInfo env dev = do {
     s \<leftarrow> mget;
     offline_sessions_loop env dev (distributedConnectAbilityMap s);
     s \<leftarrow> mget;
     offline_served_loop env dev (connectAbilityMap s)
   }"

end
