(* ===== verification/Service_Call.thy ===== *)
theory Service_Call
  imports Service_Connect
begin

text \<open>
  Calls: an application of this device starts an ability of another device by call and keeps a caller object
  (\<^verbatim>\<open>StartRemoteAbilityByCall\<close>, \<^verbatim>\<open>ReleaseRemoteAbility\<close>), the other device serves it (\<^verbatim>\<open>StartAbilityByCallFromRemote\<close>,
  \<^verbatim>\<open>ReleaseAbilityFromRemote\<close>) and reports the state of the ability back under the connect token
  (\<^verbatim>\<open>NotifyStateChanged\<close>, \<^verbatim>\<open>NotifyStateChangedFromRemote\<close>); deaths on either side and devices that go offline.
\<close>

subsection \<open>Watching the state of a called ability\<close>

definition new_observer :: "('w, nat) sprog" where
  "new_observer = do { s \<leftarrow> mget; mupd (\<lambda>s. s\<lparr>nextObject := Suc (nextObject s)\<rparr>); mreturn (nextObject s) }"

text \<open>
  The observer is entered into \<^verbatim>\<open>bundleNameMap_\<close> before it is registered and stays there when the registration fails. The want
  loses two parameters, through a \<^verbatim>\<open>const_cast\<close>; it is not used afterwards.
\<close>

definition RegisterAppStateObserver :: "'w svc_env \<Rightarrow> 'w \<Rightarrow> svc_caller \<Rightarrow> remote_obj \<Rightarrow> remote_obj \<Rightarrow> ('w, bool) sprog" where
  "RegisterAppStateObserver env want caller srcConn wrapper =
     (let tok = vwInt (svw env) DMS_CONNECT_TOKEN DEFAULT_DMS_CONNECT_TOKEN want; e = vwElement (svw env) want in
      if tok = DEFAULT_DMS_CONNECT_TOKEN then mreturn False
      else if \<not> svcAppMgr env then mreturn False
      else do {
        s \<leftarrow> mget;
        known \<leftarrow>
          (case smap_find (bundleNameMap s) (elBundleName e) of
             Some obs \<Rightarrow> mreturn (Some obs)
           | None \<Rightarrow> do {
               obs \<leftarrow> new_observer;
               mupd (\<lambda>s. s\<lparr>bundleNameMap := smap_put (elBundleName e) obs (bundleNameMap s)\<rparr>);
               r \<leftarrow> ask env (RegisterObserver obs (elBundleName e));
               mreturn (if r \<noteq> ERR_OK then None else Some obs)
             });
        (case known of
           None \<Rightarrow> mreturn False
         | Some obs \<Rightarrow> do {
             mupd (\<lambda>s. s\<lparr>observerMap := smap_put wrapper
               \<lparr>obsObserver = obs, obsSrcDevice = callerSourceDeviceId caller, obsConnectToken = tok, obsBundle = elBundleName e,
                obsAbility = elAbilityName e, obsSrcConnect = srcConn, obsToken = None\<rparr> (observerMap s)\<rparr>);
             mreturn True
           })
      })"

definition UnregisterAppStateObserver :: "'w svc_env \<Rightarrow> remote_obj \<Rightarrow> ('w, unit) sprog" where
  "UnregisterAppStateObserver env wrapper = do {
     s \<leftarrow> mget;
     (case smap_find (observerMap s) wrapper of
        None \<Rightarrow> mreturn ()
      | Some ob \<Rightarrow> do {
          mupd (\<lambda>s. s\<lparr>observerMap := smap_erase wrapper (observerMap s)\<rparr>);
          s \<leftarrow> mget;
          if list_ex (\<lambda>(k, ob'). obsBundle ob' = obsBundle ob) (observerMap s) then mreturn ()
          else do {
            mupd (\<lambda>s. s\<lparr>bundleNameMap := smap_erase (obsBundle ob) (bundleNameMap s)\<rparr>);
            if svcAppMgr env then scall (UnregisterObserver (obsObserver ob)) else mreturn ()
          }
        })
   }"

text \<open>The first observer whose source is the connection gets the token of the called ability.\<close>

fun set_observer_token :: "nat \<Rightarrow> remote_obj \<Rightarrow> (remote_obj, observer_info) smap \<Rightarrow> (remote_obj, observer_info) smap" where
  "set_observer_token t c [] = []"
| "set_observer_token t c ((k, ob) # rest) =
     (if obsSrcConnect ob = c then (k, ob\<lparr>obsToken := Some t\<rparr>) # rest else (k, ob) # set_observer_token t c rest)"

definition ProcessCallResult :: "'w svc_env \<Rightarrow> remote_obj \<Rightarrow> ('w, unit) sprog" where
  "ProcessCallResult env callerConn =
     (case calleeAbilityToken env of
        None \<Rightarrow> mreturn ()
      | Some t \<Rightarrow> mupd (\<lambda>s. s\<lparr>observerMap := set_observer_token t callerConn (observerMap s)\<rparr>))"

text \<open>
  The token of the ability may be null, and an observer whose token was not set yet has a null token as well: the code
  compares the pointers.
\<close>

definition NotifyStateChanged :: "'w svc_env \<Rightarrow> int \<Rightarrow> element_name \<Rightarrow> nat option \<Rightarrow> ('w, ret) sprog" where
  "NotifyStateChanged env abilityState e tok = do {
     s \<leftarrow> mget;
     let (src, connTok) = (case find (\<lambda>(k, ob). obsBundle ob = elBundleName e \<and> obsAbility ob = elAbilityName e \<and> tok = obsToken ob) (observerMap s) of
       None \<Rightarrow> ([], 0) | Some (k, ob) \<Rightarrow> (obsSrcDevice ob, obsConnectToken ob));
     (case svc_local_device env of
        None \<Rightarrow> mreturn INVALID_PARAMETERS_ERR
      | Some here \<Rightarrow>
          if \<not> CheckDeviceId_svc here src then mreturn INVALID_PARAMETERS_ERR
          else if \<not> GetRemoteDms_svc env src then mreturn INVALID_PARAMETERS_ERR
          else ask env (RemoteStateChanged src abilityState connTok (e\<lparr>elDeviceId := here\<rparr>)))
   }"

definition NotifyStateChangedFromRemote :: "'w svc_env \<Rightarrow> int \<Rightarrow> int \<Rightarrow> element_name \<Rightarrow> ('w, ret) sprog" where
  "NotifyStateChangedFromRemote env abilityState connTok e = do {
     s \<leftarrow> mget;
     (case find (\<lambda>(k, i). callToken i = connTok) (callMap s) of
        None \<Rightarrow> mreturn INVALID_PARAMETERS_ERR
      | Some (c, _) \<Rightarrow>
          if \<not> parcelWrites env then mreturn INVALID_PARAMETERS_ERR
          else do { scall (AppStateChanged c e abilityState); mreturn ERR_OK })
   }"

subsection \<open>Calling\<close>

definition SaveConnectToken :: "'w svc_env \<Rightarrow> 'w \<Rightarrow> remote_obj \<Rightarrow> ('w, int) sprog" where
  "SaveConnectToken env want c = do {
     s \<leftarrow> mget;
     let tok = (if svcToken s + 1 > MAX_CONNECT_TOKEN_NUM then 1 else svcToken s + 1);
     mupd (\<lambda>s. s\<lparr>svcToken := tok,
       callMap := smap_put c \<lparr>callToken = tok, callRemoteDevice = elDeviceId (vwElement (svw env) want)\<rparr> (callMap s)\<rparr>);
     mreturn tok
   }"

definition SaveCallerComponent :: "'w svc_env \<Rightarrow> 'w \<Rightarrow> remote_obj \<Rightarrow> svc_caller \<Rightarrow> ('w, unit) sprog" where
  "SaveCallerComponent env want c caller = do {
     let e = vwElement (svw env) want;
     s \<leftarrow> mget;
     (if smap_find (callerMap s) c = None
      then do { scall (AddDeath c LocalCallerDeath); svc_report_caller caller COMPONENT_ADD COMPONENT_CALL ROLE_CALLER }
      else mreturn ());
     let (ss, added) = session_add (ConnectAbilitySession (callerSourceDeviceId caller) (elDeviceId e) caller HARMONY_COMPONENT) e
       (case smap_find (callerMap s) c of None \<Rightarrow> [] | Some ss \<Rightarrow> ss);
     mupd (\<lambda>s. s\<lparr>callerMap := smap_put c ss (callerMap s)\<rparr>);
     if added
     then NotifyCollaborateEventResult env ERR_OK (GetCurSrcCollaborateEvent env caller e DMS_DSCHED_EVENT_PROCESSING ERR_OK)
     else mreturn ()
   }"

definition TryStartRemoteAbilityByCall :: "'w svc_env \<Rightarrow> 'w \<Rightarrow> remote_obj \<Rightarrow> svc_caller \<Rightarrow> ('w, ret) sprog" where
  "TryStartRemoteAbilityByCall env want c caller =
     (let dev = elDeviceId (vwElement (svw env) want) in
      if \<not> GetRemoteDms_svc env dev then mreturn INVALID_PARAMETERS_ERR
      else case svcAccountInfo env dev caller of (r, acc) \<Rightarrow>
        if r \<noteq> ERR_OK then mreturn r
        else do {
          tok \<leftarrow> SaveConnectToken env want c;
          result \<leftarrow> ask env (RemoteStartByCall dev (vwSetInt (svw env) DMS_CONNECT_TOKEN tok want) c caller acc);
          (if result = ERR_OK then SaveCallerComponent env want c caller else mreturn ());
          mreturn result
        })"

definition StartRemoteAbilityByCall :: "'w svc_env \<Rightarrow> 'w \<Rightarrow> remote_obj option \<Rightarrow> int \<Rightarrow> int \<Rightarrow> u32 \<Rightarrow> ('w, ret) sprog" where
  "StartRemoteAbilityByCall env want connect uid pid tok =
     (if \<not> isCallerForeground env uid then mreturn NOT_FOREGROUND_USER
      else case connect of
        None \<Rightarrow> mreturn INVALID_PARAMETERS_ERR
      | Some c \<Rightarrow>
          (case svc_local_device env of
             None \<Rightarrow> mreturn INVALID_PARAMETERS_ERR
           | Some here \<Rightarrow>
               if \<not> CheckDeviceId_svc here (elDeviceId (vwElement (svw env) want)) then mreturn INVALID_PARAMETERS_ERR
               else (case caller_from_bms env (svc_caller_default\<lparr>callerUid := uid, callerPid := pid, callerSourceDeviceId := here,
                    callerAccessToken := tok\<rparr>) of
                 None \<Rightarrow> mreturn INVALID_PARAMETERS_ERR
               | Some caller0 \<Rightarrow> do {
                   let caller = caller0\<lparr>callerSpecBundle := Some (svcSpecBundle env uid)\<rparr>;
                   NotifyCollaborateEventResult env ERR_OK
                     (GetCurSrcCollaborateEvent env caller (vwElement (svw env) want) DMS_DSCHED_EVENT_START ERR_OK);
                   r \<leftarrow> TryStartRemoteAbilityByCall env want c caller;
                   (if r \<noteq> ERR_OK then mupd (\<lambda>s. s\<lparr>callMap := smap_erase c (callMap s)\<rparr>) else mreturn ());
                   mreturn r
                 })))"

text \<open>The common part of \<^verbatim>\<open>RemoveCallerComponent\<close> and \<^verbatim>\<open>HandleLocalCallerDied\<close>.\<close>

definition caller_ended :: "'w svc_env \<Rightarrow> remote_obj \<Rightarrow> connect_session list \<Rightarrow> ('w, unit) sprog" where
  "caller_ended env c ss = do {
     (case ss of [] \<Rightarrow> mreturn () | t # _ \<Rightarrow> svc_report_caller (sessCaller t) COMPONENT_REMOVE COMPONENT_CALL ROLE_CALLER);
     NotifyCollaborateEventWithSessions env ss DMS_DSCHED_EVENT_FINISH ERR_OK;
     mupd (\<lambda>s. s\<lparr>callerMap := smap_erase c (callerMap s)\<rparr>)
   }"

definition RemoveCallerComponent :: "'w svc_env \<Rightarrow> remote_obj \<Rightarrow> ('w, unit) sprog" where
  "RemoveCallerComponent env c = do {
     s \<leftarrow> mget;
     (case smap_find (callerMap s) c of
        None \<Rightarrow> mreturn ()
      | Some ss \<Rightarrow> do { scall (RemoveDeath c LocalCallerDeath); caller_ended env c ss });
     mupd (\<lambda>s. s\<lparr>callMap := smap_erase c (callMap s)\<rparr>)
   }"

definition HandleLocalCallerDied :: "'w svc_env \<Rightarrow> remote_obj \<Rightarrow> ('w, unit) sprog" where
  "HandleLocalCallerDied env c = do {
     s \<leftarrow> mget;
     (case smap_find (callerMap s) c of None \<Rightarrow> mreturn () | Some ss \<Rightarrow> caller_ended env c ss);
     mupd (\<lambda>s. s\<lparr>callMap := smap_erase c (callMap s)\<rparr>)
   }"

definition ReleaseRemoteAbility :: "'w svc_env \<Rightarrow> remote_obj option \<Rightarrow> element_name \<Rightarrow> ('w, ret) sprog" where
  "ReleaseRemoteAbility env connect e =
     (case connect of
        None \<Rightarrow> mreturn INVALID_PARAMETERS_ERR
      | Some c \<Rightarrow>
          if elDeviceId e = [] then mreturn INVALID_PARAMETERS_ERR
          else if \<not> GetRemoteDms_svc env (elDeviceId e) then mreturn INVALID_PARAMETERS_ERR
          else (case svc_local_device env of
              None \<Rightarrow> mreturn INVALID_PARAMETERS_ERR
            | Some here \<Rightarrow> do {
                result \<leftarrow> ask env (RemoteReleaseAbility (elDeviceId e) c e (svc_caller_default\<lparr>callerSourceDeviceId := here\<rparr>));
                (if result = ERR_OK then RemoveCallerComponent env c else mreturn ());
                mreturn result
              }))"

subsection \<open>Serving a call\<close>

definition dest_event :: "'w svc_env \<Rightarrow> svc_caller \<Rightarrow> element_name \<Rightarrow> dsched_event_state \<Rightarrow> ret \<Rightarrow> ('w, unit) sprog" where
  "dest_event env caller e st r = NotifyCollaborateEventResult env r (GetCurDestCollaborateEvent caller e st r)"

definition StartAbilityByCallFromRemote ::
    "'w svc_env \<Rightarrow> 'w \<Rightarrow> remote_obj option \<Rightarrow> svc_caller \<Rightarrow> account_info \<Rightarrow> ('w, ret) sprog" where
  "StartAbilityByCallFromRemote env want0 connect caller acc =
     (case connect of
        None \<Rightarrow> mreturn INVALID_REMOTE_PARAMETERS_ERR
      | Some c \<Rightarrow> do {
          dest_event env caller (vwElement (svw env) want0) DMS_DSCHED_EVENT_START ERR_OK;
          (case svc_local_device env of
             None \<Rightarrow> mreturn INVALID_REMOTE_PARAMETERS_ERR
           | Some here \<Rightarrow>
               if \<not> CheckDeviceIdFromRemote_svc env here (elDeviceId (vwElement (svw env) want0)) (callerSourceDeviceId caller)
               then mreturn INVALID_REMOTE_PARAMETERS_ERR
               else (case check_target env want0 caller acc CALL_PERMISSION False of (r, want) \<Rightarrow>
                 if r \<noteq> ERR_OK then mreturn r
                 else do {
                   s \<leftarrow> mget;
                   wrapper \<leftarrow> (case smap_find (calleeMap s) c of Some info \<Rightarrow> mreturn (ciWrapper info) | None \<Rightarrow> new_stub);
                   err \<leftarrow> ask env (AmsStartByCall want wrapper);
                   (if err = ERR_OK
                    then do {
                      let info = \<lparr>ciCaller = caller, ciWrapper = wrapper, ciElement = vwElement (svw env) want\<rparr>;
                      svc_report_info info COMPONENT_ADD COMPONENT_CALL ROLE_CALLEE;
                      mupd (\<lambda>s. s\<lparr>calleeMap := smap_insert c info (calleeMap s)\<rparr>);
                      scall (AddDeath c CallerDeath);
                      _ \<leftarrow> RegisterAppStateObserver env want caller c wrapper;
                      mreturn ()
                    }
                    else mreturn ());
                   dest_event env caller (vwElement (svw env) want) DMS_DSCHED_EVENT_PROCESSING ERR_OK;
                   mreturn err
                 }))
        })"

definition ReleaseAbilityFromRemote :: "'w svc_env \<Rightarrow> remote_obj option \<Rightarrow> element_name \<Rightarrow> svc_caller \<Rightarrow> ('w, ret) sprog" where
  "ReleaseAbilityFromRemote env connect e caller =
     (case connect of
        None \<Rightarrow> mreturn INVALID_REMOTE_PARAMETERS_ERR
      | Some c \<Rightarrow> do {
          dest_event env caller e DMS_DSCHED_EVENT_STOP ERR_OK;
          (case svc_local_device env of
             None \<Rightarrow> mreturn INVALID_REMOTE_PARAMETERS_ERR
           | Some here \<Rightarrow>
               if here = [] \<or> callerSourceDeviceId caller = [] \<or> here = callerSourceDeviceId caller
               then mreturn INVALID_REMOTE_PARAMETERS_ERR
               else do {
                 s \<leftarrow> mget;
                 (case smap_find (calleeMap s) c of
                    None \<Rightarrow> mreturn INVALID_REMOTE_PARAMETERS_ERR
                  | Some info \<Rightarrow> do {
                      svc_report_info info COMPONENT_REMOVE COMPONENT_CALL ROLE_CALLEE;
                      mupd (\<lambda>s. s\<lparr>calleeMap := smap_erase c (calleeMap s)\<rparr>);
                      scall (RemoveDeath c CallerDeath);
                      UnregisterAppStateObserver env (ciWrapper info);
                      result \<leftarrow> ask env (AmsReleaseAbility (ciWrapper info) e);
                      dest_event env caller e DMS_DSCHED_EVENT_FINISH result;
                      mreturn result
                    })
               })
        })"

subsection \<open>Deaths\<close>

definition element_default :: element_name where
  "element_default = \<lparr>elDeviceId = [], elBundleName = [], elModuleName = [], elAbilityName = []\<rparr>"

text \<open>
  The caller object of a served call died; for a local caller object see \<open>HandleLocalCallerDied\<close>. A connection that is
  not in the table is released under its own object, with an empty element.
\<close>

definition ProcessCallerDied :: "'w svc_env \<Rightarrow> remote_obj option \<Rightarrow> device_role \<Rightarrow> ('w, unit) sprog" where
  "ProcessCallerDied env connect role =
     (case connect of
        None \<Rightarrow> mreturn ()
      | Some c \<Rightarrow>
          if role = ROLE_CALLER then HandleLocalCallerDied env c
          else do {
            s \<leftarrow> mget;
            (wrapper, e, caller) \<leftarrow>
              (case smap_find (calleeMap s) c of
                 None \<Rightarrow> mreturn (c, element_default, svc_caller_default)
               | Some info \<Rightarrow> do {
                   svc_report_info info COMPONENT_REMOVE COMPONENT_CALL ROLE_CALLEE;
                   dest_event env (ciCaller info) (ciElement info) DMS_DSCHED_EVENT_STOP ERR_OK;
                   mupd (\<lambda>s. s\<lparr>calleeMap := smap_erase c (calleeMap s)\<rparr>);
                   mreturn (ciWrapper info, ciElement info, ciCaller info)
                 });
            UnregisterAppStateObserver env wrapper;
            result \<leftarrow> ask env (AmsReleaseAbility wrapper e);
            dest_event env caller e DMS_DSCHED_EVENT_FINISH result
          })"

definition ProcessCalleeDied :: "'w svc_env \<Rightarrow> remote_obj option \<Rightarrow> ('w, unit) sprog" where
  "ProcessCalleeDied env connect =
     (case connect of
        None \<Rightarrow> mreturn ()
      | Some c \<Rightarrow> do {
          s \<leftarrow> mget;
          (case smap_find (calleeMap s) c of
             None \<Rightarrow> mreturn ()
           | Some info \<Rightarrow> do {
               svc_report_info info COMPONENT_REMOVE COMPONENT_CALL ROLE_CALLEE;
               mupd (\<lambda>s. s\<lparr>calleeMap := smap_erase c (calleeMap s)\<rparr>);
               dest_event env (ciCaller info) (ciElement info) DMS_DSCHED_EVENT_STOP ERR_OK;
               UnregisterAppStateObserver env (ciWrapper info);
               dest_event env (ciCaller info) (ciElement info) DMS_DSCHED_EVENT_FINISH ERR_OK
             })
        })"

subsection \<open>A device that goes offline\<close>

fun callee_offline_loop :: "'w svc_env \<Rightarrow> string \<Rightarrow> (remote_obj, connect_session list) smap \<Rightarrow> ('w, unit) sprog" where
  "callee_offline_loop env dev [] = mreturn ()"
| "callee_offline_loop env dev ((c, ss) # rest) = do {
     (caller, ss') \<leftarrow>
       (case session_take dev ss of
          None \<Rightarrow> mreturn (svc_caller_default, ss)
        | Some (t, ss') \<Rightarrow> do {
            NotifyCollaborateEventWithSessions env [t] DMS_DSCHED_EVENT_FINISH ERR_OK;
            mupd (\<lambda>s. s\<lparr>callerMap := smap_put c ss' (callerMap s)\<rparr>);
            mreturn (sessCaller t, ss')
          });
     (if ss' = []
      then do {
        scall (RemoveDeath c LocalCallerDeath);
        svc_report_caller caller COMPONENT_REMOVE COMPONENT_CALL ROLE_CALLER;
        mupd (\<lambda>s. s\<lparr>callerMap := smap_erase c (callerMap s)\<rparr>)
      }
      else mreturn ());
     callee_offline_loop env dev rest
   }"

definition ProcessCalleeOffline :: "'w svc_env \<Rightarrow> string \<Rightarrow> ('w, unit) sprog" where
  "ProcessCalleeOffline env dev = do {
     s \<leftarrow> mget;
     callee_offline_loop env dev (callerMap s);
     mupd (\<lambda>s. s\<lparr>callMap := filter (\<lambda>(c, i). callRemoteDevice i \<noteq> dev) (callMap s)\<rparr>)
   }"

end
