(* ===== verification/Service_Start.thy ===== *)
theory Service_Start
  imports Service_Call
begin

text \<open>
  Starts: an application of this device starts an ability of another device (\<^verbatim>\<open>StartRemoteAbility\<close>), the other device serves it
  (\<^verbatim>\<open>StartAbilityFromRemote\<close>), sends a result back (\<^verbatim>\<open>SendResultFromRemote\<close>) or stops an extension
  (\<^verbatim>\<open>StopRemoteExtensionAbility\<close>, \<^verbatim>\<open>StopExtensionAbilityFromRemote\<close>); and what happens when a device goes offline. The
  measurements of \<^verbatim>\<open>DmsContinueTime\<close> and \<^verbatim>\<open>DmsRadar\<close> are left out.
\<close>

definition QueryOsAccount :: "'w svc_env \<Rightarrow> ret \<times> int" where
  "QueryOsAccount env =
     (if \<not> permOsAccountPart (svcPerm env) then (ERR_OK, -1)
      else case permActiveIds (svcPerm env) of (err, ids) \<Rightarrow>
        if err \<noteq> ERR_OK \<or> ids = [] then (INVALID_PARAMETERS_ERR, -1) else (ERR_OK, hd ids))"

definition GetCallerInfo :: "'w svc_env \<Rightarrow> string \<Rightarrow> int \<Rightarrow> u32 \<Rightarrow> svc_caller option" where
  "GetCallerInfo env here uid tok =
     caller_from_bms env (svc_caller_default\<lparr>callerSourceDeviceId := here, callerUid := uid, callerAccessToken := tok\<rparr>)"

definition StartRemoteAbility :: "'w svc_env \<Rightarrow> 'w \<Rightarrow> int \<Rightarrow> int \<Rightarrow> u32 \<Rightarrow> ('w, ret) sprog" where
  "StartRemoteAbility env want uid requestCode tok =
     (if \<not> isCallerForeground env uid then mreturn NOT_FOREGROUND_USER
      else let dev = elDeviceId (vwElement (svw env) want) in
        case svc_local_device env of
          None \<Rightarrow> mreturn INVALID_PARAMETERS_ERR
        | Some here \<Rightarrow>
            if \<not> CheckDeviceId_svc here dev then mreturn INVALID_PARAMETERS_ERR
            else if interactiveAdapter env \<and> remoteOsEx env dev then mreturn (RemoteAbilityAdapter env)
            else if \<not> GetRemoteDms_svc env dev then mreturn INVALID_PARAMETERS_ERR
            else (case GetCallerInfo env here uid tok of
                None \<Rightarrow> mreturn INVALID_PARAMETERS_ERR
              | Some caller \<Rightarrow>
                  (case svcAccountInfo env dev caller of (r, acc) \<Rightarrow>
                     if r \<noteq> ERR_OK then mreturn r
                     else ask env (RemoteStartAbility dev (vwSetString (svw env) DMS_SRC_NETWORK_ID here want) requestCode caller acc))))"

definition StartAbility_svc :: "'w svc_env \<Rightarrow> 'w \<Rightarrow> int \<Rightarrow> ('w, ret) sprog" where
  "StartAbility_svc env want requestCode =
     (if \<not> continueSwitchOn env then mreturn SCHED_PERMISSION_DENIED
      else if svcAmsConnect env \<noteq> ERR_OK then mreturn (svcAmsConnect env)
      else case QueryOsAccount env of (err, account) \<Rightarrow>
        if err \<noteq> ERR_OK then mreturn err
        else ask env (AmsStartAbility want requestCode account (vwBool (svw env) (PARAM_RESV_FOR_RESULT (svw env)) False want)))"

definition StartAbilityFromRemote :: "'w svc_env \<Rightarrow> 'w \<Rightarrow> int \<Rightarrow> svc_caller \<Rightarrow> account_info \<Rightarrow> ('w, ret) sprog" where
  "StartAbilityFromRemote env want0 requestCode caller acc =
     (case svc_local_device env of
        None \<Rightarrow> mreturn INVALID_REMOTE_PARAMETERS_ERR
      | Some here \<Rightarrow>
          if \<not> CheckDeviceIdFromRemote_svc env here (elDeviceId (vwElement (svw env) want0)) (callerSourceDeviceId caller)
          then mreturn INVALID_REMOTE_PARAMETERS_ERR
          else (case check_target env want0 caller acc START_PERMISSION True of (r, want) \<Rightarrow>
            if r \<noteq> ERR_OK then mreturn r else StartAbility_svc env want requestCode))"

text \<open>The want names the device the result is for; a want without an element gets the one of the mission that waits for it.\<close>

definition SendResultFromRemote :: "'w svc_env \<Rightarrow> 'w \<Rightarrow> int \<Rightarrow> svc_caller \<Rightarrow> account_info \<Rightarrow> int \<Rightarrow> ('w, ret) sprog" where
  "SendResultFromRemote env want0 requestCode caller acc resultCode =
     (let W = svw env; dev = vwString W DMS_SRC_NETWORK_ID want0; want1 = vwRemove W DMS_SRC_NETWORK_ID want0 in
      case svc_local_device env of
        None \<Rightarrow> mreturn INVALID_REMOTE_PARAMETERS_ERR
      | Some here \<Rightarrow>
          if \<not> CheckDeviceIdFromRemote_svc env here dev (callerSourceDeviceId caller) then mreturn INVALID_REMOTE_PARAMETERS_ERR
          else (case
              (if elBundleName (vwElement W want1) = [] \<and> elAbilityName (vwElement W want1) = []
               then if svcAmsConnect env \<noteq> ERR_OK then (svcAmsConnect env, want1)
                 else (case missionElement env (vwInt W DMS_MISSION_ID DEFAULT_DMS_MISSION_ID want1) of (r, e) \<Rightarrow>
                   if r \<noteq> ERR_OK then (r, want1)
                   else (ERR_OK, vwSetElement W \<lparr>elDeviceId = [], elBundleName = elBundleName e, elModuleName = [],
                     elAbilityName = elAbilityName e\<rparr> want1))
               else (ERR_OK, want1)) of (r, want2) \<Rightarrow>
            if r \<noteq> ERR_OK then mreturn r
            else (case check_target env want2 caller acc SEND_RESULT_PERMISSION False of (r, want) \<Rightarrow>
              if r \<noteq> ERR_OK then mreturn r
              else if svcAmsConnect env \<noteq> ERR_OK then mreturn (svcAmsConnect env)
              else ask env (AmsSendResult want requestCode resultCode))))"

definition StopRemoteExtensionAbility :: "'w svc_env \<Rightarrow> 'w \<Rightarrow> int \<Rightarrow> u32 \<Rightarrow> int \<Rightarrow> ('w, ret) sprog" where
  "StopRemoteExtensionAbility env want uid tok extensionType =
     (let dev = vwDeviceId (svw env) want in
      case svc_local_device env of
        None \<Rightarrow> mreturn INVALID_PARAMETERS_ERR
      | Some here \<Rightarrow>
          if \<not> CheckDeviceId_svc here dev then mreturn INVALID_PARAMETERS_ERR
          else if \<not> GetRemoteDms_svc env dev then mreturn INVALID_PARAMETERS_ERR
          else (case GetCallerInfo env here uid tok of
              None \<Rightarrow> mreturn INVALID_PARAMETERS_ERR
            | Some caller0 \<Rightarrow>
                let caller = caller0\<lparr>callerExtraDmsVersion := None\<rparr> in
                (case svcAccountInfo env dev caller of (r, acc) \<Rightarrow>
                   if r \<noteq> ERR_OK then mreturn INVALID_PARAMETERS_ERR
                   else ask env (RemoteStopExtension dev (vwSetString (svw env) DMS_SRC_NETWORK_ID here want) caller acc extensionType))))"

definition StopExtensionAbilityFromRemote :: "'w svc_env \<Rightarrow> 'w \<Rightarrow> svc_caller \<Rightarrow> account_info \<Rightarrow> int \<Rightarrow> ('w, ret) sprog" where
  "StopExtensionAbilityFromRemote env want0 caller acc extensionType =
     (case svc_local_device env of
        None \<Rightarrow> mreturn INVALID_REMOTE_PARAMETERS_ERR
      | Some here \<Rightarrow>
          if \<not> CheckDeviceIdFromRemote_svc env here (elDeviceId (vwElement (svw env) want0)) (callerSourceDeviceId caller)
          then mreturn INVALID_REMOTE_PARAMETERS_ERR
          else (case check_target env want0 caller acc START_PERMISSION True of (r, want) \<Rightarrow>
            if r \<noteq> ERR_OK then mreturn SCHED_PERMISSION_DENIED
            else (case QueryOsAccount env of (err, account) \<Rightarrow>
              if err \<noteq> ERR_OK then mreturn err
              else ask env (AmsStopExtension (vwRemove (svw env) DMS_SRC_NETWORK_ID want) account extensionType))))"

text \<open>
  The part of \<^verbatim>\<open>ProcessDeviceOffline\<close> that concerns connections and calls; free installations and missions are told as well.
\<close>

definition ProcessDeviceOffline :: "'w svc_env \<Rightarrow> string \<Rightarrow> ('w, unit) sprog" where
  "ProcessDeviceOffline env dev =
     (case svc_local_device env of
        None \<Rightarrow> mreturn ()
      | Some here \<Rightarrow>
          if \<not> CheckDeviceId_svc here dev then mreturn ()
          else do { RemoveConnectAbilityInfo env dev; ProcessCalleeOffline env dev })"

subsection \<open>What the service tells others about its components\<close>

record component_info =
  compPid :: "int option"
  compUid :: int
  compBundle :: string
  compType :: component_type
  compRole :: device_role

definition caller_component :: "component_type \<Rightarrow> connect_session list \<Rightarrow> component_info list" where
  "caller_component ty ss =
     (case ss of
        [] \<Rightarrow> []
      | t # _ \<Rightarrow> [\<lparr>compPid = Some (callerPid (sessCaller t)), compUid = callerUid (sessCaller t),
          compBundle = (case callerBundleNames (sessCaller t) of [] \<Rightarrow> [] | b # _ \<Rightarrow> b), compType = ty, compRole = ROLE_CALLER\<rparr>])"

definition callee_component :: "(string \<Rightarrow> int) \<Rightarrow> component_type \<Rightarrow> connect_info \<Rightarrow> component_info" where
  "callee_component uidOf ty info = \<lparr>compPid = None, compUid = uidOf (elBundleName (ciElement info)),
     compBundle = elBundleName (ciElement info), compType = ty, compRole = ROLE_CALLEE\<rparr>"

definition GetConnectComponentList :: "(string \<Rightarrow> int) \<Rightarrow> 'w svc \<Rightarrow> component_info list" where
  "GetConnectComponentList uidOf s =
     concat (map (\<lambda>(c, ss). caller_component COMPONENT_CONNECT ss) (distributedConnectAbilityMap s)) @
     map (\<lambda>(c, info). callee_component uidOf COMPONENT_CONNECT info) (connectAbilityMap s)"

definition GetCallComponentList :: "(string \<Rightarrow> int) \<Rightarrow> 'w svc \<Rightarrow> component_info list" where
  "GetCallComponentList uidOf s =
     concat (map (\<lambda>(c, ss). caller_component COMPONENT_CALL ss) (callerMap s)) @
     map (\<lambda>(c, info). callee_component uidOf COMPONENT_CALL info) (calleeMap s)"

definition GetDistributedComponentList :: "(string \<Rightarrow> int) \<Rightarrow> 'w svc \<Rightarrow> component_info list" where
  "GetDistributedComponentList uidOf s = GetConnectComponentList uidOf s @ GetCallComponentList uidOf s"

text \<open>The events of running calls that an application or, with the uid \<open>-1\<close>, a system service asks for.\<close>

abbreviation ANY_UID :: int where "ANY_UID \<equiv> -1"
abbreviation HID_HAP :: int where "HID_HAP \<equiv> 10000"

definition GetCollaborateEventsByCallers :: "'w svc_env \<Rightarrow> int \<Rightarrow> string \<Rightarrow> 'w svc \<Rightarrow> event_notify list" where
  "GetCollaborateEventsByCallers env uid bundle s =
     concat (map (\<lambda>(c, ss). concat (map (\<lambda>t.
       if uid \<noteq> ANY_UID \<and> uid \<noteq> callerUid (sessCaller t) \<and> bundle \<notin> set (callerBundleNames (sessCaller t)) then []
       else map (\<lambda>e. GetCurSrcCollaborateEvent env (sessCaller t) e DMS_DSCHED_EVENT_PROCESSING ERR_OK) (sessElements t)) ss)) (callerMap s))"

definition GetCollaborateEventsByCallees :: "int \<Rightarrow> string \<Rightarrow> 'w svc \<Rightarrow> event_notify list" where
  "GetCollaborateEventsByCallees uid bundle s =
     concat (map (\<lambda>(c, info).
       if uid \<noteq> ANY_UID \<and> bundle \<noteq> elBundleName (ciElement info) then []
       else [GetCurDestCollaborateEvent (ciCaller info) (ciElement info) DMS_DSCHED_EVENT_PROCESSING ERR_OK]) (calleeMap s))"

text \<open>\<open>specBundle\<close> is the answer of the bundle manager, \<open>None\<close> when it fails.\<close>

definition GetCollaborateEventInfo :: "'w svc_env \<Rightarrow> string option \<Rightarrow> int \<Rightarrow> 'w svc \<Rightarrow> event_notify list" where
  "GetCollaborateEventInfo env specBundle uid s =
     (if uid = ANY_UID then GetCollaborateEventsByCallers env uid [] s @ GetCollaborateEventsByCallees uid [] s
      else case specBundle of
        None \<Rightarrow> []
      | Some b \<Rightarrow> GetCollaborateEventsByCallers env uid b s @ GetCollaborateEventsByCallees uid b s)"

definition CheckCallingUid :: "'w svc_env \<Rightarrow> bool" where
  "CheckCallingUid env \<longleftrightarrow> callingUid env < HID_HAP"

definition GetDSchedEventInfo_collaborate :: "'w svc_env \<Rightarrow> string option \<Rightarrow> 'w svc \<Rightarrow> event_notify list" where
  "GetDSchedEventInfo_collaborate env specBundle s =
     GetCollaborateEventInfo env specBundle (if CheckCallingUid env then ANY_UID else callingUid env) s"

end
