(* ===== verification/Connect_Safety.thy ===== *)
theory Connect_Safety
  imports Service_Start
begin

text \<open>
  Invariants of the connections of the service: the number of connections of every uid is the number its table holds,
  never more than the limit; every connection has a session and is watched for the death of its process. They hold
  after any sequence of operations of the service, connections and calls alike.
\<close>

subsection \<open>Watched objects\<close>

fun watch_step :: "death_recipient \<Rightarrow> 'w svc_call \<Rightarrow> remote_obj set \<Rightarrow> remote_obj set" where
  "watch_step d (AddDeath c d') W = (if d' = d then insert c W else W)"
| "watch_step d (RemoveDeath c d') W = (if d' = d then W - {c} else W)"
| "watch_step d _ W = W"

definition watched :: "death_recipient \<Rightarrow> 'w svc_call list \<Rightarrow> remote_obj set" where
  "watched d cs = fold (watch_step d) cs {}"

lemma watched_simps [simp]: "watched d [] = {}" "watched d (cs @ [c]) = watch_step d c (watched d cs)"
  by (simp_all add: watched_def)

subsection \<open>Counting\<close>

definition conns_of :: "(remote_obj \<Rightarrow> int) \<Rightarrow> (remote_obj, 'v) smap \<Rightarrow> int \<Rightarrow> nat" where
  "conns_of owner m u = card {c. smap_find m c \<noteq> None \<and> owner c = u}"

lemma finite_conns [simp]: "finite {c. (\<exists>v. smap_find m c = Some v) \<and> P c}"
proof (rule finite_subset)
  show "{c. (\<exists>v. smap_find m c = Some v) \<and> P c} \<subseteq> fst ` set m"
    by (auto dest: smap_find_mem intro: rev_image_eqI)
qed simp

lemma conns_of_Nil [simp]: "conns_of owner [] u = 0"
  by (simp add: conns_of_def)

lemma conns_of_put:
  assumes "smap_ok m"
  shows "conns_of owner (smap_put c v m) u = conns_of owner m u + (if smap_find m c = None \<and> owner c = u then 1 else 0)"
proof -
  have "{x. smap_find (smap_put c v m) x \<noteq> None \<and> owner x = u} =
      (if owner c = u then insert c {x. smap_find m x \<noteq> None \<and> owner x = u} else {x. smap_find m x \<noteq> None \<and> owner x = u})"
    using assms by (auto simp: sm.find_put)
  then show ?thesis
    by (auto simp: conns_of_def insert_absorb)
qed

lemma conns_of_erase:
  assumes "smap_ok m" "smap_find m c \<noteq> None"
  shows "conns_of owner m u = conns_of owner (smap_erase c m) u + (if owner c = u then 1 else 0)"
proof -
  have "{x. smap_find (smap_erase c m) x \<noteq> None \<and> owner x = u} = {x. smap_find m x \<noteq> None \<and> owner x = u} - {c}"
    using assms(1) by (auto simp: sm.find_del)
  moreover have "owner c = u \<Longrightarrow> card {x. smap_find m x \<noteq> None \<and> owner x = u} = Suc (card ({x. smap_find m x \<noteq> None \<and> owner x = u} - {c}))"
    using assms(2) by (intro card.remove) auto
  ultimately show ?thesis
    by (auto simp: conns_of_def)
qed

subsection \<open>The invariant\<close>

text \<open>Every object an application hands in belongs to one uid, its owner.\<close>

definition session_list_ok :: "int \<Rightarrow> connect_session list \<Rightarrow> bool" where
  "session_list_ok u ss \<longleftrightarrow>
     ss \<noteq> [] \<and> distinct (map sessDestination ss) \<and> (\<forall>t \<in> set ss. callerUid (sessCaller t) = u \<and> sessElements t \<noteq> [])"

definition connections_ok :: "(remote_obj \<Rightarrow> int) \<Rightarrow> 'w svc \<Rightarrow> bool" where
  "connections_ok owner s \<longleftrightarrow>
     smap_ok (distributedConnectAbilityMap s) \<and> smap_ok (trackingUidMap s) \<and>
     (\<forall>c ss. smap_find (distributedConnectAbilityMap s) c = Some ss \<longrightarrow> 0 \<le> owner c \<and> session_list_ok (owner c) ss) \<and>
     (\<forall>u. smap_find (trackingUidMap s) u =
        (if conns_of owner (distributedConnectAbilityMap s) u = 0 then None else Some (conns_of owner (distributedConnectAbilityMap s) u))) \<and>
     (\<forall>u. conns_of owner (distributedConnectAbilityMap s) u \<le> MAX_DISTRIBUTED_CONNECT_NUM) \<and>
     watched ConnectDeath (svcCalls s) = {c. smap_find (distributedConnectAbilityMap s) c \<noteq> None}"

lemma connections_ok_init: "connections_ok owner svc_init"
  by (simp add: connections_ok_def svc_init_def)

lemma session_add_ok:
  assumes "ss = [] \<or> session_list_ok u ss" "callerUid (sessCaller new) = u"
  shows "session_list_ok u (fst (session_add new e ss))"
proof -
  have dest: "sessDestination ` set (fst (session_add new e xs)) = insert (sessDestination new) (sessDestination ` set xs)"
    for xs by (induction xs) (auto simp: AddElement_def split: prod.split)
  have "distinct (map sessDestination xs) \<Longrightarrow> distinct (map sessDestination (fst (session_add new e xs)))" for xs
  proof (induction xs)
    case (Cons x xs)
    then show ?case
      by (simp add: AddElement_def split_beta dest)
  qed (simp add: AddElement_def)
  moreover have "t \<in> set (fst (session_add new e xs)) \<Longrightarrow> (\<forall>t \<in> set xs. callerUid (sessCaller t) = u \<and> sessElements t \<noteq> []) \<Longrightarrow>
      callerUid (sessCaller t) = u \<and> sessElements t \<noteq> []" for t xs
    using assms(2) by (induction xs) (auto simp: AddElement_def split: prod.splits if_splits)
  moreover have "fst (session_add new e xs) \<noteq> []" for xs
    by (cases xs) (auto split: prod.split)
  ultimately show ?thesis
    using assms by (auto simp: session_list_ok_def AddElement_def split: if_splits)
qed

lemma session_take_ok:
  assumes "session_take dev ss = Some (t, ss')" "session_list_ok u ss"
  shows "t \<in> set ss \<and> sessDestination t = dev \<and> (ss' = [] \<or> session_list_ok u ss') \<and> set ss' \<subseteq> set ss \<and> dev \<notin> sessDestination ` set ss'"
  using assms
proof (induction ss arbitrary: t ss')
  case (Cons x xs)
  show ?case
  proof (cases "sessDestination x = dev")
    case True
    with Cons.prems show ?thesis
      by (auto simp: session_list_ok_def)
  next
    case False
    with Cons.prems(1) obtain ys where ys: "session_take dev xs = Some (t, ys)" "ss' = x # ys"
      by auto
    have "xs \<noteq> []"
      using ys(1) by auto
    with Cons.prems(2) have "session_list_ok u xs"
      by (auto simp: session_list_ok_def)
    with Cons.IH [OF ys(1)] ys(2) Cons.prems(2) False show ?thesis
      by (auto simp: session_list_ok_def)
  qed
qed simp

text \<open>A connection is added or gains a session.\<close>

lemma connections_ok_add:
  assumes "connections_ok owner s" "owner c = u" "0 \<le> u" "session_list_ok u ss"
    and "smap_find (distributedConnectAbilityMap s) c = None \<Longrightarrow> conns_of owner (distributedConnectAbilityMap s) u < MAX_DISTRIBUTED_CONNECT_NUM"
    and "distributedConnectAbilityMap s' = smap_put c ss (distributedConnectAbilityMap s)"
    and "trackingUidMap s' = (if smap_find (distributedConnectAbilityMap s) c = None
       then smap_put u (uid_count (trackingUidMap s) u + 1) (trackingUidMap s) else trackingUidMap s)"
    and "watched ConnectDeath (svcCalls s') = insert c (watched ConnectDeath (svcCalls s))"
  shows "connections_ok owner s'"
proof -
  let ?m = "distributedConnectAbilityMap s"
  have ok: "smap_ok ?m" "smap_ok (trackingUidMap s)"
    using assms(1) by (auto simp: connections_ok_def)
  have count: "uid_count (trackingUidMap s) u = conns_of owner ?m u"
    using assms(1) by (simp add: connections_ok_def uid_count_def)
  show ?thesis
    using assms ok
    by (simp add: connections_ok_def conns_of_put sm.find_put sm.ok_put count) (auto split: if_splits simp: sm.ok_put sm.find_put Suc_le_eq)
qed

text \<open>A connection ends.\<close>

lemma connections_ok_remove:
  assumes "connections_ok owner s" "smap_find (distributedConnectAbilityMap s) c = Some ss"
    and "distributedConnectAbilityMap s' = smap_erase c (distributedConnectAbilityMap s)"
    and "trackingUidMap s' = decrease_connect (owner c) (trackingUidMap s)"
    and "watched ConnectDeath (svcCalls s') = watched ConnectDeath (svcCalls s) - {c}"
  shows "connections_ok owner s'"
proof -
  let ?m = "distributedConnectAbilityMap s"
  have ok: "smap_ok ?m" "smap_ok (trackingUidMap s)" and u: "0 \<le> owner c"
    using assms(1,2) by (auto simp: connections_ok_def)
  have count: "conns_of owner ?m u = conns_of owner (smap_erase c ?m) u + (if owner c = u then 1 else 0)" for u
    using ok assms(2) by (simp add: conns_of_erase)
  have find: "smap_find (trackingUidMap s) u = (if conns_of owner ?m u = 0 then None else Some (conns_of owner ?m u))" for u
    using assms(1) by (simp add: connections_ok_def)
  have "smap_find (decrease_connect (owner c) (trackingUidMap s)) u =
      (if conns_of owner (smap_erase c ?m) u = 0 then None else Some (conns_of owner (smap_erase c ?m) u))" for u
    using u ok find [of u] find [of "owner c"] count [of u] count [of "owner c"]
    by (auto simp: decrease_connect_def Let_def sm.find_put sm.find_del split: option.splits)
  moreover have "smap_ok (decrease_connect (owner c) (trackingUidMap s))"
    using ok by (auto simp: decrease_connect_def Let_def sm.ok_put sm.ok_del split: option.split)
  moreover have "conns_of owner (smap_erase c ?m) u \<le> MAX_DISTRIBUTED_CONNECT_NUM" for u
    using assms(1) count [of u] by (auto simp: connections_ok_def dest: spec [of _ u])
  ultimately show ?thesis
    using assms ok by (auto simp: connections_ok_def sm.find_del sm.ok_del)
qed

text \<open>A connection loses one of several sessions, or something else changes.\<close>

lemma connections_ok_put:
  assumes "connections_ok owner s" "smap_find (distributedConnectAbilityMap s) c = Some ss" "session_list_ok (owner c) ss'"
    and "distributedConnectAbilityMap s' = smap_put c ss' (distributedConnectAbilityMap s)"
    and "trackingUidMap s' = trackingUidMap s" "watched ConnectDeath (svcCalls s') = watched ConnectDeath (svcCalls s)"
  shows "connections_ok owner s'"
proof (rule connections_ok_add [OF assms(1), where c = c and ss = ss'])
  show "owner c = owner c" "0 \<le> owner c"
    using assms(1,2) by (auto simp: connections_ok_def)
  show "watched ConnectDeath (svcCalls s') = insert c (watched ConnectDeath (svcCalls s))"
    using assms(1,2,6) by (auto simp: connections_ok_def)
qed (use assms in simp_all)

definition same_connections :: "'w svc \<Rightarrow> 'w svc \<Rightarrow> bool" where
  "same_connections s s' \<longleftrightarrow>
     distributedConnectAbilityMap s' = distributedConnectAbilityMap s \<and> trackingUidMap s' = trackingUidMap s \<and>
     watched ConnectDeath (svcCalls s') = watched ConnectDeath (svcCalls s)"

lemma connections_ok_same: "connections_ok owner s \<Longrightarrow> same_connections s s' \<Longrightarrow> connections_ok owner s'"
  by (simp add: same_connections_def connections_ok_def)

interpretation sc: effect_order same_connections
  by unfold_locales (auto simp: same_connections_def)

named_theorems apart \<open>programs that leave the connections alone\<close>

fun no_connect_death :: "'w svc_call \<Rightarrow> bool" where
  "no_connect_death (AddDeath c d) = (d \<noteq> ConnectDeath)"
| "no_connect_death (RemoveDeath c d) = (d \<noteq> ConnectDeath)"
| "no_connect_death _ = True"

lemma watch_step_other: "no_connect_death c \<Longrightarrow> watch_step ConnectDeath c W = W"
  by (cases c) auto

lemma sc_scall [apart]: "no_connect_death c \<Longrightarrow> keeps same_connections (scall c)"
  by (simp add: keeps_def same_connections_def watch_step_other)

lemma sc_ask [apart]: "no_connect_death c \<Longrightarrow> keeps same_connections (ask env c)"
  by (simp add: keeps_def same_connections_def watch_step_other)

lemma sc_each [apart]: "(\<And>x. keeps same_connections (f x)) \<Longrightarrow> keeps same_connections (each f xs)"
  by (induction xs) (auto intro!: sc.keeps_rules)

subsection \<open>The operations on connections\<close>

lemma connection_ok:
  "connections_ok owner s \<Longrightarrow> smap_find (distributedConnectAbilityMap s) c = Some ss \<Longrightarrow> 0 \<le> owner c \<and> session_list_ok (owner c) ss"
  by (simp add: connections_ok_def)

lemma mapping_ok:
  assumes "connections_ok owner s" "owner c = callerUid caller" "0 \<le> callerUid caller"
    and "conns_of owner (distributedConnectAbilityMap s) (callerUid caller) < MAX_DISTRIBUTED_CONNECT_NUM"
  shows "connections_ok owner (exec (RemoteConnectAbilityMappingLocked (Some c) here there e caller target) s)"
proof (rule connections_ok_add [OF assms(1), where c = c and u = "callerUid caller" and
    ss = "fst (session_add (ConnectAbilitySession here there caller target) e
      (case smap_find (distributedConnectAbilityMap s) c of None \<Rightarrow> [] | Some ss \<Rightarrow> ss))"])
  show "session_list_ok (callerUid caller) (fst (session_add (ConnectAbilitySession here there caller target) e
      (case smap_find (distributedConnectAbilityMap s) c of None \<Rightarrow> [] | Some ss \<Rightarrow> ss)))"
    using assms(1,2) by (intro session_add_ok)
      (auto simp: ConnectAbilitySession_def dest: connection_ok split: option.split)
  show "watched ConnectDeath (svcCalls (exec (RemoteConnectAbilityMappingLocked (Some c) here there e caller target) s)) =
      insert c (watched ConnectDeath (svcCalls s))"
    using assms(1) by (auto simp: RemoteConnectAbilityMappingLocked_def svc_report_caller_def connections_ok_def watched_def)
qed (use assms in \<open>simp_all add: RemoteConnectAbilityMappingLocked_def svc_report_caller_def\<close>)

lemma connect_attempts_ok:
  assumes "connections_ok owner s" "owner c = callerUid caller" "0 \<le> callerUid caller"
    and "conns_of owner (distributedConnectAbilityMap s) (callerUid caller) < MAX_DISTRIBUTED_CONNECT_NUM"
  shows "connections_ok owner (exec (connect_attempts env want c caller acc i n r) s)"
  using assms
proof (induction n arbitrary: i r s)
  case (Suc n)
  let ?s = "s\<lparr>svcCalls := svcCalls s @ [RemoteConnectAbility (elDeviceId (vwElement (svw env) want)) want c caller acc]\<rparr>"
  have s: "connections_ok owner ?s"
    by (rule connections_ok_same [OF Suc.prems(1)]) (simp add: same_connections_def)
  moreover have "conns_of owner (distributedConnectAbilityMap ?s) (callerUid caller) < MAX_DISTRIBUTED_CONNECT_NUM"
    using Suc.prems(4) by simp
  ultimately show ?case
    using Suc.prems(2,3) mapping_ok [OF s] Suc.IH [OF s] by (simp add: Let_def)
qed simp

lemma ConnectRemoteAbility_ok:
  assumes "connections_ok owner s" "\<And>c. connect = Some c \<Longrightarrow> owner c = uid"
  shows "connections_ok owner (exec (ConnectRemoteAbility env want connect uid pid tok) s)"
proof -
  have limit: "0 \<le> callerUid caller \<and> conns_of owner (distributedConnectAbilityMap s) (callerUid caller) < MAX_DISTRIBUTED_CONNECT_NUM"
    if "CheckDistributedConnectLocked caller s = ERR_OK" for caller :: svc_caller
    using that assms(1) by (auto simp: CheckDistributedConnectLocked_def connections_ok_def MAX_DISTRIBUTED_CONNECT_NUM_def split: if_splits option.splits)
  have uid: "callerUid caller' = callerUid caller" if "caller_from_bms env caller = Some caller'" for caller caller'
    using that by (auto simp: caller_from_bms_def split: option.splits)
  show ?thesis
    using assms
    by (auto simp: ConnectRemoteAbility_def TryConnectRemoteAbility_def Let_def split: option.split prod.split
        dest!: uid limit intro!: connect_attempts_ok)
qed

lemma DisconnectRemoteAbility_ok:
  assumes "connections_ok owner s"
  shows "connections_ok owner (exec (DisconnectRemoteAbility env connect) s)"
proof -
  have tell: "keeps same_connections (each (\<lambda>t. case sessTarget t of HARMONY_COMPONENT \<Rightarrow>
      do { _ \<leftarrow> DisconnectEachRemoteAbilityLocked env (sessSource t) (sessDestination t) c; mreturn () }) ss)" for c ss
    by (intro sc_each sc.keeps_rules)
      (simp add: DisconnectEachRemoteAbilityLocked_def apart sc.keeps_rules split: target_component.split)
  have "connections_ok owner (exec (DisconnectRemoteAbility env (Some c)) s)"
    if c: "smap_find (distributedConnectAbilityMap s) c = Some ss" for c ss
  proof -
    obtain t ts where ss: "ss = t # ts" "callerUid (sessCaller t) = owner c"
      using assms c by (cases ss) (auto simp: connections_ok_def session_list_ok_def)
    let ?s = "s\<lparr>trackingUidMap := decrease_connect (owner c) (trackingUidMap s),
        svcCalls := svcCalls s @ [RemoveDeath c ConnectDeath, ReportCallerChange (sessCaller t) COMPONENT_REMOVE COMPONENT_CONNECT ROLE_CALLER],
        distributedConnectAbilityMap := smap_erase c (distributedConnectAbilityMap s)\<rparr>"
    have "connections_ok owner ?s"
      by (rule connections_ok_remove [OF assms c]) (simp_all add: watched_def)
    from connections_ok_same [OF this keepsD [OF tell [of c ss]]] show ?thesis
      by (simp add: DisconnectRemoteAbility_def c ss DecreaseConnectLocked_def GetUidLocked_def svc_report_caller_def del: each.simps)
  qed
  with assms show ?thesis
    by (cases connect) (auto simp: DisconnectRemoteAbility_def split: option.split)
qed

lemma connect_died_loop_ok:
  assumes "connections_ok owner s" "distinct (map fst rest)"
    and "\<And>c ss. (c, ss) \<in> set rest \<Longrightarrow> smap_find (distributedConnectAbilityMap s) c = Some ss"
  shows "connections_ok owner (exec (connect_died_loop caller rest seen) s)"
  using assms
proof (induction rest arbitrary: s seen)
  case (Cons x rest)
  obtain c ss where x: "x = (c, ss)"
    by (cases x)
  have find: "smap_find (distributedConnectAbilityMap s) c = Some ss" and ok: "smap_ok (distributedConnectAbilityMap s)"
    using Cons.prems(1,3) x by (auto simp: connections_ok_def)
  show ?case
  proof (cases "ss \<noteq> [] \<and> IsSameCaller caller (hd ss)")
    case True
    then have uid: "callerUid caller = owner c"
      using Cons.prems(1) find by (cases ss) (auto simp: connections_ok_def session_list_ok_def IsSameCaller_def)
    let ?s = "s\<lparr>trackingUidMap := decrease_connect (owner c) (trackingUidMap s),
        svcCalls := svcCalls s @ [RemoveDeath c ConnectDeath, ReportCallerChange caller COMPONENT_REMOVE COMPONENT_CONNECT ROLE_CALLER],
        distributedConnectAbilityMap := smap_erase c (distributedConnectAbilityMap s)\<rparr>"
    have "connections_ok owner ?s"
      by (rule connections_ok_remove [OF Cons.prems(1) find]) (simp_all add: watched_def)
    moreover have "smap_find (distributedConnectAbilityMap ?s) c' = Some ss'" if "(c', ss') \<in> set rest" for c' ss'
      using that Cons.prems(2,3) ok x by (force simp: sm.find_del)
    ultimately show ?thesis
      using Cons.IH [of ?s] Cons.prems(2) True
      by (simp add: x DecreaseConnectLocked_def svc_report_caller_def uid)
  next
    case False
    with Cons show ?thesis
      by (auto simp: x)
  qed
qed simp

lemma smap_ok_distinct_keys: "smap_ok m \<Longrightarrow> distinct (map fst m)"
  by (simp add: smap_ok_def strict_sorted_iff)

lemma smap_entry: "smap_ok m \<Longrightarrow> (c, v) \<in> set m \<Longrightarrow> smap_find m c = Some v"
  by (simp add: smap_mem_find)

lemma ProcessConnectDied_ok:
  assumes "connections_ok owner s"
  shows "connections_ok owner (exec (ProcessConnectDied env connect) s)"
proof -
  have tell: "keeps same_connections (each (\<lambda>(dev, target). NotifyProcessDied env dev caller target) xs)" for caller xs
    by (intro sc_each) (auto simp: NotifyProcessDied_def apart sc.keeps_rules split: target_component.split)
  have "connections_ok owner (exec (connect_died_loop caller (distributedConnectAbilityMap s) []) s)" for caller
    using assms by (intro connect_died_loop_ok) (auto simp: connections_ok_def smap_ok_distinct_keys smap_entry)
  from connections_ok_same [OF this keepsD [OF tell]] assms show ?thesis
    by (simp add: ProcessConnectDied_def Let_def split: option.split list.split)
qed

lemma sc_NotifyOffline [apart]: "keeps same_connections (NotifyDeviceOfflineToAppLocked env c t)"
  unfolding NotifyDeviceOfflineToAppLocked_def NotifyApp_def by (intro sc.keeps_rules apart) simp

lemma offline_sessions_loop_ok:
  assumes "connections_ok owner s" "distinct (map fst rest)"
    and "\<And>c ss. (c, ss) \<in> set rest \<Longrightarrow> smap_find (distributedConnectAbilityMap s) c = Some ss"
  shows "connections_ok owner (exec (offline_sessions_loop env dev rest) s)"
  using assms
proof (induction rest arbitrary: s)
  case (Cons x rest)
  obtain c ss where x: "x = (c, ss)"
    by (cases x)
  have find: "smap_find (distributedConnectAbilityMap s) c = Some ss" and ok: "smap_ok (distributedConnectAbilityMap s)"
    using Cons.prems(1,3) x by (auto simp: connections_ok_def)
  have list: "session_list_ok (owner c) ss"
    using connection_ok [OF Cons.prems(1) find] by simp
  have others: "c' \<noteq> c \<and> smap_find (distributedConnectAbilityMap s) c' = Some ss'" if "(c', ss') \<in> set rest" for c' ss'
    using that Cons.prems(2,3) x by (auto simp: image_iff)
  show ?case
  proof (cases "session_take dev ss")
    case None
    then show ?thesis
      using Cons.IH [OF Cons.prems(1)] Cons.prems(2,3) list by (simp add: x session_list_ok_def)
  next
    case (Some tss)
    then obtain t ss' where t: "session_take dev ss = Some (t, ss')"
      by (cases tss) auto
    note taken = session_take_ok [OF t list]
    let ?s = "exec (NotifyDeviceOfflineToAppLocked env c t) s"
    have same: "same_connections s ?s"
      by (rule keepsD [OF sc_NotifyOffline])
    then have map: "distributedConnectAbilityMap ?s = distributedConnectAbilityMap s" "trackingUidMap ?s = trackingUidMap s"
      "watched ConnectDeath (svcCalls ?s) = watched ConnectDeath (svcCalls s)"
      by (simp_all add: same_connections_def)
    have s: "connections_ok owner ?s"
      by (rule connections_ok_same [OF Cons.prems(1) same])
    show ?thesis
    proof (cases "ss' = []")
      case True
      let ?s' = "?s\<lparr>trackingUidMap := decrease_connect (owner c) (trackingUidMap s),
          svcCalls := svcCalls ?s @ [RemoveDeath c ConnectDeath, ReportCallerChange (sessCaller t) COMPONENT_REMOVE COMPONENT_CONNECT ROLE_CALLER],
          distributedConnectAbilityMap := smap_erase c (smap_put c [] (distributedConnectAbilityMap s))\<rparr>"
      have erase: "smap_erase c (smap_put c [] (distributedConnectAbilityMap s)) = smap_erase c (distributedConnectAbilityMap s)"
        by (rule smap_erase_put [OF ok])
      have "connections_ok owner ?s'"
        by (rule connections_ok_remove [OF s, of c ss]) (simp_all add: watched_def erase map find)
      moreover have "GetUidLocked ss = owner c"
        using list by (cases ss) (auto simp: GetUidLocked_def session_list_ok_def)
      ultimately show ?thesis
        using Cons.IH [of ?s'] Cons.prems(2) others ok True map
        by (simp add: x t DecreaseConnectLocked_def svc_report_caller_def erase sm.find_del)
    next
      case False
      let ?s' = "?s\<lparr>distributedConnectAbilityMap := smap_put c ss' (distributedConnectAbilityMap s)\<rparr>"
      have "connections_ok owner ?s'"
        by (rule connections_ok_put [OF s, of c ss ss']) (use taken False find map in simp_all)
      then show ?thesis
        using Cons.IH [of ?s'] Cons.prems(2) others ok False map
        by (simp add: x t sm.find_put)
    qed
  qed
qed simp

subsection \<open>The operations that leave connections alone\<close>

lemma sc_upd [apart]:
  "(\<And>s. distributedConnectAbilityMap (f s) = distributedConnectAbilityMap s \<and> trackingUidMap (f s) = trackingUidMap s \<and>
     svcCalls (f s) = svcCalls s) \<Longrightarrow> keeps same_connections (mupd f)"
  by (simp add: keeps_def same_connections_def)

lemma sc_reports [apart]:
  "keeps same_connections (svc_report_caller caller ch ty role)" "keeps same_connections (svc_report_info info ch ty role)"
  "keeps same_connections (NotifyCollaborateEventResult env r ev)" "keeps same_connections (dest_event env caller e st r)"
  unfolding svc_report_caller_def svc_report_info_def dest_event_def NotifyCollaborateEventResult_def
  by (intro sc.keeps_rules apart; simp)+

lemma sc_new [apart]: "keeps same_connections new_stub" "keeps same_connections new_observer"
  unfolding new_stub_def new_observer_def by (intro sc.keeps_rules apart; simp)+

lemma sc_sessions [apart]: "keeps same_connections (NotifyCollaborateEventWithSessions env ss st r)"
  unfolding NotifyCollaborateEventWithSessions_def by (intro apart)

lemma sc_served [apart]:
  "keeps same_connections (ConnectAbilityFromRemote env want connect caller acc)"
  "keeps same_connections (DisconnectAbilityFromRemote env connect src)"
  unfolding ConnectAbilityFromRemote_def DisconnectAbilityFromRemote_def
  by (intro sc.keeps_rules apart; simp)+

lemma sc_process_died_loop [apart]: "keeps same_connections (process_died_loop env caller rest err)"
  by (induction rest arbitrary: err) (auto intro!: sc.keeps_rules apart)

lemma sc_offline_served_loop [apart]: "keeps same_connections (offline_served_loop env dev rest)"
  by (induction rest) (auto intro!: sc.keeps_rules apart)

lemma sc_observers [apart]:
  "keeps same_connections (RegisterAppStateObserver env want caller c wrapper)"
  "keeps same_connections (UnregisterAppStateObserver env wrapper)"
  "keeps same_connections (ProcessCallResult env c)" "keeps same_connections (NotifyStateChanged env st e tok)"
  "keeps same_connections (NotifyStateChangedFromRemote env st n e)"
  unfolding RegisterAppStateObserver_def UnregisterAppStateObserver_def ProcessCallResult_def NotifyStateChanged_def
    NotifyStateChangedFromRemote_def
  by (intro sc.keeps_rules apart; simp)+

lemma sc_callers [apart]:
  "keeps same_connections (SaveConnectToken env want c)" "keeps same_connections (SaveCallerComponent env want c caller)"
  "keeps same_connections (caller_ended env c ss)"
  unfolding SaveConnectToken_def SaveCallerComponent_def caller_ended_def
  by (intro sc.keeps_rules apart; simp split: list.split add: apart sc.keeps_return)+

lemma sc_callers2 [apart]:
  "keeps same_connections (TryStartRemoteAbilityByCall env want c caller)"
  "keeps same_connections (RemoveCallerComponent env c)" "keeps same_connections (HandleLocalCallerDied env c)"
  unfolding TryStartRemoteAbilityByCall_def RemoveCallerComponent_def HandleLocalCallerDied_def
  by (intro sc.keeps_rules apart; simp)+

lemma sc_calls [apart]:
  "keeps same_connections (StartRemoteAbilityByCall env want connect uid pid tok)"
  "keeps same_connections (ReleaseRemoteAbility env connect e)"
  "keeps same_connections (StartAbilityByCallFromRemote env want connect caller acc)"
  "keeps same_connections (ReleaseAbilityFromRemote env connect e caller)"
  "keeps same_connections (ProcessCallerDied env connect role)"
  "keeps same_connections (ProcessCalleeDied env connect)"
  unfolding StartRemoteAbilityByCall_def ReleaseRemoteAbility_def StartAbilityByCallFromRemote_def ReleaseAbilityFromRemote_def
    ProcessCallerDied_def ProcessCalleeDied_def
  by (intro sc.keeps_rules apart; simp)+

lemma sc_callee_offline_loop [apart]: "keeps same_connections (callee_offline_loop env dev rest)"
  by (induction rest) (auto intro!: sc.keeps_rules apart)

lemma sc_ProcessCalleeOffline [apart]: "keeps same_connections (ProcessCalleeOffline env dev)"
  unfolding ProcessCalleeOffline_def by (intro sc.keeps_rules apart; simp)+

lemma sc_NotifyProcessDiedFromRemote [apart]: "keeps same_connections (NotifyProcessDiedFromRemote env caller)"
  unfolding NotifyProcessDiedFromRemote_def by (intro sc.keeps_rules apart)

lemma sc_StartAbility [apart]: "keeps same_connections (StartAbility_svc env want rc)"
  unfolding StartAbility_svc_def by (intro sc.keeps_rules apart; simp)+

lemma sc_starts [apart]:
  "keeps same_connections (StartRemoteAbility env want uid rc tok)"
  "keeps same_connections (StartAbilityFromRemote env want rc caller acc)"
  "keeps same_connections (SendResultFromRemote env want rc caller acc code)"
  "keeps same_connections (StopRemoteExtensionAbility env want uid tok ty)"
  "keeps same_connections (StopExtensionAbilityFromRemote env want caller acc ty)"
  unfolding StartRemoteAbility_def StartAbilityFromRemote_def SendResultFromRemote_def StopRemoteExtensionAbility_def
    StopExtensionAbilityFromRemote_def
  by (intro sc.keeps_rules apart; simp)+

lemma ProcessDeviceOffline_ok:
  assumes "connections_ok owner s"
  shows "connections_ok owner (exec (ProcessDeviceOffline env dev) s)"
proof -
  have "connections_ok owner (exec (offline_sessions_loop env dev (distributedConnectAbilityMap s)) s)"
    using assms by (intro offline_sessions_loop_ok) (auto simp: connections_ok_def smap_ok_distinct_keys smap_entry)
  then have "connections_ok owner (exec (RemoveConnectAbilityInfo env dev) s)"
    by (auto simp: RemoveConnectAbilityInfo_def intro: connections_ok_same keepsD [OF sc_offline_served_loop])
  then show ?thesis
    using assms by (auto simp: ProcessDeviceOffline_def intro: connections_ok_same keepsD [OF sc_ProcessCalleeOffline] split: option.split)
qed

subsection \<open>Reachable states\<close>

text \<open>
  Operations come in any order, from any caller, with any answers of the services. The object of a connection request belongs to
  its caller.
\<close>

inductive svc_step :: "(remote_obj \<Rightarrow> int) \<Rightarrow> 'w svc \<Rightarrow> 'w svc \<Rightarrow> bool" for owner where
  connect: "(\<And>c. connect = Some c \<Longrightarrow> owner c = uid) \<Longrightarrow> svc_step owner s (exec (ConnectRemoteAbility env want connect uid pid tok) s)"
| disconnect: "svc_step owner s (exec (DisconnectRemoteAbility env connect) s)"
| connect_died: "svc_step owner s (exec (ProcessConnectDied env connect) s)"
| offline: "svc_step owner s (exec (ProcessDeviceOffline env dev) s)"
| serve: "svc_step owner s (exec (ConnectAbilityFromRemote env want connect caller acc) s)"
| unserve: "svc_step owner s (exec (DisconnectAbilityFromRemote env connect src) s)"
| process_died: "svc_step owner s (exec (NotifyProcessDiedFromRemote env caller) s)"
| call: "svc_step owner s (exec (StartRemoteAbilityByCall env want connect uid pid tok) s)"
| release: "svc_step owner s (exec (ReleaseRemoteAbility env connect e) s)"
| serve_call: "svc_step owner s (exec (StartAbilityByCallFromRemote env want connect caller acc) s)"
| serve_release: "svc_step owner s (exec (ReleaseAbilityFromRemote env connect e caller) s)"
| caller_died: "svc_step owner s (exec (ProcessCallerDied env connect role) s)"
| callee_died: "svc_step owner s (exec (ProcessCalleeDied env connect) s)"
| call_result: "svc_step owner s (exec (ProcessCallResult env c) s)"
| state_changed: "svc_step owner s (exec (NotifyStateChanged env st e abilityToken) s)"
| state_changed_remote: "svc_step owner s (exec (NotifyStateChangedFromRemote env st n e) s)"
| start: "svc_step owner s (exec (StartRemoteAbility env want uid rc tok) s)"
| serve_start: "svc_step owner s (exec (StartAbilityFromRemote env want rc caller acc) s)"
| result: "svc_step owner s (exec (SendResultFromRemote env want rc caller acc code) s)"
| stop_extension: "svc_step owner s (exec (StopRemoteExtensionAbility env want uid tok ty) s)"
| serve_stop: "svc_step owner s (exec (StopExtensionAbilityFromRemote env want caller acc ty) s)"

inductive svc_reachable :: "(remote_obj \<Rightarrow> int) \<Rightarrow> 'w svc \<Rightarrow> bool" for owner where
  init: "svc_reachable owner svc_init"
| step: "svc_reachable owner s \<Longrightarrow> svc_step owner s s' \<Longrightarrow> svc_reachable owner s'"

lemma svc_step_ok: "svc_step owner s s' \<Longrightarrow> connections_ok owner s \<Longrightarrow> connections_ok owner s'"
  by (induction rule: svc_step.induct)
    (auto intro: ConnectRemoteAbility_ok DisconnectRemoteAbility_ok ProcessConnectDied_ok ProcessDeviceOffline_ok
      connections_ok_same keepsD apart)

lemma svc_reachable_ok: "svc_reachable owner s \<Longrightarrow> connections_ok owner s"
  by (induction rule: svc_reachable.induct) (auto intro: connections_ok_init svc_step_ok)


end
