(* ===== verification/Connect_Behaviour.thy ===== *)
theory Connect_Behaviour
  imports Connect_Safety
begin

text \<open>
  What the operations of the service achieve on the two devices of a connection or a call: a process that dies is
  forgotten on both, state reports reach the caller, remote requests are only served when they are authorised; and
  two places where the tables lose track.
\<close>

subsection \<open>Processes that die\<close>

lemma process_died_map:
  assumes "distinct (map fst (pre @ rest))" "connectAbilityMap s = filter (\<lambda>(c, info). \<not> same_process caller info) pre @ rest"
  shows "connectAbilityMap (exec (process_died_loop env caller rest err) s) =
     filter (\<lambda>(c, info). \<not> same_process caller info) (pre @ rest)"
  using assms
proof (induction rest arbitrary: pre s err)
  case (Cons x rest)
  obtain c info where x: "x = (c, info)"
    by (cases x)
  show ?case
  proof (cases "same_process caller info")
    case True
    have "smap_erase c (filter (\<lambda>(c, info). \<not> same_process caller info) pre @ x # rest) =
        filter (\<lambda>(c, info). \<not> same_process caller info) pre @ rest"
      using Cons.prems(1) unfolding x by (rule smap_erase_mid)
    with True Cons.prems Cons.IH [of "pre @ [x]"] show ?thesis
      by (simp add: x svc_report_info_def)
  next
    case False
    with Cons.prems Cons.IH [of "pre @ [x]" s] show ?thesis
      by (simp add: x)
  qed
qed simp

lemma process_died_calls:
  "\<exists>cs. svcCalls (exec (process_died_loop env caller rest err) s) = svcCalls s @ cs \<and>
     (\<forall>(c, info) \<in> set rest. same_process caller info \<longrightarrow> AmsDisconnectAbility (ciWrapper info) \<in> set cs)"
proof (induction rest arbitrary: s err)
  case (Cons x rest)
  obtain c info where x: "x = (c, info)"
    by (cases x)
  show ?case
  proof (cases "same_process caller info")
    case True
    let ?s = "s\<lparr>svcCalls := svcCalls s @ [AmsDisconnectAbility (ciWrapper info), ReportInfoChange info COMPONENT_REMOVE COMPONENT_CONNECT ROLE_CALLEE],
       connectAbilityMap := smap_erase c (connectAbilityMap s)\<rparr>"
    from Cons.IH [of "if remoteAnswer env (AmsDisconnectAbility (ciWrapper info)) \<noteq> ERR_OK
        then remoteAnswer env (AmsDisconnectAbility (ciWrapper info)) else err" ?s] True
    show ?thesis
      by (auto simp: x svc_report_info_def)
  next
    case False
    with Cons.IH [of err s] show ?thesis
      by (auto simp: x)
  qed
qed simp

lemma notify_list_spec:
  "distinct seen \<Longrightarrow> distinct (notify_list caller ts seen) \<and>
     set (notify_list caller ts seen) = set seen \<union> (\<lambda>t. (sessDestination t, sessTarget t)) ` set ts"
  by (induction ts arbitrary: seen) auto

definition of_caller :: "svc_caller \<Rightarrow> connect_session list \<Rightarrow> bool" where
  "of_caller caller ss \<longleftrightarrow> ss \<noteq> [] \<and> IsSameCaller caller (hd ss)"

lemma exec_connect_died_Cons:
  "exec (connect_died_loop caller ((c, ss) # rest) seen) s =
     (if of_caller caller ss
      then exec (connect_died_loop caller rest (notify_list caller ss seen))
        (s\<lparr>trackingUidMap := decrease_connect (callerUid caller) (trackingUidMap s),
          svcCalls := svcCalls s @ [RemoveDeath c ConnectDeath, ReportCallerChange caller COMPONENT_REMOVE COMPONENT_CONNECT ROLE_CALLER],
          distributedConnectAbilityMap := smap_erase c (distributedConnectAbilityMap s)\<rparr>)
      else exec (connect_died_loop caller rest seen) s)"
  by (simp add: of_caller_def DecreaseConnectLocked_def svc_report_caller_def)

lemma connect_died_map:
  assumes "distinct (map fst (pre @ rest))" "distributedConnectAbilityMap s = filter (\<lambda>(c, ss). \<not> of_caller caller ss) pre @ rest"
  shows "distributedConnectAbilityMap (exec (connect_died_loop caller rest seen) s) = filter (\<lambda>(c, ss). \<not> of_caller caller ss) (pre @ rest)"
  using assms
proof (induction rest arbitrary: pre s seen)
  case (Cons x rest)
  obtain c ss where x: "x = (c, ss)"
    by (cases x)
  show ?case
  proof (cases "of_caller caller ss")
    case True
    have "smap_erase c (filter (\<lambda>(c, ss). \<not> of_caller caller ss) pre @ x # rest) = filter (\<lambda>(c, ss). \<not> of_caller caller ss) pre @ rest"
      using Cons.prems(1) unfolding x by (rule smap_erase_mid)
    with Cons.prems(2) True x
    have "filter (\<lambda>(c, ss). \<not> of_caller caller ss) (pre @ [x]) @ rest = smap_erase c (distributedConnectAbilityMap s)"
      by simp
    then show ?thesis
      using True Cons.prems(1) by (simp only: x exec_connect_died_Cons if_True) (subst Cons.IH [of "pre @ [x]"]; simp add: x)
  next
    case False
    then show ?thesis
      using Cons.prems by (simp only: x exec_connect_died_Cons if_False) (subst Cons.IH [of "pre @ [x]"]; simp add: x)
  qed
qed simp

lemma notify_list_append: "notify_list caller (ts @ us) seen = notify_list caller us (notify_list caller ts seen)"
  by (induction ts arbitrary: seen) simp_all

lemma connect_died_outcome:
  "outcome (connect_died_loop caller rest seen) s =
     notify_list caller (concat (map snd (filter (\<lambda>(c, ss). of_caller caller ss) rest))) seen"
proof (induction rest arbitrary: s seen)
  case (Cons x rest)
  then show ?case
    by (cases x) (simp add: of_caller_def notify_list_append)
qed simp

fun tells_died :: "'w svc_call \<Rightarrow> bool" where
  "tells_died (RemoteProcessDied dev c) = True"
| "tells_died _ = False"

lemma connect_died_calls: "filter tells_died (svcCalls (exec (connect_died_loop caller rest seen) s)) = filter tells_died (svcCalls s)"
proof (induction rest arbitrary: s seen)
  case (Cons x rest)
  then show ?case
    by (cases x) (simp add: DecreaseConnectLocked_def svc_report_caller_def)
qed simp

lemma tell_died:
  "filter tells_died (svcCalls (exec (each (\<lambda>(dev, target). NotifyProcessDied env dev caller target) xs) s)) =
     filter tells_died (svcCalls s) @ map (\<lambda>(dev, _). RemoteProcessDied dev caller) (filter (\<lambda>(dev, _). GetRemoteDms_svc env dev) xs)"
proof (induction xs arbitrary: s)
  case (Cons x xs)
  then show ?case
    by (cases x; cases "snd x") (auto simp: NotifyProcessDied_def)
qed simp

lemma exec_ProcessConnectDied:
  assumes "smap_find (distributedConnectAbilityMap s) c = Some (t # ts)"
  shows "exec (ProcessConnectDied env (Some c)) s =
     exec (each (\<lambda>(dev, target). NotifyProcessDied env dev (sessCaller t) target)
         (outcome (connect_died_loop (sessCaller t) (distributedConnectAbilityMap s) []) s))
       (exec (connect_died_loop (sessCaller t) (distributedConnectAbilityMap s) []) s)"
  using assms by (simp add: ProcessConnectDied_def Let_def)


subsection \<open>A limit that two requests can pass\<close>

lemma CheckDistributedConnect_iff:
  assumes "connections_ok owner s" "0 \<le> callerUid caller"
  shows "CheckDistributedConnectLocked caller s = ERR_OK \<longleftrightarrow>
     conns_of owner (distributedConnectAbilityMap s) (callerUid caller) < MAX_DISTRIBUTED_CONNECT_NUM"
  using assms by (auto simp: CheckDistributedConnectLocked_def connections_ok_def MAX_DISTRIBUTED_CONNECT_NUM_def)

lemma mapping_table:
  "smap_find (distributedConnectAbilityMap s) c = None \<Longrightarrow>
   distributedConnectAbilityMap (exec (RemoteConnectAbilityMappingLocked (Some c) here there e caller target) s) =
     smap_put c (fst (session_add (ConnectAbilitySession here there caller target) e [])) (distributedConnectAbilityMap s)"
  by (simp add: RemoteConnectAbilityMappingLocked_def svc_report_caller_def)

text \<open>
  The number of connections of a uid is checked before the other device is asked and raised after it has answered, with the
  lock released in between. Two requests that are both checked when one connection is left are both entered,
  and the uid has one connection more than the limit.
\<close>

theorem connection_limit_race:
  assumes "connections_ok owner s" "conns_of owner (distributedConnectAbilityMap s) u + 1 = MAX_DISTRIBUTED_CONNECT_NUM" "0 \<le> u"
    and "callerUid caller1 = u" "callerUid caller2 = u" "owner c1 = u" "owner c2 = u" "c1 \<noteq> c2"
    and "smap_find (distributedConnectAbilityMap s) c1 = None" "smap_find (distributedConnectAbilityMap s) c2 = None"
    and "s1 = exec (RemoteConnectAbilityMappingLocked (Some c1) here there1 e1 caller1 HARMONY_COMPONENT) s"
    and "s2 = exec (RemoteConnectAbilityMappingLocked (Some c2) here there2 e2 caller2 HARMONY_COMPONENT) s1"
  shows "CheckDistributedConnectLocked caller1 s = ERR_OK \<and> CheckDistributedConnectLocked caller2 s = ERR_OK \<and>
     conns_of owner (distributedConnectAbilityMap s2) u = MAX_DISTRIBUTED_CONNECT_NUM + 1"
proof -
  have ok: "smap_ok (distributedConnectAbilityMap s)"
    using assms(1) by (simp add: connections_ok_def)
  have "smap_find (distributedConnectAbilityMap s1) c2 = None"
    using assms(8,9,10) ok by (simp add: assms(11) mapping_table sm.find_put)
  then show ?thesis
    using assms(2-10) ok
    by (simp add: assms(11,12) mapping_table conns_of_put sm.ok_put CheckDistributedConnect_iff [OF assms(1)])
qed

subsection \<open>Remote requests are authorised\<close>

text \<open>What a request of another device must have shown before the ability manager is asked.\<close>

definition authorised :: "'w svc_env \<Rightarrow> 'w \<Rightarrow> svc_caller \<Rightarrow> account_info \<Rightarrow> int \<Rightarrow> bool \<Rightarrow> bool" where
  "authorised env want caller acc flag ext \<longleftrightarrow>
     svc_local_device env = Some (elDeviceId (vwElement (svw env) want)) \<and> elDeviceId (vwElement (svw env) want) \<noteq> [] \<and>
     callerSourceDeviceId caller = callingDeviceID env \<and> callerSourceDeviceId caller \<noteq> [] \<and>
     callerSourceDeviceId caller \<noteq> elDeviceId (vwElement (svw env) want) \<and>
     outcome (CheckTargetPermission (svcPerm env) (caller_info.truncate caller) acc flag ext) want = ERR_OK"

lemma authorised_iff:
  "authorised env want caller acc flag ext \<longleftrightarrow>
     (\<exists>here. svc_local_device env = Some here \<and>
        CheckDeviceIdFromRemote_svc env here (elDeviceId (vwElement (svw env) want)) (callerSourceDeviceId caller) \<and>
        fst (check_target env want caller acc flag ext) = ERR_OK)"
  by (auto simp: authorised_def CheckDeviceIdFromRemote_svc_def check_target_def outcome_def)

fun asks_ams :: "'w svc_call \<Rightarrow> bool" where
  "asks_ams (AmsConnectAbility w c) = True"
| "asks_ams (AmsStartByCall w c) = True"
| "asks_ams (AmsStartAbility w rc a b) = True"
| "asks_ams (AmsStopExtension w a ty) = True"
| "asks_ams _ = False"


end
