(* ===== verification/Call_Behaviour.thy ===== *)
theory Call_Behaviour
  imports Connect_Behaviour Permission_Checks
begin

text \<open>
  Calls from end to end: the token of a call identifies the connection object of the caller, and the state of the called ability is
  reported back to it, through both services.
\<close>

subsection \<open>Tokens of calls\<close>

definition tokens_ok :: "'w svc \<Rightarrow> bool" where
  "tokens_ok s \<longleftrightarrow> smap_ok (callMap s) \<and> 0 \<le> svcToken s \<and> svcToken s \<le> MAX_CONNECT_TOKEN_NUM \<and>
     (\<forall>c i. smap_find (callMap s) c = Some i \<longrightarrow> 1 \<le> callToken i \<and> callToken i \<le> svcToken s) \<and>
     (\<forall>c d i j. smap_find (callMap s) c = Some i \<longrightarrow> smap_find (callMap s) d = Some j \<longrightarrow> callToken i = callToken j \<longrightarrow> c = d)"

lemma tokens_ok_init: "tokens_ok svc_init"
  by (simp add: tokens_ok_def svc_init_def MAX_CONNECT_TOKEN_NUM_def)

text \<open>Programs that at most take calls out of the table.\<close>

definition calls_shrink :: "'w svc \<Rightarrow> 'w svc \<Rightarrow> bool" where
  "calls_shrink s s' \<longleftrightarrow> svcToken s' = svcToken s \<and>
     (smap_ok (callMap s) \<longrightarrow>
       smap_ok (callMap s') \<and> (\<forall>c i. smap_find (callMap s') c = Some i \<longrightarrow> smap_find (callMap s) c = Some i))"

lemma tokens_ok_shrink: "tokens_ok s \<Longrightarrow> calls_shrink s s' \<Longrightarrow> tokens_ok s'"
  unfolding tokens_ok_def calls_shrink_def by metis

interpretation cs: effect_order calls_shrink
  by unfold_locales (auto simp: calls_shrink_def)

named_theorems shrinking \<open>programs that at most take calls out of the table\<close>

lemma cs_upd [shrinking]: "(\<And>s. callMap (f s) = callMap s \<and> svcToken (f s) = svcToken s) \<Longrightarrow> keeps calls_shrink (mupd f)"
  by (simp add: keeps_def calls_shrink_def)

lemma cs_scall [shrinking]: "keeps calls_shrink (scall c)" "keeps calls_shrink (ask env c)"
  by (simp_all add: keeps_def calls_shrink_def)

lemma cs_erase [shrinking]: "keeps calls_shrink (mupd (\<lambda>s. s\<lparr>callMap := smap_erase c (callMap s)\<rparr>))"
  by (auto simp: keeps_def calls_shrink_def smap_find_def map_of_erase smap_ok_erase split: if_splits)

lemma smap_ok_filter: "smap_ok m \<Longrightarrow> smap_ok (filter P m)"
  by (induction m) (auto simp: smap_ok_Cons)

lemma smap_find_filter:
  assumes "smap_ok m" "smap_find (filter P m) c = Some v"
  shows "smap_find m c = Some v"
proof -
  have "(c, v) \<in> set m"
    using smap_find_mem [OF assms(2)] by simp
  then show ?thesis
    using assms(1) by (simp add: smap_mem_find)
qed

lemma cs_filter [shrinking]: "keeps calls_shrink (mupd (\<lambda>s. s\<lparr>callMap := filter P (callMap s)\<rparr>))"
  by (auto simp: keeps_def calls_shrink_def smap_ok_filter intro: smap_find_filter)

lemma cs_each [shrinking]: "(\<And>x. keeps calls_shrink (f x)) \<Longrightarrow> keeps calls_shrink (each f xs)"
  by (induction xs) (auto intro!: cs.keeps_rules)

lemma cs_reports [shrinking]:
  "keeps calls_shrink (svc_report_caller caller ch ty role)" "keeps calls_shrink (svc_report_info info ch ty role)"
  "keeps calls_shrink (NotifyCollaborateEventResult env r ev)" "keeps calls_shrink (dest_event env caller e st r)"
  unfolding svc_report_caller_def svc_report_info_def dest_event_def NotifyCollaborateEventResult_def
  by (intro cs.keeps_rules shrinking)+

lemma cs_parts [shrinking]:
  "keeps calls_shrink new_stub" "keeps calls_shrink new_observer" "keeps calls_shrink (DecreaseConnectLocked u)"
  "keeps calls_shrink (NotifyCollaborateEventWithSessions env ss st r)" "keeps calls_shrink (NotifyDeviceOfflineToAppLocked env c t)"
  "keeps calls_shrink (DisconnectEachRemoteAbilityLocked env here there c)"
  unfolding new_stub_def new_observer_def DecreaseConnectLocked_def NotifyCollaborateEventWithSessions_def
    NotifyDeviceOfflineToAppLocked_def NotifyApp_def DisconnectEachRemoteAbilityLocked_def
  by (intro cs.keeps_rules shrinking; simp)+

lemma cs_mapping [shrinking]: "keeps calls_shrink (RemoteConnectAbilityMappingLocked connect here there e caller target)"
  unfolding RemoteConnectAbilityMappingLocked_def by (intro cs.keeps_rules shrinking; simp)

lemma cs_loops [shrinking]:
  "keeps calls_shrink (connect_attempts env want c caller acc i n r)"
  "keeps calls_shrink (process_died_loop env caller infos err)"
  "keeps calls_shrink (connect_died_loop caller rest seen)"
  "keeps calls_shrink (offline_sessions_loop env dev rest)"
  "keeps calls_shrink (offline_served_loop env dev infos)"
  "keeps calls_shrink (callee_offline_loop env dev rest)"
proof -
  show "keeps calls_shrink (connect_attempts env want c caller acc i n r)"
    by (induction n arbitrary: i r) (auto simp: Let_def intro!: cs.keeps_rules shrinking)
  show "keeps calls_shrink (process_died_loop env caller infos err)"
    by (induction infos arbitrary: err) (auto intro!: cs.keeps_rules shrinking)
  show "keeps calls_shrink (connect_died_loop caller rest seen)"
    by (induction rest arbitrary: seen) (auto intro!: cs.keeps_rules shrinking)
  show "keeps calls_shrink (offline_sessions_loop env dev rest)"
    by (induction rest) (auto intro!: cs.keeps_rules shrinking)
  show "keeps calls_shrink (offline_served_loop env dev infos)"
    by (induction infos) (auto intro!: cs.keeps_rules shrinking)
  show "keeps calls_shrink (callee_offline_loop env dev rest)"
    by (induction rest) (auto intro!: cs.keeps_rules shrinking)
qed

lemma cs_connections [shrinking]:
  "keeps calls_shrink (ConnectRemoteAbility env want connect uid pid tok)"
  "keeps calls_shrink (ConnectAbilityFromRemote env want connect caller acc)"
  "keeps calls_shrink (DisconnectAbilityFromRemote env connect src)"
  "keeps calls_shrink (NotifyProcessDiedFromRemote env caller)"
  "keeps calls_shrink (ProcessDeviceOffline env dev)"
  unfolding ConnectRemoteAbility_def TryConnectRemoteAbility_def ConnectAbilityFromRemote_def DisconnectAbilityFromRemote_def
    NotifyProcessDiedFromRemote_def ProcessDeviceOffline_def RemoveConnectAbilityInfo_def ProcessCalleeOffline_def
  by (intro cs.keeps_rules shrinking; simp)+

lemma cs_ends [shrinking]:
  "keeps calls_shrink (DisconnectRemoteAbility env connect)" "keeps calls_shrink (ProcessConnectDied env connect)"
  unfolding DisconnectRemoteAbility_def ProcessConnectDied_def
  by (intro cs.keeps_rules shrinking; auto simp: NotifyProcessDied_def Let_def intro!: cs.keeps_rules shrinking
      split: list.split target_component.split)+

lemma cs_observers [shrinking]:
  "keeps calls_shrink (RegisterAppStateObserver env want caller c wrapper)" "keeps calls_shrink (UnregisterAppStateObserver env wrapper)"
  "keeps calls_shrink (ProcessCallResult env c)" "keeps calls_shrink (NotifyStateChanged env st e abilityToken)"
  "keeps calls_shrink (NotifyStateChangedFromRemote env st n e)"
  unfolding RegisterAppStateObserver_def UnregisterAppStateObserver_def ProcessCallResult_def NotifyStateChanged_def
    NotifyStateChangedFromRemote_def
  by (intro cs.keeps_rules shrinking; simp)+

lemma cs_callers [shrinking]:
  "keeps calls_shrink (SaveCallerComponent env want c caller)" "keeps calls_shrink (caller_ended env c ss)"
  unfolding SaveCallerComponent_def caller_ended_def
  by (intro cs.keeps_rules shrinking; simp split: list.split add: shrinking cs.keeps_return)+

lemma cs_callers2 [shrinking]:
  "keeps calls_shrink (RemoveCallerComponent env c)" "keeps calls_shrink (HandleLocalCallerDied env c)"
  unfolding RemoveCallerComponent_def HandleLocalCallerDied_def by (intro cs.keeps_rules shrinking; simp)+

lemma cs_calls [shrinking]:
  "keeps calls_shrink (ReleaseRemoteAbility env connect e)"
  "keeps calls_shrink (StartAbilityByCallFromRemote env want connect caller acc)"
  "keeps calls_shrink (ReleaseAbilityFromRemote env connect e caller)"
  "keeps calls_shrink (ProcessCallerDied env connect role)" "keeps calls_shrink (ProcessCalleeDied env connect)"
  unfolding ReleaseRemoteAbility_def StartAbilityByCallFromRemote_def ReleaseAbilityFromRemote_def
    ProcessCallerDied_def ProcessCalleeDied_def
  by (intro cs.keeps_rules shrinking; simp)+

lemma cs_starts [shrinking]:
  "keeps calls_shrink (StartRemoteAbility env want uid rc tok)"
  "keeps calls_shrink (StartAbilityFromRemote env want rc caller acc)"
  "keeps calls_shrink (SendResultFromRemote env want rc caller acc code)"
  "keeps calls_shrink (StopRemoteExtensionAbility env want uid tok ty)"
  "keeps calls_shrink (StopExtensionAbilityFromRemote env want caller acc ty)"
  unfolding StartRemoteAbility_def StartAbilityFromRemote_def SendResultFromRemote_def StopRemoteExtensionAbility_def
    StopExtensionAbilityFromRemote_def StartAbility_svc_def
  by (intro cs.keeps_rules shrinking; simp)+

lemma SaveConnectToken_ok:
  assumes "tokens_ok s" "svcToken s < MAX_CONNECT_TOKEN_NUM"
  shows "tokens_ok (exec (SaveConnectToken env want c) s)"
    and "outcome (SaveConnectToken env want c) s = svcToken s + 1"
    and "smap_find (callMap (exec (SaveConnectToken env want c) s)) c =
      Some \<lparr>callToken = svcToken s + 1, callRemoteDevice = elDeviceId (vwElement (svw env) want)\<rparr>"
  using assms
  by (auto simp: SaveConnectToken_def tokens_ok_def Let_def sm.find_put sm.ok_put split: if_splits) force+

lemma tokens_ok_keeps: "tokens_ok s \<Longrightarrow> keeps calls_shrink m \<Longrightarrow> tokens_ok (exec m s)"
  by (blast intro: tokens_ok_shrink keepsD)

lemma tokens_ok_log [simp]: "tokens_ok (s\<lparr>svcCalls := cs\<rparr>) = tokens_ok s"
  by (simp add: tokens_ok_def)

lemma TryStart_tokens:
  assumes "tokens_ok s" "svcToken s < MAX_CONNECT_TOKEN_NUM"
  shows "tokens_ok (exec (TryStartRemoteAbilityByCall env want c caller) s)"
  using assms
  by (auto simp: TryStartRemoteAbilityByCall_def Let_def split: prod.split intro!: tokens_ok_keeps cs_callers(1) SaveConnectToken_ok(1))

lemma StartRemoteAbilityByCall_tokens:
  assumes "tokens_ok s" "svcToken s < MAX_CONNECT_TOKEN_NUM"
  shows "tokens_ok (exec (StartRemoteAbilityByCall env want connect uid pid tok) s)"
proof -
  have "tokens_ok (exec (NotifyCollaborateEventResult env r ev) s) \<and>
      svcToken (exec (NotifyCollaborateEventResult env r ev) s) < MAX_CONNECT_TOKEN_NUM" for r ev
    using assms by (simp add: NotifyCollaborateEventResult_def)
  then have "tokens_ok (exec (TryStartRemoteAbilityByCall env want c caller) (exec (NotifyCollaborateEventResult env r ev) s))" for c caller r ev
    by (blast intro: TryStart_tokens)
  moreover have "tokens_ok v \<Longrightarrow> tokens_ok (v\<lparr>callMap := smap_erase c (callMap v)\<rparr>)" for v :: "'a svc" and c
    using tokens_ok_keeps [OF _ cs_erase] by simp
  ultimately show ?thesis
    using assms by (simp add: StartRemoteAbilityByCall_def Let_def split: option.split)
qed

text \<open>
  As long as fewer than a hundred million calls have been made, no step of the service gives two connections the same token, so
  that a report from another device is delivered to the connection it was made for.
\<close>

theorem call_tokens_unique:
  assumes "svc_step owner s s'" "tokens_ok s" "svcToken s < MAX_CONNECT_TOKEN_NUM"
  shows "tokens_ok s'"
  using assms
  by (induction rule: svc_step.induct) (auto intro: StartRemoteAbilityByCall_tokens tokens_ok_shrink keepsD shrinking)

subsection \<open>Reports of the state of a called ability\<close>

text \<open>
  Documented behaviour of wants: a parameter that was set is read back, setting or removing a parameter leaves the element
  alone, and removing another parameter leaves the connect token alone.
\<close>

definition want_laws :: "'w svc_env \<Rightarrow> bool" where
  "want_laws env \<longleftrightarrow>
     (\<forall>n d w. vwInt (svw env) DMS_CONNECT_TOKEN d (vwSetInt (svw env) DMS_CONNECT_TOKEN n w) = n \<and>
        vwElement (svw env) (vwSetInt (svw env) DMS_CONNECT_TOKEN n w) = vwElement (svw env) w) \<and>
     (\<forall>k d w. k \<noteq> DMS_CONNECT_TOKEN \<longrightarrow>
        vwInt (svw env) DMS_CONNECT_TOKEN d (pwRemove (pwant (svcPerm env)) k w) = vwInt (svw env) DMS_CONNECT_TOKEN d w \<and>
        vwElement (svw env) (pwRemove (pwant (svcPerm env)) k w) = vwElement (svw env) w)"

lemma other_keys: "DMS_IS_CALLER_BACKGROUND \<noteq> DMS_CONNECT_TOKEN" "DMS_API_VERSION \<noteq> DMS_CONNECT_TOKEN"
  by (simp_all add: DMS_IS_CALLER_BACKGROUND_def DMS_API_VERSION_def DMS_CONNECT_TOKEN_def)

lemma check_keeps_want:
  assumes "want_laws env"
  shows "vwInt (svw env) DMS_CONNECT_TOKEN d (snd (check_target env want caller acc CALL_PERMISSION ext)) = vwInt (svw env) DMS_CONNECT_TOKEN d want"
    and "vwElement (svw env) (snd (check_target env want caller acc CALL_PERMISSION ext)) = vwElement (svw env) want"
proof -
  have background: "vwInt (svw env) DMS_CONNECT_TOKEN d (exec (CheckBackgroundPermission (svcPerm env) target c api) w) =
        vwInt (svw env) DMS_CONNECT_TOKEN d w \<and>
      vwElement (svw env) (exec (CheckBackgroundPermission (svcPerm env) target c api) w) = vwElement (svw env) w" for target c api w
    using assms by (simp add: CheckBackgroundPermission_def want_laws_def other_keys Let_def)
  have "snd (check_target env want caller acc CALL_PERMISSION ext) =
      exec (CheckTargetPermission (svcPerm env) (caller_info.truncate caller) acc CALL_PERMISSION ext) want"
    by (simp add: check_target_def exec_def)
  with background
  show "vwInt (svw env) DMS_CONNECT_TOKEN d (snd (check_target env want caller acc CALL_PERMISSION ext)) = vwInt (svw env) DMS_CONNECT_TOKEN d want"
    and "vwElement (svw env) (snd (check_target env want caller acc CALL_PERMISSION ext)) = vwElement (svw env) want"
    by (simp_all add: CheckTargetPermission_def check_target_permission_def CheckGetCallerPermission_def split: option.split)
qed

text \<open>The services of the called device do their part.\<close>

definition callee_services_ok :: "'w svc_env \<Rightarrow> bool" where
  "callee_services_ok env \<longleftrightarrow> svcAppMgr env \<and> (\<forall>w c. remoteAnswer env (AmsStartByCall w c) = ERR_OK) \<and>
     (\<forall>n b. remoteAnswer env (RegisterObserver n b) = ERR_OK)"

lemma observer_registered:
  assumes "callee_services_ok env" "vwInt (svw env) DMS_CONNECT_TOKEN DEFAULT_DMS_CONNECT_TOKEN want = n" "n \<noteq> DEFAULT_DMS_CONNECT_TOKEN"
  shows "\<exists>obs. observerMap (exec (RegisterAppStateObserver env want caller c wrapper) s) = smap_put wrapper
     \<lparr>obsObserver = obs, obsSrcDevice = callerSourceDeviceId caller, obsConnectToken = n, obsBundle = elBundleName (vwElement (svw env) want),
      obsAbility = elAbilityName (vwElement (svw env) want), obsSrcConnect = c, obsToken = None\<rparr> (observerMap s)"
  using assms by (auto simp: RegisterAppStateObserver_def callee_services_ok_def new_observer_def Let_def split: option.split)

lemma call_served:
  assumes "callee_services_ok env" "want_laws env" "authorised env want caller acc CALL_PERMISSION False"
    and "vwInt (svw env) DMS_CONNECT_TOKEN DEFAULT_DMS_CONNECT_TOKEN want = n" "n \<noteq> DEFAULT_DMS_CONNECT_TOKEN"
    and "s' = exec (StartAbilityByCallFromRemote env want (Some c) caller acc) s"
  shows "\<exists>wrapper obs. observerMap s' = smap_put wrapper
     \<lparr>obsObserver = obs, obsSrcDevice = callerSourceDeviceId caller, obsConnectToken = n, obsBundle = elBundleName (vwElement (svw env) want),
      obsAbility = elAbilityName (vwElement (svw env) want), obsSrcConnect = c, obsToken = None\<rparr> (observerMap s)"
proof -
  obtain here want1 where here: "svc_local_device env = Some here"
    "CheckDeviceIdFromRemote_svc env here (elDeviceId (vwElement (svw env) want)) (callerSourceDeviceId caller)"
    and check: "check_target env want caller acc CALL_PERMISSION False = (ERR_OK, want1)"
    using assms(3) unfolding authorised_iff by (cases "check_target env want caller acc CALL_PERMISSION False") auto
  have want1: "vwInt (svw env) DMS_CONNECT_TOKEN DEFAULT_DMS_CONNECT_TOKEN want1 = n" "vwElement (svw env) want1 = vwElement (svw env) want"
    using check_keeps_want [OF assms(2), where want = want and caller = caller and acc = acc and ext = False] check assms(4) by simp_all
  have ams: "remoteAnswer env (AmsStartByCall w o1) = ERR_OK" for w o1
    using assms(1) by (simp add: callee_services_ok_def)
  have reg: "\<exists>wrapper obs. observerMap (exec (RegisterAppStateObserver env want1 caller c w) v) = smap_put wrapper
     \<lparr>obsObserver = obs, obsSrcDevice = callerSourceDeviceId caller, obsConnectToken = n, obsBundle = elBundleName (vwElement (svw env) want),
      obsAbility = elAbilityName (vwElement (svw env) want), obsSrcConnect = c, obsToken = None\<rparr> (observerMap s)"
    if "observerMap v = observerMap s" for v w
    using observer_registered [OF assms(1) want1(1) assms(5), of caller c w v] that want1(2) by auto
  show ?thesis
    using here check ams
    by (cases "smap_find (calleeMap s) c")
      (auto simp: assms(6) StartAbilityByCallFromRemote_def new_stub_def svc_report_info_def want1(2) dest_event_def
        NotifyCollaborateEventResult_def Let_def intro!: reg)
qed

lemma SaveCallerComponent_calls:
  "callMap (exec (SaveCallerComponent env want c caller) s) = callMap s"
  "set (svcCalls s) \<subseteq> set (svcCalls (exec (SaveCallerComponent env want c caller) s))"
  by (auto simp: SaveCallerComponent_def NotifyCollaborateEventResult_def svc_report_caller_def Let_def split: prod.splits)

lemma call_made:
  assumes "outcome (StartRemoteAbilityByCall env want (Some c) uid pid tok) s = ERR_OK" "tokens_ok s" "svcToken s < MAX_CONNECT_TOKEN_NUM"
    and "s' = exec (StartRemoteAbilityByCall env want (Some c) uid pid tok) s" "dev = elDeviceId (vwElement (svw env) want)"
  shows "\<exists>caller acc. svc_local_device env = Some (callerSourceDeviceId caller) \<and>
     RemoteStartByCall dev (vwSetInt (svw env) DMS_CONNECT_TOKEN (svcToken s + 1) want) c caller acc \<in> set (svcCalls s') \<and>
     smap_find (callMap s') c = Some \<lparr>callToken = svcToken s + 1, callRemoteDevice = dev\<rparr>"
proof -
  obtain here caller0 where here: "svc_local_device env = Some here" and caller0: "caller_from_bms env (svc_caller_default\<lparr>callerUid := uid,
      callerPid := pid, callerSourceDeviceId := here, callerAccessToken := tok\<rparr>) = Some caller0"
    and checks: "isCallerForeground env uid" "CheckDeviceId_svc here dev"
    using assms(1,5) by (auto simp: StartRemoteAbilityByCall_def split: option.splits if_splits)
  let ?caller = "caller0\<lparr>callerSpecBundle := Some (svcSpecBundle env uid)\<rparr>"
  let ?s = "exec (NotifyCollaborateEventResult env ERR_OK
      (GetCurSrcCollaborateEvent env ?caller (vwElement (svw env) want) DMS_DSCHED_EVENT_START ERR_OK)) s"
  have src: "callerSourceDeviceId ?caller = here"
    using caller0 by (auto simp: caller_from_bms_def split: option.splits)
  have s: "tokens_ok ?s" "svcToken ?s = svcToken s"
    using assms(2) by (simp_all add: NotifyCollaborateEventResult_def)
  have ok: "outcome (TryStartRemoteAbilityByCall env want c ?caller) ?s = ERR_OK" and s': "s' = exec (TryStartRemoteAbilityByCall env want c ?caller) ?s"
    using assms(1,4,5) here caller0 checks by (simp_all add: StartRemoteAbilityByCall_def)
  obtain acc where acc: "svcAccountInfo env dev ?caller = (ERR_OK, acc)" "GetRemoteDms_svc env dev"
    using ok assms(5) by (auto simp: TryStartRemoteAbilityByCall_def Let_def split: if_splits prod.splits)
  note saved = SaveConnectToken_ok [OF s(1), of env want c]
  let ?q = "RemoteStartByCall dev (vwSetInt (svw env) DMS_CONNECT_TOKEN (svcToken s + 1) want) c ?caller acc"
  let ?v = "(exec (SaveConnectToken env want c) ?s)\<lparr>svcCalls := svcCalls (exec (SaveConnectToken env want c) ?s) @ [?q]\<rparr>"
  have v: "s' = exec (SaveCallerComponent env want c ?caller) ?v"
    using ok s' acc saved s(2) assms(3,5) by (simp add: TryStartRemoteAbilityByCall_def split: if_splits)
  have "?q \<in> set (svcCalls ?v)" "smap_find (callMap ?v) c = Some \<lparr>callToken = svcToken s + 1, callRemoteDevice = dev\<rparr>"
    using saved(3) s(2) assms(3,5) by simp_all
  then have "?q \<in> set (svcCalls s')" "smap_find (callMap s') c = Some \<lparr>callToken = svcToken s + 1, callRemoteDevice = dev\<rparr>"
    unfolding v SaveCallerComponent_calls(1) by (blast intro: subsetD [OF SaveCallerComponent_calls(2)])+
  then show ?thesis
    using here src by metis
qed

lemma find_unique:
  assumes "(k, v) \<in> set m" "P (k, v)" "\<forall>x \<in> set m. P x \<longrightarrow> x = (k, v)"
  shows "find P m = Some (k, v)"
proof (cases "find P m")
  case None
  with assms(1,2) show ?thesis
    by (simp add: find_None_iff)
next
  case (Some x)
  then have "x \<in> set m" "P x"
    by (auto simp: find_Some_iff)
  with Some assms(3) show ?thesis
    by simp
qed

lemma set_observer_token_unique:
  assumes "smap_ok m" "smap_find m k = Some ob" "obsSrcConnect ob = c"
    and "\<And>k' ob'. smap_find m k' = Some ob' \<Longrightarrow> obsSrcConnect ob' = c \<Longrightarrow> k' = k"
  shows "smap_ok (set_observer_token t c m) \<and>
    (\<forall>k'. smap_find (set_observer_token t c m) k' = (if k' = k then Some (ob\<lparr>obsToken := Some t\<rparr>) else smap_find m k'))"
proof -
  have keys: "map fst (set_observer_token t c xs) = map fst xs" for xs
    by (induction t c xs rule: set_observer_token.induct) auto
  have find: "smap_find (set_observer_token t c xs) k' = (if k' = k then Some (ob\<lparr>obsToken := Some t\<rparr>) else smap_find xs k')"
    if "distinct (map fst xs)" "(k, ob) \<in> set xs" "\<forall>p \<in> set xs. obsSrcConnect (snd p) = c \<longrightarrow> fst p = k" for xs k'
    using that
  proof (induction xs)
    case (Cons x xs)
    obtain j oj where x: "x = (j, oj)"
      by (cases x)
    show ?case
    proof (cases "j = k")
      case True
      then have "oj = ob"
        using Cons.prems(1,2) x by (auto simp: rev_image_eqI)
      with True assms(3) show ?thesis
        by (auto simp: x)
    next
      case False
      then have "obsSrcConnect oj \<noteq> c"
        using Cons.prems(3) x by auto
      with False Cons x show ?thesis
        by auto
    qed
  qed simp
  have "distinct (map fst m)" "(k, ob) \<in> set m"
    using assms(1,2) by (simp_all only: smap_ok_distinct_keys smap_mem_find)
  moreover have "\<forall>p \<in> set m. obsSrcConnect (snd p) = c \<longrightarrow> fst p = k"
  proof
    fix p
    assume "p \<in> set m"
    then have "smap_find m (fst p) = Some (snd p)"
      using smap_mem_find [OF assms(1), of "fst p" "snd p"] by simp
    from assms(4) [OF this] show "obsSrcConnect (snd p) = c \<longrightarrow> fst p = k"
      by blast
  qed
  ultimately have "smap_find (set_observer_token t c m) k' = (if k' = k then Some (ob\<lparr>obsToken := Some t\<rparr>) else smap_find m k')" for k'
    by (rule find)
  moreover have "smap_ok (set_observer_token t c m)"
    using assms(1) by (simp only: smap_ok_def keys)
  ultimately show ?thesis
    by simp
qed

lemma report_sent:
  assumes "smap_ok (observerMap s)" "smap_find (observerMap s) k = Some ob" "obsToken ob = Some t"
    and "obsBundle ob = elBundleName e" "obsAbility ob = elAbilityName e"
    and "\<And>k' ob'. smap_find (observerMap s) k' = Some ob' \<Longrightarrow> obsToken ob' = Some t \<Longrightarrow> k' = k"
    and "svc_local_device env = Some here" "CheckDeviceId_svc here (obsSrcDevice ob)" "GetRemoteDms_svc env (obsSrcDevice ob)"
  shows "svcCalls (exec (NotifyStateChanged env st e (Some t)) s) =
     svcCalls s @ [RemoteStateChanged (obsSrcDevice ob) st (obsConnectToken ob) (e\<lparr>elDeviceId := here\<rparr>)]"
proof -
  let ?P = "\<lambda>(k, ob'). obsBundle ob' = elBundleName e \<and> obsAbility ob' = elAbilityName e \<and> Some t = obsToken ob'"
  have "find ?P (observerMap s) = Some (k, ob)"
  proof (rule find_unique)
    show "(k, ob) \<in> set (observerMap s)" "?P (k, ob)"
      using assms(1-5) by (simp_all add: smap_mem_find)
    show "\<forall>x \<in> set (observerMap s). ?P x \<longrightarrow> x = (k, ob)"
    proof (intro ballI impI)
      fix x
      assume "x \<in> set (observerMap s)" "?P x"
      moreover from this(1) have "smap_find (observerMap s) (fst x) = Some (snd x)"
        using smap_mem_find [OF assms(1), of "fst x" "snd x"] by simp
      ultimately show "x = (k, ob)"
        using assms(2) assms(6) [of "fst x" "snd x"] by (auto simp: case_prod_unfold prod_eq_iff)
    qed
  qed
  then show ?thesis
    using assms(7-9) by (simp add: NotifyStateChanged_def)
qed

lemma report_delivered:
  assumes "tokens_ok s" "smap_find (callMap s) c = Some i" "parcelWrites env"
  shows "svcCalls (exec (NotifyStateChangedFromRemote env st (callToken i) e) s) = svcCalls s @ [AppStateChanged c e st]"
proof -
  have ok: "smap_ok (callMap s)"
    using assms(1) by (simp add: tokens_ok_def)
  have "find (\<lambda>(k, j). callToken j = callToken i) (callMap s) = Some (c, i)"
  proof (rule find_unique)
    show "(c, i) \<in> set (callMap s)"
      using assms(2) ok by (simp add: smap_mem_find)
    show "\<forall>x \<in> set (callMap s). (case x of (k, j) \<Rightarrow> callToken j = callToken i) \<longrightarrow> x = (c, i)"
    proof (intro ballI impI)
      fix x
      assume x: "x \<in> set (callMap s)" "case x of (k, j) \<Rightarrow> callToken j = callToken i"
      then have "smap_find (callMap s) (fst x) = Some (snd x)"
        using smap_mem_find [OF ok, of "fst x" "snd x"] by simp
      moreover from this have "fst x = c"
        using assms(1,2) x(2) unfolding tokens_ok_def by (auto simp: case_prod_unfold)
      ultimately show "x = (c, i)"
        using assms(2) by (simp add: prod_eq_iff)
    qed
  qed simp
  then show ?thesis
    using assms(3) by (simp add: NotifyStateChangedFromRemote_def)
qed

text \<open>
  C23: From end to end: when a call of this device has succeeded, the request it sent carries a fresh token, and when the other device
  has served that request and learned the token of the called ability, a change of the state of that ability is
  reported to this device under the token of the call, and this device hands it to the connection object of the caller and
  to no other, as long as the call is in its table.
\<close>

theorem called_state_reaches_caller:
  assumes call: "outcome (StartRemoteAbilityByCall envA want (Some c) uid pid tok) sA = ERR_OK" "tokens_ok sA" "svcToken sA < MAX_CONNECT_TOKEN_NUM"
    and a: "sA' = exec (StartRemoteAbilityByCall envA want (Some c) uid pid tok) sA" "svc_local_device envA = Some hereA"
    and n: "n = svcToken sA + 1" "e = vwElement (svw envA) want" "svw envB = svw envA"
    and laws: "want_laws envB" "callee_services_ok envB" "smap_ok (observerMap sB)"
    and fresh: "\<And>k ob. smap_find (observerMap sB) k = Some ob \<Longrightarrow> obsSrcConnect ob \<noteq> c \<and> obsToken ob \<noteq> Some t"
    and b: "svc_local_device envB = Some hereB" "CheckDeviceId_svc hereB hereA" "GetRemoteDms_svc envB hereA" "calleeAbilityToken envB = Some t"
    and later: "tokens_ok sA''" "smap_find (callMap sA'') c = smap_find (callMap sA') c" "parcelWrites envA"
  shows "\<exists>caller acc. RemoteStartByCall (elDeviceId e) (vwSetInt (svw envA) DMS_CONNECT_TOKEN n want) c caller acc \<in> set (svcCalls sA') \<and>
    (authorised envB (vwSetInt (svw envA) DMS_CONNECT_TOKEN n want) caller acc CALL_PERMISSION False \<longrightarrow>
      (let sB' = exec (ProcessCallResult envB c)
             (exec (StartAbilityByCallFromRemote envB (vwSetInt (svw envA) DMS_CONNECT_TOKEN n want) (Some c) caller acc) sB);
           report = RemoteStateChanged hereA st n (e\<lparr>elDeviceId := hereB\<rparr>)
       in svcCalls (exec (NotifyStateChanged envB st e (Some t)) sB') = svcCalls sB' @ [report])) \<and>
    svcCalls (exec (NotifyStateChangedFromRemote envA st n (e\<lparr>elDeviceId := hereB\<rparr>)) sA'') =
      svcCalls sA'' @ [AppStateChanged c (e\<lparr>elDeviceId := hereB\<rparr>) st]"
proof -
  let ?want = "vwSetInt (svw envA) DMS_CONNECT_TOKEN n want"
  obtain caller acc where made: "callerSourceDeviceId caller = hereA"
    "RemoteStartByCall (elDeviceId e) ?want c caller acc \<in> set (svcCalls sA')"
    "smap_find (callMap sA') c = Some \<lparr>callToken = n, callRemoteDevice = elDeviceId e\<rparr>"
    using call_made [OF call a(1) refl] a(2) n(1,2) by force
  have pos: "n \<noteq> DEFAULT_DMS_CONNECT_TOKEN"
    using call(2) n(1) by (auto simp: tokens_ok_def)
  have want: "vwInt (svw envB) DMS_CONNECT_TOKEN DEFAULT_DMS_CONNECT_TOKEN ?want = n" "vwElement (svw envB) ?want = e"
    using laws(1) n(2,3) by (simp_all add: want_laws_def)
  have "svcCalls (exec (NotifyStateChanged envB st e (Some t)) sB') = svcCalls sB' @ [RemoteStateChanged hereA st n (e\<lparr>elDeviceId := hereB\<rparr>)]"
    if auth: "authorised envB ?want caller acc CALL_PERMISSION False"
      and sB': "sB' = exec (ProcessCallResult envB c) (exec (StartAbilityByCallFromRemote envB ?want (Some c) caller acc) sB)" for sB'
  proof -
    obtain k ob where obs: "observerMap (exec (StartAbilityByCallFromRemote envB ?want (Some c) caller acc) sB) = smap_put k ob (observerMap sB)"
      and ob: "obsSrcDevice ob = hereA" "obsConnectToken ob = n" "obsBundle ob = elBundleName e" "obsAbility ob = elAbilityName e" "obsSrcConnect ob = c"
      using call_served [OF laws(2,1) auth want(1) pos refl] made(1) want(2) by fastforce
    have map: "observerMap sB' = set_observer_token t c (smap_put k ob (observerMap sB))"
      using b(4) by (simp add: sB' ProcessCallResult_def obs)
    have "smap_ok (smap_put k ob (observerMap sB))" "smap_find (smap_put k ob (observerMap sB)) k = Some ob"
      using laws(3) by (simp_all add: sm.ok_put sm.find_put)
    note set = set_observer_token_unique [OF this ob(5), of t, folded map]
    have only: "k' = k" if "smap_find (smap_put k ob (observerMap sB)) k' = Some ob'" "obsSrcConnect ob' = c" for k' ob'
      using that fresh [of k' ob'] laws(3) by (auto simp: sm.find_put split: if_splits)
    note set = set [OF only]
    then have "svcCalls (exec (NotifyStateChanged envB st e (Some t)) sB') =
        svcCalls sB' @ [RemoteStateChanged (obsSrcDevice ob) st (obsConnectToken ob) (e\<lparr>elDeviceId := hereB\<rparr>)]"
      using ob b fresh laws(3)
      by (intro report_sent [where k = k and ob = "ob\<lparr>obsToken := Some t\<rparr>", simplified])
        (auto simp: sm.find_put split: if_splits)
    then show ?thesis
      by (simp add: ob)
  qed
  moreover have "svcCalls (exec (NotifyStateChangedFromRemote envA st n (e\<lparr>elDeviceId := hereB\<rparr>)) sA'') =
      svcCalls sA'' @ [AppStateChanged c (e\<lparr>elDeviceId := hereB\<rparr>) st]"
    using report_delivered [OF later(1) _ later(3), of c "\<lparr>callToken = n, callRemoteDevice = elDeviceId e\<rparr>" st] later(2) made(3) by simp
  ultimately show ?thesis
    using made(2) by (auto simp: Let_def)
qed

subsection \<open>A second call over the same connection\<close>

lemma TryStart_callMap:
  "callMap (exec (TryStartRemoteAbilityByCall env want c caller) s) =
     (if GetRemoteDms_svc env (elDeviceId (vwElement (svw env) want)) \<and>
         fst (svcAccountInfo env (elDeviceId (vwElement (svw env) want)) caller) = ERR_OK
      then callMap (exec (SaveConnectToken env want c) s) else callMap s)"
  "outcome (TryStartRemoteAbilityByCall env want c caller) s = ERR_OK \<Longrightarrow>
     GetRemoteDms_svc env (elDeviceId (vwElement (svw env) want)) \<and>
         fst (svcAccountInfo env (elDeviceId (vwElement (svw env) want)) caller) = ERR_OK"
  by (auto simp: TryStartRemoteAbilityByCall_def Let_def SaveCallerComponent_calls(1) split: prod.splits if_splits)

lemma token_lost:
  assumes "tokens_ok s" "smap_find (callMap s) c = Some i"
    and "m = smap_erase c (callMap s) \<or> m = smap_erase c (smap_put c j (callMap s)) \<or> (m = smap_put c j (callMap s) \<and> callToken j \<noteq> callToken i)"
  shows "find (\<lambda>(k, j). callToken j = callToken i) m = None"
proof -
  have ok: "smap_ok (callMap s)" and inj: "smap_find (callMap s) d = Some j' \<Longrightarrow> callToken j' = callToken i \<Longrightarrow> d = c" for d j'
    using assms(1,2) unfolding tokens_ok_def by blast+
  have "smap_ok m" "\<And>d j'. smap_find m d = Some j' \<Longrightarrow> callToken j' \<noteq> callToken i"
    using assms(2,3) ok by (auto simp: sm.find_del sm.find_put sm.ok_del sm.ok_put split: if_splits dest: inj)
  then show ?thesis
    by (auto simp: find_None_iff smap_mem_find)
qed

text \<open>
  A caller that calls a second ability over the same connection object, whether or not the second call succeeds, does
  not hear of the state of the first one any more: the service refuses the reports about it, because the table has
  one token for each connection object.
\<close>

theorem second_call_hides_first:
  assumes "tokens_ok s" "svcToken s < MAX_CONNECT_TOKEN_NUM" "smap_find (callMap s) c = Some i"
    and "isCallerForeground env uid" "svc_local_device env = Some here" "CheckDeviceId_svc here (elDeviceId (vwElement (svw env) want))"
    and "svcCallerAppId env uid = Some app" "svcBundleNames env uid = Some bs"
    and "s' = exec (StartRemoteAbilityByCall env want (Some c) uid pid tok) s"
  shows "outcome (NotifyStateChangedFromRemote env' st (callToken i) e) s' = INVALID_PARAMETERS_ERR"
proof -
  have fresh: "callToken i \<noteq> svcToken s + 1"
    using assms(1,3) unfolding tokens_ok_def by force
  obtain caller v where v: "callMap v = callMap s" "svcToken v = svcToken s"
    and s': "callMap s' = (if outcome (TryStartRemoteAbilityByCall env want c caller) v \<noteq> ERR_OK
       then smap_erase c (callMap (exec (TryStartRemoteAbilityByCall env want c caller) v))
       else callMap (exec (TryStartRemoteAbilityByCall env want c caller) v))"
  proof -
    obtain caller0 where "caller_from_bms env (svc_caller_default\<lparr>callerUid := uid, callerPid := pid, callerSourceDeviceId := here,
        callerAccessToken := tok\<rparr>) = Some caller0"
      using assms(7,8) by (simp add: caller_from_bms_def svc_caller_default_def caller_info.defs caller_info_default_def)
    then show thesis
      using assms(4-6,9)
      by (intro that [where caller = "caller0\<lparr>callerSpecBundle := Some (svcSpecBundle env uid)\<rparr>" and
          v = "exec (NotifyCollaborateEventResult env ERR_OK (GetCurSrcCollaborateEvent env
            (caller0\<lparr>callerSpecBundle := Some (svcSpecBundle env uid)\<rparr>) (vwElement (svw env) want) DMS_DSCHED_EVENT_START ERR_OK)) s"])
        (simp_all add: StartRemoteAbilityByCall_def NotifyCollaborateEventResult_def)
  qed
  let ?j = "\<lparr>callToken = svcToken s + 1, callRemoteDevice = elDeviceId (vwElement (svw env) want)\<rparr>"
  have "callMap (exec (SaveConnectToken env want c) v) = smap_put c ?j (callMap s)"
    using v assms(2) by (simp add: SaveConnectToken_def)
  then have "callMap s' = smap_erase c (callMap s) \<or> callMap s' = smap_erase c (smap_put c ?j (callMap s)) \<or>
      (callMap s' = smap_put c ?j (callMap s) \<and> callToken ?j \<noteq> callToken i)"
    using TryStart_callMap(2) [of env want c caller v] fresh unfolding s' TryStart_callMap(1) by (auto simp: v)
  with token_lost [OF assms(1,3)] have "find (\<lambda>(k, j). callToken j = callToken i) (callMap s') = None"
    by metis
  then show ?thesis
    by (simp add: NotifyStateChangedFromRemote_def)
qed

end
