(* ===== verification/Service_Sample.thy ===== *)
theory Service_Sample
  imports Call_Behaviour
begin

text \<open>
  A concrete instance of the services around the scheduler, on two devices \<open>A\<close> and \<open>B\<close>, and the theorems about connections and
  calls applied to it.
\<close>

definition sample_svc_want :: "sample_want svc_want_api" where
  "sample_svc_want =
     \<lparr>vwElement = (\<lambda>w. \<lparr>elDeviceId = swDevice w, elBundleName = swBundle w, elModuleName = swModule w, elAbilityName = swAbility w\<rparr>),
      vwSetElement = (\<lambda>e w. w\<lparr>swDevice := elDeviceId e, swBundle := elBundleName e, swModule := elModuleName e, swAbility := elAbilityName e\<rparr>),
      vwString = (\<lambda>k w. case map_of (swTexts w) k of None \<Rightarrow> [] | Some v \<Rightarrow> v),
      vwInt = (\<lambda>k d w. case map_of (swInts w) k of None \<Rightarrow> d | Some v \<Rightarrow> v),
      vwBool = (\<lambda>k d w. case map_of (swBools w) k of None \<Rightarrow> d | Some v \<Rightarrow> v),
      vwSetString = (\<lambda>k v w. w\<lparr>swTexts := (k, v) # swTexts w\<rparr>),
      vwSetInt = (\<lambda>k v w. w\<lparr>swInts := (k, v) # swInts w\<rparr>),
      vwRemove = pwRemove sample_perm_want, vwDeviceId = swDevice, PARAM_RESV_FOR_RESULT = ''result''\<rparr>"

definition sample_svc_env :: "string \<Rightarrow> sample_want svc_env" where
  "sample_svc_env dev =
     \<lparr>svw = sample_svc_want, svcPerm = sample_perm_env\<lparr>permLocalDeviceId := Some dev\<rparr>, collaborateCbMgr = False,
      callingDeviceID = ''A'', callingUid = 20010001, isLocalCalling = False, isCallerForeground = (\<lambda>_. True), interactiveAdapter = False,
      remoteOsEx = (\<lambda>_. False), adapterLoaded = False, adapterResult = None, svcCallerAppId = (\<lambda>_. Some ''app_id''),
      svcBundleNames = (\<lambda>_. Some [''app'']), svcSpecBundle = (\<lambda>_. ''app''), svcAccountInfo = (\<lambda>_ _. (ERR_OK, sample_account)),
      remoteDmsFound = (\<lambda>_. True), remoteConnectAnswer = (\<lambda>_. (ERR_OK, 10)), remoteAnswer = (\<lambda>_. ERR_OK), singularIsEnd = True,
      parcelWrites = True, svcAppMgr = True, svcAmsConnect = ERR_OK, calleeAbilityToken = Some 77, continueSwitchOn = True,
      missionElement = (\<lambda>_. (ERR_OK, element_default)), svcDmsVersion = 5, SVC_ERR_FLATTEN = 5, SVC_OBJECT_NULL = 6\<rparr>"

definition sample_call_want :: sample_want where
  "sample_call_want = sample_empty_want\<lparr>swDevice := ''B'', swBundle := ''app'', swAbility := ''Main''\<rparr>"

lemmas sample_svc_simps = sample_svc_env_def sample_svc_want_def sample_call_want_def sample_empty_want_def

lemma map_of_filter_other: "k \<noteq> k' \<Longrightarrow> map_of (filter (\<lambda>p. fst p \<noteq> k') xs) k = map_of xs k"
  by (induction xs) auto

lemma sample_want_laws: "want_laws (sample_svc_env dev)"
  by (simp add: want_laws_def sample_svc_simps sample_perm_simps map_of_filter_other)

lemma sample_callee_ok: "callee_services_ok (sample_svc_env dev)"
  by (simp add: callee_services_ok_def sample_svc_env_def)

definition sample_svc_caller :: svc_caller where
  "sample_svc_caller = svc_caller_default\<lparr>callerUid := 20010001, callerPid := 30, callerSourceDeviceId := ''A'', callerAppId := ''app_id'',
     callerBundleNames := [''app''], callerAccessToken := 5, callerExtraDmsVersion := Some 5, callerSpecBundle := Some ''app''\<rparr>"

lemmas sample_caller_simps = sample_svc_caller_def svc_caller_default_def caller_info_default_def caller_info.defs svc_caller.defs

lemma sample_authorised:
  "authorised (sample_svc_env ''B'') (vwSetInt sample_svc_want DMS_CONNECT_TOKEN n sample_call_want) sample_svc_caller sample_account CALL_PERMISSION False"
  by (simp add: authorised_def sample_svc_simps sample_caller_simps CheckTargetPermission_def check_target_permission_def GetTargetAbility_def
      sample_perm_simps CheckGetCallerPermission_def CheckAccountAccessPermission_def IsSameAppId_def outcome_background
      background_allowed_def holds_permission_def dm_caller_of_def DMS_CONNECT_TOKEN_def DMS_MISSION_ID_def Let_def)

definition sample_called :: "sample_want svc" where
  "sample_called = exec (StartRemoteAbilityByCall (sample_svc_env ''A'') sample_call_want (Some (Connect 1)) 20010001 30 5) svc_init"

lemma sample_call_run:
  "outcome (StartRemoteAbilityByCall (sample_svc_env ''A'') sample_call_want (Some (Connect 1)) 20010001 30 5) svc_init = ERR_OK"
  "svcCalls sample_called =
     [RemoteStartByCall ''B'' (vwSetInt sample_svc_want DMS_CONNECT_TOKEN 1 sample_call_want) (Connect 1) sample_svc_caller sample_account,
      AddDeath (Connect 1) LocalCallerDeath, ReportCallerChange sample_svc_caller COMPONENT_ADD COMPONENT_CALL ROLE_CALLER]"
  "callMap sample_called = [(Connect 1, \<lparr>callToken = 1, callRemoteDevice = ''B''\<rparr>)]" "svcToken sample_called = 1"
  by (simp_all add: sample_called_def StartRemoteAbilityByCall_def caller_from_bms_def sample_svc_simps sample_caller_simps svc_init_def
      sample_perm_simps CheckDeviceId_svc_def NotifyCollaborateEventResult_def TryStartRemoteAbilityByCall_def GetRemoteDms_svc_def
      SaveConnectToken_def MAX_CONNECT_TOKEN_NUM_def SaveCallerComponent_def svc_report_caller_def ConnectAbilitySession_def AddElement_def Let_def)

lemma sample_svc_facts:
  "svw (sample_svc_env dev) = sample_svc_want" "svc_local_device (sample_svc_env dev) = Some dev"
  "GetRemoteDms_svc (sample_svc_env dev) ''A''" "GetRemoteDms_svc (sample_svc_env dev) ''B''"
  "calleeAbilityToken (sample_svc_env dev) = Some 77" "parcelWrites (sample_svc_env dev)" "CheckDeviceId_svc ''B'' ''A''" "CheckDeviceId_svc ''A'' ''B''"
  "smap_ok (observerMap svc_init)" "svcToken svc_init = 0" "smap_find (observerMap svc_init) k = None"
  "isCallerForeground (sample_svc_env dev) uid" "svcCallerAppId (sample_svc_env dev) uid = Some ''app_id''"
  "svcBundleNames (sample_svc_env dev) uid = Some [''app'']" "elDeviceId (vwElement sample_svc_want sample_call_want) = ''B''"
  "vwElement sample_svc_want sample_call_want\<lparr>elDeviceId := ''B''\<rparr> = vwElement sample_svc_want sample_call_want"
  by (simp_all add: sample_svc_simps GetRemoteDms_svc_def CheckDeviceId_svc_def svc_init_def)

lemma sample_called_tokens: "tokens_ok sample_called"
  unfolding sample_called_def using StartRemoteAbilityByCall_tokens [OF tokens_ok_init]
  by (simp add: svc_init_def MAX_CONNECT_TOKEN_NUM_def)

lemma token_left: "svcToken svc_init < MAX_CONNECT_TOKEN_NUM"
  by (simp add: svc_init_def MAX_CONNECT_TOKEN_NUM_def)

definition sample_sent_want :: sample_want where
  "sample_sent_want = vwSetInt sample_svc_want DMS_CONNECT_TOKEN 1 sample_call_want"

definition sample_served :: "sample_want svc" where
  "sample_served = exec (ProcessCallResult (sample_svc_env ''B'') (Connect 1))
     (exec (StartAbilityByCallFromRemote (sample_svc_env ''B'') sample_sent_want (Some (Connect 1)) sample_svc_caller sample_account) svc_init)"

theorem called_state_reaches_caller_witness:
  "svcCalls (exec (NotifyStateChanged (sample_svc_env ''B'') 2 (vwElement sample_svc_want sample_call_want) (Some 77)) sample_served) =
     svcCalls sample_served @ [RemoteStateChanged ''A'' 2 1 (vwElement sample_svc_want sample_call_want)] \<and>
   svcCalls (exec (NotifyStateChangedFromRemote (sample_svc_env ''A'') 2 1 (vwElement sample_svc_want sample_call_want)) sample_called) =
     svcCalls sample_called @ [AppStateChanged (Connect 1) (vwElement sample_svc_want sample_call_want) 2]"
proof -
  have fresh: "obsSrcConnect ob \<noteq> Connect 1 \<and> obsToken ob \<noteq> Some 77" if "smap_find (observerMap svc_init) k = Some ob" for k ob
    using that by (simp add: sample_svc_facts)
  have tok: "1 = svcToken svc_init + 1"
    by (simp add: sample_svc_facts)
  have svwA: "vwElement sample_svc_want sample_call_want = vwElement (svw (sample_svc_env ''A'')) sample_call_want"
    "svw (sample_svc_env ''B'') = svw (sample_svc_env ''A'')"
    by (simp_all add: sample_svc_facts)
  obtain caller acc where r:
    "RemoteStartByCall ''B'' sample_sent_want (Connect 1) caller acc \<in> set (svcCalls sample_called)"
    "authorised (sample_svc_env ''B'') sample_sent_want caller acc CALL_PERMISSION False \<longrightarrow>
      (let sB' = exec (ProcessCallResult (sample_svc_env ''B'') (Connect 1))
         (exec (StartAbilityByCallFromRemote (sample_svc_env ''B'') sample_sent_want (Some (Connect 1)) caller acc) svc_init)
       in svcCalls (exec (NotifyStateChanged (sample_svc_env ''B'') 2 (vwElement sample_svc_want sample_call_want) (Some 77)) sB') =
         svcCalls sB' @ [RemoteStateChanged ''A'' 2 1 (vwElement sample_svc_want sample_call_want)])"
    "svcCalls (exec (NotifyStateChangedFromRemote (sample_svc_env ''A'') 2 1 (vwElement sample_svc_want sample_call_want)) sample_called) =
      svcCalls sample_called @ [AppStateChanged (Connect 1) (vwElement sample_svc_want sample_call_want) 2]"
    using called_state_reaches_caller [where st = 2, OF sample_call_run(1) tokens_ok_init token_left sample_called_def sample_svc_facts(2) tok svwA
        sample_want_laws sample_callee_ok sample_svc_facts(9) _ sample_svc_facts(2,7,3,5) sample_called_tokens refl sample_svc_facts(6)]
    unfolding sample_svc_facts(1,15,16) sample_sent_want_def [symmetric] Let_def using fresh by blast
  from r(1) have "caller = sample_svc_caller" "acc = sample_account"
    by (auto simp: sample_call_run(2))
  with r(2,3) sample_authorised [of 1] show ?thesis
    unfolding sample_served_def sample_sent_want_def Let_def by blast
qed

theorem call_tokens_unique_witness: "tokens_ok sample_called \<and> callMap sample_called = [(Connect 1, \<lparr>callToken = 1, callRemoteDevice = ''B''\<rparr>)]"
proof
  show "tokens_ok sample_called"
    unfolding sample_called_def
    using call_tokens_unique [OF svc_step.call [of "\<lambda>_. 20010001"] tokens_ok_init token_left] .
  show "callMap sample_called = [(Connect 1, \<lparr>callToken = 1, callRemoteDevice = ''B''\<rparr>)]"
    by (rule sample_call_run(3))
qed

theorem second_call_hides_first_witness:
  "outcome (NotifyStateChangedFromRemote (sample_svc_env ''A'') 2 1 (vwElement sample_svc_want sample_call_want))
     (exec (StartRemoteAbilityByCall (sample_svc_env ''A'') sample_call_want (Some (Connect 1)) 20010001 30 5) sample_called) = INVALID_PARAMETERS_ERR"
proof -
  have run: "svcToken sample_called = 1" "smap_find (callMap sample_called) (Connect 1) = Some \<lparr>callToken = 1, callRemoteDevice = ''B''\<rparr>"
    by (simp_all add: sample_call_run smap_find_def)
  have left: "svcToken sample_called < MAX_CONNECT_TOKEN_NUM"
    by (simp add: run MAX_CONNECT_TOKEN_NUM_def)
  have there: "CheckDeviceId_svc ''A'' (elDeviceId (vwElement (svw (sample_svc_env ''A'')) sample_call_want))"
    unfolding sample_svc_facts(1,15) by (rule sample_svc_facts(8))
  show ?thesis
    using second_call_hides_first [OF sample_called_tokens left run(2) sample_svc_facts(12,2) there sample_svc_facts(13,14) refl]
    by simp
qed


subsection \<open>Connections\<close>

definition sample_connected :: "sample_want svc" where
  "sample_connected = exec (ConnectRemoteAbility (sample_svc_env ''A'') sample_call_want (Some (Connect 1)) 20010001 30 5) svc_init"

definition sample_session :: connect_session where
  "sample_session = \<lparr>sessSource = ''A'', sessDestination = ''B'', sessElements = [vwElement sample_svc_want sample_call_want],
     sessCaller = sample_svc_caller\<lparr>callerType := 1, callerSpecBundle := None\<rparr>, sessTarget = HARMONY_COMPONENT\<rparr>"

lemma sample_connect_run:
  "distributedConnectAbilityMap sample_connected = [(Connect 1, [sample_session])]" "trackingUidMap sample_connected = [(20010001, 1)]"
  "svcCalls sample_connected =
     [RemoteConnectAbility ''B'' sample_call_want (Connect 1) (sessCaller sample_session) sample_account,
      AddDeath (Connect 1) ConnectDeath, ReportCallerChange (sessCaller sample_session) COMPONENT_ADD COMPONENT_CONNECT ROLE_CALLER]"
  by (simp_all add: sample_connected_def ConnectRemoteAbility_def CheckDistributedConnectLocked_def uid_count_def caller_from_bms_def
      sample_svc_simps sample_caller_simps svc_init_def sample_perm_simps CheckDeviceId_svc_def TryConnectRemoteAbility_def GetRemoteDms_svc_def
      BIND_CONNECT_RETRY_TIMES_def numeral_3_eq_3 RemoteConnectAbilityMappingLocked_def svc_report_caller_def ConnectAbilitySession_def
      AddElement_def sample_session_def Let_def)

lemma sample_connected_reachable: "svc_reachable (\<lambda>_. 20010001) sample_connected"
  unfolding sample_connected_def by (rule svc_reachable.step [OF svc_reachable.init svc_step.connect]) simp


definition sample_serving :: "sample_want svc" where
  "sample_serving = svc_init\<lparr>connectAbilityMap := [(Connect 1, \<lparr>ciCaller = sessCaller sample_session, ciWrapper = Stub 0,
     ciElement = vwElement sample_svc_want sample_call_want\<rparr>)]\<rparr>"

lemma singleton_list: "distinct xs \<Longrightarrow> set xs = {x} \<Longrightarrow> xs = [x]"
  by (cases xs) (auto simp: subset_singleton_iff)


text \<open>A table with 599 connections of one uid.\<close>

definition sample_crowd :: "sample_want svc" where
  "sample_crowd = svc_init\<lparr>distributedConnectAbilityMap := map (\<lambda>n. (Connect n, [sample_session])) [0..<599],
     trackingUidMap := [(20010001, 599)], svcCalls := map (\<lambda>n. AddDeath (Connect n) ConnectDeath) [0..<599]\<rparr>"

lemma crowd_find: "smap_find (map (\<lambda>n. (Connect n, v)) [0..<k]) c = Some w \<longleftrightarrow> (\<exists>n < k. c = Connect n) \<and> w = v"
  by (induction k) (auto simp: smap_find_def map_add_def less_Suc_eq split: option.split dest: map_of_SomeD)

lemma crowd_ok: "smap_ok (map (\<lambda>n. (Connect n, v)) [0..<k])"
  by (induction k) (auto simp: smap_ok_def sorted_wrt_append less_remote_obj_def)

lemma crowd_watched: "watched ConnectDeath (map (\<lambda>n. AddDeath (Connect n) ConnectDeath) [0..<k]) = Connect ` {..<k}"
  by (induction k) (auto simp: less_Suc_eq)

lemma crowd_conns: "conns_of (\<lambda>_. w) (map (\<lambda>n. (Connect n, v)) [0..<k]) u = (if u = w then k else 0)"
proof -
  have "{c. smap_find (map (\<lambda>n. (Connect n, v)) [0..<k]) c \<noteq> None \<and> w = u} = (if u = w then Connect ` {..<k} else {})"
    by (auto simp: crowd_find)
  then show ?thesis
    by (simp add: conns_of_def card_image inj_on_def)
qed

lemma sample_crowd_ok: "connections_ok (\<lambda>_. 20010001) sample_crowd"
proof -
  have "session_list_ok 20010001 [sample_session]"
    by (simp add: session_list_ok_def sample_session_def sample_caller_simps)
  moreover have "smap_ok [(20010001 :: int, 599 :: nat)]" "smap_find [(20010001 :: int, 599 :: nat)] u = (if u = 20010001 then Some 599 else None)" for u
    by (simp_all add: smap_ok_def smap_find_def)
  ultimately show ?thesis
    unfolding connections_ok_def sample_crowd_def
    by (simp add: crowd_ok crowd_watched crowd_conns MAX_DISTRIBUTED_CONNECT_NUM_def) (auto simp: crowd_find)
qed

theorem connection_limit_race_witness:
  "conns_of (\<lambda>_. 20010001) (distributedConnectAbilityMap (exec (RemoteConnectAbilityMappingLocked (Some (Connect 600)) ''A'' ''B''
       (vwElement sample_svc_want sample_call_want) sample_svc_caller HARMONY_COMPONENT)
     (exec (RemoteConnectAbilityMappingLocked (Some (Connect 599)) ''A'' ''B''
       (vwElement sample_svc_want sample_call_want) sample_svc_caller HARMONY_COMPONENT) sample_crowd))) 20010001 = 601 \<and>
   CheckDistributedConnectLocked sample_svc_caller sample_crowd = ERR_OK"
proof -
  have u: "callerUid sample_svc_caller = 20010001"
    by (simp add: sample_caller_simps)
  have "smap_find (distributedConnectAbilityMap sample_crowd) (Connect n) = None" if "599 \<le> n" for n
    using that crowd_find [of "[sample_session]" 599 "Connect n"]
    by (cases "smap_find (distributedConnectAbilityMap sample_crowd) (Connect n)") (auto simp: sample_crowd_def)
  moreover have "conns_of (\<lambda>_. 20010001) (distributedConnectAbilityMap sample_crowd) 20010001 + 1 = MAX_DISTRIBUTED_CONNECT_NUM"
    by (simp add: sample_crowd_def crowd_conns MAX_DISTRIBUTED_CONNECT_NUM_def)
  ultimately show ?thesis
    using connection_limit_race [OF sample_crowd_ok _ _ u u refl refl _ _ _ refl refl, of "Connect 599" "Connect 600"]
    by (simp add: MAX_DISTRIBUTED_CONNECT_NUM_def)
qed

end
