(* ===== verification/First_Continuation.thy ===== *)
theory First_Continuation
  imports Service_Start
begin

text \<open>
  The bookkeeping of continuations of the first protocol version and of free installs: \<^verbatim>\<open>DSchedContinuation\<close>
  (\<^verbatim>\<open>distributed_sched_continuation.cpp\<close>), \<^verbatim>\<open>DmsCallbackTask\<close> (\<^verbatim>\<open>dms_callback_task.cpp\<close>) and the listeners of collaboration
  events, \<^verbatim>\<open>DSchedCollaborationCallbackMgr\<close> (\<^verbatim>\<open>collaborate/dsched_collaborate_callback_mgr.cpp\<close>).

  The event queues of the two handlers are lists of identifiers and delays; sending an event appends to them when the
  handler accepts it, removing takes all events of the identifier away. The identifiers are integers that fit the
  type of the handler. A \<^verbatim>\<open>WantParams\<close> object is a want that carries its parameters.
\<close>

abbreviation CONTINUE_REMOTE_UNINSTALLED_SUPPORT_FREEINSTALL :: ret where "CONTINUE_REMOTE_UNINSTALLED_SUPPORT_FREEINSTALL \<equiv> 29360202"
abbreviation CONTINUE_REMOTE_UNINSTALLED_UNSUPPORT_FREEINSTALL :: ret where "CONTINUE_REMOTE_UNINSTALLED_UNSUPPORT_FREEINSTALL \<equiv> 29360203"
abbreviation LISTENER_HAS_NOT_REGISTERED :: ret where "LISTENER_HAS_NOT_REGISTERED \<equiv> 29360210"
abbreviation MISSION_FOR_CONTINUING_IS_NOT_ALIVE :: ret where "MISSION_FOR_CONTINUING_IS_NOT_ALIVE \<equiv> 29360224"
abbreviation DMS_NOT_GET_MANAGER :: ret where "DMS_NOT_GET_MANAGER \<equiv> 29360237"
abbreviation EVENT_SEND_REQUEST_FAIL :: ret where "EVENT_SEND_REQUEST_FAIL \<equiv> 29360163"

definition CONTINUATION_DELAY_TIME :: int where "CONTINUATION_DELAY_TIME = 20000"
definition CALLBACK_DELAY_TIME :: int where "CALLBACK_DELAY_TIME = 30000"

subsection \<open>Data\<close>

datatype launch_type = FREEINSTALL_START | FREEINSTALL_CONTINUE

record 'w callback_item =
  itemCallback :: "remote_obj option"
  itemTaskId :: int
  itemLaunch :: launch_type
  itemDevice :: string
  itemWant :: 'w

record 'w free_install_info =
  fiWant :: 'w
  fiRequestCode :: int
  fiCaller :: svc_caller
  fiAccount :: account_info

datatype 'w fin_call =
    TellMission remote_obj ret
  | TellListener remote_obj ret event_notify
  | TellCollabListener remote_obj event_notify
  | TellInstall remote_obj ret 'w
  | AddListenerDeath remote_obj
  | AmsCleanMission int
  | AmsContinuationResult int ret
  | AmsContinueAbility string int nat
  | AmsFreeInstall 'w int int int
  | BmsCanInstall 'w int
  | RemoteFreeInstall string "'w free_install_info" int
  | RemoteInstallDone string int ret
  | RemoteEventResult string ret
  | RemoteContinuationResult string int bool
  | RemoteContinueMission string string int remote_obj 'w
  | RemoteContinueBundle string string string remote_obj 'w

text \<open>
  The service (\<open>inner\<close>) with the two objects that \<^verbatim>\<open>DoStart\<close> makes; before it has run, \<open>started\<close> is false and the pointers to
  them are null.
\<close>

record 'w fin =
  inner :: "'w svc"
  started :: bool
  fcSession :: "32 word"
  fcTokens :: "(int, remote_obj) smap"
  fcListeners :: "remote_obj list"
  fcCallbacks :: "(int, remote_obj) smap"
  fcFree :: "(int, bool) smap"
  fcClean :: "(int, bool) smap"
  fcDevices :: "(int, string) smap"
  fcEvent :: event_notify
  fcInfo :: "string \<times> string"
  fcTimers :: "(int \<times> int) list"
  collabListeners :: "remote_obj list"
  ctNext :: "64 word"
  ctItems :: "(int, 'w callback_item) smap"
  ctMissions :: "(int, int) smap"
  ctTimers :: "(int \<times> int) list"
  finCalls :: "'w fin_call list"

definition fin_init :: "'w fin" where
  "fin_init = \<lparr>inner = svc_init, started = False, fcSession = 1, fcTokens = [], fcListeners = [], fcCallbacks = [], fcFree = [], fcClean = [],
     fcDevices = [], fcEvent = event_notify_default, fcInfo = ([], []), fcTimers = [], collabListeners = [], ctNext = 1, ctItems = [],
     ctMissions = [], ctTimers = [], finCalls = []\<rparr>"

record 'w fin_env =
  fsvc :: "'w svc_env"
  finAnswer :: "'w fin_call \<Rightarrow> ret"
  eventSent :: bool
  vwSetParams :: "'w \<Rightarrow> 'w \<Rightarrow> 'w"
  vwContinuationFlag :: "'w \<Rightarrow> bool"
  vwRemoveInstallFlag :: "'w \<Rightarrow> 'w"
  vwBundle :: "'w \<Rightarrow> string"
  vwSourceExit :: "'w \<Rightarrow> bool option"
  vwSetDeviceId :: "string \<Rightarrow> 'w \<Rightarrow> 'w"
  remoteVersionLower :: "string \<Rightarrow> bool"
  missionOf :: "int \<Rightarrow> ret \<times> 'w \<times> bool"
  continueConfigured :: "string \<Rightarrow> bool"
  remoteBundleOf :: "string \<Rightarrow> string \<Rightarrow> ret \<times> nat"
  canInstall :: "'w \<Rightarrow> int \<Rightarrow> bool"
  finKnownDevice :: "string \<Rightarrow> bool"
  missionManagerPart :: bool
  sendMgrPresent :: bool
  bundleMission :: "string \<Rightarrow> ret \<times> int"
  localVersion :: "string \<Rightarrow> ret \<times> int"
  saveDuration :: string
  FREE_INSTALL_TIMEOUT :: ret
  AMS_INVALID_VALUE :: ret

type_synonym ('w, 'a) fprog = "('w fin, 'a) state"

definition fcall :: "'w fin_call \<Rightarrow> ('w, unit) fprog" where
  "fcall c = mupd (\<lambda>s. s\<lparr>finCalls := finCalls s @ [c]\<rparr>)"

definition fask :: "'w fin_env \<Rightarrow> 'w fin_call \<Rightarrow> ('w, ret) fprog" where
  "fask env c = do { fcall c; mreturn (finAnswer env c) }"

text \<open>An operation of the service on its own tables.\<close>

definition in_svc :: "('w, 'a) sprog \<Rightarrow> ('w, 'a) fprog" where
  "in_svc p = do { s \<leftarrow> mget; mupd (\<lambda>s. s\<lparr>inner := exec p (inner s)\<rparr>); mreturn (outcome p (inner s)) }"

lemma fcall_simps [simp]:
  "exec (fcall c) s = s\<lparr>finCalls := finCalls s @ [c]\<rparr>" "exec (fask env c) s = s\<lparr>finCalls := finCalls s @ [c]\<rparr>"
  "outcome (fask env c) s = finAnswer env c"
  "exec (in_svc p) s = s\<lparr>inner := exec p (inner s)\<rparr>" "outcome (in_svc p) s = outcome p (inner s)"
  by (simp_all add: fcall_def fask_def in_svc_def)

subsection \<open>DSchedContinuation\<close>

definition fc_send_event :: "'w fin_env \<Rightarrow> int \<Rightarrow> int \<Rightarrow> ('w, bool) fprog" where
  "fc_send_event env i delay =
     (if eventSent env then do { mupd (\<lambda>s. s\<lparr>fcTimers := fcTimers s @ [(i, delay)]\<rparr>); mreturn True } else mreturn False)"

definition RemoveTimeOut :: "int \<Rightarrow> ('w, unit) fprog" where
  "RemoveTimeOut i = mupd (\<lambda>s. s\<lparr>fcTimers := filter (\<lambda>(j, _). j \<noteq> i) (fcTimers s)\<rparr>)"

definition SetTimeOut_first :: "'w fin_env \<Rightarrow> int \<Rightarrow> int \<Rightarrow> ('w, unit) fprog" where
  "SetTimeOut_first env i timeout = do { _ \<leftarrow> fc_send_event env i timeout; mreturn () }"

definition PushAbilityToken :: "'w fin_env \<Rightarrow> int \<Rightarrow> remote_obj option \<Rightarrow> ('w, bool) fprog" where
  "PushAbilityToken env i abilityToken =
     (case abilityToken of
        None \<Rightarrow> mreturn False
      | Some t \<Rightarrow>
          if i \<le> 0 then mreturn False
          else do {
            ok \<leftarrow> fc_send_event env i CONTINUATION_DELAY_TIME;
            s \<leftarrow> mget;
            if \<not> ok then mreturn False
            else if smap_find (fcTokens s) i \<noteq> None then mreturn False
            else do { mupd (\<lambda>s. s\<lparr>fcTokens := smap_put i t (fcTokens s)\<rparr>); mreturn True }
          })"

definition PopAbilityToken :: "int \<Rightarrow> ('w, remote_obj option) fprog" where
  "PopAbilityToken i =
     (if i \<le> 0 then mreturn None
      else do {
        s \<leftarrow> mget;
        case smap_find (fcTokens s) i of
          None \<Rightarrow> mreturn None
        | Some t \<Rightarrow> do { mupd (\<lambda>s. s\<lparr>fcTokens := smap_erase i (fcTokens s)\<rparr>); RemoveTimeOut i; mreturn (Some t) }
      })"

definition GenerateSessionId :: "('w, int) fprog" where
  "GenerateSessionId = do {
     s \<leftarrow> mget;
     mupd (\<lambda>s. s\<lparr>fcSession := (if sint (fcSession s + 1) \<le> 0 then 1 else fcSession s + 1)\<rparr>);
     mreturn (sint (fcSession s))
   }"

definition IsFreeInstall :: "int \<Rightarrow> 'w fin \<Rightarrow> bool" where
  "IsFreeInstall i s = (case smap_find (fcFree s) i of Some b \<Rightarrow> b | None \<Rightarrow> False)"

definition IsInContinuationProgress :: "int \<Rightarrow> 'w fin \<Rightarrow> bool" where
  "IsInContinuationProgress i s \<longleftrightarrow> smap_find (fcCallbacks s) i \<noteq> None"

definition GetTargetDevice :: "int \<Rightarrow> 'w fin \<Rightarrow> string" where
  "GetTargetDevice i s = (case smap_find (fcDevices s) i of Some d \<Rightarrow> d | None \<Rightarrow> [])"

definition IsCleanMission :: "int \<Rightarrow> 'w fin \<Rightarrow> bool" where
  "IsCleanMission i s = (case smap_find (fcClean s) i of Some b \<Rightarrow> b | None \<Rightarrow> True)"

definition SetCleanMissionFlag_first :: "int \<Rightarrow> bool \<Rightarrow> ('w, unit) fprog" where
  "SetCleanMissionFlag_first i clean = mupd (\<lambda>s. s\<lparr>fcClean := smap_insert i clean (fcClean s)\<rparr>)"

definition PushCallback_first :: "int \<Rightarrow> remote_obj option \<Rightarrow> string \<Rightarrow> bool \<Rightarrow> ('w, bool) fprog" where
  "PushCallback_first i cbo dev isFreeInstall =
     (case cbo of
        None \<Rightarrow> mreturn False
      | Some cb \<Rightarrow> do {
          s \<leftarrow> mget;
          if smap_find (fcCallbacks s) i \<noteq> None then mreturn False
          else do {
            mupd (\<lambda>s. s\<lparr>fcCallbacks := smap_insert i cb (fcCallbacks s), fcDevices := smap_insert i dev (fcDevices s),
              fcFree := (if isFreeInstall then smap_put i True (fcFree s) else fcFree s)\<rparr>);
            mreturn True
          }
        })"

definition PopCallback_first :: "int \<Rightarrow> ('w, remote_obj option) fprog" where
  "PopCallback_first i = do {
     s \<leftarrow> mget;
     case smap_find (fcCallbacks s) i of
       None \<Rightarrow> mreturn None
     | Some cb \<Rightarrow> do {
         mupd (\<lambda>s. s\<lparr>fcDevices := smap_erase i (fcDevices s), fcFree := smap_erase i (fcFree s), fcClean := smap_erase i (fcClean s),
           fcCallbacks := smap_erase i (fcCallbacks s)\<rparr>);
         mreturn (Some cb)
       }
   }"

text \<open>One listener is told; the parcel may not be written.\<close>

definition NotifyDSchedEventForOneCB :: "'w fin_env \<Rightarrow> remote_obj \<Rightarrow> ret \<Rightarrow> ('w, ret) fprog" where
  "NotifyDSchedEventForOneCB env cb r =
     (if \<not> parcelWrites (fsvc env) then mreturn EVENT_SEND_REQUEST_FAIL
      else do { s \<leftarrow> mget; fask env (TellListener cb r (fcEvent s)) })"

fun tell_all :: "(remote_obj \<Rightarrow> ('w, ret) fprog) \<Rightarrow> remote_obj list \<Rightarrow> bool \<Rightarrow> ('w, bool) fprog" where
  "tell_all f [] ok = mreturn ok"
| "tell_all f (cb # cbs) ok = do { r \<leftarrow> f cb; tell_all f cbs (ok \<and> r = ERR_OK) }"

definition NotifyEventListeners :: "'w fin_env \<Rightarrow> ret \<Rightarrow> ('w, ret) fprog" where
  "NotifyEventListeners env r = do {
     s \<leftarrow> mget;
     if fcListeners s = [] then mreturn INVALID_PARAMETERS_ERR
     else do {
       ok \<leftarrow> tell_all (\<lambda>cb. NotifyDSchedEventForOneCB env cb r) (fcListeners s) True;
       mreturn (if ok then ERR_OK else EVENT_SEND_REQUEST_FAIL)
     }
   }"

definition PushListener :: "'w fin_env \<Rightarrow> remote_obj option \<Rightarrow> ('w, bool) fprog" where
  "PushListener env cbo =
     (case cbo of
        None \<Rightarrow> mreturn False
      | Some cb \<Rightarrow> do {
          s \<leftarrow> mget;
          if cb \<in> set (fcListeners s) then mreturn False
          else do {
            mupd (\<lambda>s. s\<lparr>fcListeners := fcListeners s @ [cb]\<rparr>);
            fcall (AddListenerDeath cb);
            _ \<leftarrow> NotifyDSchedEventForOneCB env cb ERR_OK;
            mreturn True
          }
        })"

definition CleanupListener :: "remote_obj option \<Rightarrow> ('w, bool) fprog" where
  "CleanupListener cbo = do {
     s \<leftarrow> mget;
     case cbo of
       None \<Rightarrow> mreturn False
     | Some cb \<Rightarrow>
         if cb \<in> set (fcListeners s)
         then do { mupd (\<lambda>s. s\<lparr>fcListeners := remove1 cb (fcListeners s)\<rparr>); mreturn True }
         else mreturn False
   }"

definition NotifyMissionCenterResult :: "'w fin_env \<Rightarrow> int \<Rightarrow> ret \<Rightarrow> ('w, ret) fprog" where
  "NotifyMissionCenterResult env i r = do {
     cbo \<leftarrow> PopCallback_first i;
     RemoveTimeOut i;
     case cbo of
       None \<Rightarrow> mreturn INVALID_PARAMETERS_ERR
     | Some cb \<Rightarrow> if \<not> parcelWrites (fsvc env) then mreturn INVALID_PARAMETERS_ERR else fask env (TellMission cb r)
   }"

subsection \<open>DSchedCollaborationCallbackMgr\<close>

definition NotifyCollabEventForOneCB :: "'w fin_env \<Rightarrow> event_notify \<Rightarrow> remote_obj \<Rightarrow> ('w, ret) fprog" where
  "NotifyCollabEventForOneCB env e cb =
     (if \<not> parcelWrites (fsvc env) then mreturn EVENT_SEND_REQUEST_FAIL else fask env (TellCollabListener cb e))"

fun each_event :: "(event_notify \<Rightarrow> ('w, ret) fprog) \<Rightarrow> event_notify list \<Rightarrow> ('w, unit) fprog" where
  "each_event f [] = mreturn ()"
| "each_event f (e # es) = do { _ \<leftarrow> f e; each_event f es }"

text \<open>The bundle is the one of the calling application, when it can be found.\<close>

definition PushCollabListener :: "'w fin_env \<Rightarrow> string option \<Rightarrow> remote_obj option \<Rightarrow> ('w, bool) fprog" where
  "PushCollabListener env bundle cbo =
     (case cbo of
        None \<Rightarrow> mreturn False
      | Some cb \<Rightarrow> do {
          s \<leftarrow> mget;
          if cb \<in> set (collabListeners s) then mreturn False
          else do {
            mupd (\<lambda>s. s\<lparr>collabListeners := collabListeners s @ [cb]\<rparr>);
            fcall (AddListenerDeath cb);
            each_event (\<lambda>e. NotifyCollabEventForOneCB env e cb) (GetDSchedEventInfo_collaborate (fsvc env) bundle (inner s));
            mreturn True
          }
        })"

definition CleanupCollabListener :: "remote_obj option \<Rightarrow> ('w, bool) fprog" where
  "CleanupCollabListener cbo = do {
     s \<leftarrow> mget;
     case cbo of
       None \<Rightarrow> mreturn False
     | Some cb \<Rightarrow>
         if cb \<in> set (collabListeners s)
         then do { mupd (\<lambda>s. s\<lparr>collabListeners := remove1 cb (collabListeners s)\<rparr>); mreturn True }
         else mreturn False
   }"

definition NotifyCollabListeners :: "'w fin_env \<Rightarrow> event_notify \<Rightarrow> ('w, ret) fprog" where
  "NotifyCollabListeners env e = do {
     s \<leftarrow> mget;
     if collabListeners s = [] then mreturn INVALID_PARAMETERS_ERR
     else do {
       ok \<leftarrow> tell_all (NotifyCollabEventForOneCB env e) (collabListeners s) True;
       mreturn (if ok then ERR_OK else EVENT_SEND_REQUEST_FAIL)
     }
   }"

subsection \<open>DmsCallbackTask\<close>

definition GenerateTaskId :: "('w, int) fprog" where
  "GenerateTaskId = do {
     s \<leftarrow> mget;
     mupd (\<lambda>s. s\<lparr>ctNext := (if sint (ctNext s) = 2 ^ 63 - 1 then 1 else ctNext s + 1)\<rparr>);
     mreturn (sint (ctNext s))
   }"

definition RemoveTaskEvent :: "int \<Rightarrow> ('w, unit) fprog" where
  "RemoveTaskEvent i = mupd (\<lambda>s. s\<lparr>ctTimers := filter (\<lambda>(j, _). j \<noteq> i) (ctTimers s)\<rparr>)"

definition PushCallback_task ::
    "'w fin_env \<Rightarrow> int \<Rightarrow> remote_obj option \<Rightarrow> string \<Rightarrow> launch_type \<Rightarrow> 'w \<Rightarrow> ('w, ret) fprog" where
  "PushCallback_task env i cbo dev launch want =
     (if i \<le> 0 then mreturn INVALID_PARAMETERS_ERR
      else if launch = FREEINSTALL_START \<and> cbo = None then mreturn INVALID_PARAMETERS_ERR
      else do {
        s \<leftarrow> mget;
        if smap_find (ctItems s) i \<noteq> None then mreturn INVALID_PARAMETERS_ERR
        else if \<not> eventSent env then mreturn INVALID_PARAMETERS_ERR
        else do {
          mupd (\<lambda>s. s\<lparr>ctTimers := ctTimers s @ [(i, CALLBACK_DELAY_TIME)],
            ctItems := smap_insert i \<lparr>itemCallback = cbo, itemTaskId = i, itemLaunch = launch, itemDevice = dev, itemWant = want\<rparr> (ctItems s)\<rparr>);
          mreturn ERR_OK
        }
      })"

text \<open>An empty item, whose callback is null, is \<open>None\<close>.\<close>

definition PopCallback_task :: "int \<Rightarrow> ('w, 'w callback_item option) fprog" where
  "PopCallback_task i = do {
     s \<leftarrow> mget;
     case smap_find (ctItems s) i of
       None \<Rightarrow> mreturn None
     | Some item \<Rightarrow> do { mupd (\<lambda>s. s\<lparr>ctItems := smap_erase i (ctItems s)\<rparr>); RemoveTaskEvent i; mreturn (Some item) }
   }"

definition PopContinuationMissionMap :: "int \<Rightarrow> ('w, unit) fprog" where
  "PopContinuationMissionMap i = mupd (\<lambda>s. s\<lparr>ctMissions := smap_erase i (ctMissions s)\<rparr>)"

definition GetContinuaionMissionId :: "int \<Rightarrow> 'w fin \<Rightarrow> int" where
  "GetContinuaionMissionId i s =
     (if i \<le> 0 then INVALID_PARAMETERS_ERR
      else case smap_find (ctMissions s) i of None \<Rightarrow> INVALID_PARAMETERS_ERR | Some m \<Rightarrow> m)"

definition SetContinuationMissionMap :: "int \<Rightarrow> int \<Rightarrow> ('w, unit) fprog" where
  "SetContinuationMissionMap i mission =
     (if i \<le> 0 \<or> mission \<le> 0 then mreturn ()
      else mupd (\<lambda>s. if smap_find (ctMissions s) i \<noteq> None then s else s\<lparr>ctMissions := smap_put i mission (ctMissions s)\<rparr>))"

definition GetLaunchType :: "int \<Rightarrow> 'w fin \<Rightarrow> launch_type" where
  "GetLaunchType i s =
     (if i \<le> 0 then FREEINSTALL_START
      else case smap_find (ctItems s) i of None \<Rightarrow> FREEINSTALL_START | Some item \<Rightarrow> itemLaunch item)"

definition NotifyFreeInstallResult :: "'w fin_env \<Rightarrow> 'w callback_item option \<Rightarrow> ret \<Rightarrow> ('w, ret) fprog" where
  "NotifyFreeInstallResult env item r =
     (case item of
        None \<Rightarrow> mreturn INVALID_REMOTE_PARAMETERS_ERR
      | Some it \<Rightarrow>
          (case itemCallback it of
             None \<Rightarrow> mreturn INVALID_REMOTE_PARAMETERS_ERR
           | Some cb \<Rightarrow>
               if \<not> parcelWrites (fsvc env) then mreturn INVALID_REMOTE_PARAMETERS_ERR
               else fask env (TellInstall cb r (itemWant it))))"

fun offline_tasks :: "'w fin_env \<Rightarrow> string \<Rightarrow> (int, 'w callback_item) smap \<Rightarrow> ('w, unit) fprog" where
  "offline_tasks env dev [] = mreturn ()"
| "offline_tasks env dev ((i, item) # rest) =
     (if itemDevice item = dev
      then do {
        RemoveTaskEvent (itemTaskId item);
        _ \<leftarrow> NotifyFreeInstallResult env (Some item) DEVICE_OFFLINE_ERR;
        mupd (\<lambda>s. s\<lparr>ctItems := smap_erase i (ctItems s)\<rparr>);
        offline_tasks env dev rest
      }
      else offline_tasks env dev rest)"

definition NotifyDeviceOffline_task :: "'w fin_env \<Rightarrow> string \<Rightarrow> ('w, unit) fprog" where
  "NotifyDeviceOffline_task env dev = do { s \<leftarrow> mget; offline_tasks env dev (ctItems s) }"

end
