(* ===== verification/Service_Continue.thy ===== *)
theory Service_Continue
  imports First_Continuation
begin

text \<open>
  The operations of \<^verbatim>\<open>DistributedSchedService\<close> on continuations of the first protocol version, free installs and the listeners
  of events (\<^verbatim>\<open>distributed_sched_service.cpp\<close>, \<^verbatim>\<open>dms_free_install_callback.cpp\<close>, \<^verbatim>\<open>distributed_event_died_listener.cpp\<close>), and the
  two time-outs. The measurements of \<^verbatim>\<open>DmsContinueTime\<close>, \<^verbatim>\<open>DmsRadar\<close> and \<^verbatim>\<open>DmsUE\<close> are left out, except for the text that
  travels with the want.
\<close>

definition CONTINUATION_TIMEOUT :: int where "CONTINUATION_TIMEOUT = 20000"
definition CHECK_REMOTE_INSTALL_ABILITY :: int where "CHECK_REMOTE_INSTALL_ABILITY = 40000"
definition SVC_MAX_MODULENAME_LEN :: nat where "SVC_MAX_MODULENAME_LEN = 2048"
definition DMS_CALLING_UID :: string where "DMS_CALLING_UID = ''ohos.dms.callingUid''"
definition SVC_DMSDURATION_SAVETIME :: string where "SVC_DMSDURATION_SAVETIME = ''ohos.dschedule.SaveDataTime''"
definition SVC_VERSION_CODE_KEY :: string where "SVC_VERSION_CODE_KEY = ''version''"
definition SVC_PAGE_STACK_KEY :: string where "SVC_PAGE_STACK_KEY = ''ohos.extra.param.key.supportContinuePageStack''"
definition SVC_MODULE_NAME_UPDATE_KEY :: string where
  "SVC_MODULE_NAME_UPDATE_KEY = ''ohos.extra.param.key.supportContinueModuleNameUpdate''"
abbreviation DEFAULT_REQUEST_CODE :: int where "DEFAULT_REQUEST_CODE \<equiv> -1"

subsection \<open>Results of continuations\<close>

definition NotifyContinuationCallbackResult_first :: "'w fin_env \<Rightarrow> int \<Rightarrow> ret \<Rightarrow> ('w, unit) fprog" where
  "NotifyContinuationCallbackResult_first env i r = do {
     s \<leftarrow> mget;
     if \<not> started s then mreturn ()
     else if IsInContinuationProgress i s
     then do {
       (if r = ERR_OK \<and> IsCleanMission i s then fcall (AmsCleanMission i) else mreturn ());
       _ \<leftarrow> NotifyMissionCenterResult env i r;
       mreturn ()
     }
     else do { fcall (AmsContinuationResult i r); RemoveTimeOut i }
   }"

definition NotifyDSchedEventCallbackResult :: "'w fin_env \<Rightarrow> ret \<Rightarrow> ('w, unit) fprog" where
  "NotifyDSchedEventCallbackResult env r = do {
     s \<leftarrow> mget;
     if \<not> started s then mreturn () else do { _ \<leftarrow> NotifyEventListeners env r; mreturn () }
   }"

definition NotifyContinuateEventResult :: "'w fin_env \<Rightarrow> ret \<Rightarrow> event_notify \<Rightarrow> ('w, unit) fprog" where
  "NotifyContinuateEventResult env r e = do {
     s \<leftarrow> mget;
     if \<not> started s then mreturn ()
     else do {
       mupd (\<lambda>s. s\<lparr>fcEvent := e\<rparr>);
       _ \<leftarrow> NotifyEventListeners env r;
       (if eventState e = DMS_DSCHED_EVENT_FINISH \<or> r \<noteq> ERR_OK then mupd (\<lambda>s. s\<lparr>fcEvent := event_notify_default\<rparr>) else mreturn ())
     }
   }"

definition NotifyDSchedEventResultFromRemote :: "'w fin_env \<Rightarrow> ret \<Rightarrow> ('w, ret) fprog" where
  "NotifyDSchedEventResultFromRemote env r = do { NotifyDSchedEventCallbackResult env r; mreturn ERR_OK }"

definition NotifyContinuationResultFromRemote :: "'w fin_env \<Rightarrow> int \<Rightarrow> bool \<Rightarrow> ('w, ret) fprog" where
  "NotifyContinuationResultFromRemote env sid isSuccess =
     (if sid \<le> 0 then mreturn INVALID_REMOTE_PARAMETERS_ERR
      else do {
        NotifyContinuationCallbackResult_first env sid (if isSuccess then ERR_OK else NOTIFYCOMPLETECONTINUATION_FAILED);
        mupd (\<lambda>s. if started s then s\<lparr>fcInfo := ([], [])\<rparr> else s);
        mreturn ERR_OK
      })"

definition NotifyCompleteContinuation_svc :: "'w fin_env \<Rightarrow> string \<Rightarrow> int \<Rightarrow> bool \<Rightarrow> ('w, unit) fprog" where
  "NotifyCompleteContinuation_svc env dev sid isSuccess = do {
     s \<leftarrow> mget;
     if sid \<le> 0 \<or> \<not> GetRemoteDms_svc (fsvc env) dev \<or> \<not> started s then mreturn ()
     else do {
       _ \<leftarrow> NotifyEventListeners env ERR_OK;
       fcall (RemoteContinuationResult dev sid isSuccess);
       mupd (\<lambda>s. s\<lparr>fcInfo := ([], [])\<rparr>)
     }
   }"

subsection \<open>Free installs\<close>

definition SetCallerInfo :: "'w fin_env \<Rightarrow> int \<Rightarrow> string \<Rightarrow> u32 \<Rightarrow> svc_caller option" where
  "SetCallerInfo env uid here tok =
     caller_from_bms (fsvc env) (svc_caller_default\<lparr>callerUid := uid, callerType := CALLER_TYPE_HARMONY, callerSourceDeviceId := here,
       callerAccessToken := tok\<rparr>)"

definition StartRemoteFreeInstall ::
    "'w fin_env \<Rightarrow> 'w \<Rightarrow> int \<Rightarrow> int \<Rightarrow> u32 \<Rightarrow> remote_obj option \<Rightarrow> ('w, ret) fprog" where
  "StartRemoteFreeInstall env want uid requestCode tok cbo =
     (let W = svw (fsvc env); dev = elDeviceId (vwElement W want) in
      case svc_local_device (fsvc env) of
        None \<Rightarrow> mreturn INVALID_PARAMETERS_ERR
      | Some here \<Rightarrow>
          if \<not> CheckDeviceId_svc here dev then mreturn INVALID_PARAMETERS_ERR
          else if \<not> GetRemoteDms_svc (fsvc env) dev then mreturn INVALID_PARAMETERS_ERR
          else do {
            s \<leftarrow> mget;
            if \<not> started s then mreturn INVALID_REMOTE_PARAMETERS_ERR
            else do {
              i \<leftarrow> GenerateTaskId;
              let launch = (if vwContinuationFlag env want then FREEINSTALL_CONTINUE else FREEINSTALL_START);
              pushed \<leftarrow> PushCallback_task env i cbo dev launch want;
              if pushed \<noteq> ERR_OK then mreturn INVALID_REMOTE_PARAMETERS_ERR
              else do {
                (if launch = FREEINSTALL_CONTINUE then SetContinuationMissionMap i (vwInt W ''sessionId'' (-1) want) else mreturn ());
                case SetCallerInfo env uid here tok of
                  None \<Rightarrow> mreturn INVALID_PARAMETERS_ERR
                | Some caller \<Rightarrow>
                    (case svcAccountInfo (fsvc env) dev caller of (r, acc) \<Rightarrow>
                       if r \<noteq> ERR_OK then mreturn INVALID_PARAMETERS_ERR
                       else do {
                         result \<leftarrow> fask env (RemoteFreeInstall dev \<lparr>fiWant = vwSetString W DMS_SRC_NETWORK_ID here want,
                           fiRequestCode = requestCode, fiCaller = caller, fiAccount = acc\<rparr> i);
                         (if result \<noteq> ERR_OK
                          then do { item \<leftarrow> PopCallback_task i; _ \<leftarrow> NotifyFreeInstallResult env item result; mreturn () }
                          else mreturn ());
                         mreturn result
                       })
              }
            }
          })"

definition StartFreeInstallFromRemote :: "'w fin_env \<Rightarrow> 'w free_install_info \<Rightarrow> int \<Rightarrow> ('w, ret) fprog" where
  "StartFreeInstallFromRemote env info i =
     (case svc_local_device (fsvc env) of
        None \<Rightarrow> mreturn INVALID_REMOTE_PARAMETERS_ERR
      | Some here \<Rightarrow>
          if \<not> CheckDeviceIdFromRemote_svc (fsvc env) here (elDeviceId (vwElement (svw (fsvc env)) (fiWant info))) (callerSourceDeviceId (fiCaller info))
          then mreturn INVALID_REMOTE_PARAMETERS_ERR
          else if svcAmsConnect (fsvc env) \<noteq> ERR_OK then mreturn (svcAmsConnect (fsvc env))
          else (case QueryOsAccount (fsvc env) of (err, account) \<Rightarrow>
            if err \<noteq> ERR_OK then mreturn err
            else fask env (AmsFreeInstall (fiWant info) i account (fiRequestCode info))))"

definition HandleRemoteNotify :: "'w fin_env \<Rightarrow> 'w free_install_info \<Rightarrow> int \<Rightarrow> ret \<Rightarrow> ('w, ret) fprog" where
  "HandleRemoteNotify env info i r =
     (if \<not> GetRemoteDms_svc (fsvc env) (callerSourceDeviceId (fiCaller info)) then mreturn INVALID_PARAMETERS_ERR
      else if i \<le> 0 then mreturn INVALID_PARAMETERS_ERR
      else fask env (RemoteInstallDone (callerSourceDeviceId (fiCaller info)) i r))"

definition StartLocalAbility :: "'w fin_env \<Rightarrow> 'w free_install_info \<Rightarrow> ('w, ret) fprog" where
  "StartLocalAbility env info =
     (case svc_local_device (fsvc env) of
        None \<Rightarrow> mreturn INVALID_REMOTE_PARAMETERS_ERR
      | Some here \<Rightarrow>
          (case check_target (fsvc env) (fiWant info) (fiCaller info) (fiAccount info) START_PERMISSION True of (r, want) \<Rightarrow>
             if r \<noteq> ERR_OK then mreturn r
             else in_svc (StartAbility_svc (fsvc env) (vwRemoveInstallFlag env want) (fiRequestCode info))))"

definition NotifyCompleteFreeInstall :: "'w fin_env \<Rightarrow> 'w free_install_info \<Rightarrow> int \<Rightarrow> ret \<Rightarrow> ('w, ret) fprog" where
  "NotifyCompleteFreeInstall env info i r =
     (if i \<le> 0 then mreturn INVALID_PARAMETERS_ERR
      else if r \<noteq> ERR_OK then HandleRemoteNotify env info i r
      else do { result \<leftarrow> StartLocalAbility env info; HandleRemoteNotify env info i result })"

text \<open>The callback of the install service on the device that installs.\<close>

definition OnInstallFinished :: "'w fin_env \<Rightarrow> 'w free_install_info \<Rightarrow> int \<Rightarrow> 'w \<Rightarrow> int \<Rightarrow> ret \<Rightarrow> ('w, ret) fprog" where
  "OnInstallFinished env info i want requestCode r =
     NotifyCompleteFreeInstall env (info\<lparr>fiWant := want, fiRequestCode := requestCode\<rparr>) i r"

definition NotifyCompleteFreeInstallFromRemote :: "'w fin_env \<Rightarrow> int \<Rightarrow> ret \<Rightarrow> ('w, ret) fprog" where
  "NotifyCompleteFreeInstallFromRemote env i r = do {
     s \<leftarrow> mget;
     if \<not> started s then mreturn INVALID_REMOTE_PARAMETERS_ERR
     else do {
       let launch = GetLaunchType i s;
       item \<leftarrow> PopCallback_task i;
       if launch = FREEINSTALL_START then NotifyFreeInstallResult env item r
       else if r = ERR_OK then do { PopContinuationMissionMap i; mreturn ERR_OK }
       else do {
         NotifyContinuationCallbackResult_first env (GetContinuaionMissionId i s) CONTINUE_FREE_INSTALL_FAILED;
         PopContinuationMissionMap i;
         mreturn ERR_OK
       }
     }
   }"

definition ProcessFreeInstallOffline :: "'w fin_env \<Rightarrow> string \<Rightarrow> ('w, unit) fprog" where
  "ProcessFreeInstallOffline env dev = do { s \<leftarrow> mget; if \<not> started s then mreturn () else NotifyDeviceOffline_task env dev }"

definition ProcessDeviceOffline_all :: "'w fin_env \<Rightarrow> string \<Rightarrow> ('w, unit) fprog" where
  "ProcessDeviceOffline_all env dev =
     (case svc_local_device (fsvc env) of
        None \<Rightarrow> mreturn ()
      | Some here \<Rightarrow>
          if \<not> CheckDeviceId_svc here dev then mreturn ()
          else do { in_svc (do { RemoveConnectAbilityInfo (fsvc env) dev; ProcessCalleeOffline (fsvc env) dev }); ProcessFreeInstallOffline env dev })"

subsection \<open>Starting a continuation\<close>

definition SetWantForContinuation_svc :: "'w fin_env \<Rightarrow> 'w \<Rightarrow> int \<Rightarrow> ret \<times> 'w" where
  "SetWantForContinuation_svc env want i =
     (let W = svw (fsvc env) in
      case svc_local_device (fsvc env) of
        None \<Rightarrow> (INVALID_REMOTE_PARAMETERS_ERR, want)
      | Some here \<Rightarrow>
          let w1 = vwSetString W SVC_DMSDURATION_SAVETIME (saveDuration env) (vwSetString W ''deviceId'' here (vwSetInt W ''sessionId'' i want)) in
          (case localVersion env (vwBundle env w1) of (r, v) \<Rightarrow>
             if r \<noteq> ERR_OK then (INVALID_PARAMETERS_ERR, w1)
             else
               let w2 = vwSetInt W SVC_VERSION_CODE_KEY v w1;
                   stack = vwBool W SVC_PAGE_STACK_KEY True w2;
                   module = vwString W SVC_MODULE_NAME_UPDATE_KEY w2
               in (ERR_OK,
                   if \<not> stack \<and> module \<noteq> [] \<and> length module \<le> SVC_MAX_MODULENAME_LEN
                   then vwSetElement W (vwElement W w2\<lparr>elModuleName := module\<rparr>) w2 else w2)))"

definition DealDSchedEventResult :: "'w fin_env \<Rightarrow> 'w \<Rightarrow> ret \<Rightarrow> ('w, ret) fprog" where
  "DealDSchedEventResult env want status = do {
     s \<leftarrow> mget;
     if \<not> started s then mreturn INVALID_PARAMETERS_ERR
     else if status = ERR_OK then mreturn ERR_OK
     else let dev = elDeviceId (vwElement (svw (fsvc env)) want) in
       if \<not> GetRemoteDms_svc (fsvc env) dev then mreturn INVALID_REMOTE_PARAMETERS_ERR
       else do { fcall (RemoteEventResult dev status); mreturn ERR_OK }
   }"

definition SetCleanMissionFlag_svc :: "'w fin_env \<Rightarrow> 'w \<Rightarrow> int \<Rightarrow> ('w, unit) fprog" where
  "SetCleanMissionFlag_svc env want i = do {
     s \<leftarrow> mget;
     let clean = (case vwSourceExit env want of None \<Rightarrow> True | Some b \<Rightarrow> b);
     if \<not> started s then mreturn () else SetCleanMissionFlag_first i clean
   }"

definition GetIsFreeInstall :: "int \<Rightarrow> 'w fin \<Rightarrow> bool" where
  "GetIsFreeInstall i s = (if \<not> started s then False else IsFreeInstall i s)"

definition StartContinuation_svc :: "'w fin_env \<Rightarrow> 'w \<Rightarrow> int \<Rightarrow> int \<Rightarrow> ret \<Rightarrow> u32 \<Rightarrow> ('w, ret) fprog" where
  "StartContinuation_svc env want i uid status tok = do {
     _ \<leftarrow> DealDSchedEventResult env want status;
     s \<leftarrow> mget;
     if status \<noteq> ERR_OK then do { NotifyContinuationCallbackResult_first env i status; mreturn INVALID_REMOTE_PARAMETERS_ERR }
     else if \<not> vwContinuationFlag env want then mreturn INVALID_REMOTE_PARAMETERS_ERR
     else if \<not> started s then mreturn INVALID_REMOTE_PARAMETERS_ERR
     else do {
       (if \<not> IsInContinuationProgress i s then SetTimeOut_first env i CONTINUATION_TIMEOUT else mreturn ());
       case SetWantForContinuation_svc env want i of (r, newWant) \<Rightarrow>
         if r \<noteq> ERR_OK then mreturn r
         else do {
           SetCleanMissionFlag_svc env want i;
           if GetIsFreeInstall i s then StartRemoteFreeInstall env newWant uid DEFAULT_REQUEST_CODE tok None
           else in_svc (StartRemoteAbility (fsvc env) newWant uid DEFAULT_REQUEST_CODE tok)
         }
     }
   }"

subsection \<open>Requests to continue a mission\<close>

definition RemoveContinuationTimeout :: "int \<Rightarrow> ('w, unit) fprog" where
  "RemoveContinuationTimeout i = do { s \<leftarrow> mget; if \<not> started s then mreturn () else RemoveTimeOut i }"

definition SetContinuationTimeout :: "'w fin_env \<Rightarrow> int \<Rightarrow> int \<Rightarrow> ('w, unit) fprog" where
  "SetContinuationTimeout env i timeout = do { s \<leftarrow> mget; if \<not> started s then mreturn () else SetTimeOut_first env i timeout }"

definition GetContinuaitonDevice :: "int \<Rightarrow> 'w fin \<Rightarrow> string" where
  "GetContinuaitonDevice i s = (if \<not> started s then [] else GetTargetDevice i s)"

definition ContinueAbilityWithTimeout :: "'w fin_env \<Rightarrow> string \<Rightarrow> int \<Rightarrow> remote_obj option \<Rightarrow> nat \<Rightarrow> ('w, ret) fprog" where
  "ContinueAbilityWithTimeout env dst i cbo remoteVersion = do {
     s \<leftarrow> mget;
     if \<not> started s then mreturn INVALID_PARAMETERS_ERR
     else do {
       pushed \<leftarrow> PushCallback_first i cbo dst False;
       if \<not> pushed then mreturn CONTINUE_ALREADY_IN_PROGRESS
       else do {
         SetContinuationTimeout env i CONTINUATION_TIMEOUT;
         result \<leftarrow> fask env (AmsContinueAbility dst i remoteVersion);
         mreturn (if result = AMS_INVALID_VALUE env then MISSION_FOR_CONTINUING_IS_NOT_ALIVE else result)
       }
     }
   }"

definition ContinueLocalMissionDealFreeInstall :: "'w fin_env \<Rightarrow> 'w \<Rightarrow> int \<Rightarrow> string \<Rightarrow> remote_obj option \<Rightarrow> ('w, ret) fprog" where
  "ContinueLocalMissionDealFreeInstall env want i dst cbo =
     (if \<not> vwBool (svw (fsvc env)) ''isFreeInstall'' False want then mreturn CONTINUE_REMOTE_UNINSTALLED_SUPPORT_FREEINSTALL
      else do {
        s \<leftarrow> mget;
        if \<not> started s then mreturn INVALID_PARAMETERS_ERR
        else do {
          _ \<leftarrow> PushCallback_first i cbo dst True;
          SetContinuationTimeout env i CHECK_REMOTE_INSTALL_ABILITY;
          let want' = vwSetDeviceId env dst want;
          fcall (BmsCanInstall want' i);
          if \<not> canInstall env want' i
          then do { RemoveContinuationTimeout i; _ \<leftarrow> PopCallback_first i; mreturn INVALID_PARAMETERS_ERR }
          else mreturn ERR_OK
        }
      })"

definition ContinueLocalMission :: "'w fin_env \<Rightarrow> string \<Rightarrow> int \<Rightarrow> remote_obj option \<Rightarrow> 'w \<Rightarrow> ('w, ret) fprog" where
  "ContinueLocalMission env dst i cbo params =
     (if \<not> continueSwitchOn (fsvc env) then mreturn SCHED_PERMISSION_DENIED
      else do {
        s \<leftarrow> mget;
        if \<not> started s then mreturn INVALID_PARAMETERS_ERR
        else if IsInContinuationProgress i s then mreturn CONTINUE_ALREADY_IN_PROGRESS
        else if remoteVersionLower env dst then ContinueAbilityWithTimeout env dst i cbo 0
        else case missionOf env i of (r, want, active) \<Rightarrow>
          if r \<noteq> ERR_OK then mreturn NO_MISSION_INFO_FOR_MISSION_ID
          else if \<not> active then mreturn INVALID_PARAMETERS_ERR
          else if \<not> continueConfigured env (vwBundle env want) then mreturn REMOTE_DEVICE_BIND_ABILITY_ERR
          else (case remoteBundleOf env dst (vwBundle env want) of (r, v) \<Rightarrow>
            if r = ERR_OK then ContinueAbilityWithTimeout env dst i cbo v
            else if r = CONTINUE_REMOTE_UNINSTALLED_UNSUPPORT_FREEINSTALL then mreturn r
            else ContinueLocalMissionDealFreeInstall env (vwSetParams env params want) i dst cbo)
      })"

definition ContinueRemoteMission :: "'w fin_env \<Rightarrow> string \<Rightarrow> string \<Rightarrow> int \<Rightarrow> remote_obj \<Rightarrow> 'w \<Rightarrow> ('w, ret) fprog" where
  "ContinueRemoteMission env src dst i cb params =
     (if \<not> continueSwitchOn (fsvc env) then mreturn SCHED_PERMISSION_DENIED
      else if \<not> GetRemoteDms_svc (fsvc env) src then mreturn INVALID_REMOTE_PARAMETERS_ERR
      else case missionOf env i of (r, _) \<Rightarrow>
        if r \<noteq> ERR_OK then mreturn r else fask env (RemoteContinueMission src dst i cb params))"

definition ContinueRemoteMission_bundle :: "'w fin_env \<Rightarrow> string \<Rightarrow> string \<Rightarrow> string \<Rightarrow> remote_obj \<Rightarrow> 'w \<Rightarrow> ('w, ret) fprog" where
  "ContinueRemoteMission_bundle env src dst bundle cb params = do {
     s \<leftarrow> mget;
     if \<not> GetRemoteDms_svc (fsvc env) src
     then if \<not> started s then mreturn INVALID_PARAMETERS_ERR
       else do { _ \<leftarrow> NotifyEventListeners env INVALID_REMOTE_PARAMETERS_ERR; mreturn INVALID_REMOTE_PARAMETERS_ERR }
     else do {
       result \<leftarrow> fask env (RemoteContinueBundle src dst bundle cb params);
       if result = ERR_OK then mreturn result
       else if \<not> started s then mreturn INVALID_PARAMETERS_ERR
       else do { _ \<leftarrow> NotifyEventListeners env result; mreturn result }
     }
   }"

text \<open>Both overloads of \<^verbatim>\<open>ContinueMission\<close> check the devices in the same way.\<close>

definition ContinueMission_first :: "'w fin_env \<Rightarrow> string \<Rightarrow> string \<Rightarrow> int \<Rightarrow> remote_obj option \<Rightarrow> 'w \<Rightarrow> ('w, ret) fprog" where
  "ContinueMission_first env src dst i cbo params0 =
     (let params = vwRemove (svw (fsvc env)) DMS_CALLING_UID params0 in
      case cbo of
        None \<Rightarrow> mreturn INVALID_PARAMETERS_ERR
      | Some cb \<Rightarrow>
          if src = [] \<or> dst = [] then mreturn INVALID_PARAMETERS_ERR
          else (case svc_local_device (fsvc env) of
              None \<Rightarrow> mreturn INVALID_PARAMETERS_ERR
            | Some here \<Rightarrow>
                if src = here
                then if \<not> finKnownDevice env dst then mreturn INVALID_REMOTE_PARAMETERS_ERR else ContinueLocalMission env dst i cbo params
                else if dst = here
                then if \<not> finKnownDevice env src then mreturn INVALID_REMOTE_PARAMETERS_ERR else ContinueRemoteMission env src dst i cb params
                else mreturn OPERATION_DEVICE_NOT_INITIATOR_OR_TARGET))"

definition ProcessContinueLocalMission :: "'w fin_env \<Rightarrow> string \<Rightarrow> string \<Rightarrow> string \<Rightarrow> remote_obj option \<Rightarrow> 'w \<Rightarrow> ('w, ret) fprog" where
  "ProcessContinueLocalMission env src dst bundle cbo params =
     (if \<not> finKnownDevice env dst then mreturn INVALID_REMOTE_PARAMETERS_ERR
      else if missionManagerPart env \<and> \<not> sendMgrPresent env then mreturn DMS_NOT_GET_MANAGER
      else case (if missionManagerPart env then bundleMission env bundle else (ERR_OK, 1)) of (r, i) \<Rightarrow>
        if r \<noteq> ERR_OK then mreturn r
        else do {
          s \<leftarrow> mget;
          if \<not> started s then mreturn INVALID_PARAMETERS_ERR
          else do {
            mupd (\<lambda>s. s\<lparr>fcEvent := fcEvent s\<lparr>srcNetworkId := src, dstNetworkId := dst\<rparr>\<rparr>);
            ContinueLocalMission env dst i cbo params
          }
        })"

definition ProcessContinueRemoteMission :: "'w fin_env \<Rightarrow> string \<Rightarrow> string \<Rightarrow> string \<Rightarrow> remote_obj \<Rightarrow> 'w \<Rightarrow> ('w, ret) fprog" where
  "ProcessContinueRemoteMission env src dst bundle cb params =
     (if \<not> finKnownDevice env src then mreturn INVALID_REMOTE_PARAMETERS_ERR
      else do {
        s \<leftarrow> mget;
        if \<not> started s then mreturn INVALID_PARAMETERS_ERR
        else do {
          mupd (\<lambda>s. s\<lparr>fcEvent := fcEvent s\<lparr>srcNetworkId := dst, dstNetworkId := src\<rparr>\<rparr>);
          ContinueRemoteMission_bundle env src dst bundle cb params
        }
      })"

definition ContinueMission_bundle :: "'w fin_env \<Rightarrow> string \<Rightarrow> string \<Rightarrow> string \<Rightarrow> remote_obj option \<Rightarrow> 'w \<Rightarrow> ('w, ret) fprog" where
  "ContinueMission_bundle env src dst bundle cbo params0 =
     (let params = vwRemove (svw (fsvc env)) DMS_CALLING_UID params0 in
      case cbo of
        None \<Rightarrow> mreturn INVALID_PARAMETERS_ERR
      | Some cb \<Rightarrow>
          if src = [] \<or> dst = [] then mreturn INVALID_PARAMETERS_ERR
          else (case svc_local_device (fsvc env) of
              None \<Rightarrow> mreturn INVALID_PARAMETERS_ERR
            | Some here \<Rightarrow>
                if src = here then ProcessContinueLocalMission env src dst bundle cbo params
                else if dst = here then ProcessContinueRemoteMission env src dst bundle cb params
                else mreturn OPERATION_DEVICE_NOT_INITIATOR_OR_TARGET))"

subsection \<open>Listeners of events\<close>

datatype dsched_event_type = DMS_UNKNOW | DMS_CONTINUE | DMS_COLLABORATION | DMS_ALL

definition RegisterDSchedEventListener ::
    "'w fin_env \<Rightarrow> string option \<Rightarrow> dsched_event_type \<Rightarrow> remote_obj option \<Rightarrow> ('w, ret) fprog" where
  "RegisterDSchedEventListener env bundle ty cbo = do {
     s \<leftarrow> mget;
     if \<not> started s then mreturn INVALID_PARAMETERS_ERR
     else if ty = DMS_UNKNOW then mreturn INVALID_PARAMETERS_ERR
     else do {
       ok \<leftarrow> (case ty of
           DMS_COLLABORATION \<Rightarrow> PushCollabListener env bundle cbo
         | DMS_ALL \<Rightarrow> do { ok \<leftarrow> PushListener env cbo; if ok then PushCollabListener env bundle cbo else mreturn False }
         | _ \<Rightarrow> PushListener env cbo);
       mreturn (if ok then ERR_OK else LISTENER_HAS_NOT_REGISTERED)
     }
   }"

definition UnRegisterDSchedEventListener :: "dsched_event_type \<Rightarrow> remote_obj option \<Rightarrow> ('w, ret) fprog" where
  "UnRegisterDSchedEventListener ty cbo = do {
     s \<leftarrow> mget;
     if \<not> started s then mreturn INVALID_PARAMETERS_ERR
     else do {
       _ \<leftarrow> (case ty of
           DMS_UNKNOW \<Rightarrow> mreturn False
         | DMS_COLLABORATION \<Rightarrow> CleanupCollabListener cbo
         | DMS_ALL \<Rightarrow> do { ok \<leftarrow> CleanupListener cbo; if ok then CleanupCollabListener cbo else mreturn False }
         | DMS_CONTINUE \<Rightarrow> CleanupListener cbo);
       mreturn ERR_OK
     }
   }"

definition EventListenerDied :: "remote_obj option \<Rightarrow> ('w, ret) fprog" where
  "EventListenerDied cbo = UnRegisterDSchedEventListener DMS_ALL cbo"

definition GetContinueInfo_first :: "'w fin \<Rightarrow> (string \<times> string) option" where
  "GetContinueInfo_first s = (if \<not> started s then None else Some (snd (fcInfo s), fst (fcInfo s)))"

text \<open>\<open>None\<close> is the null pointer that the code uses when an application asks before the service has started.\<close>

definition GetContinueEventInfo :: "'w fin_env \<Rightarrow> int \<Rightarrow> 'w fin \<Rightarrow> event_notify list option" where
  "GetContinueEventInfo env uid s =
     (if uid = ANY_UID \<and> started s then Some [fcEvent s]
      else case svcBundleNames (fsvc env) uid of
        None \<Rightarrow> Some []
      | Some bs \<Rightarrow>
          if \<not> started s then (if bs = [] then Some [] else None)
          else Some (map (\<lambda>_. fcEvent s) (filter (\<lambda>b. b = srcBundleName (fcEvent s) \<or> b = destBundleName (fcEvent s)) bs)))"

definition GetDSchedEventInfo :: "'w fin_env \<Rightarrow> string option \<Rightarrow> dsched_event_type \<Rightarrow> 'w fin \<Rightarrow> (ret \<times> event_notify list) option" where
  "GetDSchedEventInfo env bundle ty s =
     (let uid = (if CheckCallingUid (fsvc env) then ANY_UID else callingUid (fsvc env));
          collab = GetCollaborateEventInfo (fsvc env) bundle uid (inner s) in
      case ty of
        DMS_UNKNOW \<Rightarrow> Some (INVALID_PARAMETERS_ERR, [])
      | DMS_CONTINUE \<Rightarrow> map_option (Pair ERR_OK) (GetContinueEventInfo env uid s)
      | DMS_COLLABORATION \<Rightarrow> Some (ERR_OK, collab)
      | DMS_ALL \<Rightarrow> map_option (\<lambda>es. (ERR_OK, es @ collab)) (GetContinueEventInfo env uid s))"

subsection \<open>Start of the service and time-outs\<close>

text \<open>
  \<^verbatim>\<open>DoStart\<close> makes the two objects; \<open>initialised\<close> is the answer of \<^verbatim>\<open>Init\<close>. The lambdas it hands to their handlers are the
  time-outs below, which the handlers run when an event is due.
\<close>

definition DoStart :: "bool \<Rightarrow> ('w, bool) fprog" where
  "DoStart initialised =
     (if \<not> initialised then mreturn False
      else do {
        mupd (\<lambda>s. fin_init\<lparr>inner := inner s, finCalls := finCalls s, started := True\<rparr>);
        mreturn True
      })"

definition ContinuationProcessEvent :: "'w fin_env \<Rightarrow> int \<Rightarrow> ('w, unit) fprog" where
  "ContinuationProcessEvent env i =
     (if i \<le> 0 then mreturn () else NotifyContinuationCallbackResult_first env i CONTINUE_ABILITY_TIMEOUT_ERR)"

definition CallbackProcessEvent :: "'w fin_env \<Rightarrow> int \<Rightarrow> ('w, unit) fprog" where
  "CallbackProcessEvent env i =
     (if i \<le> 0 then mreturn ()
      else do { _ \<leftarrow> NotifyCompleteFreeInstallFromRemote env i (FREE_INSTALL_TIMEOUT env); mreturn () })"

end
