(* ===== verification/Install_Safety.thy ===== *)
theory Install_Safety
  imports Service_Continue
begin

text \<open>
  Well-formedness of the tables of pending continuations, free installs and listeners, kept by every operation of the service.
  It is stated in three parts, each an effect bound of its own: the tasks, the missions and the listeners.
\<close>

subsection \<open>The invariants\<close>

definition tasks_ok :: "'w fin \<Rightarrow> bool" where
  "tasks_ok s \<longleftrightarrow>
     smap_ok (ctItems s) \<and> smap_ok (ctMissions s) \<and> 0 < sint (ctNext s) \<and> distinct (map fst (ctTimers s)) \<and>
     (\<forall>i item. smap_find (ctItems s) i = Some item \<longrightarrow> itemTaskId item = i \<and> 0 < i \<and> (itemLaunch item = FREEINSTALL_START \<longrightarrow> itemCallback item \<noteq> None)) \<and>
     (\<forall>i. i \<in> fst ` set (ctTimers s) \<longleftrightarrow> smap_find (ctItems s) i \<noteq> None) \<and>
     (\<forall>i m. smap_find (ctMissions s) i = Some m \<longrightarrow> 0 < i \<and> 0 < m)"

definition missions_ok :: "'w fin \<Rightarrow> bool" where
  "missions_ok s \<longleftrightarrow>
     smap_ok (fcCallbacks s) \<and> smap_ok (fcDevices s) \<and> smap_ok (fcFree s) \<and> smap_ok (fcClean s) \<and>
     (\<forall>i. smap_find (fcDevices s) i \<noteq> None \<longleftrightarrow> smap_find (fcCallbacks s) i \<noteq> None) \<and>
     (\<forall>i. smap_find (fcFree s) i \<noteq> None \<longrightarrow> smap_find (fcCallbacks s) i \<noteq> None) \<and>
     (\<forall>i. 0 < i \<longrightarrow> smap_find (fcCallbacks s) i \<noteq> None \<longrightarrow> i \<in> fst ` set (fcTimers s))"

definition listeners_ok :: "'w fin \<Rightarrow> bool" where
  "listeners_ok s \<longleftrightarrow> distinct (fcListeners s) \<and> distinct (collabListeners s)"

definition inv_keep :: "('s \<Rightarrow> bool) \<Rightarrow> 's \<Rightarrow> 's \<Rightarrow> bool" where
  "inv_keep P s s' \<longleftrightarrow> (P s \<longrightarrow> P s')"

interpretation ik: effect_order "inv_keep P" for P
  by unfold_locales (auto simp: inv_keep_def)

lemma inv_keepI: "(\<And>s. P s \<Longrightarrow> P (exec m s)) \<Longrightarrow> keeps (inv_keep P) m"
  by (simp add: keeps_def inv_keep_def)

lemma inv_keepD: "keeps (inv_keep P) m \<Longrightarrow> P s \<Longrightarrow> P (exec m s)"
  by (simp add: keeps_def inv_keep_def)

named_theorems fin_keeps \<open>programs that keep the invariants of pending continuations and installs\<close>

lemma fin_keeps_log [fin_keeps]:
  "keeps (inv_keep tasks_ok) (fcall c)" "keeps (inv_keep missions_ok) (fcall c)" "keeps (inv_keep listeners_ok) (fcall c)"
  "keeps (inv_keep tasks_ok) (fask env c)" "keeps (inv_keep missions_ok) (fask env c)" "keeps (inv_keep listeners_ok) (fask env c)"
  "keeps (inv_keep tasks_ok) (in_svc p)" "keeps (inv_keep missions_ok) (in_svc p)" "keeps (inv_keep listeners_ok) (in_svc p)"
  by (rule inv_keepI, simp add: tasks_ok_def missions_ok_def listeners_ok_def)+

lemma timers_left: "fst ` {x \<in> T. case x of (j, _) \<Rightarrow> j \<noteq> i} = fst ` T - {i}"
  by force

subsection \<open>Tasks\<close>

lemma sint_next:
  fixes x :: "64 word"
  assumes "0 < sint x"
  shows "0 < sint (if sint x = 2 ^ 63 - 1 then 1 else x + 1)"
proof (cases "sint x = 2 ^ 63 - 1")
  case False
  have "sint x < 2 ^ 63"
    using sint_lt [of x] by simp
  with False assms have "signed_take_bit 63 (sint x + 1) = sint x + 1"
    by (intro signed_take_bit_int_eq_self) simp_all
  then have "sint (x + 1) = sint x + 1"
    by (simp add: sint_word_ariths(1))
  with False assms show ?thesis
    by simp
qed simp

lemma tasks_GenerateTaskId [fin_keeps]: "keeps (inv_keep tasks_ok) GenerateTaskId"
proof (rule inv_keepI)
  fix s :: "'a fin"
  assume "tasks_ok s"
  then show "tasks_ok (exec GenerateTaskId s)"
    using sint_next [of "ctNext s"] by (simp add: GenerateTaskId_def tasks_ok_def)
qed

lemma tasks_pushed:
  assumes "tasks_ok s" "0 < i" "smap_find (ctItems s) i = None" "itemTaskId item = i"
    and "itemLaunch item = FREEINSTALL_START \<longrightarrow> itemCallback item \<noteq> None"
  shows "tasks_ok (s\<lparr>ctTimers := ctTimers s @ [(i, d)], ctItems := smap_insert i item (ctItems s)\<rparr>)"
  using assms unfolding tasks_ok_def by (auto simp: sm.find_ins sm.ok_ins split: if_splits)

lemma tasks_PushCallback [fin_keeps]: "keeps (inv_keep tasks_ok) (PushCallback_task env i cbo dev launch want)"
proof (rule inv_keepI)
  fix s :: "'a fin"
  assume "tasks_ok s"
  then show "tasks_ok (exec (PushCallback_task env i cbo dev launch want) s)"
    using tasks_pushed [of s i "\<lparr>itemCallback = cbo, itemTaskId = i, itemLaunch = launch, itemDevice = dev, itemWant = want\<rparr>" CALLBACK_DELAY_TIME]
    by (auto simp: PushCallback_task_def)
qed

lemma tasks_popped:
  assumes "tasks_ok s"
  shows "tasks_ok (s\<lparr>ctTimers := filter (\<lambda>(j, _). j \<noteq> i) (ctTimers s), ctItems := smap_erase i (ctItems s)\<rparr>)"
proof -
  have "distinct (map fst (filter (\<lambda>(j, _). j \<noteq> i) ts))" if "distinct (map fst ts)" for ts :: "(int \<times> int) list"
    using that by (induction ts) auto
  then show ?thesis
    using assms unfolding tasks_ok_def by (auto simp: timers_left sm.find_del sm.ok_del split: if_splits)
qed

lemma exec_PopCallback_task:
  "exec (PopCallback_task i) s = (case smap_find (ctItems s) i of None \<Rightarrow> s
     | Some item \<Rightarrow> s\<lparr>ctTimers := filter (\<lambda>(j, _). j \<noteq> i) (ctTimers s), ctItems := smap_erase i (ctItems s)\<rparr>)"
  "outcome (PopCallback_task i) s = smap_find (ctItems s) i"
  by (simp_all add: PopCallback_task_def RemoveTaskEvent_def split: option.split)

lemma tasks_PopCallback [fin_keeps]: "keeps (inv_keep tasks_ok) (PopCallback_task i)"
  by (rule inv_keepI) (auto simp: exec_PopCallback_task tasks_popped split: option.split)

lemma tasks_missions [fin_keeps]:
  "keeps (inv_keep tasks_ok) (PopContinuationMissionMap i)" "keeps (inv_keep tasks_ok) (SetContinuationMissionMap i m)"
  by (rule inv_keepI, auto simp: PopContinuationMissionMap_def SetContinuationMissionMap_def tasks_ok_def sm.find_del sm.ok_del sm.find_put sm.ok_put
      split: if_splits)+

lemma tasks_fc [fin_keeps]:
  "keeps (inv_keep tasks_ok) (fc_send_event env i d)" "keeps (inv_keep tasks_ok) (RemoveTimeOut i)"
  "keeps (inv_keep tasks_ok) (PushCallback_first i cbo dev b)" "keeps (inv_keep tasks_ok) (PopCallback_first i)"
  "keeps (inv_keep tasks_ok) (SetCleanMissionFlag_first i b)" "keeps (inv_keep tasks_ok) (CleanupListener cbo)"
  "keeps (inv_keep tasks_ok) (CleanupCollabListener cbo)"
  by (rule inv_keepI, auto simp: fc_send_event_def RemoveTimeOut_def PushCallback_first_def PopCallback_first_def SetCleanMissionFlag_first_def
      CleanupListener_def CleanupCollabListener_def tasks_ok_def split: option.split)+

subsection \<open>Missions\<close>

lemma missions_ct [fin_keeps]:
  "keeps (inv_keep missions_ok) GenerateTaskId" "keeps (inv_keep missions_ok) (PushCallback_task env i cbo dev launch want)"
  "keeps (inv_keep missions_ok) (PopCallback_task i)" "keeps (inv_keep missions_ok) (PopContinuationMissionMap i)"
  "keeps (inv_keep missions_ok) (SetContinuationMissionMap i m)" "keeps (inv_keep missions_ok) (CleanupListener cbo)"
  "keeps (inv_keep missions_ok) (CleanupCollabListener cbo)"
  by (rule inv_keepI, auto simp: GenerateTaskId_def PushCallback_task_def exec_PopCallback_task PopContinuationMissionMap_def
      SetContinuationMissionMap_def CleanupListener_def CleanupCollabListener_def missions_ok_def split: option.split)+

lemma missions_event [fin_keeps]: "keeps (inv_keep missions_ok) (fc_send_event env i d)"
  by (rule inv_keepI) (auto simp: fc_send_event_def missions_ok_def)

lemma missions_clean [fin_keeps]: "keeps (inv_keep missions_ok) (SetCleanMissionFlag_first i b)"
  by (rule inv_keepI) (auto simp: SetCleanMissionFlag_first_def missions_ok_def sm.ok_ins)

lemma exec_PopCallback_first:
  "exec (PopCallback_first i) s = (if smap_find (fcCallbacks s) i = None then s
     else s\<lparr>fcDevices := smap_erase i (fcDevices s), fcFree := smap_erase i (fcFree s), fcClean := smap_erase i (fcClean s),
       fcCallbacks := smap_erase i (fcCallbacks s)\<rparr>)"
  "outcome (PopCallback_first i) s = smap_find (fcCallbacks s) i"
  by (auto simp: PopCallback_first_def split: option.split)

text \<open>Taking a callback away, with or without its time-out, and adding one with a time-out.\<close>

lemma missions_popped:
  assumes "missions_ok s"
  shows "missions_ok (exec (PopCallback_first i) s)" "missions_ok (exec (RemoveTimeOut i) (exec (PopCallback_first i) s))"
    "missions_ok (exec (PopCallback_first i) (exec (RemoveTimeOut i) s))"
  using assms unfolding missions_ok_def
  by (auto simp: exec_PopCallback_first RemoveTimeOut_def timers_left sm.find_del sm.ok_del split: if_splits)

lemma missions_pushed:
  assumes "missions_ok s" "smap_find (fcCallbacks s) i = None"
  shows "missions_ok (s\<lparr>fcCallbacks := smap_insert i cb (fcCallbacks s), fcDevices := smap_insert i dev (fcDevices s),
    fcFree := (if b then smap_put i True (fcFree s) else fcFree s), fcTimers := fcTimers s @ [(i, d)]\<rparr>)"
  using assms unfolding missions_ok_def by (auto simp: sm.find_ins sm.ok_ins sm.find_put sm.ok_put split: if_splits)

lemma missions_timer: "missions_ok s \<Longrightarrow> missions_ok (s\<lparr>fcTimers := fcTimers s @ [(i, d)]\<rparr>)"
  unfolding missions_ok_def by auto

lemma missions_result [fin_keeps]: "keeps (inv_keep missions_ok) (NotifyMissionCenterResult env i r)"
proof (rule inv_keepI)
  fix s :: "'a fin"
  assume ok: "missions_ok s"
  have "missions_ok (v\<lparr>finCalls := cs\<rparr>) = missions_ok v" for v :: "'a fin" and cs
    by (simp add: missions_ok_def)
  then show "missions_ok (exec (NotifyMissionCenterResult env i r) s)"
    using missions_popped(2) [OF ok] by (auto simp: NotifyMissionCenterResult_def split: option.split)
qed

subsection \<open>Listeners\<close>

lemma listeners_other [fin_keeps]:
  "keeps (inv_keep listeners_ok) GenerateTaskId" "keeps (inv_keep listeners_ok) (PushCallback_task env i cbo dev launch want)"
  "keeps (inv_keep listeners_ok) (PopCallback_task i)" "keeps (inv_keep listeners_ok) (PopContinuationMissionMap i)"
  "keeps (inv_keep listeners_ok) (SetContinuationMissionMap i m)" "keeps (inv_keep listeners_ok) (fc_send_event env i d)"
  "keeps (inv_keep listeners_ok) (RemoveTimeOut i)" "keeps (inv_keep listeners_ok) (PushCallback_first i cbo dev b)"
  "keeps (inv_keep listeners_ok) (PopCallback_first i)" "keeps (inv_keep listeners_ok) (SetCleanMissionFlag_first i b)"
  by (rule inv_keepI, auto simp: GenerateTaskId_def PushCallback_task_def exec_PopCallback_task PopContinuationMissionMap_def
      SetContinuationMissionMap_def fc_send_event_def RemoveTimeOut_def PushCallback_first_def exec_PopCallback_first
      SetCleanMissionFlag_first_def listeners_ok_def split: option.split)+

lemma listeners_cleanup [fin_keeps]:
  "keeps (inv_keep listeners_ok) (CleanupListener cbo)" "keeps (inv_keep listeners_ok) (CleanupCollabListener cbo)"
  by (rule inv_keepI, auto simp: CleanupListener_def CleanupCollabListener_def listeners_ok_def split: option.split)+

subsection \<open>The operations of the service\<close>

lemma keeps_tell_all [fin_keeps]: "(\<And>cb. keeps (inv_keep P) (f cb)) \<Longrightarrow> keeps (inv_keep P) (tell_all f cbs ok)"
  by (induction cbs arbitrary: ok) (auto intro!: ik.keeps_rules)

lemma keeps_each_event [fin_keeps]: "(\<And>e. keeps (inv_keep P) (f e)) \<Longrightarrow> keeps (inv_keep P) (each_event f es)"
  by (induction es) (auto intro!: ik.keeps_rules)

text \<open>Programs that only log, for any invariant that does not read the log.\<close>

lemma tell_keeps [fin_keeps]:
  assumes "\<And>c. keeps (inv_keep P) (fask env c)"
  shows "keeps (inv_keep P) (NotifyDSchedEventForOneCB env cb r)" "keeps (inv_keep P) (NotifyCollabEventForOneCB env e cb)"
    "keeps (inv_keep P) (NotifyEventListeners env r)" "keeps (inv_keep P) (NotifyCollabListeners env e)"
    "keeps (inv_keep P) (NotifyFreeInstallResult env item r)"
  unfolding NotifyDSchedEventForOneCB_def NotifyCollabEventForOneCB_def NotifyEventListeners_def NotifyCollabListeners_def
    NotifyFreeInstallResult_def by (intro ik.keeps_rules keeps_tell_all assms)+

lemma listeners_added:
  "listeners_ok s \<Longrightarrow> cb \<notin> set (fcListeners s) \<Longrightarrow> listeners_ok (s\<lparr>fcListeners := fcListeners s @ [cb], finCalls := cs\<rparr>)"
  "listeners_ok s \<Longrightarrow> cb \<notin> set (collabListeners s) \<Longrightarrow> listeners_ok (s\<lparr>collabListeners := collabListeners s @ [cb], finCalls := cs\<rparr>)"
  by (simp_all add: listeners_ok_def)

lemma listeners_push [fin_keeps]:
  "keeps (inv_keep listeners_ok) (PushListener env cbo)" "keeps (inv_keep listeners_ok) (PushCollabListener env bundle cbo)"
proof -
  have log: "keeps (inv_keep listeners_ok) (NotifyDSchedEventForOneCB env cb ERR_OK)"
    "keeps (inv_keep listeners_ok) (each_event (\<lambda>e. NotifyCollabEventForOneCB env e cb) es)" for cb es
    by (intro fin_keeps)+
  show "keeps (inv_keep listeners_ok) (PushListener env cbo)"
    by (rule inv_keepI) (auto simp: PushListener_def listeners_added split: option.split intro!: inv_keepD [OF log(1)])
  show "keeps (inv_keep listeners_ok) (PushCollabListener env bundle cbo)"
    by (rule inv_keepI) (auto simp: PushCollabListener_def listeners_added split: option.split intro!: inv_keepD [OF log(2)])
qed

lemma other_push [fin_keeps]:
  "keeps (inv_keep tasks_ok) (PushListener env cbo)" "keeps (inv_keep tasks_ok) (PushCollabListener env bundle cbo)"
  "keeps (inv_keep missions_ok) (PushListener env cbo)" "keeps (inv_keep missions_ok) (PushCollabListener env bundle cbo)"
proof -
  have upd: "keeps (inv_keep tasks_ok) (mupd (\<lambda>s. s\<lparr>fcListeners := fcListeners s @ [cb]\<rparr>))"
    "keeps (inv_keep tasks_ok) (mupd (\<lambda>s. s\<lparr>collabListeners := collabListeners s @ [cb]\<rparr>))"
    "keeps (inv_keep missions_ok) (mupd (\<lambda>s. s\<lparr>fcListeners := fcListeners s @ [cb]\<rparr>))"
    "keeps (inv_keep missions_ok) (mupd (\<lambda>s. s\<lparr>collabListeners := collabListeners s @ [cb]\<rparr>))" for cb
    by (rule inv_keepI, simp add: tasks_ok_def missions_ok_def)+
  show "keeps (inv_keep tasks_ok) (PushListener env cbo)" "keeps (inv_keep tasks_ok) (PushCollabListener env bundle cbo)"
    "keeps (inv_keep missions_ok) (PushListener env cbo)" "keeps (inv_keep missions_ok) (PushCollabListener env bundle cbo)"
    unfolding PushListener_def PushCollabListener_def by (intro ik.keeps_rules upd fin_keeps)+
qed

lemma result_keeps [fin_keeps]:
  "keeps (inv_keep tasks_ok) (NotifyMissionCenterResult env i r)" "keeps (inv_keep listeners_ok) (NotifyMissionCenterResult env i r)"
  unfolding NotifyMissionCenterResult_def by (intro ik.keeps_rules fin_keeps)+

lemma callback_result_keeps [fin_keeps]:
  "keeps (inv_keep tasks_ok) (NotifyContinuationCallbackResult_first env i r)"
  "keeps (inv_keep listeners_ok) (NotifyContinuationCallbackResult_first env i r)"
  unfolding NotifyContinuationCallbackResult_first_def by (intro ik.keeps_rules fin_keeps)+

lemma missions_timer_removed: "missions_ok s \<Longrightarrow> smap_find (fcCallbacks s) i = None \<Longrightarrow> missions_ok (exec (RemoveTimeOut i) s)"
  unfolding missions_ok_def by (auto simp: RemoveTimeOut_def timers_left)

lemma missions_callback_result [fin_keeps]: "keeps (inv_keep missions_ok) (NotifyContinuationCallbackResult_first env i r)"
proof (rule inv_keepI)
  fix s :: "'a fin"
  assume ok: "missions_ok s"
  then have log: "missions_ok (s\<lparr>finCalls := cs\<rparr>)" for cs
    by (simp add: missions_ok_def)
  show "missions_ok (exec (NotifyContinuationCallbackResult_first env i r) s)"
    using ok by (auto simp: NotifyContinuationCallbackResult_first_def IsInContinuationProgress_def
        intro!: inv_keepD [OF missions_result] missions_timer_removed log)
qed

lemma upd_keeps [fin_keeps]:
  "keeps (inv_keep tasks_ok) (mupd (\<lambda>s. s\<lparr>fcEvent := f s\<rparr>))" "keeps (inv_keep tasks_ok) (mupd (\<lambda>s. s\<lparr>fcInfo := j\<rparr>))"
  "keeps (inv_keep tasks_ok) (mupd (\<lambda>s. if started s then s\<lparr>fcInfo := j\<rparr> else s))"
  "keeps (inv_keep missions_ok) (mupd (\<lambda>s. s\<lparr>fcEvent := f s\<rparr>))" "keeps (inv_keep missions_ok) (mupd (\<lambda>s. s\<lparr>fcInfo := j\<rparr>))"
  "keeps (inv_keep missions_ok) (mupd (\<lambda>s. if started s then s\<lparr>fcInfo := j\<rparr> else s))"
  "keeps (inv_keep listeners_ok) (mupd (\<lambda>s. s\<lparr>fcEvent := f s\<rparr>))" "keeps (inv_keep listeners_ok) (mupd (\<lambda>s. s\<lparr>fcInfo := j\<rparr>))"
  "keeps (inv_keep listeners_ok) (mupd (\<lambda>s. if started s then s\<lparr>fcInfo := j\<rparr> else s))"
  by (rule inv_keepI, simp add: tasks_ok_def missions_ok_def listeners_ok_def)+

lemma events_keep [fin_keeps]:
  assumes "P = tasks_ok \<or> P = missions_ok \<or> P = listeners_ok"
  shows "keeps (inv_keep P) (NotifyDSchedEventCallbackResult env r)" "keeps (inv_keep P) (NotifyContinuateEventResult env r e)"
    "keeps (inv_keep P) (NotifyDSchedEventResultFromRemote env r)" "keeps (inv_keep P) (NotifyContinuationResultFromRemote env sid b)"
    "keeps (inv_keep P) (NotifyCompleteContinuation_svc env dev sid b)" "keeps (inv_keep P) (DealDSchedEventResult env want r)"
    "keeps (inv_keep P) (SetTimeOut_first env i d)" "keeps (inv_keep P) (SetCleanMissionFlag_svc env want i)"
    "keeps (inv_keep P) (RegisterDSchedEventListener env bundle ty cbo)" "keeps (inv_keep P) (UnRegisterDSchedEventListener ty cbo)"
    "keeps (inv_keep P) (StartFreeInstallFromRemote env info i)" "keeps (inv_keep P) (HandleRemoteNotify env info i r)"
    "keeps (inv_keep P) (StartLocalAbility env info)"
  using assms unfolding NotifyDSchedEventCallbackResult_def NotifyContinuateEventResult_def NotifyDSchedEventResultFromRemote_def
    NotifyContinuationResultFromRemote_def NotifyCompleteContinuation_svc_def DealDSchedEventResult_def SetTimeOut_first_def
    SetCleanMissionFlag_svc_def RegisterDSchedEventListener_def UnRegisterDSchedEventListener_def StartFreeInstallFromRemote_def
    HandleRemoteNotify_def StartLocalAbility_def
  by (elim disjE; simp only:; (cases ty)?; simp only: dsched_event_type.case; intro ik.keeps_rules fin_keeps)+

lemma installs_keep [fin_keeps]:
  assumes "P = tasks_ok \<or> P = missions_ok \<or> P = listeners_ok"
  shows "keeps (inv_keep P) (StartRemoteFreeInstall env want uid rc tok cbo)"
    "keeps (inv_keep P) (NotifyCompleteFreeInstall env info i r)" "keeps (inv_keep P) (NotifyCompleteFreeInstallFromRemote env i r)"
  using assms unfolding StartRemoteFreeInstall_def NotifyCompleteFreeInstall_def NotifyCompleteFreeInstallFromRemote_def
  by (elim disjE; simp only:; intro ik.keeps_rules fin_keeps; blast)+

lemma starts_keep [fin_keeps]:
  assumes "P = tasks_ok \<or> P = missions_ok \<or> P = listeners_ok"
  shows "keeps (inv_keep P) (StartContinuation_svc env want i uid status tok)" "keeps (inv_keep P) (ContinueRemoteMission env src dst i cb params)"
    "keeps (inv_keep P) (ContinueRemoteMission_bundle env src dst bundle cb params)"
    "keeps (inv_keep P) (ProcessContinueRemoteMission env src dst bundle cb params)"
  using assms unfolding StartContinuation_svc_def ContinueRemoteMission_def ContinueRemoteMission_bundle_def ProcessContinueRemoteMission_def
  by (elim disjE; simp only:; intro ik.keeps_rules fin_keeps; blast)+

lemma timeouts_keep [fin_keeps]:
  assumes "P = tasks_ok \<or> P = listeners_ok"
  shows "keeps (inv_keep P) (SetContinuationTimeout env i d)" "keeps (inv_keep P) (RemoveContinuationTimeout i)"
    "keeps (inv_keep P) (ContinueAbilityWithTimeout env dst i cbo v)" "keeps (inv_keep P) (ContinueLocalMissionDealFreeInstall env want i dst cbo)"
  using assms unfolding SetContinuationTimeout_def RemoveContinuationTimeout_def ContinueAbilityWithTimeout_def
    ContinueLocalMissionDealFreeInstall_def
  by (elim disjE; simp only:; intro ik.keeps_rules fin_keeps; blast)+

lemma missions_log: "missions_ok (s\<lparr>finCalls := cs\<rparr>) = missions_ok s"
  by (simp add: missions_ok_def)

text \<open>A callback that is pushed gets its time-out, as long as the handler accepts events.\<close>

definition pushed_with_timer :: "int \<Rightarrow> remote_obj option \<Rightarrow> string \<Rightarrow> bool \<Rightarrow> int \<Rightarrow> 'w fin \<Rightarrow> 'w fin" where
  "pushed_with_timer i cbo dev b d s = exec (PushCallback_first i cbo dev b) s\<lparr>fcTimers := fcTimers s @ [(i, d)]\<rparr>"

lemma missions_pushed_with_timer: "missions_ok s \<Longrightarrow> missions_ok (pushed_with_timer i cbo dev b d s)"
  using missions_pushed [of s i] missions_timer [of s i d]
  by (auto simp: pushed_with_timer_def PushCallback_first_def split: option.split)

lemma exec_pushed:
  assumes "eventSent env" "started s"
  shows "exec (SetContinuationTimeout env i d) (exec (PushCallback_first i cbo dev b) s) = pushed_with_timer i cbo dev b d s"
  using assms by (auto simp: pushed_with_timer_def SetContinuationTimeout_def SetTimeOut_first_def fc_send_event_def PushCallback_first_def
      split: option.split)

lemma started_pushed: "started (pushed_with_timer i cbo dev b d s) = started s"
  by (auto simp: pushed_with_timer_def PushCallback_first_def split: option.split)

lemma not_pushed: "\<not> outcome (PushCallback_first i cbo dev b) s \<Longrightarrow> exec (PushCallback_first i cbo dev b) s = s"
  by (auto simp: PushCallback_first_def split: option.splits)

lemma missions_continue:
  assumes "eventSent env"
  shows "keeps (inv_keep missions_ok) (ContinueAbilityWithTimeout env dst i cbo v)"
    "keeps (inv_keep missions_ok) (ContinueLocalMissionDealFreeInstall env want i dst cbo)"
proof -
  show "keeps (inv_keep missions_ok) (ContinueAbilityWithTimeout env dst i cbo v)"
    by (rule inv_keepI) (auto simp: ContinueAbilityWithTimeout_def exec_pushed assms missions_log missions_pushed_with_timer not_pushed)
  have pop: "missions_ok (exec (PopCallback_first i) (exec (RemoveContinuationTimeout i) (v\<lparr>finCalls := cs\<rparr>)))"
    if "missions_ok v" "started v" for v :: "'a fin" and cs
    using missions_popped(3) [of "v\<lparr>finCalls := cs\<rparr>" i] that by (simp add: RemoveContinuationTimeout_def missions_log)
  show "keeps (inv_keep missions_ok) (ContinueLocalMissionDealFreeInstall env want i dst cbo)"
    by (rule inv_keepI) (auto simp: ContinueLocalMissionDealFreeInstall_def exec_pushed started_pushed assms missions_log Let_def
        intro!: pop missions_pushed_with_timer)
qed

lemma continue_keeps [fin_keeps]:
  assumes "P = tasks_ok \<or> P = missions_ok \<or> P = listeners_ok" "eventSent env"
  shows "keeps (inv_keep P) (ContinueLocalMission env dst i cbo params)"
    "keeps (inv_keep P) (ContinueMission_first env src dst i cbo params)"
    "keeps (inv_keep P) (ContinueMission_bundle env src dst bundle cbo params)"
proof -
  have parts: "keeps (inv_keep P) (ContinueAbilityWithTimeout env dst i cbo v)"
    "keeps (inv_keep P) (ContinueLocalMissionDealFreeInstall env want i dst cbo)" for dst i v want
    using assms missions_continue by (auto intro: fin_keeps)
  have local: "keeps (inv_keep P) (ContinueLocalMission env dst i cbo params)" for dst i params
    unfolding ContinueLocalMission_def by (intro ik.keeps_rules parts)
  have event: "keeps (inv_keep P) (mupd (\<lambda>s. s\<lparr>fcEvent := f s\<rparr>))" for f
    using assms(1) by (elim disjE; simp only:; intro fin_keeps)
  show "keeps (inv_keep P) (ContinueLocalMission env dst i cbo params)"
    by (rule local)
  show "keeps (inv_keep P) (ContinueMission_first env src dst i cbo params)"
    unfolding ContinueMission_first_def by (intro ik.keeps_rules local starts_keep assms)
  show "keeps (inv_keep P) (ContinueMission_bundle env src dst bundle cbo params)"
    unfolding ContinueMission_bundle_def ProcessContinueLocalMission_def by (intro ik.keeps_rules local starts_keep event assms)
qed

lemma tasks_offline [fin_keeps]: "keeps (inv_keep tasks_ok) (NotifyDeviceOffline_task env dev)"
proof -
  have one: "tasks_ok (exec (offline_tasks env dev rest) v)"
    if "tasks_ok v" "\<forall>(i, item) \<in> set rest. itemTaskId item = i" for v :: "'a fin" and rest
    using that
  proof (induction rest arbitrary: v)
    case (Cons x rest)
    obtain i item where x: "x = (i, item)"
      by (cases x)
    have log: "exec (NotifyFreeInstallResult env it r) w = w\<lparr>finCalls := finCalls (exec (NotifyFreeInstallResult env it r) w)\<rparr>" for it r w
      by (auto simp: NotifyFreeInstallResult_def split: option.split)
    have "tasks_ok (exec (NotifyFreeInstallResult env (Some item) DEVICE_OFFLINE_ERR) (exec (RemoveTaskEvent i) v)
        \<lparr>ctItems := smap_erase i (ctItems (exec (NotifyFreeInstallResult env (Some item) DEVICE_OFFLINE_ERR) (exec (RemoveTaskEvent i) v)))\<rparr>)"
      using tasks_popped [OF Cons.prems(1), of i] by (subst log, subst (2) log) (simp add: RemoveTaskEvent_def tasks_ok_def)
    with Cons x show ?case
      by simp
  qed simp
  show ?thesis
  proof (rule inv_keepI)
    fix s :: "'a fin"
    assume ok: "tasks_ok s"
    then have "\<forall>(i, item) \<in> set (ctItems s). itemTaskId item = i"
      by (auto simp: tasks_ok_def smap_mem_find)
    with one [OF ok] show "tasks_ok (exec (NotifyDeviceOffline_task env dev) s)"
      by (simp add: NotifyDeviceOffline_task_def)
  qed
qed

lemma other_offline [fin_keeps]:
  "keeps (inv_keep missions_ok) (NotifyDeviceOffline_task env dev)" "keeps (inv_keep listeners_ok) (NotifyDeviceOffline_task env dev)"
proof -
  have upd: "keeps (inv_keep missions_ok) (mupd (\<lambda>s. s\<lparr>ctItems := f s\<rparr>))" "keeps (inv_keep missions_ok) (mupd (\<lambda>s. s\<lparr>ctTimers := g s\<rparr>))"
    "keeps (inv_keep listeners_ok) (mupd (\<lambda>s. s\<lparr>ctItems := f s\<rparr>))" "keeps (inv_keep listeners_ok) (mupd (\<lambda>s. s\<lparr>ctTimers := g s\<rparr>))" for f g
    by (rule inv_keepI, simp add: missions_ok_def listeners_ok_def)+
  have loop: "keeps (inv_keep missions_ok) (offline_tasks env dev rest)" "keeps (inv_keep listeners_ok) (offline_tasks env dev rest)" for rest
    by (induction rest; clarsimp simp: RemoveTaskEvent_def; intro ik.keeps_rules upd fin_keeps conjI impI; assumption)+
  show "keeps (inv_keep missions_ok) (NotifyDeviceOffline_task env dev)" "keeps (inv_keep listeners_ok) (NotifyDeviceOffline_task env dev)"
    unfolding NotifyDeviceOffline_task_def by (intro ik.keeps_rules loop)+
qed

lemma offline_keeps [fin_keeps]:
  assumes "P = tasks_ok \<or> P = missions_ok \<or> P = listeners_ok"
  shows "keeps (inv_keep P) (ProcessDeviceOffline_all env dev)"
  using assms unfolding ProcessDeviceOffline_all_def ProcessFreeInstallOffline_def
  by (elim disjE; simp only:; intro ik.keeps_rules fin_keeps)

subsection \<open>Runs of the service\<close>

text \<open>
  One operation after another; the handlers accept events. A handler, which exists once the service has started, runs an event by taking it from its queue. \<^verbatim>\<open>PushAbilityToken\<close>
  and \<^verbatim>\<open>PopAbilityToken\<close>, which share their identifiers with the missions, are called nowhere in the service.
\<close>

inductive fin_step :: "'w fin \<Rightarrow> 'w fin \<Rightarrow> bool" where
  do_start: "fin_step s (exec (DoStart b) s)"
| continue_mission: "eventSent env \<Longrightarrow> fin_step s (exec (ContinueMission_first env src dst i cbo params) s)"
| continue_bundle: "eventSent env \<Longrightarrow> fin_step s (exec (ContinueMission_bundle env src dst bundle cbo params) s)"
| start_continuation: "eventSent env \<Longrightarrow> fin_step s (exec (StartContinuation_svc env want i uid status tok) s)"
| complete_continuation: "fin_step s (exec (NotifyCompleteContinuation_svc env dev i b) s)"
| continuation_result: "fin_step s (exec (NotifyContinuationResultFromRemote env i b) s)"
| event_result: "fin_step s (exec (NotifyDSchedEventResultFromRemote env r) s)"
| event: "fin_step s (exec (NotifyContinuateEventResult env r e) s)"
| free_install: "eventSent env \<Longrightarrow> fin_step s (exec (StartRemoteFreeInstall env want uid rc tok cbo) s)"
| serve_install: "fin_step s (exec (StartFreeInstallFromRemote env info i) s)"
| installed: "fin_step s (exec (OnInstallFinished env info i want rc r) s)"
| install_result: "fin_step s (exec (NotifyCompleteFreeInstallFromRemote env i r) s)"
| offline: "fin_step s (exec (ProcessDeviceOffline_all env dev) s)"
| register: "fin_step s (exec (RegisterDSchedEventListener env b ty cbo) s)"
| unregister: "fin_step s (exec (UnRegisterDSchedEventListener ty cbo) s)"
| listener_died: "fin_step s (exec (EventListenerDied cbo) s)"
| continuation_timeout: "started s \<Longrightarrow> (i, d) \<in> set (fcTimers s) \<Longrightarrow>
    fin_step s (exec (ContinuationProcessEvent env i) (s\<lparr>fcTimers := remove1 (i, d) (fcTimers s)\<rparr>))"
| install_timeout: "started s \<Longrightarrow> (i, d) \<in> set (ctTimers s) \<Longrightarrow>
    fin_step s (exec (CallbackProcessEvent env i) (s\<lparr>ctTimers := remove1 (i, d) (ctTimers s)\<rparr>))"

inductive fin_reachable :: "'w fin \<Rightarrow> bool" where
  init: "fin_reachable fin_init"
| step: "fin_reachable s \<Longrightarrow> fin_step s s' \<Longrightarrow> fin_reachable s'"

definition fin_ok :: "'w fin \<Rightarrow> bool" where
  "fin_ok s \<longleftrightarrow> tasks_ok s \<and> missions_ok s \<and> listeners_ok s"

lemma fin_ok_init: "fin_ok fin_init"
  by (simp add: fin_ok_def tasks_ok_def missions_ok_def listeners_ok_def fin_init_def)

lemma fin_ok_exec:
  assumes "\<And>P :: 'w fin \<Rightarrow> bool. P = tasks_ok \<or> P = missions_ok \<or> P = listeners_ok \<Longrightarrow> keeps (inv_keep P) m"
  shows "fin_ok s \<Longrightarrow> fin_ok (exec m s)"
  using assms [of tasks_ok] assms [of missions_ok] assms [of listeners_ok] by (auto simp: fin_ok_def intro: inv_keepD)

text \<open>A due event leaves its queue before it is handled; handling it takes the entry it was for away.\<close>

lemma timer_task: "tasks_ok s \<Longrightarrow> (i, d) \<in> set (ctTimers s) \<Longrightarrow> (\<exists>item. smap_find (ctItems s) i = Some item) \<and> 0 < i"
proof -
  assume ok: "tasks_ok s" and mem: "(i, d) \<in> set (ctTimers s)"
  have "i \<in> fst ` set (ctTimers s)"
    using mem by (rule rev_image_eqI) simp
  with ok obtain item where "smap_find (ctItems s) i = Some item"
    unfolding tasks_ok_def by blast
  with ok show ?thesis
    unfolding tasks_ok_def by blast
qed

lemma filter_remove1_timer: "filter (\<lambda>(j, _). j \<noteq> i) (remove1 (i, d) ts) = filter (\<lambda>(j, _). j \<noteq> i) ts"
  by (induction ts) auto

lemma popped_after_due:
  assumes "tasks_ok s" "(i, d) \<in> set (ctTimers s)"
  shows "tasks_ok (exec (PopCallback_task i) (s\<lparr>ctTimers := remove1 (i, d) (ctTimers s)\<rparr>))"
  using tasks_popped [OF assms(1), of i] timer_task [OF assms] by (auto simp: exec_PopCallback_task filter_remove1_timer)

lemma installs_timeout_ok:
  assumes "fin_ok s" "started s" "(i, d) \<in> set (ctTimers s)"
  shows "fin_ok (exec (CallbackProcessEvent env i) (s\<lparr>ctTimers := remove1 (i, d) (ctTimers s)\<rparr>))"
proof -
  let ?s = "s\<lparr>ctTimers := remove1 (i, d) (ctTimers s)\<rparr>"
  have ok: "tasks_ok s"
    using assms(1) by (simp add: fin_ok_def)
  have "missions_ok ?s" "listeners_ok ?s"
    using assms(1) by (simp_all add: fin_ok_def missions_ok_def listeners_ok_def)
  then have "missions_ok (exec (CallbackProcessEvent env i) ?s)" "listeners_ok (exec (CallbackProcessEvent env i) ?s)"
    by (auto simp: CallbackProcessEvent_def intro!: inv_keepD [OF installs_keep(3)])
  moreover have "tasks_ok (exec (CallbackProcessEvent env i) ?s)"
    using popped_after_due [OF ok assms(3)] timer_task [OF ok assms(3)] assms(2)
    by (auto simp: CallbackProcessEvent_def NotifyCompleteFreeInstallFromRemote_def
        intro!: inv_keepD [OF tasks_missions(1)] inv_keepD [OF callback_result_keeps(1)] inv_keepD [OF tell_keeps(5) [OF fin_keeps_log(4)]])
  ultimately show ?thesis
    by (simp add: fin_ok_def)
qed

lemma exec_NotifyMissionCenterResult:
  "exec (NotifyMissionCenterResult env i r) s = (let v = exec (RemoveTimeOut i) (exec (PopCallback_first i) s) in
     case smap_find (fcCallbacks s) i of None \<Rightarrow> v
     | Some cb \<Rightarrow> if parcelWrites (fsvc env) then v\<lparr>finCalls := finCalls v @ [TellMission cb r]\<rparr> else v)"
  by (simp add: NotifyMissionCenterResult_def exec_PopCallback_first(2) Let_def split: option.split)

text \<open>The result of a mission takes all its events away, so that it does not matter whether one of them has just been taken.\<close>

lemma pop_after_due:
  "exec (RemoveTimeOut i) (exec (PopCallback_first i) (s\<lparr>fcTimers := remove1 (i, d) (fcTimers s), finCalls := cs\<rparr>)) =
     exec (RemoveTimeOut i) (exec (PopCallback_first i) (s\<lparr>finCalls := cs\<rparr>))"
  by (simp add: exec_PopCallback_first RemoveTimeOut_def filter_remove1_timer)

lemma center_after_due:
  "exec (NotifyMissionCenterResult env i r) (s\<lparr>fcTimers := remove1 (i, d) (fcTimers s), finCalls := cs\<rparr>) =
     exec (NotifyMissionCenterResult env i r) (s\<lparr>finCalls := cs\<rparr>)"
  by (simp add: exec_NotifyMissionCenterResult pop_after_due)

lemma result_after_due:
  assumes "started s"
  shows "exec (NotifyContinuationCallbackResult_first env i r) (s\<lparr>fcTimers := remove1 (i, d) (fcTimers s)\<rparr>) =
    exec (NotifyContinuationCallbackResult_first env i r) s"
proof (cases "IsInContinuationProgress i s")
  case True
  then have "IsInContinuationProgress i (s\<lparr>fcTimers := t\<rparr>)" "IsCleanMission i (s\<lparr>fcTimers := t\<rparr>) = IsCleanMission i s" for t
    by (simp_all add: IsInContinuationProgress_def IsCleanMission_def)
  moreover have "exec (NotifyMissionCenterResult env i r) (s\<lparr>fcTimers := remove1 (i, d) (fcTimers s)\<rparr>) = exec (NotifyMissionCenterResult env i r) s"
    using center_after_due [where cs = "finCalls s" and s = s] by simp
  ultimately show ?thesis
    using True assms by (simp add: NotifyContinuationCallbackResult_first_def center_after_due)
next
  case False
  then have "\<not> IsInContinuationProgress i (s\<lparr>fcTimers := t\<rparr>)" for t
    by (simp add: IsInContinuationProgress_def)
  with False assms show ?thesis
    by (simp add: NotifyContinuationCallbackResult_first_def RemoveTimeOut_def filter_remove1_timer)
qed

lemma continuation_timeout_ok:
  assumes "fin_ok s" "started s"
  shows "fin_ok (exec (ContinuationProcessEvent env i) (s\<lparr>fcTimers := remove1 (i, d) (fcTimers s)\<rparr>))"
proof (cases "i \<le> 0")
  case True
  have "fst ` set ts - {i} \<subseteq> fst ` set (remove1 (i, d) ts)" for ts :: "(int \<times> int) list"
    by (induction ts) auto
  then have "j \<in> fst ` set (fcTimers s) \<Longrightarrow> 0 < j \<Longrightarrow> j \<in> fst ` set (remove1 (i, d) (fcTimers s))" for j
    using True by fastforce
  then show ?thesis
    using True assms(1) by (simp add: ContinuationProcessEvent_def fin_ok_def tasks_ok_def missions_ok_def listeners_ok_def)
next
  case False
  have "fin_ok (exec (NotifyContinuationCallbackResult_first env i r) s)" for r
    using assms(1) by (rule fin_ok_exec [rotated]) (elim disjE; simp only:; intro fin_keeps)
  with False show ?thesis
    by (simp add: ContinuationProcessEvent_def result_after_due assms(2))
qed

lemma fin_ok_DoStart: "fin_ok s \<Longrightarrow> fin_ok (exec (DoStart b) s)"
  using fin_ok_init by (auto simp: DoStart_def fin_ok_def tasks_ok_def missions_ok_def listeners_ok_def)

lemma fin_step_ok: "fin_step s s' \<Longrightarrow> fin_ok s \<Longrightarrow> fin_ok s'"
proof (induction rule: fin_step.induct)
  case (do_start s b)
  then show ?case by (rule fin_ok_DoStart)
next
  case (installed s env info i want rc r)
  then show ?case
    unfolding OnInstallFinished_def by (rule fin_ok_exec [rotated]) (rule installs_keep)
next
  case (listener_died s cbo)
  then show ?case
    unfolding EventListenerDied_def by (rule fin_ok_exec [rotated]) (rule events_keep)
qed (auto intro: continuation_timeout_ok installs_timeout_ok fin_ok_exec events_keep installs_keep starts_keep continue_keeps offline_keeps)

lemma fin_reachable_ok: "fin_reachable s \<Longrightarrow> fin_ok s"
  by (induction rule: fin_reachable.induct) (auto intro: fin_ok_init fin_step_ok)

text \<open>
  C25: After any sequence of operations and time-outs of the service the tables of pending work are well-formed: the entry of a free install is
  filed under its own positive number, has a callback when an application waits for it, and has exactly one time-out, and there is
  no time-out without an entry; a mission that is continued has a device, and a time-out when its number is positive; a mission
  is marked for free install only while it is continued; and no listener is registered twice.
\<close>

theorem pending_tables_wellformed: "fin_reachable s \<Longrightarrow> fin_ok s"
  by (rule fin_reachable_ok)

end
