(* ===== verification/Install_Behaviour.thy ===== *)
theory Install_Behaviour
  imports Install_Safety
begin

text \<open>
  What becomes of pending work: a continuation whose result does not come is told so, a free install is answered once, whether by
  the other device, by a time-out or because the device is lost; and three places where something is left behind.
\<close>

subsection \<open>Continuations\<close>

lemma timers_gone: "i \<notin> fst ` set (filter (\<lambda>(j, _). j \<noteq> i) ts)"
  by auto

lemma mission_result:
  assumes "missions_ok s" "smap_find (fcCallbacks s) i = Some cb" "parcelWrites (fsvc env)" "started s" "r \<noteq> ERR_OK"
    and "s' = exec (NotifyContinuationCallbackResult_first env i r) s"
  shows "finCalls s' = finCalls s @ [TellMission cb r] \<and> \<not> IsInContinuationProgress i s' \<and> i \<notin> fst ` set (fcTimers s')"
proof -
  have "s' = (exec (RemoveTimeOut i) (exec (PopCallback_first i) s))
      \<lparr>finCalls := finCalls (exec (RemoveTimeOut i) (exec (PopCallback_first i) s)) @ [TellMission cb r]\<rparr>"
    using assms(2-6) by (simp add: NotifyContinuationCallbackResult_first_def IsInContinuationProgress_def exec_NotifyMissionCenterResult Let_def)
  moreover have "smap_ok (fcCallbacks s)"
    using assms(1) by (simp add: missions_ok_def)
  ultimately show ?thesis
    using assms(2) by (auto simp: exec_PopCallback_first RemoveTimeOut_def IsInContinuationProgress_def sm.find_del timers_left)
qed


subsection \<open>Free installs\<close>

lemma exec_install_answer:
  assumes "smap_find (ctItems s) i = Some item" "itemLaunch item = FREEINSTALL_START" "itemCallback item = Some cb" "started s" "0 < i"
    and "parcelWrites (fsvc env)"
  shows "exec (NotifyCompleteFreeInstallFromRemote env i r) s =
    s\<lparr>ctTimers := filter (\<lambda>(j, _). j \<noteq> i) (ctTimers s), ctItems := smap_erase i (ctItems s),
      finCalls := finCalls s @ [TellInstall cb r (itemWant item)]\<rparr>"
  using assms by (simp add: NotifyCompleteFreeInstallFromRemote_def GetLaunchType_def exec_PopCallback_task NotifyFreeInstallResult_def Let_def)

text \<open>What a lost device makes the service say: one message for each task of the device with a callback, in the order of the tasks.\<close>

definition offline_messages :: "string \<Rightarrow> (int, 'w callback_item) smap \<Rightarrow> 'w fin_call list" where
  "offline_messages dev items =
     concat (map (\<lambda>(i, item). case itemCallback item of None \<Rightarrow> [] | Some cb \<Rightarrow> [TellInstall cb DEVICE_OFFLINE_ERR (itemWant item)])
       (filter (\<lambda>(i, item). itemDevice item = dev) items))"

lemma offline_tasks_spec:
  assumes "distinct (map fst (pre @ rest))" "ctItems s = filter (\<lambda>(i, item). itemDevice item \<noteq> dev) pre @ rest" "parcelWrites (fsvc env)"
    and "s' = exec (offline_tasks env dev rest) s"
  shows "ctItems s' = filter (\<lambda>(i, item). itemDevice item \<noteq> dev) (pre @ rest) \<and> finCalls s' = finCalls s @ offline_messages dev rest \<and>
    ctMissions s' = ctMissions s \<and> fcCallbacks s' = fcCallbacks s"
  using assms
proof (induction rest arbitrary: pre s)
  case Nil
  then show ?case
    by (simp add: offline_messages_def)
next
  case (Cons x rest)
  obtain i item where x: "x = (i, item)"
    by (cases x)
  show ?case
  proof (cases "itemDevice item = dev")
    case True
    let ?m = "case itemCallback item of None \<Rightarrow> [] | Some cb \<Rightarrow> [TellInstall cb DEVICE_OFFLINE_ERR (itemWant item)]"
    let ?v = "s\<lparr>ctTimers := filter (\<lambda>(j, _). j \<noteq> itemTaskId item) (ctTimers s), finCalls := finCalls s @ ?m, ctItems := smap_erase i (ctItems s)\<rparr>"
    have s': "s' = exec (offline_tasks env dev rest) ?v"
      using True Cons.prems(3,4) by (simp add: x RemoveTaskEvent_def NotifyFreeInstallResult_def split: option.split)
    have "ctItems ?v = filter (\<lambda>(i, item). itemDevice item \<noteq> dev) (pre @ [x]) @ rest"
      using True Cons.prems(1,2) by (simp add: x smap_erase_mid)
    moreover have "distinct (map fst ((pre @ [x]) @ rest))"
      using Cons.prems(1) by simp
    ultimately show ?thesis
      using Cons.IH [of "pre @ [x]" ?v] Cons.prems(3) s' True by (simp add: x offline_messages_def)
  next
    case False
    with Cons.prems Cons.IH [of "pre @ [x]" s] show ?thesis
      by (simp add: x offline_messages_def)
  qed
qed

lemma offline_spec:
  assumes "tasks_ok s" "parcelWrites (fsvc env)" "started s" "s' = exec (ProcessFreeInstallOffline env dev) s"
  shows "ctItems s' = filter (\<lambda>(i, item). itemDevice item \<noteq> dev) (ctItems s) \<and> finCalls s' = finCalls s @ offline_messages dev (ctItems s) \<and>
    ctMissions s' = ctMissions s \<and> fcCallbacks s' = fcCallbacks s"
proof -
  have "distinct (map fst (ctItems s))"
    using assms(1) by (simp add: tasks_ok_def smap_ok_distinct)
  with offline_tasks_spec [of "[]" "ctItems s" s dev env s'] assms show ?thesis
    by (simp add: ProcessFreeInstallOffline_def NotifyDeviceOffline_task_def)
qed


subsection \<open>What is left behind\<close>

text \<open>
  A continuation that waits for a free install has no callback of its own in the entry of the install; when the device is lost, the entry is
  taken away, but nobody is told, the mission stays filed for the install, and an answer that still comes is refused without telling
  the continuation.
\<close>

theorem lost_device_forgets_continuation:
  assumes "fin_reachable s" "started s" "smap_find (ctItems s) i = Some item" "itemLaunch item = FREEINSTALL_CONTINUE" "itemCallback item = None"
    and "smap_find (ctMissions s) i = Some m" "parcelWrites (fsvc env)" "\<And>j it. smap_find (ctItems s) j = Some it \<Longrightarrow> itemDevice it = itemDevice item \<Longrightarrow> j = i"
    and "s' = exec (ProcessFreeInstallOffline env (itemDevice item)) s"
  shows "finCalls s' = finCalls s \<and> smap_find (ctItems s') i = None \<and> smap_find (ctMissions s') i = Some m \<and> fcCallbacks s' = fcCallbacks s \<and>
    exec (NotifyCompleteFreeInstallFromRemote env i r) s' = s'"
proof -
  have ok: "tasks_ok s"
    using fin_reachable_ok [OF assms(1)] by (simp add: fin_ok_def)
  then have maps: "smap_ok (ctItems s)"
    by (simp add: tasks_ok_def)
  note spec = offline_spec [OF ok assms(7,2,9)]
  have none: "itemCallback it = None" if "(j, it) \<in> set (ctItems s)" "itemDevice it = itemDevice item" for j it
    using that assms(3,5,8) maps by (auto simp: smap_mem_find)
  have "offline_messages (itemDevice item) (ctItems s) = []"
    by (auto simp: offline_messages_def split: option.split dest: none)
  moreover have gone: "smap_find (ctItems s') i = None"
  proof (cases "smap_find (ctItems s') i")
    case (Some it)
    then have "(i, it) \<in> set (ctItems s)" "itemDevice it \<noteq> itemDevice item"
      using spec smap_find_mem by fastforce+
    then show ?thesis
      using assms(3) maps by (simp add: smap_mem_find)
  qed
  moreover have "exec (NotifyCompleteFreeInstallFromRemote env i r) s' = s'"
    using gone by (simp add: NotifyCompleteFreeInstallFromRemote_def GetLaunchType_def exec_PopCallback_task NotifyFreeInstallResult_def Let_def)
  ultimately show ?thesis
    using spec assms(6) by simp
qed

text \<open>
  A listener that has registered for collaborations only stays registered when its process dies: the service looks for it among the
  listeners of continuations first and stops when it is not there.
\<close>

theorem dead_collab_listener_stays:
  assumes "cb \<in> set (collabListeners s)" "cb \<notin> set (fcListeners s)"
  shows "exec (EventListenerDied (Some cb)) s = s"
  using assms by (simp add: EventListenerDied_def UnRegisterDSchedEventListener_def CleanupListener_def)

text \<open>
  The flag that tells whether the source ends after a continuation is set once: when a mission was continued without a callback in the service,
  the flag is not removed at the end, and the wish of a later continuation of the mission is ignored.
\<close>

theorem clean_flag_stays:
  assumes "started s" "\<not> IsInContinuationProgress i s" "smap_ok (fcClean s)"
    and "s1 = exec (SetCleanMissionFlag_svc env want1 i) s" "s2 = exec (NotifyContinuationCallbackResult_first env i r) s1"
  shows "IsCleanMission i (exec (SetCleanMissionFlag_svc env want2 i) s2) = IsCleanMission i s1"
proof -
  have "fcClean s2 = fcClean s1" "started s2" "smap_ok (fcClean s1)" "smap_find (fcClean s1) i \<noteq> None"
    using assms by (simp_all add: SetCleanMissionFlag_svc_def SetCleanMissionFlag_first_def NotifyContinuationCallbackResult_first_def
        IsInContinuationProgress_def RemoveTimeOut_def sm.ok_ins sm.find_ins)
  then show ?thesis
    by (auto simp: SetCleanMissionFlag_svc_def SetCleanMissionFlag_first_def IsCleanMission_def sm.find_ins)
qed

end
