(* ===== verification/Listener_Messages.thy ===== *)
theory Listener_Messages
  imports Service_Continue Parcel
begin

text \<open>
  The messages about events: what \<^verbatim>\<open>DSchedContinuation\<close> and \<^verbatim>\<open>DSchedCollaborationCallbackMgr\<close> write for a listener, and how the listener of the
  application reads it (\<^verbatim>\<open>interfaces/innerkits/distributed_event/src/dms_listener_stub.cpp\<close>). The parcels are those of \<open>Parcel\<close>.
\<close>

abbreviation GET_REMOTE_DMS_FAIL :: ret where "GET_REMOTE_DMS_FAIL \<equiv> 29360174"

definition DSCHED_EVENT_TOKEN :: string where "DSCHED_EVENT_TOKEN = ''ohos.distributedSchedule.dschedeventlistener''"

fun event_state_code :: "dsched_event_state \<Rightarrow> int" where
  "event_state_code DMS_DSCHED_EVENT_INIT = 0"
| "event_state_code DMS_DSCHED_EVENT_START = 1"
| "event_state_code DMS_DSCHED_EVENT_PROCESSING = 2"
| "event_state_code DMS_DSCHED_EVENT_STOP = 3"
| "event_state_code DMS_DSCHED_EVENT_FINISH = 4"

fun event_type_code :: "dsched_event_type \<Rightarrow> int" where
  "event_type_code DMS_UNKNOW = -1"
| "event_type_code DMS_CONTINUE = 0"
| "event_type_code DMS_COLLABORATION = 1"
| "event_type_code DMS_ALL = 2"

subsection \<open>Writing\<close>

text \<open>A sequence of writes that ends at the first that fails.\<close>

fun write_all :: "('pc, bool) state list \<Rightarrow> ('pc, bool) state" where
  "write_all [] = mreturn True"
| "write_all (w # ws) = do { ok \<leftarrow> w; if ok then write_all ws else mreturn False }"

definition write_event_head :: "'pc parcel_lib \<Rightarrow> int \<Rightarrow> event_notify \<Rightarrow> ('pc, bool) state list" where
  "write_event_head lib r e =
     [writeInterfaceToken lib DSCHED_EVENT_TOKEN, writeInt32 lib r, writeString lib (srcNetworkId e), writeString lib (dstNetworkId e),
      writeString lib (srcBundleName e), writeString lib (srcModuleName e), writeString lib (srcAbilityName e),
      writeString lib (destBundleName e), writeString lib (destModuleName e), writeString lib (destAbilityName e)]"

definition WriteContinueEvent :: "'pc parcel_lib \<Rightarrow> int \<Rightarrow> event_notify \<Rightarrow> dsched_event_type \<Rightarrow> ('pc, bool) state" where
  "WriteContinueEvent lib r e ty =
     write_all (write_event_head lib r e @
       [writeString lib (developerId e), writeInt32 lib (event_type_code ty), writeInt32 lib (event_state_code (eventState e))])"

definition WriteCollabEvent :: "'pc parcel_lib \<Rightarrow> event_notify \<Rightarrow> dsched_event_type \<Rightarrow> ('pc, bool) state" where
  "WriteCollabEvent lib e ty =
     write_all (write_event_head lib (eventResult e) e @
       [writeInt32 lib (event_type_code ty), writeInt32 lib (event_state_code (eventState e))])"

subsection \<open>Reading\<close>

record heard_event =
  heardResult :: int
  heardSrcNetwork :: string
  heardDstNetwork :: string
  heardSrcBundle :: string
  heardSrcModule :: string
  heardSrcAbility :: string
  heardDestBundle :: string
  heardDestModule :: string
  heardDestAbility :: string
  heardDeveloper :: string
  heardType :: int
  heardState :: int

definition readString_or_empty :: "'pc parcel_lib \<Rightarrow> ('pc, string) state" where
  "readString_or_empty lib = do { v \<leftarrow> readString lib; mreturn (case v of None \<Rightarrow> [] | Some s \<Rightarrow> s) }"

text \<open>The reads of \<^verbatim>\<open>DSchedEventNotifyInner\<close> up to the names, and the rest.\<close>

definition read_event_head :: "'pc parcel_lib \<Rightarrow> ('pc, heard_event) state" where
  "read_event_head lib = do {
     r \<leftarrow> readInt32_or_0 lib;
     srcNet \<leftarrow> readString_or_empty lib;
     dstNet \<leftarrow> readString_or_empty lib;
     srcB \<leftarrow> readString_or_empty lib;
     srcM \<leftarrow> readString_or_empty lib;
     srcA \<leftarrow> readString_or_empty lib;
     dstB \<leftarrow> readString_or_empty lib;
     dstM \<leftarrow> readString_or_empty lib;
     dstA \<leftarrow> readString_or_empty lib;
     mreturn \<lparr>heardResult = r, heardSrcNetwork = srcNet, heardDstNetwork = dstNet, heardSrcBundle = srcB, heardSrcModule = srcM,
       heardSrcAbility = srcA, heardDestBundle = dstB, heardDestModule = dstM, heardDestAbility = dstA, heardDeveloper = [],
       heardType = -1, heardState = 0\<rparr>
   }"

definition DSchedEventNotifyInner :: "'pc parcel_lib \<Rightarrow> ('pc, heard_event) state" where
  "DSchedEventNotifyInner lib = do {
     h \<leftarrow> read_event_head lib;
     dev \<leftarrow> readString_or_empty lib;
     ty \<leftarrow> readInt32_or_0 lib;
     st \<leftarrow> readInt32_or_0 lib;
     mreturn (h\<lparr>heardDeveloper := dev, heardType := ty, heardState := st\<rparr>)
   }"

text \<open>\<^verbatim>\<open>OnRemoteRequest\<close> for the code of the callback; the left side is the error it returns.\<close>

definition ListenerOnRemoteRequest :: "'pc parcel_lib \<Rightarrow> ('pc, ret + heard_event) state" where
  "ListenerOnRemoteRequest lib = do {
     t \<leftarrow> readInterfaceToken lib;
     if t \<noteq> Some DSCHED_EVENT_TOKEN then mreturn (Inl GET_REMOTE_DMS_FAIL)
     else do { h \<leftarrow> DSchedEventNotifyInner lib; mreturn (Inr h) }
   }"

definition heard_of :: "int \<Rightarrow> event_notify \<Rightarrow> dsched_event_type \<Rightarrow> heard_event" where
  "heard_of r e ty =
     \<lparr>heardResult = r, heardSrcNetwork = srcNetworkId e, heardDstNetwork = dstNetworkId e, heardSrcBundle = srcBundleName e,
      heardSrcModule = srcModuleName e, heardSrcAbility = srcAbilityName e, heardDestBundle = destBundleName e, heardDestModule = destModuleName e,
      heardDestAbility = destAbilityName e, heardDeveloper = developerId e, heardType = event_type_code ty,
      heardState = event_state_code (eventState e)\<rparr>"

subsection \<open>Events reach the listener\<close>

definition head_items :: "event_notify \<Rightarrow> parcel_item list" where
  "head_items e = map PText [srcNetworkId e, dstNetworkId e, srcBundleName e, srcModuleName e, srcAbilityName e, destBundleName e,
     destModuleName e, destAbilityName e]"

lemma writes_all:
  assumes "parcel_spec lib room holds" "list_all2 (\<lambda>w x. writes room holds w [x]) ws xs"
  shows "writes room holds (write_all ws) xs"
  using assms(2)
proof (induction rule: list_all2_induct)
  case (Cons w ws x xs)
  then show ?case
    using writes_step [OF assms(1), of w x "\<lambda>ok. if ok then write_all ws else mreturn False" xs] by simp
qed (simp add: writes_nil)

lemma event_written:
  assumes "parcel_spec lib room holds"
  shows "writes room holds (WriteContinueEvent lib r e ty)
      (PToken DSCHED_EVENT_TOKEN # PInt r # head_items e @ [PText (developerId e), PInt (event_type_code ty), PInt (event_state_code (eventState e))])"
    "writes room holds (WriteCollabEvent lib e ty)
      (PToken DSCHED_EVENT_TOKEN # PInt (eventResult e) # head_items e @ [PInt (event_type_code ty), PInt (event_state_code (eventState e))])"
  unfolding WriteContinueEvent_def WriteCollabEvent_def
  by (rule writes_all [OF assms]; simp add: write_event_head_def head_items_def parcel_writes [OF assms])+

lemma reads_string_or_empty: "parcel_spec lib room holds \<Longrightarrow> reads holds (readString_or_empty lib) [PText s] s"
  unfolding readString_or_empty_def by (rule reads_step [OF parcel_reads(3)]) (simp_all add: reads_return)

lemma head_read:
  assumes "parcel_spec lib room holds"
  shows "reads holds (read_event_head lib) (PInt r # head_items e) (heard_of r e ty\<lparr>heardDeveloper := [], heardType := -1, heardState := 0\<rparr>)"
  unfolding read_event_head_def head_items_def list.map heard_of_def
  by (rule reads_step [OF reads_int32_or_0 [OF assms]] reads_step [OF reads_string_or_empty [OF assms]])+ (simp add: reads_return)

lemma event_read:
  assumes "parcel_spec lib room holds"
  shows "reads holds (DSchedEventNotifyInner lib)
    ((PInt r # head_items e) @ [PText (developerId e), PInt (event_type_code ty), PInt (event_state_code (eventState e))]) (heard_of r e ty)"
  unfolding DSchedEventNotifyInner_def
  by (rule reads_bind [OF head_read [OF assms, of r e ty]],
      (rule reads_step [OF reads_int32_or_0 [OF assms]] reads_step [OF reads_string_or_empty [OF assms]])+)
    (simp add: reads_return heard_of_def)

text \<open>
  C40: The message about an event of a continuation tells the listener in the application the result and every member of the event, as they were
  sent, whatever the event is.
\<close>

theorem continuation_event_heard:
  assumes "parcel_spec lib room holds"
    and "room (PToken DSCHED_EVENT_TOKEN # PInt r # head_items e @ [PText (developerId e), PInt (event_type_code ty), PInt (event_state_code (eventState e))])"
  shows "outcome (WriteContinueEvent lib r e ty) (emptyParcel lib) \<and>
    outcome (ListenerOnRemoteRequest lib) (exec (WriteContinueEvent lib r e ty) (emptyParcel lib)) = Inr (heard_of r e ty)"
proof -
  let ?xs = "PInt r # head_items e @ [PText (developerId e), PInt (event_type_code ty), PInt (event_state_code (eventState e))]"
  have "holds (emptyParcel lib) []"
    using assms(1) by (simp add: parcel_spec_def)
  then have sent: "outcome (WriteContinueEvent lib r e ty) (emptyParcel lib)"
    "holds (exec (WriteContinueEvent lib r e ty) (emptyParcel lib)) (PToken DSCHED_EVENT_TOKEN # ?xs)"
    using writesD [OF event_written(1) [OF assms(1), of r e ty], of "emptyParcel lib" "[]"] assms(2) by simp_all
  have "reads holds (ListenerOnRemoteRequest lib) (PToken DSCHED_EVENT_TOKEN # ?xs @ []) (Inr (heard_of r e ty))"
    unfolding ListenerOnRemoteRequest_def
    by (rule reads_step [OF parcel_reads(1) [OF assms(1)]])
      (use reads_bind [OF event_read [OF assms(1), of r e ty], of "\<lambda>h. mreturn (Inr h)" "[]" "Inr (heard_of r e ty)"] in \<open>simp add: reads_return\<close>)
  then show ?thesis
    using sent readsD_all by fastforce
qed

text \<open>
  The message about an event of a collaboration lacks the developer: when the listener has read the names, the type and the state are left, and the
  next thing it reads is a text.
\<close>

theorem collaboration_event_misread:
  assumes "parcel_spec lib room holds"
    and "room (PToken DSCHED_EVENT_TOKEN # PInt (eventResult e) # head_items e @ [PInt (event_type_code ty), PInt (event_state_code (eventState e))])"
    and "p = exec (WriteCollabEvent lib e ty) (emptyParcel lib)"
  shows "holds (exec (read_event_head lib) (exec (readInterfaceToken lib) p)) [PInt (event_type_code ty), PInt (event_state_code (eventState e))] \<and>
    DSchedEventNotifyInner lib = do {
      h \<leftarrow> read_event_head lib;
      dev \<leftarrow> readString_or_empty lib;
      ty \<leftarrow> readInt32_or_0 lib;
      st \<leftarrow> readInt32_or_0 lib;
      mreturn (h\<lparr>heardDeveloper := dev, heardType := ty, heardState := st\<rparr>)
    }"
proof -
  let ?xs = "[PInt (event_type_code ty), PInt (event_state_code (eventState e))]"
  have "holds (emptyParcel lib) []"
    using assms(1) by (simp add: parcel_spec_def)
  then have "holds p ([PToken DSCHED_EVENT_TOKEN] @ PInt (eventResult e) # head_items e @ ?xs)"
    using writesD [OF event_written(2) [OF assms(1), of e ty], of "emptyParcel lib" "[]"] assms(2,3) by simp
  from readsD [OF parcel_reads(1) [OF assms(1)] this]
  have "holds (exec (readInterfaceToken lib) p) ((PInt (eventResult e) # head_items e) @ ?xs)"
    by simp
  from readsD [OF head_read [OF assms(1), of "eventResult e" e ty] this] show ?thesis
    by (simp add: DSchedEventNotifyInner_def)
qed

end
