(* ===== verification/Install_Sample.thy ===== *)
theory Install_Sample
  imports Install_Behaviour Listener_Messages Service_Sample
begin

text \<open>
  Pending continuations, free installs and listeners on the devices of \<open>Service_Sample\<close>, and the theorems about them applied there.
\<close>

definition sample_fin_env :: "string \<Rightarrow> sample_want fin_env" where
  "sample_fin_env dev =
     \<lparr>fsvc = sample_svc_env dev, finAnswer = (\<lambda>_. ERR_OK), eventSent = True, vwSetParams = (\<lambda>p w. w), vwContinuationFlag = (\<lambda>_. False),
      vwRemoveInstallFlag = (\<lambda>w. w), vwBundle = swBundle, vwSourceExit = (\<lambda>_. None), vwSetDeviceId = (\<lambda>d w. w\<lparr>swDevice := d\<rparr>),
      remoteVersionLower = (\<lambda>_. True), missionOf = (\<lambda>_. (ERR_OK, sample_call_want, True)), continueConfigured = (\<lambda>_. True),
      remoteBundleOf = (\<lambda>_ _. (ERR_OK, 1)), canInstall = (\<lambda>_ _. True), finKnownDevice = (\<lambda>_. True), missionManagerPart = True,
      sendMgrPresent = True, bundleMission = (\<lambda>_. (ERR_OK, 7)), localVersion = (\<lambda>_. (ERR_OK, 1)), saveDuration = [],
      FREE_INSTALL_TIMEOUT = 9, AMS_INVALID_VALUE = 22\<rparr>"

definition sample_fin_started :: "sample_want fin" where
  "sample_fin_started = exec (DoStart True) fin_init"

definition sample_installing :: "sample_want fin" where
  "sample_installing = exec (StartRemoteFreeInstall (sample_fin_env ''A'') sample_call_want 20010001 0 5 (Some (Connect 3))) sample_fin_started"

definition sample_item :: "sample_want callback_item" where
  "sample_item = \<lparr>itemCallback = Some (Connect 3), itemTaskId = 1, itemLaunch = FREEINSTALL_START, itemDevice = ''B'', itemWant = sample_call_want\<rparr>"

definition sample_continuing :: "sample_want fin" where
  "sample_continuing = exec (ContinueMission_first (sample_fin_env ''A'') ''A'' ''B'' 7 (Some (Connect 4)) sample_empty_want) sample_fin_started"

lemma sample_fin_facts:
  "fsvc (sample_fin_env dev) = sample_svc_env dev" "eventSent (sample_fin_env dev)" "finAnswer (sample_fin_env dev) c = ERR_OK"
  "\<not> vwContinuationFlag (sample_fin_env dev) w" "remoteVersionLower (sample_fin_env dev) d" "finKnownDevice (sample_fin_env dev) d"
  "AMS_INVALID_VALUE (sample_fin_env dev) = 22" "parcelWrites (fsvc (sample_fin_env dev))" "continueSwitchOn (sample_svc_env dev)"
  by (simp_all add: sample_fin_env_def sample_svc_env_def)

lemma sample_fin_started_tables:
  "started sample_fin_started" "ctItems sample_fin_started = []" "ctTimers sample_fin_started = []" "ctNext sample_fin_started = 1"
  "fcCallbacks sample_fin_started = []" "fcTimers sample_fin_started = []" "fcDevices sample_fin_started = []" "fcFree sample_fin_started = []"
  "finCalls sample_fin_started = []"
  by (simp_all add: sample_fin_started_def DoStart_def fin_init_def)

lemma sample_install_run:
  "ctItems sample_installing = [(1, sample_item)]" "ctTimers sample_installing = [(1, CALLBACK_DELAY_TIME)]" "started sample_installing"
proof -
  obtain caller where "SetCallerInfo (sample_fin_env ''A'') 20010001 ''A'' 5 = Some caller"
    by (simp add: SetCallerInfo_def caller_from_bms_def sample_fin_facts sample_svc_facts sample_caller_simps)
  then have run: "sample_installing = sample_fin_started\<lparr>ctNext := 2, ctTimers := [(1, CALLBACK_DELAY_TIME)], ctItems := [(1, sample_item)],
      finCalls := [RemoteFreeInstall ''B'' \<lparr>fiWant = vwSetString sample_svc_want DMS_SRC_NETWORK_ID ''A'' sample_call_want,
        fiRequestCode = 0, fiCaller = caller, fiAccount = snd (svcAccountInfo (sample_svc_env ''A'') ''B'' caller)\<rparr> 1]\<rparr>"
    by (simp add: sample_installing_def StartRemoteFreeInstall_def sample_fin_facts sample_svc_facts sample_fin_started_tables GenerateTaskId_def
        PushCallback_task_def sample_item_def smap_insert_def Let_def split: prod.split) (simp add: sample_svc_env_def)
  show "ctItems sample_installing = [(1, sample_item)]" "ctTimers sample_installing = [(1, CALLBACK_DELAY_TIME)]" "started sample_installing"
    by (simp_all add: run sample_fin_started_tables)
qed

lemma sample_continue_run: "fcCallbacks sample_continuing = [(7, Connect 4)]" "started sample_continuing"
  by (simp_all add: sample_continuing_def ContinueMission_first_def ContinueLocalMission_def ContinueAbilityWithTimeout_def sample_fin_facts
      sample_svc_facts sample_fin_started_tables IsInContinuationProgress_def PushCallback_first_def SetContinuationTimeout_def SetTimeOut_first_def
      fc_send_event_def smap_insert_def Let_def)

lemma sample_fin_reachable: "fin_reachable sample_fin_started" "fin_reachable sample_installing" "fin_reachable sample_continuing"
proof -
  show s: "fin_reachable sample_fin_started"
    unfolding sample_fin_started_def by (rule fin_reachable.step [OF fin_reachable.init fin_step.do_start])
  show "fin_reachable sample_installing" "fin_reachable sample_continuing"
    unfolding sample_installing_def sample_continuing_def
    by (rule fin_reachable.step [OF s]; rule fin_step.free_install fin_step.continue_mission; rule sample_fin_facts)+
qed

theorem pending_tables_wellformed_witness: "fin_ok sample_installing \<and> smap_find (ctItems sample_installing) 1 = Some sample_item"
  using pending_tables_wellformed [OF sample_fin_reachable(2)] by (simp add: sample_install_run)



theorem dead_collab_listener_stays_witness:
  "exec (EventListenerDied (Some (Connect 5))) (sample_fin_started\<lparr>collabListeners := [Connect 5]\<rparr>) = sample_fin_started\<lparr>collabListeners := [Connect 5]\<rparr>"
  by (rule dead_collab_listener_stays) (simp_all add: sample_fin_started_def DoStart_def fin_init_def)

theorem continuation_event_heard_witness:
  "outcome (ListenerOnRemoteRequest (list_parcels 100)) (exec (WriteContinueEvent (list_parcels 100) 0 event_notify_default DMS_CONTINUE)
     (emptyParcel (list_parcels 100))) = Inr (heard_of 0 event_notify_default DMS_CONTINUE)"
  using continuation_event_heard [OF list_parcels_spec [of 100], of 0 event_notify_default DMS_CONTINUE] by (simp add: head_items_def)

end
