(* ===== verification/Spec2Isabelle.thy ===== *)
theory Spec2Isabelle
  imports Session_Header Softbus_Session Softbus_Adapter Collab_Transport Ordered_Map Continue_Protocol Command_Delivery
    Collab_Protocol Collab_Delivery Selection_Safety Permission_Checks Service_Sample Install_Sample
begin

text \<open>
  Verification of the distributed scheduler framework (dmsfwk): the service that moves the running
  mission of an application to another device (a \<^emph>\<open>continuation\<close>) and lets abilities on two devices work
  together (a \<^emph>\<open>collaboration\<close>). All paths below are under \<^verbatim>\<open>src/\<close>; \<^verbatim>\<open>sched\<close> stands for
  \<^verbatim>\<open>services/dtbschedmgr\<close> and \<^verbatim>\<open>collabmgr\<close> for \<^verbatim>\<open>services/dtbcollabmgr\<close>.

  \<^bold>\<open>The parts and how they interact.\<close> An application asks a manager (\<^verbatim>\<open>DSchedContinueManager\<close>,
  \<^verbatim>\<open>DSchedCollabManager\<close>) for a continuation or a collaboration. The manager checks the request, keeps one
  object per continuation or collaboration in a map, and starts its time-out. The object
  (\<^verbatim>\<open>DSchedContinue\<close>, \<^verbatim>\<open>DSchedCollab\<close>) has a queue of events and a state machine; handling an event calls the
  services of the device and sends commands to the peer device as JSON texts. The texts go through the
  transport adapter (\<^verbatim>\<open>DSchedTransportSoftbusAdapter\<close>), which counts the users of each session, and through
  its session (\<^verbatim>\<open>DSchedSoftbusSession\<close>), which cuts a buffer into packets with a header. On the peer the
  session joins the packets, the adapter calls the listeners of the data type, and the listening manager
  finds the object of the session and hands the command to it. An object that is over tells its manager,
  which erases it.

  \<^bold>\<open>Foundations.\<close>
  \<^item> \<open>Dms_Prelude\<close>: machine types, error codes, little-endian integers, general lemmas. \<open>Effects\<close>: programs
    that change a state, and the locale \<open>effect_order\<close>, which carries a reflexive and transitive bound on what a
    program changes through sequences and branches; \<open>Continue_Evolution\<close>, \<open>Continue_Checks\<close>,
    \<open>Collab_Evolution\<close> and others interpret it. \<open>Ordered_Map\<close>: \<^verbatim>\<open>std::map\<close> as an ordered association list,
    with its laws as a locale.
  \<^item> \<open>Base64\<close>: \<^verbatim>\<open>Base64Encode\<close>, \<^verbatim>\<open>Base64Decode\<close> of \<^verbatim>\<open>common/src/distributed_sched_utils.cpp\<close>; decoding
    inverts encoding.

  \<^bold>\<open>Transport.\<close>
  \<^item> \<open>Data_Buffer\<close>: the byte buffers of both transports, with reads and writes checked against their size.
  \<^item> \<open>Frame_Codec\<close>, \<open>Frag_Header\<close>, \<open>Reassembly\<close>: the locales shared by the two packet formats: tagged
    headers, cutting into packets, joining packets. \<open>Session_Header\<close> (\<^verbatim>\<open>collabmgr\<close> \<^verbatim>\<open>session_data_header.cpp\<close>)
    and \<open>Softbus_Session\<close> (\<^verbatim>\<open>sched\<close> \<^verbatim>\<open>dsched_softbus_session.cpp\<close>) interpret them. What is sent is received;
    no sequence of packets makes the receiver of the scheduler read or write out of bounds.
  \<^item> \<open>Softbus_Adapter\<close>: sessions with reference counts, listeners, the reachable states of the adapter.
  \<^item> \<open>Collab_Transport\<close>: \<^verbatim>\<open>DataSenderReceiver\<close> of the collaboration channel, which reads past its buffer in
    two cases. The send loop is a \<open>partial_function\<close>: \<open>None\<close> is a loop that never ends.

  \<^bold>\<open>Continuations.\<close>
  \<^item> \<open>Continue_Types\<close>, \<open>Continue_Object\<close>, \<open>Continue_Machine\<close>: data, every method and the eight states of
    \<^verbatim>\<open>DSchedContinue\<close>. \<open>Scene_Session\<close>: the window sessions of a quick start. \<open>Continue_Evolution\<close>,
    \<open>Continue_Safety\<close>, \<open>Continue_Checks\<close>, \<open>Continue_Liveness\<close>, \<open>Continue_Protocol\<close>: which states follow which,
    the mission callback is called at most once, abilities are only started after the checks, a failed event
    ends the continuation, and whole runs of both sides.
  \<^item> \<open>State_Callback\<close>: the quick-start callbacks the manager caches. \<open>Continue_Manager\<close>: the requests, the map
    and the time-outs of the manager. \<open>Manager_Invariant\<close>, \<open>Manager_Behaviour\<close>, \<open>Manager_System\<close>: the limits
    on concurrent continuations, removal, and the refinement of a system of independent continuations.
  \<^item> \<open>Command_Json\<close>, \<open>Command_Delivery\<close>: the texts of the commands, and a command on its whole way from the
    source's object to the sink's object.

  \<^bold>\<open>Collaborations.\<close>
  \<^item> \<open>Collab_Types\<close>, \<open>Collab_Object\<close>, \<open>Collab_Machine\<close>, \<open>Collab_Manager\<close>: data, methods, states and manager of
    \<^verbatim>\<open>sched/src/collab\<close>. \<open>Collab_Evolution\<close>, \<open>Collab_Invariant\<close>: the map is keyed by token, every object is in a
    state of its side, no null callback is used; the locale \<open>collab_contract\<close> is what the manager relies on.
  \<^item> \<open>Collab_Liveness\<close>, \<open>Collab_Protocol\<close>: collaborations end; the connection reference a source leaks.
  \<^item> \<open>Collab_Json\<close>, \<open>Collab_Delivery\<close>: the texts of the commands, and the start command on its whole way.

  \<^bold>\<open>Device selection\<close> (\<^verbatim>\<open>services/dtbabilitymgr\<close>).
  \<^item> \<open>Parcel\<close>: the items of an IPC message. \<open>Selection_Types\<close>, \<open>Device_Selection\<close>: the tables and operations of the
    service with which an application registers for a choice of device and shows the list of devices.
    \<open>Selection_Ipc\<close>: the stubs and proxies of the service and of its callbacks.
  \<^item> \<open>Selection_Calls\<close>, \<open>Selection_Safety\<close>: a call of a proxy behaves as the call of the service; a choice reaches the
    application; tokens stay unique and belong to the application that registered them.

  \<^bold>\<open>Permissions.\<close>
  \<^item> \<open>Sched_Permission\<close>: every check of \<^verbatim>\<open>sched/src/distributed_sched_permission.cpp\<close> and the checks of the service that
    call them. \<open>Permission_Checks\<close>: when exactly a start is allowed; what the checks mean for the abilities a
    continuation or a collaboration starts.

  \<^bold>\<open>The scheduler service\<close> (\<^verbatim>\<open>sched/src/distributed_sched_service.cpp\<close>).
  \<^item> \<open>Service_Types\<close>: the tables of connections, calls and observers, and the services around. \<open>Service_Connect\<close>:
    connections to abilities of other devices and for other devices. \<open>Service_Call\<close>: calls, their tokens, and the
    observers of the called abilities. \<open>Service_Start\<close>: starts, results, stops, devices that go offline, and the lists of
    components and events.
  \<^item> \<open>Connect_Safety\<close>: the counters, the sessions and the death recipients agree after any sequence of operations (the step
    relation \<open>svc_step\<close>). \<open>Connect_Behaviour\<close>: a process that dies is forgotten on both devices; requests of other
    devices are authorised; the limit two requests can pass. \<open>Call_Behaviour\<close>: tokens are unique, the state of a called
    ability reaches the caller, and a second call over the same object hides the first.

  \<^bold>\<open>Pending work of the service\<close> (\<^verbatim>\<open>distributed_sched_continuation.cpp\<close>, \<^verbatim>\<open>dms_callback_task.cpp\<close>).
  \<^item> \<open>First_Continuation\<close>: the tables of continuations of the first protocol version, of free installs and of event
    listeners. \<open>Service_Continue\<close>: the operations of the service on them, and the time-outs.
  \<^item> \<open>Install_Safety\<close>: the tables are well-formed after any run (the step relation \<open>fin_step\<close>), proved as three effect bounds.
    \<open>Install_Behaviour\<close>: a waiting mission times out, a free install is answered once, and what is left behind.
    \<open>Listener_Messages\<close>: the messages to listeners, written and read.

  \<^bold>\<open>Samples.\<close> \<open>Continue_Sample\<close>, \<open>Manager_Sample\<close>, \<open>Collab_Sample\<close>, \<open>Service_Sample\<close>, \<open>Install_Sample\<close> instantiate the parameters with
  concrete services; the witnesses of theorems with hypotheses use them.

  \<^bold>\<open>Parameters.\<close> SoftBus, the ability, bundle, account and window managers, the event runner, cJSON and the
  marshalling of wants are outside the repository or its modelled part. What they answer during one step is a record
  (\<open>softbus_env\<close>, \<open>continue_env\<close>, \<open>collab_env\<close>, \<open>json_lib\<close>, \<open>perm_env\<close>, \<open>svc_env\<close>, \<open>fin_env\<close>), an argument of the definitions; what is
  called is logged.

  \<^bold>\<open>Bounds and fuel.\<close> Packet sequence numbers, lengths and counters keep their width (\<open>u16\<close>, \<open>u32\<close>), their
  wrap-around is that of the words. The search for a fresh collaboration token runs with fuel one more than the
  number of collaborations, which \<open>token_search_ends\<close> shows to be enough. The wait for an ability is the 40 polls
  of the code, a connection the 3 attempts of the code; the 600 connections of a uid and the hundred million tokens of calls
  are the constants of the code. The other loops are structural recursions over the data they walk.

  \<^bold>\<open>Not modelled.\<close> The channel manager and the ability connection sessions of \<^verbatim>\<open>collabmgr\<close>, the audio and video
  provider (media pipelines), the missions, the marshalling of distributed wants, the IPC stubs and proxies of the
  scheduler service (argument marshalling), the diagnostics, and the
  application interfaces (NAPI bindings). Threads are the interleaving of whole operations: what happens inside
  one lock is one step; where a lock is released between a check and an update, \<open>connection_limit_race\<close> uses the parts
  as steps; data races are outside the model.
\<close>

end
